(* ===== verification/Prelude.thy ===== *)
theory Prelude
  imports Complex_Main "HOL-Library.Char_ord" "HOL-Library.List_Lexorder" "HOL-Library.Product_Lexorder"
begin

text \<open>
  Shared vocabulary of the development: errors as values, the result type with its bind, the
  state-and-exception type of operations that commit several transactions, the JSON values that the
  scheduler reads and stores, and the list lemmas the components share.

  Python strings are HOL strings, one \<open>char\<close> per code point (so code points below 256);
  Python integers are \<open>int\<close>; a finite Python float is the rational number it denotes, with
  exact arithmetic (rounding is not modelled), and the three special floats are constructors of
  their own.
\<close>

named_theorems res_simps \<open>unfolding rules of results, effects and JSON access\<close>
named_theorems keeps_intros \<open>rules that push a step relation through an effect\<close>

section \<open>Errors and results\<close>

text \<open>
  \<open>Sched c\<close> is a \<open>SchedulerError\<close> with code \<open>c\<close> (errors.py; message, details and
  the retryable flag are dropped); \<open>PyExc c\<close> is any other Python exception of class \<open>c\<close>.
\<close>

datatype err = Sched string | PyExc string

type_synonym 'a res = "err + 'a"

fun rbind :: "'a res \<Rightarrow> ('a \<Rightarrow> 'b res) \<Rightarrow> 'b res" where
  "rbind (Inl e) f = Inl e"
| "rbind (Inr x) f = f x"

definition guard :: "bool \<Rightarrow> string \<Rightarrow> unit res" where
  "guard ok code = (if ok then Inr () else Inl (Sched code))"

lemma rbind_Inr_iff [simp]: "rbind m f = Inr y \<longleftrightarrow> (\<exists>x. m = Inr x \<and> f x = Inr y)"
  by (cases m) auto

lemma rbind_Inl_iff: "rbind m f = Inl e \<longleftrightarrow> m = Inl e \<or> (\<exists>x. m = Inr x \<and> f x = Inl e)"
  by (cases m) auto

lemma rbind_assoc: "rbind (rbind m f) g = rbind m (\<lambda>x. rbind (f x) g)"
  by (cases m) auto

lemma guard_Inr [simp]: "guard ok c = Inr u \<longleftrightarrow> ok"
  by (simp add: guard_def)

lemma guard_Inl [simp]: "guard ok c = Inl e \<longleftrightarrow> \<not> ok \<and> e = Sched c"
  by (auto simp: guard_def)

lemma guard_True [simp]: "guard True c = Inr ()"
  by (simp add: guard_def)

lemma guard_False [simp]: "guard False c = Inl (Sched c)"
  by (simp add: guard_def)

text \<open>A list comprehension whose body may raise stops at the first error.\<close>

fun rmap :: "('a \<Rightarrow> 'b res) \<Rightarrow> 'a list \<Rightarrow> 'b list res" where
  "rmap f [] = Inr []"
| "rmap f (x # xs) = rbind (f x) (\<lambda>y. rbind (rmap f xs) (\<lambda>ys. Inr (y # ys)))"

lemma rmap_Inr_length: "rmap f xs = Inr ys \<Longrightarrow> length ys = length xs"
  by (induction xs arbitrary: ys) auto

lemma rmap_Inr_iff: "rmap f xs = Inr ys \<longleftrightarrow> list_all2 (\<lambda>x y. f x = Inr y) xs ys"
  by (induction xs arbitrary: ys) (auto simp: list_all2_Cons1)

lemma rmap_map_inverse: "(\<And>x. x \<in> set xs \<Longrightarrow> f (g x) = Inr x) \<Longrightarrow> rmap f (map g xs) = Inr xs"
  by (induction xs) auto

text \<open>Two lists of equal length, taken from the end.\<close>

lemma rev_induct2 [case_names 1 2 3 4]:
  assumes "P [] []" and "\<And>x xs. P (xs @ [x]) []" and "\<And>y ys. P [] (ys @ [y])"
    and "\<And>x xs y ys. P xs ys \<Longrightarrow> P (xs @ [x]) (ys @ [y])"
  shows "P xs ys"
proof (induction xs arbitrary: ys rule: rev_induct)
  case Nil
  show ?case by (cases ys rule: rev_cases) (use assms in auto)
next
  case (snoc x xs)
  then show ?case by (cases ys rule: rev_cases) (use assms in auto)
qed

section \<open>State with exceptions\<close>

text \<open>
  An operation that commits state before it raises keeps the state it reached: the result is
  paired with the state. \<open>transact\<close> runs the body of one SQLite transaction (\<open>Store.transaction\<close>
  in store.py): the body is a result-valued function, so an exception discards its changes,
  exactly the ROLLBACK.
\<close>

type_synonym ('s, 'a) eff = "'s \<Rightarrow> 'a res \<times> 's"

definition eret :: "'a \<Rightarrow> ('s, 'a) eff" where
  "eret x s = (Inr x, s)"

definition eraise :: "err \<Rightarrow> ('s, 'a) eff" where
  "eraise e s = (Inl e, s)"

definition ebind :: "('s, 'a) eff \<Rightarrow> ('a \<Rightarrow> ('s, 'b) eff) \<Rightarrow> ('s, 'b) eff" where
  "ebind m f s = (case m s of (Inl e, s') \<Rightarrow> (Inl e, s') | (Inr x, s') \<Rightarrow> f x s')"

definition ecatch :: "('s, 'a) eff \<Rightarrow> (err \<Rightarrow> ('s, 'a) eff) \<Rightarrow> ('s, 'a) eff" where
  "ecatch m h s = (case m s of (Inl e, s') \<Rightarrow> h e s' | (Inr x, s') \<Rightarrow> (Inr x, s'))"

definition elift :: "'a res \<Rightarrow> ('s, 'a) eff" where
  "elift r s = (r, s)"

definition eread :: "('s \<Rightarrow> 'a res) \<Rightarrow> ('s, 'a) eff" where
  "eread f s = (f s, s)"

definition transact :: "('s \<Rightarrow> ('a \<times> 's) res) \<Rightarrow> ('s, 'a) eff" where
  "transact body s = (case body s of Inl e \<Rightarrow> (Inl e, s) | Inr (x, s') \<Rightarrow> (Inr x, s'))"

abbreviation ethen :: "('s, unit) eff \<Rightarrow> ('s, 'b) eff \<Rightarrow> ('s, 'b) eff" where
  "ethen m k \<equiv> ebind m (\<lambda>_. k)"

definition eguard :: "bool \<Rightarrow> string \<Rightarrow> ('s, unit) eff" where
  "eguard ok code = (if ok then eret () else eraise (Sched code))"

text \<open>\<open>for x in xs: f(x)\<close>.\<close>

fun eforeach :: "('a \<Rightarrow> ('s, unit) eff) \<Rightarrow> 'a list \<Rightarrow> ('s, unit) eff" where
  "eforeach f [] = eret ()"
| "eforeach f (x # xs) = ethen (f x) (eforeach f xs)"

lemmas eff_defs = eret_def eraise_def ebind_def ecatch_def elift_def eread_def transact_def eguard_def

lemma transact_error_keeps: "fst (transact body s) = Inl e \<Longrightarrow> snd (transact body s) = s"
  by (auto simp: transact_def split: sum.splits prod.splits)

subsection \<open>Step relations\<close>

text \<open>
  Many properties of the coordinators have the form "whatever this operation does, and wherever
  it fails, the state after it is related to the state before it": terminal states are never
  left, revisions never decrease, other tables are untouched. The locale fixes such a relation;
  its lemmas carry the relation through sequencing, exception handling and loops, so that an
  operation is covered by one application of the collection \<open>keeps_intros\<close>.
\<close>

locale step_rel =
  fixes R :: "'s \<Rightarrow> 's \<Rightarrow> bool"
    and K :: "'s \<Rightarrow> bool"
  assumes refl: "R s s"
    and trans: "R s t \<Longrightarrow> R t u \<Longrightarrow> R s u"
    and K_step: "K s \<Longrightarrow> R s t \<Longrightarrow> K t"
begin

definition keeps :: "('s, 'a) eff \<Rightarrow> bool" where
  "keeps m \<longleftrightarrow> (\<forall>s. K s \<longrightarrow> R s (snd (m s)))"

text \<open>What the value of a successful run satisfies.\<close>

definition yields :: "('s, 'a) eff \<Rightarrow> ('a \<Rightarrow> bool) \<Rightarrow> bool" where
  "yields m Q \<longleftrightarrow> (\<forall>s x. K s \<longrightarrow> fst (m s) = Inr x \<longrightarrow> Q x)"

lemma keepsI: "(\<And>s. K s \<Longrightarrow> R s (snd (m s))) \<Longrightarrow> keeps m"
  by (simp add: keeps_def)

lemma keepsD: "keeps m \<Longrightarrow> K s \<Longrightarrow> R s (snd (m s))"
  by (simp add: keeps_def)

lemma yieldsI: "(\<And>s x. K s \<Longrightarrow> fst (m s) = Inr x \<Longrightarrow> Q x) \<Longrightarrow> yields m Q"
  by (simp add: yields_def)

lemma yieldsD: "yields m Q \<Longrightarrow> K s \<Longrightarrow> fst (m s) = Inr x \<Longrightarrow> Q x"
  by (simp add: yields_def)

lemma yields_True: "yields m (\<lambda>_. True)"
  by (simp add: yields_def)

lemma keeps_eret [keeps_intros]: "keeps (eret x)"
  by (simp add: keeps_def eret_def refl)

lemma keeps_eraise [keeps_intros]: "keeps (eraise e)"
  by (simp add: keeps_def eraise_def refl)

lemma keeps_elift [keeps_intros]: "keeps (elift r)"
  by (simp add: keeps_def elift_def refl)

lemma keeps_eread [keeps_intros]: "keeps (eread f)"
  by (simp add: keeps_def eread_def refl)

lemma keeps_eguard [keeps_intros]: "keeps (eguard ok c)"
  by (simp add: eguard_def keeps_eret keeps_eraise)

lemma keeps_ebind_yields:
  assumes "keeps m" and "yields m Q" and "\<And>x. Q x \<Longrightarrow> keeps (f x)"
  shows "keeps (ebind m f)"
proof (rule keepsI)
  fix s assume s: "K s"
  have 1: "R s (snd (m s))" "K (snd (m s))"
    using keepsD [OF assms(1) s] K_step [OF s] by auto
  show "R s (snd (ebind m f s))"
  proof (cases "fst (m s)")
    case (Inl e)
    with 1 show ?thesis by (simp add: ebind_def prod.case_eq_if)
  next
    case (Inr x)
    moreover have "R (snd (m s)) (snd (f x (snd (m s))))"
      using keepsD [OF assms(3) 1(2)] yieldsD [OF assms(2) s Inr] by blast
    ultimately show ?thesis
      using trans [OF 1(1)] by (simp add: ebind_def prod.case_eq_if)
  qed
qed

lemma keeps_ebind [keeps_intros]: "keeps m \<Longrightarrow> (\<And>x. keeps (f x)) \<Longrightarrow> keeps (ebind m f)"
  using keeps_ebind_yields [OF _ yields_True] by blast

lemma keeps_ecatch [keeps_intros]:
  assumes "keeps m" and "\<And>e. keeps (h e)"
  shows "keeps (ecatch m h)"
proof (rule keepsI)
  fix s assume s: "K s"
  have 1: "R s (snd (m s))" "K (snd (m s))"
    using keepsD [OF assms(1) s] K_step [OF s] by auto
  show "R s (snd (ecatch m h s))"
  proof (cases "fst (m s)")
    case (Inr x)
    with 1 show ?thesis by (simp add: ecatch_def prod.case_eq_if)
  next
    case (Inl e)
    moreover have "R (snd (m s)) (snd (h e (snd (m s))))"
      using keepsD [OF assms(2) 1(2)] by blast
    ultimately show ?thesis
      using trans [OF 1(1)] by (simp add: ecatch_def prod.case_eq_if)
  qed
qed

lemma keeps_if [keeps_intros]: "keeps m \<Longrightarrow> keeps n \<Longrightarrow> keeps (if b then m else n)"
  by simp

lemma keeps_case_option [keeps_intros]:
  "keeps m \<Longrightarrow> (\<And>x. keeps (f x)) \<Longrightarrow> keeps (case v of None \<Rightarrow> m | Some x \<Rightarrow> f x)"
  by (cases v) auto

lemma keeps_case_prod [keeps_intros]:
  "(\<And>x y. keeps (f x y)) \<Longrightarrow> keeps (case v of (x, y) \<Rightarrow> f x y)"
  by (cases v) auto

lemma keeps_transact:
  assumes "\<And>s x t. K s \<Longrightarrow> body s = Inr (x, t) \<Longrightarrow> R s t"
  shows "keeps (transact body)"
proof (rule keepsI)
  fix s assume "K s"
  then show "R s (snd (transact body s))"
    using assms[of s] by (auto simp: transact_def refl split: sum.split prod.split)
qed

lemma keeps_eforeach [keeps_intros]: "(\<And>x. keeps (f x)) \<Longrightarrow> keeps (eforeach f xs)"
  by (induction xs) (auto intro!: keeps_intros)

end

section \<open>Ordering and de-duplicating strings\<close>

text \<open>\<open>sorted(set(xs))\<close> of the source: the distinct elements in increasing order.\<close>

definition sorted_set :: "'a::linorder list \<Rightarrow> 'a list" where
  "sorted_set xs = sort (remdups xs)"

lemma set_sorted_set [simp]: "set (sorted_set xs) = set xs"
  by (simp add: sorted_set_def)

lemma sorted_set_eq_Nil [simp]: "sorted_set xs = [] \<longleftrightarrow> xs = []"
  by (metis set_empty set_sorted_set)

lemma sorted_sorted_set [simp]: "sorted (sorted_set xs)"
  by (simp add: sorted_set_def)

lemma distinct_sorted_set [simp]: "distinct (sorted_set xs)"
  by (simp add: sorted_set_def)

lemma sorted_set_cong: "set xs = set ys \<Longrightarrow> sorted_set xs = sorted_set ys"
  by (metis distinct_sorted_set set_sorted_set sorted_distinct_set_unique sorted_sorted_set)

lemma sorted_set_idem [simp]: "sorted_set (sorted_set xs) = sorted_set xs"
  by (rule sorted_set_cong) simp

lemma hd_sorted_set_least: "x \<in> set xs \<Longrightarrow> hd (sorted_set xs) \<le> x"
  by (metis list.collapse list.set_sel(1) set_ConsD set_sorted_set sorted_simps(2) sorted_sorted_set
      empty_iff empty_set order_refl)

section \<open>JSON values\<close>

datatype pyfloat = Fin rat | PosInf | NegInf | NaN

datatype json =
    JNull
  | JBool bool
  | JInt int
  | JFlt pyfloat
  | JStr string
  | JArr "json list"
  | JObj "(string \<times> json) list"

abbreviation JNum :: "rat \<Rightarrow> json" where
  "JNum q \<equiv> JFlt (Fin q)"

text \<open>\<open>d.get(key)\<close> on a dictionary: None when the key is absent.\<close>

definition jget :: "(string \<times> json) list \<Rightarrow> string \<Rightarrow> json option" where
  "jget fs k = map_of fs k"

text \<open>\<open>d[key]\<close> raises KeyError when the key is absent.\<close>

definition jindex :: "(string \<times> json) list \<Rightarrow> string \<Rightarrow> json res" where
  "jindex fs k = (case map_of fs k of None \<Rightarrow> Inl (PyExc ''KeyError'') | Some v \<Rightarrow> Inr v)"

text \<open>\<open>d.get(key)\<close> used as a value: a missing key reads as None.\<close>

definition jgetn :: "(string \<times> json) list \<Rightarrow> string \<Rightarrow> json" where
  "jgetn fs k = (case map_of fs k of None \<Rightarrow> JNull | Some v \<Rightarrow> v)"

definition jkeys :: "(string \<times> json) list \<Rightarrow> string list" where
  "jkeys fs = map fst fs"

fun is_obj :: "json \<Rightarrow> bool" where
  "is_obj (JObj fs) = True"
| "is_obj _ = False"

fun obj_fields :: "json \<Rightarrow> (string \<times> json) list" where
  "obj_fields (JObj fs) = fs"
| "obj_fields _ = []"

text \<open>
  \<open>float(n)\<close> of an int raises OverflowError from \<open>2 ^ 1024 - 2 ^ 970\<close> on (the first
  magnitude that rounds beyond the largest double).
\<close>

definition float_of_int :: "int \<Rightarrow> rat res" where
  "float_of_int n =
     (if \<bar>n\<bar> < 2 ^ 1024 - 2 ^ 970 then Inr (of_int n) else Inl (PyExc ''OverflowError''))"

text \<open>\<open>v in {"a", "b"}\<close> for a set of strings: hashing a list or a dictionary raises TypeError.\<close>

fun in_strings :: "json \<Rightarrow> string list \<Rightarrow> bool res" where
  "in_strings (JArr _) cs = Inl (PyExc ''TypeError'')"
| "in_strings (JObj _) cs = Inl (PyExc ''TypeError'')"
| "in_strings (JStr s) cs = Inr (s \<in> set cs)"
| "in_strings _ cs = Inr False"

lemma in_strings_True [simp]: "in_strings v cs = Inr True \<longleftrightarrow> (\<exists>s. v = JStr s \<and> s \<in> set cs)"
  by (cases v) auto

lemma jindex_Inr [simp]: "jindex fs k = Inr v \<longleftrightarrow> map_of fs k = Some v"
  by (auto simp: jindex_def split: option.splits)

lemma float_of_int_small [simp]: "\<bar>n\<bar> \<le> 2 ^ 1000 \<Longrightarrow> float_of_int n = Inr (of_int n)"
  by (simp add: float_of_int_def)

end
