(* ===== verification/Constants.thy ===== *)
theory Constants
  imports Prelude
begin

text \<open>
  constants.py: schema versions, window lengths, the fixed capability list and the outbound method
  allowlists. The allowlists are what the adapters may send; nothing in the model can extend them.
\<close>

definition SCHEMA_VERSION :: string where "SCHEMA_VERSION = ''1''"

definition SNAPSHOT_SCHEMA_VERSION :: string where "SNAPSHOT_SCHEMA_VERSION = ''3''"

definition APP_VERSION :: string where "APP_VERSION = ''0.7.0-alpha.1''"

definition FIVE_HOUR_MINUTES :: int where "FIVE_HOUR_MINUTES = 300"

definition WEEKLY_MINUTES :: int where "WEEKLY_MINUTES = 10080"

definition LOCAL_DRY_RUN_CAPABILITIES :: "string list" where
  "LOCAL_DRY_RUN_CAPABILITIES =
    [''audit.read'', ''backlog.local.write'', ''background.read'', ''background.run'',
     ''control.read'', ''control.local.write'', ''launchd.render'', ''live_test.dispatch'',
     ''monitor.local.write'', ''monitor.read'', ''notification.local.write'', ''policy.read'',
     ''policy.evaluate'', ''policy.local.write'', ''queue.read'', ''queue.local.write'',
     ''quota.read'', ''quota_guard.read'', ''quota_guard.local.write'',
     ''quota_guard.thread.control'', ''reconcile.local'', ''simulate.local'', ''work.dispatch'']"

definition PROHIBITED_CAPABILITIES :: "string list" where
  "PROHIBITED_CAPABILITIES =
    [''auth.modify'', ''background.install'', ''codex.turn.start'', ''credits.consume'',
     ''external.notify'', ''network.listen'', ''queue.execute'']"

definition LIVE_TEST_OUTBOUND_ALLOWLIST :: "string list" where
  "LIVE_TEST_OUTBOUND_ALLOWLIST =
    [''initialize'', ''initialized'', ''thread/start'', ''turn/start'', ''turn/interrupt'']"

definition WORK_OUTBOUND_ALLOWLIST :: "string list" where
  "WORK_OUTBOUND_ALLOWLIST =
    [''initialize'', ''initialized'', ''hooks/list'', ''app/installed'', ''mcpServerStatus/list'',
     ''experimentalFeature/list'', ''thread/start'', ''turn/start'', ''turn/interrupt'']"

definition MONITOR_OUTBOUND_ALLOWLIST :: "string list" where
  "MONITOR_OUTBOUND_ALLOWLIST = [''initialize'', ''initialized'', ''thread/read'']"

definition QUOTA_GUARD_OUTBOUND_ALLOWLIST :: "string list" where
  "QUOTA_GUARD_OUTBOUND_ALLOWLIST =
    [''initialize'', ''initialized'', ''thread/list'', ''thread/read'', ''thread/goal/get'',
     ''thread/goal/set'', ''thread/resume'', ''turn/interrupt'', ''turn/start'']"

definition APP_SERVER_OUTBOUND_ALLOWLIST :: "string list" where
  "APP_SERVER_OUTBOUND_ALLOWLIST =
    [''initialize'', ''initialized'', ''account/read'', ''account/rateLimits/read'']"

text \<open>No locally grantable capability is one of the prohibited ones.\<close>

lemma local_capabilities_not_prohibited:
  "set LOCAL_DRY_RUN_CAPABILITIES \<inter> set PROHIBITED_CAPABILITIES = {}"
  by (simp add: LOCAL_DRY_RUN_CAPABILITIES_def PROHIBITED_CAPABILITIES_def)

text \<open>Controller modes and job states (the frozensets of names, as enumerations).\<close>

datatype controller_mode = PAUSED | READY | STOPPED | BLOCKED

datatype job_state =
    approved
  | cancelled
  | simulating
  | simulated
  | held_policy
  | held_dependency
  | held_schedule
  | held_capability
  | needs_review
  | running
  | succeeded
  | failed
  | interrupted

end
