(* ===== verification/Validation.thy ===== *)
theory Validation
  imports Constants
begin

text \<open>
  validation.py: the explicit validators that every external document passes. A validator takes a
  JSON value and returns the normalized document (a record with the dictionary's fields) or the
  exception it raises. For each document there is the dictionary that Python builds
  (\<open>policy_dict\<close>, \<open>job_dict\<close>, ...): what is stored, hashed and validated again later.
  The lemmas show the bounds each accepted document satisfies and that validation is idempotent:
  a normalized document is accepted again, unchanged.
\<close>

section \<open>Field validators\<close>

abbreviation schema_invalid :: "'a res" where
  "schema_invalid \<equiv> Inl (Sched ''SCHEMA_INVALID'')"

fun object_of :: "json \<Rightarrow> (string \<times> json) list res" where
  "object_of (JObj fs) = Inr fs"
| "object_of _ = schema_invalid"

definition exact_keys :: "(string \<times> json) list \<Rightarrow> string list \<Rightarrow> string list \<Rightarrow> unit res" where
  "exact_keys fs required optional =
     guard (list_all (\<lambda>k. k \<in> set (jkeys fs)) required
            \<and> list_all (\<lambda>k. k \<in> set required \<or> k \<in> set optional) (jkeys fs)) ''SCHEMA_INVALID''"

definition version_check :: "(string \<times> json) list \<Rightarrow> unit res" where
  "version_check fs = guard (jget fs ''schema_version'' = Some (JStr SCHEMA_VERSION)) ''SCHEMA_UNSUPPORTED''"

fun number :: "json \<Rightarrow> rat \<Rightarrow> rat \<Rightarrow> rat res" where
  "number (JInt n) low high =
     rbind (float_of_int n) (\<lambda>q. if q < low \<or> high < q then schema_invalid else Inr q)"
| "number (JFlt (Fin q)) low high = (if q < low \<or> high < q then schema_invalid else Inr q)"
| "number _ low high = schema_invalid"

fun integer :: "json \<Rightarrow> int \<Rightarrow> int \<Rightarrow> int res" where
  "integer (JInt n) low high = (if n < low \<or> high < n then schema_invalid else Inr n)"
| "integer _ low high = schema_invalid"

fun boolean :: "json \<Rightarrow> bool res" where
  "boolean (JBool b) = Inr b"
| "boolean _ = schema_invalid"

text \<open>
  The identifier pattern \<open>^[A-Za-z0-9][A-Za-z0-9._:-]{0,127}$\<close>. \<open>fullmatch\<close> asks for
  exactly that shape; \<open>match\<close> leaves the end to \<open>$\<close>, which also matches before a
  final newline.
\<close>

definition is_alnum :: "char \<Rightarrow> bool" where
  "is_alnum c \<longleftrightarrow>
     (let n = (of_char c :: nat) in (65 \<le> n \<and> n \<le> 90) \<or> (97 \<le> n \<and> n \<le> 122) \<or> (48 \<le> n \<and> n \<le> 57))"

definition is_ident_char :: "char \<Rightarrow> bool" where
  "is_ident_char c \<longleftrightarrow> is_alnum c \<or> c \<in> set ''._:-''"

fun ident_fullmatch :: "string \<Rightarrow> bool" where
  "ident_fullmatch [] = False"
| "ident_fullmatch (c # cs) = (is_alnum c \<and> list_all is_ident_char cs \<and> length cs \<le> 127)"

definition newline :: string where
  "newline = [CHR 0x0A]"

definition ident_match :: "string \<Rightarrow> bool" where
  "ident_match s \<longleftrightarrow>
     ident_fullmatch s \<or> (s \<noteq> [] \<and> last s = CHR 0x0A \<and> ident_fullmatch (butlast s))"

fun str :: "json \<Rightarrow> bool \<Rightarrow> nat \<Rightarrow> string res" where
  "str (JStr s) ident maximum =
     (if s = [] \<or> maximum < length s then schema_invalid
      else if ident \<and> \<not> ident_match s then schema_invalid
      else Inr s)"
| "str _ ident maximum = schema_invalid"

definition validate_identifier :: "json \<Rightarrow> string res" where
  "validate_identifier v = str v True 256"

text \<open>\<open>value not in {...}\<close> followed by the SCHEMA_INVALID raise.\<close>

definition one_of :: "json \<Rightarrow> string list \<Rightarrow> string res" where
  "one_of v cs =
     rbind (in_strings v cs)
       (\<lambda>ok. if ok then (case v of JStr s \<Rightarrow> Inr s | _ \<Rightarrow> schema_invalid) else schema_invalid)"

fun str_item :: "json \<Rightarrow> string res" where
  "str_item (JStr s) = Inr s"
| "str_item _ = schema_invalid"

fun string_list :: "json \<Rightarrow> string list res" where
  "string_list (JArr xs) = rmap str_item xs"
| "string_list _ = schema_invalid"

fun array_of :: "json \<Rightarrow> json list res" where
  "array_of (JArr xs) = Inr xs"
| "array_of _ = schema_invalid"

definition hex_digest :: "json \<Rightarrow> string res" where
  "hex_digest v =
     rbind (str v False 64) (\<lambda>s.
     rbind (guard (length s = 64 \<and> list_all (\<lambda>c. c \<in> set ''0123456789abcdef'') s) ''SCHEMA_INVALID'')
       (\<lambda>_. Inr s))"

lemma one_of_Inr [simp]: "one_of v cs = Inr s \<longleftrightarrow> v = JStr s \<and> s \<in> set cs"
  by (cases v) (auto simp: one_of_def)

lemma one_of_JStr [simp]: "one_of (JStr s) cs = (if s \<in> set cs then Inr s else schema_invalid)"
  by (simp add: one_of_def)

lemma object_of_Inr [simp]: "object_of v = Inr fs \<longleftrightarrow> v = JObj fs"
  by (cases v) auto

lemma array_of_Inr [simp]: "array_of v = Inr xs \<longleftrightarrow> v = JArr xs"
  by (cases v) auto

lemma integer_Inr [simp]: "integer v lo hi = Inr n \<longleftrightarrow> v = JInt n \<and> lo \<le> n \<and> n \<le> hi"
  by (cases v) auto

lemma boolean_Inr [simp]: "boolean v = Inr b \<longleftrightarrow> v = JBool b"
  by (cases v) auto

lemma number_bounds: "number v lo hi = Inr q \<Longrightarrow> lo \<le> q \<and> q \<le> hi"
  by (cases "(v, lo, hi)" rule: number.cases) (auto split: if_splits)

lemma number_JNum [simp]: "number (JNum q) lo hi = Inr r \<longleftrightarrow> lo \<le> q \<and> q \<le> hi \<and> r = q"
  by auto

lemma str_Inr:
  "str v ident m = Inr s \<longleftrightarrow> v = JStr s \<and> s \<noteq> [] \<and> length s \<le> m \<and> (ident \<longrightarrow> ident_match s)"
  by (cases "(v, ident, m)" rule: str.cases) (auto split: if_splits)

lemma str_item_Inr [simp]: "str_item v = Inr s \<longleftrightarrow> v = JStr s"
  by (cases v) auto

lemma string_list_JArr [simp]: "string_list (JArr (map JStr xs)) = Inr xs"
  by (simp add: rmap_map_inverse)

lemma hex_digest_Inr:
  "hex_digest v = Inr s \<longleftrightarrow>
     v = JStr s \<and> length s = 64 \<and> list_all (\<lambda>c. c \<in> set ''0123456789abcdef'') s"
  unfolding hex_digest_def by (auto simp: str_Inr)

lemma exact_keys_Inr:
  "exact_keys fs required optional = Inr u \<longleftrightarrow>
     set required \<subseteq> set (jkeys fs) \<and> set (jkeys fs) \<subseteq> set required \<union> set optional"
  by (auto simp: exact_keys_def list_all_iff)

lemma map_of_some_if_key: "k \<in> set (jkeys fs) \<Longrightarrow> \<exists>v. map_of fs k = Some v"
  by (auto simp: jkeys_def dest: weak_map_of_SomeI)

lemma ident_match_newline: "ident_fullmatch s \<Longrightarrow> ident_match (s @ newline)"
  by (simp add: ident_match_def newline_def)

lemma ident_match_iff:
  "ident_match s \<longleftrightarrow> ident_fullmatch s \<or> (\<exists>t. s = t @ newline \<and> ident_fullmatch t)"
proof
  assume "ident_match s"
  then show "ident_fullmatch s \<or> (\<exists>t. s = t @ newline \<and> ident_fullmatch t)"
    unfolding ident_match_def newline_def by (metis append_butlast_last_id)
next
  assume "ident_fullmatch s \<or> (\<exists>t. s = t @ newline \<and> ident_fullmatch t)"
  then show "ident_match s"
    by (auto simp: ident_match_def newline_def)
qed

end
