(* ===== verification/Documents.thy ===== *)
theory Documents
  imports Validation
begin

text \<open>
  validation.py, the document validators: policy, usage, job, work package, approval and quota
  snapshot. Each returns a record; \<open>..._dict\<close> is the dictionary Python returns for it. For each
  document: the bounds of what is accepted and the fact that an accepted document, validated again
  from its own dictionary, is accepted unchanged.
\<close>

declare str.simps [simp del]

section \<open>Policy\<close>

record policy =
  five_hour_reserve_percent :: rat
  weekly_reserve_percent :: rat
  estimate_multiplier :: rat
  max_snapshot_age_seconds :: int
  lease_seconds :: int
  max_concurrency :: int

definition validate_policy :: "json \<Rightarrow> policy res" where
  "validate_policy v =
     rbind (object_of v) (\<lambda>data.
     rbind (exact_keys data
       [''schema_version'', ''five_hour_reserve_percent'', ''weekly_reserve_percent'',
        ''estimate_multiplier'', ''max_snapshot_age_seconds'', ''lease_seconds'',
        ''max_concurrency''] []) (\<lambda>_.
     rbind (version_check data) (\<lambda>_.
     rbind (number (jgetn data ''five_hour_reserve_percent'') 0 100) (\<lambda>fh.
     rbind (number (jgetn data ''weekly_reserve_percent'') 0 100) (\<lambda>wk.
     rbind (number (jgetn data ''estimate_multiplier'') 1 10) (\<lambda>em.
     rbind (integer (jgetn data ''max_snapshot_age_seconds'') 1 3600) (\<lambda>age.
     rbind (integer (jgetn data ''lease_seconds'') 5 3600) (\<lambda>lease.
     rbind (integer (jgetn data ''max_concurrency'') 1 1) (\<lambda>mc.
       Inr \<lparr>five_hour_reserve_percent = fh, weekly_reserve_percent = wk,
            estimate_multiplier = em, max_snapshot_age_seconds = age,
            lease_seconds = lease, max_concurrency = mc\<rparr>)))))))))"

definition policy_dict :: "policy \<Rightarrow> json" where
  "policy_dict p = JObj
     [(''schema_version'', JStr SCHEMA_VERSION),
      (''five_hour_reserve_percent'', JNum (five_hour_reserve_percent p)),
      (''weekly_reserve_percent'', JNum (weekly_reserve_percent p)),
      (''estimate_multiplier'', JNum (estimate_multiplier p)),
      (''max_snapshot_age_seconds'', JInt (max_snapshot_age_seconds p)),
      (''lease_seconds'', JInt (lease_seconds p)),
      (''max_concurrency'', JInt (max_concurrency p))]"

definition policy_ok :: "policy \<Rightarrow> bool" where
  "policy_ok p \<longleftrightarrow>
     0 \<le> five_hour_reserve_percent p \<and> five_hour_reserve_percent p \<le> 100
     \<and> 0 \<le> weekly_reserve_percent p \<and> weekly_reserve_percent p \<le> 100
     \<and> 1 \<le> estimate_multiplier p \<and> estimate_multiplier p \<le> 10
     \<and> 1 \<le> max_snapshot_age_seconds p \<and> max_snapshot_age_seconds p \<le> 3600
     \<and> 5 \<le> lease_seconds p \<and> lease_seconds p \<le> 3600
     \<and> max_concurrency p = 1"

lemma validate_policy_ok: "validate_policy v = Inr p \<Longrightarrow> policy_ok p"
  by (auto simp: validate_policy_def policy_ok_def dest!: number_bounds)

lemma validate_policy_dict: "policy_ok p \<Longrightarrow> validate_policy (policy_dict p) = Inr p"
  by (simp add: validate_policy_def policy_dict_def policy_ok_def exact_keys_Inr version_check_def
      jkeys_def jget_def jgetn_def)

section \<open>Usage and jobs\<close>

record usage =
  five_hour_percent :: rat
  weekly_percent :: rat

definition validate_usage :: "json \<Rightarrow> usage res" where
  "validate_usage v =
     rbind (object_of v) (\<lambda>data.
     rbind (exact_keys data [''five_hour_percent'', ''weekly_percent''] []) (\<lambda>_.
     rbind (number (jgetn data ''five_hour_percent'') 0 100) (\<lambda>fh.
     rbind (number (jgetn data ''weekly_percent'') 0 100) (\<lambda>wk.
       Inr \<lparr>five_hour_percent = fh, weekly_percent = wk\<rparr>))))"

definition usage_dict :: "usage \<Rightarrow> json" where
  "usage_dict u = JObj
     [(''five_hour_percent'', JNum (five_hour_percent u)),
      (''weekly_percent'', JNum (weekly_percent u))]"

definition usage_ok :: "usage \<Rightarrow> bool" where
  "usage_ok u \<longleftrightarrow> 0 \<le> five_hour_percent u \<and> five_hour_percent u \<le> 100
     \<and> 0 \<le> weekly_percent u \<and> weekly_percent u \<le> 100"

lemma validate_usage_ok: "validate_usage v = Inr u \<Longrightarrow> usage_ok u"
  by (auto simp: validate_usage_def usage_ok_def dest!: number_bounds)

lemma validate_usage_dict [simp]: "usage_ok u \<Longrightarrow> validate_usage (usage_dict u) = Inr u"
  by (simp add: validate_usage_def usage_dict_def usage_ok_def exact_keys_Inr jkeys_def jgetn_def)

record simulation =
  outcome :: string
  actual_usage :: usage

record job =
  job_id :: string
  work_ref :: string
  priority :: int
  expected_usage :: usage
  simulation_of :: "simulation option"

definition validate_simulation :: "json \<Rightarrow> simulation res" where
  "validate_simulation v =
     rbind (object_of v) (\<lambda>sim.
     rbind (exact_keys sim [''outcome'', ''actual_usage''] []) (\<lambda>_.
     rbind (one_of (jgetn sim ''outcome'') [''success'', ''failure'']) (\<lambda>oc.
     rbind (validate_usage (jgetn sim ''actual_usage'')) (\<lambda>au.
       Inr \<lparr>outcome = oc, actual_usage = au\<rparr>))))"

definition validate_job :: "json \<Rightarrow> job res" where
  "validate_job v =
     rbind (object_of v) (\<lambda>data.
     rbind (exact_keys data
       [''schema_version'', ''job_id'', ''work_ref'', ''priority'', ''expected_usage'']
       [''simulation'']) (\<lambda>_.
     rbind (version_check data) (\<lambda>_.
     rbind (str (jgetn data ''job_id'') True 256) (\<lambda>jid.
     rbind (str (jgetn data ''work_ref'') True 256) (\<lambda>wr.
     rbind (integer (jgetn data ''priority'') 0 100) (\<lambda>pr.
     rbind (validate_usage (jgetn data ''expected_usage'')) (\<lambda>eu.
     (case jget data ''simulation'' of
        None \<Rightarrow> Inr \<lparr>job_id = jid, work_ref = wr, priority = pr, expected_usage = eu,
                     simulation_of = None\<rparr>
      | Some sv \<Rightarrow>
          rbind (validate_simulation sv) (\<lambda>sim.
            Inr \<lparr>job_id = jid, work_ref = wr, priority = pr, expected_usage = eu,
                 simulation_of = Some sim\<rparr>)))))))))"

definition simulation_dict :: "simulation \<Rightarrow> json" where
  "simulation_dict s = JObj
     [(''outcome'', JStr (outcome s)), (''actual_usage'', usage_dict (actual_usage s))]"

definition job_dict :: "job \<Rightarrow> json" where
  "job_dict j = JObj
     ([(''schema_version'', JStr SCHEMA_VERSION),
       (''job_id'', JStr (job_id j)),
       (''work_ref'', JStr (work_ref j)),
       (''priority'', JInt (priority j)),
       (''expected_usage'', usage_dict (expected_usage j))]
      @ (case simulation_of j of None \<Rightarrow> [] | Some s \<Rightarrow> [(''simulation'', simulation_dict s)]))"

definition simulation_ok :: "simulation \<Rightarrow> bool" where
  "simulation_ok s \<longleftrightarrow> outcome s \<in> {''success'', ''failure''} \<and> usage_ok (actual_usage s)"

text \<open>What an identifier of at most 256 characters looks like once it has been accepted.\<close>

definition ident_ok :: "string \<Rightarrow> bool" where
  "ident_ok s \<longleftrightarrow> s \<noteq> [] \<and> length s \<le> 256 \<and> ident_match s"

definition text_ok :: "nat \<Rightarrow> string \<Rightarrow> bool" where
  "text_ok m s \<longleftrightarrow> s \<noteq> [] \<and> length s \<le> m"

definition job_ok :: "job \<Rightarrow> bool" where
  "job_ok j \<longleftrightarrow> ident_ok (job_id j) \<and> ident_ok (work_ref j)
     \<and> 0 \<le> priority j \<and> priority j \<le> 100 \<and> usage_ok (expected_usage j)
     \<and> (case simulation_of j of None \<Rightarrow> True | Some s \<Rightarrow> simulation_ok s)"

lemma str_ident [simp]: "str v True 256 = Inr s \<longleftrightarrow> v = JStr s \<and> ident_ok s"
  by (auto simp: str_Inr ident_ok_def)

lemma str_text [simp]: "str v False m = Inr s \<longleftrightarrow> v = JStr s \<and> text_ok m s"
  by (auto simp: str_Inr text_ok_def)

lemma validate_identifier_Inr [simp]: "validate_identifier v = Inr s \<longleftrightarrow> v = JStr s \<and> ident_ok s"
  by (simp add: validate_identifier_def)

lemma validate_simulation_ok: "validate_simulation v = Inr s \<Longrightarrow> simulation_ok s"
  by (auto simp: validate_simulation_def simulation_ok_def dest: validate_usage_ok)

lemma validate_simulation_dict [simp]:
  "simulation_ok s \<Longrightarrow> validate_simulation (simulation_dict s) = Inr s"
  by (auto simp: validate_simulation_def simulation_dict_def simulation_ok_def exact_keys_Inr
      jkeys_def jgetn_def)

lemma validate_job_ok: "validate_job v = Inr j \<Longrightarrow> job_ok j"
  by (auto simp: validate_job_def job_ok_def split: option.splits
      dest!: validate_usage_ok validate_simulation_ok)

lemma validate_job_dict [simp]: "job_ok j \<Longrightarrow> validate_job (job_dict j) = Inr j"
  by (cases "simulation_of j")
     (auto simp: validate_job_def job_dict_def job_ok_def exact_keys_Inr version_check_def
      jkeys_def jgetn_def jget_def)


section \<open>Work packages\<close>

record execution =
  cwd :: string
  model :: string
  effort :: string
  sandbox :: string
  max_runtime_seconds :: int

record work_package =
  wp_job :: job
  objective :: string
  wp_execution :: execution
  dependencies :: "string list"
  not_before :: "rat option"

definition not_before_of :: "json \<Rightarrow> rat option res" where
  "not_before_of v =
     (if v = JNull then Inr None
      else rbind (number v 0 32503680000) (\<lambda>q. Inr (Some q)))"

definition validate_work_package :: "json \<Rightarrow> work_package res" where
  "validate_work_package v =
     rbind (object_of v) (\<lambda>data.
     rbind (exact_keys data
       [''schema_version'', ''job'', ''objective'', ''execution'', ''dependencies'',
        ''not_before''] []) (\<lambda>_.
     rbind (version_check data) (\<lambda>_.
     rbind (validate_job (jgetn data ''job'')) (\<lambda>jb.
     rbind (guard (simulation_of jb = None) ''SCHEMA_INVALID'') (\<lambda>_.
     rbind (object_of (jgetn data ''execution'')) (\<lambda>ex.
     rbind (exact_keys ex
       [''cwd'', ''model'', ''effort'', ''sandbox'', ''max_runtime_seconds''] []) (\<lambda>_.
     rbind (one_of (jgetn ex ''sandbox'') [''read_only'', ''workspace_write'']) (\<lambda>sb.
     rbind (array_of (jgetn data ''dependencies'')) (\<lambda>items.
     rbind (rmap (\<lambda>item. str item True 256) items) (\<lambda>deps.
     rbind (guard (distinct deps) ''SCHEMA_INVALID'') (\<lambda>_.
     rbind (guard (job_id jb \<notin> set deps) ''SCHEMA_INVALID'') (\<lambda>_.
     rbind (not_before_of (jgetn data ''not_before'')) (\<lambda>nb.
     rbind (str (jgetn data ''objective'') False 8000) (\<lambda>obj.
     rbind (str (jgetn ex ''cwd'') False 1024) (\<lambda>cw.
     rbind (str (jgetn ex ''model'') False 128) (\<lambda>md.
     rbind (str (jgetn ex ''effort'') True 256) (\<lambda>ef.
     rbind (integer (jgetn ex ''max_runtime_seconds'') 10 86400) (\<lambda>mr.
       Inr \<lparr>wp_job = jb, objective = obj,
            wp_execution = \<lparr>cwd = cw, model = md, effort = ef, sandbox = sb,
                             max_runtime_seconds = mr\<rparr>,
            dependencies = deps, not_before = nb\<rparr>))))))))))))))))))"

definition execution_dict :: "execution \<Rightarrow> json" where
  "execution_dict e = JObj
     [(''cwd'', JStr (cwd e)), (''model'', JStr (model e)), (''effort'', JStr (effort e)),
      (''sandbox'', JStr (sandbox e)), (''max_runtime_seconds'', JInt (max_runtime_seconds e))]"

definition work_package_dict :: "work_package \<Rightarrow> json" where
  "work_package_dict p = JObj
     [(''schema_version'', JStr SCHEMA_VERSION),
      (''job'', job_dict (wp_job p)),
      (''objective'', JStr (objective p)),
      (''execution'', execution_dict (wp_execution p)),
      (''dependencies'', JArr (map JStr (dependencies p))),
      (''not_before'', (case not_before p of None \<Rightarrow> JNull | Some q \<Rightarrow> JNum q))]"

definition execution_ok :: "execution \<Rightarrow> bool" where
  "execution_ok e \<longleftrightarrow> text_ok 1024 (cwd e) \<and> text_ok 128 (model e) \<and> ident_ok (effort e)
     \<and> sandbox e \<in> {''read_only'', ''workspace_write''}
     \<and> 10 \<le> max_runtime_seconds e \<and> max_runtime_seconds e \<le> 86400"

definition work_package_ok :: "work_package \<Rightarrow> bool" where
  "work_package_ok p \<longleftrightarrow> job_ok (wp_job p) \<and> simulation_of (wp_job p) = None
     \<and> text_ok 8000 (objective p) \<and> execution_ok (wp_execution p)
     \<and> (\<forall>d \<in> set (dependencies p). ident_ok d) \<and> distinct (dependencies p)
     \<and> job_id (wp_job p) \<notin> set (dependencies p)
     \<and> (case not_before p of None \<Rightarrow> True | Some q \<Rightarrow> 0 \<le> q \<and> q \<le> 32503680000)"

lemma rmap_str_ident: "rmap (\<lambda>item. str item True 256) items = Inr ys \<Longrightarrow> \<forall>y \<in> set ys. ident_ok y"
  by (induction items arbitrary: ys) auto

lemma rmap_str_dict [simp]:
  "\<forall>y \<in> set ys. ident_ok y \<Longrightarrow> rmap (\<lambda>item. str item True 256) (map JStr ys) = Inr ys"
  by (rule rmap_map_inverse) simp

lemma not_before_of_Inr:
  "not_before_of v = Inr nb \<Longrightarrow> (case nb of None \<Rightarrow> True | Some q \<Rightarrow> 0 \<le> q \<and> q \<le> 32503680000)"
  by (auto simp: not_before_of_def split: if_splits dest!: number_bounds)

lemma validate_work_package_ok:
  assumes "validate_work_package v = Inr p"
  shows "work_package_ok p"
  using assms unfolding validate_work_package_def work_package_ok_def execution_ok_def
  by (clarsimp dest!: validate_job_ok rmap_str_ident not_before_of_Inr)

lemma validate_work_package_dict [simp]:
  assumes "work_package_ok p"
  shows "validate_work_package (work_package_dict p) = Inr p"
  using assms
  by (cases "not_before p")
     (simp_all add: validate_work_package_def work_package_dict_def work_package_ok_def
       execution_dict_def execution_ok_def exact_keys_Inr version_check_def jkeys_def jgetn_def
       jget_def not_before_of_def insert_commute)

section \<open>Approvals\<close>

record approval =
  approval_id :: string
  actor :: string
  action :: string
  scope_hash :: string
  capabilities :: "string list"
  granted_at :: rat
  expires_at :: rat

definition validate_approval :: "json \<Rightarrow> rat \<Rightarrow> bool \<Rightarrow> approval res" where
  "validate_approval v now allow_expired =
     rbind (object_of v) (\<lambda>data.
     rbind (exact_keys data
       [''schema_version'', ''approval_id'', ''actor'', ''action'', ''scope_hash'',
        ''capabilities'', ''granted_at'', ''expires_at''] []) (\<lambda>_.
     rbind (version_check data) (\<lambda>_.
     rbind (str (jgetn data ''action'') True 256) (\<lambda>act.
     rbind (string_list (jgetn data ''capabilities'')) (\<lambda>caps.
     rbind (guard (list_all (\<lambda>c. c \<in> set LOCAL_DRY_RUN_CAPABILITIES) caps) ''CAPABILITY_DENIED'') (\<lambda>_.
     rbind (number (jgetn data ''granted_at'') 0 32503680000) (\<lambda>granted.
     rbind (number (jgetn data ''expires_at'') 0 32503680000) (\<lambda>expires.
     rbind (guard (allow_expired \<or> \<not> granted > now + 60) ''APPROVAL_INVALID'') (\<lambda>_.
     rbind (guard (\<not> expires \<le> granted) ''APPROVAL_INVALID'') (\<lambda>_.
     rbind (guard (allow_expired \<or> \<not> expires \<le> now) ''APPROVAL_EXPIRED'') (\<lambda>_.
     rbind (hex_digest (jgetn data ''scope_hash'')) (\<lambda>scope.
     rbind (str (jgetn data ''approval_id'') True 256) (\<lambda>aid.
     rbind (str (jgetn data ''actor'') True 256) (\<lambda>ac.
       Inr \<lparr>approval_id = aid, actor = ac, action = act, scope_hash = scope,
            capabilities = sorted_set caps, granted_at = granted,
            expires_at = expires\<rparr>))))))))))))))"

definition approval_dict :: "approval \<Rightarrow> json" where
  "approval_dict a = JObj
     [(''schema_version'', JStr SCHEMA_VERSION),
      (''approval_id'', JStr (approval_id a)),
      (''actor'', JStr (actor a)),
      (''action'', JStr (action a)),
      (''scope_hash'', JStr (scope_hash a)),
      (''capabilities'', JArr (map JStr (capabilities a))),
      (''granted_at'', JNum (granted_at a)),
      (''expires_at'', JNum (expires_at a))]"

text \<open>\<open>require_approval\<close>: action, scope and capability must all match.\<close>

definition require_approval :: "approval \<Rightarrow> string \<Rightarrow> string \<Rightarrow> string \<Rightarrow> unit res" where
  "require_approval a act scope cap =
     rbind (guard (action a = act) ''APPROVAL_SCOPE_MISMATCH'') (\<lambda>_.
     rbind (guard (scope_hash a = scope) ''APPROVAL_SCOPE_MISMATCH'') (\<lambda>_.
     guard (cap \<in> set (capabilities a)) ''APPROVAL_SCOPE_MISMATCH''))"

lemma require_approval_Inr [simp]:
  "require_approval a act scope cap = Inr u \<longleftrightarrow>
     action a = act \<and> scope_hash a = scope \<and> cap \<in> set (capabilities a)"
  by (auto simp: require_approval_def)

lemma validate_approval_current:
  assumes "validate_approval v now False = Inr a"
  shows "granted_at a \<le> now + 60 \<and> granted_at a < expires_at a \<and> now < expires_at a
    \<and> set (capabilities a) \<subseteq> set LOCAL_DRY_RUN_CAPABILITIES
    \<and> sorted (capabilities a) \<and> distinct (capabilities a)"
  using assms by (auto simp: validate_approval_def list_all_iff)

lemma validate_approval_relax:
  "validate_approval v now False = Inr a \<Longrightarrow> validate_approval v now True = Inr a"
  by (auto simp: validate_approval_def)

section \<open>Quota snapshots\<close>

record window =
  window_duration_minutes :: int
  used_percent :: rat
  remaining_percent :: rat
  resets_at :: rat

record snapshot =
  observed_at :: rat
  source :: string
  profile_key :: string
  limit_id :: string
  account_fingerprint :: string
  account_type :: string
  plan_type :: "string option"
  credit_signal :: string
  paid_credit_state :: string
  spend_control_state :: string
  rate_limit_reached_type :: "string option"
  five_hour :: window
  weekly :: window

definition validate_window :: "json \<Rightarrow> int \<Rightarrow> window res" where
  "validate_window v expected_minutes =
     rbind (object_of v) (\<lambda>data.
     rbind (exact_keys data
       [''window_duration_minutes'', ''used_percent'', ''remaining_percent'', ''resets_at'']
       []) (\<lambda>_.
     rbind (integer (jgetn data ''window_duration_minutes'') 1 100000) (\<lambda>dur.
     rbind (guard (dur = expected_minutes) ''SIGNAL_INVALID'') (\<lambda>_.
     rbind (number (jgetn data ''used_percent'') 0 100) (\<lambda>used.
     rbind (number (jgetn data ''remaining_percent'') 0 100) (\<lambda>rem.
     rbind (guard (\<not> \<bar>(100 - used) - rem\<bar> > 1 / 1000000) ''SIGNAL_INVALID'') (\<lambda>_.
     rbind (number (jgetn data ''resets_at'') 0 32503680000) (\<lambda>ra.
       Inr \<lparr>window_duration_minutes = dur, used_percent = used, remaining_percent = rem,
            resets_at = ra\<rparr>))))))))"

definition opt_text :: "json \<Rightarrow> nat \<Rightarrow> string option res" where
  "opt_text v m = (if v = JNull then Inr None else rbind (str v False m) (\<lambda>s. Inr (Some s)))"

definition expected_credit_signal :: "string \<Rightarrow> string" where
  "expected_credit_signal st =
     (if st = ''available'' then ''present'' else if st = ''unavailable'' then ''absent'' else ''unknown'')"

definition validate_snapshot :: "json \<Rightarrow> snapshot res" where
  "validate_snapshot v =
     rbind (object_of v) (\<lambda>data.
     rbind (exact_keys data
       [''schema_version'', ''observed_at'', ''source'', ''profile_key'', ''limit_id'',
        ''account_fingerprint'', ''account_type'', ''plan_type'', ''credit_signal'',
        ''paid_credit_state'', ''spend_control_state'', ''rate_limit_reached_type'',
        ''five_hour'', ''weekly''] []) (\<lambda>_.
     rbind (guard (jget data ''schema_version'' = Some (JStr SNAPSHOT_SCHEMA_VERSION))
       ''SCHEMA_UNSUPPORTED'') (\<lambda>_.
     rbind (one_of (jgetn data ''source'') [''codex_app_server'', ''fixture'']) (\<lambda>src.
     rbind (opt_text (jgetn data ''plan_type'') 64) (\<lambda>plan.
     rbind (opt_text (jgetn data ''rate_limit_reached_type'') 64) (\<lambda>reached.
     rbind (one_of (jgetn data ''credit_signal'') [''absent'', ''present'', ''unknown'']) (\<lambda>cs.
     rbind (one_of (jgetn data ''paid_credit_state'') [''available'', ''unavailable'', ''unknown'']) (\<lambda>pcs.
     rbind (one_of (jgetn data ''spend_control_state'') [''reached'', ''not_reached'', ''unknown'']) (\<lambda>scs.
     rbind (guard (cs = expected_credit_signal pcs) ''SIGNAL_INVALID'') (\<lambda>_.
     rbind (hex_digest (jgetn data ''account_fingerprint'')) (\<lambda>fp.
     rbind (number (jgetn data ''observed_at'') 0 32503680000) (\<lambda>oa.
     rbind (str (jgetn data ''profile_key'') True 256) (\<lambda>pk.
     rbind (str (jgetn data ''limit_id'') True 256) (\<lambda>li.
     rbind (str (jgetn data ''account_type'') True 256) (\<lambda>aty.
     rbind (validate_window (jgetn data ''five_hour'') FIVE_HOUR_MINUTES) (\<lambda>fh.
     rbind (validate_window (jgetn data ''weekly'') WEEKLY_MINUTES) (\<lambda>wk.
       Inr \<lparr>observed_at = oa, source = src, profile_key = pk, limit_id = li,
            account_fingerprint = fp, account_type = aty, plan_type = plan,
            credit_signal = cs, paid_credit_state = pcs, spend_control_state = scs,
            rate_limit_reached_type = reached, five_hour = fh, weekly = wk\<rparr>)))))))))))))))))"

definition window_dict :: "window \<Rightarrow> json" where
  "window_dict w = JObj
     [(''window_duration_minutes'', JInt (window_duration_minutes w)),
      (''used_percent'', JNum (used_percent w)),
      (''remaining_percent'', JNum (remaining_percent w)),
      (''resets_at'', JNum (resets_at w))]"

definition opt_str :: "string option \<Rightarrow> json" where
  "opt_str v = (case v of None \<Rightarrow> JNull | Some s \<Rightarrow> JStr s)"

definition snapshot_dict :: "snapshot \<Rightarrow> json" where
  "snapshot_dict s = JObj
     [(''schema_version'', JStr SNAPSHOT_SCHEMA_VERSION),
      (''observed_at'', JNum (observed_at s)),
      (''source'', JStr (source s)),
      (''profile_key'', JStr (profile_key s)),
      (''limit_id'', JStr (limit_id s)),
      (''account_fingerprint'', JStr (account_fingerprint s)),
      (''account_type'', JStr (account_type s)),
      (''plan_type'', opt_str (plan_type s)),
      (''credit_signal'', JStr (credit_signal s)),
      (''paid_credit_state'', JStr (paid_credit_state s)),
      (''spend_control_state'', JStr (spend_control_state s)),
      (''rate_limit_reached_type'', opt_str (rate_limit_reached_type s)),
      (''five_hour'', window_dict (five_hour s)),
      (''weekly'', window_dict (weekly s))]"

definition window_ok :: "int \<Rightarrow> window \<Rightarrow> bool" where
  "window_ok m w \<longleftrightarrow> window_duration_minutes w = m \<and> 1 \<le> m \<and> m \<le> 100000
     \<and> 0 \<le> used_percent w \<and> used_percent w \<le> 100
     \<and> 0 \<le> remaining_percent w \<and> remaining_percent w \<le> 100
     \<and> \<bar>(100 - used_percent w) - remaining_percent w\<bar> \<le> 1 / 1000000
     \<and> 0 \<le> resets_at w \<and> resets_at w \<le> 32503680000"

definition hex_ok :: "string \<Rightarrow> bool" where
  "hex_ok s \<longleftrightarrow> length s = 64 \<and> list_all (\<lambda>c. c \<in> set ''0123456789abcdef'') s"

definition opt_ok :: "string option \<Rightarrow> bool" where
  "opt_ok v \<longleftrightarrow> (case v of None \<Rightarrow> True | Some s \<Rightarrow> text_ok 64 s)"

definition snapshot_ok :: "snapshot \<Rightarrow> bool" where
  "snapshot_ok s \<longleftrightarrow> 0 \<le> observed_at s \<and> observed_at s \<le> 32503680000
     \<and> source s \<in> {''codex_app_server'', ''fixture''}
     \<and> ident_ok (profile_key s) \<and> ident_ok (limit_id s) \<and> hex_ok (account_fingerprint s)
     \<and> ident_ok (account_type s) \<and> opt_ok (plan_type s) \<and> opt_ok (rate_limit_reached_type s)
     \<and> paid_credit_state s \<in> {''available'', ''unavailable'', ''unknown''}
     \<and> spend_control_state s \<in> {''reached'', ''not_reached'', ''unknown''}
     \<and> credit_signal s = expected_credit_signal (paid_credit_state s)
     \<and> window_ok FIVE_HOUR_MINUTES (five_hour s) \<and> window_ok WEEKLY_MINUTES (weekly s)"

lemma hex_digest_ok [simp]: "hex_digest v = Inr s \<longleftrightarrow> v = JStr s \<and> hex_ok s"
  by (auto simp: hex_digest_Inr hex_ok_def)

lemma opt_text_ok: "opt_text v 64 = Inr r \<Longrightarrow> opt_ok r"
  by (auto simp: opt_text_def opt_ok_def split: if_splits)

lemma opt_text_opt_str [simp]: "opt_ok r \<Longrightarrow> opt_text (opt_str r) 64 = Inr r"
  by (cases r) (auto simp: opt_text_def opt_str_def opt_ok_def)

lemma validate_window_ok: "validate_window v m = Inr w \<Longrightarrow> window_ok m w"
  by (clarsimp simp: validate_window_def window_ok_def dest!: number_bounds)

lemma validate_window_dict [simp]: "window_ok m w \<Longrightarrow> validate_window (window_dict w) m = Inr w"
  by (simp add: validate_window_def window_dict_def window_ok_def exact_keys_Inr jkeys_def
      jgetn_def)

lemma validate_snapshot_ok:
  assumes "validate_snapshot v = Inr s"
  shows "snapshot_ok s"
  using assms unfolding validate_snapshot_def snapshot_ok_def
  by (clarsimp dest!: validate_window_ok opt_text_ok number_bounds)

lemma expected_credit_signal_cases:
  "expected_credit_signal s \<in> {''absent'', ''present'', ''unknown''}"
  by (simp add: expected_credit_signal_def)

lemma validate_snapshot_dict [simp]:
  assumes "snapshot_ok s"
  shows "validate_snapshot (snapshot_dict s) = Inr s"
  using assms expected_credit_signal_cases [of "paid_credit_state s"]
  by (simp add: validate_snapshot_def snapshot_dict_def snapshot_ok_def exact_keys_Inr jkeys_def
      jgetn_def jget_def insert_commute)

text \<open>\<open>ensure_profile\<close>: the snapshot must belong to the configured profile and limit bucket.\<close>

definition ensure_profile :: "snapshot \<Rightarrow> string \<Rightarrow> string \<Rightarrow> unit res" where
  "ensure_profile s cfg_profile cfg_limit =
     (let limit_mismatch = (cfg_limit \<noteq> ''auto'' \<and> limit_id s \<noteq> cfg_limit)
      in guard (\<not> (profile_key s \<noteq> cfg_profile \<or> limit_mismatch)) ''PROFILE_MISMATCH'')"

end
