(* ===== verification/Policy.thy ===== *)
theory Policy
  imports Documents
begin

text \<open>
  policy.py: the fail-closed dual-window reserve policy. \<open>evaluate_policy\<close> takes the latest
  validated quota snapshot (or none), the policy, the time and the expected usage of a job, and
  returns the decision the dispatcher acts on. The lemmas characterise eligibility exactly, bound
  what an eligible job can use, and show that eligibility is monotone in the usage estimate and in
  the remaining quota.
\<close>

definition SIGNAL_REASON_CODES :: "string list" where
  "SIGNAL_REASON_CODES =
    [''SIGNAL_MISSING'', ''SIGNAL_STALE'', ''SIGNAL_INVALID'', ''PROFILE_MISMATCH'',
     ''ACCOUNT_IDENTITY_UNAVAILABLE'', ''RATE_LIMIT_REACHED'']"

record window_view =
  guarded_estimate_percent :: rat
  post_run_remaining_percent :: rat
  view_remaining_percent :: rat
  reserve_percent :: rat
  view_resets_at :: rat
  safe :: bool

record decision =
  decision_credit_signal :: "string option"
  eligible :: bool
  reasons :: "string list"
  signal_age_seconds :: "rat option"
  signal_status :: string
  windows :: "(string \<times> window_view) list"

definition missing_decision :: decision where
  "missing_decision =
     \<lparr>decision_credit_signal = None, eligible = False, reasons = [''SIGNAL_MISSING''],
      signal_age_seconds = None, signal_status = ''missing'', windows = []\<rparr>"

definition invalid_signal_decision :: "string \<Rightarrow> decision" where
  "invalid_signal_decision reason =
     \<lparr>decision_credit_signal = None, eligible = False, reasons = [reason],
      signal_age_seconds = None, signal_status = ''invalid'', windows = []\<rparr>"

definition zero_usage :: usage where
  "zero_usage = \<lparr>five_hour_percent = 0, weekly_percent = 0\<rparr>"

text \<open>The loop body over one window definition: its reason codes and its view.\<close>

definition window_view_of :: "window \<Rightarrow> rat \<Rightarrow> rat \<Rightarrow> rat \<Rightarrow> window_view" where
  "window_view_of w expected multiplier reserve =
     (let guarded = expected * multiplier; post = remaining_percent w - guarded
      in \<lparr>guarded_estimate_percent = guarded, post_run_remaining_percent = post,
          view_remaining_percent = remaining_percent w, reserve_percent = reserve,
          view_resets_at = resets_at w, safe = (post \<ge> reserve)\<rparr>)"

definition window_reasons :: "window \<Rightarrow> rat \<Rightarrow> window_view \<Rightarrow> string \<Rightarrow> string list" where
  "window_reasons w now view code =
     (if resets_at w \<le> now then [''SIGNAL_STALE''] else []) @ (if safe view then [] else [code])"

definition age_reasons :: "rat \<Rightarrow> policy \<Rightarrow> string list" where
  "age_reasons age p =
     (if age < -60 then [''SIGNAL_INVALID'']
      else if age > of_int (max_snapshot_age_seconds p) then [''SIGNAL_STALE'']
      else [])"

definition reached_reasons :: "snapshot \<Rightarrow> string list" where
  "reached_reasons s =
     (case rate_limit_reached_type s of
        None \<Rightarrow> [] | Some r \<Rightarrow> (if r = [] then [] else [''RATE_LIMIT_REACHED'']))"

definition evaluate_policy ::
    "snapshot option \<Rightarrow> policy \<Rightarrow> rat \<Rightarrow> usage option \<Rightarrow> decision" where
  "evaluate_policy snap p now usage_opt =
     (case snap of
        None \<Rightarrow> missing_decision
      | Some s \<Rightarrow>
          let expected = (case usage_opt of None \<Rightarrow> zero_usage | Some u \<Rightarrow> u);
              age = now - observed_at s;
              fh = window_view_of (five_hour s) (five_hour_percent expected)
                     (estimate_multiplier p) (five_hour_reserve_percent p);
              wk = window_view_of (weekly s) (weekly_percent expected)
                     (estimate_multiplier p) (weekly_reserve_percent p);
              rs = sorted_set
                     (age_reasons age p @ reached_reasons s
                      @ window_reasons (five_hour s) now fh ''FIVE_HOUR_RESERVE''
                      @ window_reasons (weekly s) now wk ''WEEKLY_RESERVE'')
          in \<lparr>decision_credit_signal = Some (credit_signal s), eligible = (rs = []), reasons = rs,
              signal_age_seconds = Some age,
              signal_status =
                (if ''SIGNAL_STALE'' \<in> set rs then ''stale''
                 else if ''SIGNAL_INVALID'' \<in> set rs then ''invalid'' else ''fresh''),
              windows = [(''five_hour'', fh), (''weekly'', wk)]\<rparr>)"

definition has_signal_failure :: "decision \<Rightarrow> bool" where
  "has_signal_failure d = list_ex (\<lambda>r. r \<in> set SIGNAL_REASON_CODES) (reasons d)"

section \<open>What a decision means\<close>

text \<open>The reserve that must remain after a run, and the guarded estimate.\<close>

definition keeps_reserve :: "window \<Rightarrow> rat \<Rightarrow> rat \<Rightarrow> rat \<Rightarrow> bool" where
  "keeps_reserve w expected multiplier reserve \<longleftrightarrow>
     remaining_percent w - expected * multiplier \<ge> reserve"

definition signal_fresh :: "snapshot \<Rightarrow> policy \<Rightarrow> rat \<Rightarrow> bool" where
  "signal_fresh s p now \<longleftrightarrow>
     now - observed_at s \<ge> -60 \<and> now - observed_at s \<le> of_int (max_snapshot_age_seconds p)
     \<and> now < resets_at (five_hour s) \<and> now < resets_at (weekly s)"

definition not_reached :: "snapshot \<Rightarrow> bool" where
  "not_reached s \<longleftrightarrow> rate_limit_reached_type s = None \<or> rate_limit_reached_type s = Some []"

lemma safe_window_view [simp]:
  "safe (window_view_of w e m r) \<longleftrightarrow> keeps_reserve w e m r"
  by (simp add: window_view_of_def keeps_reserve_def Let_def)

lemma age_reasons_Nil: "age_reasons a p = [] \<longleftrightarrow> -60 \<le> a \<and> a \<le> of_int (max_snapshot_age_seconds p)"
  by (auto simp: age_reasons_def)

lemma reached_reasons_Nil: "reached_reasons s = [] \<longleftrightarrow> not_reached s"
  by (auto simp: reached_reasons_def not_reached_def split: option.splits)

lemma window_reasons_Nil:
  "window_reasons w now v c = [] \<longleftrightarrow> now < resets_at w \<and> safe v"
  by (auto simp: window_reasons_def)

lemmas reasons_Nil = age_reasons_Nil reached_reasons_Nil window_reasons_Nil

lemma reasons_evaluate_policy:
  "reasons (evaluate_policy (Some s) p now u) =
     (let e = (case u of None \<Rightarrow> zero_usage | Some v \<Rightarrow> v) in
      sorted_set
        (age_reasons (now - observed_at s) p @ reached_reasons s
         @ window_reasons (five_hour s) now
             (window_view_of (five_hour s) (five_hour_percent e) (estimate_multiplier p)
               (five_hour_reserve_percent p)) ''FIVE_HOUR_RESERVE''
         @ window_reasons (weekly s) now
             (window_view_of (weekly s) (weekly_percent e) (estimate_multiplier p)
               (weekly_reserve_percent p)) ''WEEKLY_RESERVE''))"
  by (simp add: evaluate_policy_def Let_def)

lemma eligible_iff_no_reasons: "eligible (evaluate_policy sn p now u) \<longleftrightarrow> reasons (evaluate_policy sn p now u) = []"
  by (cases sn) (simp_all add: evaluate_policy_def missing_decision_def Let_def)

lemma eligible_Some:
  "eligible (evaluate_policy (Some s) p now (Some u)) \<longleftrightarrow>
     signal_fresh s p now \<and> not_reached s
     \<and> keeps_reserve (five_hour s) (five_hour_percent u) (estimate_multiplier p) (five_hour_reserve_percent p)
     \<and> keeps_reserve (weekly s) (weekly_percent u) (estimate_multiplier p) (weekly_reserve_percent p)"
  by (auto simp: eligible_iff_no_reasons reasons_evaluate_policy Let_def reasons_Nil signal_fresh_def)

lemma eligible_None_usage:
  "eligible (evaluate_policy sn p now None) \<longleftrightarrow> eligible (evaluate_policy sn p now (Some zero_usage))"
  by (cases sn) (simp_all add: evaluate_policy_def Let_def)

lemma not_eligible_missing [simp]: "\<not> eligible (evaluate_policy None p now u)"
  by (simp add: evaluate_policy_def missing_decision_def)

lemma list_ex_sorted_set [simp]: "list_ex P (sorted_set xs) \<longleftrightarrow> list_ex P xs"
  by (simp add: list_ex_iff)

lemma signal_age_reasons:
  "list_ex (\<lambda>r. r \<in> set SIGNAL_REASON_CODES) (age_reasons a p) \<longleftrightarrow> age_reasons a p \<noteq> []"
  by (simp add: age_reasons_def SIGNAL_REASON_CODES_def)

lemma signal_reached_reasons:
  "list_ex (\<lambda>r. r \<in> set SIGNAL_REASON_CODES) (reached_reasons s) \<longleftrightarrow> reached_reasons s \<noteq> []"
  by (simp add: reached_reasons_def SIGNAL_REASON_CODES_def split: option.split)

lemma signal_window_reasons:
  "c \<notin> set SIGNAL_REASON_CODES \<Longrightarrow>
   list_ex (\<lambda>r. r \<in> set SIGNAL_REASON_CODES) (window_reasons w now v c) \<longleftrightarrow> resets_at w \<le> now"
  by (simp add: window_reasons_def SIGNAL_REASON_CODES_def)

lemma reserve_codes_not_signal:
  "''FIVE_HOUR_RESERVE'' \<notin> set SIGNAL_REASON_CODES" "''WEEKLY_RESERVE'' \<notin> set SIGNAL_REASON_CODES"
  by (simp_all add: SIGNAL_REASON_CODES_def)

lemma signal_failure_iff:
  "has_signal_failure (evaluate_policy (Some s) p now u) \<longleftrightarrow> \<not> (signal_fresh s p now \<and> not_reached s)"
proof -
  have "has_signal_failure (evaluate_policy (Some s) p now u) \<longleftrightarrow>
      age_reasons (now - observed_at s) p \<noteq> [] \<or> reached_reasons s \<noteq> []
      \<or> resets_at (five_hour s) \<le> now \<or> resets_at (weekly s) \<le> now"
    unfolding has_signal_failure_def reasons_evaluate_policy Let_def list_ex_sorted_set list_ex_append
      signal_age_reasons signal_reached_reasons
      signal_window_reasons [OF reserve_codes_not_signal(1)]
      signal_window_reasons [OF reserve_codes_not_signal(2)] ..
  then show ?thesis
    by (auto simp: reasons_Nil signal_fresh_def)
qed

lemma signal_failure_not_eligible:
  "has_signal_failure (evaluate_policy sn p now u) \<Longrightarrow> \<not> eligible (evaluate_policy sn p now u)"
  by (auto simp: has_signal_failure_def eligible_iff_no_reasons)

lemma keeps_reserve_mono:
  assumes "keeps_reserve w e m r" and "0 \<le> m" and "e' \<le> e" and "remaining_percent w \<le> remaining_percent w'"
  shows "keeps_reserve w' e' m r"
proof -
  have "e' * m \<le> e * m"
    using assms(2,3) by (simp add: mult_right_mono)
  then show ?thesis
    using assms(1,4) by (simp add: keeps_reserve_def)
qed

lemma keeps_reserve_bound:
  assumes "keeps_reserve w e m r" and "1 \<le> m" and "0 \<le> e"
  shows "remaining_percent w - e \<ge> r"
proof -
  have "e * 1 \<le> e * m"
    using assms(2,3) by (intro mult_left_mono) auto
  then show ?thesis
    using assms(1) by (simp add: keeps_reserve_def)
qed

section \<open>Properties\<close>

text \<open>
  C16. Admission is exactly the documented conjunction: a job is eligible if and only if a snapshot
  exists, the signal is fresh (at most 60 seconds in the future, at most the configured age, neither
  window past its reset), no rate limit is reported reached, and after subtracting the estimate
  times the margin both windows keep their reserve; a job without estimate counts as zero usage.
\<close>

theorem evaluate_policy_eligible_iff:
  "eligible (evaluate_policy snap p now u) \<longleftrightarrow>
     (case snap of None \<Rightarrow> False
      | Some s \<Rightarrow>
          (let e = (case u of None \<Rightarrow> zero_usage | Some v \<Rightarrow> v) in
           signal_fresh s p now \<and> not_reached s
           \<and> remaining_percent (five_hour s) - five_hour_percent e * estimate_multiplier p
               \<ge> five_hour_reserve_percent p
           \<and> remaining_percent (weekly s) - weekly_percent e * estimate_multiplier p
               \<ge> weekly_reserve_percent p))"
  by (cases snap; cases u) (simp_all add: eligible_None_usage eligible_Some keeps_reserve_def)

text \<open>
  An admitted job whose usage stays within its own estimate cannot take either window below
  the configured reserve: for a validated policy and a validated estimate, actual usage at most the
  expected usage leaves at least the reserve.
\<close>

theorem eligible_job_keeps_reserve:
  assumes "validate_policy pv = Inr p"
    and "validate_usage uv = Inr u"
    and "eligible (evaluate_policy (Some s) p now (Some u))"
    and "five_hour_percent a \<le> five_hour_percent u"
    and "weekly_percent a \<le> weekly_percent u"
  shows "remaining_percent (five_hour s) - five_hour_percent a \<ge> five_hour_reserve_percent p
    \<and> remaining_percent (weekly s) - weekly_percent a \<ge> weekly_reserve_percent p"
proof -
  have p: "1 \<le> estimate_multiplier p"
    using validate_policy_ok [OF assms(1)] by (simp add: policy_ok_def)
  have u: "0 \<le> five_hour_percent u" "0 \<le> weekly_percent u"
    using validate_usage_ok [OF assms(2)] by (simp_all add: usage_ok_def)
  from assms(3) have "keeps_reserve (five_hour s) (five_hour_percent u) (estimate_multiplier p) (five_hour_reserve_percent p)"
    and "keeps_reserve (weekly s) (weekly_percent u) (estimate_multiplier p) (weekly_reserve_percent p)"
    by (simp_all add: eligible_Some)
  from this [THEN keeps_reserve_bound, OF p] u assms(4,5) show ?thesis
    by force
qed

text \<open>
  The policy is monotone: a job that is admitted stays admitted with a smaller estimate and
  more remaining quota, all else equal.
\<close>

theorem evaluate_policy_monotone:
  assumes "policy_ok p"
    and "eligible (evaluate_policy (Some s) p now (Some u))"
    and "five_hour_percent u' \<le> five_hour_percent u" and "weekly_percent u' \<le> weekly_percent u"
    and "f \<ge> remaining_percent (five_hour s)" and "w \<ge> remaining_percent (weekly s)"
  shows "eligible (evaluate_policy
     (Some (s\<lparr>five_hour := (five_hour s)\<lparr>remaining_percent := f\<rparr>,
              weekly := (weekly s)\<lparr>remaining_percent := w\<rparr>\<rparr>)) p now (Some u'))"
proof -
  have m: "0 \<le> estimate_multiplier p"
    using assms(1) by (simp add: policy_ok_def)
  from assms(2) have k: "keeps_reserve (five_hour s) (five_hour_percent u) (estimate_multiplier p) (five_hour_reserve_percent p)"
      "keeps_reserve (weekly s) (weekly_percent u) (estimate_multiplier p) (weekly_reserve_percent p)"
    by (simp_all add: eligible_Some)
  show ?thesis
    using assms(2) keeps_reserve_mono [OF k(1) m assms(3)] keeps_reserve_mono [OF k(2) m assms(4)] assms(5,6)
    by (simp add: eligible_Some signal_fresh_def not_reached_def)
qed

section \<open>A concrete policy and snapshot\<close>

definition sample_policy :: policy where
  "sample_policy = \<lparr>five_hour_reserve_percent = 10, weekly_reserve_percent = 10,
     estimate_multiplier = 5 / 4, max_snapshot_age_seconds = 300, lease_seconds = 60,
     max_concurrency = 1\<rparr>"

definition sample_window :: "int \<Rightarrow> rat \<Rightarrow> rat \<Rightarrow> window" where
  "sample_window m used resets =
     \<lparr>window_duration_minutes = m, used_percent = used, remaining_percent = 100 - used,
      resets_at = resets\<rparr>"

definition sample_snapshot :: snapshot where
  "sample_snapshot = \<lparr>observed_at = 1000, source = ''fixture'', profile_key = ''default'',
     limit_id = ''codex'',
     account_fingerprint = replicate 64 (CHR ''a''),
     account_type = ''chatgpt'', plan_type = Some ''pro'', credit_signal = ''absent'',
     paid_credit_state = ''unavailable'', spend_control_state = ''not_reached'',
     rate_limit_reached_type = None,
     five_hour = sample_window 300 20 5000, weekly = sample_window 10080 30 90000\<rparr>"

definition sample_usage :: usage where
  "sample_usage = \<lparr>five_hour_percent = 8, weekly_percent = 4\<rparr>"

lemma sample_policy_ok: "policy_ok sample_policy"
  by (simp add: sample_policy_def policy_ok_def)

lemma sample_usage_ok: "usage_ok sample_usage"
  by (simp add: sample_usage_def usage_ok_def)

lemma sample_eligible: "eligible (evaluate_policy (Some sample_snapshot) sample_policy 1010 (Some sample_usage))"
  by (simp add: eligible_Some signal_fresh_def not_reached_def keeps_reserve_def sample_snapshot_def
      sample_policy_def sample_usage_def sample_window_def)

theorem eligible_job_keeps_reserve_witness:
  "remaining_percent (five_hour sample_snapshot) - 8 \<ge> five_hour_reserve_percent sample_policy
   \<and> remaining_percent (weekly sample_snapshot) - 4 \<ge> weekly_reserve_percent sample_policy"
  using eligible_job_keeps_reserve
    [OF validate_policy_dict [OF sample_policy_ok] validate_usage_dict [OF sample_usage_ok]
        sample_eligible order_refl order_refl]
  by (simp add: sample_usage_def)

theorem evaluate_policy_monotone_witness:
  "eligible (evaluate_policy
     (Some (sample_snapshot\<lparr>five_hour := (five_hour sample_snapshot)\<lparr>remaining_percent := 85\<rparr>,
              weekly := (weekly sample_snapshot)\<lparr>remaining_percent := 75\<rparr>\<rparr>)) sample_policy 1010
     (Some zero_usage))"
  by (rule evaluate_policy_monotone [OF sample_policy_ok sample_eligible])
     (simp_all add: zero_usage_def sample_usage_def sample_snapshot_def sample_window_def)

end
