(* ===== verification/GuardDecision.thy ===== *)
theory GuardDecision
  imports Policy
begin

text \<open>
  quota_guard.py, the pure part: reading a quota snapshot fail-closed, deciding that a guard must
  contain its tasks (\<open>decide_trip\<close>) and that it may resume them (\<open>decide_resume\<close>). The snapshot is
  any JSON value: the functions decide on malformed and stale signals too. The lemmas show that an
  unusable signal always contains and never resumes, that a resume proves the reset of every window
  that caused the stop, and that a decision to resume is never at odds with a decision to trip.
\<close>

section \<open>Reading the snapshot\<close>

definition WINDOW_NAMES :: "string list" where
  "WINDOW_NAMES = [''five_hour'', ''weekly'']"

definition GUARD_SIGNAL_REASON_CODES :: "string list" where
  "GUARD_SIGNAL_REASON_CODES =
    [''SIGNAL_MISSING'', ''SIGNAL_STALE'', ''SIGNAL_INVALID'', ''SIGNAL_AMBIGUOUS'',
     ''PROFILE_MISMATCH'', ''ACCOUNT_IDENTITY_UNAVAILABLE'']"

fun qnumber :: "json \<Rightarrow> rat option res" where
  "qnumber (JInt n) = rbind (float_of_int n) (\<lambda>q. Inr (Some q))"
| "qnumber (JFlt (Fin q)) = Inr (Some q)"
| "qnumber _ = Inr None"

record gwin =
  g_remaining :: rat
  g_used :: rat
  g_resets :: rat

record gwindows =
  gw_five_hour :: gwin
  gw_weekly :: gwin

definition gw_of :: "gwindows \<Rightarrow> string \<Rightarrow> gwin" where
  "gw_of ws name = (if name = ''five_hour'' then gw_five_hour ws else gw_weekly ws)"

text \<open>The body of the loop over \<open>WINDOW_NAMES\<close>: None rejects the whole snapshot.\<close>

definition window_value :: "json \<Rightarrow> gwin option res" where
  "window_value v =
     (case v of
        JObj fs \<Rightarrow>
          rbind (qnumber (jgetn fs ''remaining_percent'')) (\<lambda>rem.
          rbind (qnumber (jgetn fs ''used_percent'')) (\<lambda>used.
          rbind (qnumber (jgetn fs ''resets_at'')) (\<lambda>resets.
            (case (rem, used, resets) of
               (Some r, Some u, Some t) \<Rightarrow>
                 Inr (if \<not> (0 \<le> r \<and> r \<le> 100) \<or> \<not> (0 \<le> u \<and> u \<le> 100) then None
                      else if t \<le> 0 then None
                      else if \<bar>(100 - u) - r\<bar> > 1 / 1000000 then None
                      else Some \<lparr>g_remaining = r, g_used = u, g_resets = t\<rparr>)
             | _ \<Rightarrow> Inr None))))
      | _ \<Rightarrow> Inr None)"

definition window_values :: "json \<Rightarrow> gwindows option res" where
  "window_values v =
     (case v of
        JObj fs \<Rightarrow>
          rbind (window_value (jgetn fs ''five_hour'')) (\<lambda>fh.
            (case fh of
               None \<Rightarrow> Inr None
             | Some f \<Rightarrow>
                 rbind (window_value (jgetn fs ''weekly'')) (\<lambda>wk.
                   Inr (map_option (\<lambda>w. \<lparr>gw_five_hour = f, gw_weekly = w\<rparr>) wk))))
      | _ \<Rightarrow> Inr None)"

text \<open>ASCII case mapping, for \<open>str.upper\<close> and \<open>str.lower\<close> of the marker names.\<close>

definition upper_char :: "char \<Rightarrow> char" where
  "upper_char c = (let n = (of_char c :: nat) in if 97 \<le> n \<and> n \<le> 122 then char_of (n - 32) else c)"

definition lower_char :: "char \<Rightarrow> char" where
  "lower_char c = (let n = (of_char c :: nat) in if 65 \<le> n \<and> n \<le> 90 then char_of (n + 32) else c)"

definition removeprefix :: "string \<Rightarrow> string \<Rightarrow> string" where
  "removeprefix p s = (if take (length p) s = p then drop (length p) s else s)"

fun str_values :: "json list \<Rightarrow> string list" where
  "str_values [] = []"
| "str_values (JStr s # xs) = s # str_values xs"
| "str_values (_ # xs) = str_values xs"

definition marker_reasons :: "(string \<times> json) list \<Rightarrow> string list" where
  "marker_reasons fs = (case jget fs ''reasons'' of Some (JArr xs) \<Rightarrow> str_values xs | _ \<Rightarrow> [])"

text \<open>The signal status, the windows (only for a fresh signal) and the reasons.\<close>

type_synonym signal = "string \<times> gwindows option \<times> string list"

definition stale_at :: "gwindows \<Rightarrow> rat \<Rightarrow> bool" where
  "stale_at ws t \<longleftrightarrow> g_resets (gw_five_hour ws) \<le> t \<or> g_resets (gw_weekly ws) \<le> t"

definition signal_at :: "gwindows \<Rightarrow> rat \<Rightarrow> rat option \<Rightarrow> rat \<Rightarrow> signal" where
  "signal_at w t now max_age =
     (let compare_at = (case now of None \<Rightarrow> t | Some n \<Rightarrow> n); age = compare_at - t
      in if age < -60 then (''invalid'', None, [''SIGNAL_INVALID''])
         else if age > max_age then (''stale'', None, [''SIGNAL_STALE''])
         else if stale_at w compare_at then (''stale'', None, [''SIGNAL_STALE''])
         else (''fresh'', Some w, []))"

definition signal_of_windows ::
    "(string \<times> json) list \<Rightarrow> rat option \<Rightarrow> rat \<Rightarrow> signal res" where
  "signal_of_windows fs now max_age =
     rbind (window_values (JObj fs)) (\<lambda>ws.
       (case ws of
          None \<Rightarrow> Inr (''invalid'', None, [''SIGNAL_INVALID''])
        | Some w \<Rightarrow>
            rbind (qnumber (jgetn fs ''observed_at'')) (\<lambda>obs.
              (case obs of
                 None \<Rightarrow> Inr (''invalid'', None, [''SIGNAL_INVALID''])
               | Some t \<Rightarrow> Inr (signal_at w t now max_age)))))"

definition guard_signal_status :: "json \<Rightarrow> rat option \<Rightarrow> rat \<Rightarrow> signal res" where
  "guard_signal_status v now max_age =
     (case v of
        JNull \<Rightarrow> Inr (''missing'', None, [''SIGNAL_MISSING''])
      | JObj fs \<Rightarrow>
          (let marker = jgetn fs ''signal_status''; mr = marker_reasons fs;
               codes = filter (\<lambda>c. c \<in> set mr) GUARD_SIGNAL_REASON_CODES
           in rbind (in_strings marker [''missing'', ''stale'', ''invalid'', ''ambiguous'']) (\<lambda>marked.
              if marked then
                (case marker of
                   JStr m \<Rightarrow> Inr (m, None, [''SIGNAL_'' @ map upper_char m])
                 | _ \<Rightarrow> Inr (''invalid'', None, [''SIGNAL_INVALID'']))
              else if jget fs ''ambiguous'' = Some (JBool True) \<or> ''SIGNAL_AMBIGUOUS'' \<in> set mr then
                Inr (''ambiguous'', None, [''SIGNAL_AMBIGUOUS''])
              else if codes \<noteq> [] then
                (let code = hd (sort codes)
                 in Inr (map lower_char (removeprefix ''SIGNAL_'' code), None, [code]))
              else signal_of_windows fs now max_age))
      | _ \<Rightarrow> Inr (''invalid'', None, [''SIGNAL_INVALID'']))"

section \<open>Deciding to stop\<close>

record trip_decision =
  should_trip :: bool
  contain :: bool
  trip_status :: string
  trip_reasons :: "string list"
  reason_code :: "string option"
  tripped_windows :: "string list"

fun dedup :: "'a list \<Rightarrow> 'a list" where
  "dedup [] = []"
| "dedup (x # xs) = x # filter (\<lambda>y. y \<noteq> x) (dedup xs)"

definition mk_decision ::
    "bool \<Rightarrow> bool \<Rightarrow> string \<Rightarrow> string list \<Rightarrow> string list \<Rightarrow> trip_decision" where
  "mk_decision trip cont status rs tripped =
     (let reason_values = dedup rs
      in \<lparr>should_trip = trip, contain = cont, trip_status = status, trip_reasons = reason_values,
          reason_code = (case reason_values of [] \<Rightarrow> None | r # _ \<Rightarrow> Some r),
          tripped_windows = dedup (filter (\<lambda>n. n \<in> set WINDOW_NAMES) tripped)\<rparr>)"

definition windows_at_or_below :: "gwindows \<Rightarrow> rat \<Rightarrow> string list" where
  "windows_at_or_below ws threshold =
     filter (\<lambda>n. g_remaining (gw_of ws n) \<le> threshold) WINDOW_NAMES"

definition decide_trip :: "json \<Rightarrow> json \<Rightarrow> rat option \<Rightarrow> rat \<Rightarrow> trip_decision res" where
  "decide_trip snap threshold_value now max_age =
     rbind (qnumber threshold_value) (\<lambda>thr.
       (case thr of
          None \<Rightarrow> Inr (mk_decision True True ''invalid'' [''SIGNAL_INVALID''] [])
        | Some threshold \<Rightarrow>
            if threshold < 0 \<or> threshold > 100 then
              Inr (mk_decision True True ''invalid'' [''SIGNAL_INVALID''] [])
            else
              rbind (guard_signal_status snap now max_age) (\<lambda>(status, ws, rs).
                (case ws of
                   Some w \<Rightarrow>
                     if status \<noteq> ''fresh'' then
                       Inr (mk_decision True True status (if rs = [] then [''SIGNAL_INVALID''] else rs) [])
                     else
                       (let tripped = windows_at_or_below w threshold
                        in Inr (mk_decision (tripped \<noteq> []) (tripped \<noteq> []) ''fresh''
                             (if tripped \<noteq> [] then [''QUOTA_THRESHOLD''] else []) tripped))
                 | None \<Rightarrow>
                     Inr (mk_decision True True status (if rs = [] then [''SIGNAL_INVALID''] else rs) [])))))"

section \<open>Deciding to resume\<close>

fun hashable :: "json \<Rightarrow> bool" where
  "hashable (JArr _) = False"
| "hashable (JObj _) = False"
| "hashable _ = True"

definition names_among :: "string list \<Rightarrow> string list" where
  "names_among xs = filter (\<lambda>n. n \<in> set xs) WINDOW_NAMES"

definition stop_trip_windows :: "json \<Rightarrow> rat \<Rightarrow> string list option \<Rightarrow> string list res" where
  "stop_trip_windows stop threshold explicit =
     (case explicit of
        Some xs \<Rightarrow> Inr (names_among xs)
      | None \<Rightarrow>
          (let fs = obj_fields stop;
               fallback =
                 rbind (window_values (JObj fs)) (\<lambda>ws.
                   Inr (case ws of None \<Rightarrow> [] | Some w \<Rightarrow> windows_at_or_below w threshold))
           in (case jget fs ''tripped_windows'' of
                 Some (JArr xs) \<Rightarrow>
                   if list_all hashable xs
                   then (if names_among (str_values xs) \<noteq> [] then Inr (names_among (str_values xs))
                         else fallback)
                   else Inl (PyExc ''TypeError'')
               | _ \<Rightarrow> fallback)))"

record resume_decision =
  safe_to_resume :: bool
  resume_status :: string
  resume_reasons :: "string list"
  reset_confirmed :: bool
  hysteresis_met :: bool
  resume_windows :: "string list"

definition no_resume :: "string \<Rightarrow> string list \<Rightarrow> string list \<Rightarrow> resume_decision" where
  "no_resume status rs caused =
     \<lparr>safe_to_resume = False, resume_status = status, resume_reasons = rs,
      reset_confirmed = False, hysteresis_met = False, resume_windows = caused\<rparr>"

definition window_reset :: "gwindows \<Rightarrow> gwindows \<Rightarrow> string \<Rightarrow> bool" where
  "window_reset ws stop n \<longleftrightarrow>
     g_resets (gw_of ws n) > g_resets (gw_of stop n) \<and> g_used (gw_of ws n) < g_used (gw_of stop n)"

definition resume_verdict ::
    "gwindows \<Rightarrow> gwindows \<Rightarrow> string list \<Rightarrow> rat \<Rightarrow> resume_decision" where
  "resume_verdict ws stop caused limit =
     (let hyst = list_all (\<lambda>n. g_remaining (gw_of ws n) > limit) WINDOW_NAMES;
          reset = list_all (window_reset ws stop) caused
      in \<lparr>safe_to_resume = (hyst \<and> reset), resume_status = ''fresh'',
          resume_reasons = (if hyst then [] else [''HYSTERESIS_NOT_MET''])
                           @ (if reset then [] else [''RESET_NOT_CONFIRMED'']),
          reset_confirmed = reset, hysteresis_met = hyst, resume_windows = caused\<rparr>)"

definition decide_resume ::
    "json \<Rightarrow> json \<Rightarrow> json \<Rightarrow> json \<Rightarrow> string list option \<Rightarrow> rat option \<Rightarrow> rat
     \<Rightarrow> resume_decision res" where
  "decide_resume snap stop threshold_value hysteresis_value explicit now max_age =
     rbind (qnumber threshold_value) (\<lambda>thr.
     rbind (qnumber hysteresis_value) (\<lambda>hys.
       (case (thr, hys) of
          (Some threshold, Some hysteresis) \<Rightarrow>
            if threshold < 0 \<or> hysteresis < 0 \<or> threshold > 100 \<or> hysteresis > 100 then
              Inr (no_resume ''invalid'' [''SIGNAL_INVALID''] [])
            else
              rbind (guard_signal_status snap now max_age) (\<lambda>(status, ws, rs).
                (case ws of
                   Some w \<Rightarrow>
                     if status \<noteq> ''fresh'' then
                       Inr (no_resume status (if rs = [] then [''SIGNAL_INVALID''] else rs) [])
                     else
                       rbind (window_values stop) (\<lambda>stop_windows.
                       rbind (stop_trip_windows stop threshold explicit) (\<lambda>caused.
                         (case stop_windows of
                            Some sw \<Rightarrow>
                              if caused = [] then
                                Inr (no_resume ''fresh'' [''RESET_NOT_CONFIRMED''] caused)
                              else Inr (resume_verdict w sw caused (threshold + hysteresis))
                          | None \<Rightarrow> Inr (no_resume ''fresh'' [''RESET_NOT_CONFIRMED''] caused))))
                 | None \<Rightarrow>
                     Inr (no_resume status (if rs = [] then [''SIGNAL_INVALID''] else rs) [])))
        | _ \<Rightarrow> Inr (no_resume ''invalid'' [''SIGNAL_INVALID''] []))))"


section \<open>Facts about the signal\<close>

definition usable_signal :: "json \<Rightarrow> rat option \<Rightarrow> rat \<Rightarrow> gwindows \<Rightarrow> bool" where
  "usable_signal v now max_age w \<longleftrightarrow> guard_signal_status v now max_age = Inr (''fresh'', Some w, [])"

lemma marker_codes_not_fresh:
  "list_all (\<lambda>c. map lower_char (removeprefix ''SIGNAL_'' c) \<noteq> ''fresh'') GUARD_SIGNAL_REASON_CODES"
  by code_simp

lemma marker_code_not_fresh:
  "c \<in> set GUARD_SIGNAL_REASON_CODES \<Longrightarrow> map lower_char (removeprefix ''SIGNAL_'' c) \<noteq> ''fresh''"
  by (rule marker_codes_not_fresh [unfolded list_all_iff, rule_format])

lemma hd_sort_in: "xs \<noteq> [] \<Longrightarrow> hd (sort xs) \<in> set xs"
  by (metis hd_in_set set_sort set_empty)

lemma signal_at_cases:
  "signal_at w t now a = (st, ws, rs) \<Longrightarrow>
   (ws = None \<and> st \<noteq> ''fresh'' \<and> rs \<noteq> []) \<or> (ws = Some w \<and> st = ''fresh'' \<and> rs = [])"
  by (auto simp: signal_at_def Let_def split: if_splits)

lemma signal_of_windows_cases:
  assumes "signal_of_windows fs now a = Inr (st, ws, rs)"
  shows "(ws = None \<and> st \<noteq> ''fresh'' \<and> rs \<noteq> [])
    \<or> (\<exists>w. ws = Some w \<and> st = ''fresh'' \<and> rs = [] \<and> window_values (JObj fs) = Inr (Some w))"
proof -
  obtain wo where wo: "window_values (JObj fs) = Inr wo"
    using assms by (auto simp: signal_of_windows_def)
  show ?thesis
  proof (cases wo)
    case None
    with wo assms show ?thesis by (auto simp: signal_of_windows_def)
  next
    case (Some w)
    with wo assms obtain ob where ob: "qnumber (jgetn fs ''observed_at'') = Inr ob"
      by (auto simp: signal_of_windows_def)
    show ?thesis
    proof (cases ob)
      case None
      with wo Some ob assms show ?thesis by (auto simp: signal_of_windows_def)
    next
      case t: (Some t)
      with wo Some ob assms have "signal_at w t now a = (st, ws, rs)"
        by (simp add: signal_of_windows_def)
      from signal_at_cases [OF this] wo Some show ?thesis by auto
    qed
  qed
qed

lemma guard_signal_status_cases:
  assumes "guard_signal_status v now a = Inr (st, ws, rs)"
  shows "(ws = None \<and> st \<noteq> ''fresh'' \<and> rs \<noteq> [])
    \<or> (\<exists>w. ws = Some w \<and> st = ''fresh'' \<and> rs = [] \<and> window_values v = Inr (Some w))"
proof (cases v)
  case (JObj fs)
  let ?mr = "marker_reasons fs"
  let ?codes = "filter (\<lambda>c. c \<in> set ?mr) GUARD_SIGNAL_REASON_CODES"
  have nf: "?codes \<noteq> [] \<Longrightarrow> map lower_char (removeprefix ''SIGNAL_'' (hd (sort ?codes))) \<noteq> ''fresh''"
    using hd_sort_in [of ?codes] by (intro marker_code_not_fresh) auto
  obtain marked where m: "in_strings (jgetn fs ''signal_status'') [''missing'', ''stale'', ''invalid'', ''ambiguous''] = Inr marked"
    using assms JObj by (auto simp: guard_signal_status_def Let_def)
  show ?thesis
  proof (cases marked)
    case True
    with assms JObj m show ?thesis
      by (auto simp: guard_signal_status_def Let_def)
  next
    case False
    show ?thesis
    proof (cases "jget fs ''ambiguous'' = Some (JBool True) \<or> ''SIGNAL_AMBIGUOUS'' \<in> set ?mr")
      case True
      with assms JObj m False show ?thesis
        by (auto simp: guard_signal_status_def Let_def)
    next
      case na: False
      show ?thesis
      proof (cases "?codes = []")
        case True
        with assms JObj m False na show ?thesis
          using signal_of_windows_cases [of fs now a st ws rs]
          by (simp add: guard_signal_status_def Let_def)
      next
        case c: False
        with assms JObj m False na nf [OF c] show ?thesis
          by (auto simp: guard_signal_status_def Let_def)
      qed
    qed
  qed
qed (use assms in \<open>auto simp: guard_signal_status_def\<close>)

lemma usable_signalI: "guard_signal_status v now a = Inr (st, Some w, rs) \<Longrightarrow> usable_signal v now a w"
  using guard_signal_status_cases by (fastforce simp: usable_signal_def)

lemma usable_signal_unique: "usable_signal v now a w \<Longrightarrow> usable_signal v now a w' \<Longrightarrow> w = w'"
  by (simp add: usable_signal_def)

lemma dedup_Nil [simp]: "dedup xs = [] \<longleftrightarrow> xs = []"
  by (cases xs) auto

lemma set_dedup [simp]: "set (dedup xs) = set xs"
  by (induction xs) auto

lemma contain_mk_decision [simp]: "contain (mk_decision t c st rs tr) = c"
  by (simp add: mk_decision_def Let_def)

lemma should_trip_mk_decision [simp]: "should_trip (mk_decision t c st rs tr) = t"
  by (simp add: mk_decision_def Let_def)

lemma safe_no_resume [simp]: "\<not> safe_to_resume (no_resume st rs c)"
  by (simp add: no_resume_def)

lemma windows_at_or_below_Nil:
  "windows_at_or_below w t = [] \<longleftrightarrow> t < g_remaining (gw_five_hour w) \<and> t < g_remaining (gw_weekly w)"
  by (auto simp: windows_at_or_below_def WINDOW_NAMES_def gw_of_def)

lemma decide_trip_quiet_iff:
  assumes "decide_trip snap (JNum t) now a = Inr d"
  shows "\<not> contain d \<longleftrightarrow> 0 \<le> t \<and> t \<le> 100
    \<and> (\<exists>w. usable_signal snap now a w \<and> t < g_remaining (gw_five_hour w) \<and> t < g_remaining (gw_weekly w))"
proof (cases "t < 0 \<or> t > 100")
  case True
  then have "contain d"
    using assms by (auto simp: decide_trip_def)
  then show ?thesis
    using True by auto
next
  case False
  then obtain st ws rs where g: "guard_signal_status snap now a = Inr (st, ws, rs)"
    using assms by (auto simp: decide_trip_def)
  from guard_signal_status_cases [OF g] show ?thesis
  proof (elim disjE exE conjE)
    assume "ws = None" "st \<noteq> ''fresh''" "rs \<noteq> []"
    then show ?thesis
      using assms False g by (auto simp: decide_trip_def usable_signal_def)
  next
    fix w assume w: "ws = Some w" "st = ''fresh''" "rs = []"
    then have "usable_signal snap now a w"
      using g by (simp add: usable_signal_def)
    then show ?thesis
      using assms False g w
      by (auto simp: decide_trip_def Let_def windows_at_or_below_Nil dest: usable_signal_unique)
  qed
qed

lemma decide_resume_safe:
  assumes "decide_resume snap stop (JNum t) (JNum h) ex now a = Inr d" and "safe_to_resume d"
  shows "0 \<le> t \<and> t \<le> 100 \<and> 0 \<le> h \<and> h \<le> 100
    \<and> (\<exists>w sw. usable_signal snap now a w \<and> window_values stop = Inr (Some sw)
        \<and> stop_trip_windows stop t ex = Inr (resume_windows d) \<and> resume_windows d \<noteq> []
        \<and> t + h < g_remaining (gw_five_hour w) \<and> t + h < g_remaining (gw_weekly w)
        \<and> (\<forall>n \<in> set (resume_windows d). window_reset w sw n))"
proof -
  have r: "\<not> (t < 0 \<or> h < 0 \<or> t > 100 \<or> h > 100)"
    using assms by (auto simp: decide_resume_def split: if_splits)
  then obtain st ws rs where g: "guard_signal_status snap now a = Inr (st, ws, rs)"
    using assms by (auto simp: decide_resume_def)
  from guard_signal_status_cases [OF g] show ?thesis
  proof (elim disjE exE conjE)
    assume "ws = None" "st \<noteq> ''fresh''" "rs \<noteq> []"
    then have False
      using assms r g by (auto simp: decide_resume_def)
    then show ?thesis ..
  next
    fix w assume w: "ws = Some w" "st = ''fresh''" "rs = []"
    with assms r g obtain swo caused where
      sw: "window_values stop = Inr swo" and c: "stop_trip_windows stop t ex = Inr caused"
      by (auto simp: decide_resume_def)
    obtain sw' where s: "swo = Some sw'" "caused \<noteq> []"
      using assms r g w sw c by (auto simp: decide_resume_def split: option.splits if_splits)
    then have d: "d = resume_verdict w sw' caused (t + h)"
      using assms r g w sw c by (auto simp: decide_resume_def)
    show ?thesis
      using r g w sw s c d assms(2)
      by (auto simp: usable_signal_def resume_verdict_def Let_def list_all_iff WINDOW_NAMES_def gw_of_def)
  qed
qed

section \<open>A normalized snapshot as the guard reads it\<close>

definition gwin_of :: "window \<Rightarrow> gwin" where
  "gwin_of w = \<lparr>g_remaining = remaining_percent w, g_used = used_percent w, g_resets = resets_at w\<rparr>"

definition gwindows_of :: "snapshot \<Rightarrow> gwindows" where
  "gwindows_of s = \<lparr>gw_five_hour = gwin_of (five_hour s), gw_weekly = gwin_of (weekly s)\<rparr>"

lemma window_value_window_dict:
  "window_ok m w \<Longrightarrow> 0 < resets_at w \<Longrightarrow> window_value (window_dict w) = Inr (Some (gwin_of w))"
  by (simp add: window_value_def window_dict_def window_ok_def gwin_of_def jgetn_def)

lemma window_values_snapshot_dict:
  assumes "snapshot_ok s" and "0 < resets_at (five_hour s)" and "0 < resets_at (weekly s)"
  shows "window_values (snapshot_dict s) = Inr (Some (gwindows_of s))"
proof -
  have "window_ok FIVE_HOUR_MINUTES (five_hour s)" "window_ok WEEKLY_MINUTES (weekly s)"
    using assms(1) by (simp_all add: snapshot_ok_def)
  from this [THEN window_value_window_dict] assms(2,3) show ?thesis
    by (simp add: window_values_def snapshot_dict_def jgetn_def gwindows_of_def)
qed

lemma guard_signal_status_snapshot_dict:
  assumes "snapshot_ok s" and "0 < resets_at (five_hour s)" and "0 < resets_at (weekly s)"
  shows "guard_signal_status (snapshot_dict s) (Some now) a =
    Inr (if now - observed_at s < -60 then (''invalid'', None, [''SIGNAL_INVALID''])
         else if now - observed_at s > a then (''stale'', None, [''SIGNAL_STALE''])
         else if resets_at (five_hour s) \<le> now \<or> resets_at (weekly s) \<le> now
              then (''stale'', None, [''SIGNAL_STALE''])
         else (''fresh'', Some (gwindows_of s), []))"
proof -
  obtain fs where fs: "snapshot_dict s = JObj fs" and
    g: "jgetn fs ''signal_status'' = JNull" "jget fs ''reasons'' = None" "jget fs ''ambiguous'' = None"
       "jgetn fs ''observed_at'' = JNum (observed_at s)"
    by (simp add: snapshot_dict_def jgetn_def jget_def)
  have "signal_of_windows fs (Some now) a =
    Inr (if now - observed_at s < -60 then (''invalid'', None, [''SIGNAL_INVALID''])
         else if now - observed_at s > a then (''stale'', None, [''SIGNAL_STALE''])
         else if stale_at (gwindows_of s) now then (''stale'', None, [''SIGNAL_STALE''])
         else (''fresh'', Some (gwindows_of s), []))"
    using window_values_snapshot_dict [OF assms] fs g(4)
    by (simp add: signal_of_windows_def signal_at_def Let_def)
  moreover have "marker_reasons fs = []"
    using g(2) by (simp add: marker_reasons_def)
  ultimately show ?thesis
    using fs g by (simp add: guard_signal_status_def Let_def stale_at_def gwindows_of_def gwin_of_def)
qed

section \<open>Properties\<close>


text \<open>
  C17. Resuming proves the reset: if the decision is safe to resume, the signal is usable, both
  windows are above threshold plus hysteresis, at least one window caused the stop, and for every
  window that caused it the reset time advanced and the usage fell against the stop snapshot.
\<close>

theorem decide_resume_proves_reset:
  assumes "decide_resume snap stop (JNum threshold) (JNum hysteresis) explicit now max_age = Inr d"
    and "safe_to_resume d"
  shows "\<exists>w sw. usable_signal snap now max_age w \<and> window_values stop = Inr (Some sw)
    \<and> threshold + hysteresis < g_remaining (gw_five_hour w)
    \<and> threshold + hysteresis < g_remaining (gw_weekly w)
    \<and> resume_windows d \<noteq> []
    \<and> stop_trip_windows stop threshold explicit = Inr (resume_windows d)
    \<and> (\<forall>n \<in> set (resume_windows d).
         g_resets (gw_of sw n) < g_resets (gw_of w n) \<and> g_used (gw_of w n) < g_used (gw_of sw n))"
  using decide_resume_safe [OF assms] by (auto simp: window_reset_def)

text \<open>
  No flapping: whenever a guard may resume, the same snapshot at the same time does not trip
  it again, because the hysteresis is added on top of the threshold.
\<close>

theorem resume_never_trips:
  assumes "decide_resume snap stop (JNum threshold) (JNum hysteresis) explicit now max_age = Inr d"
    and "safe_to_resume d"
  shows "\<exists>t. decide_trip snap (JNum threshold) now max_age = Inr t \<and> \<not> contain t"
proof -
  from decide_resume_safe [OF assms] obtain w where
    r: "0 \<le> threshold" "threshold \<le> 100" "0 \<le> hysteresis" and w: "usable_signal snap now max_age w"
    and q: "threshold + hysteresis < g_remaining (gw_five_hour w)"
           "threshold + hysteresis < g_remaining (gw_weekly w)"
    by blast
  have "windows_at_or_below w threshold = []"
    using r(3) q by (simp add: windows_at_or_below_Nil)
  with r w show ?thesis
    by (simp add: decide_trip_def usable_signal_def)
qed

text \<open>
  A guard that was stopped without a usable signal recorded no tripped window, and such a
  guard is never safe to resume automatically, whatever later snapshots say: it stays held until
  the operator disarms it.
\<close>

theorem signal_loss_hold_never_resumes:
  assumes "decide_resume snap stop (JNum threshold) (JNum hysteresis) (Some []) now max_age = Inr d"
  shows "\<not> safe_to_resume d"
proof
  assume "safe_to_resume d"
  from decide_resume_safe [OF assms this] show False
    by (auto simp: stop_trip_windows_def names_among_def)
qed

text \<open>
  Dispatch and containment agree: if the policy admits a job on a validated snapshot and both
  reserves are above the guard's threshold, the guard's decision on the same stored snapshot, with
  the policy's maximal age, is not to contain.
\<close>

theorem eligible_job_is_not_contained:
  assumes "snapshot_ok s" and "policy_ok p" and "usage_ok u" and "0 \<le> now"
    and "eligible (evaluate_policy (Some s) p now (Some u))"
    and "0 \<le> threshold" and "threshold < five_hour_reserve_percent p"
    and "threshold < weekly_reserve_percent p"
  shows "\<exists>d. decide_trip (snapshot_dict s) (JNum threshold) (Some now)
           (of_int (max_snapshot_age_seconds p)) = Inr d \<and> \<not> contain d"
proof -
  have f: "signal_fresh s p now"
    and k: "keeps_reserve (five_hour s) (five_hour_percent u) (estimate_multiplier p) (five_hour_reserve_percent p)"
           "keeps_reserve (weekly s) (weekly_percent u) (estimate_multiplier p) (weekly_reserve_percent p)"
    using assms(5) by (simp_all add: eligible_Some)
  have pos: "0 < resets_at (five_hour s)" "0 < resets_at (weekly s)"
    using f assms(4) by (simp_all add: signal_fresh_def)
  have st: "guard_signal_status (snapshot_dict s) (Some now) (of_int (max_snapshot_age_seconds p))
      = Inr (''fresh'', Some (gwindows_of s), [])"
    using f by (simp add: guard_signal_status_snapshot_dict [OF assms(1) pos] signal_fresh_def)
  have "0 \<le> five_hour_percent u" "0 \<le> weekly_percent u" "1 \<le> estimate_multiplier p" "five_hour_reserve_percent p \<le> 100"
    using assms(2,3) by (simp_all add: usage_ok_def policy_ok_def)
  then have "threshold < remaining_percent (five_hour s)" "threshold < remaining_percent (weekly s)"
    using keeps_reserve_bound [OF k(1)] keeps_reserve_bound [OF k(2)] assms(7,8) by auto
  then have "windows_at_or_below (gwindows_of s) threshold = []"
    by (simp add: windows_at_or_below_Nil gwindows_of_def gwin_of_def)
  with st assms(6,7) \<open>five_hour_reserve_percent p \<le> 100\<close> show ?thesis
    by (simp add: decide_trip_def)
qed

section \<open>Witnesses\<close>

text \<open>The sample snapshot (80 and 70 percent remaining) against an earlier, nearly exhausted one.\<close>

definition sample_stop_snapshot :: snapshot where
  "sample_stop_snapshot = sample_snapshot
     \<lparr>observed_at := 100, five_hour := sample_window 300 95 900, weekly := sample_window 10080 30 90000\<rparr>"

lemma sample_snapshot_ok: "snapshot_ok sample_snapshot"
  by (simp add: snapshot_ok_def sample_snapshot_def hex_ok_def ident_ok_def ident_match_def
      is_alnum_def is_ident_char_def opt_ok_def text_ok_def expected_credit_signal_def window_ok_def
      sample_window_def FIVE_HOUR_MINUTES_def WEEKLY_MINUTES_def list_all_iff)

lemma sample_stop_snapshot_ok: "snapshot_ok sample_stop_snapshot"
  using sample_snapshot_ok
  by (simp add: snapshot_ok_def sample_stop_snapshot_def window_ok_def sample_window_def
      FIVE_HOUR_MINUTES_def WEEKLY_MINUTES_def)

lemma sample_signal:
  "guard_signal_status (snapshot_dict sample_snapshot) (Some 1010) 300
   = Inr (''fresh'', Some (gwindows_of sample_snapshot), [])"
  by (subst guard_signal_status_snapshot_dict)
     (simp_all add: sample_snapshot_ok, simp_all add: sample_snapshot_def sample_window_def)

lemma sample_stop_values:
  "window_values (snapshot_dict sample_stop_snapshot) = Inr (Some (gwindows_of sample_stop_snapshot))"
  by (rule window_values_snapshot_dict [OF sample_stop_snapshot_ok])
     (simp_all add: sample_stop_snapshot_def sample_window_def)

lemmas sample_gwindows = gwindows_of_def gwin_of_def sample_stop_snapshot_def sample_snapshot_def sample_window_def

lemma sample_resume:
  "decide_resume (snapshot_dict sample_snapshot) (snapshot_dict sample_stop_snapshot) (JNum 10) (JNum 1)
     (Some [''five_hour'']) (Some 1010) 300
   = Inr \<lparr>safe_to_resume = True, resume_status = ''fresh'', resume_reasons = [],
          reset_confirmed = True, hysteresis_met = True, resume_windows = [''five_hour'']\<rparr>"
  unfolding decide_resume_def
  by (simp add: sample_signal sample_stop_values stop_trip_windows_def names_among_def WINDOW_NAMES_def
      resume_verdict_def window_reset_def gw_of_def Let_def, simp add: sample_gwindows)


theorem decide_resume_proves_reset_witness:
  "\<exists>w sw. usable_signal (snapshot_dict sample_snapshot) (Some 1010) 300 w
     \<and> window_values (snapshot_dict sample_stop_snapshot) = Inr (Some sw)
     \<and> g_used (gw_five_hour w) < g_used (gw_five_hour sw)"
  using decide_resume_proves_reset [OF sample_resume] by (auto simp: gw_of_def)

theorem resume_never_trips_witness:
  "\<exists>t. decide_trip (snapshot_dict sample_snapshot) (JNum 10) (Some 1010) 300 = Inr t \<and> \<not> contain t"
  using resume_never_trips [OF sample_resume] by simp

theorem signal_loss_hold_never_resumes_witness:
  "\<not> safe_to_resume (no_resume ''fresh'' [''RESET_NOT_CONFIRMED''] [])"
proof -
  have "decide_resume (snapshot_dict sample_snapshot) (snapshot_dict sample_stop_snapshot) (JNum 10)
      (JNum 1) (Some []) (Some 1010) 300 = Inr (no_resume ''fresh'' [''RESET_NOT_CONFIRMED''] [])"
    unfolding decide_resume_def
    by (simp add: sample_signal sample_stop_values stop_trip_windows_def names_among_def)
  then show ?thesis
    by (rule signal_loss_hold_never_resumes)
qed

theorem eligible_job_is_not_contained_witness:
  "\<exists>d. decide_trip (snapshot_dict sample_snapshot) (JNum 5) (Some 1010)
         (of_int (max_snapshot_age_seconds sample_policy)) = Inr d \<and> \<not> contain d"
  by (rule eligible_job_is_not_contained
      [OF sample_snapshot_ok sample_policy_ok sample_usage_ok _ sample_eligible])
     (simp_all add: sample_policy_def)

end
