(* ===== verification/CanonicalJson.thy ===== *)
theory CanonicalJson
  imports Prelude "HOL-Library.Multiset"
begin

text \<open>
  util.py: the canonical JSON text of a value (sorted keys, no spaces, ASCII only) and its digest.
  The two functions of the Python runtime that are not modelled, the decimal representation of a
  finite float and SHA-256 as a hexadecimal string, are the fields of the \<open>host\<close> record that every
  hashing operation takes. Nothing is assumed about them; where a result depends on a digest the
  theorem says so.
\<close>

record host =
  float_repr :: "rat \<Rightarrow> string"
  sha256_hex :: "string \<Rightarrow> string"

definition digit_char :: "nat \<Rightarrow> char" where
  "digit_char d = char_of (if d < 10 then 48 + d else 87 + d)"

fun dec_nat :: "nat \<Rightarrow> string" where
  "dec_nat n = (if n < 10 then [digit_char n] else dec_nat (n div 10) @ [digit_char (n mod 10)])"

declare dec_nat.simps [simp del]

definition dec_int :: "int \<Rightarrow> string" where
  "dec_int i = (if i < 0 then ''-'' @ dec_nat (nat (- i)) else dec_nat (nat i))"

text \<open>\<open>json.dumps(..., ensure_ascii=True)\<close>: the escape of one character.\<close>

definition escape_char :: "char \<Rightarrow> string" where
  "escape_char c =
     (let n = (of_char c :: nat) in
      if n = 34 then [char_of (92::nat), char_of (34::nat)]
      else if n = 92 then [char_of (92::nat), char_of (92::nat)]
      else if n = 10 then [char_of (92::nat), CHR ''n'']
      else if n = 13 then [char_of (92::nat), CHR ''r'']
      else if n = 9 then [char_of (92::nat), CHR ''t'']
      else if n = 12 then [char_of (92::nat), CHR ''f'']
      else if n = 8 then [char_of (92::nat), CHR ''b'']
      else if 32 \<le> n \<and> n \<le> 126 then [c]
      else [char_of (92::nat), CHR ''u'', CHR ''0'', CHR ''0'', digit_char (n div 16), digit_char (n mod 16)])"

definition quote :: "string \<Rightarrow> string" where
  "quote s = [char_of (34::nat)] @ concat (map escape_char s) @ [char_of (34::nat)]"

fun comma_join :: "string list \<Rightarrow> string" where
  "comma_join [] = []"
| "comma_join [x] = x"
| "comma_join (x # y # xs) = x @ '','' @ comma_join (y # xs)"

fun float_text :: "host \<Rightarrow> pyfloat \<Rightarrow> string" where
  "float_text h (Fin q) = float_repr h q"
| "float_text h PosInf = ''Infinity''"
| "float_text h NegInf = ''-Infinity''"
| "float_text h NaN = ''NaN''"

definition member_text :: "string \<times> string \<Rightarrow> string" where
  "member_text kv = quote (fst kv) @ '':'' @ snd kv"

primrec canonical_json :: "host \<Rightarrow> json \<Rightarrow> string" where
  "canonical_json h JNull = ''null''"
| "canonical_json h (JBool b) = (if b then ''true'' else ''false'')"
| "canonical_json h (JInt i) = dec_int i"
| "canonical_json h (JFlt f) = float_text h f"
| "canonical_json h (JStr s) = quote s"
| "canonical_json h (JArr xs) = ''['' @ comma_join (map (canonical_json h) xs) @ '']''"
| "canonical_json h (JObj fs) =
     ''{'' @ comma_join (map member_text
               (sort_key fst (map (map_prod (\<lambda>k. k) (canonical_json h)) fs))) @ ''}''"

definition payload_hash :: "host \<Rightarrow> json \<Rightarrow> string" where
  "payload_hash h v = sha256_hex h (canonical_json h v)"

text \<open>\<open>new_id(prefix)\<close> with the 32 hexadecimal digits of the fresh UUID as an input.\<close>

definition new_id :: "string \<Rightarrow> string \<Rightarrow> string" where
  "new_id prefix hex = prefix @ ''_'' @ hex"

section \<open>Key order does not matter\<close>

lemma filter_key_unique:
  "distinct (map fst zs) \<Longrightarrow> (a, b) \<in> set zs \<Longrightarrow> filter (\<lambda>x. a = fst x) zs = [(a, b)]"
proof (induction zs)
  case Nil
  then show ?case by simp
next
  case (Cons z zs)
  show ?case
  proof (cases "z = (a, b)")
    case True
    with Cons.prems(1) have "filter (\<lambda>x. a = fst x) zs = []"
      by (auto simp: filter_empty_conv)
    with True show ?thesis by simp
  next
    case False
    with Cons.prems have "(a, b) \<in> set zs" by auto
    moreover from this Cons.prems(1) have "a \<noteq> fst z"
      by (metis distinct.simps(2) fst_conv image_eqI list.map(2) set_map)
    ultimately show ?thesis using Cons by simp
  qed
qed

lemma sort_key_fst_perm:
  assumes "distinct (map fst xs)" and "mset xs = mset ys"
  shows "sort_key fst xs = sort_key fst ys"
proof (rule properties_for_sort_key)
  show "mset (sort_key fst ys) = mset xs"
    using assms(2) by simp
  have d: "distinct (map fst (sort_key fst ys))"
    using assms by (metis mset_map mset_eq_imp_distinct_iff mset_sort)
  fix k assume k: "k \<in> set (sort_key fst ys)"
  obtain a b where ab: "k = (a, b)" by (cases k)
  have "(a, b) \<in> set xs"
    using k ab assms(2) by (metis mset_eq_setD set_sort)
  then show "filter (\<lambda>x. fst k = fst x) (sort_key fst ys) = filter (\<lambda>x. fst k = fst x) xs"
    using filter_key_unique [OF assms(1)] filter_key_unique [OF d] k ab by simp
qed simp

text \<open>
  Two dictionaries with the same items in any insertion order have the same canonical text, hence
  the same digest.
\<close>

lemma canonical_json_key_order:
  assumes "distinct (map fst fs)" and "mset fs = mset gs"
  shows "canonical_json h (JObj fs) = canonical_json h (JObj gs)"
proof -
  let ?f = "map_prod (\<lambda>k. k) (canonical_json h)"
  have "distinct (map fst (map ?f fs))"
    using assms(1) by (simp add: comp_def)
  moreover have "mset (map ?f fs) = mset (map ?f gs)"
    using assms(2) by simp
  ultimately have "sort_key fst (map ?f fs) = sort_key fst (map ?f gs)"
    by (rule sort_key_fst_perm)
  then show ?thesis by simp
qed

end
