(* ===== verification/Store.thy ===== *)
theory Store
  imports Documents CanonicalJson
begin

text \<open>
  store.py: the SQLite tables and the operations every component shares. A table is the list of its
  rows in rowid order; a TEXT column that holds JSON holds the decoded value (for the audit details,
  None is text that does not decode). UPDATE maps over the rows and its rowcount is the number of
  rows its WHERE matches; INSERT appends and raises IntegrityError on a duplicate key. The body of a
  transaction is a function from the database to a result and the new database, so that an exception
  leaves the database as it was (\<open>transact\<close> in Prelude).
\<close>

section \<open>Rows\<close>

datatype guard_session_state = ARMED | STOPPING | HELD_QUOTA | RESUMING | NEEDS_REVIEW | DISARMED

datatype guard_target_state =
    T_MONITORING | T_STOPPING | T_HELD | T_RESUMING | T_RESUMED | T_COMPLETED | T_NEEDS_REVIEW

datatype lease_state = lease_active | lease_expired | lease_failed | lease_completed | lease_completed_overrun

datatype run_state =
    run_starting | run_running | run_succeeded | run_failed | run_interrupted | run_blocked | run_needs_review

datatype run_kind = canary | work

datatype proposal_state = proposed | proposal_approved

record controller_row =
  mode :: controller_mode
  controller_reason :: "string option"
  controller_updated_at :: rat

record policy_row =
  policy_version :: int
  policy_json :: json
  policy_row_hash :: string
  policy_updated_at :: rat

record snapshot_row =
  snap_id :: string
  snap_observed_at :: rat
  snap_json :: json
  snap_hash :: string

record binding_row =
  bind_profile :: string
  bind_fingerprint :: string
  bind_account_type :: string
  bind_plan :: "string option"
  bind_first :: rat
  bind_last :: rat

record approval_row =
  appr_id :: string
  appr_action :: string
  appr_actor :: string
  appr_scope :: string
  appr_capabilities :: json
  appr_granted :: rat
  appr_expires :: rat
  appr_hash :: string

record job_row =
  jr_id :: string
  jr_work_ref :: string
  jr_priority :: int
  jr_state :: job_state
  jr_manifest :: json
  jr_manifest_hash :: string
  jr_approval :: string
  jr_created :: rat
  jr_updated :: rat

record proposal_row =
  pr_id :: string
  pr_work_ref :: string
  pr_priority :: int
  pr_state :: proposal_state
  pr_package :: json
  pr_hash :: string
  pr_created :: rat
  pr_updated :: rat
  pr_approved_at :: "rat option"

record lease_row =
  ls_id :: string
  ls_job :: string
  ls_owner :: string
  ls_state :: lease_state
  ls_acquired :: rat
  ls_expires :: rat
  ls_completed :: "rat option"

record idem_row =
  idem_key :: string
  idem_command :: string
  idem_request_hash :: string
  idem_result :: json
  idem_created :: rat

record run_row =
  rn_id :: string
  rn_job :: "string option"
  rn_kind :: run_kind
  rn_state :: run_state
  rn_thread :: "string option"
  rn_turn :: "string option"
  rn_started :: rat
  rn_updated :: rat
  rn_lease_expires :: rat
  rn_lease_owner :: "string option"
  rn_completed :: "rat option"
  rn_stop_reason :: "string option"

datatype service_lease_state = svc_active | svc_released

record service_lease_row =
  sl_id :: string
  sl_owner :: string
  sl_state :: service_lease_state
  sl_acquired :: rat
  sl_heartbeat :: rat
  sl_expires :: rat
  sl_released :: "rat option"

record notification_row =
  nt_event_id :: string
  nt_dedupe :: string
  nt_event :: json
  nt_sink :: string
  nt_delivered :: "rat option"

record audit_row =
  au_sequence :: nat
  au_event_id :: string
  au_occurred_at :: rat
  au_event_type :: string
  au_actor :: string
  au_details :: "json option"
  au_previous_hash :: string
  au_event_hash :: string

record guard_session =
  gs_id :: string
  gs_state :: guard_session_state
  gs_profile_key :: string
  gs_limit_id :: string
  gs_threshold :: rat
  gs_hysteresis :: rat
  gs_interval :: int
  gs_resume_non_goal :: bool
  gs_approval :: string
  gs_plan_hash :: string
  gs_stop_snapshot_hash :: "string option"
  gs_tripped_windows :: "string list"
  gs_next_check_at :: rat
  gs_last_checked_at :: "rat option"
  gs_reason :: "string option"
  gs_revision :: int
  gs_created_at :: rat
  gs_updated_at :: rat

record guard_target =
  gt_guard :: string
  gt_thread :: string
  gt_state :: guard_target_state
  gt_original_status :: "string option"
  gt_original_turn :: "string option"
  gt_goal_was_active :: bool
  gt_goal_changed :: bool
  gt_goal_pause_at :: "int option"
  gt_reason :: "string option"
  gt_revision :: int
  gt_created_at :: rat
  gt_updated_at :: rat

record db =
  controller_t :: "controller_row option"
  policies_t :: "policy_row option"
  snapshots_t :: "snapshot_row list"
  bindings_t :: "binding_row list"
  approvals_t :: "approval_row list"
  jobs_t :: "job_row list"
  proposals_t :: "proposal_row list"
  leases_t :: "lease_row list"
  idem_t :: "idem_row list"
  runs_t :: "run_row list"
  service_lease_t :: "service_lease_row option"
  notifications_t :: "notification_row list"
  audit_t :: "audit_row list"
  sessions_t :: "guard_session list"
  targets_t :: "guard_target list"

definition empty_db :: db where
  "empty_db = \<lparr>controller_t = None, policies_t = None, snapshots_t = [], bindings_t = [],
     approvals_t = [], jobs_t = [], proposals_t = [], leases_t = [], idem_t = [], runs_t = [],
     service_lease_t = None, notifications_t = [], audit_t = [], sessions_t = [], targets_t = []\<rparr>"

section \<open>UPDATE and its row count\<close>

definition update_where :: "('r \<Rightarrow> bool) \<Rightarrow> ('r \<Rightarrow> 'r) \<Rightarrow> 'r list \<Rightarrow> 'r list" where
  "update_where P f rows = map (\<lambda>r. if P r then f r else r) rows"

definition row_count :: "('r \<Rightarrow> bool) \<Rightarrow> 'r list \<Rightarrow> nat" where
  "row_count P rows = length (filter P rows)"

definition fetchone :: "('r \<Rightarrow> bool) \<Rightarrow> 'r list \<Rightarrow> 'r option" where
  "fetchone P rows = find P rows"

lemma length_update_where [simp]: "length (update_where P f rows) = length rows"
  by (simp add: update_where_def)

lemma row_count_0 [simp]: "row_count P rows = 0 \<longleftrightarrow> (\<forall>r \<in> set rows. \<not> P r)"
  by (simp add: row_count_def filter_empty_conv)

lemma update_where_none [simp]: "(\<And>r. r \<in> set rows \<Longrightarrow> \<not> P r) \<Longrightarrow> update_where P f rows = rows"
  by (simp add: update_where_def map_idI)

lemma map_update_where:
  "(\<And>r. g (f r) = g r) \<Longrightarrow> map g (update_where P f rows) = map g rows"
  by (auto simp: update_where_def)

lemma in_update_where:
  "x \<in> set (update_where P f rows) \<longleftrightarrow> (\<exists>r \<in> set rows. x = (if P r then f r else r))"
  by (auto simp: update_where_def)

lemma update_where_cases:
  "x \<in> set (update_where P f rows) \<Longrightarrow> (\<exists>r \<in> set rows. P r \<and> x = f r) \<or> x \<in> set rows \<and> \<not> P x"
  by (auto simp: update_where_def split: if_splits)

lemma filter_update_length:
  "(\<And>x. Q x \<Longrightarrow> P (f x) \<Longrightarrow> P x) \<Longrightarrow> length (filter P (update_where Q f xs)) \<le> length (filter P xs)"
  by (induction xs) (auto simp: update_where_def le_SucI)

lemma fetchone_Some: "fetchone P rows = Some r \<Longrightarrow> r \<in> set rows \<and> P r"
  by (auto simp: fetchone_def find_Some_iff)

lemma fetchone_None: "fetchone P rows = None \<longleftrightarrow> (\<forall>r \<in> set rows. \<not> P r)"
  by (auto simp: fetchone_def find_None_iff)

lemma fetchone_unique:
  assumes "distinct (map k rows)" and "r \<in> set rows"
  shows "fetchone (\<lambda>x. k x = k r) rows = Some r"
proof -
  obtain x where x: "fetchone (\<lambda>x. k x = k r) rows = Some x"
    using assms(2) by (cases "fetchone (\<lambda>x. k x = k r) rows") (auto simp: fetchone_None)
  with fetchone_Some [OF x] assms have "x = r"
    by (auto simp: distinct_map inj_on_def)
  with x show ?thesis by simp
qed

section \<open>The audit chain\<close>

definition genesis_hash :: string where
  "genesis_hash = replicate 64 (CHR ''0'')"

definition audit_body :: "string \<Rightarrow> json \<Rightarrow> string \<Rightarrow> string \<Rightarrow> rat \<Rightarrow> string \<Rightarrow> json" where
  "audit_body who details event_id event_type occ prev = JObj
     [(''actor'', JStr who), (''details'', details), (''event_id'', JStr event_id),
      (''event_type'', JStr event_type), (''occurred_at'', JNum occ), (''previous_hash'', JStr prev)]"

definition last_event_hash :: "audit_row list \<Rightarrow> string" where
  "last_event_hash rows = (if rows = [] then genesis_hash else au_event_hash (last rows))"

definition audit_entry ::
    "host \<Rightarrow> string \<Rightarrow> string \<Rightarrow> string \<Rightarrow> json \<Rightarrow> rat \<Rightarrow> audit_row list \<Rightarrow> audit_row" where
  "audit_entry h event_id event_type who details now rows =
     (let prev = last_event_hash rows
      in \<lparr>au_sequence = Suc (length rows), au_event_id = event_id, au_occurred_at = now,
          au_event_type = event_type, au_actor = who, au_details = Some details,
          au_previous_hash = prev,
          au_event_hash = payload_hash h (audit_body who details event_id event_type now prev)\<rparr>)"

text \<open>
  \<open>append_audit\<close>: the table's UNIQUE columns are the event id and the event hash. Events are never
  deleted, so the autoincremented sequence is the row's position.
\<close>

definition append_audit ::
    "host \<Rightarrow> string \<Rightarrow> string \<Rightarrow> string \<Rightarrow> json \<Rightarrow> rat \<Rightarrow> db \<Rightarrow> (string \<times> db) res" where
  "append_audit h event_id event_type who details now d =
     (let rows = audit_t d; r = audit_entry h event_id event_type who details now rows
      in if event_id \<in> set (map au_event_id rows) \<or> au_event_hash r \<in> set (map au_event_hash rows)
         then Inl (PyExc ''IntegrityError'')
         else Inr (event_id, d\<lparr>audit_t := rows @ [r]\<rparr>))"

record audit_report =
  event_count :: nat
  first_invalid_sequence :: "nat option"
  valid :: bool

definition row_hash_matches :: "host \<Rightarrow> audit_row \<Rightarrow> bool" where
  "row_hash_matches h r =
     (case au_details r of
        None \<Rightarrow> False
      | Some details \<Rightarrow>
          payload_hash h (audit_body (au_actor r) details (au_event_id r) (au_event_type r)
            (au_occurred_at r) (au_previous_hash r)) = au_event_hash r)"

fun first_invalid :: "host \<Rightarrow> string \<Rightarrow> audit_row list \<Rightarrow> nat option" where
  "first_invalid h expected [] = None"
| "first_invalid h expected (r # rs) =
     (if au_previous_hash r \<noteq> expected then Some (au_sequence r)
      else if \<not> row_hash_matches h r then Some (au_sequence r)
      else first_invalid h (au_event_hash r) rs)"

definition verify_audit :: "host \<Rightarrow> db \<Rightarrow> audit_report" where
  "verify_audit h d =
     (let rows = sort_key au_sequence (audit_t d); bad = first_invalid h genesis_hash rows
      in \<lparr>event_count = length rows, first_invalid_sequence = bad, valid = (bad = None)\<rparr>)"

text \<open>The rows chained from a given hash, as a predicate.\<close>

fun chain_ok :: "host \<Rightarrow> string \<Rightarrow> audit_row list \<Rightarrow> bool" where
  "chain_ok h expected [] = True"
| "chain_ok h expected (r # rs) =
     (au_previous_hash r = expected \<and> row_hash_matches h r \<and> chain_ok h (au_event_hash r) rs)"

text \<open>Sequence numbers are consecutive from 1, as the autoincrement leaves them.\<close>

definition audit_numbered :: "db \<Rightarrow> bool" where
  "audit_numbered d \<longleftrightarrow> map au_sequence (audit_t d) = [1 ..< Suc (length (audit_t d))]"

lemma first_invalid_None: "first_invalid h e rows = None \<longleftrightarrow> chain_ok h e rows"
  by (induction h e rows rule: first_invalid.induct) auto

lemma chain_ok_append:
  "chain_ok h e (rows @ [r]) \<longleftrightarrow>
     chain_ok h e rows \<and> au_previous_hash r = (if rows = [] then e else au_event_hash (last rows))
     \<and> row_hash_matches h r"
  by (induction h e rows rule: chain_ok.induct) auto

lemma audit_numbered_sorted: "audit_numbered d \<Longrightarrow> sort_key au_sequence (audit_t d) = audit_t d"
  by (intro sort_key_id_if_sorted) (simp add: audit_numbered_def del: upt_Suc)

lemma row_hash_matches_entry: "row_hash_matches h (audit_entry h i t w det n rows)"
  by (simp add: row_hash_matches_def audit_entry_def Let_def)

lemma verify_audit_chain: "audit_numbered d \<Longrightarrow> valid (verify_audit h d) \<longleftrightarrow> chain_ok h genesis_hash (audit_t d)"
  by (simp add: verify_audit_def Let_def audit_numbered_sorted first_invalid_None)

lemma append_audit_Inr:
  "append_audit h i t w det n d = Inr (j, d') \<Longrightarrow>
   j = i \<and> d' = d\<lparr>audit_t := audit_t d @ [audit_entry h i t w det n (audit_t d)]\<rparr>"
  by (auto simp: append_audit_def Let_def split: if_splits)

lemma append_audit_numbered:
  assumes "append_audit h i t w det n d = Inr (j, d')" and "audit_numbered d"
  shows "audit_numbered d'"
  using append_audit_Inr [OF assms(1)] assms(2)
  by (simp add: audit_numbered_def audit_entry_def Let_def)

lemma append_audit_valid:
  assumes "append_audit h i t w det n d = Inr (j, d')" and "audit_numbered d"
    and "valid (verify_audit h d)"
  shows "valid (verify_audit h d')"
proof -
  have "chain_ok h genesis_hash (audit_t d')"
    using append_audit_Inr [OF assms(1)] assms(3) verify_audit_chain [OF assms(2)]
    by (simp add: chain_ok_append row_hash_matches_entry)
       (simp add: audit_entry_def last_event_hash_def Let_def)
  then show ?thesis
    using verify_audit_chain [OF append_audit_numbered [OF assms(1,2)]] by simp
qed

subsection \<open>Properties of the chain\<close>

text \<open>
  C8. Appending an event keeps the audit chain valid: if the chain verifies before, it verifies
  after, and the verification counts exactly one more event.
\<close>

theorem append_audit_keeps_chain_valid:
  assumes "append_audit h event_id event_type who details now d = Inr (j, d')"
    and "audit_numbered d" and "valid (verify_audit h d)"
  shows "valid (verify_audit h d') \<and> event_count (verify_audit h d') = Suc (event_count (verify_audit h d))"
  using append_audit_valid [OF assms] append_audit_Inr [OF assms(1)]
  by (simp add: verify_audit_def Let_def)

definition weak_host :: host where
  "weak_host = \<lparr>float_repr = (\<lambda>_. ''0.0''), sha256_hex = (\<lambda>_. ''00'')\<rparr>"

definition event_db :: "host \<Rightarrow> string \<Rightarrow> db" where
  "event_db h note = empty_db\<lparr>audit_t := [audit_entry h ''audit-1'' ''policy.updated'' ''user'' (JStr note) 7 []]\<rparr>"

lemma append_event_db:
  "append_audit h ''audit-1'' ''policy.updated'' ''user'' (JStr note) 7 empty_db = Inr (''audit-1'', event_db h note)"
  by (simp add: append_audit_def event_db_def empty_db_def Let_def)

lemma event_db_ok [simp]: "audit_numbered (event_db h note)" "valid (verify_audit h (event_db h note))"
proof -
  have "audit_numbered empty_db" "valid (verify_audit h empty_db)"
    by (simp_all add: audit_numbered_def empty_db_def verify_audit_def Let_def)
  then show "audit_numbered (event_db h note)" "valid (verify_audit h (event_db h note))"
    using append_audit_numbered [OF append_event_db] append_audit_valid [OF append_event_db] by auto
qed

theorem append_audit_keeps_chain_valid_witness:
  "valid (verify_audit weak_host (event_db weak_host ''x'')) \<and> event_count (verify_audit weak_host (event_db weak_host ''x'')) = 1"
  using append_audit_keeps_chain_valid [OF append_event_db [of weak_host]]
  by (simp add: audit_numbered_def empty_db_def verify_audit_def Let_def)

definition row_body :: "audit_row \<Rightarrow> json" where
  "row_body r = audit_body (au_actor r) (the (au_details r)) (au_event_id r) (au_event_type r)
     (au_occurred_at r) (au_previous_hash r)"

lemma row_hash_matches_body:
  "row_hash_matches h r \<Longrightarrow> payload_hash h (row_body r) = au_event_hash r \<and> au_details r \<noteq> None"
  by (auto simp: row_hash_matches_def row_body_def split: option.splits)

lemma row_body_inj:
  assumes "row_body r = row_body q" and "row_hash_matches h r" and "row_hash_matches h q"
    and "au_sequence r = au_sequence q"
  shows "r = q"
  using assms row_hash_matches_body [OF assms(2)] row_hash_matches_body [OF assms(3)]
  by (cases r; cases q) (auto simp: row_body_def audit_body_def)

definition bodies_collide :: "host \<Rightarrow> audit_row list \<Rightarrow> audit_row list \<Rightarrow> bool" where
  "bodies_collide h rs qs \<longleftrightarrow>
     (\<exists>i < length rs. row_body (rs ! i) \<noteq> row_body (qs ! i)
        \<and> payload_hash h (row_body (rs ! i)) = payload_hash h (row_body (qs ! i)))"

lemma bodies_collide_snoc:
  assumes "length rs = length qs" and "bodies_collide h rs qs"
  shows "bodies_collide h (rs @ [r]) (qs @ [q])"
proof -
  from assms(2) obtain i where i: "i < length rs" "row_body (rs ! i) \<noteq> row_body (qs ! i)"
      "payload_hash h (row_body (rs ! i)) = payload_hash h (row_body (qs ! i))"
    by (auto simp: bodies_collide_def)
  with assms(1) show ?thesis
    unfolding bodies_collide_def by (intro exI [of _ i]) (simp add: nth_append)
qed

lemma chains_equal_or_collide:
  assumes "length rs = length qs" and "chain_ok h e rs" and "chain_ok h e qs"
    and "map au_sequence rs = map au_sequence qs"
    and "rs \<noteq> [] \<longrightarrow> au_event_hash (last rs) = au_event_hash (last qs)"
  shows "rs = qs \<or> bodies_collide h rs qs"
  using assms
proof (induction rs qs rule: rev_induct2)
  case 1
  then show ?case by simp
next
  case (4 r rs q qs)
  have m: "row_hash_matches h r" "row_hash_matches h q" and c: "chain_ok h e rs" "chain_ok h e qs"
    and prev: "au_previous_hash r = (if rs = [] then e else au_event_hash (last rs))"
      "au_previous_hash q = (if qs = [] then e else au_event_hash (last qs))"
    using 4(3,4) by (simp_all add: chain_ok_append)
  have len: "length rs = length qs" and sq: "au_sequence r = au_sequence q" "map au_sequence rs = map au_sequence qs"
    using 4(2,5) by simp_all
  have hq: "payload_hash h (row_body r) = payload_hash h (row_body q)"
    using 4(6) row_hash_matches_body [OF m(1)] row_hash_matches_body [OF m(2)] by simp
  show ?case
  proof (cases "row_body r = row_body q")
    case False
    with hq len show ?thesis
      unfolding bodies_collide_def by (intro disjI2 exI [of _ "length rs"]) (simp add: nth_append)
  next
    case True
    then have "r = q"
      using m sq(1) by (rule row_body_inj)
    moreover have "rs \<noteq> [] \<longrightarrow> au_event_hash (last rs) = au_event_hash (last qs)"
      using prev \<open>r = q\<close> len by (cases "qs = []") auto
    then have "rs = qs \<or> bodies_collide h rs qs"
      using 4(1) len c sq(2) by blast
    ultimately show ?thesis
      using bodies_collide_snoc [OF len] by blast
  qed
qed simp_all

text \<open>
  Tamper evidence: two audit tables that both verify, hold the same number of events and end in
  the same hash are identical, unless two different event bodies at the same position have the
  same digest (a SHA-256 collision that the proof exhibits). Rewriting history behind an unchanged
  last hash therefore needs a collision.
\<close>

theorem audit_tamper_evident:
  assumes "audit_numbered d" and "audit_numbered d'"
    and "valid (verify_audit h d)" and "valid (verify_audit h d')"
    and "length (audit_t d) = length (audit_t d')"
    and "last_event_hash (audit_t d) = last_event_hash (audit_t d')"
  shows "audit_t d = audit_t d' \<or> bodies_collide h (audit_t d) (audit_t d')"
proof (rule chains_equal_or_collide)
  show "chain_ok h genesis_hash (audit_t d)" "chain_ok h genesis_hash (audit_t d')"
    using assms(1-4) verify_audit_chain by blast+
  show "map au_sequence (audit_t d) = map au_sequence (audit_t d')"
    using assms(1,2,5) by (simp add: audit_numbered_def)
  show "audit_t d \<noteq> [] \<longrightarrow> au_event_hash (last (audit_t d)) = au_event_hash (last (audit_t d'))"
    using assms(5,6) by (auto simp: last_event_hash_def split: if_splits)
qed (fact assms(5))

theorem audit_tamper_evident_witness:
  "bodies_collide weak_host (audit_t (event_db weak_host ''x'')) (audit_t (event_db weak_host ''y''))"
proof -
  have "last_event_hash (audit_t (event_db weak_host ''x'')) = last_event_hash (audit_t (event_db weak_host ''y''))"
    "length (audit_t (event_db weak_host ''x'')) = length (audit_t (event_db weak_host ''y''))"
    "audit_t (event_db weak_host ''x'') \<noteq> audit_t (event_db weak_host ''y'')"
    by (simp_all add: event_db_def audit_entry_def payload_hash_def weak_host_def last_event_hash_def Let_def)
  with audit_tamper_evident [of "event_db weak_host ''x''" "event_db weak_host ''y''" weak_host]
  show ?thesis by simp
qed

lemma first_invalid_Some:
  "first_invalid h e rows = Some n \<Longrightarrow>
   \<exists>pre r post. rows = pre @ r # post \<and> au_sequence r = n \<and> chain_ok h e pre
     \<and> (au_previous_hash r \<noteq> (if pre = [] then e else au_event_hash (last pre)) \<or> \<not> row_hash_matches h r)"
proof (induction h e rows rule: first_invalid.induct)
  case (1 h e)
  then show ?case by simp
next
  case (2 h e r rs)
  show ?case
  proof (cases "au_previous_hash r = e \<and> row_hash_matches h r")
    case False
    with "2.prems" have "au_sequence r = n" by (auto split: if_splits)
    with False show ?thesis
      by (intro exI [of _ "[]"] exI [of _ r] exI [of _ rs]) auto
  next
    case True
    with 2 obtain pre q post where "rs = pre @ q # post" "au_sequence q = n"
        "chain_ok h (au_event_hash r) pre"
        "au_previous_hash q \<noteq> (if pre = [] then au_event_hash r else au_event_hash (last pre))
          \<or> \<not> row_hash_matches h q"
      by auto
    with True show ?thesis
      by (intro exI [of _ "r # pre"] exI [of _ q] exI [of _ post]) auto
  qed
qed

text \<open>
  Verification points at the first bad event: when it reports a sequence, the rows before that
  event form a valid chain, and the reported event either does not continue it or does not match
  its own hash.
\<close>

theorem verify_audit_first_invalid:
  assumes "first_invalid_sequence (verify_audit h d) = Some n"
  shows "\<exists>pre r post. sort_key au_sequence (audit_t d) = pre @ r # post \<and> au_sequence r = n
    \<and> chain_ok h genesis_hash pre
    \<and> (au_previous_hash r \<noteq> last_event_hash pre \<or> \<not> row_hash_matches h r)"
  using first_invalid_Some [of h genesis_hash "sort_key au_sequence (audit_t d)" n] assms
  by (auto simp: verify_audit_def Let_def last_event_hash_def)

theorem verify_audit_first_invalid_witness:
  "\<exists>pre r post. map (\<lambda>r. r\<lparr>au_previous_hash := ''forged''\<rparr>) (audit_t (event_db weak_host ''x'')) = pre @ r # post
    \<and> au_sequence r = 1"
  using verify_audit_first_invalid
    [of weak_host "empty_db\<lparr>audit_t := map (\<lambda>r. r\<lparr>au_previous_hash := ''forged''\<rparr>) (audit_t (event_db weak_host ''x''))\<rparr>" 1]
  by (simp add: verify_audit_def event_db_def audit_entry_def genesis_hash_def Let_def)
     (auto simp: Cons_eq_append_conv)

end
