(* ===== verification/StoreOps.thy ===== *)
theory StoreOps
  imports Store
begin

text \<open>
  store.py: idempotency records, the controller row, the service lease, notification events and the
  reconciliation queries. Each operation is the body of its transaction. The lemmas show that an
  idempotency key runs its operation at most once and binds it to one request, that the service
  lease excludes a second supervisor, and that a notification is reserved once per dedupe key.
\<close>

section \<open>Initialisation\<close>

definition bootstrap :: "host \<Rightarrow> json \<Rightarrow> rat \<Rightarrow> db \<Rightarrow> db" where
  "bootstrap h pol now d =
     d\<lparr>controller_t :=
         (case controller_t d of
            None \<Rightarrow> Some \<lparr>mode = PAUSED, controller_reason = Some ''INITIALIZED_FAIL_CLOSED'',
                         controller_updated_at = now\<rparr>
          | Some c \<Rightarrow> Some c),
       policies_t :=
         (case policies_t d of
            None \<Rightarrow> Some \<lparr>policy_version = 1, policy_json = pol, policy_row_hash = payload_hash h pol,
                         policy_updated_at = now\<rparr>
          | Some p \<Rightarrow> Some p)\<rparr>"

definition controller :: "db \<Rightarrow> controller_row res" where
  "controller d = (case controller_t d of None \<Rightarrow> Inl (Sched ''STATE_INVALID'') | Some c \<Rightarrow> Inr c)"

definition set_controller :: "controller_mode \<Rightarrow> string option \<Rightarrow> rat \<Rightarrow> db \<Rightarrow> db" where
  "set_controller m reason now d =
     d\<lparr>controller_t := map_option
         (\<lambda>c. c\<lparr>mode := m, controller_reason := reason, controller_updated_at := now\<rparr>)
         (controller_t d)\<rparr>"

definition stored_policy :: "db \<Rightarrow> policy_row res" where
  "stored_policy d = (case policies_t d of None \<Rightarrow> Inl (Sched ''STATE_INVALID'') | Some p \<Rightarrow> Inr p)"

text \<open>\<open>ORDER BY observed_at DESC, rowid DESC LIMIT 1\<close>: the last among the newest.\<close>

fun newest :: "snapshot_row list \<Rightarrow> snapshot_row option" where
  "newest [] = None"
| "newest (r # rs) =
     (case newest rs of
        None \<Rightarrow> Some r
      | Some q \<Rightarrow> if snap_observed_at q \<ge> snap_observed_at r then Some q else Some r)"

definition latest_snapshot :: "db \<Rightarrow> json option" where
  "latest_snapshot d = map_option snap_json (newest (snapshots_t d))"

definition quota_snapshot_by_hash :: "string \<Rightarrow> db \<Rightarrow> json option" where
  "quota_snapshot_by_hash hash d =
     map_option snap_json (fetchone (\<lambda>r. snap_hash r = hash) (snapshots_t d))"

definition account_binding :: "string \<Rightarrow> db \<Rightarrow> binding_row option" where
  "account_binding profile d = fetchone (\<lambda>b. bind_profile b = profile) (bindings_t d)"

section \<open>Idempotency\<close>

definition valid_key :: "string \<Rightarrow> bool" where
  "valid_key key \<longleftrightarrow> key \<noteq> [] \<and> length key \<le> 200"

definition execute_idempotent ::
    "host \<Rightarrow> string \<Rightarrow> string \<Rightarrow> json \<Rightarrow> rat \<Rightarrow> (db \<Rightarrow> (json \<times> db) res) \<Rightarrow> db
     \<Rightarrow> ((json \<times> bool) \<times> db) res" where
  "execute_idempotent h key command request now operation d =
     rbind (guard (valid_key key) ''IDEMPOTENCY_REQUIRED'') (\<lambda>_.
       (let digest = payload_hash h request in
        (case fetchone (\<lambda>r. idem_key r = key) (idem_t d) of
           Some r \<Rightarrow>
             if idem_command r \<noteq> command \<or> idem_request_hash r \<noteq> digest
             then Inl (Sched ''IDEMPOTENCY_CONFLICT'')
             else Inr ((idem_result r, True), d)
         | None \<Rightarrow>
             rbind (operation d) (\<lambda>(result, d').
               if key \<in> set (map idem_key (idem_t d')) then Inl (PyExc ''IntegrityError'')
               else Inr ((result, False),
                 d'\<lparr>idem_t := idem_t d' @ [\<lparr>idem_key = key, idem_command = command,
                    idem_request_hash = digest, idem_result = result, idem_created = now\<rparr>]\<rparr>)))))"

definition replay_idempotent :: "host \<Rightarrow> string \<Rightarrow> string \<Rightarrow> json \<Rightarrow> db \<Rightarrow> json option res" where
  "replay_idempotent h key command request d =
     rbind (guard (valid_key key) ''IDEMPOTENCY_REQUIRED'') (\<lambda>_.
       (case fetchone (\<lambda>r. idem_key r = key) (idem_t d) of
          None \<Rightarrow> Inr None
        | Some r \<Rightarrow>
            if idem_command r \<noteq> command \<or> idem_request_hash r \<noteq> payload_hash h request
            then Inl (Sched ''IDEMPOTENCY_CONFLICT'')
            else Inr (Some (idem_result r))))"

definition record_idempotent ::
    "host \<Rightarrow> string \<Rightarrow> string \<Rightarrow> json \<Rightarrow> json \<Rightarrow> rat \<Rightarrow> db \<Rightarrow> db res" where
  "record_idempotent h key command request result now d =
     rbind (guard (valid_key key) ''IDEMPOTENCY_REQUIRED'') (\<lambda>_.
       if key \<in> set (map idem_key (idem_t d)) then Inl (Sched ''IDEMPOTENCY_CONFLICT'')
       else Inr (d\<lparr>idem_t := idem_t d @ [\<lparr>idem_key = key, idem_command = command,
              idem_request_hash = payload_hash h request, idem_result = result,
              idem_created = now\<rparr>]\<rparr>))"

text \<open>A key that has been recorded, and by what.\<close>

definition bound_key :: "host \<Rightarrow> string \<Rightarrow> string \<Rightarrow> json \<Rightarrow> json \<Rightarrow> db \<Rightarrow> bool" where
  "bound_key h key command request result d \<longleftrightarrow>
     valid_key key
     \<and> (\<exists>r. fetchone (\<lambda>r. idem_key r = key) (idem_t d) = Some r \<and> idem_command r = command
            \<and> idem_request_hash r = payload_hash h request \<and> idem_result r = result)"

lemma fetchone_append_None:
  "fetchone P xs = None \<Longrightarrow> fetchone P (xs @ [r]) = (if P r then Some r else None)"
  unfolding fetchone_def by (induction xs) (auto split: if_splits)

lemma execute_idempotent_bound:
  assumes "bound_key h key command request result d"
  shows "execute_idempotent h key command request now op d = Inr ((result, True), d)"
  using assms by (auto simp: bound_key_def execute_idempotent_def Let_def)

lemma execute_idempotent_fresh:
  assumes "execute_idempotent h key command request now op d = Inr ((result, replayed), d')"
  shows "bound_key h key command request result d'
    \<and> (replayed \<longrightarrow> d' = d) \<and> (\<not> replayed \<longrightarrow> fetchone (\<lambda>r. idem_key r = key) (idem_t d) = None
       \<and> (\<exists>e. op d = Inr (result, e) \<and> d' = e\<lparr>idem_t := idem_t d'\<rparr>))"
proof (cases "fetchone (\<lambda>r. idem_key r = key) (idem_t d)")
  case (Some r)
  with assms show ?thesis
    by (auto simp: execute_idempotent_def bound_key_def Let_def split: if_splits)
next
  case None
  with assms obtain e where e: "valid_key key" "op d = Inr (result, e)" "key \<notin> set (map idem_key (idem_t e))"
      "replayed = False"
      "d' = e\<lparr>idem_t := idem_t e @ [\<lparr>idem_key = key, idem_command = command,
                    idem_request_hash = payload_hash h request, idem_result = result, idem_created = now\<rparr>]\<rparr>"
    by (auto simp: execute_idempotent_def Let_def split: if_splits)
  have "fetchone (\<lambda>r. idem_key r = key) (idem_t e) = None"
    using e(3) by (auto simp: fetchone_None)
  from fetchone_append_None [OF this] None e show ?thesis
    by (auto simp: bound_key_def)
qed

text \<open>
  C22. An idempotency key is consumed once. After a successful execution the key is bound to its
  command and request: repeating the same request returns the stored result marked as a replay and
  changes nothing, without running any operation, and the same key with a request of another digest
  or for another command is refused.
\<close>

theorem idempotency_exactly_once:
  assumes "execute_idempotent h key command request now op d = Inr ((result, replayed), d')"
  shows "execute_idempotent h key command request later op' d' = Inr ((result, True), d')
    \<and> replay_idempotent h key command request d' = Inr (Some result)
    \<and> (command' \<noteq> command \<or> payload_hash h request' \<noteq> payload_hash h request \<longrightarrow>
         execute_idempotent h key command' request' later op' d' = Inl (Sched ''IDEMPOTENCY_CONFLICT''))"
proof -
  have b: "bound_key h key command request result d'"
    using execute_idempotent_fresh [OF assms] by blast
  then obtain r where r: "valid_key key" "fetchone (\<lambda>r. idem_key r = key) (idem_t d') = Some r"
      "idem_command r = command" "idem_request_hash r = payload_hash h request" "idem_result r = result"
    by (auto simp: bound_key_def)
  then show ?thesis
    using execute_idempotent_bound [OF b]
    by (auto simp: replay_idempotent_def execute_idempotent_def Let_def)
qed

theorem idempotency_exactly_once_witness:
  "execute_idempotent weak_host ''k1'' ''queue-cancel'' (JObj []) 9 (\<lambda>d. Inl (PyExc ''RuntimeError''))
     (empty_db\<lparr>idem_t := [\<lparr>idem_key = ''k1'', idem_command = ''queue-cancel'',
        idem_request_hash = payload_hash weak_host (JObj []), idem_result = JInt 3, idem_created = 4\<rparr>]\<rparr>)
   = Inr ((JInt 3, True),
      empty_db\<lparr>idem_t := [\<lparr>idem_key = ''k1'', idem_command = ''queue-cancel'',
        idem_request_hash = payload_hash weak_host (JObj []), idem_result = JInt 3, idem_created = 4\<rparr>]\<rparr>)"
  using idempotency_exactly_once [of weak_host "''k1''" "''queue-cancel''" "JObj []" 4 "\<lambda>d. Inr (JInt 3, d)"
      empty_db "JInt 3" False _ 9 "\<lambda>d. Inl (PyExc ''RuntimeError'')"]
  by (simp add: execute_idempotent_def valid_key_def fetchone_def empty_db_def Let_def)

section \<open>The service lease\<close>

definition lease_held :: "service_lease_row \<Rightarrow> rat \<Rightarrow> bool" where
  "lease_held r now \<longleftrightarrow> sl_state r = svc_active \<and> sl_expires r > now"

text \<open>The result is the lease and whether a stale one was taken over.\<close>

definition acquire_service_lease ::
    "string \<Rightarrow> string \<Rightarrow> rat \<Rightarrow> int \<Rightarrow> db \<Rightarrow> ((service_lease_row \<times> bool) \<times> db) res" where
  "acquire_service_lease lease_id owner_id now lease_secs d =
     (let fresh = \<lparr>sl_id = lease_id, sl_owner = owner_id, sl_state = svc_active, sl_acquired = now,
                   sl_heartbeat = now, sl_expires = now + of_int lease_secs, sl_released = None\<rparr>
      in (case service_lease_t d of
            None \<Rightarrow> Inr ((fresh, False), d\<lparr>service_lease_t := Some fresh\<rparr>)
          | Some r \<Rightarrow>
              if lease_held r now \<and> sl_owner r \<noteq> owner_id then Inl (Sched ''SERVICE_ALREADY_RUNNING'')
              else if lease_held r now \<and> sl_owner r = owner_id then Inr ((r, False), d)
              else Inr ((fresh, sl_state r = svc_active), d\<lparr>service_lease_t := Some fresh\<rparr>)))"

definition renew_service_lease ::
    "string \<Rightarrow> string \<Rightarrow> rat \<Rightarrow> int \<Rightarrow> db \<Rightarrow> (rat \<times> db) res" where
  "renew_service_lease lease_id owner_id now lease_secs d =
     (case service_lease_t d of
        None \<Rightarrow> Inl (Sched ''SERVICE_LEASE_LOST'')
      | Some r \<Rightarrow>
          if sl_id r = lease_id \<and> sl_owner r = owner_id \<and> lease_held r now
          then Inr (now + of_int lease_secs,
                 d\<lparr>service_lease_t := Some (r\<lparr>sl_heartbeat := now, sl_expires := now + of_int lease_secs\<rparr>)\<rparr>)
          else Inl (Sched ''SERVICE_LEASE_LOST''))"

definition release_service_lease :: "string \<Rightarrow> string \<Rightarrow> rat \<Rightarrow> db \<Rightarrow> (bool \<times> db) res" where
  "release_service_lease lease_id owner_id now d =
     (case service_lease_t d of
        None \<Rightarrow> Inr (False, d)
      | Some r \<Rightarrow>
          if sl_id r = lease_id \<and> sl_owner r = owner_id \<and> sl_state r = svc_active
          then Inr (True, d\<lparr>service_lease_t := Some (r\<lparr>sl_state := svc_released, sl_released := Some now,
                 sl_heartbeat := now, sl_expires := now\<rparr>)\<rparr>)
          else Inr (False, d))"

definition service_running :: "rat \<Rightarrow> db \<Rightarrow> bool" where
  "service_running now d = (case service_lease_t d of None \<Rightarrow> False | Some r \<Rightarrow> lease_held r now)"

subsection \<open>Supervisors competing for the lease\<close>

text \<open>
  A supervisor remembers the lease it was given: its id and the expiry of its last acquire or renew.
  The system is the database, the wall clock and what each owner believes; a step is one owner's
  transaction (or the clock). Supervisors read the same host clock, which does not run backwards.
\<close>

record lease_system =
  ls_db :: db
  ls_now :: rat
  ls_belief :: "string \<Rightarrow> (string \<times> rat) option"

inductive lease_step :: "lease_system \<Rightarrow> lease_system \<Rightarrow> bool" where
  tick: "ls_now s \<le> t \<Longrightarrow> lease_step s (s\<lparr>ls_now := t\<rparr>)"
| acquire: "acquire_service_lease lid owner (ls_now s) secs (ls_db s) = Inr ((r, rec), d') \<Longrightarrow>
     lease_step s (s\<lparr>ls_db := d', ls_belief := (ls_belief s)(owner := Some (sl_id r, sl_expires r))\<rparr>)"
| renew: "ls_belief s owner = Some (lid, e) \<Longrightarrow>
     renew_service_lease lid owner (ls_now s) secs (ls_db s) = Inr (e', d') \<Longrightarrow>
     lease_step s (s\<lparr>ls_db := d', ls_belief := (ls_belief s)(owner := Some (lid, e'))\<rparr>)"
| renew_lost: "ls_belief s owner = Some (lid, e) \<Longrightarrow>
     renew_service_lease lid owner (ls_now s) secs (ls_db s) = Inl err \<Longrightarrow>
     lease_step s (s\<lparr>ls_belief := (ls_belief s)(owner := None)\<rparr>)"
| release: "ls_belief s owner = Some (lid, e) \<Longrightarrow>
     release_service_lease lid owner (ls_now s) (ls_db s) = Inr (ok, d') \<Longrightarrow>
     lease_step s (s\<lparr>ls_db := d', ls_belief := (ls_belief s)(owner := None)\<rparr>)"

inductive lease_reachable :: "lease_system \<Rightarrow> bool" where
  start: "service_lease_t d = None \<Longrightarrow> lease_reachable \<lparr>ls_db = d, ls_now = t, ls_belief = (\<lambda>_. None)\<rparr>"
| step: "lease_reachable s \<Longrightarrow> lease_step s s' \<Longrightarrow> lease_reachable s'"

text \<open>An unexpired belief is the row in the table.\<close>

definition lease_inv :: "lease_system \<Rightarrow> bool" where
  "lease_inv s \<longleftrightarrow>
     (\<forall>owner lid e. ls_belief s owner = Some (lid, e) \<and> ls_now s < e \<longrightarrow>
        (\<exists>r. service_lease_t (ls_db s) = Some r \<and> sl_owner r = owner \<and> sl_id r = lid
             \<and> sl_state r = svc_active \<and> sl_expires r = e))"

lemma lease_invD:
  "lease_inv s \<Longrightarrow> ls_belief s owner = Some (lid, e) \<Longrightarrow> ls_now s < e \<Longrightarrow>
   \<exists>r. service_lease_t (ls_db s) = Some r \<and> sl_owner r = owner \<and> sl_id r = lid
      \<and> sl_state r = svc_active \<and> sl_expires r = e"
  by (simp add: lease_inv_def)

lemma lease_inv_step:
  assumes "lease_step s s'" and "lease_inv s"
  shows "lease_inv s'"
  using assms
proof (induction rule: lease_step.induct)
  case (tick s t)
  then show ?case by (auto simp: lease_inv_def)
next
  case (acquire lid owner s secs r rec d')
  show ?case
  proof (cases "\<exists>q. service_lease_t (ls_db s) = Some q \<and> lease_held q (ls_now s)")
    case True
    then obtain q where q: "service_lease_t (ls_db s) = Some q" "lease_held q (ls_now s)" by blast
    with acquire.hyps have "sl_owner q = owner \<and> r = q \<and> d' = ls_db s"
      by (auto simp: acquire_service_lease_def Let_def split: if_splits)
    with acquire.prems q show ?thesis
      by (auto simp: lease_inv_def lease_held_def)
  next
    case False
    then have none: "\<And>o' lid' e'. ls_belief s o' = Some (lid', e') \<Longrightarrow> \<not> ls_now s < e'"
      using lease_invD [OF acquire.prems] by (force simp: lease_held_def)
    have "service_lease_t d' = Some r" "sl_owner r = owner" "sl_state r = svc_active"
      using acquire.hyps False
      by (auto simp: acquire_service_lease_def Let_def split: option.splits if_splits)
    with none show ?thesis
      by (auto simp: lease_inv_def split: if_splits)
  qed
next
  case (renew s owner lid e secs e' d')
  then obtain r where r: "service_lease_t (ls_db s) = Some r" "sl_id r = lid" "sl_owner r = owner"
      "lease_held r (ls_now s)" "e' = ls_now s + of_int secs"
      "d' = (ls_db s)\<lparr>service_lease_t := Some (r\<lparr>sl_heartbeat := ls_now s, sl_expires := e'\<rparr>)\<rparr>"
    by (auto simp: renew_service_lease_def split: option.splits if_splits)
  have others: "\<not> ls_now s < e2" if "ls_belief s o2 = Some (l2, e2)" "o2 \<noteq> owner" for o2 l2 e2
    using lease_invD [OF renew.prems that(1)] that(2) r(1,3) by auto
  with r show ?case
    by (auto simp: lease_inv_def lease_held_def split: if_splits)
next
  case (renew_lost s owner lid e secs err)
  then show ?case by (auto simp: lease_inv_def split: if_splits)
next
  case (release s owner lid e ok d')
  show ?case
  proof (cases ok)
    case False
    then have "d' = ls_db s"
      using release.hyps(2) by (auto simp: release_service_lease_def split: option.splits if_splits)
    with release.prems show ?thesis
      by (auto simp: lease_inv_def split: if_splits)
  next
    case True
    then obtain r where r: "service_lease_t (ls_db s) = Some r" "sl_owner r = owner"
      using release.hyps(2) by (auto simp: release_service_lease_def split: option.splits if_splits)
    have others: "\<not> ls_now s < e2" if "ls_belief s o2 = Some (l2, e2)" "o2 \<noteq> owner" for o2 l2 e2
      using lease_invD [OF release.prems that(1)] that(2) r by auto
    then show ?thesis
      by (auto simp: lease_inv_def split: if_splits)
  qed
qed

lemma lease_reachable_inv: "lease_reachable s \<Longrightarrow> lease_inv s"
proof (induction rule: lease_reachable.induct)
  case (start d t)
  then show ?case by (simp add: lease_inv_def)
next
  case (step s s')
  then show ?case by (blast intro: lease_inv_step)
qed

text \<open>
  C20. Only one supervisor runs: in every reachable state of any number of supervisors acquiring,
  renewing, losing and releasing the lease in any order, when one owner holds an unexpired lease no
  other owner believes in an unexpired one, and every other owner's attempt to acquire is refused.
\<close>

theorem service_lease_mutual_exclusion:
  assumes "lease_reachable s"
    and "ls_belief s owner = Some (lid, e)" and "ls_now s < e" and "other \<noteq> owner"
  shows "(\<forall>l2 e2. ls_belief s other = Some (l2, e2) \<longrightarrow> e2 \<le> ls_now s)
    \<and> acquire_service_lease lid2 other (ls_now s) secs (ls_db s) = Inl (Sched ''SERVICE_ALREADY_RUNNING'')"
proof -
  have inv: "lease_inv s"
    using assms(1) by (rule lease_reachable_inv)
  obtain r where r: "service_lease_t (ls_db s) = Some r" "sl_owner r = owner" "lease_held r (ls_now s)"
    using lease_invD [OF inv assms(2,3)] assms(3) by (auto simp: lease_held_def)
  have "e2 \<le> ls_now s" if "ls_belief s other = Some (l2, e2)" for l2 e2
    using lease_invD [OF inv that] r assms(4) by force
  with r assms(4) show ?thesis
    by (simp add: acquire_service_lease_def Let_def)
qed

definition lease_example :: lease_system where
  "lease_example = \<lparr>ls_db = empty_db\<lparr>service_lease_t := Some \<lparr>sl_id = ''l1'', sl_owner = ''a'',
     sl_state = svc_active, sl_acquired = 5, sl_heartbeat = 5, sl_expires = 65, sl_released = None\<rparr>\<rparr>,
     ls_now = 5, ls_belief = (\<lambda>_. None)(''a'' \<mapsto> (''l1'', 65))\<rparr>"

lemma lease_example_reachable: "lease_reachable lease_example"
proof -
  have "lease_reachable \<lparr>ls_db = empty_db, ls_now = 5, ls_belief = (\<lambda>_. None)\<rparr>" (is "lease_reachable ?s")
    by (rule lease_reachable.start) (simp add: empty_db_def)
  moreover have "acquire_service_lease ''l1'' ''a'' (ls_now ?s) 60 (ls_db ?s)
      = Inr ((the (service_lease_t (ls_db lease_example)), False), ls_db lease_example)"
    by (simp add: acquire_service_lease_def empty_db_def lease_example_def Let_def)
  from lease_step.acquire [OF this] have "lease_step ?s lease_example"
    by (simp add: lease_example_def)
  ultimately show ?thesis by (rule lease_reachable.step)
qed

theorem service_lease_mutual_exclusion_witness:
  "acquire_service_lease ''l2'' ''b'' 5 60 (ls_db lease_example) = Inl (Sched ''SERVICE_ALREADY_RUNNING'')"
proof -
  have "ls_belief lease_example ''a'' = Some (''l1'', 65)" "ls_now lease_example < 65" "''b'' \<noteq> ''a''"
    "ls_now lease_example = 5"
    by (simp_all add: lease_example_def)
  with service_lease_mutual_exclusion [of lease_example "''a''" "''l1''" 65 "''b''" "''l2''" 60]
    lease_example_reachable show ?thesis by simp
qed

end
