(* ===== verification/StoreGuard.thy ===== *)
theory StoreGuard
  imports StoreOps
begin

text \<open>
  store.py: persistence of quota-guard sessions and targets. Updates are optimistic: a caller names the
  revision and the state it read, and the UPDATE applies only when both still hold. Every update adds
  one to the revision, so of two writers that read the same row at most one succeeds. Recovery fences
  every guard with an external call pending at a crash.

  The column changes are those that callers in the repository make; a new session's targets are thread
  identifiers, the only form that service.py builds.
\<close>

section \<open>Reading rows\<close>

definition guard_session_from_row :: "guard_session \<Rightarrow> guard_session res" where
  "guard_session_from_row s =
     rbind (guard ([] \<notin> set (gs_tripped_windows s)) ''STATE_INVALID'') (\<lambda>_. Inr s)"

definition guard_target_from_row :: "guard_target \<Rightarrow> guard_target res" where
  "guard_target_from_row t =
     rbind (guard (case gt_goal_pause_at t of None \<Rightarrow> True | Some n \<Rightarrow> 0 \<le> n) ''STATE_INVALID'')
       (\<lambda>_. Inr t)"

definition is_guard :: "string \<Rightarrow> guard_session \<Rightarrow> bool" where
  "is_guard g s \<longleftrightarrow> gs_id s = g"

definition is_target :: "string \<Rightarrow> string \<Rightarrow> guard_target \<Rightarrow> bool" where
  "is_target g th t \<longleftrightarrow> gt_guard t = g \<and> gt_thread t = th"

definition get_quota_guard_session :: "string \<Rightarrow> db \<Rightarrow> guard_session res" where
  "get_quota_guard_session g d =
     (case fetchone (is_guard g) (sessions_t d) of
        None \<Rightarrow> Inl (Sched ''GUARD_NOT_FOUND'')
      | Some s \<Rightarrow> guard_session_from_row s)"

text \<open>\<open>ORDER BY created_at ASC, guard_id ASC\<close> after the optional state and due filters.\<close>

definition list_quota_guard_sessions ::
    "guard_session_state list option \<Rightarrow> rat option \<Rightarrow> db \<Rightarrow> guard_session list res" where
  "list_quota_guard_sessions states due_before d =
     rmap guard_session_from_row
       (sort_key (\<lambda>s. (gs_created_at s, gs_id s))
          (filter (\<lambda>s. (case states of None \<Rightarrow> True | Some sts \<Rightarrow> gs_state s \<in> set sts)
                     \<and> (case due_before of None \<Rightarrow> True | Some t \<Rightarrow> gs_next_check_at s \<le> t))
             (sessions_t d)))"

definition list_due_quota_guard_sessions :: "rat \<Rightarrow> db \<Rightarrow> guard_session list res" where
  "list_due_quota_guard_sessions now d = list_quota_guard_sessions (Some [ARMED, HELD_QUOTA]) (Some now) d"

definition get_quota_guard_target :: "string \<Rightarrow> string \<Rightarrow> db \<Rightarrow> guard_target res" where
  "get_quota_guard_target g th d =
     (case fetchone (is_target g th) (targets_t d) of
        None \<Rightarrow> Inl (Sched ''GUARD_TARGET_NOT_FOUND'')
      | Some t \<Rightarrow> guard_target_from_row t)"

definition list_quota_guard_targets :: "string \<Rightarrow> db \<Rightarrow> guard_target list res" where
  "list_quota_guard_targets g d =
     rmap guard_target_from_row
       (sort_key (\<lambda>t. (gt_created_at t, gt_thread t)) (filter (\<lambda>t. gt_guard t = g) (targets_t d)))"

section \<open>Creation\<close>

text \<open>
  The primary key, and the partial UNIQUE index \<open>quota_guard_single_active_idx\<close>: at most one session
  is not DISARMED.
\<close>

definition single_active :: "guard_session list \<Rightarrow> bool" where
  "single_active rows \<longleftrightarrow> length (filter (\<lambda>s. gs_state s \<noteq> DISARMED) rows) \<le> 1"

definition guard_keys_ok :: "db \<Rightarrow> bool" where
  "guard_keys_ok d \<longleftrightarrow>
     distinct (map gs_id (sessions_t d)) \<and> single_active (sessions_t d)
     \<and> distinct (map (\<lambda>t. (gt_guard t, gt_thread t)) (targets_t d))"

definition new_target :: "string \<Rightarrow> rat \<Rightarrow> rat \<Rightarrow> string \<Rightarrow> guard_target" where
  "new_target g created updated th =
     \<lparr>gt_guard = g, gt_thread = th, gt_state = T_MONITORING, gt_original_status = None,
      gt_original_turn = None, gt_goal_was_active = False, gt_goal_changed = False,
      gt_goal_pause_at = None, gt_reason = None, gt_revision = 1, gt_created_at = created,
      gt_updated_at = updated\<rparr>"

definition insert_guard :: "guard_session \<Rightarrow> string list \<Rightarrow> db \<Rightarrow> (unit \<times> db) res" where
  "insert_guard s threads d =
     (let rows = sessions_t d @ [s];
          new = map (new_target (gs_id s) (gs_created_at s) (gs_updated_at s)) threads
      in
      rbind (guard (gs_id s \<notin> set (map gs_id (sessions_t d)) \<and> single_active rows) ''GUARD_EXISTS'') (\<lambda>_.
      rbind (guard (gs_approval s \<in> set (map appr_id (approvals_t d))) ''STATE_INVALID'') (\<lambda>_.
      rbind (guard (\<forall>t \<in> set (targets_t d). gt_guard t \<noteq> gs_id s \<or> gt_thread t \<notin> set threads)
               ''GUARD_EXISTS'') (\<lambda>_.
      Inr ((), d\<lparr>sessions_t := rows, targets_t := targets_t d @ new\<rparr>)))))"

definition guard_input_ok :: "guard_session \<Rightarrow> string list \<Rightarrow> bool" where
  "guard_input_ok s threads \<longleftrightarrow>
     gs_id s \<noteq> [] \<and> gs_profile_key s \<noteq> [] \<and> gs_limit_id s \<noteq> [] \<and> gs_approval s \<noteq> []
     \<and> gs_plan_hash s \<noteq> [] \<and> [] \<notin> set (gs_tripped_windows s) \<and> [] \<notin> set threads \<and> distinct threads"

definition create_quota_guard_session :: "guard_session \<Rightarrow> string list \<Rightarrow> (db, guard_session) eff" where
  "create_quota_guard_session s threads =
     ethen (eguard (guard_input_ok s threads) ''STATE_INVALID'')
    (ethen (transact (insert_guard (s\<lparr>gs_tripped_windows := rev (remdups (rev (gs_tripped_windows s)))\<rparr>) threads))
           (eread (get_quota_guard_session (gs_id s))))"

section \<open>Optimistic updates\<close>

datatype session_change =
    SC_state guard_session_state
  | SC_stop_snapshot_hash "string option"
  | SC_tripped_windows "string list"
  | SC_next_check_at rat
  | SC_last_checked_at rat
  | SC_reason "string option"

fun change_session :: "session_change \<Rightarrow> guard_session \<Rightarrow> guard_session" where
  "change_session (SC_state st) s = s\<lparr>gs_state := st\<rparr>"
| "change_session (SC_stop_snapshot_hash x) s = s\<lparr>gs_stop_snapshot_hash := x\<rparr>"
| "change_session (SC_tripped_windows ws) s = s\<lparr>gs_tripped_windows := rev (remdups (rev ws))\<rparr>"
| "change_session (SC_next_check_at t) s = s\<lparr>gs_next_check_at := t\<rparr>"
| "change_session (SC_last_checked_at t) s = s\<lparr>gs_last_checked_at := Some t\<rparr>"
| "change_session (SC_reason r) s = s\<lparr>gs_reason := r\<rparr>"

definition changed_session :: "session_change list \<Rightarrow> rat \<Rightarrow> guard_session \<Rightarrow> guard_session" where
  "changed_session cs now s =
     (fold change_session cs s)\<lparr>gs_revision := gs_revision s + 1, gs_updated_at := now\<rparr>"

definition windows_ok :: "session_change list \<Rightarrow> bool" where
  "windows_ok cs \<longleftrightarrow> (\<forall>c \<in> set cs. case c of SC_tripped_windows ws \<Rightarrow> [] \<notin> set ws | _ \<Rightarrow> True)"

definition session_matches ::
    "string \<Rightarrow> int option \<Rightarrow> guard_session_state option \<Rightarrow> guard_session \<Rightarrow> bool" where
  "session_matches g expected_revision expected_state s \<longleftrightarrow>
     gs_id s = g
     \<and> (case expected_revision of None \<Rightarrow> True | Some n \<Rightarrow> gs_revision s = n)
     \<and> (case expected_state of None \<Rightarrow> True | Some st \<Rightarrow> gs_state s = st)"

definition write_guard_session ::
    "string \<Rightarrow> int option \<Rightarrow> guard_session_state option \<Rightarrow> rat \<Rightarrow> session_change list \<Rightarrow> db
     \<Rightarrow> (unit \<times> db) res" where
  "write_guard_session g expected_revision expected_state now cs d =
     (let P = session_matches g expected_revision expected_state;
          rows = update_where P (changed_session cs now) (sessions_t d)
      in
      if \<not> single_active rows \<and> single_active (sessions_t d) then Inl (PyExc ''IntegrityError'')
      else if row_count P (sessions_t d) \<noteq> 1 then
        (if fetchone (is_guard g) (sessions_t d) = None
         then Inl (Sched ''GUARD_NOT_FOUND'') else Inl (Sched ''REVISION_CONFLICT''))
      else Inr ((), d\<lparr>sessions_t := rows\<rparr>))"

definition update_quota_guard_session ::
    "string \<Rightarrow> int option \<Rightarrow> guard_session_state option \<Rightarrow> rat \<Rightarrow> session_change list
     \<Rightarrow> (db, guard_session) eff" where
  "update_quota_guard_session g expected_revision expected_state now cs =
     ethen (eguard (windows_ok cs) ''STATE_INVALID'')
      (if cs = [] then eread (get_quota_guard_session g)
       else ethen (transact (write_guard_session g expected_revision expected_state now cs))
                  (eread (get_quota_guard_session g)))"

definition transition_quota_guard_session ::
    "string \<Rightarrow> guard_session_state \<Rightarrow> int option \<Rightarrow> guard_session_state option \<Rightarrow> rat
     \<Rightarrow> session_change list \<Rightarrow> (db, guard_session) eff" where
  "transition_quota_guard_session g st expected_revision expected_state now cs =
     update_quota_guard_session g expected_revision expected_state now (cs @ [SC_state st])"

datatype target_change =
    TC_state guard_target_state
  | TC_original_status "string option"
  | TC_original_turn "string option"
  | TC_goal_was_active bool
  | TC_goal_changed bool
  | TC_goal_pause_at "int option"
  | TC_reason "string option"

fun change_target :: "target_change \<Rightarrow> guard_target \<Rightarrow> guard_target" where
  "change_target (TC_state st) t = t\<lparr>gt_state := st\<rparr>"
| "change_target (TC_original_status x) t = t\<lparr>gt_original_status := x\<rparr>"
| "change_target (TC_original_turn x) t = t\<lparr>gt_original_turn := x\<rparr>"
| "change_target (TC_goal_was_active b) t = t\<lparr>gt_goal_was_active := b\<rparr>"
| "change_target (TC_goal_changed b) t = t\<lparr>gt_goal_changed := b\<rparr>"
| "change_target (TC_goal_pause_at x) t = t\<lparr>gt_goal_pause_at := x\<rparr>"
| "change_target (TC_reason r) t = t\<lparr>gt_reason := r\<rparr>"

definition changed_target :: "target_change list \<Rightarrow> rat \<Rightarrow> guard_target \<Rightarrow> guard_target" where
  "changed_target cs now t =
     (fold change_target cs t)\<lparr>gt_revision := gt_revision t + 1, gt_updated_at := now\<rparr>"

text \<open>sqlite3 binds integers of 64 bits; a larger one raises OverflowError before the statement runs.\<close>

definition bindable :: "target_change list \<Rightarrow> bool" where
  "bindable cs \<longleftrightarrow>
     (\<forall>c \<in> set cs. case c of TC_goal_pause_at (Some n) \<Rightarrow> - (2 ^ 63) \<le> n \<and> n < 2 ^ 63 | _ \<Rightarrow> True)"

definition target_matches ::
    "string \<Rightarrow> string \<Rightarrow> int option \<Rightarrow> guard_target_state option \<Rightarrow> guard_target \<Rightarrow> bool" where
  "target_matches g th expected_revision expected_state t \<longleftrightarrow>
     gt_guard t = g \<and> gt_thread t = th
     \<and> (case expected_revision of None \<Rightarrow> True | Some n \<Rightarrow> gt_revision t = n)
     \<and> (case expected_state of None \<Rightarrow> True | Some st \<Rightarrow> gt_state t = st)"

definition write_guard_target ::
    "string \<Rightarrow> string \<Rightarrow> int option \<Rightarrow> guard_target_state option \<Rightarrow> rat \<Rightarrow> target_change list \<Rightarrow> db
     \<Rightarrow> (unit \<times> db) res" where
  "write_guard_target g th expected_revision expected_state now cs d =
     (let P = target_matches g th expected_revision expected_state in
      if \<not> bindable cs then Inl (PyExc ''OverflowError'')
      else if row_count P (targets_t d) \<noteq> 1 then
        (if fetchone (is_target g th) (targets_t d) = None
         then Inl (Sched ''GUARD_TARGET_NOT_FOUND'') else Inl (Sched ''REVISION_CONFLICT''))
      else Inr ((), d\<lparr>targets_t := update_where P (changed_target cs now) (targets_t d)\<rparr>))"

definition update_quota_guard_target ::
    "string \<Rightarrow> string \<Rightarrow> int option \<Rightarrow> guard_target_state option \<Rightarrow> rat \<Rightarrow> target_change list
     \<Rightarrow> (db, guard_target) eff" where
  "update_quota_guard_target g th expected_revision expected_state now cs =
     (if cs = [] then eread (get_quota_guard_target g th)
      else ethen (transact (write_guard_target g th expected_revision expected_state now cs))
                 (eread (get_quota_guard_target g th)))"

definition transition_quota_guard_target ::
    "string \<Rightarrow> string \<Rightarrow> guard_target_state \<Rightarrow> int option \<Rightarrow> guard_target_state option \<Rightarrow> rat
     \<Rightarrow> target_change list \<Rightarrow> (db, guard_target) eff" where
  "transition_quota_guard_target g th st expected_revision expected_state now cs =
     update_quota_guard_target g th expected_revision expected_state now (cs @ [TC_state st])"

section \<open>Recovery\<close>

definition pending_guards :: "db \<Rightarrow> string list" where
  "pending_guards d = sorted_set
     (map gt_guard (filter (\<lambda>t. gt_state t \<in> {T_STOPPING, T_RESUMING}) (targets_t d))
      @ map gs_id (filter (\<lambda>s. gs_state s \<in> {STOPPING, RESUMING}) (sessions_t d)))"

definition fence_target :: "string \<Rightarrow> rat \<Rightarrow> guard_target \<Rightarrow> guard_target" where
  "fence_target reason now t =
     t\<lparr>gt_state := T_NEEDS_REVIEW, gt_reason := Some reason, gt_revision := gt_revision t + 1,
       gt_updated_at := now\<rparr>"

definition fence_session :: "string \<Rightarrow> rat \<Rightarrow> guard_session \<Rightarrow> guard_session" where
  "fence_session reason now s =
     s\<lparr>gs_state := NEEDS_REVIEW, gs_reason := Some reason, gs_revision := gs_revision s + 1,
       gs_updated_at := now\<rparr>"

definition fence_guard :: "string \<Rightarrow> rat \<Rightarrow> string \<Rightarrow> db \<Rightarrow> db" where
  "fence_guard reason now g d =
     d\<lparr>targets_t := update_where
         (\<lambda>t. gt_guard t = g \<and> gt_state t \<notin> {T_COMPLETED, T_RESUMED, T_NEEDS_REVIEW})
         (fence_target reason now) (targets_t d),
       sessions_t := update_where (\<lambda>s. gs_id s = g \<and> gs_state s \<noteq> DISARMED)
         (fence_session reason now) (sessions_t d)\<rparr>"

definition recover_quota_guard_pending :: "string \<Rightarrow> rat \<Rightarrow> db \<Rightarrow> string list \<times> db" where
  "recover_quota_guard_pending reason now d =
     (pending_guards d, fold (fence_guard reason now) (pending_guards d) d)"

section \<open>Keys, the single active guard, and revisions\<close>

lemma fold_change_session_id [simp]: "gs_id (fold change_session cs s) = gs_id s"
proof (induction cs arbitrary: s)
  case (Cons c cs)
  then show ?case by (cases c) auto
qed simp

lemma changed_session_simps [simp]:
  "gs_id (changed_session cs now s) = gs_id s"
  "gs_revision (changed_session cs now s) = gs_revision s + 1"
  by (simp_all add: changed_session_def)

lemma fold_change_target_key [simp]:
  "gt_guard (fold change_target cs t) = gt_guard t"
  "gt_thread (fold change_target cs t) = gt_thread t"
proof (induction cs arbitrary: t)
  case (Cons c cs)
  case 1
  with Cons show ?case by (cases c) auto
next
  case (Cons c cs)
  case 2
  with Cons show ?case by (cases c) auto
qed simp_all

lemma changed_target_simps [simp]:
  "gt_guard (changed_target cs now t) = gt_guard t"
  "gt_thread (changed_target cs now t) = gt_thread t"
  "gt_revision (changed_target cs now t) = gt_revision t + 1"
  by (simp_all add: changed_target_def)

lemma state_after_transition [simp]:
  "gs_state (changed_session (cs @ [SC_state st]) now s) = st"
  "gt_state (changed_target (cs' @ [TC_state st']) now t) = st'"
  by (simp_all add: changed_session_def changed_target_def)

lemma write_guard_session_Inr:
  assumes "write_guard_session g n st now cs d = Inr (u, d')"
  shows "d' = d\<lparr>sessions_t := update_where (session_matches g n st) (changed_session cs now) (sessions_t d)\<rparr>"
    and "row_count (session_matches g n st) (sessions_t d) = 1"
    and "single_active (sessions_t d) \<Longrightarrow> single_active (sessions_t d')"
  using assms by (auto simp: write_guard_session_def Let_def split: if_splits)

lemma write_guard_target_Inr:
  assumes "write_guard_target g th n st now cs d = Inr (u, d')"
  shows "d' = d\<lparr>targets_t := update_where (target_matches g th n st) (changed_target cs now) (targets_t d)\<rparr>"
    and "row_count (target_matches g th n st) (targets_t d) = 1" and "bindable cs"
  using assms by (auto simp: write_guard_target_def Let_def split: if_splits)

lemma fence_simps [simp]:
  "gs_id (fence_session reason now s) = gs_id s" "gs_state (fence_session reason now s) = NEEDS_REVIEW"
  "gt_guard (fence_target reason now t) = gt_guard t" "gt_thread (fence_target reason now t) = gt_thread t"
  "gt_state (fence_target reason now t) = T_NEEDS_REVIEW"
  by (simp_all add: fence_session_def fence_target_def)

lemma single_active_fence:
  "single_active rows \<Longrightarrow>
   single_active (update_where (\<lambda>s. gs_id s = g \<and> gs_state s \<noteq> DISARMED) (fence_session reason now) rows)"
proof -
  have "map (\<lambda>s. gs_state s \<noteq> DISARMED)
      (update_where (\<lambda>s. gs_id s = g \<and> gs_state s \<noteq> DISARMED) (fence_session reason now) rows)
    = map (\<lambda>s. gs_state s \<noteq> DISARMED) rows"
    by (auto simp: update_where_def fence_session_def)
  then have "length (filter id (map (\<lambda>s. gs_state s \<noteq> DISARMED)
      (update_where (\<lambda>s. gs_id s = g \<and> gs_state s \<noteq> DISARMED) (fence_session reason now) rows)))
    = length (filter id (map (\<lambda>s. gs_state s \<noteq> DISARMED) rows))"
    by simp
  then show "single_active rows \<Longrightarrow> ?thesis"
    by (simp add: single_active_def filter_map o_def)
qed

lemma fence_guard_keys: "guard_keys_ok d \<Longrightarrow> guard_keys_ok (fence_guard reason now g d)"
  by (simp add: guard_keys_ok_def fence_guard_def map_update_where single_active_fence)

lemma recover_keys: "guard_keys_ok d \<Longrightarrow> guard_keys_ok (snd (recover_quota_guard_pending reason now d))"
proof -
  have "guard_keys_ok d \<Longrightarrow> guard_keys_ok (fold (fence_guard reason now) gs d)" for gs
    by (induction gs arbitrary: d) (auto intro: fence_guard_keys)
  then show "guard_keys_ok d \<Longrightarrow> ?thesis" by (simp add: recover_quota_guard_pending_def)
qed

lemma insert_guard_keys:
  assumes "insert_guard s threads d = Inr (u, d')" and "distinct threads" and "guard_keys_ok d"
  shows "guard_keys_ok d'"
proof -
  let ?k = "\<lambda>t. (gt_guard t, gt_thread t)"
  have new: "map ?k (map (new_target (gs_id s) a b) threads) = map (Pair (gs_id s)) threads" for a b
    by (simp add: new_target_def)
  have "distinct (map (Pair (gs_id s)) threads)"
    using assms(2) by (simp add: distinct_map inj_on_def)
  moreover have "set (map (Pair (gs_id s)) threads) \<inter> set (map ?k (targets_t d)) = {}"
    and d': "gs_id s \<notin> set (map gs_id (sessions_t d))" "single_active (sessions_t d @ [s])"
      "sessions_t d' = sessions_t d @ [s]"
      "targets_t d' = targets_t d @ map (new_target (gs_id s) (gs_created_at s) (gs_updated_at s)) threads"
    using assms(1) by (auto simp: insert_guard_def Let_def)
  ultimately show ?thesis
    using assms(3) new by (auto simp: guard_keys_ok_def simp del: map_map)
qed

lemma write_guard_session_keys:
  assumes "write_guard_session g n st now cs d = Inr (u, d')" and "guard_keys_ok d"
  shows "guard_keys_ok d'"
  using write_guard_session_Inr [OF assms(1)] assms(2)
  by (simp add: guard_keys_ok_def map_update_where)

lemma write_guard_target_keys:
  assumes "write_guard_target g th n st now cs d = Inr (u, d')" and "guard_keys_ok d"
  shows "guard_keys_ok d'"
  using write_guard_target_Inr [OF assms(1)] assms(2)
  by (simp add: guard_keys_ok_def map_update_where)

interpretation keys: step_rel "\<lambda>d d'. guard_keys_ok d \<longrightarrow> guard_keys_ok d'" "\<lambda>_. True"
  by unfold_locales auto

lemma keys_create_quota_guard_session: "keys.keeps (create_quota_guard_session s threads)"
proof (rule keys.keepsI, rule impI)
  fix d assume d: "guard_keys_ok d"
  show "guard_keys_ok (snd (create_quota_guard_session s threads d))"
    using d insert_guard_keys [OF _ _ d]
    by (auto simp: create_quota_guard_session_def eff_defs guard_input_ok_def split: sum.splits)
qed

lemma keys_update_quota_guard_session: "keys.keeps (update_quota_guard_session g n st now cs)"
  unfolding update_quota_guard_session_def
  by (intro keeps_intros keys.keeps_transact impI) (rule write_guard_session_keys)

lemma keys_update_quota_guard_target: "keys.keeps (update_quota_guard_target g th n st now cs)"
  unfolding update_quota_guard_target_def
  by (intro keeps_intros keys.keeps_transact impI) (rule write_guard_target_keys)

text \<open>
  The guard tables keep their keys: creating, updating and recovering guards preserve unique guard
  identifiers, unique targets and at most one guard that is not disarmed, also when the operation fails.
\<close>

theorem guard_tables_keep_keys:
  assumes "guard_keys_ok d"
  shows "guard_keys_ok (snd (create_quota_guard_session s threads d))
    \<and> guard_keys_ok (snd (update_quota_guard_session g n st now cs d))
    \<and> guard_keys_ok (snd (update_quota_guard_target g th m st' now cs' d))
    \<and> guard_keys_ok (snd (recover_quota_guard_pending reason now d))"
  using assms recover_keys keys.keepsD [OF keys_create_quota_guard_session]
    keys.keepsD [OF keys_update_quota_guard_session] keys.keepsD [OF keys_update_quota_guard_target]
  by simp

definition sample_session :: guard_session where
  "sample_session = \<lparr>gs_id = ''g1'', gs_state = ARMED, gs_profile_key = ''p'', gs_limit_id = ''l'',
     gs_threshold = 10, gs_hysteresis = 5, gs_interval = 30, gs_resume_non_goal = False,
     gs_approval = ''a1'', gs_plan_hash = ''h1'', gs_stop_snapshot_hash = None, gs_tripped_windows = [],
     gs_next_check_at = 100, gs_last_checked_at = None, gs_reason = None, gs_revision = 1,
     gs_created_at = 100, gs_updated_at = 100\<rparr>"

definition sample_guard_db :: db where
  "sample_guard_db = empty_db\<lparr>sessions_t := [sample_session], targets_t := [new_target ''g1'' 100 100 ''t1'']\<rparr>"

lemma sample_guard_db_keys [simp]: "guard_keys_ok sample_guard_db"
  by (simp add: guard_keys_ok_def sample_guard_db_def single_active_def)

theorem guard_tables_keep_keys_witness:
  "guard_keys_ok (snd (update_quota_guard_session ''g1'' (Some 1) (Some ARMED) 130 [SC_state STOPPING] sample_guard_db))"
  using guard_tables_keep_keys [OF sample_guard_db_keys] by blast

lemma row_count_key:
  assumes "distinct (map k rows)" and "\<And>r. P r \<Longrightarrow> k r = c" and "row_count P rows = 1"
  shows "\<exists>!r. r \<in> set rows \<and> k r = c" and "\<And>r. r \<in> set rows \<Longrightarrow> k r = c \<Longrightarrow> P r"
proof -
  obtain r where r: "r \<in> set rows" "P r"
    using assms(3) by (metis One_nat_def row_count_0 zero_neq_one)
  have u: "x = r" if "x \<in> set rows" "k x = c" for x
    using assms(1,2) that r by (auto simp: distinct_map inj_on_def)
  then show "\<exists>!r. r \<in> set rows \<and> k r = c" using r assms(2) by blast
  show "\<And>x. x \<in> set rows \<Longrightarrow> k x = c \<Longrightarrow> P x" using u r by blast
qed

text \<open>
  Optimistic concurrency: when an update that names the revision it read succeeds, the session's
  revision is that number plus one, and every further update that names the same old revision is
  refused as a conflict and changes nothing; of two writers that read the same row at most one wins.
\<close>

theorem guard_update_single_winner:
  assumes "guard_keys_ok d"
    and "write_guard_session g (Some n) st now cs d = Inr (u, d')"
  shows "(\<exists>s \<in> set (sessions_t d'). gs_id s = g \<and> gs_revision s = n + 1)
    \<and> write_guard_session g (Some n) st' now' cs' d' = Inl (Sched ''REVISION_CONFLICT'')"
proof -
  let ?P = "session_matches g (Some n) st"
  note w = write_guard_session_Inr [OF assms(2)]
  have keys: "distinct (map gs_id (sessions_t d))"
    using assms(1) by (simp add: guard_keys_ok_def)
  have all: "\<And>s. s \<in> set (sessions_t d) \<Longrightarrow> gs_id s = g \<Longrightarrow> ?P s"
    and ex: "\<exists>!s. s \<in> set (sessions_t d) \<and> gs_id s = g"
    using row_count_key [OF keys _ w(2), of g] by (auto simp: session_matches_def)
  obtain s where s: "s \<in> set (sessions_t d)" "gs_id s = g" "?P s"
    using ex all by blast
  then have new: "changed_session cs now s \<in> set (sessions_t d')"
    using w(1) by (auto simp: in_update_where)
  have none: "\<not> session_matches g (Some n) st' x" if x: "x \<in> set (sessions_t d')" for x
  proof -
    obtain y where y: "y \<in> set (sessions_t d)" "x = (if ?P y then changed_session cs now y else y)"
      using x w(1) by (auto simp: in_update_where)
    show ?thesis
    proof (cases "gs_id y = g")
      case True
      with all [OF y(1)] y(2) show ?thesis by (simp add: session_matches_def)
    next
      case False
      with y(2) show ?thesis by (simp add: session_matches_def)
    qed
  qed
  have same: "update_where (session_matches g (Some n) st') (changed_session cs' now') (sessions_t d')
      = sessions_t d'"
    using none by simp
  have "row_count (session_matches g (Some n) st') (sessions_t d') = 0"
    using none by simp
  moreover have "fetchone (is_guard g) (sessions_t d') \<noteq> None"
    unfolding fetchone_None is_guard_def using s(2) by (intro notI) (drule bspec [OF _ new], simp)
  ultimately have conflict: "write_guard_session g (Some n) st' now' cs' d' = Inl (Sched ''REVISION_CONFLICT'')"
    using same by (simp add: write_guard_session_def Let_def del: row_count_0)
  have "gs_revision s = n"
    using s(3) by (simp add: session_matches_def)
  then have "gs_revision (changed_session cs now s) = n + 1" "gs_id (changed_session cs now s) = g"
    using s(2) by simp_all
  with new have "\<exists>s \<in> set (sessions_t d'). gs_id s = g \<and> gs_revision s = n + 1"
    by blast
  with conflict show ?thesis by (intro conjI)
qed

theorem guard_update_single_winner_witness:
  "write_guard_session ''g1'' (Some 1) None 140 [SC_reason None]
     (sample_guard_db\<lparr>sessions_t := [changed_session [SC_state STOPPING] 130 sample_session]\<rparr>)
   = Inl (Sched ''REVISION_CONFLICT'')"
proof -
  have "write_guard_session ''g1'' (Some 1) (Some ARMED) 130 [SC_state STOPPING] sample_guard_db
    = Inr ((), sample_guard_db\<lparr>sessions_t := [changed_session [SC_state STOPPING] 130 sample_session]\<rparr>)"
    by (simp add: write_guard_session_def sample_guard_db_def session_matches_def update_where_def
        row_count_def single_active_def sample_session_def changed_session_def)
  from guard_update_single_winner [OF sample_guard_db_keys this] show ?thesis by blast
qed

section \<open>Recovery fences every pending call\<close>

definition target_pending :: "guard_target \<Rightarrow> bool" where
  "target_pending t \<longleftrightarrow> gt_state t \<in> {T_STOPPING, T_RESUMING}"

definition session_pending :: "guard_session \<Rightarrow> bool" where
  "session_pending s \<longleftrightarrow> gs_state s \<in> {STOPPING, RESUMING}"

lemma set_pending_guards:
  "g \<in> set (pending_guards d) \<longleftrightarrow>
     (\<exists>t \<in> set (targets_t d). target_pending t \<and> gt_guard t = g)
     \<or> (\<exists>s \<in> set (sessions_t d). session_pending s \<and> gs_id s = g)"
  by (auto simp: pending_guards_def target_pending_def session_pending_def)

lemma fold_fence_targets:
  "targets_t (fold (fence_guard reason now) gs d) =
     map (\<lambda>t. if gt_guard t \<in> set gs \<and> gt_state t \<notin> {T_COMPLETED, T_RESUMED, T_NEEDS_REVIEW}
              then fence_target reason now t else t) (targets_t d)"
proof (induction gs arbitrary: d)
  case (Cons g gs)
  show ?case unfolding fold.simps o_apply Cons
    by (auto simp: fence_guard_def update_where_def)
qed simp

lemma fold_fence_sessions:
  "distinct gs \<Longrightarrow> sessions_t (fold (fence_guard reason now) gs d) =
     map (\<lambda>s. if gs_id s \<in> set gs \<and> gs_state s \<noteq> DISARMED then fence_session reason now s else s)
       (sessions_t d)"
proof (induction gs arbitrary: d)
  case (Cons g gs)
  then have IH: "sessions_t (fold (fence_guard reason now) gs e) =
     map (\<lambda>s. if gs_id s \<in> set gs \<and> gs_state s \<noteq> DISARMED then fence_session reason now s else s)
       (sessions_t e)" for e by simp
  show ?case unfolding fold.simps o_apply IH
    using Cons.prems by (auto simp: fence_guard_def update_where_def)
qed simp

lemma fold_fence_others:
  "fold (fence_guard reason now) gs d = d\<lparr>sessions_t := sessions_t (fold (fence_guard reason now) gs d),
     targets_t := targets_t (fold (fence_guard reason now) gs d)\<rparr>"
proof (induction gs arbitrary: d)
  case (Cons g gs)
  show ?case unfolding fold.simps o_apply
    by (subst Cons) (simp add: fence_guard_def)
qed simp

lemma recover_targets:
  "targets_t (snd (recover_quota_guard_pending reason now d)) =
     map (\<lambda>t. if gt_guard t \<in> set (pending_guards d) \<and> gt_state t \<notin> {T_COMPLETED, T_RESUMED, T_NEEDS_REVIEW}
              then fence_target reason now t else t) (targets_t d)"
  by (simp add: recover_quota_guard_pending_def fold_fence_targets)

lemma recover_sessions:
  "sessions_t (snd (recover_quota_guard_pending reason now d)) =
     map (\<lambda>s. if gs_id s \<in> set (pending_guards d) \<and> gs_state s \<noteq> DISARMED
              then fence_session reason now s else s) (sessions_t d)"
  by (simp add: recover_quota_guard_pending_def fold_fence_sessions pending_guards_def)

lemma recover_none_pending:
  "\<forall>t \<in> set (targets_t (snd (recover_quota_guard_pending reason now d))). \<not> target_pending t"
  "\<forall>s \<in> set (sessions_t (snd (recover_quota_guard_pending reason now d))). \<not> session_pending s"
  using set_pending_guards [of _ d]
  by (auto simp: recover_targets recover_sessions target_pending_def session_pending_def fence_simps)

lemma pending_guards_recovered: "pending_guards (snd (recover_quota_guard_pending reason now d)) = []"
  using recover_none_pending [of reason now d] set_pending_guards [of _ "snd (recover_quota_guard_pending reason now d)"]
  by (metis list.set_intros(1) neq_Nil_conv)

text \<open>
  After a crash no external call is replayed blindly: recovery leaves no session and no target
  in a pending state, it reports exactly the guards that had one, every target of a reported guard ends
  completed, resumed or in review and its session in review or disarmed, every other guard's rows are
  unchanged, and a second recovery finds nothing to do.
\<close>

theorem recovery_fences_pending_calls:
  "let (reported, d') = recover_quota_guard_pending reason now d in
     pending_guards d' = []
     \<and> recover_quota_guard_pending reason' now' d' = ([], d')
     \<and> set reported = gt_guard ` {t \<in> set (targets_t d). target_pending t}
         \<union> gs_id ` {s \<in> set (sessions_t d). session_pending s}
     \<and> list_all2 (\<lambda>t t'. if gt_guard t \<in> set reported
           then gt_state t' \<in> {T_COMPLETED, T_RESUMED, T_NEEDS_REVIEW} else t' = t)
         (targets_t d) (targets_t d')
     \<and> list_all2 (\<lambda>s s'. if gs_id s \<in> set reported
           then gs_state s' \<in> {NEEDS_REVIEW, DISARMED} else s' = s)
         (sessions_t d) (sessions_t d')"
proof -
  let ?d = "snd (recover_quota_guard_pending reason now d)"
  have rep: "fst (recover_quota_guard_pending reason now d) = pending_guards d"
    by (simp add: recover_quota_guard_pending_def)
  have again: "recover_quota_guard_pending reason' now' ?d = ([], ?d)"
    using pending_guards_recovered [of reason now d]
    by (simp add: recover_quota_guard_pending_def [of _ _ "?d"])
  have set: "set (pending_guards d) = gt_guard ` {t \<in> set (targets_t d). target_pending t}
         \<union> gs_id ` {s \<in> set (sessions_t d). session_pending s}"
    using set_pending_guards [of _ d] by auto
  show ?thesis
    using again rep set pending_guards_recovered [of reason now d]
    by (auto simp: case_prod_beta Let_def recover_targets recover_sessions list_all2_map2 intro!: list_all2_refl)
qed

end
