(* ===== verification/ThreadView.thy ===== *)
theory ThreadView
  imports GuardDecision StoreGuard
begin

text \<open>
  quota_guard.py: how the coordinator reads what the adapter returns about a task: \<open>_read_thread\<close>
  (without the call itself), \<open>_thread_completed\<close>, \<open>_active_turn\<close>, \<open>_turn_terminal\<close>, \<open>_goal\<close> and
  \<open>_reason\<close>. The adapter's answers are JSON values. The lemmas show that an accepted read is
  consistent: it has at most one active turn, and a task that is not active has none.
\<close>

section \<open>Python helpers\<close>

text \<open>
  \<open>str.casefold\<close> on code points below 256 (the micro sign, whose folding is U+03BC, stays): the
  result is only compared with lower-case ASCII words.
\<close>

definition casefold_char :: "char \<Rightarrow> string" where
  "casefold_char c =
     (let n = (of_char c :: nat)
      in if (65 \<le> n \<and> n \<le> 90) \<or> (192 \<le> n \<and> n \<le> 222 \<and> n \<noteq> 215) then [char_of (n + 32)]
         else if n = 223 then ''ss'' else [c])"

definition casefold :: "string \<Rightarrow> string" where
  "casefold s = concat (map casefold_char s)"

text \<open>\<open>d.get(key, default)\<close>.\<close>

definition jgetd :: "(string \<times> json) list \<Rightarrow> string \<Rightarrow> json \<Rightarrow> json" where
  "jgetd fs k dflt = (case map_of fs k of None \<Rightarrow> dflt | Some v \<Rightarrow> v)"

text \<open>
  \<open>str(status).casefold()\<close> of a goal status that is not None. Only comparisons with words such as
  active and paused follow, which the text of a boolean, a number, a list or a dictionary never
  equals; those are one marker here.
\<close>

definition folded_status :: "json \<Rightarrow> string" where
  "folded_status v = (case v of JStr s \<Rightarrow> casefold s | _ \<Rightarrow> ''(other)'')"

section \<open>Reading a task\<close>

record thread_read =
  tr_status :: string
  tr_active :: "string option"
  tr_turns :: "(string option \<times> string) list"

definition turn_statuses :: "string list" where
  "turn_statuses = [''completed'', ''interrupted'', ''failed'', ''inProgress'']"

definition thread_statuses :: "string list" where
  "thread_statuses = [''active'', ''idle'', ''notLoaded'', ''systemError'']"

definition read_invalid :: "bool \<Rightarrow> unit res" where
  "read_invalid bad = guard (\<not> bad) ''THREAD_READ_INVALID''"

text \<open>The loop over the turns; \<open>seen\<close> are the identities met so far (None included).\<close>

fun id_text :: "json \<Rightarrow> string option res" where
  "id_text JNull = Inr None"
| "id_text (JStr s) = Inr (Some s)"
| "id_text _ = Inl (Sched ''THREAD_READ_INVALID'')"

definition read_status :: "json \<Rightarrow> string list \<Rightarrow> string res" where
  "read_status v allowed =
     rbind (in_strings v allowed) (\<lambda>ok.
       if ok then (case v of JStr s \<Rightarrow> Inr s | _ \<Rightarrow> Inl (Sched ''THREAD_READ_INVALID''))
       else Inl (Sched ''THREAD_READ_INVALID''))"

fun read_turns :: "json list \<Rightarrow> string option list \<Rightarrow> (string option \<times> string) list res" where
  "read_turns [] seen = Inr []"
| "read_turns (turn # rest) seen =
     (case turn of
        JObj fs \<Rightarrow>
          rbind (id_text (jgetd fs ''id'' (jgetn fs ''turn_id''))) (\<lambda>turn_id.
          rbind (read_invalid (turn_id \<in> set seen)) (\<lambda>_.
          rbind (read_status (jgetd fs ''status'' (jgetn fs ''turn_status'')) turn_statuses) (\<lambda>status.
          rbind (read_turns rest (turn_id # seen)) (\<lambda>ts. Inr ((turn_id, status) # ts)))))
      | _ \<Rightarrow> Inl (Sched ''THREAD_READ_INVALID''))"

definition active_turns :: "(string option \<times> string) list \<Rightarrow> string option list" where
  "active_turns turns = map fst (filter (\<lambda>t. snd t = ''inProgress'') turns)"

definition read_of :: "string \<Rightarrow> string option \<Rightarrow> (string option \<times> string) list \<Rightarrow> thread_read" where
  "read_of status active_id turns =
     \<lparr>tr_status = status,
      tr_active = (case active_id of Some i \<Rightarrow> Some i
                   | None \<Rightarrow> (if active_turns turns = [] then None else hd (active_turns turns))),
      tr_turns = turns\<rparr>"

definition parse_thread_read :: "string \<Rightarrow> json \<Rightarrow> thread_read res" where
  "parse_thread_read thread_id v =
     (case v of
        JObj vs \<Rightarrow>
          (let fs = (case jgetn vs ''thread'' of JObj inner \<Rightarrow> inner | _ \<Rightarrow> vs);
               returned_id = jgetd fs ''id'' (jgetn fs ''thread_id'');
               raw_status = jgetd fs ''status'' (jgetn fs ''thread_status'');
               status_value = (case raw_status of JObj st \<Rightarrow> jgetd st ''type'' (jgetn st ''status'')
                               | _ \<Rightarrow> raw_status);
               active_value = jgetd fs ''active_turn_id'' (jgetn vs ''active_turn_id'');
               turns_value = jgetd fs ''turns'' (jgetd vs ''turns'' (JArr []))
           in
           rbind (guard (returned_id = JNull \<or> returned_id = JStr thread_id) ''THREAD_ID_MISMATCH'') (\<lambda>_.
           rbind (read_status status_value thread_statuses) (\<lambda>status.
           rbind (id_text active_value) (\<lambda>active_id.
           rbind (read_invalid (active_id = Some [])) (\<lambda>_.
           rbind (case turns_value of JNull \<Rightarrow> Inr [] | JArr ts \<Rightarrow> Inr ts
                  | _ \<Rightarrow> Inl (Sched ''THREAD_READ_INVALID'')) (\<lambda>raw_turns.
           rbind (read_turns raw_turns []) (\<lambda>turns.
           rbind (read_invalid (length (active_turns turns) > 1)) (\<lambda>_.
           rbind (read_invalid (active_id \<noteq> None \<and> active_turns turns \<noteq> []
                    \<and> active_id \<noteq> hd (active_turns turns))) (\<lambda>_.
           rbind (read_invalid (status \<noteq> ''active'' \<and> (active_id \<noteq> None \<or> active_turns turns \<noteq> []))) (\<lambda>_.
           Inr (read_of status active_id turns)))))))))))
      | _ \<Rightarrow> Inl (Sched ''THREAD_READ_INVALID''))"

definition thread_completed :: "thread_read \<Rightarrow> bool" where
  "thread_completed r =
     (let status = casefold (tr_status r) in
      if status \<in> set [''completed'', ''succeeded'', ''done'', ''closed'', ''terminated''] then True
      else if status \<in> set [''idle'', ''notloaded'', ''not_loaded''] \<and> tr_turns r \<noteq> []
      then casefold (snd (last (tr_turns r))) \<in> set [''completed'', ''succeeded'', ''failed'', ''done'']
      else False)"

definition running_statuses :: "string list" where
  "running_statuses = [''inprogress'', ''in_progress'', ''active'', ''running'', ''started'']"

definition active_turn :: "thread_read \<Rightarrow> string option" where
  "active_turn r =
     (case tr_active r of
        Some (c # cs) \<Rightarrow> Some (c # cs)
      | _ \<Rightarrow> (case find (\<lambda>t. fst t \<noteq> None \<and> casefold (snd t) \<in> set running_statuses) (rev (tr_turns r)) of
               None \<Rightarrow> None | Some t \<Rightarrow> fst t))"

definition turn_terminal :: "thread_read \<Rightarrow> string \<Rightarrow> string option" where
  "turn_terminal r turn_id =
     (case find (\<lambda>t. fst t = Some turn_id) (tr_turns r) of
        None \<Rightarrow> None
      | Some t \<Rightarrow>
          (let status = casefold (snd t) in
           if status \<in> set [''interrupted'', ''completed'', ''succeeded'', ''failed'', ''done'', ''terminated'']
           then Some status else None))"

section \<open>Reading a goal\<close>

record goal_view =
  gv_exists :: bool
  gv_state :: string
  gv_updated :: "int option"

definition no_goal :: goal_view where
  "no_goal = \<lparr>gv_exists = False, gv_state = ''none'', gv_updated = None\<rparr>"

definition goal_active_words :: "string list" where
  "goal_active_words = [''active'', ''running'', ''inprogress'', ''in_progress'']"

fun goal_time :: "json \<Rightarrow> int option res" where
  "goal_time JNull = Inr None"
| "goal_time (JInt n) = (if n < 0 then Inl (Sched ''GOAL_READ_INVALID'') else Inr (Some n))"
| "goal_time _ = Inl (Sched ''GOAL_READ_INVALID'')"

definition goal_of :: "json \<Rightarrow> goal_view res" where
  "goal_of v =
     (case v of
        JNull \<Rightarrow> Inr no_goal
      | JObj vs \<Rightarrow>
          (let fs = (case jgetn vs ''goal'' of JObj inner \<Rightarrow> inner | _ \<Rightarrow> vs);
               given = jgetd fs ''status'' (jgetn fs ''state'');
               status = (if given = JNull then
                           (case jget fs ''active'' of
                              Some (JBool b) \<Rightarrow> JStr (if b then ''active'' else ''paused'')
                            | _ \<Rightarrow> JNull)
                         else given)
           in if status = JNull then Inr no_goal
              else rbind (goal_time (jgetd fs ''updated_at'' (jgetn fs ''updatedAt''))) (\<lambda>updated.
                (let word = folded_status status
                 in Inr \<lparr>gv_exists = True,
                         gv_state = (if word \<in> set goal_active_words then ''active''
                                     else if word \<in> set [''paused'', ''pause'', ''held'', ''suspended'']
                                     then ''paused'' else word),
                         gv_updated = updated\<rparr>)))
      | JStr s \<Rightarrow> Inr \<lparr>gv_exists = casefold s \<in> set goal_active_words, gv_state = casefold s, gv_updated = None\<rparr>
      | JBool b \<Rightarrow> Inr \<lparr>gv_exists = True, gv_state = (if b then ''active'' else ''paused''), gv_updated = None\<rparr>
      | _ \<Rightarrow> Inl (Sched ''GOAL_READ_INVALID''))"

text \<open>\<open>_reason\<close>: the exception's code, cut to 64 characters.\<close>

fun reason_of :: "err \<Rightarrow> string" where
  "reason_of (Sched c) = (if c = [] then ''ADAPTER_UNCERTAIN'' else take 64 c)"
| "reason_of (PyExc c) = ''ADAPTER_UNCERTAIN''"

section \<open>An accepted read is consistent\<close>

lemma read_status_Inr [simp]:
  "read_status v allowed = Inr s \<longleftrightarrow> v = JStr s \<and> s \<in> set allowed"
  by (cases v) (auto simp: read_status_def)

lemma read_invalid_Inr [simp]: "read_invalid bad = Inr u \<longleftrightarrow> \<not> bad"
  by (simp add: read_invalid_def)

lemma read_turns_statuses:
  "read_turns ts seen = Inr turns \<Longrightarrow>
   (\<forall>t \<in> set turns. snd t \<in> set turn_statuses \<and> fst t \<notin> set seen) \<and> distinct (map fst turns)"
proof (induction ts seen arbitrary: turns rule: read_turns.induct)
  case (2 turn rest seen)
  show ?case
  proof (cases turn)
    case (JObj fs)
    with "2.prems" obtain i st ts where *: "i \<notin> set seen" "st \<in> set turn_statuses"
        "read_turns rest (i # seen) = Inr ts" "turns = (i, st) # ts"
        "id_text (jgetd fs ''id'' (jgetn fs ''turn_id'')) = Inr i"
        "read_status (jgetd fs ''status'' (jgetn fs ''turn_status'')) turn_statuses = Inr st"
      by auto
    have "(\<forall>t \<in> set ts. snd t \<in> set turn_statuses \<and> fst t \<notin> set (i # seen)) \<and> distinct (map fst ts)"
      by (rule "2.IH" [OF JObj *(3)])
    with * show ?thesis by auto
  qed (use "2.prems" in auto)
qed simp

lemma casefold_words:
  "casefold ''completed'' = ''completed''" "casefold ''interrupted'' = ''interrupted''"
  "casefold ''failed'' = ''failed''" "casefold ''inProgress'' = ''inprogress''"
  "casefold ''active'' = ''active''" "casefold ''idle'' = ''idle''"
  "casefold ''notLoaded'' = ''notloaded''" "casefold ''systemError'' = ''systemerror''"
  by code_simp+

lemma running_status_iff: "st \<in> set turn_statuses \<Longrightarrow> casefold st \<in> set running_statuses \<longleftrightarrow> st = ''inProgress''"
  by (auto simp: turn_statuses_def running_statuses_def casefold_words)

text \<open>An active turn is the one the read names, or one of its turns in progress.\<close>

lemma active_turn_from:
  assumes "\<forall>t \<in> set (tr_turns r). snd t \<in> set turn_statuses"
  shows "active_turn r = None \<or> active_turn r = tr_active r \<or> active_turn r \<in> set (active_turns (tr_turns r))"
proof -
  have "fst t \<in> set (active_turns (tr_turns r))"
    if "find (\<lambda>t. fst t \<noteq> None \<and> casefold (snd t) \<in> set running_statuses) (rev (tr_turns r)) = Some t" for t
  proof -
    have "t \<in> set (tr_turns r)" "casefold (snd t) \<in> set running_statuses"
      using fetchone_Some [unfolded fetchone_def, OF that] by auto
    then show ?thesis
      using assms running_status_iff by (auto simp: active_turns_def)
  qed
  then show ?thesis
    by (auto simp: active_turn_def split: option.splits list.splits)
qed

definition consistent_read :: "thread_read \<Rightarrow> bool" where
  "consistent_read r \<longleftrightarrow>
     tr_status r \<in> set thread_statuses
     \<and> distinct (map fst (tr_turns r))
     \<and> length (active_turns (tr_turns r)) \<le> 1
     \<and> (tr_status r \<noteq> ''active'' \<longrightarrow> active_turn r = None \<and> active_turns (tr_turns r) = [])
     \<and> (\<forall>i. active_turn r = Some i \<longrightarrow> tr_active r = Some i)"

lemma parse_thread_read_Inr:
  assumes "parse_thread_read thread_id v = Inr r"
  shows "\<exists>status active_id ts turns. status \<in> set thread_statuses \<and> active_id \<noteq> Some []
     \<and> read_turns ts [] = Inr turns \<and> length (active_turns turns) \<le> 1
     \<and> (active_id \<noteq> None \<longrightarrow> active_turns turns \<noteq> [] \<longrightarrow> active_id = hd (active_turns turns))
     \<and> (status \<noteq> ''active'' \<longrightarrow> active_id = None \<and> active_turns turns = [])
     \<and> r = read_of status active_id turns"
proof -
  obtain vs where v: "v = JObj vs"
    using assms by (cases v) (simp_all add: parse_thread_read_def)
  from assms[unfolded parse_thread_read_def v json.case Let_def rbind_Inr_iff guard_Inr
      read_status_Inr read_invalid_Inr]
  show ?thesis by (elim exE conjE) (intro exI conjI, assumption, assumption, assumption, linarith, blast, blast, simp)
qed

lemma parse_consistent:
  assumes "parse_thread_read thread_id v = Inr r"
  shows "consistent_read r"
proof -
  obtain status active_id ts turns where r: "status \<in> set thread_statuses" "active_id \<noteq> Some []"
      "read_turns ts [] = Inr turns" "length (active_turns turns) \<le> 1"
      "active_id \<noteq> None \<longrightarrow> active_turns turns \<noteq> [] \<longrightarrow> active_id = hd (active_turns turns)"
      "status \<noteq> ''active'' \<longrightarrow> active_id = None \<and> active_turns turns = []"
      "r = read_of status active_id turns"
    using parse_thread_read_Inr [OF assms] by blast
  note turns = read_turns_statuses [OF r(3)]
  have fields: "tr_status r = status" "tr_turns r = turns" "tr_active r = (case active_id of Some i \<Rightarrow> Some i
      | None \<Rightarrow> (if active_turns turns = [] then None else hd (active_turns turns)))"
    by (simp_all add: r(7) read_of_def)
  have one: "i = hd (active_turns turns)" if "i \<in> set (active_turns turns)" for i
    using that r(4) by (cases "active_turns turns") auto
  have "active_turn r = None \<or> active_turn r = tr_active r"
  proof (rule ccontr)
    assume neg: "\<not> ?thesis"
    then have mem: "active_turn r \<in> set (active_turns turns)"
      using active_turn_from [of r] turns fields(2) by auto
    then have "active_turn r = hd (active_turns turns)" "active_turns turns \<noteq> []"
      using one by auto
    with neg fields(3) r(5) show False
      by (cases active_id) auto
  qed
  then have act: "active_turn r = Some i \<Longrightarrow> tr_active r = Some i" for i
    by auto
  have idle: "active_turn r = None" if "status \<noteq> ''active''"
    using \<open>active_turn r = None \<or> active_turn r = tr_active r\<close> r(6) that fields(3) by auto
  show ?thesis
    unfolding consistent_read_def fields(1,2) using r(1,4,6) turns act idle by blast
qed

text \<open>
  A task read is accepted only when it is coherent: the status and every turn status is known, no
  turn identity repeats, at most one turn is in progress, a task that is not active has no active turn,
  and the turn that the guard would interrupt is the one the read names.
\<close>

theorem parse_thread_read_consistent:
  assumes "parse_thread_read thread_id v = Inr r"
  shows "consistent_read r"
  using assms by (rule parse_consistent)

text \<open>An idle task with a finished turn, read through an envelope.\<close>

definition idle_answer :: json where
  "idle_answer = JObj [(''thread'', JObj [(''id'', JStr ''t1''), (''status'', JObj [(''type'', JStr ''idle'')]),
     (''turns'', JArr [JObj [(''id'', JStr ''u1''), (''status'', JStr ''interrupted'')]])])]"

definition idle_read :: thread_read where
  "idle_read = \<lparr>tr_status = ''idle'', tr_active = None, tr_turns = [(Some ''u1'', ''interrupted'')]\<rparr>"

lemma parse_idle_answer: "parse_thread_read ''t1'' idle_answer = Inr idle_read"
  by (simp add: parse_thread_read_def idle_answer_def idle_read_def jgetd_def jgetn_def read_status_def
      thread_statuses_def turn_statuses_def read_invalid_def active_turns_def read_of_def)

theorem parse_thread_read_consistent_witness: "consistent_read idle_read"
  using parse_thread_read_consistent [OF parse_idle_answer] .

end
