(* ===== verification/GuardCoordinator.thy ===== *)
theory GuardCoordinator
  imports ThreadView
begin

text \<open>
  quota_guard.py, class \<open>QuotaGuardCoordinator\<close>: containment, resumption and the due cycle. The
  adapter (the interface \<open>QuotaGuardAdapter\<close>) is a parameter: a function of the calls made so far, the
  call and the database, giving the answer or the exception and the database after the call, so that
  other processes may commit anything while a call is outstanding; theory ThreadControl models the
  adapter that the program uses. The state is the
  database and the log of calls, each with the database it was issued in and its answer.
\<close>

section \<open>The adapter and the state\<close>

datatype acall =
    A_inventory
  | A_read string
  | A_get_goal string
  | A_set_goal string string
  | A_interrupt string string
  | A_reopen string
  | A_continuation string

type_synonym call_log = "(acall \<times> db \<times> json res) list"
type_synonym adapter = "call_log \<Rightarrow> acall \<Rightarrow> db \<Rightarrow> json res \<times> db"

record cst =
  c_db :: db
  c_log :: call_log

record genv =
  ge_host :: host
  ge_ids :: "nat \<Rightarrow> string"
  ge_adapter :: adapter
  ge_actor :: string
  ge_max_age :: rat

definition adapter_call :: "genv \<Rightarrow> acall \<Rightarrow> (cst, json) eff" where
  "adapter_call env c s =
     (case ge_adapter env (c_log s) c (c_db s) of
        (r, d') \<Rightarrow> (r, \<lparr>c_db = d', c_log = c_log s @ [(c, c_db s, r)]\<rparr>))"

definition on_db :: "(db, 'a) eff \<Rightarrow> (cst, 'a) eff" where
  "on_db m s = (case m (c_db s) of (r, d') \<Rightarrow> (r, s\<lparr>c_db := d'\<rparr>))"

text \<open>\<open>raise\<close> after a handler has run.\<close>

definition reraise :: "(cst, 'b) eff \<Rightarrow> err \<Rightarrow> (cst, 'a) eff" where
  "reraise m e = ebind m (\<lambda>_. eraise e)"

section \<open>Reads\<close>

definition read_thread :: "genv \<Rightarrow> string \<Rightarrow> (cst, thread_read) eff" where
  "read_thread env thread_id =
     ebind (adapter_call env (A_read thread_id)) (\<lambda>v. elift (parse_thread_read thread_id v))"

definition read_goal :: "genv \<Rightarrow> string \<Rightarrow> (cst, goal_view) eff" where
  "read_goal env thread_id =
     ebind (adapter_call env (A_get_goal thread_id)) (\<lambda>v. elift (goal_of v))"

definition get_session :: "string \<Rightarrow> (cst, guard_session) eff" where
  "get_session g = on_db (eread (get_quota_guard_session g))"

definition get_target :: "string \<Rightarrow> string \<Rightarrow> (cst, guard_target) eff" where
  "get_target g th = on_db (eread (get_quota_guard_target g th))"

definition list_targets :: "string \<Rightarrow> (cst, guard_target list) eff" where
  "list_targets g = on_db (eread (list_quota_guard_targets g))"

text \<open>\<open>_controller_allows_resume\<close>: a store without a controller row allows it.\<close>

definition controller_allows_resume :: "db \<Rightarrow> bool" where
  "controller_allows_resume d =
     (case controller d of
        Inr c \<Rightarrow> mode c \<notin> {BLOCKED, STOPPED}
      | Inl e \<Rightarrow> True)"

section \<open>Local state helpers\<close>

text \<open>Every write of the coordinator names the row it read: key, revision and state.\<close>

definition write_target :: "guard_target \<Rightarrow> rat \<Rightarrow> target_change list \<Rightarrow> (cst, guard_target) eff" where
  "write_target t now cs =
     on_db (update_quota_guard_target (gt_guard t) (gt_thread t) (Some (gt_revision t))
       (Some (gt_state t)) now cs)"

definition transition_target ::
    "guard_target \<Rightarrow> guard_target_state \<Rightarrow> rat \<Rightarrow> target_change list \<Rightarrow> (cst, guard_target) eff" where
  "transition_target t st now cs =
     on_db (transition_quota_guard_target (gt_guard t) (gt_thread t) st (Some (gt_revision t))
       (Some (gt_state t)) now cs)"

definition write_session :: "guard_session \<Rightarrow> rat \<Rightarrow> session_change list \<Rightarrow> (cst, guard_session) eff" where
  "write_session s now cs =
     on_db (update_quota_guard_session (gs_id s) (Some (gs_revision s)) (Some (gs_state s)) now cs)"

definition transition_session ::
    "guard_session \<Rightarrow> guard_session_state \<Rightarrow> rat \<Rightarrow> session_change list \<Rightarrow> (cst, guard_session) eff" where
  "transition_session s st now cs =
     on_db (transition_quota_guard_session (gs_id s) st (Some (gs_revision s)) (Some (gs_state s)) now cs)"

definition catch_sched :: "(cst, 'a) eff \<Rightarrow> (cst, 'a) eff \<Rightarrow> (cst, 'a) eff" where
  "catch_sched m k = ecatch m (\<lambda>e. case e of Sched _ \<Rightarrow> k | PyExc _ \<Rightarrow> eraise e)"

definition mark_target_review :: "guard_target \<Rightarrow> string \<Rightarrow> rat \<Rightarrow> (cst, guard_target) eff" where
  "mark_target_review t reason now =
     (if gt_state t = T_NEEDS_REVIEW then eret t
      else catch_sched (transition_target t T_NEEDS_REVIEW now [TC_reason (Some reason)])
                       (get_target (gt_guard t) (gt_thread t)))"

definition mark_session_review :: "guard_session \<Rightarrow> string \<Rightarrow> rat \<Rightarrow> (cst, guard_session) eff" where
  "mark_session_review s reason now =
     (if gs_state s \<in> {NEEDS_REVIEW, DISARMED} then eret s
      else catch_sched (transition_session s NEEDS_REVIEW now [SC_reason (Some reason)])
                       (get_session (gs_id s)))"

definition schedule_check ::
    "guard_session \<Rightarrow> guard_session_state option \<Rightarrow> string option \<Rightarrow> rat \<Rightarrow> (cst, guard_session) eff" where
  "schedule_check s st reason now =
     (if gs_state s = DISARMED then eret s
      else
        (let updates = [SC_next_check_at (now + of_int (gs_interval s)), SC_last_checked_at now,
                        SC_reason reason]
         in case st of
              None \<Rightarrow> write_session s now updates
            | Some st' \<Rightarrow> (if st' = gs_state s then write_session s now updates
                          else transition_session s st' now updates)))"

text \<open>
  The gates before an external call. \<open>unless_disarmed\<close> reads the session again and gives up with
  \<open>v\<close> when the operator has disarmed it; \<open>resume_gate\<close> also asks the controller.
\<close>

definition unless_disarmed :: "string \<Rightarrow> 'a \<Rightarrow> (cst, 'a) eff \<Rightarrow> (cst, 'a) eff" where
  "unless_disarmed g v k = ebind (get_session g) (\<lambda>s. if gs_state s = DISARMED then eret v else k)"

definition resume_gate :: "string \<Rightarrow> 'a \<Rightarrow> (cst, 'a) eff \<Rightarrow> (cst, 'a) eff" where
  "resume_gate g v k =
     unless_disarmed g v
       (ebind (on_db (eread (\<lambda>d. Inr (controller_allows_resume d)))) (\<lambda>ok.
          if ok then k else eraise (Sched ''CONTROLLER_RESUME_DISABLED'')))"

section \<open>Containment\<close>

definition goal_active :: "goal_view \<Rightarrow> bool" where
  "goal_active g \<longleftrightarrow> gv_exists g \<and> gv_state g = ''active''"

text \<open>The goal is still paused by the guard: paused, with the time stamp the guard recorded.\<close>

definition goal_owned :: "goal_view \<Rightarrow> guard_target \<Rightarrow> bool" where
  "goal_owned g t \<longleftrightarrow>
     gv_exists g \<and> gv_state g = ''paused'' \<and> gv_updated g \<noteq> None \<and> gv_updated g = gt_goal_pause_at t"

definition goal_moved :: "goal_view \<Rightarrow> string \<Rightarrow> int \<Rightarrow> bool" where
  "goal_moved g state since \<longleftrightarrow>
     gv_exists g \<and> gv_state g = state \<and> (case gv_updated g of None \<Rightarrow> False | Some n \<Rightarrow> since < n)"

definition check_goal_ownership :: "goal_view \<Rightarrow> guard_target \<Rightarrow> (cst, unit) eff" where
  "check_goal_ownership g t =
     eguard (if gt_goal_changed t then goal_owned g t
             else \<not> (gt_original_status t \<noteq> None \<and> goal_active g \<and> \<not> gt_goal_was_active t))
       ''GOAL_OWNERSHIP_UNCONFIRMED''"

definition truthy :: "string option \<Rightarrow> bool" where
  "truthy x \<longleftrightarrow> (case x of None \<Rightarrow> False | Some s \<Rightarrow> s \<noteq> [])"

text \<open>
  The last part: the second read pins the exact turn; STOPPING and the turn are committed before
  the interrupt, and a failure after that commit fences the target.
\<close>

definition confirm_stopped :: "genv \<Rightarrow> guard_target \<Rightarrow> string \<Rightarrow> rat \<Rightarrow> (cst, guard_target) eff" where
  "confirm_stopped env stopping turn_id now =
     ebind (read_thread env (gt_thread stopping)) (\<lambda>verified.
       case turn_terminal verified turn_id of
         None \<Rightarrow> eraise (Sched ''TURN_INTERRUPT_UNCONFIRMED'')
       | Some terminal \<Rightarrow>
           if active_turn verified \<noteq> None \<or> tr_status verified = ''active''
           then eraise (Sched ''REPLACEMENT_TURN_ACTIVE'')
           else transition_target stopping
                  (if terminal \<in> set [''completed'', ''succeeded'', ''failed'', ''done'', ''terminated'']
                   then T_COMPLETED else T_HELD) now [TC_reason None])"

definition stop_exact_turn :: "genv \<Rightarrow> guard_target \<Rightarrow> string \<Rightarrow> rat \<Rightarrow> (cst, guard_target) eff" where
  "stop_exact_turn env t turn_id now =
     ebind (transition_target t T_STOPPING now [TC_original_turn (Some turn_id)]) (\<lambda>stopping.
       ecatch
         (unless_disarmed (gt_guard t) stopping
            (ebind (adapter_call env (A_interrupt (gt_thread t) turn_id)) (\<lambda>_.
               confirm_stopped env stopping turn_id now)))
         (\<lambda>e. reraise (mark_target_review stopping (reason_of e) now) e))"

definition contain_turn :: "genv \<Rightarrow> guard_target \<Rightarrow> rat \<Rightarrow> (cst, guard_target) eff" where
  "contain_turn env t now =
     ebind (read_thread env (gt_thread t)) (\<lambda>after_goal.
       if thread_completed after_goal then
         transition_target t T_COMPLETED now
           [TC_original_status (if truthy (gt_original_status t) then gt_original_status t
                                else Some (tr_status after_goal))]
       else
         (case active_turn after_goal of
            None \<Rightarrow> if tr_status after_goal = ''active'' then eraise (Sched ''TURN_MISSING'')
                    else transition_target t T_HELD now []
          | Some turn_id \<Rightarrow> stop_exact_turn env t turn_id now))"

definition pause_goal ::
    "genv \<Rightarrow> guard_target \<Rightarrow> goal_view \<Rightarrow> rat \<Rightarrow> (guard_target \<Rightarrow> (cst, guard_target) eff)
     \<Rightarrow> (cst, guard_target) eff" where
  "pause_goal env t goal now k =
     (case gv_updated goal of
        None \<Rightarrow> eraise (Sched ''GOAL_OWNERSHIP_UNCONFIRMED'')
      | Some since \<Rightarrow>
          unless_disarmed (gt_guard t) t
            (ebind (adapter_call env (A_set_goal (gt_thread t) ''paused'')) (\<lambda>_.
             ebind (read_goal env (gt_thread t)) (\<lambda>verify.
               if goal_moved verify ''paused'' since
               then ebind (write_target t now [TC_goal_changed True, TC_goal_pause_at (gv_updated verify)]) k
               else eraise (Sched ''GOAL_PAUSE_UNCONFIRMED'')))))"

definition contain_target :: "genv \<Rightarrow> guard_target \<Rightarrow> rat \<Rightarrow> (cst, guard_target) eff" where
  "contain_target env t now =
     (if gt_state t \<in> {T_COMPLETED, T_NEEDS_REVIEW} then eret t
      else
        ebind (read_thread env (gt_thread t)) (\<lambda>r.
          if thread_completed r then
            transition_target t T_COMPLETED now [TC_original_status (Some (tr_status r))]
          else
            ebind (read_goal env (gt_thread t)) (\<lambda>goal.
            ethen (check_goal_ownership goal t)
            (ebind (if gt_original_status t = None
                    then write_target t now
                           [TC_original_status (Some (tr_status r)), TC_goal_was_active (goal_active goal)]
                    else eret t) (\<lambda>t1.
               if goal_active goal
               then pause_goal env t1 goal now (\<lambda>t2. contain_turn env t2 now)
               else contain_turn env t1 now)))))"

text \<open>The handler of the loops: an uncertain target is fenced unless it is completed, held or fenced.\<close>

definition contain_or_fence :: "genv \<Rightarrow> guard_session \<Rightarrow> rat \<Rightarrow> guard_target \<Rightarrow> (cst, unit) eff" where
  "contain_or_fence env s now t =
     ecatch (ebind (contain_target env t now) (\<lambda>_. eret ()))
       (\<lambda>e. ebind (get_target (gs_id s) (gt_thread t)) (\<lambda>current.
              if gt_state current \<in> {T_COMPLETED, T_HELD, T_NEEDS_REVIEW} then eret ()
              else ebind (mark_target_review current (reason_of e) now) (\<lambda>_. eret ())))"

definition some_in_review :: "guard_target list \<Rightarrow> bool" where
  "some_in_review ts \<longleftrightarrow> (\<exists>t \<in> set ts. gt_state t = T_NEEDS_REVIEW)"

definition contain_all :: "genv \<Rightarrow> guard_session \<Rightarrow> rat \<Rightarrow> string \<Rightarrow> (cst, guard_session) eff" where
  "contain_all env s now reason =
     ebind (list_targets (gs_id s)) (\<lambda>targets.
     ethen (eforeach (\<lambda>t. if gt_state t \<in> {T_COMPLETED, T_NEEDS_REVIEW} then eret ()
                          else contain_or_fence env s now t) targets)
     (ebind (list_targets (gs_id s)) (\<lambda>current.
       if some_in_review current
       then mark_session_review s (if reason = [] then ''CONTAINMENT_UNCERTAIN'' else reason) now
       else catch_sched
              (ebind (get_session (gs_id s)) (\<lambda>fresh.
                 schedule_check fresh (Some HELD_QUOTA)
                   (Some (if reason = [] then ''QUOTA_THRESHOLD'' else reason)) now))
              (get_session (gs_id s)))))"

definition preflight_held_targets :: "genv \<Rightarrow> guard_session \<Rightarrow> rat \<Rightarrow> (cst, bool) eff" where
  "preflight_held_targets env s now =
     ebind (list_targets (gs_id s)) (\<lambda>targets.
     ethen (eforeach (\<lambda>t. if gt_state t \<in> {T_COMPLETED, T_NEEDS_REVIEW, T_RESUMED} then eret ()
                          else contain_or_fence env s now t) targets)
     (ebind (list_targets (gs_id s)) (\<lambda>current. eret (\<not> some_in_review current))))"

section \<open>Resumption\<close>

definition raise_if :: "bool \<Rightarrow> string \<Rightarrow> (cst, unit) eff" where
  "raise_if bad code = eguard (\<not> bad) code"

definition not_running :: "genv \<Rightarrow> string \<Rightarrow> (cst, thread_read) eff" where
  "not_running env thread_id =
     ebind (read_thread env thread_id) (\<lambda>r.
     ethen (raise_if (active_turn r \<noteq> None \<or> tr_status r = ''active'') ''PREEXISTING_TURN_ACTIVE'')
           (eret r))"

definition restore_goal ::
    "genv \<Rightarrow> guard_target \<Rightarrow> guard_target \<Rightarrow> (cst, guard_target) eff \<Rightarrow> (cst, guard_target) eff" where
  "restore_goal env t resuming k =
     ebind (read_goal env (gt_thread t)) (\<lambda>goal.
     ethen (raise_if (\<not> goal_owned goal t) ''GOAL_OWNERSHIP_UNCONFIRMED'')
     (ebind (not_running env (gt_thread t)) (\<lambda>_.
       resume_gate (gt_guard t) resuming
         (ebind (adapter_call env (A_set_goal (gt_thread t) ''active'')) (\<lambda>_.
          ebind (read_goal env (gt_thread t)) (\<lambda>verify.
          ethen (raise_if (\<not> goal_moved verify ''active'' (the (gv_updated goal))) ''GOAL_RESUME_UNCONFIRMED'')
                k))))))"

text \<open>The turn identity that the continuation call returns.\<close>

definition continuation_turn :: "json \<Rightarrow> string res" where
  "continuation_turn v =
     (case v of
        JObj fs \<Rightarrow>
          (case jgetd fs ''turn_id'' (jgetn fs ''turnId'') of
             JStr i \<Rightarrow> if i = [] then Inl (Sched ''CONTINUATION_UNCONFIRMED'') else Inr i
           | _ \<Rightarrow> Inl (Sched ''CONTINUATION_UNCONFIRMED''))
      | _ \<Rightarrow> Inl (Sched ''CONTINUATION_UNCONFIRMED''))"

definition continue_thread ::
    "genv \<Rightarrow> guard_target \<Rightarrow> guard_target \<Rightarrow> rat \<Rightarrow> (cst, guard_target) eff \<Rightarrow> (cst, guard_target) eff" where
  "continue_thread env t resuming now k =
     ebind (not_running env (gt_thread t)) (\<lambda>_.
       resume_gate (gt_guard t) resuming
         (ebind (adapter_call env (A_reopen (gt_thread t))) (\<lambda>_.
          resume_gate (gt_guard t) resuming
            (ebind (adapter_call env (A_continuation (gt_thread t))) (\<lambda>answer.
             ebind (elift (continuation_turn answer)) (\<lambda>turn_id.
             ebind (read_thread env (gt_thread t)) (\<lambda>verified.
               if thread_completed verified then transition_target resuming T_COMPLETED now []
               else ethen (raise_if (active_turn verified \<noteq> Some turn_id) ''CONTINUATION_UNCONFIRMED'') k)))))))"

definition resume_target :: "genv \<Rightarrow> guard_target \<Rightarrow> guard_session \<Rightarrow> rat \<Rightarrow> (cst, guard_target) eff" where
  "resume_target env t s now =
     (if gt_state t \<in> {T_COMPLETED, T_RESUMED, T_NEEDS_REVIEW} then eret t
      else
        ebind (read_thread env (gt_thread t)) (\<lambda>r.
          if thread_completed r then transition_target t T_COMPLETED now []
          else
            ethen (raise_if (active_turn r \<noteq> None \<or> tr_status r = ''active'') ''PREEXISTING_TURN_ACTIVE'')
            (ebind (transition_target t T_RESUMING now []) (\<lambda>resuming.
               let resumed = transition_target resuming T_RESUMED now [TC_reason None] in
               ecatch
                 (if gt_goal_changed t then restore_goal env t resuming resumed
                  else if gs_resume_non_goal s then continue_thread env t resuming now resumed
                  else transition_target resuming T_HELD now [TC_reason (Some ''RESUME_NOT_REQUESTED'')])
                 (\<lambda>e. reraise (mark_target_review resuming (reason_of e) now) e)))))"

text \<open>The loop of \<open>_resume_all\<close>: the first error ends it.\<close>

fun resume_targets :: "genv \<Rightarrow> guard_session \<Rightarrow> rat \<Rightarrow> guard_target list \<Rightarrow> (cst, err option) eff" where
  "resume_targets env s now [] = eret None"
| "resume_targets env s now (t # ts) =
     ebind (ecatch (ebind (resume_target env t s now) (\<lambda>_. eret None)) (\<lambda>e. eret (Some e))) (\<lambda>failed.
       case failed of None \<Rightarrow> resume_targets env s now ts | Some e \<Rightarrow> eret (Some e))"

definition resumable :: "guard_session \<Rightarrow> guard_target \<Rightarrow> bool" where
  "resumable s t \<longleftrightarrow> gt_state t = T_HELD \<and> (gt_goal_changed t \<or> gs_resume_non_goal s)"

definition resume_all :: "genv \<Rightarrow> guard_session \<Rightarrow> rat \<Rightarrow> (cst, guard_session) eff" where
  "resume_all env s now =
     ebind (list_targets (gs_id s)) (\<lambda>targets.
       if filter (resumable s) targets = [] then schedule_check s (Some ARMED) None now
       else
         ebind (schedule_check s (Some RESUMING) None now) (\<lambda>current.
         ebind (resume_targets env current now (filter (resumable s) targets)) (\<lambda>failed.
           case failed of
             Some e \<Rightarrow> ebind (get_session (gs_id s)) (\<lambda>latest. mark_session_review latest (reason_of e) now)
           | None \<Rightarrow>
               ebind (list_targets (gs_id s)) (\<lambda>latest_targets.
               ebind (get_session (gs_id s)) (\<lambda>latest.
                 if some_in_review latest_targets
                 then mark_session_review latest ''RESUMPTION_UNCERTAIN'' now
                 else schedule_check latest (Some ARMED) None now)))))"

section \<open>The due cycle\<close>

text \<open>\<open>==\<close> of a JSON value and a string.\<close>

definition names_session :: "json \<Rightarrow> guard_session \<Rightarrow> bool" where
  "names_session snap s \<longleftrightarrow>
     jgetn (obj_fields snap) ''profile_key'' = JStr (gs_profile_key s)
     \<and> jgetn (obj_fields snap) ''limit_id'' = JStr (gs_limit_id s)"

text \<open>The snapshot the session may use: None (null) unless it is of the session's profile and limit.\<close>

definition session_snapshot :: "json option \<Rightarrow> guard_session \<Rightarrow> json" where
  "session_snapshot snap s =
     (case snap of None \<Rightarrow> JNull | Some v \<Rightarrow> if names_session v s then v else JNull)"

definition stop_hash :: "host \<Rightarrow> json \<Rightarrow> string" where
  "stop_hash h snap =
     (case jgetn (obj_fields snap) ''snapshot_hash'' of JStr x \<Rightarrow> if x = [] then payload_hash h snap else x
      | _ \<Rightarrow> payload_hash h snap)"

definition reason_code :: "trip_decision \<Rightarrow> string" where
  "reason_code d = (case trip_reasons d of [] \<Rightarrow> ''SIGNAL_UNAVAILABLE'' | r # _ \<Rightarrow> if r = [] then ''SIGNAL_UNAVAILABLE'' else r)"

definition process_armed :: "genv \<Rightarrow> guard_session \<Rightarrow> json \<Rightarrow> rat \<Rightarrow> (cst, guard_session) eff" where
  "process_armed env s snap now =
     ebind (elift (decide_trip snap (JNum (gs_threshold s)) (Some now) (ge_max_age env))) (\<lambda>decision.
       if \<not> contain decision then schedule_check s None None now
       else
         ebind (if trip_status decision = ''fresh'' \<and> snap \<noteq> JNull
                then write_session s now [SC_stop_snapshot_hash (Some (stop_hash (ge_host env) snap)),
                                          SC_tripped_windows (tripped_windows decision)]
                else eret s) (\<lambda>current.
         ebind (on_db (transition_quota_guard_session (gs_id current) STOPPING (Some (gs_revision current))
                  (Some ARMED) now [SC_reason (Some (reason_code decision))])) (\<lambda>stopping.
         contain_all env stopping now (reason_code decision))))"

definition paid_credit_safe :: "json \<Rightarrow> bool" where
  "paid_credit_safe snap \<longleftrightarrow>
     jgetn (obj_fields snap) ''paid_credit_state'' = JStr ''unavailable''
     \<and> jgetn (obj_fields snap) ''spend_control_state'' = JStr ''not_reached''"

definition hold_reason :: "resume_decision \<Rightarrow> bool \<Rightarrow> bool \<Rightarrow> string" where
  "hold_reason decision allow_resume paid_safe =
     (case resume_reasons decision of
        r # _ \<Rightarrow> if r = [] then (if \<not> allow_resume then ''CONTROLLER_RESUME_DISABLED''
                               else if \<not> paid_safe then ''PAID_CREDIT_SIGNAL_UNSAFE'' else ''SIGNAL_UNAVAILABLE'')
                 else r
      | [] \<Rightarrow> if \<not> allow_resume then ''CONTROLLER_RESUME_DISABLED''
              else if \<not> paid_safe then ''PAID_CREDIT_SIGNAL_UNSAFE'' else ''SIGNAL_UNAVAILABLE'')"

definition stop_snapshot_of :: "guard_session \<Rightarrow> db \<Rightarrow> json" where
  "stop_snapshot_of s d =
     (if truthy (gs_stop_snapshot_hash s)
      then (case quota_snapshot_by_hash (the (gs_stop_snapshot_hash s)) d of None \<Rightarrow> JNull | Some v \<Rightarrow> v)
      else JNull)"

definition process_held :: "genv \<Rightarrow> guard_session \<Rightarrow> json \<Rightarrow> rat \<Rightarrow> bool \<Rightarrow> (cst, guard_session) eff" where
  "process_held env s snap now allow_resume =
     ebind (on_db (eread (\<lambda>d. Inr (stop_snapshot_of s d)))) (\<lambda>stop.
     ebind (elift (decide_resume snap stop (JNum (gs_threshold s)) (JNum (gs_hysteresis s))
              (Some (gs_tripped_windows s)) (Some now) (ge_max_age env))) (\<lambda>decision.
     ebind (preflight_held_targets env s now) (\<lambda>contained.
       if \<not> contained
       then ebind (get_session (gs_id s)) (\<lambda>latest. mark_session_review latest ''RECONTAINMENT_UNCERTAIN'' now)
       else
         ebind (get_session (gs_id s)) (\<lambda>latest.
           if safe_to_resume decision \<and> allow_resume \<and> paid_credit_safe snap
           then resume_all env latest now
           else schedule_check latest (Some HELD_QUOTA)
                  (Some (hold_reason decision allow_resume (paid_credit_safe snap))) now))))"

definition process_session ::
    "genv \<Rightarrow> guard_session \<Rightarrow> json option \<Rightarrow> rat \<Rightarrow> bool \<Rightarrow> (cst, guard_session) eff" where
  "process_session env s snapshot now allow_resume =
     (let snap = session_snapshot snapshot s in
      if gs_state s = ARMED then process_armed env s snap now
      else if gs_state s \<noteq> HELD_QUOTA then eret s
      else process_held env s snap now allow_resume)"

definition audit_guard ::
    "genv \<Rightarrow> string \<Rightarrow> guard_session \<Rightarrow> (string \<times> json) list \<Rightarrow> rat \<Rightarrow> (cst, unit) eff" where
  "audit_guard env event_type s extra now =
     on_db (transact (\<lambda>d.
       rbind (append_audit (ge_host env) (ge_ids env (length (audit_t d))) event_type (ge_actor env)
                (JObj ((''guard_id'', JStr (gs_id s)) # extra)) now d)
         (\<lambda>(_, d'). Inr ((), d'))))"

definition opt_json :: "string option \<Rightarrow> json" where
  "opt_json x = (case x of None \<Rightarrow> JNull | Some s \<Rightarrow> JStr s)"

definition session_state_name :: "guard_session_state \<Rightarrow> string" where
  "session_state_name st =
     (case st of ARMED \<Rightarrow> ''ARMED'' | STOPPING \<Rightarrow> ''STOPPING'' | HELD_QUOTA \<Rightarrow> ''HELD_QUOTA''
      | RESUMING \<Rightarrow> ''RESUMING'' | NEEDS_REVIEW \<Rightarrow> ''NEEDS_REVIEW'' | DISARMED \<Rightarrow> ''DISARMED'')"

definition transition_details :: "guard_session \<Rightarrow> (string \<times> json) list" where
  "transition_details s =
     [(''reason_code'', opt_json (gs_reason s)), (''state'', JStr (session_state_name (gs_state s))),
      (''tripped_windows'', JArr (map JStr (filter (\<lambda>n. n \<in> set WINDOW_NAMES) (gs_tripped_windows s))))]"

record outcome =
  oc_guard :: string
  oc_state :: guard_session_state
  oc_reason :: "string option"
  oc_windows :: "string list"

definition outcome_of :: "guard_session \<Rightarrow> outcome" where
  "outcome_of s = \<lparr>oc_guard = gs_id s, oc_state = gs_state s, oc_reason = gs_reason s,
     oc_windows = gs_tripped_windows s\<rparr>"

record cycle_report =
  checked_at :: rat
  guards_checked :: nat
  recovered_guard_ids :: "string list"
  outcomes :: "outcome list"

text \<open>One iteration of the loop over the sessions.\<close>

definition cycle_session ::
    "genv \<Rightarrow> json option \<Rightarrow> rat \<Rightarrow> bool \<Rightarrow> guard_session \<Rightarrow> (cst, outcome) eff" where
  "cycle_session env snapshot now allow_resume s =
     ebind (ecatch (process_session env s snapshot now allow_resume)
              (\<lambda>e. case e of
                     Sched _ \<Rightarrow> ebind (get_session (gs_id s)) (\<lambda>cur. mark_session_review cur (reason_of e) now)
                   | PyExc _ \<Rightarrow> eraise e)) (\<lambda>updated.
     ethen (if gs_state updated \<noteq> gs_state s \<or> gs_reason updated \<noteq> gs_reason s
            then audit_guard env ''quota_guard.transitioned'' updated (transition_details updated) now
            else eret ())
           (eret (outcome_of updated)))"

fun emap :: "('a \<Rightarrow> ('s, 'b) eff) \<Rightarrow> 'a list \<Rightarrow> ('s, 'b list) eff" where
  "emap f [] = eret []"
| "emap f (x # xs) = ebind (f x) (\<lambda>y. ebind (emap f xs) (\<lambda>ys. eret (y # ys)))"

definition one_due_cycle :: "genv \<Rightarrow> rat \<Rightarrow> bool \<Rightarrow> bool \<Rightarrow> (cst, cycle_report) eff" where
  "one_due_cycle env now allow_resume signal_available =
     ebind (on_db (\<lambda>d. case recover_quota_guard_pending ''CRASH_PENDING_EXTERNAL_CALL'' now d of
                         (gs, d') \<Rightarrow> (Inr gs, d'))) (\<lambda>recovered.
     ebind (on_db (eread (\<lambda>d. Inr (if signal_available then latest_snapshot d else None)))) (\<lambda>snapshot.
     ebind (on_db (eread (\<lambda>d. if signal_available then list_due_quota_guard_sessions now d
              else list_quota_guard_sessions (Some [ARMED, HELD_QUOTA]) None d))) (\<lambda>sessions.
     ebind (emap (cycle_session env snapshot now allow_resume) sessions) (\<lambda>outs.
     ebind (emap (\<lambda>g. ebind (get_session g) (\<lambda>cur. eret (outcome_of cur)))
              (filter (\<lambda>g. g \<notin> set (map oc_guard outs)) recovered)) (\<lambda>more.
     eret \<lparr>checked_at = now, guards_checked = length sessions, recovered_guard_ids = recovered,
           outcomes = outs @ more\<rparr>)))))"

section \<open>Operator operations\<close>

definition coordinator_arm :: "string \<Rightarrow> rat \<Rightarrow> (cst, guard_session) eff" where
  "coordinator_arm g now =
     ebind (get_session g) (\<lambda>s.
       if gs_state s = DISARMED then eraise (Sched ''GUARD_DISARMED'')
       else if gs_state s = NEEDS_REVIEW then eraise (Sched ''GUARD_NEEDS_REVIEW'')
       else if gs_state s = ARMED then eret s
       else transition_session s ARMED now [SC_reason None])"

definition coordinator_disarm :: "genv \<Rightarrow> string \<Rightarrow> rat \<Rightarrow> (cst, guard_session) eff" where
  "coordinator_disarm env g now =
     ebind (get_session g) (\<lambda>s.
       if gs_state s = DISARMED then eret s
       else
         ebind (transition_session s DISARMED now [SC_reason (Some ''OPERATOR_DISARM'')]) (\<lambda>updated.
         ethen (audit_guard env ''quota_guard.disarmed'' updated
                  [(''reason_code'', opt_json (gs_reason updated)),
                   (''state'', JStr (session_state_name (gs_state updated)))] now)
               (eret updated)))"

end
