(* ===== verification/GuardSafety.thy ===== *)
theory GuardSafety
  imports GuardCoordinator
begin

text \<open>
  Safety of the quota-guard coordinator. Two interfaces state what a relation between states must
  satisfy at the coordinator's commits and calls: \<open>containment\<close> for the operations that stop tasks and
  \<open>resumption\<close> for the whole due cycle. Their lemmas carry any such relation through every branch,
  exceptions included, of \<open>one_due_cycle\<close>. They are interpreted at: every external mutation is
  authorised in the database it is issued in; no resuming call; finished rows never change; every
  change raises a revision; other tables stay as they are.
\<close>

section \<open>The interfaces\<close>

text \<open>The states a row written with these changes can end in, from a live state.\<close>

definition live :: "guard_target_state \<Rightarrow> bool" where
  "live st \<longleftrightarrow> st \<notin> {T_COMPLETED, T_NEEDS_REVIEW}"

definition live_changes :: "target_change list \<Rightarrow> bool" where
  "live_changes cs \<longleftrightarrow> (\<forall>c \<in> set cs. case c of TC_state st \<Rightarrow> live st | _ \<Rightarrow> True)"

fun resume_call :: "acall \<Rightarrow> bool" where
  "resume_call (A_set_goal th status) = (status = ''active'')"
| "resume_call (A_reopen th) = True"
| "resume_call (A_continuation th) = True"
| "resume_call _ = False"

lemma on_db_eread: "on_db (eread f) = eread (\<lambda>s. f (c_db s))"
  by (rule ext) (simp add: on_db_def eread_def)

lemma ebind_eret: "ebind (eret x) f = f x"
  by (rule ext) (simp add: ebind_def eret_def)

locale containment = step_rel R K
  for R :: "cst \<Rightarrow> cst \<Rightarrow> bool" and K :: "cst \<Rightarrow> bool" +
  fixes env :: genv and T :: "guard_target_state \<Rightarrow> bool"
  assumes T_live: "live st \<Longrightarrow> T st"
    and read_call: "keeps (adapter_call env (A_read th))"
    and goal_call: "keeps (adapter_call env (A_get_goal th))"
    and target_write: "T st \<Longrightarrow> keeps (on_db (update_quota_guard_target g th (Some n) (Some st) now cs))"
    and target_written: "T st \<Longrightarrow> live_changes cs \<Longrightarrow> cs \<noteq> [] \<Longrightarrow>
          yields (on_db (update_quota_guard_target g th (Some n) (Some st) now cs)) (\<lambda>t. T (gt_state t))"
    and session_write: "sst \<noteq> DISARMED \<Longrightarrow>
          keeps (on_db (update_quota_guard_session g (Some n) (Some sst) now scs))"
    and pause_call: "(\<And>v. keeps (f v)) \<Longrightarrow>
          keeps (unless_disarmed g (x :: guard_target) (ebind (adapter_call env (A_set_goal th ''paused'')) f))"
    and stop_call: "T (gt_state t) \<Longrightarrow> (\<And>u v. T (gt_state u) \<Longrightarrow> keeps (confirm u v)) \<Longrightarrow>
          (\<And>u e. T (gt_state u) \<Longrightarrow> keeps (handler u e)) \<Longrightarrow>
          keeps (ebind (transition_target t T_STOPPING now [TC_original_turn (Some turn_id)]) (\<lambda>stopping.
            ecatch (unless_disarmed (gt_guard t) stopping
                      (ebind (adapter_call env (A_interrupt (gt_thread t) turn_id)) (confirm stopping)))
                   (handler stopping :: err \<Rightarrow> (cst, guard_target) eff)))"
begin

lemma keeps_reads [keeps_intros]:
  "keeps (read_thread env th)" "keeps (read_goal env th)" "keeps (get_session g)"
  "keeps (get_target g th)" "keeps (list_targets g)" "keeps (on_db (eread q))"
  unfolding read_thread_def read_goal_def get_session_def get_target_def list_targets_def on_db_eread
  by (intro keeps_intros read_call goal_call)+

lemma keeps_reraise [keeps_intros]: "keeps m \<Longrightarrow> keeps (reraise m e)"
  unfolding reraise_def by (intro keeps_intros)

lemma keeps_catch_sched [keeps_intros]:
  "keeps m \<Longrightarrow> keeps k \<Longrightarrow> keeps (catch_sched m k)"
  unfolding catch_sched_def by (intro keeps_intros) (auto split: err.split intro!: keeps_intros)

lemma keeps_transition_target: "T (gt_state t) \<Longrightarrow> keeps (transition_target t st now cs)"
  unfolding transition_target_def transition_quota_guard_target_def by (rule target_write)

lemma keeps_write_target: "T (gt_state t) \<Longrightarrow> keeps (write_target t now cs)"
  unfolding write_target_def by (rule target_write)

lemma yields_write_target:
  "T (gt_state t) \<Longrightarrow> live_changes cs \<Longrightarrow> cs \<noteq> [] \<Longrightarrow> yields (write_target t now cs) (\<lambda>t. T (gt_state t))"
  unfolding write_target_def by (rule target_written)

lemma yields_transition_target:
  "T (gt_state t) \<Longrightarrow> live_changes (cs @ [TC_state st]) \<Longrightarrow>
   yields (transition_target t st now cs) (\<lambda>t. T (gt_state t))"
  unfolding transition_target_def transition_quota_guard_target_def by (rule target_written) simp_all

lemma keeps_transition_session: "gs_state s \<noteq> DISARMED \<Longrightarrow> keeps (transition_session s st now cs)"
  unfolding transition_session_def transition_quota_guard_session_def by (rule session_write)

lemma keeps_write_session: "gs_state s \<noteq> DISARMED \<Longrightarrow> keeps (write_session s now cs)"
  unfolding write_session_def by (rule session_write)

lemma keeps_mark_target_review: "T (gt_state t) \<Longrightarrow> keeps (mark_target_review t reason now)"
  unfolding mark_target_review_def by (intro keeps_intros keeps_transition_target)

lemma keeps_mark_session_review [keeps_intros]: "keeps (mark_session_review s reason now)"
proof (cases "gs_state s \<in> {NEEDS_REVIEW, DISARMED}")
  case False
  then show ?thesis
    unfolding mark_session_review_def by (auto intro!: keeps_intros keeps_transition_session)
qed (simp add: mark_session_review_def keeps_eret)

lemma keeps_schedule_check [keeps_intros]: "keeps (schedule_check s st reason now)"
proof (cases "gs_state s = DISARMED")
  case False
  then show ?thesis
    unfolding schedule_check_def Let_def
    by (auto split: option.split intro!: keeps_transition_session keeps_write_session)
qed (simp add: schedule_check_def keeps_eret)

lemma keeps_confirm_stopped: "T (gt_state t) \<Longrightarrow> keeps (confirm_stopped env t turn_id now)"
  unfolding confirm_stopped_def by (intro keeps_intros keeps_transition_target)

lemma keeps_stop_exact_turn: "T (gt_state t) \<Longrightarrow> keeps (stop_exact_turn env t turn_id now)"
  unfolding stop_exact_turn_def
  by (rule stop_call) (auto intro!: keeps_confirm_stopped keeps_reraise keeps_mark_target_review)

lemma keeps_contain_turn: "T (gt_state t) \<Longrightarrow> keeps (contain_turn env t now)"
  unfolding contain_turn_def by (intro keeps_intros keeps_transition_target keeps_stop_exact_turn)

lemma keeps_pause_goal:
  assumes "T (gt_state t)" and "\<And>u. T (gt_state u) \<Longrightarrow> keeps (k u)"
  shows "keeps (pause_goal env t goal now k)"
proof -
  have marked: "keeps (ebind (write_target t now [TC_goal_changed True, TC_goal_pause_at p]) k)" for p
    by (rule keeps_ebind_yields [OF keeps_write_target yields_write_target])
       (auto simp: live_changes_def assms)
  show ?thesis
    unfolding pause_goal_def
    by (intro keeps_case_option keeps_eraise pause_call keeps_ebind keeps_reads keeps_if marked)
qed

lemma keeps_contain_target [keeps_intros]: "keeps (contain_target env t now)"
proof (cases "gt_state t \<in> {T_COMPLETED, T_NEEDS_REVIEW}")
  case False
  then have T: "T (gt_state t)"
    using T_live by (simp add: live_def)
  let ?rest = "\<lambda>goal t1. if goal_active goal then pause_goal env t1 goal now (\<lambda>t2. contain_turn env t2 now)
    else contain_turn env t1 now"
  have rest: "keeps (?rest goal u)" if "T (gt_state u)" for goal u
    using that by (intro keeps_if keeps_pause_goal keeps_contain_turn)
  have first: "keeps (ebind (if gt_original_status t = None
      then write_target t now [TC_original_status (Some st), TC_goal_was_active b] else eret t) (?rest goal))"
    for st b goal
  proof (cases "gt_original_status t = None")
    case True
    then show ?thesis
      using keeps_ebind_yields [OF keeps_write_target yields_write_target rest] T
      by (simp add: live_changes_def)
  next
    case False
    then show ?thesis
      using rest [OF T, of goal] by (simp only: if_False ebind_eret)
  qed
  show ?thesis
    unfolding contain_target_def check_goal_ownership_def
    by (simp only: False if_False)
       (intro keeps_ebind [OF keeps_reads(1)] keeps_if keeps_transition_target [OF T]
         keeps_ebind [OF keeps_reads(2)] keeps_ebind [OF keeps_eguard] first)
qed (simp add: contain_target_def keeps_eret)

lemma keeps_contain_or_fence [keeps_intros]: "keeps (contain_or_fence env s now t)"
proof -
  have "keeps (ebind (mark_target_review u r now) (\<lambda>_. eret ()))"
    if "gt_state u \<notin> {T_COMPLETED, T_HELD, T_NEEDS_REVIEW}" for u r
    using that T_live [of "gt_state u"]
    by (intro keeps_ebind keeps_mark_target_review keeps_eret) (auto simp: live_def)
  then have "keeps (if gt_state u \<in> {T_COMPLETED, T_HELD, T_NEEDS_REVIEW} then eret ()
      else ebind (mark_target_review u r now) (\<lambda>_. eret ()))" for u r
    by (simp add: keeps_eret)
  then show ?thesis
    unfolding contain_or_fence_def
    by (intro keeps_ecatch keeps_ebind [OF keeps_contain_target keeps_eret] keeps_ebind [OF keeps_reads(4)])
qed

lemma keeps_contain_all [keeps_intros]: "keeps (contain_all env s now reason)"
  unfolding contain_all_def by (intro keeps_intros)

lemma keeps_preflight_held_targets [keeps_intros]: "keeps (preflight_held_targets env s now)"
  unfolding preflight_held_targets_def by (intro keeps_intros)

lemma keeps_process_armed: "gs_state s = ARMED \<Longrightarrow> keeps (process_armed env s snap now)"
  unfolding process_armed_def transition_quota_guard_session_def
  by (intro keeps_intros session_write keeps_write_session) auto

end

locale resumption = containment +
  assumes resume_call_ok: "resume_call c \<Longrightarrow> (\<And>v. keeps (after v)) \<Longrightarrow>
          keeps (resume_gate g (x :: guard_target) (ebind (adapter_call env c) after))"
    and fence_keeps: "keeps (on_db (\<lambda>d. case recover_quota_guard_pending reason now d of (gs, d') \<Rightarrow> (Inr gs, d')))"
    and audit_keeps: "keeps (audit_guard env ev s extra now)"
begin

lemma keeps_not_running [keeps_intros]: "keeps (not_running env th)"
  unfolding not_running_def raise_if_def by (intro keeps_intros)

lemma keeps_restore_goal: "keeps k \<Longrightarrow> keeps (restore_goal env t resuming k)"
  unfolding restore_goal_def raise_if_def by (intro keeps_intros resume_call_ok) simp_all

lemma keeps_continue_thread:
  assumes "T (gt_state resuming)" and "keeps k"
  shows "keeps (continue_thread env t resuming now k)"
proof -
  have second: "keeps (resume_gate (gt_guard t) resuming
            (ebind (adapter_call env (A_continuation (gt_thread t))) (\<lambda>answer.
             ebind (elift (continuation_turn answer)) (\<lambda>turn_id.
             ebind (read_thread env (gt_thread t)) (\<lambda>verified.
               if thread_completed verified then transition_target resuming T_COMPLETED now []
               else ethen (raise_if (active_turn verified \<noteq> Some turn_id) ''CONTINUATION_UNCONFIRMED'') k)))))"
    unfolding raise_if_def
    by (rule resume_call_ok) (simp, intro keeps_intros keeps_transition_target assms)
  show ?thesis
    unfolding continue_thread_def by (intro keeps_intros resume_call_ok second) simp
qed

lemma keeps_resume_target [keeps_intros]: "keeps (resume_target env t s now)"
proof (cases "gt_state t \<in> {T_COMPLETED, T_RESUMED, T_NEEDS_REVIEW}")
  case False
  then have T: "T (gt_state t)"
    using T_live by (simp add: live_def)
  let ?attempt = "\<lambda>u. let resumed = transition_target u T_RESUMED now [TC_reason None] in
      ecatch
        (if gt_goal_changed t then restore_goal env t u resumed
         else if gs_resume_non_goal s then continue_thread env t u now resumed
         else transition_target u T_HELD now [TC_reason (Some ''RESUME_NOT_REQUESTED'')])
        (\<lambda>e. reraise (mark_target_review u (reason_of e) now) e)"
  have attempt: "keeps (?attempt u)" if "T (gt_state u)" for u
    unfolding Let_def using that
    by (intro keeps_ecatch keeps_if keeps_restore_goal keeps_continue_thread keeps_transition_target
        keeps_reraise keeps_mark_target_review)
  have began: "keeps (ebind (transition_target t T_RESUMING now []) ?attempt)"
    by (rule keeps_ebind_yields [OF keeps_transition_target [OF T] yields_transition_target [OF T] attempt])
       (simp add: live_changes_def live_def)
  show ?thesis
    unfolding resume_target_def raise_if_def
    by (simp only: False if_False)
       (intro keeps_ebind [OF keeps_reads(1)] keeps_if keeps_transition_target [OF T]
         keeps_ebind [OF keeps_eguard] began)
qed (simp add: resume_target_def keeps_eret)

lemma keeps_resume_targets [keeps_intros]: "keeps (resume_targets env s now ts)"
  by (induction ts) (auto intro!: keeps_intros)

lemma keeps_resume_all [keeps_intros]: "keeps (resume_all env s now)"
  unfolding resume_all_def by (intro keeps_intros)

lemma keeps_process_held [keeps_intros]: "keeps (process_held env s snap now allow)"
  unfolding process_held_def by (intro keeps_intros)

lemma keeps_process_session [keeps_intros]: "keeps (process_session env s snapshot now allow)"
  unfolding process_session_def Let_def by (auto intro!: keeps_intros keeps_process_armed)

lemma keeps_cycle_session [keeps_intros]: "keeps (cycle_session env snapshot now allow s)"
  unfolding cycle_session_def
  by (intro keeps_intros audit_keeps) (auto split: err.split intro!: keeps_intros)

lemma keeps_emap [keeps_intros]: "(\<And>x. keeps (f x)) \<Longrightarrow> keeps (emap f xs)"
  by (induction xs) (auto intro!: keeps_intros)

lemma keeps_one_due_cycle: "keeps (one_due_cycle env now allow signal)"
  unfolding one_due_cycle_def by (intro keeps_intros fence_keeps)

end

section \<open>Every external mutation is authorised\<close>

definition guard_live :: "string \<Rightarrow> db \<Rightarrow> bool" where
  "guard_live g d \<longleftrightarrow> (\<exists>s. get_quota_guard_session g d = Inr s \<and> gs_state s \<noteq> DISARMED)"

text \<open>
  What must hold in the database at the moment a call is issued. An interrupt needs the target's row
  in STOPPING with exactly that turn recorded, under a guard that is not disarmed; a pause needs a
  guard that is not disarmed; whatever restarts work also needs a controller that is neither blocked
  nor stopped. Reads need nothing, and no other goal status is ever set.
\<close>

fun call_authorised :: "acall \<Rightarrow> db \<Rightarrow> bool" where
  "call_authorised (A_interrupt th turn_id) d =
     (\<exists>t \<in> set (targets_t d). gt_thread t = th \<and> gt_state t = T_STOPPING
        \<and> gt_original_turn t = Some turn_id \<and> guard_live (gt_guard t) d)"
| "call_authorised (A_set_goal th status) d =
     (if status = ''paused'' then \<exists>g. guard_live g d
      else status = ''active'' \<and> (\<exists>g. guard_live g d) \<and> controller_allows_resume d)"
| "call_authorised (A_reopen th) d = ((\<exists>g. guard_live g d) \<and> controller_allows_resume d)"
| "call_authorised (A_continuation th) d = ((\<exists>g. guard_live g d) \<and> controller_allows_resume d)"
| "call_authorised _ d = True"

text \<open>The calls a run adds to the log, each satisfying \<open>P\<close> in the database it is issued in.\<close>

definition logs :: "(acall \<Rightarrow> db \<Rightarrow> bool) \<Rightarrow> cst \<Rightarrow> cst \<Rightarrow> bool" where
  "logs P s t \<longleftrightarrow> (\<exists>ext. c_log t = c_log s @ ext \<and> (\<forall>(c, d, r) \<in> set ext. P c d))"

lemma logs_refl: "logs P s s"
  by (simp add: logs_def)

lemma logs_trans: "logs P s t \<Longrightarrow> logs P t u \<Longrightarrow> logs P s u"
  unfolding logs_def by fastforce

interpretation logging: step_rel "logs P" "\<lambda>_. True" for P
  by unfold_locales (auto intro: logs_refl logs_trans)

lemma logging_on_db: "logging.keeps P (on_db m)"
  by (rule logging.keepsI) (simp add: on_db_def logs_def split: prod.split)

lemma logs_adapter_call: "P c (c_db s) \<Longrightarrow> logs P s (snd (adapter_call env c s))"
  by (auto simp: adapter_call_def logs_def split: prod.split)

lemma logging_adapter_call: "(\<And>d. P c d) \<Longrightarrow> logging.keeps P (adapter_call env c)"
  by (rule logging.keepsI) (rule logs_adapter_call)

text \<open>A call that is authorised in the state it starts from, and what follows it.\<close>

lemma logs_call_then:
  assumes "P c (c_db s)" and "\<And>v. logging.keeps P (f v)"
  shows "logs P s (snd (ebind (adapter_call env c) f s))"
proof -
  have 1: "logs P s (snd (adapter_call env c s))"
    using assms(1) by (rule logs_adapter_call)
  have 2: "logs P t (snd (f v t))" for v t
    using logging.keepsD [OF assms(2)] by blast
  show ?thesis
    using 1 logs_trans [OF 1 2] by (auto simp: ebind_def split: prod.splits sum.splits)
qed

lemma unless_disarmed_run:
  "unless_disarmed g x k s =
     (case get_quota_guard_session g (c_db s) of
        Inl e \<Rightarrow> (Inl e, s)
      | Inr u \<Rightarrow> if gs_state u = DISARMED then (Inr x, s) else k s)"
  by (simp add: unless_disarmed_def get_session_def on_db_eread eff_defs split: sum.split)

lemma resume_gate_run:
  "resume_gate g x k s =
     (case get_quota_guard_session g (c_db s) of
        Inl e \<Rightarrow> (Inl e, s)
      | Inr u \<Rightarrow> if gs_state u = DISARMED then (Inr x, s)
               else if controller_allows_resume (c_db s) then k s
               else (Inl (Sched ''CONTROLLER_RESUME_DISABLED''), s))"
  by (simp add: resume_gate_def unless_disarmed_run on_db_eread eff_defs split: sum.split)

lemma logging_unless_disarmed:
  assumes "\<And>d. guard_live g d \<Longrightarrow> P c d" and "\<And>v. logging.keeps P (f v)"
  shows "logging.keeps P (unless_disarmed g x (ebind (adapter_call env c) f))"
proof (rule logging.keepsI)
  fix s
  have "guard_live g (c_db s) \<Longrightarrow> logs P s (snd (ebind (adapter_call env c) f s))"
    using assms by (intro logs_call_then) auto
  then show "logs P s (snd (unless_disarmed g x (ebind (adapter_call env c) f) s))"
    by (auto simp: unless_disarmed_run guard_live_def logs_refl split: sum.split)
qed

lemma logging_resume_gate:
  assumes "\<And>d. guard_live g d \<Longrightarrow> controller_allows_resume d \<Longrightarrow> P c d" and "\<And>v. logging.keeps P (f v)"
  shows "logging.keeps P (resume_gate g x (ebind (adapter_call env c) f))"
proof (rule logging.keepsI)
  fix s
  have "guard_live g (c_db s) \<Longrightarrow> controller_allows_resume (c_db s) \<Longrightarrow>
      logs P s (snd (ebind (adapter_call env c) f s))"
    using assms by (intro logs_call_then) auto
  then show "logs P s (snd (resume_gate g x (ebind (adapter_call env c) f) s))"
    by (auto simp: resume_gate_run guard_live_def logs_refl split: sum.split)
qed

text \<open>After STOPPING is committed, the row that the interrupt needs is in the table.\<close>

lemma update_target_run:
  assumes "update_quota_guard_target g th n st now cs d = (Inr u, d')" and "cs \<noteq> []"
  shows "write_guard_target g th n st now cs d = Inr ((), d')" and "get_quota_guard_target g th d' = Inr u"
  using assms by (auto simp: update_quota_guard_target_def eff_defs split: sum.splits prod.splits)

lemma transition_target_run:
  assumes "transition_target t st now cs s = (Inr u, s')"
  shows "\<exists>r \<in> set (targets_t (c_db s')). \<exists>r0. r = changed_target (cs @ [TC_state st]) now r0
      \<and> gt_guard r = gt_guard t \<and> gt_thread r = gt_thread t"
    and "c_log s' = c_log s"
proof -
  from assms obtain d' where d: "transition_quota_guard_target (gt_guard t) (gt_thread t) st
      (Some (gt_revision t)) (Some (gt_state t)) now cs (c_db s) = (Inr u, d')" and s': "s' = s\<lparr>c_db := d'\<rparr>"
    by (auto simp: transition_target_def on_db_def split: prod.splits)
  let ?P = "target_matches (gt_guard t) (gt_thread t) (Some (gt_revision t)) (Some (gt_state t))"
  have w: "write_guard_target (gt_guard t) (gt_thread t) (Some (gt_revision t)) (Some (gt_state t)) now
      (cs @ [TC_state st]) (c_db s) = Inr ((), d')"
    using update_target_run(1) [OF d [unfolded transition_quota_guard_target_def]] by simp
  note wi = write_guard_target_Inr [OF w]
  obtain r0 where r0: "r0 \<in> set (targets_t (c_db s))" "?P r0"
    using wi(2) by (metis One_nat_def row_count_0 zero_neq_one)
  then have "changed_target (cs @ [TC_state st]) now r0 \<in> set (targets_t d')"
    using wi(1) by (auto simp: in_update_where)
  moreover have "gt_guard r0 = gt_guard t" "gt_thread r0 = gt_thread t"
    using r0(2) by (simp_all add: target_matches_def)
  ultimately show "\<exists>r \<in> set (targets_t (c_db s')). \<exists>r0. r = changed_target (cs @ [TC_state st]) now r0
      \<and> gt_guard r = gt_guard t \<and> gt_thread r = gt_thread t"
    unfolding s' by (intro bexI [of _ "changed_target (cs @ [TC_state st]) now r0"]) auto
  show "c_log s' = c_log s" by (simp add: s')
qed

lemma logging_stop_call:
  assumes P: "\<And>d t. t \<in> set (targets_t d) \<Longrightarrow> gt_thread t = gt_thread t0 \<Longrightarrow> gt_guard t = gt_guard t0 \<Longrightarrow>
        gt_state t = T_STOPPING \<Longrightarrow> gt_original_turn t = Some turn_id \<Longrightarrow> guard_live (gt_guard t0) d \<Longrightarrow>
        P (A_interrupt (gt_thread t0) turn_id) d"
    and c: "\<And>u v. logging.keeps P (confirm u v)" and h: "\<And>u e. logging.keeps P (handler u e)"
  shows "logging.keeps P (ebind (transition_target t0 T_STOPPING now [TC_original_turn (Some turn_id)]) (\<lambda>stopping.
            ecatch (unless_disarmed (gt_guard t0) stopping
                      (ebind (adapter_call env (A_interrupt (gt_thread t0) turn_id)) (confirm stopping)))
                   (handler stopping)))"
proof (rule logging.keepsI)
  fix s
  let ?body = "\<lambda>u. unless_disarmed (gt_guard t0) u
      (ebind (adapter_call env (A_interrupt (gt_thread t0) turn_id)) (confirm u))"
  obtain res s' where run: "transition_target t0 T_STOPPING now [TC_original_turn (Some turn_id)] s = (res, s')"
    by fastforce
  have logs': "logs P s s'"
    using logging.keepsD [OF logging_on_db, where s = s] run
    by (metis (no_types, lifting) snd_conv transition_target_def)
  show "logs P s (snd (ebind (transition_target t0 T_STOPPING now [TC_original_turn (Some turn_id)])
      (\<lambda>u. ecatch (?body u) (handler u)) s))"
  proof (cases res)
    case (Inl e)
    with run logs' show ?thesis by (simp add: ebind_def)
  next
    case (Inr u)
    obtain r r0 where r: "r \<in> set (targets_t (c_db s'))" "gt_guard r = gt_guard t0" "gt_thread r = gt_thread t0"
        "r = changed_target ([TC_original_turn (Some turn_id)] @ [TC_state T_STOPPING]) now r0"
      using transition_target_run(1) [OF run [unfolded Inr]] by blast
    have st: "gt_state r = T_STOPPING" "gt_original_turn r = Some turn_id"
      by (simp_all add: r(4) changed_target_def)
    have body: "logs P s' (snd (?body u s'))"
    proof (cases "guard_live (gt_guard t0) (c_db s')")
      case True
      have "logs P s' (snd (ebind (adapter_call env (A_interrupt (gt_thread t0) turn_id)) (confirm u) s'))"
        by (rule logs_call_then [OF P [OF r(1,3,2) st True] c])
      then show ?thesis
        by (auto simp: unless_disarmed_run logs_refl split: sum.split)
    next
      case False
      then show ?thesis
        by (auto simp: unless_disarmed_run guard_live_def logs_refl split: sum.split)
    qed
    have "logs P t (snd (handler u e t))" for e t
      using logging.keepsD [OF h] by blast
    then have "logs P s' (snd (ecatch (?body u) (handler u) s'))"
      using body logs_trans [OF body] by (auto simp: ecatch_def split: prod.splits sum.splits)
    with run Inr logs_trans [OF logs'] show ?thesis
      by (simp add: ebind_def)
  qed
qed

interpretation authorised: resumption "logs call_authorised" "\<lambda>_. True" env "\<lambda>_. True" for env
proof unfold_locales
  fix g th n st now cs sst scs t turn_id x c reason ev s extra
    and f :: "json \<Rightarrow> (cst, guard_target) eff" and confirm :: "guard_target \<Rightarrow> json \<Rightarrow> (cst, guard_target) eff"
    and handler :: "guard_target \<Rightarrow> err \<Rightarrow> (cst, guard_target) eff"
  show "logging.keeps call_authorised (adapter_call env (A_read th))"
    "logging.keeps call_authorised (adapter_call env (A_get_goal th))"
    by (rule logging_adapter_call, simp)+
  show "logging.keeps call_authorised (on_db (update_quota_guard_target g th (Some n) (Some st) now cs))"
    "logging.keeps call_authorised (on_db (update_quota_guard_session g (Some n) (Some sst) now scs))"
    "logging.keeps call_authorised (on_db (\<lambda>d. case recover_quota_guard_pending reason now d of (gs, d') \<Rightarrow> (Inr gs, d')))"
    "logging.keeps call_authorised (audit_guard env ev s extra now)"
    unfolding audit_guard_def by (rule logging_on_db)+
  show "logging.yields (on_db (update_quota_guard_target g th (Some n) (Some st) now cs)) (\<lambda>t. True)"
    by (rule logging.yields_True)
  show "logging.keeps call_authorised (unless_disarmed g x (ebind (adapter_call env (A_set_goal th ''paused'')) f))"
    if "\<And>v. logging.keeps call_authorised (f v)"
    using that by (intro logging_unless_disarmed) auto
  show "logging.keeps call_authorised (resume_gate g x (ebind (adapter_call env c) f))"
    if "resume_call c" "\<And>v. logging.keeps call_authorised (f v)"
    using that by (intro logging_resume_gate) (cases c, auto)
  show "logging.keeps call_authorised (ebind (transition_target t T_STOPPING now [TC_original_turn (Some turn_id)]) (\<lambda>stopping.
            ecatch (unless_disarmed (gt_guard t) stopping
                      (ebind (adapter_call env (A_interrupt (gt_thread t) turn_id)) (confirm stopping)))
                   (handler stopping)))"
    if "\<And>u v. True \<Longrightarrow> logging.keeps call_authorised (confirm u v)"
      "\<And>u e. True \<Longrightarrow> logging.keeps call_authorised (handler u e)"
    using that by (intro logging_stop_call) auto
qed auto

text \<open>
  C12. Every external mutation of a due cycle is authorised where and when it is issued, whatever the
  adapter answers, whatever other processes write during its calls, and however the cycle ends: a turn
  is interrupted only when its STOPPING record with that exact turn is already committed and its guard
  is not disarmed, goals are paused only under a guard that is not disarmed, and goals and tasks are
  restarted only when moreover the controller is neither blocked nor stopped.
\<close>

theorem one_due_cycle_calls_authorised:
  "\<exists>ext. c_log (snd (one_due_cycle env now allow signal s)) = c_log s @ ext
     \<and> list_all (\<lambda>(c, d, r). call_authorised c d) ext"
  using logging.keepsD [OF authorised.keeps_one_due_cycle, where s = s]
  by (force simp: logs_def list_all_iff)

section \<open>Work is restarted only when a reset is proven\<close>

definition no_resume_call :: "acall \<Rightarrow> db \<Rightarrow> bool" where
  "no_resume_call c d \<longleftrightarrow> \<not> resume_call c"

interpretation stopping_only: containment "logs no_resume_call" "\<lambda>_. True" env "\<lambda>_. True" for env
proof unfold_locales
  fix g th n st now cs sst scs t turn_id x
    and f :: "json \<Rightarrow> (cst, guard_target) eff" and confirm :: "guard_target \<Rightarrow> json \<Rightarrow> (cst, guard_target) eff"
    and handler :: "guard_target \<Rightarrow> err \<Rightarrow> (cst, guard_target) eff"
  show "logging.keeps no_resume_call (adapter_call env (A_read th))"
    "logging.keeps no_resume_call (adapter_call env (A_get_goal th))"
    by (rule logging_adapter_call, simp add: no_resume_call_def)+
  show "logging.keeps no_resume_call (on_db (update_quota_guard_target g th (Some n) (Some st) now cs))"
    "logging.keeps no_resume_call (on_db (update_quota_guard_session g (Some n) (Some sst) now scs))"
    by (rule logging_on_db)+
  show "logging.yields (on_db (update_quota_guard_target g th (Some n) (Some st) now cs)) (\<lambda>t. True)"
    by (rule logging.yields_True)
  show "logging.keeps no_resume_call (unless_disarmed g x (ebind (adapter_call env (A_set_goal th ''paused'')) f))"
    if "\<And>v. logging.keeps no_resume_call (f v)"
    using that by (intro logging_unless_disarmed) (auto simp: no_resume_call_def)
  show "logging.keeps no_resume_call (ebind (transition_target t T_STOPPING now [TC_original_turn (Some turn_id)]) (\<lambda>stopping.
            ecatch (unless_disarmed (gt_guard t) stopping
                      (ebind (adapter_call env (A_interrupt (gt_thread t) turn_id)) (confirm stopping)))
                   (handler stopping)))"
    if "\<And>u v. True \<Longrightarrow> logging.keeps no_resume_call (confirm u v)"
      "\<And>u e. True \<Longrightarrow> logging.keeps no_resume_call (handler u e)"
    using that by (intro logging_stop_call) (auto simp: no_resume_call_def)
qed auto

text \<open>The evidence that lets a held session resume.\<close>

definition resume_proven ::
    "genv \<Rightarrow> guard_session \<Rightarrow> json \<Rightarrow> json \<Rightarrow> rat \<Rightarrow> bool \<Rightarrow> bool" where
  "resume_proven env s snap stop now allow \<longleftrightarrow>
     gs_state s = HELD_QUOTA \<and> allow \<and> paid_credit_safe snap
     \<and> (\<exists>d. decide_resume snap stop (JNum (gs_threshold s)) (JNum (gs_hysteresis s))
               (Some (gs_tripped_windows s)) (Some now) (ge_max_age env) = Inr d \<and> safe_to_resume d)"

lemma process_held_run:
  "process_held env s snap now allow st =
     (case decide_resume snap (stop_snapshot_of s (c_db st)) (JNum (gs_threshold s)) (JNum (gs_hysteresis s))
              (Some (gs_tripped_windows s)) (Some now) (ge_max_age env) of
        Inl e \<Rightarrow> (Inl e, st)
      | Inr decision \<Rightarrow>
          ebind (preflight_held_targets env s now) (\<lambda>contained.
          if \<not> contained
          then ebind (get_session (gs_id s)) (\<lambda>latest. mark_session_review latest ''RECONTAINMENT_UNCERTAIN'' now)
          else
            ebind (get_session (gs_id s)) (\<lambda>latest.
              if safe_to_resume decision \<and> allow \<and> paid_credit_safe snap
              then resume_all env latest now
              else schedule_check latest (Some HELD_QUOTA)
                     (Some (hold_reason decision allow (paid_credit_safe snap))) now)) st)"
  by (simp add: process_held_def on_db_eread eread_def elift_def ebind_def [of "eread _"] ebind_def [of "elift _"]
      split: sum.split)

lemma stopping_only_process_session:
  assumes "\<not> resume_proven env s (session_snapshot snapshot s) (stop_snapshot_of s (c_db st)) now allow"
  shows "logs no_resume_call st (snd (process_session env s snapshot now allow st))"
proof (cases "gs_state s = HELD_QUOTA")
  case False
  then show ?thesis
    using logging.keepsD [OF stopping_only.keeps_process_armed, where s = st]
    by (auto simp: process_session_def Let_def eret_def logs_refl)
next
  case True
  let ?snap = "session_snapshot snapshot s"
  have "logging.keeps no_resume_call (ebind (preflight_held_targets env s now) (\<lambda>contained.
          if \<not> contained
          then ebind (get_session (gs_id s)) (\<lambda>latest. mark_session_review latest ''RECONTAINMENT_UNCERTAIN'' now)
          else ebind (get_session (gs_id s)) (\<lambda>latest. schedule_check latest (Some HELD_QUOTA) (Some r) now)))" for r
    by (intro keeps_intros stopping_only.keeps_preflight_held_targets stopping_only.keeps_reads
        stopping_only.keeps_mark_session_review stopping_only.keeps_schedule_check)
  note held = logging.keepsD [OF this, where s = st]
  have "logs no_resume_call st (snd (process_held env s ?snap now allow st))"
  proof (cases "decide_resume ?snap (stop_snapshot_of s (c_db st)) (JNum (gs_threshold s))
      (JNum (gs_hysteresis s)) (Some (gs_tripped_windows s)) (Some now) (ge_max_age env)")
    case (Inl e)
    then show ?thesis by (simp add: process_held_run logs_refl)
  next
    case (Inr decision)
    with assms True have unsafe: "(safe_to_resume decision \<and> allow \<and> paid_credit_safe ?snap) = False"
      by (auto simp: resume_proven_def)
    show ?thesis
      unfolding process_held_run Inr sum.case unsafe if_False by (rule held) simp
  qed
  with True show ?thesis
    by (simp add: process_session_def Let_def)
qed

text \<open>
  C2. A session's processing issues a call that restarts work (reactivating a goal, reopening or
  continuing a task) only if the session was held, resuming is allowed, the current snapshot proves
  paid credits unavailable, and the resume decision on that snapshot and the stop snapshot is safe.
\<close>

theorem process_session_resumes_only_when_proven:
  assumes "c_log (snd (process_session env s snapshot now allow st)) = c_log st @ ext"
    and "(c, d, r) \<in> set ext" and "resume_call c"
  shows "resume_proven env s (session_snapshot snapshot s) (stop_snapshot_of s (c_db st)) now allow"
proof (rule ccontr)
  assume "\<not> ?thesis"
  then have "logs no_resume_call st (snd (process_session env s snapshot now allow st))"
    by (rule stopping_only_process_session)
  with assms show False
    by (auto simp: logs_def no_resume_call_def)
qed

lemma decide_resume_without_signal:
  "decide_resume JNull stop (JNum a) (JNum b) explicit now m = Inr d \<Longrightarrow> \<not> safe_to_resume d"
  by (auto simp: decide_resume_def guard_signal_status_def no_resume_def split: if_splits)

lemma stopping_only_cycle_session:
  assumes "\<not> allow \<or> snapshot = None"
  shows "logging.keeps no_resume_call (cycle_session env snapshot now allow s)"
proof -
  have "\<not> resume_proven env s (session_snapshot snapshot s) stop now allow" for stop
    using assms decide_resume_without_signal by (auto simp: resume_proven_def session_snapshot_def)
  then have "logging.keeps no_resume_call (process_session env s snapshot now allow)"
    by (intro logging.keepsI stopping_only_process_session)
  then show ?thesis
    unfolding cycle_session_def audit_guard_def
    by (intro keeps_intros logging_on_db)
       (auto split: err.split intro!: keeps_intros stopping_only.keeps_reads stopping_only.keeps_mark_session_review)
qed

lemma logging_emap: "(\<And>x. logging.keeps P (f x)) \<Longrightarrow> logging.keeps P (emap f xs)"
  by (induction xs) (auto intro!: keeps_intros)

text \<open>
  A due cycle that is told not to resume, or that has no usable signal, only ever stops work: it
  issues no call that restarts a goal or a task.
\<close>

theorem cycle_without_permission_or_signal_never_resumes:
  assumes "\<not> allow \<or> \<not> signal"
  shows "\<exists>ext. c_log (snd (one_due_cycle env now allow signal s)) = c_log s @ ext
     \<and> list_all (\<lambda>(c, d, r). \<not> resume_call c) ext"
proof -
  let ?rest = "\<lambda>recovered snapshot sessions.
      ebind (emap (cycle_session env snapshot now allow) sessions) (\<lambda>outs.
      ebind (emap (\<lambda>g. ebind (get_session g) (\<lambda>cur. eret (outcome_of cur)))
              (filter (\<lambda>g. g \<notin> set (map oc_guard outs)) recovered)) (\<lambda>more.
      eret \<lparr>checked_at = now, guards_checked = length sessions, recovered_guard_ids = recovered,
            outcomes = outs @ more\<rparr>))"
  have rest: "logging.keeps no_resume_call (?rest recovered snapshot sessions)"
    if "\<not> allow \<or> snapshot = None" for recovered snapshot sessions
    by (intro keeps_intros logging_emap stopping_only_cycle_session stopping_only.keeps_reads that)
  have snap: "logging.yields (on_db (eread (\<lambda>d. Inr (if signal then latest_snapshot d else None))))
      (\<lambda>snapshot. \<not> allow \<or> snapshot = None)"
    using assms by (auto simp: logging.yields_def on_db_eread eread_def)
  have "logging.keeps no_resume_call (one_due_cycle env now allow signal)"
    unfolding one_due_cycle_def
    by (intro logging.keeps_ebind [OF logging_on_db] logging.keeps_ebind_yields [OF logging_on_db snap] rest)
  from logging.keepsD [OF this, where s = s] show ?thesis
    by (force simp: logs_def list_all_iff no_resume_call_def)
qed

end
