(* ===== verification/Config.thy ===== *)
theory Config
  imports Documents
begin

text \<open>
  validation.py, the configuration and the quota-guard plan: what a controller may be configured to
  do, and which plans an operator may arm. The lemmas show the bounds of every accepted configuration
  (the service lease outlives the longest backoff, capabilities are grantable ones, an enabled guard has
  its capabilities) and that validation is idempotent.
\<close>

section \<open>Data\<close>

record live_config =
  lt_enabled :: bool
  lt_model :: string
  lt_effort :: string
  lt_max_runtime :: int
  lt_poll :: int
  lt_usage :: usage

text \<open>
  The validated configuration. Entries that validation fixes (\<open>dry_run\<close>, \<open>deny_hooks\<close>,
  \<open>require_paid_credits_unavailable\<close>, ...) are not fields.
\<close>

record config =
  cfg_profile_key :: string
  cfg_limit_id :: string
  cfg_capabilities :: "string list"
  cfg_workspace_roots :: "string list"
  cfg_guard_enabled :: bool
  cfg_guard_hysteresis :: rat
  cfg_background_enabled :: bool
  cfg_poll_interval :: int
  cfg_dispatch_enabled :: bool
  cfg_dispatch_poll :: int
  cfg_credit_mode :: string
  cfg_database_path :: string
  cfg_policy :: policy
  cfg_guard_min_interval :: int
  cfg_guard_max_interval :: int
  cfg_guard_max_targets :: int
  cfg_max_backoff :: int
  cfg_jitter :: rat
  cfg_service_lease :: int
  cfg_notification_path :: string
  cfg_live :: live_config

section \<open>Paths\<close>

text \<open>\<open>PurePath\<close> on POSIX: the parts between slashes; a leading slash makes it absolute.\<close>

fun split_path :: "string \<Rightarrow> string list" where
  "split_path [] = [[]]"
| "split_path (c # cs) =
     (if c = CHR 0x2F then [] # split_path cs
      else (case split_path cs of [] \<Rightarrow> [[c]] | part # rest \<Rightarrow> (c # part) # rest))"

definition is_absolute :: "string \<Rightarrow> bool" where
  "is_absolute s \<longleftrightarrow> s \<noteq> [] \<and> hd s = CHR 0x2F"

definition inside_directory :: "string \<Rightarrow> bool" where
  "inside_directory s \<longleftrightarrow> \<not> is_absolute s \<and> ''..'' \<notin> set (split_path s)"

section \<open>Sections of the configuration\<close>

text \<open>\<open>data[key] is not True\<close>.\<close>

definition must_be_true :: "(string \<times> json) list \<Rightarrow> string \<Rightarrow> unit res" where
  "must_be_true data k = guard (jgetn data k = JBool True) ''SCHEMA_INVALID''"

definition validate_live_test_config :: "json \<Rightarrow> live_config res" where
  "validate_live_test_config v =
     rbind (object_of v) (\<lambda>data.
     rbind (exact_keys data
       [''enabled'', ''model'', ''effort'', ''max_runtime_seconds'', ''poll_interval_seconds'', ''expected_usage'',
        ''require_paid_credits_unavailable''] []) (\<lambda>_.
     rbind (boolean (jgetn data ''enabled'')) (\<lambda>on.
     rbind (must_be_true data ''require_paid_credits_unavailable'') (\<lambda>_.
     rbind (str (jgetn data ''model'') False 128) (\<lambda>md.
     rbind (str (jgetn data ''effort'') True 256) (\<lambda>ef.
     rbind (integer (jgetn data ''max_runtime_seconds'') 10 300) (\<lambda>mr.
     rbind (integer (jgetn data ''poll_interval_seconds'') 1 30) (\<lambda>pl.
     rbind (validate_usage (jgetn data ''expected_usage'')) (\<lambda>us.
       Inr \<lparr>lt_enabled = on, lt_model = md, lt_effort = ef, lt_max_runtime = mr, lt_poll = pl,
            lt_usage = us\<rparr>)))))))))"

definition validate_dispatch_config :: "json \<Rightarrow> (bool \<times> int \<times> string) res" where
  "validate_dispatch_config v =
     rbind (object_of v) (\<lambda>data.
     rbind (exact_keys data
       [''enabled'', ''poll_interval_seconds'', ''require_paid_credits_unavailable'', ''deny_hooks'',
        ''deny_mcp_servers'', ''deny_apps''] [''credit_verification_mode'']) (\<lambda>_.
     rbind (boolean (jgetn data ''enabled'')) (\<lambda>on.
     rbind (rmap (must_be_true data)
       [''require_paid_credits_unavailable'', ''deny_hooks'', ''deny_mcp_servers'', ''deny_apps'']) (\<lambda>_.
     rbind (one_of (case jget data ''credit_verification_mode'' of None \<Rightarrow> JStr ''machine_only'' | Some m \<Rightarrow> m)
       [''machine_only'', ''operator_attested_subscription_only'']) (\<lambda>cm.
     rbind (integer (jgetn data ''poll_interval_seconds'') 1 30) (\<lambda>pl.
       Inr (on, pl, cm)))))))"

definition default_dispatch :: json where
  "default_dispatch = JObj
     [(''enabled'', JBool False), (''poll_interval_seconds'', JInt 5),
      (''require_paid_credits_unavailable'', JBool True), (''deny_hooks'', JBool True),
      (''deny_mcp_servers'', JBool True), (''deny_apps'', JBool True)]"

record background_config =
  bg_enabled :: bool
  bg_poll :: int
  bg_backoff :: int
  bg_jitter :: rat
  bg_lease :: int
  bg_path :: string

definition validate_background_config :: "json \<Rightarrow> background_config res" where
  "validate_background_config v =
     rbind (object_of v) (\<lambda>data.
     rbind (exact_keys data
       [''enabled'', ''poll_interval_seconds'', ''max_backoff_seconds'', ''jitter_ratio'',
        ''service_lease_seconds'', ''notification_path''] []) (\<lambda>_.
     rbind (boolean (jgetn data ''enabled'')) (\<lambda>on.
     rbind (integer (jgetn data ''poll_interval_seconds'') 5 3600) (\<lambda>poll.
     rbind (integer (jgetn data ''max_backoff_seconds'') 5 3600) (\<lambda>backoff.
     rbind (integer (jgetn data ''service_lease_seconds'') 30 7200) (\<lambda>lease.
     rbind (guard (\<not> backoff < poll) ''SCHEMA_INVALID'') (\<lambda>_.
     rbind (guard (\<not> lease \<le> backoff) ''SCHEMA_INVALID'') (\<lambda>_.
     rbind (str (jgetn data ''notification_path'') False 1024) (\<lambda>path.
     rbind (guard (inside_directory path) ''PATH_DENIED'') (\<lambda>_.
     rbind (number (jgetn data ''jitter_ratio'') 0 (1 / 2)) (\<lambda>jitter.
       Inr \<lparr>bg_enabled = on, bg_poll = poll, bg_backoff = backoff, bg_jitter = jitter, bg_lease = lease,
            bg_path = path\<rparr>)))))))))))"

definition default_background :: json where
  "default_background = JObj
     [(''enabled'', JBool False), (''poll_interval_seconds'', JInt 30), (''max_backoff_seconds'', JInt 300),
      (''jitter_ratio'', JNum (1 / 5)), (''service_lease_seconds'', JInt 600),
      (''notification_path'', JStr ''.scheduler/notifications.jsonl'')]"

record guard_config =
  gc_enabled :: bool
  gc_min :: int
  gc_max :: int
  gc_targets :: int
  gc_hysteresis :: rat

definition validate_quota_guard_config :: "json \<Rightarrow> guard_config res" where
  "validate_quota_guard_config v =
     rbind (object_of v) (\<lambda>data.
     rbind (exact_keys data
       [''enabled'', ''min_check_interval_seconds'', ''max_check_interval_seconds'', ''max_targets'',
        ''resume_hysteresis_percent''] []) (\<lambda>_.
     rbind (boolean (jgetn data ''enabled'')) (\<lambda>on.
     rbind (integer (jgetn data ''min_check_interval_seconds'') 60 3600) (\<lambda>lo.
     rbind (integer (jgetn data ''max_check_interval_seconds'') 60 86400) (\<lambda>hi.
     rbind (guard (\<not> hi < lo) ''SCHEMA_INVALID'') (\<lambda>_.
     rbind (integer (jgetn data ''max_targets'') 1 100) (\<lambda>mt.
     rbind (number (jgetn data ''resume_hysteresis_percent'') (1 / 10) 20) (\<lambda>hy.
       Inr \<lparr>gc_enabled = on, gc_min = lo, gc_max = hi, gc_targets = mt, gc_hysteresis = hy\<rparr>))))))))"

definition DEFAULT_QUOTA_GUARD_CONFIG :: json where
  "DEFAULT_QUOTA_GUARD_CONFIG = JObj
     [(''enabled'', JBool False), (''min_check_interval_seconds'', JInt 60),
      (''max_check_interval_seconds'', JInt 3600), (''max_targets'', JInt 100),
      (''resume_hysteresis_percent'', JNum 1)]"

definition guard_capabilities :: "string list" where
  "guard_capabilities = [''quota_guard.read'', ''quota_guard.local.write'', ''quota_guard.thread.control'']"

section \<open>The configuration\<close>

definition validate_config :: "json \<Rightarrow> config res" where
  "validate_config v =
     rbind (object_of v) (\<lambda>data.
     rbind (exact_keys data
       [''schema_version'', ''dry_run'', ''database_path'', ''profile_key'', ''limit_id'', ''capabilities'', ''policy'',
        ''workspace_roots'', ''live_test''] [''background'', ''dispatch'', ''quota_guard'']) (\<lambda>_.
     rbind (version_check data) (\<lambda>_.
     rbind (guard (jgetn data ''dry_run'' = JBool True) ''DRY_RUN_REQUIRED'') (\<lambda>_.
     rbind (string_list (jgetn data ''capabilities'')) (\<lambda>caps.
     rbind (guard (distinct caps) ''SCHEMA_INVALID'') (\<lambda>_.
     rbind (guard (set caps \<subseteq> set LOCAL_DRY_RUN_CAPABILITIES) ''CAPABILITY_DENIED'') (\<lambda>_.
     rbind (str (jgetn data ''database_path'') False 1024) (\<lambda>dbp.
     rbind (guard (dbp = '':memory:'' \<or> inside_directory dbp) ''PATH_DENIED'') (\<lambda>_.
     rbind (array_of (jgetn data ''workspace_roots'')) (\<lambda>items.
     rbind (guard (items \<noteq> []) ''SCHEMA_INVALID'') (\<lambda>_.
     rbind (rmap (\<lambda>item. str item False 1024) items) (\<lambda>roots.
     rbind (guard (distinct roots) ''SCHEMA_INVALID'') (\<lambda>_.
     rbind (validate_live_test_config (jgetn data ''live_test'')) (\<lambda>live.
     rbind (validate_dispatch_config
              (case jget data ''dispatch'' of None \<Rightarrow> default_dispatch | Some x \<Rightarrow> x)) (\<lambda>(d_on, d_poll, d_mode).
     rbind (validate_background_config
              (case jget data ''background'' of None \<Rightarrow> default_background | Some x \<Rightarrow> x)) (\<lambda>bg.
     rbind (validate_quota_guard_config
              (case jget data ''quota_guard'' of None \<Rightarrow> DEFAULT_QUOTA_GUARD_CONFIG | Some x \<Rightarrow> x)) (\<lambda>gc.
     rbind (guard (gc_enabled gc \<longrightarrow> set guard_capabilities \<subseteq> set caps) ''CAPABILITY_DENIED'') (\<lambda>_.
     rbind (str (jgetn data ''profile_key'') True 256) (\<lambda>pk.
     rbind (str (jgetn data ''limit_id'') True 256) (\<lambda>li.
     rbind (validate_policy (jgetn data ''policy'')) (\<lambda>pol.
       Inr \<lparr>cfg_profile_key = pk, cfg_limit_id = li, cfg_capabilities = sort caps, cfg_workspace_roots = roots,
            cfg_guard_enabled = gc_enabled gc, cfg_guard_hysteresis = gc_hysteresis gc,
            cfg_background_enabled = bg_enabled bg, cfg_poll_interval = bg_poll bg,
            cfg_dispatch_enabled = d_on, cfg_dispatch_poll = d_poll, cfg_credit_mode = d_mode,
            cfg_database_path = dbp, cfg_policy = pol, cfg_guard_min_interval = gc_min gc,
            cfg_guard_max_interval = gc_max gc, cfg_guard_max_targets = gc_targets gc,
            cfg_max_backoff = bg_backoff bg, cfg_jitter = bg_jitter bg, cfg_service_lease = bg_lease bg,
            cfg_notification_path = bg_path bg, cfg_live = live\<rparr>)))))))))))))))))))))"

text \<open>The dictionary that Python builds.\<close>

definition live_dict :: "live_config \<Rightarrow> json" where
  "live_dict l = JObj
     [(''enabled'', JBool (lt_enabled l)), (''model'', JStr (lt_model l)), (''effort'', JStr (lt_effort l)),
      (''max_runtime_seconds'', JInt (lt_max_runtime l)), (''poll_interval_seconds'', JInt (lt_poll l)),
      (''expected_usage'', usage_dict (lt_usage l)), (''require_paid_credits_unavailable'', JBool True)]"

definition dispatch_dict :: "config \<Rightarrow> json" where
  "dispatch_dict c = JObj
     [(''enabled'', JBool (cfg_dispatch_enabled c)), (''poll_interval_seconds'', JInt (cfg_dispatch_poll c)),
      (''require_paid_credits_unavailable'', JBool True), (''credit_verification_mode'', JStr (cfg_credit_mode c)),
      (''deny_hooks'', JBool True), (''deny_mcp_servers'', JBool True), (''deny_apps'', JBool True)]"

definition background_dict :: "config \<Rightarrow> json" where
  "background_dict c = JObj
     [(''enabled'', JBool (cfg_background_enabled c)), (''poll_interval_seconds'', JInt (cfg_poll_interval c)),
      (''max_backoff_seconds'', JInt (cfg_max_backoff c)), (''jitter_ratio'', JNum (cfg_jitter c)),
      (''service_lease_seconds'', JInt (cfg_service_lease c)),
      (''notification_path'', JStr (cfg_notification_path c))]"

definition guard_dict :: "config \<Rightarrow> json" where
  "guard_dict c = JObj
     [(''enabled'', JBool (cfg_guard_enabled c)), (''min_check_interval_seconds'', JInt (cfg_guard_min_interval c)),
      (''max_check_interval_seconds'', JInt (cfg_guard_max_interval c)),
      (''max_targets'', JInt (cfg_guard_max_targets c)),
      (''resume_hysteresis_percent'', JNum (cfg_guard_hysteresis c))]"

definition config_dict :: "config \<Rightarrow> json" where
  "config_dict c = JObj
     [(''schema_version'', JStr SCHEMA_VERSION), (''dry_run'', JBool True),
      (''database_path'', JStr (cfg_database_path c)), (''profile_key'', JStr (cfg_profile_key c)),
      (''limit_id'', JStr (cfg_limit_id c)), (''capabilities'', JArr (map JStr (cfg_capabilities c))),
      (''policy'', policy_dict (cfg_policy c)), (''workspace_roots'', JArr (map JStr (cfg_workspace_roots c))),
      (''live_test'', live_dict (cfg_live c)), (''dispatch'', dispatch_dict c),
      (''background'', background_dict c), (''quota_guard'', guard_dict c)]"

section \<open>Quota-guard plans\<close>

text \<open>
  \<open>_quota_guard_plan_limits\<close>: a complete configuration, its quota-guard section, or a mapping of
  limits; a complete configuration without the section gets the defaults.
\<close>

definition limits_section :: "json \<Rightarrow> json" where
  "limits_section supplied =
     (let fs = obj_fields supplied in
      case jget fs ''quota_guard'' of
        Some x \<Rightarrow> x
      | None \<Rightarrow>
          if {''schema_version'', ''capabilities''} \<subseteq> set (jkeys fs)
             \<and> {''min_check_interval_seconds'', ''max_check_interval_seconds'', ''max_targets''} \<inter> set (jkeys fs) = {}
          then DEFAULT_QUOTA_GUARD_CONFIG else supplied)"

definition plan_limits :: "json \<Rightarrow> (int \<times> int \<times> int) res" where
  "plan_limits supplied =
     rbind (object_of supplied) (\<lambda>_.
     rbind (object_of (limits_section supplied)) (\<lambda>fs.
     rbind (integer (jgetn fs ''min_check_interval_seconds'') 60 3600) (\<lambda>lo.
     rbind (integer (jgetn fs ''max_check_interval_seconds'') 60 86400) (\<lambda>hi.
     rbind (guard (\<not> hi < lo) ''SCHEMA_INVALID'') (\<lambda>_.
     rbind (integer (jgetn fs ''max_targets'') 1 100) (\<lambda>mt.
       Inr (lo, hi, mt)))))))"

record guard_plan =
  gp_threshold :: rat
  gp_interval :: int
  gp_targets :: "string list"
  gp_resume_non_goal :: bool

definition validate_quota_guard_plan :: "json \<Rightarrow> json \<Rightarrow> guard_plan res" where
  "validate_quota_guard_plan v supplied =
     rbind (object_of v) (\<lambda>data.
     rbind (exact_keys data
       [''schema_version'', ''threshold_remaining_percent'', ''check_interval_seconds'', ''target_thread_ids'',
        ''resume_non_goal_threads''] []) (\<lambda>_.
     rbind (version_check data) (\<lambda>_.
     rbind (plan_limits supplied) (\<lambda>(lo, hi, mt).
     rbind (array_of (jgetn data ''target_thread_ids'')) (\<lambda>items.
     rbind (guard (1 \<le> length items \<and> int (length items) \<le> mt) ''SCHEMA_INVALID'') (\<lambda>_.
     rbind (rmap validate_identifier items) (\<lambda>targets.
     rbind (guard (distinct targets) ''SCHEMA_INVALID'') (\<lambda>_.
     rbind (boolean (jgetn data ''resume_non_goal_threads'')) (\<lambda>resume.
     rbind (number (jgetn data ''threshold_remaining_percent'') 0 100) (\<lambda>thr.
     rbind (integer (jgetn data ''check_interval_seconds'') lo hi) (\<lambda>iv.
       Inr \<lparr>gp_threshold = thr, gp_interval = iv, gp_targets = sort targets,
            gp_resume_non_goal = resume\<rparr>)))))))))))"

definition plan_fields :: "guard_plan \<Rightarrow> (string \<times> json) list" where
  "plan_fields p =
     [(''schema_version'', JStr SCHEMA_VERSION), (''threshold_remaining_percent'', JNum (gp_threshold p)),
      (''check_interval_seconds'', JInt (gp_interval p)), (''target_thread_ids'', JArr (map JStr (gp_targets p))),
      (''resume_non_goal_threads'', JBool (gp_resume_non_goal p))]"

section \<open>What is accepted\<close>

definition live_ok :: "live_config \<Rightarrow> bool" where
  "live_ok l \<longleftrightarrow> text_ok 128 (lt_model l) \<and> ident_ok (lt_effort l)
     \<and> 10 \<le> lt_max_runtime l \<and> lt_max_runtime l \<le> 300 \<and> 1 \<le> lt_poll l \<and> lt_poll l \<le> 30 \<and> usage_ok (lt_usage l)"

definition dispatch_ok :: "config \<Rightarrow> bool" where
  "dispatch_ok c \<longleftrightarrow> 1 \<le> cfg_dispatch_poll c \<and> cfg_dispatch_poll c \<le> 30
     \<and> cfg_credit_mode c \<in> {''machine_only'', ''operator_attested_subscription_only''}"

text \<open>The poll interval is within the longest backoff, and the service lease outlives that.\<close>

definition background_ok :: "config \<Rightarrow> bool" where
  "background_ok c \<longleftrightarrow> 5 \<le> cfg_poll_interval c \<and> cfg_poll_interval c \<le> cfg_max_backoff c
     \<and> cfg_max_backoff c < cfg_service_lease c \<and> cfg_max_backoff c \<le> 3600
     \<and> 30 \<le> cfg_service_lease c \<and> cfg_service_lease c \<le> 7200
     \<and> 0 \<le> cfg_jitter c \<and> cfg_jitter c \<le> 1 / 2
     \<and> text_ok 1024 (cfg_notification_path c) \<and> inside_directory (cfg_notification_path c)"

definition guard_limits_ok :: "config \<Rightarrow> bool" where
  "guard_limits_ok c \<longleftrightarrow> 60 \<le> cfg_guard_min_interval c \<and> cfg_guard_min_interval c \<le> 3600
     \<and> cfg_guard_min_interval c \<le> cfg_guard_max_interval c \<and> cfg_guard_max_interval c \<le> 86400
     \<and> 1 \<le> cfg_guard_max_targets c \<and> cfg_guard_max_targets c \<le> 100
     \<and> 1 / 10 \<le> cfg_guard_hysteresis c \<and> cfg_guard_hysteresis c \<le> 20"

definition capabilities_ok :: "config \<Rightarrow> bool" where
  "capabilities_ok c \<longleftrightarrow> distinct (cfg_capabilities c) \<and> sorted (cfg_capabilities c)
     \<and> set (cfg_capabilities c) \<subseteq> set LOCAL_DRY_RUN_CAPABILITIES
     \<and> (cfg_guard_enabled c \<longrightarrow> set guard_capabilities \<subseteq> set (cfg_capabilities c))"

definition places_ok :: "config \<Rightarrow> bool" where
  "places_ok c \<longleftrightarrow> text_ok 1024 (cfg_database_path c)
     \<and> (cfg_database_path c = '':memory:'' \<or> inside_directory (cfg_database_path c))
     \<and> cfg_workspace_roots c \<noteq> [] \<and> distinct (cfg_workspace_roots c)
     \<and> (\<forall>r \<in> set (cfg_workspace_roots c). text_ok 1024 r)
     \<and> ident_ok (cfg_profile_key c) \<and> ident_ok (cfg_limit_id c)"

definition config_ok :: "config \<Rightarrow> bool" where
  "config_ok c \<longleftrightarrow> capabilities_ok c \<and> places_ok c \<and> policy_ok (cfg_policy c) \<and> live_ok (cfg_live c)
     \<and> dispatch_ok c \<and> background_ok c \<and> guard_limits_ok c"

lemmas config_ok_defs = config_ok_def capabilities_ok_def places_ok_def dispatch_ok_def background_ok_def
  guard_limits_ok_def

lemma must_be_true_Inr [simp]: "must_be_true data k = Inr u \<longleftrightarrow> jgetn data k = JBool True"
  by (simp add: must_be_true_def)

lemma validate_live_ok: "validate_live_test_config v = Inr l \<Longrightarrow> live_ok l"
  by (auto simp: validate_live_test_config_def live_ok_def text_ok_def dest!: validate_usage_ok)

lemma validate_live_dict: "live_ok l \<Longrightarrow> validate_live_test_config (live_dict l) = Inr l"
  by (simp add: validate_live_test_config_def live_dict_def live_ok_def exact_keys_Inr jkeys_def jgetn_def)

lemma validate_background_ok:
  "validate_background_config v = Inr b \<Longrightarrow>
   5 \<le> bg_poll b \<and> bg_poll b \<le> bg_backoff b \<and> bg_backoff b < bg_lease b \<and> bg_backoff b \<le> 3600
   \<and> 30 \<le> bg_lease b \<and> bg_lease b \<le> 7200 \<and> 0 \<le> bg_jitter b \<and> bg_jitter b \<le> 1 / 2
   \<and> text_ok 1024 (bg_path b) \<and> inside_directory (bg_path b)"
  by (auto simp: validate_background_config_def dest!: number_bounds)

lemma validate_guard_config_ok:
  "validate_quota_guard_config v = Inr g \<Longrightarrow>
   60 \<le> gc_min g \<and> gc_min g \<le> 3600 \<and> gc_min g \<le> gc_max g \<and> gc_max g \<le> 86400
   \<and> 1 \<le> gc_targets g \<and> gc_targets g \<le> 100 \<and> 1 / 10 \<le> gc_hysteresis g \<and> gc_hysteresis g \<le> 20"
  by (auto simp: validate_quota_guard_config_def dest!: number_bounds)

lemma validate_dispatch_ok:
  "validate_dispatch_config v = Inr (on, poll, cm) \<Longrightarrow>
   1 \<le> poll \<and> poll \<le> 30 \<and> cm \<in> {''machine_only'', ''operator_attested_subscription_only''}"
  by (auto simp: validate_dispatch_config_def)

lemma rmap_text: "rmap (\<lambda>item. str item False m) items = Inr ys \<Longrightarrow> (ys = [] \<longleftrightarrow> items = []) \<and> (\<forall>y \<in> set ys. text_ok m y)"
  by (induction items arbitrary: ys) auto

lemma rmap_text_dict: "\<forall>y \<in> set ys. text_ok m y \<Longrightarrow> rmap (\<lambda>item. str item False m) (map JStr ys) = Inr ys"
  by (rule rmap_map_inverse) simp

lemma validate_config_ok:
  assumes "validate_config v = Inr c"
  shows "config_ok c"
  using assms unfolding validate_config_def config_ok_defs
  by (clarsimp split: prod.splits
      dest!: validate_live_ok validate_background_ok validate_guard_config_ok validate_dispatch_ok validate_policy_ok
        rmap_text)

lemma rmap_true: "(\<forall>k \<in> set ks. jgetn data k = JBool True) \<Longrightarrow> \<exists>us. rmap (must_be_true data) ks = Inr us"
  by (induction ks) auto

lemma sections_of_dict:
  assumes "config_ok c"
  shows "validate_dispatch_config (dispatch_dict c) = Inr (cfg_dispatch_enabled c, cfg_dispatch_poll c, cfg_credit_mode c)"
    and "validate_background_config (background_dict c) = Inr \<lparr>bg_enabled = cfg_background_enabled c,
       bg_poll = cfg_poll_interval c, bg_backoff = cfg_max_backoff c, bg_jitter = cfg_jitter c,
       bg_lease = cfg_service_lease c, bg_path = cfg_notification_path c\<rparr>"
    and "validate_quota_guard_config (guard_dict c) = Inr \<lparr>gc_enabled = cfg_guard_enabled c,
       gc_min = cfg_guard_min_interval c, gc_max = cfg_guard_max_interval c, gc_targets = cfg_guard_max_targets c,
       gc_hysteresis = cfg_guard_hysteresis c\<rparr>"
  using assms
  by (auto simp: config_ok_defs validate_dispatch_config_def dispatch_dict_def validate_background_config_def
      background_dict_def validate_quota_guard_config_def guard_dict_def exact_keys_Inr jkeys_def jgetn_def jget_def
      must_be_true_def)

lemma validate_config_dict:
  assumes "config_ok c"
  shows "validate_config (config_dict c) = Inr c"
proof -
  note sections = sections_of_dict [OF assms]
  have "validate_live_test_config (live_dict (cfg_live c)) = Inr (cfg_live c)"
    and "validate_policy (policy_dict (cfg_policy c)) = Inr (cfg_policy c)"
    using assms by (simp_all add: config_ok_def validate_live_dict validate_policy_dict)
  moreover have "rmap str_item (map JStr (cfg_capabilities c)) = Inr (cfg_capabilities c)"
    by (rule rmap_map_inverse) simp
  ultimately show ?thesis
    using sections assms unfolding validate_config_def config_dict_def
    by (simp add: exact_keys_Inr jkeys_def jgetn_def jget_def version_check_def config_ok_defs rmap_text_dict
        sorted_sort_id insert_commute)
qed

text \<open>
  C28. A configuration is accepted only within its bounds. The validated configuration has
  grantable, sorted, distinct capabilities; if the quota guard is on it has all three guard capabilities;
  the database and the notification file stay inside the configuration directory; the service lease
  outlives the longest wait between two polls; every interval, limit and percentage is in its range.
  Validating the result again returns it unchanged, so a configuration that was saved loads the same.
\<close>

theorem accepted_config_is_safe:
  assumes "validate_config v = Inr c"
  shows "config_ok c \<and> validate_config (config_dict c) = Inr c"
  using validate_config_ok [OF assms] validate_config_dict by blast

lemma plan_limits_config:
  assumes "config_ok c"
  shows "plan_limits (config_dict c) = Inr (cfg_guard_min_interval c, cfg_guard_max_interval c, cfg_guard_max_targets c)"
  using assms
  by (auto simp: plan_limits_def limits_section_def config_dict_def guard_dict_def config_ok_def guard_limits_ok_def
      jget_def jgetn_def)

text \<open>A plan accepted under a configuration is within its limits, and accepted again unchanged.\<close>

definition plan_ok :: "config \<Rightarrow> guard_plan \<Rightarrow> bool" where
  "plan_ok c p \<longleftrightarrow> 0 \<le> gp_threshold p \<and> gp_threshold p \<le> 100
     \<and> cfg_guard_min_interval c \<le> gp_interval p \<and> gp_interval p \<le> cfg_guard_max_interval c
     \<and> gp_targets p \<noteq> [] \<and> int (length (gp_targets p)) \<le> cfg_guard_max_targets c
     \<and> distinct (gp_targets p) \<and> sorted (gp_targets p) \<and> (\<forall>t \<in> set (gp_targets p). ident_ok t)"

lemma rmap_identifiers: "rmap validate_identifier items = Inr ys \<Longrightarrow> \<forall>y \<in> set ys. ident_ok y"
  by (induction items arbitrary: ys) auto

lemma validate_plan_ok:
  assumes "config_ok c" and "validate_quota_guard_plan v (config_dict c) = Inr p"
  shows "plan_ok c p"
proof -
  from assms obtain items targets where "rmap validate_identifier items = Inr targets" "distinct targets"
      "1 \<le> length items" "int (length items) \<le> cfg_guard_max_targets c" "gp_targets p = sort targets"
      "0 \<le> gp_threshold p" "gp_threshold p \<le> 100"
      "cfg_guard_min_interval c \<le> gp_interval p" "gp_interval p \<le> cfg_guard_max_interval c"
    by (auto simp: validate_quota_guard_plan_def plan_limits_config dest!: number_bounds)
  moreover from this have "length targets = length items" "\<forall>y \<in> set targets. ident_ok y"
    using rmap_Inr_length rmap_identifiers by blast+
  ultimately show ?thesis
    by (auto simp: plan_ok_def simp flip: length_0_conv)
qed

section \<open>A configuration\<close>

definition guard_capabilities_sorted :: "string list" where
  "guard_capabilities_sorted = [''quota_guard.local.write'', ''quota_guard.read'', ''quota_guard.thread.control'']"

definition sample_config :: config where
  "sample_config = \<lparr>cfg_profile_key = ''default'', cfg_limit_id = ''codex'', cfg_capabilities = guard_capabilities_sorted,
     cfg_workspace_roots = [''/work''], cfg_guard_enabled = True, cfg_guard_hysteresis = 1,
     cfg_background_enabled = True, cfg_poll_interval = 30, cfg_dispatch_enabled = True, cfg_dispatch_poll = 5,
     cfg_credit_mode = ''machine_only'', cfg_database_path = ''state/scheduler.sqlite3'',
     cfg_policy = \<lparr>five_hour_reserve_percent = 20, weekly_reserve_percent = 20, estimate_multiplier = 3 / 2,
       max_snapshot_age_seconds = 300, lease_seconds = 120, max_concurrency = 1\<rparr>,
     cfg_guard_min_interval = 60, cfg_guard_max_interval = 3600, cfg_guard_max_targets = 100,
     cfg_max_backoff = 300, cfg_jitter = 1 / 5, cfg_service_lease = 600,
     cfg_notification_path = ''.scheduler/notifications.jsonl'',
     cfg_live = \<lparr>lt_enabled = False, lt_model = ''m1'', lt_effort = ''low'', lt_max_runtime = 60, lt_poll = 5,
       lt_usage = \<lparr>five_hour_percent = 1, weekly_percent = 1\<rparr>\<rparr>\<rparr>"

lemma sample_config_ok: "config_ok sample_config"
  by (simp add: config_ok_defs sample_config_def guard_capabilities_sorted_def guard_capabilities_def
      LOCAL_DRY_RUN_CAPABILITIES_def policy_ok_def live_ok_def usage_ok_def text_ok_def ident_ok_def ident_match_def
      is_ident_char_def is_alnum_def inside_directory_def is_absolute_def)

theorem accepted_config_is_safe_witness: "config_ok sample_config"
  using accepted_config_is_safe [OF validate_config_dict [OF sample_config_ok]] by blast

end
