(* ===== verification/Controller.thy ===== *)
theory Controller
  imports StoreGuard Policy Config
begin

text \<open>
  service.py: the environment of a controller, how it evaluates the policy against the bound
  account, and the shared frame of its commands: capability, idempotent replay, approval, one
  transaction. Clock values and fresh identifiers are arguments. A command's result is the dictionary
  it returns and whether it is a replay (the \<open>idempotent_replay\<close> entry of \<open>_with_replay\<close>).
\<close>

section \<open>Environment\<close>

text \<open>
  The host functions (hashing), the configuration, the identifier of the n-th audit event, and the
  file system: \<open>Path.resolve\<close> and \<open>Path.is_dir\<close>.
\<close>

record svc =
  sv_host :: host
  sv_config :: config
  sv_event_id :: "nat \<Rightarrow> string"
  sv_resolve :: "string \<Rightarrow> string"
  sv_is_dir :: "string \<Rightarrow> bool"

type_synonym command_result = "json \<times> bool"

definition require_capability :: "svc \<Rightarrow> string \<Rightarrow> unit res" where
  "require_capability sv cap = guard (cap \<in> set (cfg_capabilities (sv_config sv))) ''CAPABILITY_DENIED''"

definition valid_actor :: "string \<Rightarrow> string res" where
  "valid_actor who = validate_identifier (JStr who)"

definition audit :: "svc \<Rightarrow> string \<Rightarrow> string \<Rightarrow> json \<Rightarrow> rat \<Rightarrow> db \<Rightarrow> (string \<times> db) res" where
  "audit sv event_type who details now d =
     append_audit (sv_host sv) (sv_event_id sv (length (audit_t d))) event_type who details now d"

section \<open>Evaluating the policy for the bound account\<close>

text \<open>
  Documents that the store holds were validated before they were written; reading one back goes
  through its validator, which is the identity on them. Anything else would raise inside the
  evaluation.
\<close>

definition stored :: "'a res \<Rightarrow> 'a res" where
  "stored r = (case r of Inr x \<Rightarrow> Inr x | Inl e \<Rightarrow> Inl (PyExc ''TypeError''))"

lemma stored_Inr [simp]: "stored r = Inr x \<longleftrightarrow> r = Inr x"
  by (cases r) (simp_all add: stored_def)

definition current_policy :: "db \<Rightarrow> policy res" where
  "current_policy d = rbind (stored_policy d) (\<lambda>row. stored (validate_policy (policy_json row)))"

definition identity_missing :: "json \<Rightarrow> bool" where
  "identity_missing v \<longleftrightarrow>
     (jget (obj_fields v) ''account_fingerprint'' = None \<or> jget (obj_fields v) ''account_type'' = None)"

definition evaluate_current_policy ::
    "config \<Rightarrow> json option \<Rightarrow> policy \<Rightarrow> rat \<Rightarrow> usage option \<Rightarrow> db \<Rightarrow> decision res" where
  "evaluate_current_policy cfg snap p now usage_opt d =
     (case snap of
        None \<Rightarrow> Inr (evaluate_policy None p now usage_opt)
      | Some v \<Rightarrow>
          (case rbind (validate_snapshot v) (\<lambda>s.
                  rbind (ensure_profile s (cfg_profile_key cfg) (cfg_limit_id cfg)) (\<lambda>_. Inr s)) of
             Inl (PyExc c) \<Rightarrow> Inl (PyExc c)
           | Inl (Sched c) \<Rightarrow>
               Inr (invalid_signal_decision
                 (if identity_missing v then ''ACCOUNT_IDENTITY_UNAVAILABLE''
                  else if c = ''PROFILE_MISMATCH'' then ''PROFILE_MISMATCH'' else ''SIGNAL_INVALID''))
           | Inr s \<Rightarrow>
               (case account_binding (cfg_profile_key cfg) d of
                  None \<Rightarrow> Inr (invalid_signal_decision ''ACCOUNT_IDENTITY_UNAVAILABLE'')
                | Some b \<Rightarrow>
                    if bind_fingerprint b \<noteq> account_fingerprint s \<or> bind_account_type b \<noteq> account_type s
                    then Inr (invalid_signal_decision ''PROFILE_MISMATCH'')
                    else Inr (evaluate_policy (Some s) p now usage_opt))))"

text \<open>What an eligible decision rests on.\<close>

definition bound_and_eligible ::
    "config \<Rightarrow> json option \<Rightarrow> policy \<Rightarrow> rat \<Rightarrow> usage option \<Rightarrow> db \<Rightarrow> bool" where
  "bound_and_eligible cfg snap p now usage_opt d \<longleftrightarrow>
     (\<exists>v s b. snap = Some v \<and> validate_snapshot v = Inr s \<and> profile_key s = cfg_profile_key cfg
        \<and> account_binding (cfg_profile_key cfg) d = Some b
        \<and> bind_fingerprint b = account_fingerprint s \<and> bind_account_type b = account_type s
        \<and> eligible (evaluate_policy (Some s) p now usage_opt))"

lemma evaluate_current_policy_eligible:
  assumes "evaluate_current_policy cfg snap p now u d = Inr dec" and "eligible dec"
  shows "bound_and_eligible cfg snap p now u d"
proof -
  obtain v where v: "snap = Some v"
    using assms by (cases snap) (auto simp: evaluate_current_policy_def evaluate_policy_def missing_decision_def)
  show ?thesis
  proof (cases "rbind (validate_snapshot v) (\<lambda>s.
                  rbind (ensure_profile s (cfg_profile_key cfg) (cfg_limit_id cfg)) (\<lambda>_. Inr s))")
    case (Inl e)
    with assms v show ?thesis
      by (cases e) (auto simp: evaluate_current_policy_def invalid_signal_decision_def)
  next
    case (Inr s)
    then have s: "validate_snapshot v = Inr s" "ensure_profile s (cfg_profile_key cfg) (cfg_limit_id cfg) = Inr ()"
      by auto
    with assms v Inr show ?thesis
      by (auto simp: evaluate_current_policy_def invalid_signal_decision_def bound_and_eligible_def
          ensure_profile_def Let_def split: option.splits if_splits)
  qed
qed

section \<open>Approvals and the frame of an approved command\<close>

definition insert_approval :: "svc \<Rightarrow> approval \<Rightarrow> db \<Rightarrow> (unit \<times> db) res" where
  "insert_approval sv a d =
     (if approval_id a \<in> set (map appr_id (approvals_t d)) then Inl (Sched ''APPROVAL_ALREADY_USED'')
      else Inr ((), d\<lparr>approvals_t := approvals_t d @
             [\<lparr>appr_id = approval_id a, appr_action = action a, appr_actor = actor a,
               appr_scope = scope_hash a, appr_capabilities = JArr (map JStr (capabilities a)),
               appr_granted = granted_at a, appr_expires = expires_at a,
               appr_hash = payload_hash (sv_host sv) (approval_dict a)\<rparr>]\<rparr>))"

text \<open>
  The shared course of \<open>queue_submit\<close>, \<open>queue_approve\<close>, \<open>policy_set\<close>, \<open>resume\<close>, \<open>reconcile\<close> and
  \<open>quota_guard_arm\<close>: the approval is parsed even if expired, a stored result is replayed, otherwise the
  approval must be current and match the action, the scope and the capability, and the operation runs
  in the transaction that records the key.
\<close>

definition approved_command ::
    "svc \<Rightarrow> string \<Rightarrow> string \<Rightarrow> string \<Rightarrow> (db \<Rightarrow> string res) \<Rightarrow> string \<Rightarrow> json \<Rightarrow> rat
     \<Rightarrow> (json \<Rightarrow> json) \<Rightarrow> (approval \<Rightarrow> db \<Rightarrow> (json \<times> db) res) \<Rightarrow> (db, command_result) eff" where
  "approved_command sv key command act scope cap approval_value now request op =
     ebind (elift (validate_approval approval_value now True)) (\<lambda>a0.
     ebind (eread (replay_idempotent (sv_host sv) key command (request (approval_dict a0)))) (\<lambda>replay.
       case replay of
         Some r \<Rightarrow> eret (r, True)
       | None \<Rightarrow>
           ebind (elift (validate_approval approval_value now False)) (\<lambda>a.
           ebind (eread scope) (\<lambda>sc.
           ethen (elift (require_approval a act sc cap))
                 (transact (execute_idempotent (sv_host sv) key command (request (approval_dict a)) now (op a)))))))"

text \<open>A command without an approval.\<close>

definition plain_command ::
    "svc \<Rightarrow> string \<Rightarrow> string \<Rightarrow> json \<Rightarrow> rat \<Rightarrow> (db \<Rightarrow> (json \<times> db) res) \<Rightarrow> (db, command_result) eff" where
  "plain_command sv key command request now op =
     transact (execute_idempotent (sv_host sv) key command request now op)"

text \<open>
  The interface of the relations that a command carries from its operation to the database: recording
  the idempotency key must not matter to them.
\<close>

locale command_rel = step_rel R "\<lambda>_. True" for R :: "db \<Rightarrow> db \<Rightarrow> bool" +
  assumes idem: "R d e \<Longrightarrow> R d (e\<lparr>idem_t := x\<rparr>)"
begin

lemma execute_keeps:
  assumes "\<And>r e. op d = Inr (r, e) \<Longrightarrow> R d e"
    and "execute_idempotent h key command request now op d = Inr (x, d')"
  shows "R d d'"
proof -
  obtain r replayed where x: "x = (r, replayed)" by fastforce
  from execute_idempotent_fresh [OF assms(2) [unfolded x]] assms(1) idem refl show ?thesis
    by (cases replayed) metis+
qed

lemma keeps_execute:
  "(\<And>d r e. op d = Inr (r, e) \<Longrightarrow> R d e) \<Longrightarrow> keeps (transact (execute_idempotent h key command request now op))"
  by (rule keeps_transact) (auto intro: execute_keeps)

lemma keeps_plain_command:
  "(\<And>d r e. op d = Inr (r, e) \<Longrightarrow> R d e) \<Longrightarrow> keeps (plain_command sv key command request now op)"
  unfolding plain_command_def by (rule keeps_execute)

lemma keeps_approved_command:
  assumes "\<And>a d r e. op a d = Inr (r, e) \<Longrightarrow> R d e"
  shows "keeps (approved_command sv key command act scope cap av now request op)"
proof -
  have "keeps (transact (execute_idempotent (sv_host sv) key command request' now (op a)))" for request' a
    by (rule keeps_execute) (rule assms)
  then show ?thesis
    unfolding approved_command_def by (intro keeps_intros)
qed

end

text \<open>The approval that authorises a change: current, matching, and consumed by the change.\<close>

definition consumed_approval ::
    "json \<Rightarrow> rat \<Rightarrow> string \<Rightarrow> string \<Rightarrow> string \<Rightarrow> db \<Rightarrow> db \<Rightarrow> bool" where
  "consumed_approval approval_value now act scope cap d d' \<longleftrightarrow>
     (\<exists>a. validate_approval approval_value now False = Inr a \<and> action a = act \<and> scope_hash a = scope
        \<and> cap \<in> set (capabilities a) \<and> granted_at a \<le> now + 60 \<and> now < expires_at a
        \<and> approval_id a \<notin> set (map appr_id (approvals_t d))
        \<and> approval_id a \<in> set (map appr_id (approvals_t d')))"

text \<open>
  The interface of the operations that such a command runs: whatever they do, they consume their
  approval.
\<close>

locale approved_operation =
  fixes op :: "approval \<Rightarrow> db \<Rightarrow> (json \<times> db) res"
  assumes consumes: "op a d = Inr (r, d') \<Longrightarrow>
    approval_id a \<notin> set (map appr_id (approvals_t d)) \<and> approval_id a \<in> set (map appr_id (approvals_t d'))"
begin

lemma change_needs_approval:
  assumes "approved_command sv key command act scope cap approval_value now request op d = (res, d')"
    and "d' \<noteq> d"
  shows "\<exists>sc. scope d = Inr sc \<and> consumed_approval approval_value now act sc cap d d'"
proof -
  from assms obtain a sc r where a: "validate_approval approval_value now False = Inr a" "scope d = Inr sc"
      "require_approval a act sc cap = Inr ()"
      "execute_idempotent (sv_host sv) key command (request (approval_dict a)) now (op a) d = Inr (r, d')"
    by (auto simp: approved_command_def eff_defs split: sum.splits prod.splits option.splits)
  obtain result replayed where r: "r = (result, replayed)" by fastforce
  from execute_idempotent_fresh [OF a(4) [unfolded r]] assms(2)
  obtain e where e: "op a d = Inr (result, e)" "d' = e\<lparr>idem_t := idem_t d'\<rparr>"
    by (cases replayed) auto
  have "approvals_t d' = approvals_t e"
    by (subst e(2)) simp
  then show ?thesis
    using a consumes [OF e(1)] validate_approval_current [OF a(1)]
    by (auto simp: consumed_approval_def)
qed

text \<open>A second command with the same approval changes nothing.\<close>

lemma approval_single_use:
  assumes "approval_id a \<in> set (map appr_id (approvals_t d))"
    and "validate_approval approval_value now False = Inr a"
    and "approved_command sv key command act scope cap approval_value now request op d = (res, d')"
  shows "d' = d"
proof (rule ccontr)
  assume "d' \<noteq> d"
  from change_needs_approval [OF assms(3) this] assms(1,2) show False
    by (auto simp: consumed_approval_def)
qed

end

end
