(* ===== verification/Queue.thy ===== *)
theory Queue
  imports Controller
begin

text \<open>
  service.py: the work queue. A work package is proposed, then approved with a single-use approval
  bound to the package's hash, which creates the job; simulation jobs are submitted directly. The
  lemmas show what each command does to the tables on success, that every privileged change consumes
  a fresh matching approval, and that only unstarted work can be cancelled.
\<close>

section \<open>Workspace paths\<close>

text \<open>
  \<open>_resolve_workspace_cwd\<close>: a relative path is taken from the first base; the resolved directory must
  be a base or lie below one. Resolved paths are absolute and normalized, so that a parent is a prefix
  that ends at a separator.
\<close>

definition path_below :: "string \<Rightarrow> string \<Rightarrow> bool" where
  "path_below base p \<longleftrightarrow>
     (let prefix = (if base = ''/'' then base else base @ ''/'')
      in p \<noteq> base \<and> take (length prefix) p = prefix)"

definition resolve_workspace_cwd :: "svc \<Rightarrow> string \<Rightarrow> string res" where
  "resolve_workspace_cwd sv cwd_value =
     (case map (sv_resolve sv) (cfg_workspace_roots (sv_config sv)) of
        [] \<Rightarrow> Inl (PyExc ''IndexError'')
      | first # rest \<Rightarrow>
          (let roots = first # rest;
               candidate = (if take 1 cwd_value = ''/'' then cwd_value else first @ ''/'' @ cwd_value);
               resolved = sv_resolve sv candidate
           in rbind (guard (sv_is_dir sv resolved) ''PATH_DENIED'') (\<lambda>_.
              rbind (guard (\<exists>base \<in> set roots. resolved = base \<or> path_below base resolved) ''PATH_DENIED'') (\<lambda>_.
              Inr resolved))))"

definition normalize_work_package :: "svc \<Rightarrow> json \<Rightarrow> work_package res" where
  "normalize_work_package sv v =
     rbind (validate_work_package v) (\<lambda>p.
     rbind (resolve_workspace_cwd sv (cwd (wp_execution p))) (\<lambda>dir.
       Inr (p\<lparr>wp_execution := (wp_execution p)\<lparr>cwd := dir\<rparr>\<rparr>)))"

section \<open>Commands\<close>

definition package_hash_of :: "svc \<Rightarrow> work_package \<Rightarrow> string" where
  "package_hash_of sv p = payload_hash (sv_host sv) (work_package_dict p)"

definition propose_operation :: "svc \<Rightarrow> string \<Rightarrow> rat \<Rightarrow> work_package \<Rightarrow> db \<Rightarrow> (json \<times> db) res" where
  "propose_operation sv who now p d =
     (let j = wp_job p; digest = package_hash_of sv p in
      rbind (guard (job_id j \<notin> set (map pr_id (proposals_t d)) \<and> digest \<notin> set (map pr_hash (proposals_t d)))
               ''PROPOSAL_ALREADY_EXISTS'') (\<lambda>_.
      rbind (audit sv ''backlog.proposed'' who
               (JObj [(''job_id'', JStr (job_id j)), (''package_hash'', JStr digest),
                      (''priority'', JInt (priority j))]) now
               (d\<lparr>proposals_t := proposals_t d @
                  [\<lparr>pr_id = job_id j, pr_work_ref = work_ref j, pr_priority = priority j,
                    pr_state = proposed, pr_package = work_package_dict p, pr_hash = digest,
                    pr_created = now, pr_updated = now, pr_approved_at = None\<rparr>]\<rparr>)) (\<lambda>(event_id, d').
      Inr (JObj [(''audit_event_id'', JStr event_id), (''job_id'', JStr (job_id j)),
                 (''package_hash'', JStr digest), (''state'', JStr ''proposed'')], d'))))"

definition queue_propose ::
    "svc \<Rightarrow> json \<Rightarrow> string \<Rightarrow> string \<Rightarrow> rat \<Rightarrow> (db, command_result) eff" where
  "queue_propose sv package_value key who now =
     ethen (elift (require_capability sv ''backlog.local.write''))
    (ebind (elift (valid_actor who)) (\<lambda>who'.
     ebind (elift (normalize_work_package sv package_value)) (\<lambda>p.
       plain_command sv key ''queue.propose'' (JObj [(''package'', work_package_dict p)]) now
         (propose_operation sv who' now p))))"

definition insert_job :: "svc \<Rightarrow> job \<Rightarrow> string \<Rightarrow> rat \<Rightarrow> db \<Rightarrow> (unit \<times> db) res" where
  "insert_job sv j approval now d =
     rbind (guard (job_id j \<notin> set (map jr_id (jobs_t d))) ''JOB_ALREADY_EXISTS'') (\<lambda>_.
       Inr ((), d\<lparr>jobs_t := jobs_t d @
         [\<lparr>jr_id = job_id j, jr_work_ref = work_ref j, jr_priority = priority j, jr_state = approved,
           jr_manifest = job_dict j, jr_manifest_hash = payload_hash (sv_host sv) (job_dict j),
           jr_approval = approval, jr_created = now, jr_updated = now\<rparr>]\<rparr>))"

definition find_proposal :: "string \<Rightarrow> db \<Rightarrow> proposal_row option" where
  "find_proposal jid d = fetchone (\<lambda>r. pr_id r = jid) (proposals_t d)"

definition get_proposal :: "string \<Rightarrow> db \<Rightarrow> proposal_row res" where
  "get_proposal jid d =
     (case find_proposal jid d of None \<Rightarrow> Inl (Sched ''PROPOSAL_NOT_FOUND'') | Some r \<Rightarrow> Inr r)"

definition approve_operation ::
    "svc \<Rightarrow> string \<Rightarrow> rat \<Rightarrow> string \<Rightarrow> work_package \<Rightarrow> string \<Rightarrow> approval \<Rightarrow> db \<Rightarrow> (json \<times> db) res" where
  "approve_operation sv who now jid p package_hash a d =
     rbind (case find_proposal jid d of None \<Rightarrow> Inl (Sched ''PROPOSAL_NOT_FOUND'') | Some r \<Rightarrow> Inr r) (\<lambda>row.
     rbind (guard (pr_state row = proposed) ''INVALID_TRANSITION'') (\<lambda>_.
     rbind (insert_approval sv a d) (\<lambda>(_, d1).
     rbind (insert_job sv (wp_job p) (approval_id a) now d1) (\<lambda>(_, d2).
     rbind (audit sv ''backlog.approved'' who
              (JObj [(''approval_id'', JStr (approval_id a)), (''job_id'', JStr jid),
                     (''package_hash'', JStr package_hash)]) now
              (d2\<lparr>proposals_t := update_where (\<lambda>r. pr_id r = jid)
                   (\<lambda>r. r\<lparr>pr_state := proposal_approved, pr_approved_at := Some now, pr_updated := now\<rparr>)
                   (proposals_t d2)\<rparr>)) (\<lambda>(event_id, d3).
     Inr (JObj [(''approval_id'', JStr (approval_id a)), (''audit_event_id'', JStr event_id),
                (''job_id'', JStr jid), (''state'', JStr ''approved'')], d3))))))"

definition queue_approve ::
    "svc \<Rightarrow> string \<Rightarrow> json \<Rightarrow> string \<Rightarrow> string \<Rightarrow> rat \<Rightarrow> (db, command_result) eff" where
  "queue_approve sv jid approval_value key who now =
     ethen (elift (require_capability sv ''queue.local.write''))
    (ebind (elift (valid_actor who)) (\<lambda>who'.
     ebind (elift (validate_identifier (JStr jid))) (\<lambda>jid'.
     ebind (eread (get_proposal jid')) (\<lambda>row.
     ebind (elift (validate_work_package (pr_package row))) (\<lambda>p.
     ethen (eguard (package_hash_of sv p = pr_hash row) ''STATE_INVALID'')
    (ethen (elift (rbind (resolve_workspace_cwd sv (cwd (wp_execution p))) (\<lambda>_. Inr ())))
      (approved_command sv key ''queue.approve'' ''queue.approve'' (\<lambda>_. Inr (pr_hash row)) ''work.dispatch''
         approval_value now
         (\<lambda>a. JObj [(''approval'', a), (''job_id'', JStr jid), (''package_hash'', JStr (pr_hash row))])
         (approve_operation sv who' now jid p (pr_hash row)))))))))"

definition submit_operation :: "svc \<Rightarrow> string \<Rightarrow> rat \<Rightarrow> job \<Rightarrow> approval \<Rightarrow> db \<Rightarrow> (json \<times> db) res" where
  "submit_operation sv who now j a d =
     (let scope = payload_hash (sv_host sv) (job_dict j) in
      rbind (insert_approval sv a d) (\<lambda>(_, d1).
      rbind (insert_job sv j (approval_id a) now d1) (\<lambda>(_, d2).
      rbind (audit sv ''queue.submitted'' who
               (JObj [(''approval_id'', JStr (approval_id a)), (''job_id'', JStr (job_id j)),
                      (''manifest_hash'', JStr scope), (''priority'', JInt (priority j))]) now d2)
        (\<lambda>(event_id, d3).
      Inr (JObj [(''approval_id'', JStr (approval_id a)), (''audit_event_id'', JStr event_id),
                 (''dry_run'', JBool True), (''job_id'', JStr (job_id j)), (''state'', JStr ''approved'')], d3)))))"

definition queue_submit ::
    "svc \<Rightarrow> json \<Rightarrow> json \<Rightarrow> string \<Rightarrow> string \<Rightarrow> rat \<Rightarrow> (db, command_result) eff" where
  "queue_submit sv job_value approval_value key who now =
     ethen (elift (require_capability sv ''queue.local.write''))
    (ebind (elift (valid_actor who)) (\<lambda>who'.
     ebind (elift (validate_job job_value)) (\<lambda>j.
       approved_command sv key ''queue.submit'' ''queue.submit''
         (\<lambda>_. Inr (payload_hash (sv_host sv) (job_dict j))) ''queue.local.write'' approval_value now
         (\<lambda>a. JObj [(''approval'', a), (''job'', job_dict j)])
         (submit_operation sv who' now j))))"

definition cancellable_states :: "job_state list" where
  "cancellable_states =
     [approved, held_dependency, held_policy, held_schedule, held_capability, needs_review]"

definition set_job_state :: "string \<Rightarrow> job_state \<Rightarrow> rat \<Rightarrow> db \<Rightarrow> db" where
  "set_job_state jid st now d =
     d\<lparr>jobs_t := update_where (\<lambda>r. jr_id r = jid) (\<lambda>r. r\<lparr>jr_state := st, jr_updated := now\<rparr>) (jobs_t d)\<rparr>"

definition job_state_of :: "string \<Rightarrow> db \<Rightarrow> job_state option" where
  "job_state_of jid d = map_option jr_state (fetchone (\<lambda>r. jr_id r = jid) (jobs_t d))"

definition cancel_operation :: "svc \<Rightarrow> string \<Rightarrow> rat \<Rightarrow> string \<Rightarrow> db \<Rightarrow> (json \<times> db) res" where
  "cancel_operation sv who now jid d =
     (case job_state_of jid d of
        None \<Rightarrow> Inl (Sched ''JOB_NOT_FOUND'')
      | Some st \<Rightarrow>
          if st = simulating then Inl (Sched ''JOB_LEASED'')
          else if st \<notin> set cancellable_states then Inl (Sched ''INVALID_TRANSITION'')
          else
            rbind (audit sv ''queue.cancelled'' who (JObj [(''job_id'', JStr jid)]) now
                     (set_job_state jid cancelled now d)) (\<lambda>(event_id, d').
            Inr (JObj [(''audit_event_id'', JStr event_id), (''job_id'', JStr jid),
                       (''state'', JStr ''cancelled'')], d')))"

definition queue_cancel :: "svc \<Rightarrow> string \<Rightarrow> string \<Rightarrow> string \<Rightarrow> rat \<Rightarrow> (db, command_result) eff" where
  "queue_cancel sv jid key who now =
     ethen (elift (require_capability sv ''queue.local.write''))
    (ebind (elift (valid_actor who)) (\<lambda>who'.
       plain_command sv key ''queue.cancel'' (JObj [(''job_id'', JStr jid)]) now
         (cancel_operation sv who' now jid)))"

section \<open>Workspace confinement\<close>

text \<open>
  Work runs only inside the configured roots: a path that is accepted resolves to an existing
  directory that is one of the resolved workspace roots or lies below one.
\<close>

theorem resolve_workspace_cwd_confined:
  assumes "resolve_workspace_cwd sv cwd_value = Inr p"
  shows "sv_is_dir sv p
    \<and> (\<exists>r \<in> set (cfg_workspace_roots (sv_config sv)). p = sv_resolve sv r \<or> path_below (sv_resolve sv r) p)"
proof -
  let ?roots = "map (sv_resolve sv) (cfg_workspace_roots (sv_config sv))"
  have "sv_is_dir sv p \<and> (\<exists>base \<in> set ?roots. p = base \<or> path_below base p)"
    using assms by (cases ?roots) (auto simp: resolve_workspace_cwd_def Let_def)
  then show ?thesis by (auto simp only: set_map)
qed

section \<open>Approved changes\<close>

lemma audit_frame: "audit sv ev who det now d = Inr (i, d') \<Longrightarrow> \<exists>r. d' = d\<lparr>audit_t := audit_t d @ [r]\<rparr>"
  unfolding audit_def using append_audit_Inr by blast

lemma insert_approval_Inr:
  "insert_approval sv a d = Inr (u, d') \<longleftrightarrow>
     approval_id a \<notin> set (map appr_id (approvals_t d))
     \<and> d' = d\<lparr>approvals_t := approvals_t d @
             [\<lparr>appr_id = approval_id a, appr_action = action a, appr_actor = actor a,
               appr_scope = scope_hash a, appr_capabilities = JArr (map JStr (capabilities a)),
               appr_granted = granted_at a, appr_expires = expires_at a,
               appr_hash = payload_hash (sv_host sv) (approval_dict a)\<rparr>]\<rparr>"
  by (auto simp: insert_approval_def)

interpretation submit_op: approved_operation "submit_operation sv who now j" for sv who now j
proof
  fix a d r d'
  assume "submit_operation sv who now j a d = Inr (r, d')"
  then show "approval_id a \<notin> set (map appr_id (approvals_t d)) \<and> approval_id a \<in> set (map appr_id (approvals_t d'))"
    by (auto simp: submit_operation_def Let_def insert_approval_Inr insert_job_def dest!: audit_frame split: if_splits)
qed

interpretation approve_op: approved_operation "approve_operation sv who now jid p hash" for sv who now jid p hash
proof
  fix a d r d'
  assume "approve_operation sv who now jid p hash a d = Inr (r, d')"
  then show "approval_id a \<notin> set (map appr_id (approvals_t d)) \<and> approval_id a \<in> set (map appr_id (approvals_t d'))"
    by (auto simp: approve_operation_def insert_approval_Inr insert_job_def dest!: audit_frame split: option.splits)
qed

section \<open>What the commands do\<close>

text \<open>The states from which a job may be cancelled are exactly those of work that has not started.\<close>

lemma execute_idempotent_run:
  assumes "execute_idempotent h key command request now op d = Inr ((r, False), d')"
  shows "\<exists>e. op d = Inr (r, e) \<and> d' = e\<lparr>idem_t := idem_t d'\<rparr>"
  using execute_idempotent_fresh [OF assms] by blast

lemma idem_frame:
  assumes "d' = e\<lparr>idem_t := x\<rparr>"
  shows "jobs_t d' = jobs_t e \<and> audit_t d' = audit_t e \<and> approvals_t d' = approvals_t e
    \<and> runs_t d' = runs_t e \<and> leases_t d' = leases_t e \<and> controller_t d' = controller_t e
    \<and> policies_t d' = policies_t e \<and> proposals_t d' = proposals_t e \<and> snapshots_t d' = snapshots_t e
    \<and> bindings_t d' = bindings_t e \<and> sessions_t d' = sessions_t e \<and> targets_t d' = targets_t e
    \<and> service_lease_t d' = service_lease_t e \<and> notifications_t d' = notifications_t e"
  using assms by simp

lemma plain_command_run:
  assumes "plain_command sv key command request now op d = (Inr (r, False), d')"
  shows "\<exists>e. op d = Inr (r, e) \<and> d' = e\<lparr>idem_t := idem_t d'\<rparr>"
  using assms execute_idempotent_run [of "sv_host sv" key command request now op d r d']
  by (auto simp: plain_command_def transact_def split: sum.splits prod.splits)

lemma plain_command_error: "plain_command sv key command request now op d = (Inl e, d') \<Longrightarrow> d' = d"
  by (auto simp: plain_command_def transact_def split: sum.splits prod.splits)

lemma approved_command_error:
  "approved_command sv key command act scope cap av now request op d = (Inl e, d') \<Longrightarrow> d' = d"
  by (auto simp: approved_command_def eff_defs split: sum.splits prod.splits option.splits)

lemma approved_command_run:
  assumes "approved_command sv key command act scope cap av now request op d = (Inr (r, False), d')"
  shows "\<exists>a sc e. validate_approval av now False = Inr a \<and> scope d = Inr sc \<and> action a = act \<and> scope_hash a = sc
    \<and> cap \<in> set (capabilities a) \<and> op a d = Inr (r, e) \<and> d' = e\<lparr>idem_t := idem_t d'\<rparr>"
  using assms execute_idempotent_run [of "sv_host sv" key command _ now _ d r d']
  by (auto simp: approved_command_def eff_defs split: sum.splits prod.splits option.splits)

text \<open>
  Cancelling is confined to unstarted work: a cancel that is not a replay finds the job in an
  approved, held or review state, changes the state of that job only, to cancelled, and records one
  audit event; on any error nothing changes.
\<close>

theorem queue_cancel_only_unstarted:
  assumes "queue_cancel sv jid key who now d = (res, d')"
  shows "case res of
       Inl e \<Rightarrow> d' = d
     | Inr (r, True) \<Rightarrow> d' = d
     | Inr (r, False) \<Rightarrow>
         (\<exists>st. job_state_of jid d = Some st \<and> st \<in> set cancellable_states)
         \<and> jobs_t d' = jobs_t (set_job_state jid cancelled now d)
         \<and> (\<exists>ev. audit_t d' = audit_t d @ [ev])
         \<and> approvals_t d' = approvals_t d \<and> runs_t d' = runs_t d \<and> leases_t d' = leases_t d
         \<and> controller_t d' = controller_t d"
proof -
  have run: "(case res of Inl e \<Rightarrow> d' = d | Inr (r, True) \<Rightarrow> d' = d
      | Inr (r, False) \<Rightarrow> \<exists>who' e. cancel_operation sv who' now jid d = Inr (r, e) \<and> d' = e\<lparr>idem_t := idem_t d'\<rparr>)"
    using assms execute_idempotent_fresh
    by (fastforce simp: queue_cancel_def plain_command_def eff_defs split: sum.splits prod.splits bool.splits)
  have op: "(\<exists>st. job_state_of jid d = Some st \<and> st \<in> set cancellable_states)
      \<and> (\<exists>ev. e = (set_job_state jid cancelled now d)\<lparr>audit_t := audit_t d @ [ev]\<rparr>)"
    if "cancel_operation sv who' now jid d = Inr (r, e)" for who' r e
    using that by (auto simp: cancel_operation_def set_job_state_def split: option.splits if_splits dest!: audit_frame)
  have frame: "jobs_t d' = jobs_t e \<and> audit_t d' = audit_t e \<and> approvals_t d' = approvals_t e
      \<and> runs_t d' = runs_t e \<and> leases_t d' = leases_t e \<and> controller_t d' = controller_t e"
    if "d' = e\<lparr>idem_t := idem_t d'\<rparr>" for e
    using idem_frame [OF that] by simp
  show ?thesis
  proof (cases res)
    case (Inr rr)
    obtain r replayed where rr: "rr = (r, replayed)" by fastforce
    show ?thesis
    proof (cases replayed)
      case False
      then obtain who' e where e: "cancel_operation sv who' now jid d = Inr (r, e)" "d' = e\<lparr>idem_t := idem_t d'\<rparr>"
        using run Inr rr by auto
      show ?thesis
        using op [OF e(1)] frame [OF e(2)] Inr rr False by (auto simp: set_job_state_def)
    qed (use run Inr rr in auto)
  qed (use run in auto)
qed

end
