(* ===== verification/ControlOps.thy ===== *)
theory ControlOps
  imports Queue
begin

text \<open>
  service.py: the controller's mode and its recovery commands: \<open>policy_set\<close>, \<open>pause\<close>, \<open>stop\<close>,
  \<open>resume\<close>, \<open>reconcile\<close>, \<open>background_recover\<close>, \<open>background_safety_stop\<close> and
  \<open>background_dispatch_failed\<close>. The lemmas show when the controller can become ready, that privileged
  changes consume a matching approval, and that recovery fences expired work without restarting any.
\<close>

section \<open>Policy and mode\<close>

definition policy_set_operation :: "svc \<Rightarrow> string \<Rightarrow> rat \<Rightarrow> policy \<Rightarrow> approval \<Rightarrow> db \<Rightarrow> (json \<times> db) res" where
  "policy_set_operation sv who now p a d =
     rbind (insert_approval sv a d) (\<lambda>(_, d1).
     (case policies_t d1 of
        None \<Rightarrow> Inl (PyExc ''TypeError'')
      | Some row \<Rightarrow>
          (let scope = payload_hash (sv_host sv) (policy_dict p); version = policy_version row + 1;
               d2 = d1\<lparr>policies_t := Some \<lparr>policy_version = version, policy_json = policy_dict p,
                       policy_row_hash = scope, policy_updated_at = now\<rparr>\<rparr>
           in rbind (audit sv ''policy.updated'' who
                       (JObj [(''approval_id'', JStr (approval_id a)), (''policy_hash'', JStr scope),
                              (''version'', JInt version)]) now
                       (set_controller PAUSED (Some ''POLICY_CHANGED'') now d2)) (\<lambda>(event_id, d3).
              Inr (JObj [(''approval_id'', JStr (approval_id a)), (''audit_event_id'', JStr event_id),
                         (''policy_hash'', JStr scope), (''version'', JInt version)], d3)))))"

definition policy_set ::
    "svc \<Rightarrow> json \<Rightarrow> json \<Rightarrow> string \<Rightarrow> string \<Rightarrow> rat \<Rightarrow> (db, command_result) eff" where
  "policy_set sv policy_value approval_value key who now =
     ethen (elift (require_capability sv ''policy.local.write''))
    (ebind (elift (valid_actor who)) (\<lambda>who'.
     ebind (elift (validate_policy policy_value)) (\<lambda>p.
       approved_command sv key ''policy.set'' ''policy.set''
         (\<lambda>_. Inr (payload_hash (sv_host sv) (policy_dict p))) ''policy.local.write'' approval_value now
         (\<lambda>a. JObj [(''approval'', a), (''policy'', policy_dict p)])
         (policy_set_operation sv who' now p))))"

definition mode_name :: "controller_mode \<Rightarrow> string" where
  "mode_name m = (case m of PAUSED \<Rightarrow> ''PAUSED'' | READY \<Rightarrow> ''READY'' | STOPPED \<Rightarrow> ''STOPPED'' | BLOCKED \<Rightarrow> ''BLOCKED'')"

text \<open>\<open>SELECT mode ... fetchone()["mode"]\<close> raises TypeError on a missing row.\<close>

definition current_mode :: "db \<Rightarrow> controller_mode res" where
  "current_mode d = (case controller_t d of None \<Rightarrow> Inl (PyExc ''TypeError'') | Some c \<Rightarrow> Inr (mode c))"

definition set_mode_operation ::
    "svc \<Rightarrow> string \<Rightarrow> rat \<Rightarrow> string \<Rightarrow> controller_mode \<Rightarrow> string \<Rightarrow> db \<Rightarrow> (json \<times> db) res" where
  "set_mode_operation sv who now command m reason d =
     rbind (current_mode d) (\<lambda>cur.
     rbind (audit sv (''controller.'' @ command) who
              (JObj [(''from'', JStr (mode_name cur)), (''reason_code'', JStr reason), (''to'', JStr (mode_name m))])
              now (set_controller m (Some reason) now d)) (\<lambda>(event_id, d').
     Inr (JObj [(''audit_event_id'', JStr event_id), (''from'', JStr (mode_name cur)),
                (''mode'', JStr (mode_name m)), (''reason_code'', JStr reason)], d')))"

definition set_mode ::
    "svc \<Rightarrow> controller_mode \<Rightarrow> string \<Rightarrow> string \<Rightarrow> string \<Rightarrow> rat \<Rightarrow> string \<Rightarrow> (db, command_result) eff" where
  "set_mode sv m reason key who now command =
     ethen (elift (require_capability sv ''control.local.write''))
    (ebind (elift (valid_actor who)) (\<lambda>who'.
     ebind (elift (validate_identifier (JStr reason))) (\<lambda>reason'.
       plain_command sv key command
         (JObj [(''mode'', JStr (mode_name m)), (''reason_code'', JStr reason')]) now
         (set_mode_operation sv who' now command m reason'))))"

definition pause :: "svc \<Rightarrow> string \<Rightarrow> string \<Rightarrow> string \<Rightarrow> rat \<Rightarrow> (db, command_result) eff" where
  "pause sv reason key who now = set_mode sv PAUSED reason key who now ''pause''"

definition stop :: "svc \<Rightarrow> string \<Rightarrow> string \<Rightarrow> string \<Rightarrow> rat \<Rightarrow> (db, command_result) eff" where
  "stop sv reason key who now = set_mode sv STOPPED reason key who now ''stop''"

section \<open>Resume\<close>

definition active_leases :: "db \<Rightarrow> lease_row list" where
  "active_leases d = filter (\<lambda>r. ls_state r = lease_active) (leases_t d)"

definition active_runs :: "db \<Rightarrow> run_row list" where
  "active_runs d = filter (\<lambda>r. rn_state r \<in> {run_starting, run_running}) (runs_t d)"

definition first_reason :: "decision \<Rightarrow> string" where
  "first_reason dec = (case reasons dec of [] \<Rightarrow> ''POLICY_DENIED'' | r # _ \<Rightarrow> r)"

definition resume_operation :: "svc \<Rightarrow> string \<Rightarrow> rat \<Rightarrow> approval \<Rightarrow> db \<Rightarrow> (json \<times> db) res" where
  "resume_operation sv who now a d =
     rbind (guard (\<forall>r \<in> set (active_leases d). \<not> ls_expires r \<le> now) ''RECONCILE_REQUIRED'') (\<lambda>_.
     rbind (guard (active_leases d = []) ''LEASE_ACTIVE'') (\<lambda>_.
     rbind (guard (active_runs d = []) ''RUN_ACTIVE'') (\<lambda>_.
     rbind (current_policy d) (\<lambda>p.
     rbind (evaluate_current_policy (sv_config sv) (latest_snapshot d) p now None d) (\<lambda>dec.
     rbind (guard (eligible dec) (first_reason dec)) (\<lambda>_.
     rbind (insert_approval sv a d) (\<lambda>(_, d1).
     rbind (current_mode d1) (\<lambda>cur.
     rbind (guard (cur \<noteq> READY) ''INVALID_TRANSITION'') (\<lambda>_.
     rbind (audit sv ''controller.resumed'' who
              (JObj [(''approval_id'', JStr (approval_id a)), (''from'', JStr (mode_name cur)), (''to'', JStr ''READY'')])
              now (set_controller READY None now d1)) (\<lambda>(event_id, d2).
     Inr (JObj [(''approval_id'', JStr (approval_id a)), (''audit_event_id'', JStr event_id),
                (''from'', JStr (mode_name cur)), (''mode'', JStr ''READY'')], d2)))))))))))"

definition resume_scope :: json where
  "resume_scope = JObj [(''action'', JStr ''resume''), (''target_mode'', JStr ''READY'')]"

definition resume :: "svc \<Rightarrow> json \<Rightarrow> string \<Rightarrow> string \<Rightarrow> rat \<Rightarrow> (db, command_result) eff" where
  "resume sv approval_value key who now =
     ethen (elift (require_capability sv ''control.local.write''))
    (ebind (elift (valid_actor who)) (\<lambda>who'.
       approved_command sv key ''resume'' ''resume'' (\<lambda>_. Inr (payload_hash (sv_host sv) resume_scope))
         ''control.local.write'' approval_value now
         (\<lambda>a. JObj [(''approval'', a), (''scope'', resume_scope)])
         (resume_operation sv who' now)))"

section \<open>Reconciliation\<close>

definition lease_expired_at :: "rat \<Rightarrow> lease_row \<Rightarrow> bool" where
  "lease_expired_at now r \<longleftrightarrow> ls_state r = lease_active \<and> ls_expires r \<le> now"

definition run_expired_at :: "rat \<Rightarrow> run_row \<Rightarrow> bool" where
  "run_expired_at now r \<longleftrightarrow> rn_state r \<in> {run_starting, run_running} \<and> rn_lease_expires r \<le> now"

definition reconciliation_candidates :: "rat \<Rightarrow> db \<Rightarrow> lease_row list" where
  "reconciliation_candidates now d =
     sort_key (\<lambda>r. (ls_expires r, ls_id r)) (filter (lease_expired_at now) (leases_t d))"

definition run_reconciliation_candidates :: "rat \<Rightarrow> db \<Rightarrow> run_row list" where
  "run_reconciliation_candidates now d =
     sort_key (\<lambda>r. (rn_lease_expires r, rn_id r)) (filter (run_expired_at now) (runs_t d))"

text \<open>
  The body of the loop over the leases: the UPDATE, and the job's review when a row changed. The
  column \<open>completed_at\<close> is set by \<open>background_recover\<close> only.
\<close>

definition expire_lease :: "bool \<Rightarrow> rat \<Rightarrow> lease_row \<Rightarrow> string list \<times> db \<Rightarrow> string list \<times> db" where
  "expire_lease stamp now c acc =
     (case acc of (ids, d) \<Rightarrow>
        (let P = (\<lambda>r. ls_id r = ls_id c \<and> lease_expired_at now r);
             d1 = d\<lparr>leases_t := update_where P
                    (\<lambda>r. r\<lparr>ls_state := lease_expired,
                           ls_completed := (if stamp then Some now else ls_completed r)\<rparr>) (leases_t d)\<rparr>
         in if row_count P (leases_t d) \<noteq> 0
            then (ids @ [ls_id c], set_job_state (ls_job c) needs_review now d1) else (ids, d1)))"

definition fence_run :: "rat \<Rightarrow> run_row \<Rightarrow> string list \<times> db \<Rightarrow> string list \<times> db" where
  "fence_run now c acc =
     (case acc of (ids, d) \<Rightarrow>
        (let job = (case fetchone (\<lambda>r. rn_id r = rn_id c) (runs_t d) of None \<Rightarrow> None | Some r \<Rightarrow> rn_job r);
             P = (\<lambda>r. rn_id r = rn_id c \<and> run_expired_at now r);
             d1 = d\<lparr>runs_t := update_where P
                    (\<lambda>r. r\<lparr>rn_state := run_needs_review, rn_updated := now, rn_completed := Some now,
                           rn_stop_reason := Some ''LEASE_EXPIRED''\<rparr>) (runs_t d)\<rparr>
         in if row_count P (runs_t d) \<noteq> 0
            then (ids @ [rn_id c],
                  (case job of None \<Rightarrow> d1 | Some j \<Rightarrow> set_job_state j needs_review now d1))
            else (ids, d1)))"

definition fence_expired ::
    "bool \<Rightarrow> rat \<Rightarrow> lease_row list \<Rightarrow> run_row list \<Rightarrow> db \<Rightarrow> string list \<times> string list \<times> db" where
  "fence_expired stamp now ls rs d =
     (let (lease_ids, d1) = fold (expire_lease stamp now) ls ([], d);
          (run_ids, d2) = fold (fence_run now) rs ([], d1)
      in (lease_ids, run_ids, d2))"

definition id_array :: "string list \<Rightarrow> json" where
  "id_array ids = JArr (map JStr ids)"

definition reconcile_scope :: "lease_row list \<Rightarrow> run_row list \<Rightarrow> json" where
  "reconcile_scope ls rs = JObj [(''action'', JStr ''reconcile''), (''lease_ids'', id_array (map ls_id ls)),
     (''run_ids'', id_array (map rn_id rs))]"

definition reconcile_operation ::
    "svc \<Rightarrow> string \<Rightarrow> rat \<Rightarrow> lease_row list \<Rightarrow> run_row list \<Rightarrow> approval \<Rightarrow> db \<Rightarrow> (json \<times> db) res" where
  "reconcile_operation sv who now ls rs a d =
     rbind (insert_approval sv a d) (\<lambda>(_, d1).
       (let (lease_ids, run_ids, d2) = fence_expired False now ls rs d1;
            d3 = (if lease_ids \<noteq> [] \<or> run_ids \<noteq> []
                  then set_controller PAUSED (Some ''RECONCILIATION_REVIEW_REQUIRED'') now d2 else d2)
        in rbind (audit sv ''controller.reconciled'' who
                    (JObj [(''approval_id'', JStr (approval_id a)), (''lease_ids'', id_array lease_ids),
                           (''run_ids'', id_array run_ids)]) now d3) (\<lambda>(event_id, d4).
           rbind (current_mode d4) (\<lambda>m.
           Inr (JObj [(''approval_id'', JStr (approval_id a)), (''audit_event_id'', JStr event_id),
                      (''controller_mode'', JStr (mode_name m)),
                      (''reconciled_lease_ids'', id_array lease_ids),
                      (''reconciled_run_ids'', id_array run_ids)], d4)))))"

definition reconcile :: "svc \<Rightarrow> json \<Rightarrow> string \<Rightarrow> string \<Rightarrow> rat \<Rightarrow> (db, command_result) eff" where
  "reconcile sv approval_value key who now =
     ethen (elift (require_capability sv ''reconcile.local''))
    (ebind (elift (valid_actor who)) (\<lambda>who'.
     ebind (eread (\<lambda>d. Inr (reconciliation_candidates now d, run_reconciliation_candidates now d))) (\<lambda>(ls, rs).
       approved_command sv key ''reconcile'' ''reconcile''
         (\<lambda>_. Inr (payload_hash (sv_host sv) (reconcile_scope ls rs))) ''reconcile.local'' approval_value now
         (\<lambda>a. JObj [(''approval'', a)])
         (reconcile_operation sv who' now ls rs))))"

section \<open>The background service's transactions\<close>

definition recover_transaction :: "svc \<Rightarrow> string \<Rightarrow> rat \<Rightarrow> db \<Rightarrow> ((string list \<times> string list) \<times> db) res" where
  "recover_transaction sv who now d =
     rbind (guard (valid (verify_audit (sv_host sv) d)) ''AUDIT_INVALID'') (\<lambda>_.
       (let (lease_ids, d1) = fold (expire_lease True now) (reconciliation_candidates now d) ([], d);
            (run_ids, d2) = fold (fence_run now) (run_reconciliation_candidates now d1) ([], d1)
        in if lease_ids \<noteq> [] \<or> run_ids \<noteq> []
           then rbind (audit sv ''background.recovered'' who
                         (JObj [(''lease_ids'', id_array lease_ids), (''run_ids'', id_array run_ids)]) now
                         (set_controller PAUSED (Some ''RECOVERY_REVIEW_REQUIRED'') now d2))
                  (\<lambda>(event_id, d3). Inr ((lease_ids, run_ids), d3))
           else Inr ((lease_ids, run_ids), d2)))"

definition background_recover :: "svc \<Rightarrow> string \<Rightarrow> rat \<Rightarrow> (db, string list \<times> string list) eff" where
  "background_recover sv who now =
     ethen (elift (require_capability sv ''background.run''))
    (ethen (elift (require_capability sv ''reconcile.local''))
    (ebind (elift (valid_actor who)) (\<lambda>who'. transact (recover_transaction sv who' now))))"

text \<open>The audit entry of a safety stop is written only onto a valid chain; the mode changes anyway.\<close>

definition audit_if_valid :: "svc \<Rightarrow> string \<Rightarrow> string \<Rightarrow> json \<Rightarrow> rat \<Rightarrow> db \<Rightarrow> (string option \<times> db) res" where
  "audit_if_valid sv event_type who details now d =
     (if valid (verify_audit (sv_host sv) d)
      then rbind (audit sv event_type who details now d) (\<lambda>(i, d'). Inr (Some i, d'))
      else Inr (None, d))"

definition safety_stop_transaction ::
    "svc \<Rightarrow> string \<Rightarrow> string \<Rightarrow> rat \<Rightarrow> db \<Rightarrow> (string option \<times> db) res" where
  "safety_stop_transaction sv reason who now d =
     (case controller_t d of
        None \<Rightarrow> Inl (PyExc ''TypeError'')
      | Some c \<Rightarrow>
          if mode c = BLOCKED \<and> controller_reason c = Some reason then Inr (None, d)
          else audit_if_valid sv ''background.safety_stopped'' who
                 (JObj [(''from'', JStr (mode_name (mode c))), (''reason_code'', JStr reason)]) now
                 (set_controller BLOCKED (Some reason) now d))"

definition background_safety_stop :: "svc \<Rightarrow> string \<Rightarrow> string \<Rightarrow> rat \<Rightarrow> (db, string option) eff" where
  "background_safety_stop sv reason who now =
     ethen (elift (require_capability sv ''background.run''))
    (ethen (elift (require_capability sv ''control.local.write''))
    (ebind (elift (valid_actor who)) (\<lambda>who'.
     ebind (elift (validate_identifier (JStr reason))) (\<lambda>reason'.
       transact (safety_stop_transaction sv reason' who' now)))))"

definition dispatchable_states :: "job_state list" where
  "dispatchable_states = [approved, held_policy, held_dependency, held_schedule, held_capability]"

definition job_state_name :: "job_state \<Rightarrow> string" where
  "job_state_name st =
     (case st of approved \<Rightarrow> ''approved'' | cancelled \<Rightarrow> ''cancelled'' | simulating \<Rightarrow> ''simulating''
      | simulated \<Rightarrow> ''simulated'' | held_policy \<Rightarrow> ''held_policy'' | held_dependency \<Rightarrow> ''held_dependency''
      | held_schedule \<Rightarrow> ''held_schedule'' | held_capability \<Rightarrow> ''held_capability''
      | needs_review \<Rightarrow> ''needs_review'' | running \<Rightarrow> ''running'' | succeeded \<Rightarrow> ''succeeded''
      | failed \<Rightarrow> ''failed'' | interrupted \<Rightarrow> ''interrupted'')"

definition dispatch_failed_transaction ::
    "svc \<Rightarrow> string \<Rightarrow> string \<Rightarrow> string \<Rightarrow> rat \<Rightarrow> db \<Rightarrow> ((bool \<times> job_state) \<times> db) res" where
  "dispatch_failed_transaction sv jid reason who now d =
     (case job_state_of jid d of
        None \<Rightarrow> Inl (Sched ''JOB_NOT_FOUND'')
      | Some previous \<Rightarrow>
          (let P = (\<lambda>r. jr_id r = jid \<and> jr_state r \<in> set dispatchable_states);
               changed = (row_count P (jobs_t d) = 1);
               d1 = d\<lparr>jobs_t := update_where P (\<lambda>r. r\<lparr>jr_state := needs_review, jr_updated := now\<rparr>) (jobs_t d)\<rparr>;
               target = (if reason = ''AUDIT_INVALID'' \<or> reason = ''DATABASE_INVALID'' then BLOCKED else PAUSED);
               d2 = set_controller target (Some (if target = BLOCKED then reason else ''WORK_REVIEW_REQUIRED'')) now d1
           in rbind (audit_if_valid sv ''background.dispatch_failed'' who
                       (JObj [(''failure_code'', JStr reason), (''job_id'', JStr jid),
                              (''job_marked_review'', JBool changed), (''previous_state'', JStr (job_state_name previous))]) now d2)
                (\<lambda>(_, d3). Inr ((changed, previous), d3))))"

definition background_dispatch_failed ::
    "svc \<Rightarrow> string \<Rightarrow> string \<Rightarrow> string \<Rightarrow> rat \<Rightarrow> (db, bool \<times> job_state) eff" where
  "background_dispatch_failed sv jid reason who now =
     ethen (elift (require_capability sv ''background.run''))
    (ebind (elift (valid_actor who)) (\<lambda>who'.
     ebind (elift (validate_identifier (JStr jid))) (\<lambda>jid'.
     ebind (elift (validate_identifier (JStr reason))) (\<lambda>reason'.
       transact (dispatch_failed_transaction sv jid' reason' who' now)))))"

section \<open>Privileged changes consume an approval\<close>

interpretation policy_set_op: approved_operation "policy_set_operation sv who now p" for sv who now p
proof
  fix a d r d'
  assume "policy_set_operation sv who now p a d = Inr (r, d')"
  then show "approval_id a \<notin> set (map appr_id (approvals_t d)) \<and> approval_id a \<in> set (map appr_id (approvals_t d'))"
    by (auto simp: policy_set_operation_def insert_approval_Inr set_controller_def Let_def
        dest!: audit_frame split: option.splits)
qed

interpretation resume_op: approved_operation "resume_operation sv who now" for sv who now
proof
  fix a d r d'
  assume "resume_operation sv who now a d = Inr (r, d')"
  then show "approval_id a \<notin> set (map appr_id (approvals_t d)) \<and> approval_id a \<in> set (map appr_id (approvals_t d'))"
    by (auto simp: resume_operation_def insert_approval_Inr set_controller_def dest!: audit_frame)
qed

lemma set_job_state_frame [simp]:
  "approvals_t (set_job_state j st now d) = approvals_t d" "leases_t (set_job_state j st now d) = leases_t d"
  "runs_t (set_job_state j st now d) = runs_t d" "controller_t (set_job_state j st now d) = controller_t d"
  by (simp_all add: set_job_state_def)

lemma expire_lease_frame [simp]:
  "approvals_t (snd (expire_lease b now c acc)) = approvals_t (snd acc)"
  "runs_t (snd (expire_lease b now c acc)) = runs_t (snd acc)"
  "controller_t (snd (expire_lease b now c acc)) = controller_t (snd acc)"
  by (simp_all add: expire_lease_def Let_def split: prod.split)

lemma fence_run_frame [simp]:
  "approvals_t (snd (fence_run now c acc)) = approvals_t (snd acc)"
  "leases_t (snd (fence_run now c acc)) = leases_t (snd acc)"
  "controller_t (snd (fence_run now c acc)) = controller_t (snd acc)"
  by (simp_all add: fence_run_def Let_def split: prod.split option.split)

lemma fold_frame: "(\<And>c acc. g (snd (f c acc)) = g (snd acc)) \<Longrightarrow> g (snd (fold f cs acc)) = g (snd acc)"
  by (induction cs arbitrary: acc) auto

lemmas fold_expire_frame [simp] =
  fold_frame [where f = "expire_lease b now" and g = approvals_t for b now, OF expire_lease_frame(1)]
  fold_frame [where f = "expire_lease b now" and g = runs_t for b now, OF expire_lease_frame(2)]
  fold_frame [where f = "expire_lease b now" and g = controller_t for b now, OF expire_lease_frame(3)]
  fold_frame [where f = "fence_run now" and g = approvals_t for now, OF fence_run_frame(1)]
  fold_frame [where f = "fence_run now" and g = leases_t for now, OF fence_run_frame(2)]
  fold_frame [where f = "fence_run now" and g = controller_t for now, OF fence_run_frame(3)]

lemma fence_expired_frame:
  "fence_expired b now ls rs d = (lids, rids, d') \<Longrightarrow> approvals_t d' = approvals_t d \<and> controller_t d' = controller_t d"
proof -
  assume d': "fence_expired b now ls rs d = (lids, rids, d')"
  let ?e = "snd (fold (expire_lease b now) ls ([], d))"
  have "d' = snd (fold (fence_run now) rs ([], ?e))"
    using d' by (simp add: fence_expired_def case_prod_beta Let_def)
  then show ?thesis by simp
qed

interpretation reconcile_op: approved_operation "reconcile_operation sv who now ls rs" for sv who now ls rs
proof
  fix a d r d'
  assume "reconcile_operation sv who now ls rs a d = Inr (r, d')"
  then show "approval_id a \<notin> set (map appr_id (approvals_t d)) \<and> approval_id a \<in> set (map appr_id (approvals_t d'))"
    by (auto simp: reconcile_operation_def insert_approval_Inr set_controller_def Let_def
        dest!: audit_frame fence_expired_frame split: prod.splits if_splits)
qed

text \<open>The checks before the frame change nothing; the frame does.\<close>

lemma approved_operation_change:
  assumes "approved_operation op"
    and "snd (approved_command sv key command act (\<lambda>_. Inr sc) cap av now request op d) \<noteq> d"
  shows "consumed_approval av now act sc cap d (snd (approved_command sv key command act (\<lambda>_. Inr sc) cap av now request op d))"
proof -
  obtain res d' where run: "approved_command sv key command act (\<lambda>_. Inr sc) cap av now request op d = (res, d')"
    by fastforce
  from approved_operation.change_needs_approval [OF assms(1) run] assms(2) run show ?thesis
    by auto
qed

lemma queue_submit_change:
  assumes "snd (queue_submit sv jv av key who now d) \<noteq> d"
  shows "\<exists>j. validate_job jv = Inr j \<and> consumed_approval av now ''queue.submit''
    (payload_hash (sv_host sv) (job_dict j)) ''queue.local.write'' d (snd (queue_submit sv jv av key who now d))"
proof -
  let ?m = "\<lambda>j who'. approved_command sv key ''queue.submit'' ''queue.submit''
         (\<lambda>_. Inr (payload_hash (sv_host sv) (job_dict j))) ''queue.local.write'' av now
         (\<lambda>a. JObj [(''approval'', a), (''job'', job_dict j)]) (submit_operation sv who' now j)"
  obtain who' j where j: "validate_job jv = Inr j" "snd (queue_submit sv jv av key who now d) = snd (?m j who' d)"
    using assms by (auto simp: queue_submit_def eff_defs split: sum.splits)
  show ?thesis
    using approved_operation_change [OF submit_op.approved_operation_axioms, where d = d] assms j by metis
qed

lemma queue_approve_change:
  assumes "snd (queue_approve sv jid av key who now d) \<noteq> d"
  shows "\<exists>row. get_proposal jid d = Inr row \<and> consumed_approval av now ''queue.approve''
    (pr_hash row) ''work.dispatch'' d (snd (queue_approve sv jid av key who now d))"
proof -
  let ?m = "\<lambda>row p who'. approved_command sv key ''queue.approve'' ''queue.approve'' (\<lambda>_. Inr (pr_hash row)) ''work.dispatch''
         av now (\<lambda>a. JObj [(''approval'', a), (''job_id'', JStr jid), (''package_hash'', JStr (pr_hash row))])
         (approve_operation sv who' now jid p (pr_hash row))"
  obtain who' row p where j: "get_proposal jid d = Inr row"
      "snd (queue_approve sv jid av key who now d) = snd (?m row p who' d)"
    using assms by (auto simp: queue_approve_def eff_defs split: sum.splits if_splits)
  show ?thesis
    using approved_operation_change [OF approve_op.approved_operation_axioms, where d = d] assms j by metis
qed

lemma policy_set_change:
  assumes "snd (policy_set sv pv av key who now d) \<noteq> d"
  shows "\<exists>p. validate_policy pv = Inr p \<and> consumed_approval av now ''policy.set''
    (payload_hash (sv_host sv) (policy_dict p)) ''policy.local.write'' d (snd (policy_set sv pv av key who now d))"
proof -
  let ?m = "\<lambda>p who'. approved_command sv key ''policy.set'' ''policy.set''
         (\<lambda>_. Inr (payload_hash (sv_host sv) (policy_dict p))) ''policy.local.write'' av now
         (\<lambda>a. JObj [(''approval'', a), (''policy'', policy_dict p)]) (policy_set_operation sv who' now p)"
  obtain who' p where j: "validate_policy pv = Inr p" "snd (policy_set sv pv av key who now d) = snd (?m p who' d)"
    using assms by (auto simp: policy_set_def eff_defs split: sum.splits)
  show ?thesis
    using approved_operation_change [OF policy_set_op.approved_operation_axioms, where d = d] assms j by metis
qed

lemma resume_change:
  assumes "snd (resume sv av key who now d) \<noteq> d"
  shows "consumed_approval av now ''resume'' (payload_hash (sv_host sv) resume_scope) ''control.local.write''
    d (snd (resume sv av key who now d))"
proof -
  let ?m = "\<lambda>who'. approved_command sv key ''resume'' ''resume'' (\<lambda>_. Inr (payload_hash (sv_host sv) resume_scope))
         ''control.local.write'' av now (\<lambda>a. JObj [(''approval'', a), (''scope'', resume_scope)])
         (resume_operation sv who' now)"
  obtain who' where j: "snd (resume sv av key who now d) = snd (?m who' d)"
    using assms by (auto simp: resume_def eff_defs split: sum.splits)
  show ?thesis
    using approved_operation_change [OF resume_op.approved_operation_axioms, where d = d] assms j by metis
qed

lemma reconcile_change:
  assumes "snd (reconcile sv av key who now d) \<noteq> d"
  shows "consumed_approval av now ''reconcile'' (payload_hash (sv_host sv)
      (reconcile_scope (reconciliation_candidates now d) (run_reconciliation_candidates now d))) ''reconcile.local''
    d (snd (reconcile sv av key who now d))"
proof -
  let ?ls = "reconciliation_candidates now d" and ?rs = "run_reconciliation_candidates now d"
  let ?m = "\<lambda>who'. approved_command sv key ''reconcile'' ''reconcile''
         (\<lambda>_. Inr (payload_hash (sv_host sv) (reconcile_scope ?ls ?rs))) ''reconcile.local'' av now
         (\<lambda>a. JObj [(''approval'', a)]) (reconcile_operation sv who' now ?ls ?rs)"
  obtain who' where j: "snd (reconcile sv av key who now d) = snd (?m who' d)"
    using assms by (auto simp: reconcile_def eff_defs split: sum.splits)
  show ?thesis
    using approved_operation_change [OF reconcile_op.approved_operation_axioms, where d = d] assms j by metis
qed


section \<open>How the controller becomes ready\<close>

definition ready :: "db \<Rightarrow> bool" where
  "ready d \<longleftrightarrow> (\<exists>c. controller_t d = Some c \<and> mode c = READY)"

text \<open>The relation of operations that do not make the controller ready.\<close>

definition not_readied :: "db \<Rightarrow> db \<Rightarrow> bool" where
  "not_readied d d' \<longleftrightarrow> (ready d' \<longrightarrow> ready d)"

interpretation readiness: command_rel not_readied
  by unfold_locales (auto simp: not_readied_def ready_def)

lemma not_readied_same: "controller_t d' = controller_t d \<Longrightarrow> not_readied d d'"
  by (simp add: not_readied_def ready_def)

lemma not_readied_set_controller:
  "m \<noteq> READY \<Longrightarrow> controller_t d' = controller_t (set_controller m r now d) \<Longrightarrow> not_readied e d'"
  by (cases "controller_t d") (auto simp: not_readied_def ready_def set_controller_def)

lemma audit_controller: "audit sv ev who det now d = Inr (i, d') \<Longrightarrow> controller_t d' = controller_t d"
  using audit_frame by fastforce

lemma audit_if_valid_controller:
  "audit_if_valid sv ev who det now d = Inr (i, d') \<Longrightarrow> controller_t d' = controller_t d"
  by (auto simp: audit_if_valid_def dest: audit_controller split: if_splits)

lemma readied_operations:
  "propose_operation sv who now p d = Inr (r, e) \<Longrightarrow> not_readied d e"
  "approve_operation sv who now jid p hash a d = Inr (r, e) \<Longrightarrow> not_readied d e"
  "submit_operation sv who now j a d = Inr (r, e) \<Longrightarrow> not_readied d e"
  "cancel_operation sv who now jid d = Inr (r, e) \<Longrightarrow> not_readied d e"
  by (auto simp: propose_operation_def approve_operation_def submit_operation_def cancel_operation_def
      insert_approval_Inr insert_job_def Let_def intro!: not_readied_same dest!: audit_controller
      split: option.splits if_splits)

lemma readied_policy_set: "policy_set_operation sv who now p a d = Inr (r, e) \<Longrightarrow> not_readied d e"
  by (auto simp: policy_set_operation_def Let_def split: option.splits
      intro!: not_readied_set_controller [of PAUSED] dest: audit_controller)

lemma readied_set_mode: "m \<noteq> READY \<Longrightarrow> set_mode_operation sv who now command m reason d = Inr (r, e) \<Longrightarrow> not_readied d e"
  by (auto simp: set_mode_operation_def intro!: not_readied_set_controller [of m] dest: audit_controller)

lemma readied_reconcile:
  assumes "reconcile_operation sv who now ls rs a d = Inr (r, e)"
  shows "not_readied d e"
proof -
  obtain d1 where d1: "insert_approval sv a d = Inr ((), d1)"
    using assms by (auto simp: reconcile_operation_def)
  obtain lids rids d2 where d2: "fence_expired False now ls rs d1 = (lids, rids, d2)"
    by (cases "fence_expired False now ls rs d1") auto
  have d: "insert_approval sv a d = Inr ((), d1)" "fence_expired False now ls rs d1 = (lids, rids, d2)"
      "controller_t e = controller_t (if lids \<noteq> [] \<or> rids \<noteq> []
                  then set_controller PAUSED (Some ''RECONCILIATION_REVIEW_REQUIRED'') now d2 else d2)"
    using assms d1 d2 by (auto simp: reconcile_operation_def Let_def dest!: audit_controller)
  have same: "controller_t d2 = controller_t d"
    using fence_expired_frame [OF d(2)] d(1) by (simp add: insert_approval_Inr)
  show ?thesis
  proof (cases "lids \<noteq> [] \<or> rids \<noteq> []")
    case True
    then show ?thesis using d(3) by (intro not_readied_set_controller [of PAUSED]) simp_all
  next
    case False
    then show ?thesis using d(3) same by (intro not_readied_same) simp
  qed
qed

lemma readied_recover:
  assumes "recover_transaction sv who now d = Inr (r, e)"
  shows "not_readied d e"
proof -
  let ?a = "fold (expire_lease True now) (reconciliation_candidates now d) ([], d)"
  let ?b = "fold (fence_run now) (run_reconciliation_candidates now (snd ?a)) ([], snd ?a)"
  have same: "controller_t (snd ?b) = controller_t d" by simp
  show ?thesis
  proof (cases "fst ?a \<noteq> [] \<or> fst ?b \<noteq> []")
    case True
    then have "controller_t e = controller_t (set_controller PAUSED (Some ''RECOVERY_REVIEW_REQUIRED'') now (snd ?b))"
      using assms by (auto simp: recover_transaction_def case_prod_beta Let_def dest!: audit_controller)
    then show ?thesis by (intro not_readied_set_controller [of PAUSED]) simp_all
  next
    case False
    then have "controller_t e = controller_t (snd ?b)"
      using assms by (auto simp: recover_transaction_def case_prod_beta Let_def)
    with same show ?thesis by (intro not_readied_same) simp
  qed
qed

lemma readied_safety_stop:
  assumes "safety_stop_transaction sv reason who now d = Inr (r, e)"
  shows "not_readied d e"
proof -
  obtain c where c: "controller_t d = Some c"
    using assms by (auto simp: safety_stop_transaction_def split: option.splits)
  show ?thesis
  proof (cases "mode c = BLOCKED \<and> controller_reason c = Some reason")
    case True
    then show ?thesis using assms c by (simp add: safety_stop_transaction_def not_readied_def)
  next
    case False
    then have "controller_t e = controller_t (set_controller BLOCKED (Some reason) now d)"
      using assms c by (auto simp: safety_stop_transaction_def dest: audit_if_valid_controller)
    then show ?thesis by (intro not_readied_set_controller [of BLOCKED]) simp_all
  qed
qed

lemma dispatch_failed_controller:
  assumes "dispatch_failed_transaction sv jid reason who now d = Inr (r, e)"
  shows "\<exists>m why. m \<noteq> READY \<and> m = (if reason = ''AUDIT_INVALID'' \<or> reason = ''DATABASE_INVALID'' then BLOCKED else PAUSED)
    \<and> controller_t e = controller_t (set_controller m why now d)"
  using assms
  by (auto simp: dispatch_failed_transaction_def Let_def set_controller_def split: option.splits
      dest!: audit_if_valid_controller)

lemma readied_dispatch_failed: "dispatch_failed_transaction sv jid reason who now d = Inr (r, e) \<Longrightarrow> not_readied d e"
  using dispatch_failed_controller not_readied_set_controller by blast

lemma readiness_queue:
  "readiness.keeps (queue_propose sv v key who now)" "readiness.keeps (queue_approve sv jid av key who now)"
  "readiness.keeps (queue_submit sv v av key who now)" "readiness.keeps (queue_cancel sv jid key who now)"
  unfolding queue_propose_def queue_approve_def queue_submit_def queue_cancel_def
  by (intro keeps_intros readiness.keeps_plain_command readiness.keeps_approved_command; rule readied_operations, assumption)+

lemma readiness_mode:
  "readiness.keeps (pause sv reason key who now)" "readiness.keeps (stop sv reason key who now)"
  unfolding pause_def stop_def set_mode_def
  by (intro keeps_intros readiness.keeps_plain_command; rule readied_set_mode [rotated], assumption, simp)+

lemma readiness_approved:
  "readiness.keeps (policy_set sv v av key who now)" "readiness.keeps (reconcile sv av key who now)"
  unfolding policy_set_def reconcile_def
  by (intro keeps_intros readiness.keeps_approved_command; rule readied_policy_set readied_reconcile, assumption)+

lemma readiness_background:
  "readiness.keeps (background_recover sv who now)"
  "readiness.keeps (background_safety_stop sv reason who now)"
  "readiness.keeps (background_dispatch_failed sv jid reason who now)"
  unfolding background_recover_def background_safety_stop_def background_dispatch_failed_def
  by (intro keeps_intros readiness.keeps_transact;
      rule readied_recover readied_safety_stop readied_dispatch_failed, assumption)+

lemma readied: "readiness.keeps m \<Longrightarrow> ready (snd (m d)) \<Longrightarrow> ready d"
  using readiness.keepsD [of m d] by (simp add: not_readied_def)

lemmas readiness_commands = readiness_queue readiness_mode readiness_approved readiness_background

text \<open>
  Only \<open>resume\<close> makes the controller ready: after proposing, approving, submitting or cancelling
  work, setting the policy, pausing, stopping, reconciling, recovering, a safety stop or a failed
  dispatch, successful or not, a controller that is ready was ready before.
\<close>

theorem only_resume_makes_ready:
  assumes "ready (snd (queue_propose sv v key who now d)) \<or> ready (snd (queue_approve sv jid av key who now d))
      \<or> ready (snd (queue_submit sv v av key who now d)) \<or> ready (snd (queue_cancel sv jid key who now d))
      \<or> ready (snd (policy_set sv v av key who now d)) \<or> ready (snd (pause sv reason key who now d))
      \<or> ready (snd (stop sv reason key who now d)) \<or> ready (snd (reconcile sv av key who now d))
      \<or> ready (snd (background_recover sv who now d)) \<or> ready (snd (background_safety_stop sv reason who now d))
      \<or> ready (snd (background_dispatch_failed sv jid reason who now d))"
  shows "ready d"
  using assms by (elim disjE) (rule readied, rule readiness_commands, assumption)+

text \<open>
  Resuming is safe: a resume that is not a replay finds a controller that is not ready, no active
  lease and no active run, and a policy decision on the stored snapshot that is eligible for the account
  the profile is bound to; it sets the mode to ready without a reason and leaves jobs, leases, runs,
  policy, snapshots and bindings alone. A resume that fails changes nothing.
\<close>

theorem resume_only_when_safe:
  assumes "resume sv av key who now d = (res, d')"
  shows "(\<forall>r. res = Inr (r, False) \<longrightarrow>
      \<not> ready d \<and> active_leases d = [] \<and> active_runs d = []
      \<and> (\<exists>p. current_policy d = Inr p \<and> bound_and_eligible (sv_config sv) (latest_snapshot d) p now None d)
      \<and> (\<exists>c. controller_t d' = Some c \<and> mode c = READY \<and> controller_reason c = None)
      \<and> jobs_t d' = jobs_t d \<and> leases_t d' = leases_t d \<and> runs_t d' = runs_t d
      \<and> policies_t d' = policies_t d \<and> snapshots_t d' = snapshots_t d \<and> bindings_t d' = bindings_t d)
    \<and> (\<forall>e. res = Inl e \<longrightarrow> d' = d)"
proof (intro conjI allI impI)
  fix r assume res: "res = Inr (r, False)"
  then obtain who' a e where op: "resume_operation sv who' now a d = Inr (r, e)" "d' = e\<lparr>idem_t := idem_t d'\<rparr>"
    using assms approved_command_run [of sv key "''resume''" "''resume''" _ "''control.local.write''" av now _ _ d r d']
    by (auto simp: resume_def eff_defs split: sum.splits) blast
  note f = idem_frame [OF op(2)]
  from op(1) obtain p dec d1 cur i d2 where o: "active_leases d = []" "active_runs d = []" "current_policy d = Inr p"
      "evaluate_current_policy (sv_config sv) (latest_snapshot d) p now None d = Inr dec" "eligible dec"
      "insert_approval sv a d = Inr ((), d1)" "current_mode d1 = Inr cur" "cur \<noteq> READY"
      "audit sv ''controller.resumed'' who'
              (JObj [(''approval_id'', JStr (approval_id a)), (''from'', JStr (mode_name cur)), (''to'', JStr ''READY'')])
              now (set_controller READY None now d1) = Inr (i, e)"
    by (auto simp: resume_operation_def)
  obtain ev where e: "e = (set_controller READY None now d1)\<lparr>audit_t := audit_t (set_controller READY None now d1) @ [ev]\<rparr>"
    using audit_frame [OF o(9)] by blast
  obtain c where c: "controller_t d = Some c" "mode c \<noteq> READY"
    using o(6-8) by (auto simp: insert_approval_Inr current_mode_def split: option.splits)
  show "\<not> ready d" using c by (simp add: ready_def)
  show "active_leases d = []" "active_runs d = []" by (fact o)+
  show "\<exists>p. current_policy d = Inr p \<and> bound_and_eligible (sv_config sv) (latest_snapshot d) p now None d"
    using o(3) evaluate_current_policy_eligible [OF o(4,5)] by blast
  show "\<exists>c. controller_t d' = Some c \<and> mode c = READY \<and> controller_reason c = None"
    using f c o(6) by (simp add: e set_controller_def insert_approval_Inr)
  show "jobs_t d' = jobs_t d" "leases_t d' = leases_t d" "runs_t d' = runs_t d" "policies_t d' = policies_t d"
    "snapshots_t d' = snapshots_t d" "bindings_t d' = bindings_t d"
    using f o(6) by (simp_all add: e set_controller_def insert_approval_Inr)
next
  fix e assume "res = Inl e"
  then show "d' = d"
    using assms approved_command_error [of sv key "''resume''" "''resume''" _ "''control.local.write''" av now _ _ d e d']
    by (auto simp: resume_def eff_defs split: sum.splits)
qed

end
