(* ===== verification/World.thy ===== *)
theory World
  imports ControlOps
begin

text \<open>
  Operations that span several transactions. Between two of its steps any other process (a second
  command, the operator, the monitor) may commit; \<open>we_others\<close> gives what it commits before the n-th
  step, \<open>we_clock\<close> the n-th reading of the clock, \<open>we_hex\<close> the digits of the n-th fresh identifier,
  \<open>we_probe\<close> the answer of the App Server to the n-th quota probe and \<open>we_shutdown\<close> whether the
  process has been asked to stop, \<open>we_check\<close> what SQLite's \<open>PRAGMA quick_check\<close> answers. Nothing
  is assumed about any of them.
\<close>

record wenv =
  we_svc :: svc
  we_others :: "nat \<Rightarrow> db \<Rightarrow> db"
  we_clock :: "nat \<Rightarrow> rat"
  we_hex :: "nat \<Rightarrow> string"
  we_probe :: "nat \<Rightarrow> json res"
  we_shutdown :: "nat \<Rightarrow> bool"
  we_check :: "nat \<Rightarrow> string list"

record wst =
  w_db :: db
  w_step :: nat
  w_checks :: nat

section \<open>Steps\<close>

text \<open>One step of another kind: time passes, the database stays.\<close>

definition wobserve :: "(nat \<Rightarrow> 'a res) \<Rightarrow> (wst, 'a) eff" where
  "wobserve f s = (f (w_step s), s\<lparr>w_step := Suc (w_step s)\<rparr>)"

definition wclock :: "wenv \<Rightarrow> (wst, rat) eff" where
  "wclock env = wobserve (\<lambda>n. Inr (we_clock env n))"

definition wid :: "wenv \<Rightarrow> string \<Rightarrow> (wst, string) eff" where
  "wid env prefix = wobserve (\<lambda>n. Inr (new_id prefix (we_hex env n)))"

text \<open>An operation on the database, after whatever the others commit first.\<close>

definition wdb :: "wenv \<Rightarrow> (db, 'a) eff \<Rightarrow> (wst, 'a) eff" where
  "wdb env m s =
     (case m (we_others env (w_step s) (w_db s)) of
        (r, d') \<Rightarrow> (r, s\<lparr>w_db := d', w_step := Suc (w_step s)\<rparr>))"

definition wtx :: "wenv \<Rightarrow> (db \<Rightarrow> ('a \<times> db) res) \<Rightarrow> (wst, 'a) eff" where
  "wtx env body = wdb env (transact body)"

definition wread :: "wenv \<Rightarrow> (db \<Rightarrow> 'a res) \<Rightarrow> (wst, 'a) eff" where
  "wread env f = wdb env (eread f)"

text \<open>\<open>Store.integrity\<close>: the messages of the check, none when it answered ok.\<close>

definition check_passed :: "string list \<Rightarrow> bool" where
  "check_passed messages \<longleftrightarrow> messages = [''ok'']"

definition integrity :: "wenv \<Rightarrow> (wst, string list) eff" where
  "integrity env = wobserve (\<lambda>n. Inr (we_check env n))"

definition integrity_dict :: "string list \<Rightarrow> json" where
  "integrity_dict messages = JObj
     [(''messages'', JArr (map JStr (if check_passed messages then [] else messages))),
      (''valid'', JBool (check_passed messages))]"

lemmas wstep_defs = wobserve_def wclock_def wid_def integrity_def wdb_def wtx_def wread_def

section \<open>Relations on the database carried through steps\<close>

text \<open>
  The interface of what the other processes and an operation's transactions preserve: a relation on
  databases that is a step relation and that the others respect. Its lemmas lift the relation to the
  operations of this theory, so that a property of a composed operation needs only its transactions.
\<close>

locale db_rel = step_rel R K for R :: "db \<Rightarrow> db \<Rightarrow> bool" and K :: "db \<Rightarrow> bool" +
  fixes env :: wenv
  assumes others: "K d \<Longrightarrow> R d (we_others env n d)"

sublocale db_rel \<subseteq> lifted: step_rel "\<lambda>s (t :: wst). R (w_db (s :: wst)) (w_db t)" "\<lambda>s :: wst. K (w_db s)"
  by unfold_locales (auto intro: refl trans K_step)

context db_rel begin

lemma lifted_wobserve [keeps_intros]: "lifted.keeps (wobserve f)"
  by (simp add: lifted.keeps_def wobserve_def refl)

lemma lifted_wclock [keeps_intros]: "lifted.keeps (wclock env)"
  unfolding wclock_def by (rule lifted_wobserve)

lemma lifted_wid [keeps_intros]: "lifted.keeps (wid env p)"
  unfolding wid_def by (rule lifted_wobserve)

lemma lifted_integrity [keeps_intros]: "lifted.keeps (integrity env)"
  unfolding integrity_def by (rule lifted_wobserve)

lemma lifted_wdb [keeps_intros]:
  assumes "keeps m"
  shows "lifted.keeps (wdb env m)"
proof (rule lifted.keepsI)
  fix s :: wst assume K: "K (w_db s)"
  let ?d = "we_others env (w_step s) (w_db s)"
  have o: "R (w_db s) ?d" by (rule others [OF K])
  then have "R ?d (snd (m ?d))"
    using keepsD [OF assms] K_step [OF K] by blast
  with o show "R (w_db s) (w_db (snd (wdb env m s)))"
    by (auto simp: wdb_def split: prod.splits intro: trans)
qed

lemma lifted_wread [keeps_intros]: "lifted.keeps (wread env f)"
  unfolding wread_def by (intro lifted_wdb keeps_eread)

lemma lifted_wtx:
  "(\<And>d x e. K d \<Longrightarrow> body d = Inr (x, e) \<Longrightarrow> R d e) \<Longrightarrow> lifted.keeps (wtx env body)"
  unfolding wtx_def by (intro lifted_wdb keeps_transact)

end

end
