(* ===== verification/Probing.thy ===== *)
theory Probing
  imports World
begin

text \<open>
  service.py, \<open>probe_quota\<close>: one observation of the account's quota. The App Server's answer is
  validated, must belong to the configured profile, to the account the profile is bound to (the first
  observation binds it) and to the limit bucket and plan seen before; it is then stored under its
  digest. The lemmas show that a binding never changes its identity and that what was observed is what
  the policy and the guard read back.
\<close>

section \<open>Comparing with a stored snapshot\<close>

text \<open>
  The previous snapshot is read as stored, it may predate the current schema: a missing key raises
  KeyError, and comparing a float with anything but a number raises TypeError.
\<close>

fun json_less :: "json \<Rightarrow> rat \<Rightarrow> bool res" where
  "json_less (JInt n) q = Inr (of_int n < q)"
| "json_less (JBool b) q = Inr ((if b then 1 else 0) < q)"
| "json_less (JFlt (Fin p)) q = Inr (p < q)"
| "json_less (JFlt PosInf) q = Inr False"
| "json_less (JFlt NegInf) q = Inr True"
| "json_less (JFlt NaN) q = Inr False"
| "json_less _ q = Inl (PyExc ''TypeError'')"

fun json_greater :: "json \<Rightarrow> rat \<Rightarrow> bool res" where
  "json_greater (JInt n) q = Inr (q < of_int n)"
| "json_greater (JBool b) q = Inr (q < (if b then 1 else 0))"
| "json_greater (JFlt (Fin p)) q = Inr (q < p)"
| "json_greater (JFlt PosInf) q = Inr True"
| "json_greater (JFlt NegInf) q = Inr False"
| "json_greater (JFlt NaN) q = Inr False"
| "json_greater _ q = Inl (PyExc ''TypeError'')"

fun subscript :: "json \<Rightarrow> string \<Rightarrow> json res" where
  "subscript (JObj fs) k = jindex fs k"
| "subscript _ k = Inl (PyExc ''TypeError'')"

text \<open>The test of one window: the reset time advanced and the usage fell; \<open>and\<close> stops early.\<close>

definition window_was_reset :: "json \<Rightarrow> string \<Rightarrow> window \<Rightarrow> bool res" where
  "window_was_reset previous name w =
     rbind (subscript previous name) (\<lambda>pw.
     rbind (subscript pw ''resets_at'') (\<lambda>pr.
     rbind (json_less pr (resets_at w)) (\<lambda>advanced.
       if \<not> advanced then Inr False
       else rbind (subscript pw ''used_percent'') (\<lambda>pu. json_greater pu (used_percent w)))))"

definition reset_windows :: "json option \<Rightarrow> snapshot \<Rightarrow> string list res" where
  "reset_windows previous s =
     (case previous of
        None \<Rightarrow> Inr []
      | Some p \<Rightarrow>
          rbind (window_was_reset p ''five_hour'' (five_hour s)) (\<lambda>fh.
          rbind (window_was_reset p ''weekly'' (weekly s)) (\<lambda>wk.
            Inr ((if fh then [''five_hour''] else []) @ (if wk then [''weekly''] else [])))))"

definition plan_changed :: "json \<Rightarrow> string option \<Rightarrow> bool" where
  "plan_changed previous_plan plan \<longleftrightarrow> previous_plan \<noteq> JNull \<and> plan \<noteq> None \<and> previous_plan \<noteq> opt_str plan"

text \<open>The checks against the previous snapshot.\<close>

definition check_previous :: "json option \<Rightarrow> snapshot \<Rightarrow> unit res" where
  "check_previous previous s =
     (case previous of
        None \<Rightarrow> Inr ()
      | Some p \<Rightarrow>
          rbind (subscript p ''limit_id'') (\<lambda>limit.
          rbind (guard (limit = JStr (limit_id s)) ''PROFILE_MISMATCH'') (\<lambda>_.
          guard (\<not> plan_changed (jgetn (obj_fields p) ''plan_type'') (plan_type s)) ''PROFILE_MISMATCH'')))"

section \<open>The account binding\<close>

definition binding_matches :: "binding_row \<Rightarrow> snapshot \<Rightarrow> bool" where
  "binding_matches b s \<longleftrightarrow>
     bind_fingerprint b = account_fingerprint s \<and> bind_account_type b = account_type s
     \<and> \<not> (bind_plan b \<noteq> None \<and> plan_type s \<noteq> None \<and> bind_plan b \<noteq> plan_type s)"

definition new_binding :: "snapshot \<Rightarrow> binding_row" where
  "new_binding s = \<lparr>bind_profile = profile_key s, bind_fingerprint = account_fingerprint s,
     bind_account_type = account_type s, bind_plan = plan_type s, bind_first = observed_at s,
     bind_last = observed_at s\<rparr>"

definition bind_account :: "config \<Rightarrow> snapshot \<Rightarrow> db \<Rightarrow> (bool \<times> db) res" where
  "bind_account cfg s d =
     (case account_binding (cfg_profile_key cfg) d of
        None \<Rightarrow> Inr (True, d\<lparr>bindings_t := bindings_t d @ [new_binding s]\<rparr>)
      | Some b \<Rightarrow>
          if \<not> binding_matches b s then Inl (Sched ''PROFILE_MISMATCH'')
          else Inr (False, d\<lparr>bindings_t := update_where (\<lambda>r. bind_profile r = profile_key s)
                     (\<lambda>r. r\<lparr>bind_last := observed_at s\<rparr>) (bindings_t d)\<rparr>))"

definition insert_snapshot :: "svc \<Rightarrow> string \<Rightarrow> snapshot \<Rightarrow> db \<Rightarrow> (unit \<times> db) res" where
  "insert_snapshot sv snapshot_id s d =
     (let digest = payload_hash (sv_host sv) (snapshot_dict s) in
      if snapshot_id \<in> set (map snap_id (snapshots_t d)) \<or> digest \<in> set (map snap_hash (snapshots_t d))
      then Inl (PyExc ''IntegrityError'')
      else Inr ((), d\<lparr>snapshots_t := snapshots_t d @
             [\<lparr>snap_id = snapshot_id, snap_observed_at = observed_at s, snap_json = snapshot_dict s,
               snap_hash = digest\<rparr>]\<rparr>))"

text \<open>The operation that \<open>probe_quota\<close> runs under its idempotency key.\<close>

definition probe_operation :: "svc \<Rightarrow> string \<Rightarrow> rat \<Rightarrow> string \<Rightarrow> snapshot \<Rightarrow> db \<Rightarrow> (json \<times> db) res" where
  "probe_operation sv who now snapshot_id s d =
     (let previous = latest_snapshot d; digest = payload_hash (sv_host sv) (snapshot_dict s) in
      rbind (bind_account (sv_config sv) s d) (\<lambda>(created, d1).
      rbind (check_previous previous s) (\<lambda>_.
      rbind (reset_windows previous s) (\<lambda>resets.
      rbind (insert_snapshot sv snapshot_id s d1) (\<lambda>(_, d2).
      rbind (audit sv ''quota.observed'' who
               (JObj [(''account_binding_created'', JBool created), (''limit_id'', JStr (limit_id s)),
                      (''reset_windows'', JArr (map JStr resets)), (''snapshot_hash'', JStr digest)]) now d2)
        (\<lambda>(event_id, d3).
      Inr (JObj [(''audit_event_id'', JStr event_id),
                 (''account_binding'', JObj [(''account_type'', JStr (account_type s)), (''bound'', JBool True),
                    (''fingerprint_prefix'', JStr (take 12 (account_fingerprint s)))]),
                 (''outbound_methods'', JArr (map JStr APP_SERVER_OUTBOUND_ALLOWLIST)),
                 (''reset_windows'', JArr (map JStr resets)), (''snapshot'', snapshot_dict s),
                 (''snapshot_id'', JStr snapshot_id)], d3)))))))"

definition probe_request :: "svc \<Rightarrow> json" where
  "probe_request sv = JObj [(''limit_id'', JStr (cfg_limit_id (sv_config sv))),
     (''profile_key'', JStr (cfg_profile_key (sv_config sv)))]"

text \<open>What the App Server answered, validated and of the configured profile.\<close>

definition accept_probe :: "config \<Rightarrow> json res \<Rightarrow> snapshot res" where
  "accept_probe cfg answer =
     rbind answer (\<lambda>v.
     rbind (validate_snapshot v) (\<lambda>s.
     rbind (ensure_profile s (cfg_profile_key cfg) (cfg_limit_id cfg)) (\<lambda>_. Inr s)))"

definition probe_quota :: "wenv \<Rightarrow> string \<Rightarrow> string \<Rightarrow> (wst, command_result) eff" where
  "probe_quota env key who =
     (let sv = we_svc env in
      ethen (elift (require_capability sv ''quota.read''))
     (ebind (elift (valid_actor who)) (\<lambda>who'.
      ebind (wclock env) (\<lambda>started_at.
      ebind (wread env (replay_idempotent (sv_host sv) key ''probe'' (probe_request sv))) (\<lambda>replay.
        case replay of
          Some r \<Rightarrow> eret (r, True)
        | None \<Rightarrow>
            ebind (wobserve (\<lambda>n. accept_probe (sv_config sv) (we_probe env n))) (\<lambda>s.
            ebind (wid env ''qta'') (\<lambda>snapshot_id.
            ebind (wclock env) (\<lambda>now.
            wtx env (execute_idempotent (sv_host sv) key ''probe'' (probe_request sv) started_at
                       (probe_operation sv who' now snapshot_id s))))))))))"

section \<open>Bindings keep their identity\<close>

text \<open>No profile that is bound is ever bound to another account, and no binding is lost.\<close>

definition same_identity :: "binding_row \<Rightarrow> binding_row \<Rightarrow> bool" where
  "same_identity b b' \<longleftrightarrow> bind_profile b' = bind_profile b \<and> bind_fingerprint b' = bind_fingerprint b
     \<and> bind_account_type b' = bind_account_type b \<and> bind_plan b' = bind_plan b \<and> bind_first b' = bind_first b"

definition bindings_kept :: "db \<Rightarrow> db \<Rightarrow> bool" where
  "bindings_kept d d' \<longleftrightarrow>
     (\<forall>p b. account_binding p d = Some b \<longrightarrow> (\<exists>b'. account_binding p d' = Some b' \<and> same_identity b b'))"

text \<open>Stored snapshots stay where they are, under the same digest.\<close>

definition snapshots_kept :: "db \<Rightarrow> db \<Rightarrow> bool" where
  "snapshots_kept d d' \<longleftrightarrow> (\<exists>new. snapshots_t d' = snapshots_t d @ new)"

definition observations_kept :: "db \<Rightarrow> db \<Rightarrow> bool" where
  "observations_kept d d' \<longleftrightarrow> bindings_kept d d' \<and> snapshots_kept d d'"

lemma same_identity_refl [simp]: "same_identity b b"
  by (simp add: same_identity_def)

lemma same_identity_trans: "same_identity a b \<Longrightarrow> same_identity b c \<Longrightarrow> same_identity a c"
  by (simp add: same_identity_def)

interpretation observation: step_rel observations_kept "\<lambda>_. True"
proof unfold_locales
  fix s show "observations_kept s s"
    by (auto simp: observations_kept_def bindings_kept_def snapshots_kept_def)
next
  fix s t u assume st: "observations_kept s t" and tu: "observations_kept t u"
  have "bindings_kept s u"
    using st tu by (meson bindings_kept_def observations_kept_def same_identity_trans)
  moreover have "snapshots_kept s u"
    using st tu by (auto simp: observations_kept_def snapshots_kept_def)
  ultimately show "observations_kept s u" by (simp add: observations_kept_def)
qed auto

lemma find_append: "find P (xs @ ys) = (case find P xs of Some x \<Rightarrow> Some x | None \<Rightarrow> find P ys)"
  by (induction xs) auto

lemma find_map_same_key:
  "(\<And>r. k (f r) = k r) \<Longrightarrow> find (\<lambda>r. k r = x) (map f rows) = map_option f (find (\<lambda>r. k r = x) rows)"
  by (induction rows) auto

lemma bind_account_kept: "bind_account cfg s d = Inr (c, d') \<Longrightarrow> bindings_kept d d'"
  by (auto simp: bind_account_def bindings_kept_def account_binding_def fetchone_def find_append
      update_where_def find_map_same_key same_identity_def split: option.splits if_splits)

lemma bind_account_frame: "bind_account cfg s d = Inr (c, d') \<Longrightarrow> d' = d\<lparr>bindings_t := bindings_t d'\<rparr>"
  by (auto simp: bind_account_def split: option.splits if_splits)

lemma probe_operation_Inr:
  assumes "probe_operation sv who now i s d = Inr (r, d')"
  shows "\<exists>c d1 ev. bind_account (sv_config sv) s d = Inr (c, d1)
    \<and> check_previous (latest_snapshot d) s = Inr ()
    \<and> i \<notin> set (map snap_id (snapshots_t d))
    \<and> payload_hash (sv_host sv) (snapshot_dict s) \<notin> set (map snap_hash (snapshots_t d))
    \<and> d' = d1\<lparr>snapshots_t := snapshots_t d @ [\<lparr>snap_id = i, snap_observed_at = observed_at s,
               snap_json = snapshot_dict s, snap_hash = payload_hash (sv_host sv) (snapshot_dict s)\<rparr>],
              audit_t := audit_t d @ [ev]\<rparr>"
proof -
  obtain c d1 where d1: "bind_account (sv_config sv) s d = Inr (c, d1)"
    using assms by (auto simp: probe_operation_def Let_def)
  have f: "snapshots_t d1 = snapshots_t d" "audit_t d1 = audit_t d"
    using bind_account_frame [OF d1] by (metis (no_types) db.ext_inject db.surjective db.update_convs(4))+
  from assms d1 f show ?thesis
    by (auto simp: probe_operation_def Let_def insert_snapshot_def dest!: audit_frame split: if_splits)
qed

lemma probe_operation_kept:
  assumes "probe_operation sv who now i s d = Inr (r, d')"
  shows "observations_kept d d'"
  using probe_operation_Inr [OF assms] bind_account_kept
  by (fastforce simp: observations_kept_def snapshots_kept_def bindings_kept_def account_binding_def)

section \<open>What a probe establishes\<close>

lemma accept_probe_profile: "accept_probe cfg a = Inr s \<Longrightarrow> profile_key s = cfg_profile_key cfg \<and> snapshot_ok s"
  by (auto simp: accept_probe_def ensure_profile_def Let_def dest: validate_snapshot_ok)

lemma fetchone_snoc: "\<forall>x \<in> set xs. \<not> P x \<Longrightarrow> P r \<Longrightarrow> fetchone P (xs @ [r]) = Some r"
  by (simp add: fetchone_def find_append find_None_iff [THEN iffD2])

lemma probe_operation_observed:
  assumes "probe_operation sv who now i s d = Inr (r, d')" and "profile_key s = cfg_profile_key (sv_config sv)"
  shows "(\<exists>b. account_binding (cfg_profile_key (sv_config sv)) d' = Some b
            \<and> bind_fingerprint b = account_fingerprint s \<and> bind_account_type b = account_type s)
    \<and> quota_snapshot_by_hash (payload_hash (sv_host sv) (snapshot_dict s)) d' = Some (snapshot_dict s)"
proof -
  obtain c d1 ev where o: "bind_account (sv_config sv) s d = Inr (c, d1)"
      "payload_hash (sv_host sv) (snapshot_dict s) \<notin> set (map snap_hash (snapshots_t d))"
      "d' = d1\<lparr>snapshots_t := snapshots_t d @ [\<lparr>snap_id = i, snap_observed_at = observed_at s,
               snap_json = snapshot_dict s, snap_hash = payload_hash (sv_host sv) (snapshot_dict s)\<rparr>],
              audit_t := audit_t d @ [ev]\<rparr>"
    using probe_operation_Inr [OF assms(1)] by blast
  have "\<exists>b. account_binding (cfg_profile_key (sv_config sv)) d1 = Some b
            \<and> bind_fingerprint b = account_fingerprint s \<and> bind_account_type b = account_type s"
    using o(1) assms(2)
    by (auto simp: bind_account_def binding_matches_def account_binding_def fetchone_def find_append new_binding_def
        update_where_def find_map_same_key split: option.splits if_splits)
  moreover have "quota_snapshot_by_hash (payload_hash (sv_host sv) (snapshot_dict s)) d' = Some (snapshot_dict s)"
  proof -
    have "fetchone (\<lambda>r. snap_hash r = payload_hash (sv_host sv) (snapshot_dict s)) (snapshots_t d')
        = Some \<lparr>snap_id = i, snap_observed_at = observed_at s, snap_json = snapshot_dict s,
               snap_hash = payload_hash (sv_host sv) (snapshot_dict s)\<rparr>"
      using o(2) by (simp add: o(3), intro fetchone_snoc) (fastforce simp: image_iff)+
    then show ?thesis by (simp add: quota_snapshot_by_hash_def)
  qed
  ultimately show ?thesis
    unfolding o(3) by (simp add: account_binding_def)
qed

lemma execute_probe_kept:
  assumes "execute_idempotent h key command request now (probe_operation sv who n i s) d = Inr (x, d')"
  shows "observations_kept d d'"
proof -
  obtain r replayed where x: "x = (r, replayed)" by fastforce
  show ?thesis
  proof (cases replayed)
    case True
    then have "d' = d" using execute_idempotent_fresh [OF assms [unfolded x]] by simp
    then show ?thesis using observation.refl by simp
  next
    case False
    then obtain e where e: "probe_operation sv who n i s d = Inr (r, e)" "d' = e\<lparr>idem_t := idem_t d'\<rparr>"
      using execute_idempotent_fresh [OF assms [unfolded x]] by blast
    then show ?thesis
      using probe_operation_kept [OF e(1)] idem_frame [OF e(2)]
      by (simp add: observations_kept_def bindings_kept_def snapshots_kept_def account_binding_def)
  qed
qed

text \<open>The interface of the other processes: they never rebind an account or drop a snapshot.\<close>

locale honest_others = others: db_rel observations_kept "\<lambda>_. True" env for env
begin

lemma probe_quota_kept: "others.lifted.keeps (probe_quota env key who)"
  unfolding probe_quota_def Let_def
  by (intro keeps_intros others.lifted_wtx) (rule execute_probe_kept)

lemma probe_quota_observations: "observations_kept (w_db s) (w_db (snd (probe_quota env key who s)))"
  by (rule others.lifted.keepsD [OF probe_quota_kept]) simp

end

lemma honest_othersI: "(\<And>n d. observations_kept d (we_others env n d)) \<Longrightarrow> honest_others env"
  by unfold_locales auto

text \<open>
  A probe observes the bound account. Whatever a probe returns and however it fails, no binding of a
  profile changes its account or plan, and no stored snapshot is lost. When it observes (a success that
  is not a replay), the App Server's answer was a valid snapshot of the configured profile, the profile
  is then bound to exactly the account of that snapshot, and the snapshot is found under its digest.
\<close>

theorem probe_quota_observes_bound_account:
  assumes "\<And>n d. observations_kept d (we_others env n d)"
    and "probe_quota env key who s = (res, s')"
  shows "observations_kept (w_db s) (w_db s')
    \<and> (\<forall>r. res = Inr (r, False) \<longrightarrow>
        (\<exists>n x b. accept_probe (sv_config (we_svc env)) (we_probe env n) = Inr x
          \<and> account_binding (cfg_profile_key (sv_config (we_svc env))) (w_db s') = Some b
          \<and> bind_fingerprint b = account_fingerprint x \<and> bind_account_type b = account_type x
          \<and> quota_snapshot_by_hash (payload_hash (sv_host (we_svc env)) (snapshot_dict x)) (w_db s')
              = Some (snapshot_dict x)))"
proof (intro conjI allI impI)
  show "observations_kept (w_db s) (w_db s')"
    using honest_others.probe_quota_observations [OF honest_othersI [OF assms(1)], of s key who] assms(2)
    by simp
next
  fix r assume "res = Inr (r, False)"
  then obtain who' n i t now started m e where
      a: "accept_probe (sv_config (we_svc env)) (we_probe env n) = Inr m"
    and t: "execute_idempotent (sv_host (we_svc env)) key ''probe'' (probe_request (we_svc env)) started
              (probe_operation (we_svc env) who' now i m) t = Inr ((r, False), w_db s')"
    using assms(2)
    by (auto simp: probe_quota_def Let_def wstep_defs eff_defs split: sum.splits prod.splits option.splits)
  obtain e where e: "probe_operation (we_svc env) who' now i m t = Inr (r, e)" "w_db s' = e\<lparr>idem_t := idem_t (w_db s')\<rparr>"
    using execute_idempotent_run [OF t] by blast
  have "account_binding p (w_db s') = account_binding p e" "quota_snapshot_by_hash x (w_db s') = quota_snapshot_by_hash x e" for p x
    using idem_frame [OF e(2)] by (simp_all add: account_binding_def quota_snapshot_by_hash_def)
  with probe_operation_observed [OF e(1)] accept_probe_profile [OF a] a
  show "\<exists>n x b. accept_probe (sv_config (we_svc env)) (we_probe env n) = Inr x
          \<and> account_binding (cfg_profile_key (sv_config (we_svc env))) (w_db s') = Some b
          \<and> bind_fingerprint b = account_fingerprint x \<and> bind_account_type b = account_type x
          \<and> quota_snapshot_by_hash (payload_hash (sv_host (we_svc env)) (snapshot_dict x)) (w_db s')
              = Some (snapshot_dict x)"
    by metis
qed

end
