(* ===== verification/Peers.thy ===== *)
theory Peers
  imports Probing
begin

text \<open>
  What another process can commit between two steps of a long operation: one of the controller's own
  commands. \<open>peer_step\<close> runs one; the lemmas show what every such command leaves alone, which
  discharges what the long operations ask of their environment.
\<close>

datatype peer =
    P_idle
  | P_propose json string string rat
  | P_approve string json string string rat
  | P_submit json json string string rat
  | P_cancel string string string rat
  | P_policy_set json json string string rat
  | P_pause string string string rat
  | P_stop string string string rat
  | P_resume json string string rat
  | P_reconcile json string string rat
  | P_recover string rat
  | P_safety_stop string string rat
  | P_dispatch_failed string string string rat

fun peer_step :: "svc \<Rightarrow> peer \<Rightarrow> db \<Rightarrow> db" where
  "peer_step sv P_idle d = d"
| "peer_step sv (P_propose v key who now) d = snd (queue_propose sv v key who now d)"
| "peer_step sv (P_approve jid av key who now) d = snd (queue_approve sv jid av key who now d)"
| "peer_step sv (P_submit v av key who now) d = snd (queue_submit sv v av key who now d)"
| "peer_step sv (P_cancel jid key who now) d = snd (queue_cancel sv jid key who now d)"
| "peer_step sv (P_policy_set v av key who now) d = snd (policy_set sv v av key who now d)"
| "peer_step sv (P_pause reason key who now) d = snd (pause sv reason key who now d)"
| "peer_step sv (P_stop reason key who now) d = snd (stop sv reason key who now d)"
| "peer_step sv (P_resume av key who now) d = snd (resume sv av key who now d)"
| "peer_step sv (P_reconcile av key who now) d = snd (reconcile sv av key who now d)"
| "peer_step sv (P_recover who now) d = snd (background_recover sv who now d)"
| "peer_step sv (P_safety_stop reason who now) d = snd (background_safety_stop sv reason who now d)"
| "peer_step sv (P_dispatch_failed jid reason who now) d = snd (background_dispatch_failed sv jid reason who now d)"

text \<open>A world whose other processes run the n-th command of a schedule before the n-th step.\<close>

definition with_peers :: "wenv \<Rightarrow> (nat \<Rightarrow> peer) \<Rightarrow> wenv" where
  "with_peers env sched = env\<lparr>we_others := (\<lambda>n. peer_step (we_svc env) (sched n))\<rparr>"

section \<open>What a command leaves alone\<close>

text \<open>A lease or a run is only ever fenced by another command: it goes from active to expired or review.\<close>

definition lease_expired_at_most :: "lease_row \<Rightarrow> lease_row \<Rightarrow> bool" where
  "lease_expired_at_most r r' \<longleftrightarrow>
     ls_id r' = ls_id r \<and> ls_job r' = ls_job r
     \<and> (r' = r \<or> ls_state r = lease_active \<and> ls_state r' = lease_expired)"

definition run_fenced_at_most :: "run_row \<Rightarrow> run_row \<Rightarrow> bool" where
  "run_fenced_at_most r r' \<longleftrightarrow>
     rn_id r' = rn_id r \<and> rn_job r' = rn_job r \<and> rn_lease_owner r' = rn_lease_owner r
     \<and> (r' = r \<or> rn_state r \<in> {run_starting, run_running} \<and> rn_state r' = run_needs_review)"

definition command_frame :: "db \<Rightarrow> db \<Rightarrow> bool" where
  "command_frame d d' \<longleftrightarrow>
     bindings_t d' = bindings_t d \<and> snapshots_t d' = snapshots_t d \<and> sessions_t d' = sessions_t d
     \<and> targets_t d' = targets_t d \<and> service_lease_t d' = service_lease_t d
     \<and> notifications_t d' = notifications_t d
     \<and> list_all2 run_fenced_at_most (runs_t d) (runs_t d')
     \<and> list_all2 lease_expired_at_most (leases_t d) (leases_t d')"

lemma lease_expired_refl [simp]: "lease_expired_at_most r r"
  by (simp add: lease_expired_at_most_def)

lemma leases_expired_refl [simp]: "list_all2 lease_expired_at_most rs rs"
  by (simp add: list.rel_refl)

lemma lease_expired_trans: "lease_expired_at_most a b \<Longrightarrow> lease_expired_at_most b c \<Longrightarrow> lease_expired_at_most a c"
  by (auto simp: lease_expired_at_most_def)

lemma run_fenced_refl [simp]: "run_fenced_at_most r r"
  by (simp add: run_fenced_at_most_def)

lemma runs_fenced_refl [simp]: "list_all2 run_fenced_at_most rs rs"
  by (simp add: list.rel_refl)

lemma run_fenced_trans: "run_fenced_at_most a b \<Longrightarrow> run_fenced_at_most b c \<Longrightarrow> run_fenced_at_most a c"
  by (auto simp: run_fenced_at_most_def)

interpretation framed: command_rel command_frame
proof unfold_locales
  fix s t u assume "command_frame s t" and "command_frame t u"
  then show "command_frame s u"
    by (auto simp: command_frame_def intro: list_all2_trans [OF run_fenced_trans] list_all2_trans [OF lease_expired_trans])
qed (auto simp: command_frame_def)

lemma command_frame_tables:
  "command_frame d d' \<Longrightarrow> runs_t e = runs_t d' \<Longrightarrow> leases_t e = leases_t d' \<Longrightarrow> bindings_t e = bindings_t d' \<Longrightarrow> snapshots_t e = snapshots_t d'
   \<Longrightarrow> sessions_t e = sessions_t d' \<Longrightarrow> targets_t e = targets_t d' \<Longrightarrow> service_lease_t e = service_lease_t d'
   \<Longrightarrow> notifications_t e = notifications_t d' \<Longrightarrow> command_frame d e"
  by (simp add: command_frame_def)

lemma framed_audit: "audit sv ev who det now d = Inr (i, d') \<Longrightarrow> command_frame e d \<Longrightarrow> command_frame e d'"
  by (auto dest!: audit_frame intro: command_frame_tables)

lemma framed_audit_if_valid: "audit_if_valid sv ev who det now d = Inr (i, d') \<Longrightarrow> command_frame e d \<Longrightarrow> command_frame e d'"
  by (auto simp: audit_if_valid_def dest: framed_audit split: if_splits)

lemma framed_writes [simp]:
  "command_frame e (set_controller m r now d) \<longleftrightarrow> command_frame e d"
  "command_frame e (set_job_state j st now d) \<longleftrightarrow> command_frame e d"
  "command_frame e (d\<lparr>jobs_t := js\<rparr>) \<longleftrightarrow> command_frame e d"
  "command_frame e (d\<lparr>proposals_t := ps\<rparr>) \<longleftrightarrow> command_frame e d"
  "command_frame e (d\<lparr>approvals_t := as\<rparr>) \<longleftrightarrow> command_frame e d"
  "command_frame e (d\<lparr>policies_t := pol\<rparr>) \<longleftrightarrow> command_frame e d"
  "command_frame d d"
  by (simp_all add: command_frame_def set_controller_def set_job_state_def)

lemma framed_expire_lease:
  assumes "command_frame e (snd acc)"
  shows "command_frame e (snd (expire_lease b now c acc))"
proof (rule framed.trans [OF assms])
  obtain ids d where acc: "acc = (ids, d)" by fastforce
  have "list_all2 lease_expired_at_most (leases_t d)
     (update_where (\<lambda>r. ls_id r = ls_id c \<and> lease_expired_at now r)
        (\<lambda>r. r\<lparr>ls_state := lease_expired, ls_completed := (if b then Some now else ls_completed r)\<rparr>) (leases_t d))"
    unfolding update_where_def list_all2_map2
    by (rule list.rel_refl) (simp add: lease_expired_at_most_def lease_expired_at_def)
  then show "command_frame (snd acc) (snd (expire_lease b now c acc))"
    by (simp add: acc expire_lease_def Let_def command_frame_def set_job_state_def)
qed

lemma framed_fence_run:
  assumes "command_frame e (snd acc)"
  shows "command_frame e (snd (fence_run now c acc))"
proof (rule framed.trans [OF assms])
  obtain ids d where acc: "acc = (ids, d)" by fastforce
  have "list_all2 run_fenced_at_most (runs_t d)
     (update_where (\<lambda>r. rn_id r = rn_id c \<and> run_expired_at now r)
        (\<lambda>r. r\<lparr>rn_state := run_needs_review, rn_updated := now, rn_completed := Some now,
               rn_stop_reason := Some ''LEASE_EXPIRED''\<rparr>) (runs_t d))"
    unfolding update_where_def list_all2_map2
    by (rule list.rel_refl) (simp add: run_fenced_at_most_def run_expired_at_def)
  then show "command_frame (snd acc) (snd (fence_run now c acc))"
    by (simp add: acc fence_run_def Let_def command_frame_def set_job_state_def split: option.split)
qed

lemma framed_fold: "(\<And>c acc. P (snd acc) \<Longrightarrow> P (snd (f c acc))) \<Longrightarrow> P (snd acc) \<Longrightarrow> P (snd (fold f cs acc))"
  by (induction cs arbitrary: acc) auto

lemma framed_fences:
  "command_frame e d \<Longrightarrow> command_frame e (snd (fold (expire_lease b now) cs (ids, d)))"
  "command_frame e d \<Longrightarrow> command_frame e (snd (fold (fence_run now) rs (ids, d)))"
  by (rule framed_fold, erule framed_expire_lease framed_fence_run, simp)+

lemma framed_fence_expired:
  assumes "fence_expired b now ls rs d = (lids, rids, d')" and "command_frame e d"
  shows "command_frame e d'"
proof -
  have "d' = snd (fold (fence_run now) rs ([], snd (fold (expire_lease b now) ls ([], d))))"
    using assms(1) by (simp add: fence_expired_def case_prod_beta Let_def)
  then show ?thesis
    using framed_fences(2) [OF framed_fences(1) [OF assms(2)]] by simp
qed

lemma framed_insert_approval: "insert_approval sv a d = Inr (u, d') \<Longrightarrow> command_frame d d'"
  by (auto simp: insert_approval_Inr)

lemma framed_recover:
  assumes "recover_transaction sv who now d = Inr (r, e)"
  shows "command_frame d e"
proof -
  have "command_frame d (snd (fold (fence_run now) rs ([], snd (fold (expire_lease True now) ls ([], d)))))" for ls rs
    by (intro framed_fences) simp
  with assms show ?thesis
    by (auto simp: recover_transaction_def case_prod_beta Let_def dest!: framed_audit split: if_splits)
qed

lemma framed_operations:
  "propose_operation sv who now p d = Inr (r, e) \<Longrightarrow> command_frame d e"
  "approve_operation sv who now jid p hash a d = Inr (r, e) \<Longrightarrow> command_frame d e"
  "submit_operation sv who now j a d = Inr (r, e) \<Longrightarrow> command_frame d e"
  "cancel_operation sv who now jid d = Inr (r, e) \<Longrightarrow> command_frame d e"
  "policy_set_operation sv who now pol a d = Inr (r, e) \<Longrightarrow> command_frame d e"
  "set_mode_operation sv who now command m reason d = Inr (r, e) \<Longrightarrow> command_frame d e"
  "resume_operation sv who now a d = Inr (r, e) \<Longrightarrow> command_frame d e"
  "reconcile_operation sv who now ls rs a d = Inr (r, e) \<Longrightarrow> command_frame d e"
  by (auto simp: propose_operation_def approve_operation_def submit_operation_def cancel_operation_def
      policy_set_operation_def set_mode_operation_def resume_operation_def reconcile_operation_def
      insert_approval_Inr insert_job_def Let_def
      dest!: framed_audit framed_fence_expired split: option.splits if_splits prod.splits)

lemma framed_transactions:
  "safety_stop_transaction sv reason who now d = Inr (x, e) \<Longrightarrow> command_frame d e"
  "dispatch_failed_transaction sv jid reason who now d = Inr (y, e) \<Longrightarrow> command_frame d e"
  by (auto simp: safety_stop_transaction_def dispatch_failed_transaction_def Let_def
      dest!: framed_audit_if_valid split: option.splits if_splits)

lemma framed_commands:
  "framed.keeps (queue_propose sv v key who now)" "framed.keeps (queue_approve sv jid av key who now)"
  "framed.keeps (queue_submit sv v av key who now)" "framed.keeps (queue_cancel sv jid key who now)"
  "framed.keeps (policy_set sv v av key who now)" "framed.keeps (pause sv reason key who now)"
  "framed.keeps (stop sv reason key who now)" "framed.keeps (resume sv av key who now)"
  "framed.keeps (reconcile sv av key who now)" "framed.keeps (background_recover sv who now)"
  "framed.keeps (background_safety_stop sv reason who now)"
  "framed.keeps (background_dispatch_failed sv jid reason who now)"
  unfolding queue_propose_def queue_approve_def queue_submit_def queue_cancel_def policy_set_def pause_def
    stop_def set_mode_def resume_def reconcile_def background_recover_def background_safety_stop_def
    background_dispatch_failed_def
  by (intro keeps_intros framed.keeps_plain_command framed.keeps_approved_command framed.keeps_transact;
      erule framed_operations framed_transactions framed_recover)+

lemma framed_peer_step: "command_frame d (peer_step sv p d)"
  using framed_commands [THEN framed.keepsD, of d] by (cases p) auto

text \<open>The other processes that run the controller's commands never rebind an account.\<close>

lemma framed_observations: "command_frame d d' \<Longrightarrow> observations_kept d d'"
  by (simp add: command_frame_def observations_kept_def bindings_kept_def snapshots_kept_def account_binding_def)

interpretation peers: honest_others "with_peers env sched" for env sched
  by (rule honest_othersI) (simp add: with_peers_def framed_observations framed_peer_step)

text \<open>Nor do they start a simulation or a run.\<close>

lemma filter_rel_length:
  "list_all2 R xs ys \<Longrightarrow> (\<And>x y. R x y \<Longrightarrow> P y \<Longrightarrow> P x) \<Longrightarrow> length (filter P ys) \<le> length (filter P xs)"
  by (induction rule: list_all2_induct) (auto simp: le_SucI)

lemma framed_active:
  assumes "command_frame d d'"
  shows "length (active_leases d') \<le> length (active_leases d)" and "length (active_runs d') \<le> length (active_runs d)"
  using assms unfolding active_leases_def active_runs_def command_frame_def
  by (auto intro!: filter_rel_length [where R = lease_expired_at_most] filter_rel_length [where R = run_fenced_at_most]
      simp: lease_expired_at_most_def run_fenced_at_most_def)

end
