(* ===== verification/Simulation.thy ===== *)
theory Simulation
  imports Peers
begin

text \<open>
  service.py, \<open>tick\<close>, and fake_runner.py: one simulated run. A first transaction chooses the job and
  commits a lease; the fake runner computes the simulated usage; a second transaction closes the lease
  and files the outcome. The lemmas show that only eligible work is claimed, in priority order, that
  simulation leases exclude each other, and when a job counts as simulated.
\<close>

section \<open>Decisions and denials as stored results\<close>

definition view_dict :: "window_view \<Rightarrow> json" where
  "view_dict v = JObj
     [(''guarded_estimate_percent'', JNum (guarded_estimate_percent v)),
      (''post_run_remaining_percent'', JNum (post_run_remaining_percent v)),
      (''remaining_percent'', JNum (view_remaining_percent v)), (''reserve_percent'', JNum (reserve_percent v)),
      (''resets_at'', JNum (view_resets_at v)), (''safe'', JBool (safe v))]"

definition decision_dict :: "decision \<Rightarrow> json" where
  "decision_dict dec = JObj
     ((case decision_credit_signal dec of None \<Rightarrow> [] | Some c \<Rightarrow> [(''credit_signal'', JStr c)])
      @ [(''eligible'', JBool (eligible dec)), (''estimate_kind'', JStr ''estimate''),
         (''reasons'', JArr (map JStr (reasons dec)))]
      @ (case signal_age_seconds dec of None \<Rightarrow> [] | Some a \<Rightarrow> [(''signal_age_seconds'', JNum a)])
      @ [(''signal_status'', JStr (signal_status dec)),
         (''windows'', JObj (map (map_prod id view_dict) (windows dec)))])"

definition denial :: "string \<Rightarrow> string list \<Rightarrow> json" where
  "denial jid rs = JObj [(''job_id'', JStr jid), (''reasons'', JArr (map JStr rs))]"

section \<open>Choosing the job\<close>

text \<open>\<open>ORDER BY priority DESC, created_at ASC, job_id ASC\<close>.\<close>

definition job_order :: "job_row \<Rightarrow> int \<times> rat \<times> string" where
  "job_order r = (- jr_priority r, jr_created r, jr_id r)"

definition tickable_states :: "job_state list" where
  "tickable_states = [approved, held_policy, held_dependency, held_schedule]"

definition tick_candidates :: "db \<Rightarrow> job_row list" where
  "tick_candidates d = sort_key job_order (filter (\<lambda>r. jr_state r \<in> set tickable_states) (jobs_t d))"

definition not_before_pending :: "json \<Rightarrow> rat \<Rightarrow> bool res" where
  "not_before_pending package now =
     rbind (subscript package ''not_before'') (\<lambda>v. if v = JNull then Inr False else json_greater v now)"

definition dependency_done :: "db \<Rightarrow> string \<Rightarrow> bool" where
  "dependency_done d jid \<longleftrightarrow> job_state_of jid d \<in> {Some simulated, Some succeeded}"

text \<open>
  What holds back a job that has a package: its schedule, then its dependencies. The dependencies of a
  stored package are strings, it was validated when it was proposed.
\<close>

definition schedule_hold :: "job_row \<Rightarrow> rat \<Rightarrow> db \<Rightarrow> (job_state \<times> string) option res" where
  "schedule_hold row now d =
     (case fetchone (\<lambda>p. pr_id p = jr_id row) (proposals_t d) of
        None \<Rightarrow> Inr None
      | Some p \<Rightarrow>
          rbind (not_before_pending (pr_package p) now) (\<lambda>pending.
            if pending then Inr (Some (held_schedule, ''NOT_BEFORE''))
            else
              rbind (subscript (pr_package p) ''dependencies'') (\<lambda>v.
              rbind (stored (string_list v)) (\<lambda>deps.
                Inr (if list_all (dependency_done d) deps then None
                     else Some (held_dependency, ''DEPENDENCY_PENDING''))))))"

text \<open>The loop over the candidates: it holds every job it passes over and stops at the first eligible one.\<close>

fun tick_select ::
    "svc \<Rightarrow> json option \<Rightarrow> policy \<Rightarrow> rat \<Rightarrow> job_row list \<Rightarrow> json list \<Rightarrow> db
     \<Rightarrow> ((job \<times> decision) option \<times> json list \<times> db) res" where
  "tick_select sv snap p now [] denied d = Inr (None, denied, d)"
| "tick_select sv snap p now (row # rows) denied d =
     rbind (stored (validate_job (jr_manifest row))) (\<lambda>j.
     rbind (schedule_hold row now d) (\<lambda>hold.
       case hold of
         Some (st, reason) \<Rightarrow>
           tick_select sv snap p now rows (denied @ [denial (job_id j) [reason]]) (set_job_state (job_id j) st now d)
       | None \<Rightarrow>
           rbind (evaluate_current_policy (sv_config sv) snap p now (Some (expected_usage j)) d) (\<lambda>dec.
             if eligible dec then Inr (Some (j, dec), denied, d)
             else tick_select sv snap p now rows (denied @ [denial (job_id j) (reasons dec)])
                    (set_job_state (job_id j) held_policy now d))))"

section \<open>The claim\<close>

datatype tick_claim_result =
    Tick_done json
  | Tick_claimed string job decision policy snapshot

definition policy_in :: "db \<Rightarrow> policy res" where
  "policy_in d =
     (case policies_t d of
        None \<Rightarrow> Inl (PyExc ''TypeError'')
      | Some row \<Rightarrow> stored (validate_policy (policy_json row)))"

definition tick_request :: json where
  "tick_request = JObj [(''dry_run'', JBool True)]"

definition record_tick :: "svc \<Rightarrow> string \<Rightarrow> json \<Rightarrow> rat \<Rightarrow> db \<Rightarrow> (json \<times> db) res" where
  "record_tick sv key result now d =
     rbind (record_idempotent (sv_host sv) key ''tick'' tick_request result now d) (\<lambda>d'. Inr (result, d'))"

definition tick_blocked :: "svc \<Rightarrow> string \<Rightarrow> string \<Rightarrow> rat \<Rightarrow> decision \<Rightarrow> db \<Rightarrow> (json \<times> db) res" where
  "tick_blocked sv key who now dec d =
     rbind (audit sv ''controller.blocked'' who (JObj [(''reason_codes'', JArr (map JStr (reasons dec)))]) now
              (set_controller BLOCKED (Some (first_reason dec)) now d)) (\<lambda>(event_id, d1).
     record_tick sv key
       (JObj [(''audit_event_id'', JStr event_id), (''blocked'', JBool True), (''dry_run'', JBool True),
              (''policy_decision'', decision_dict dec), (''simulated'', JBool False)]) now d1)"

definition insert_lease :: "string \<Rightarrow> string \<Rightarrow> string \<Rightarrow> rat \<Rightarrow> rat \<Rightarrow> db \<Rightarrow> (unit \<times> db) res" where
  "insert_lease lease_id jid owner now expires d =
     (if lease_id \<in> set (map ls_id (leases_t d)) then Inl (PyExc ''IntegrityError'')
      else Inr ((), d\<lparr>leases_t := leases_t d @
             [\<lparr>ls_id = lease_id, ls_job = jid, ls_owner = owner, ls_state = lease_active,
               ls_acquired = now, ls_expires = expires, ls_completed = None\<rparr>]\<rparr>))"

definition tick_take ::
    "svc \<Rightarrow> string \<Rightarrow> rat \<Rightarrow> string \<Rightarrow> policy \<Rightarrow> json option \<Rightarrow> job \<Rightarrow> decision \<Rightarrow> db
     \<Rightarrow> (tick_claim_result \<times> db) res" where
  "tick_take sv who now lease_id p snap j dec d =
     rbind (stored (case snap of None \<Rightarrow> Inl (PyExc ''TypeError'') | Some v \<Rightarrow> validate_snapshot v)) (\<lambda>s.
     rbind (insert_lease lease_id (job_id j) who now (now + of_int (lease_seconds p)) d) (\<lambda>(_, d1).
     rbind (audit sv ''simulation.started'' who
              (JObj [(''job_id'', JStr (job_id j)), (''lease_id'', JStr lease_id)]) now
              (set_job_state (job_id j) simulating now d1)) (\<lambda>(event_id, d2).
     Inr (Tick_claimed lease_id j dec p s, d2))))"

definition tick_none :: "svc \<Rightarrow> string \<Rightarrow> rat \<Rightarrow> json list \<Rightarrow> db \<Rightarrow> (tick_claim_result \<times> db) res" where
  "tick_none sv key now denied d =
     rbind (record_tick sv key
              (JObj [(''blocked'', JBool False), (''denied_jobs'', JArr denied),
                     (''dry_run'', JBool True), (''simulated'', JBool False)]) now d)
       (\<lambda>(r, d1). Inr (Tick_done r, d1))"

definition tick_choose ::
    "svc \<Rightarrow> string \<Rightarrow> string \<Rightarrow> rat \<Rightarrow> string \<Rightarrow> policy \<Rightarrow> json option \<Rightarrow> db \<Rightarrow> (tick_claim_result \<times> db) res" where
  "tick_choose sv key who now lease_id p snap d =
     rbind (tick_select sv snap p now (tick_candidates d) [] d) (\<lambda>(selected, denied, d1).
       case selected of
         None \<Rightarrow> tick_none sv key now denied d1
       | Some (j, dec) \<Rightarrow> tick_take sv who now lease_id p snap j dec d1)"

definition tick_claim ::
    "svc \<Rightarrow> string \<Rightarrow> string \<Rightarrow> rat \<Rightarrow> string \<Rightarrow> db \<Rightarrow> (tick_claim_result \<times> db) res" where
  "tick_claim sv key who now lease_id d =
     rbind (current_mode d) (\<lambda>m.
     rbind (guard (m = READY) ''CONTROLLER_NOT_READY'') (\<lambda>_.
     rbind (policy_in d) (\<lambda>p.
     rbind (guard (int (length (active_leases d)) < max_concurrency p) ''CONCURRENCY_LIMIT'') (\<lambda>_.
     rbind (evaluate_current_policy (sv_config sv) (latest_snapshot d) p now None d) (\<lambda>signal.
       if has_signal_failure signal
       then rbind (tick_blocked sv key who now signal d) (\<lambda>(r, d1). Inr (Tick_done r, d1))
       else tick_choose sv key who now lease_id p (latest_snapshot d) d)))))"

section \<open>The fake runner and the outcome\<close>

definition fake_run :: "job \<Rightarrow> usage res" where
  "fake_run j =
     (case simulation_of j of
        None \<Rightarrow> Inr (expected_usage j)
      | Some sim \<Rightarrow>
          if outcome sim = ''failure'' then Inl (Sched ''SIMULATION_FAILED'') else Inr (actual_usage sim))"

definition runner_result_dict :: "job \<Rightarrow> usage \<Rightarrow> json" where
  "runner_result_dict j actual = JObj
     [(''actual_usage'', usage_dict actual), (''dry_run'', JBool True),
      (''runner'', JStr ''phase_b_fake_runner''), (''simulated'', JBool True), (''work_ref'', JStr (work_ref j))]"

definition overran :: "usage \<Rightarrow> usage \<Rightarrow> bool" where
  "overran actual expected \<longleftrightarrow>
     five_hour_percent actual > five_hour_percent expected \<or> weekly_percent actual > weekly_percent expected"

definition post_actual_safe :: "snapshot \<Rightarrow> usage \<Rightarrow> policy \<Rightarrow> bool" where
  "post_actual_safe s actual p \<longleftrightarrow>
     remaining_percent (five_hour s) - five_hour_percent actual \<ge> five_hour_reserve_percent p
     \<and> remaining_percent (weekly s) - weekly_percent actual \<ge> weekly_reserve_percent p"

definition close_lease :: "string \<Rightarrow> lease_state \<Rightarrow> rat \<Rightarrow> db \<Rightarrow> db" where
  "close_lease lease_id st now d =
     d\<lparr>leases_t := update_where (\<lambda>r. ls_id r = lease_id)
          (\<lambda>r. r\<lparr>ls_state := st, ls_completed := Some now\<rparr>) (leases_t d)\<rparr>"

definition lease_held_by_job :: "string \<Rightarrow> string \<Rightarrow> db \<Rightarrow> bool" where
  "lease_held_by_job lease_id jid d \<longleftrightarrow>
     map_option ls_state (fetchone (\<lambda>r. ls_id r = lease_id \<and> ls_job r = jid) (leases_t d)) = Some lease_active"

definition tick_failed :: "svc \<Rightarrow> string \<Rightarrow> string \<Rightarrow> rat \<Rightarrow> string \<Rightarrow> job \<Rightarrow> string \<Rightarrow> db \<Rightarrow> (json \<times> db) res" where
  "tick_failed sv key who now lease_id j code d =
     rbind (audit sv ''simulation.failed'' who
              (JObj [(''failure_code'', JStr code), (''job_id'', JStr (job_id j)), (''lease_id'', JStr lease_id)]) now
              (set_controller BLOCKED (Some code) now
                (set_job_state (job_id j) needs_review now (close_lease lease_id lease_failed now d)))) (\<lambda>(event_id, d1).
     record_tick sv key
       (JObj [(''audit_event_id'', JStr event_id), (''dry_run'', JBool True), (''failure_code'', JStr code),
              (''job_id'', JStr (job_id j)), (''lease_id'', JStr lease_id), (''requires_review'', JBool True),
              (''simulated'', JBool False)]) now d1)"

definition tick_completed ::
    "svc \<Rightarrow> string \<Rightarrow> string \<Rightarrow> rat \<Rightarrow> string \<Rightarrow> job \<Rightarrow> decision \<Rightarrow> policy \<Rightarrow> snapshot \<Rightarrow> usage \<Rightarrow> db
     \<Rightarrow> (json \<times> db) res" where
  "tick_completed sv key who now lease_id j dec p s actual d =
     (let overrun = overran actual (expected_usage j);
          review = (overrun \<or> \<not> post_actual_safe s actual p);
          final = (if review then needs_review else simulated);
          d1 = set_job_state (job_id j) final now
                 (close_lease lease_id (if review then lease_completed_overrun else lease_completed) now d);
          d2 = (if review then set_controller PAUSED (Some ''SIMULATION_OVERRUN'') now d1 else d1)
      in rbind (audit sv ''simulation.completed'' who
                  (JObj [(''job_id'', JStr (job_id j)), (''lease_id'', JStr lease_id),
                         (''overrun'', JBool overrun), (''requires_review'', JBool review)]) now d2) (\<lambda>(event_id, d3).
         record_tick sv key
           (JObj [(''audit_event_id'', JStr event_id), (''dry_run'', JBool True), (''job_id'', JStr (job_id j)),
                  (''lease_id'', JStr lease_id), (''overrun'', JBool overrun),
                  (''policy_decision'', decision_dict dec), (''requires_review'', JBool review),
                  (''runner_result'', runner_result_dict j actual), (''simulated'', JBool True),
                  (''state'', JStr (job_state_name final))]) now d3))"

definition tick_finish ::
    "svc \<Rightarrow> string \<Rightarrow> string \<Rightarrow> rat \<Rightarrow> string \<Rightarrow> job \<Rightarrow> decision \<Rightarrow> policy \<Rightarrow> snapshot \<Rightarrow> db \<Rightarrow> (json \<times> db) res" where
  "tick_finish sv key who now lease_id j dec p s d =
     rbind (guard (lease_held_by_job lease_id (job_id j) d) ''LEASE_LOST'') (\<lambda>_.
       (case fake_run j of
          Inl (Sched code) \<Rightarrow> tick_failed sv key who now lease_id j code d
        | Inl (PyExc c) \<Rightarrow> Inl (PyExc c)
        | Inr actual \<Rightarrow> tick_completed sv key who now lease_id j dec p s actual d))"

definition tick :: "wenv \<Rightarrow> string \<Rightarrow> string \<Rightarrow> (wst, command_result) eff" where
  "tick env key who =
     (let sv = we_svc env in
      ethen (elift (require_capability sv ''simulate.local''))
     (ebind (elift (valid_actor who)) (\<lambda>who'.
      ebind (wclock env) (\<lambda>now.
      ebind (wread env (replay_idempotent (sv_host sv) key ''tick'' tick_request)) (\<lambda>replay.
        case replay of
          Some r \<Rightarrow> eret (r, True)
        | None \<Rightarrow>
            ebind (wid env ''lse'') (\<lambda>lease_id.
            ebind (wtx env (tick_claim sv key who' now lease_id)) (\<lambda>claim.
              (case claim of
                 Tick_done r \<Rightarrow> eret (r, False)
               | Tick_claimed lid j dec p s \<Rightarrow>
                   ebind (wclock env) (\<lambda>finished.
                   ebind (wtx env (tick_finish sv key who' finished lid j dec p s)) (\<lambda>r.
                   eret (r, False)))))))))))"

section \<open>Which job is claimed\<close>

lemma policy_in_ok: "policy_in d = Inr p \<Longrightarrow> policy_ok p"
  by (auto simp: policy_in_def dest: validate_policy_ok split: option.splits)

lemma set_job_state_only_jobs: "set_job_state jid st now d = d\<lparr>jobs_t := jobs_t (set_job_state jid st now d)\<rparr>"
  by (simp add: set_job_state_def)

text \<open>A candidate is passed over when its schedule or its dependencies hold it, or the policy denies it.\<close>

definition passed_over :: "svc \<Rightarrow> json option \<Rightarrow> policy \<Rightarrow> rat \<Rightarrow> db \<Rightarrow> job_row \<Rightarrow> bool" where
  "passed_over sv snap p now d q \<longleftrightarrow>
     (\<exists>js hold. schedule_hold q now (d\<lparr>jobs_t := js\<rparr>) = Inr (Some hold))
     \<or> (\<exists>jq dec. validate_job (jr_manifest q) = Inr jq
          \<and> evaluate_current_policy (sv_config sv) snap p now (Some (expected_usage jq)) d = Inr dec \<and> \<not> eligible dec)"

lemma evaluate_only_jobs [simp]:
  "evaluate_current_policy cfg snap p now u (d\<lparr>jobs_t := js\<rparr>) = evaluate_current_policy cfg snap p now u d"
proof -
  have "account_binding k (d\<lparr>jobs_t := js\<rparr>) = account_binding k d" for k
    by (simp add: account_binding_def)
  then show ?thesis by (simp only: evaluate_current_policy_def)
qed

lemma passed_over_only_jobs [simp]: "passed_over sv snap p now (d\<lparr>jobs_t := js\<rparr>) q = passed_over sv snap p now d q"
  by (simp add: passed_over_def)

lemma tick_select_Some:
  "tick_select sv snap p now rows denied d = Inr (Some (j, dec), denied', d') \<Longrightarrow>
   \<exists>pre row post. rows = pre @ row # post \<and> validate_job (jr_manifest row) = Inr j
     \<and> (\<forall>q \<in> set pre. passed_over sv snap p now d q)
     \<and> evaluate_current_policy (sv_config sv) snap p now (Some (expected_usage j)) d = Inr dec \<and> eligible dec
     \<and> (\<exists>js. d' = d\<lparr>jobs_t := js\<rparr> \<and> schedule_hold row now (d\<lparr>jobs_t := js\<rparr>) = Inr None)"
proof (induction rows arbitrary: denied d)
  case (Cons row rows)
  from Cons.prems obtain jr hold where jr: "validate_job (jr_manifest row) = Inr jr"
    and hold: "schedule_hold row now d = Inr hold" by auto
  have only: "\<exists>js. d\<lparr>jobs_t := js\<rparr> = d" by (rule exI [of _ "jobs_t d"]) simp
  have later: ?case if rest: "tick_select sv snap p now rows dn (set_job_state x st now d) = Inr (Some (j, dec), denied', d')"
      and over: "passed_over sv snap p now d row" for dn x st
  proof -
    let ?d = "set_job_state x st now d"
    obtain ks where ks: "?d = d\<lparr>jobs_t := ks\<rparr>"
      using set_job_state_only_jobs [of x st now d] by blast
    from Cons.IH [OF rest] obtain pre r post js where
        r: "rows = pre @ r # post" "validate_job (jr_manifest r) = Inr j"
          "\<forall>q \<in> set pre. passed_over sv snap p now d q"
          "evaluate_current_policy (sv_config sv) snap p now (Some (expected_usage j)) d = Inr dec" "eligible dec"
          "d' = d\<lparr>jobs_t := js\<rparr>" "schedule_hold r now (d\<lparr>jobs_t := js\<rparr>) = Inr None"
      unfolding ks by auto
    show ?thesis
      using r over by (intro exI [of _ "row # pre"] exI [of _ r] exI [of _ post]) auto
  qed
  show ?case
  proof (cases hold)
    case (Some h)
    obtain st reason where h: "h = (st, reason)" by fastforce
    have "passed_over sv snap p now d row"
      using hold Some only unfolding passed_over_def by metis
    moreover have "\<exists>dn. tick_select sv snap p now rows dn (set_job_state (job_id jr) st now d) = Inr (Some (j, dec), denied', d')"
      using Cons.prems jr hold Some h by auto
    ultimately show ?thesis using later by blast
  next
    case None
    from Cons.prems jr hold None obtain dr where
      dr: "evaluate_current_policy (sv_config sv) snap p now (Some (expected_usage jr)) d = Inr dr" by auto
    show ?thesis
    proof (cases "eligible dr")
      case True
      then have "jr = j" "dr = dec" "d' = d"
        using Cons.prems jr hold None dr by auto
      then show ?thesis
        using jr dr True hold None only
        by (intro exI [of _ "[]"] exI [of _ row] exI [of _ rows]) (auto intro!: exI [of _ "jobs_t d"])
    next
      case False
      have "passed_over sv snap p now d row"
        using jr dr False unfolding passed_over_def by blast
      moreover have "\<exists>dn. tick_select sv snap p now rows dn (set_job_state (job_id jr) held_policy now d)
          = Inr (Some (j, dec), denied', d')"
        using Cons.prems jr hold None dr False by auto
      ultimately show ?thesis using later by blast
    qed
  qed
qed simp

lemma no_active_leases: "policy_ok p \<Longrightarrow> int (length (active_leases d)) < max_concurrency p \<longleftrightarrow> active_leases d = []"
  by (auto simp: policy_ok_def)

lemma job_state_after: "\<forall>r \<in> set (jobs_t (set_job_state jid st now d)). jr_id r = jid \<longrightarrow> jr_state r = st"
proof
  fix r assume "r \<in> set (jobs_t (set_job_state jid st now d))"
  then have "r \<in> set (update_where (\<lambda>r. jr_id r = jid) (\<lambda>r. r\<lparr>jr_state := st, jr_updated := now\<rparr>) (jobs_t d))"
    by (simp add: set_job_state_def)
  then show "jr_id r = jid \<longrightarrow> jr_state r = st"
    by (elim update_where_cases [THEN disjE] bexE conjE) simp_all
qed

lemma tick_take_claimed:
  assumes "tick_take sv who now lease_id p snap j dec d = Inr (Tick_claimed lid j' dec' p' s, d')"
  shows "lid = lease_id \<and> j' = j \<and> dec' = dec \<and> p' = p
    \<and> (\<exists>ev. d' = (set_job_state (job_id j) simulating now
         (d\<lparr>leases_t := leases_t d @ [\<lparr>ls_id = lease_id, ls_job = job_id j, ls_owner = who, ls_state = lease_active,
               ls_acquired = now, ls_expires = now + of_int (lease_seconds p), ls_completed = None\<rparr>]\<rparr>))
         \<lparr>audit_t := audit_t d @ [ev]\<rparr>)"
proof -
  obtain d1 i where d1: "insert_lease lease_id (job_id j) who now (now + of_int (lease_seconds p)) d = Inr ((), d1)"
    and a: "audit sv ''simulation.started'' who
              (JObj [(''job_id'', JStr (job_id j)), (''lease_id'', JStr lease_id)]) now
              (set_job_state (job_id j) simulating now d1) = Inr (i, d')"
    and same: "lid = lease_id" "j' = j" "dec' = dec" "p' = p"
    using assms by (auto simp: tick_take_def)
  let ?row = "\<lparr>ls_id = lease_id, ls_job = job_id j, ls_owner = who, ls_state = lease_active,
               ls_acquired = now, ls_expires = now + of_int (lease_seconds p), ls_completed = None\<rparr>"
  have d1': "d1 = d\<lparr>leases_t := leases_t d @ [?row]\<rparr>"
    using d1 by (simp add: insert_lease_def split: if_splits)
  then have "audit_t (set_job_state (job_id j) simulating now d1) = audit_t d"
    by (simp add: set_job_state_def)
  with audit_frame [OF a] d1' same show ?thesis by auto
qed

lemma tick_choose_claimed:
  assumes "tick_choose sv key who now lease_id p snap d = Inr (Tick_claimed lid j dec p' s, d')"
  shows "\<exists>denied d1. tick_select sv snap p now (tick_candidates d) [] d = Inr (Some (j, dec), denied, d1)
    \<and> tick_take sv who now lease_id p snap j dec d1 = Inr (Tick_claimed lid j dec p' s, d')"
  using assms tick_take_claimed
  by (fastforce simp: tick_choose_def tick_none_def split: option.splits prod.splits)

lemma tick_claim_claimed:
  assumes "tick_claim sv key who now lease_id d = Inr (Tick_claimed lid j dec p s, d')"
  shows "ready d \<and> active_leases d = [] \<and> policy_in d = Inr p
    \<and> tick_choose sv key who now lease_id p (latest_snapshot d) d = Inr (Tick_claimed lid j dec p s, d')"
proof -
  obtain q where q: "policy_in d = Inr q" "int (length (active_leases d)) < max_concurrency q" "ready d"
      "tick_choose sv key who now lease_id q (latest_snapshot d) d = Inr (Tick_claimed lid j dec p s, d')"
    using assms by (auto simp: tick_claim_def current_mode_def ready_def split: option.splits if_splits)
  moreover have "q = p"
    using tick_choose_claimed [OF q(4)] tick_take_claimed by blast
  ultimately show ?thesis
    using no_active_leases [OF policy_in_ok [OF q(1)]] by simp
qed

lemma tick_claims_claimed_lease:
  assumes "tick_claim sv key who now lease_id d = Inr (Tick_claimed lid j dec p s, d')"
  shows "map (\<lambda>r. (ls_id r, ls_job r, ls_expires r)) (active_leases d')
        = [(lease_id, job_id j, now + of_int (lease_seconds p))]"
proof -
  note c = tick_claim_claimed [OF assms]
  from c obtain denied d1 where
      sel: "tick_select sv (latest_snapshot d) p now (tick_candidates d) [] d = Inr (Some (j, dec), denied, d1)"
    and take: "tick_take sv who now lease_id p (latest_snapshot d) j dec d1 = Inr (Tick_claimed lid j dec p s, d')"
    using tick_choose_claimed by blast
  obtain js where "d1 = d\<lparr>jobs_t := js\<rparr>"
    using tick_select_Some [OF sel] by blast
  with tick_take_claimed [OF take] c show ?thesis
    by (auto simp: active_leases_def set_job_state_def)
qed

text \<open>
  A simulation claims the best eligible job and nothing else. When \<open>tick\<close> commits a claim, the
  controller was ready and no lease was active; the job is the first of the candidates, ordered by
  priority, age and identifier, that no schedule, dependency or policy decision holds back, every
  candidate before it being held; its decision is eligible for the bound account; and afterwards the new
  lease, which expires after the policy's lease time, is the only active one, the job is simulating, the
  mode is unchanged and exactly one audit event was added.
\<close>

theorem tick_claims_first_eligible:
  assumes "tick_claim sv key who now lease_id d = Inr (Tick_claimed lid j dec p s, d')"
  shows "ready d \<and> active_leases d = [] \<and> policy_in d = Inr p
    \<and> (\<exists>pre row post. tick_candidates d = pre @ row # post \<and> validate_job (jr_manifest row) = Inr j
          \<and> (\<forall>q \<in> set pre. passed_over sv (latest_snapshot d) p now d q))
    \<and> bound_and_eligible (sv_config sv) (latest_snapshot d) p now (Some (expected_usage j)) d
    \<and> map (\<lambda>r. (ls_id r, ls_job r, ls_expires r)) (active_leases d')
        = [(lease_id, job_id j, now + of_int (lease_seconds p))]
    \<and> (\<forall>r \<in> set (jobs_t d'). jr_id r = job_id j \<longrightarrow> jr_state r = simulating)
    \<and> controller_t d' = controller_t d \<and> runs_t d' = runs_t d \<and> (\<exists>ev. audit_t d' = audit_t d @ [ev])"
proof -
  note c = tick_claim_claimed [OF assms]
  then have none: "active_leases d = []" and
    choose: "tick_choose sv key who now lease_id p (latest_snapshot d) d = Inr (Tick_claimed lid j dec p s, d')" by auto
  from tick_choose_claimed [OF choose] obtain denied d1 where
      sel: "tick_select sv (latest_snapshot d) p now (tick_candidates d) [] d = Inr (Some (j, dec), denied, d1)"
    and take: "tick_take sv who now lease_id p (latest_snapshot d) j dec d1 = Inr (Tick_claimed lid j dec p s, d')" by blast
  from tick_select_Some [OF sel] obtain pre row post js where
      row: "tick_candidates d = pre @ row # post" "validate_job (jr_manifest row) = Inr j"
        "\<forall>q \<in> set pre. passed_over sv (latest_snapshot d) p now d q"
        "evaluate_current_policy (sv_config sv) (latest_snapshot d) p now (Some (expected_usage j)) d = Inr dec"
        "eligible dec" and d1: "d1 = d\<lparr>jobs_t := js\<rparr>"
    by blast
  from tick_take_claimed [OF take] obtain ev where
    d': "d' = (set_job_state (job_id j) simulating now
         (d1\<lparr>leases_t := leases_t d1 @ [\<lparr>ls_id = lease_id, ls_job = job_id j, ls_owner = who, ls_state = lease_active,
               ls_acquired = now, ls_expires = now + of_int (lease_seconds p), ls_completed = None\<rparr>]\<rparr>))
         \<lparr>audit_t := audit_t d1 @ [ev]\<rparr>" by blast
  have "\<forall>q \<in> set (jobs_t d'). jr_id q = job_id j \<longrightarrow> jr_state q = simulating"
    unfolding d' using job_state_after by simp
  moreover have "controller_t d' = controller_t d" "runs_t d' = runs_t d" "audit_t d' = audit_t d @ [ev]"
    by (simp_all add: d' d1 set_job_state_def)
  ultimately show ?thesis
    using c row(1-3) evaluate_current_policy_eligible [OF row(4,5)] tick_claims_claimed_lease [OF assms] by blast
qed

section \<open>How a simulation ends\<close>

text \<open>A simulated usage that needs no review.\<close>

definition clean_simulation :: "job \<Rightarrow> policy \<Rightarrow> snapshot \<Rightarrow> bool" where
  "clean_simulation j p s \<longleftrightarrow>
     (case fake_run j of
        Inl _ \<Rightarrow> False
      | Inr u \<Rightarrow> \<not> overran u (expected_usage j) \<and> post_actual_safe s u p)"

lemma record_tick_frame: "record_tick sv key r now d = Inr (x, d') \<Longrightarrow> \<exists>i. d' = d\<lparr>idem_t := i\<rparr>"
  by (auto simp: record_tick_def record_idempotent_def split: if_splits)

lemma close_lease_active:
  assumes "st \<noteq> lease_active" and "r \<in> set (active_leases (close_lease lid st now d))"
  shows "ls_id r \<noteq> lid \<and> r \<in> set (active_leases d)"
proof -
  have r: "ls_state r = lease_active"
    "r \<in> set (update_where (\<lambda>r. ls_id r = lid) (\<lambda>r. r\<lparr>ls_state := st, ls_completed := Some now\<rparr>) (leases_t d))"
    using assms(2) by (simp_all add: active_leases_def close_lease_def)
  from update_where_cases [OF r(2)] r(1) assms(1) show ?thesis
    by (elim disjE bexE conjE) (simp_all add: active_leases_def)
qed

lemma tick_failed_frame:
  assumes "tick_failed sv key who now lid j code d = Inr (r, d')"
  shows "\<exists>ev i. d' = (set_controller BLOCKED (Some code) now
        (set_job_state (job_id j) needs_review now (close_lease lid lease_failed now d)))
      \<lparr>audit_t := audit_t d @ [ev], idem_t := i\<rparr>"
proof -
  let ?e = "set_controller BLOCKED (Some code) now
                (set_job_state (job_id j) needs_review now (close_lease lid lease_failed now d))"
  obtain i d1 where a: "audit sv ''simulation.failed'' who
              (JObj [(''failure_code'', JStr code), (''job_id'', JStr (job_id j)), (''lease_id'', JStr lid)]) now ?e = Inr (i, d1)"
      and rec: "\<exists>x. d' = d1\<lparr>idem_t := x\<rparr>"
    using assms by (auto simp: tick_failed_def dest!: record_tick_frame)
  have "audit_t ?e = audit_t d"
    by (simp add: set_controller_def set_job_state_def close_lease_def)
  with audit_frame [OF a] rec show ?thesis by auto
qed

lemma tick_completed_frame:
  assumes "tick_completed sv key who now lid j dec p s u d = Inr (r, d')"
  shows "\<exists>ev i. d' = (let review = (overran u (expected_usage j) \<or> \<not> post_actual_safe s u p);
        e = set_job_state (job_id j) (if review then needs_review else simulated) now
              (close_lease lid (if review then lease_completed_overrun else lease_completed) now d)
      in if review then set_controller PAUSED (Some ''SIMULATION_OVERRUN'') now e else e)
      \<lparr>audit_t := audit_t d @ [ev], idem_t := i\<rparr>"
proof -
  let ?review = "overran u (expected_usage j) \<or> \<not> post_actual_safe s u p"
  let ?e = "set_job_state (job_id j) (if ?review then needs_review else simulated) now
              (close_lease lid (if ?review then lease_completed_overrun else lease_completed) now d)"
  let ?f = "if ?review then set_controller PAUSED (Some ''SIMULATION_OVERRUN'') now ?e else ?e"
  obtain i d1 det where a: "audit sv ''simulation.completed'' who det now ?f = Inr (i, d1)"
      and rec: "\<exists>x. d' = d1\<lparr>idem_t := x\<rparr>"
    using assms unfolding tick_completed_def Let_def rbind_Inr_iff by (auto dest!: record_tick_frame)
  have "audit_t ?f = audit_t d"
    by (simp add: set_controller_def set_job_state_def close_lease_def)
  with audit_frame [OF a] rec obtain ev x where "d' = ?f\<lparr>audit_t := audit_t d @ [ev], idem_t := x\<rparr>"
    by auto
  then show ?thesis
    unfolding Let_def by (intro exI)
qed

lemma tick_finish_frame:
  assumes "tick_finish sv key who now lid j dec p s d = Inr (r, d')"
  defines "m \<equiv> if clean_simulation j p s then simulated else needs_review"
  shows "\<exists>st ev i c. st \<noteq> lease_active
    \<and> d' = (set_job_state (job_id j) m now (close_lease lid st now d))\<lparr>controller_t := c, audit_t := audit_t d @ [ev], idem_t := i\<rparr>
    \<and> (\<not> clean_simulation j p s \<longrightarrow> (\<forall>x. c = Some x \<longrightarrow> mode x \<noteq> READY))"
proof (cases "fake_run j")
  case (Inl e)
  then obtain code where code: "tick_failed sv key who now lid j code d = Inr (r, d')"
    using assms by (cases e) (auto simp: tick_finish_def)
  from tick_failed_frame [OF code] obtain ev i where
    "d' = (set_controller BLOCKED (Some code) now
        (set_job_state (job_id j) needs_review now (close_lease lid lease_failed now d)))
      \<lparr>audit_t := audit_t d @ [ev], idem_t := i\<rparr>" by blast
  moreover have "m = needs_review" using Inl by (simp add: m_def clean_simulation_def)
  ultimately show ?thesis
    by (intro exI [of _ lease_failed] exI [of _ ev] exI [of _ i]) (auto simp: set_controller_def)
next
  case (Inr u)
  then have fin: "tick_completed sv key who now lid j dec p s u d = Inr (r, d')"
    using assms by (simp add: tick_finish_def)
  from tick_completed_frame [OF fin] obtain ev i where
    d': "d' = (let review = (overran u (expected_usage j) \<or> \<not> post_actual_safe s u p);
        e = set_job_state (job_id j) (if review then needs_review else simulated) now
              (close_lease lid (if review then lease_completed_overrun else lease_completed) now d)
      in if review then set_controller PAUSED (Some ''SIMULATION_OVERRUN'') now e else e)
      \<lparr>audit_t := audit_t d @ [ev], idem_t := i\<rparr>" by blast
  have clean: "clean_simulation j p s \<longleftrightarrow> \<not> (overran u (expected_usage j) \<or> \<not> post_actual_safe s u p)"
    using Inr by (simp add: clean_simulation_def)
  show ?thesis
  proof (cases "clean_simulation j p s")
    case True
    with d' clean show ?thesis
      by (intro exI [of _ lease_completed] exI [of _ ev] exI [of _ i] exI [of _ "controller_t d"])
         (simp add: m_def Let_def, simp add: set_job_state_def close_lease_def)
  next
    case False
    with d' clean show ?thesis
      by (intro exI [of _ lease_completed_overrun] exI [of _ ev] exI [of _ i])
         (auto simp: m_def Let_def set_controller_def)
  qed
qed

lemma tick_finish_active:
  assumes "tick_finish sv key who now lid j dec p s d = Inr (r, d')"
  shows "\<exists>st. st \<noteq> lease_active \<and> active_leases d' = active_leases (close_lease lid st now d)"
proof -
  from tick_finish_frame [OF assms] obtain st m ev i c where "st \<noteq> lease_active"
    and "d' = (set_job_state (job_id j) m now (close_lease lid st now d))\<lparr>controller_t := c, audit_t := audit_t d @ [ev], idem_t := i\<rparr>"
    by blast
  then show ?thesis
    by (intro exI [of _ st]) (simp add: active_leases_def set_job_state_def)
qed

lemma close_lease_length:
  assumes "st \<noteq> lease_active"
  shows "length (active_leases (close_lease lid st now d)) \<le> length (active_leases d)"
  using assms by (auto simp: active_leases_def close_lease_def intro!: filter_update_length)

lemma tick_finish_leases:
  "tick_finish sv key who now lid j dec p s d = Inr (r, d') \<Longrightarrow> length (active_leases d') \<le> length (active_leases d)"
  using tick_finish_active close_lease_length by metis

text \<open>
  What counts as simulated. When the second transaction of \<open>tick\<close> succeeds, the lease it was given
  was still active and is active no more; the job counts as simulated exactly when the simulated usage
  stayed within its estimate and left both reserves, and is sent to review in every other case (also when
  the fake runner failed), in which case the controller is no longer ready; runs are untouched.
\<close>

theorem tick_finish_files_outcome:
  assumes "tick_finish sv key who now lid j dec p s d = Inr (r, d')"
  shows "lease_held_by_job lid (job_id j) d
    \<and> (\<forall>q \<in> set (active_leases d'). ls_id q \<noteq> lid \<and> q \<in> set (active_leases d))
    \<and> (\<forall>q \<in> set (jobs_t d'). jr_id q = job_id j \<longrightarrow>
          jr_state q = (if clean_simulation j p s then simulated else needs_review))
    \<and> (ready d' \<longrightarrow> clean_simulation j p s) \<and> runs_t d' = runs_t d"
proof -
  have held: "lease_held_by_job lid (job_id j) d"
    using assms by (auto simp: tick_finish_def)
  let ?m = "if clean_simulation j p s then simulated else needs_review"
  from tick_finish_frame [OF assms] obtain st ev i c where st: "st \<noteq> lease_active"
    and d': "d' = (set_job_state (job_id j) ?m now (close_lease lid st now d))
      \<lparr>controller_t := c, audit_t := audit_t d @ [ev], idem_t := i\<rparr>"
    and c: "\<not> clean_simulation j p s \<longrightarrow> (\<forall>x. c = Some x \<longrightarrow> mode x \<noteq> READY)" by blast
  have "active_leases d' = active_leases (close_lease lid st now d)"
    by (simp add: d' active_leases_def set_job_state_def)
  then have "\<forall>q \<in> set (active_leases d'). ls_id q \<noteq> lid \<and> q \<in> set (active_leases d)"
    using close_lease_active [OF st] by simp
  moreover have "\<forall>q \<in> set (jobs_t d'). jr_id q = job_id j \<longrightarrow> jr_state q = ?m"
    using job_state_after [of "job_id j" ?m now "close_lease lid st now d"] by (simp only: d' db.select_convs db.update_convs simp_thms) simp
  moreover have "ready d' \<longrightarrow> clean_simulation j p s"
    using c by (auto simp: d' ready_def)
  moreover have "runs_t d' = runs_t d"
    by (simp add: d' set_job_state_def close_lease_def)
  ultimately show ?thesis using held by blast
qed

section \<open>Simulations exclude each other\<close>

definition lease_exclusive :: "db \<Rightarrow> bool" where
  "lease_exclusive d \<longleftrightarrow> length (active_leases d) \<le> 1"

definition leases_exclude :: "db \<Rightarrow> db \<Rightarrow> bool" where
  "leases_exclude d d' \<longleftrightarrow> (lease_exclusive d \<longrightarrow> lease_exclusive d')"

text \<open>The interface of other processes that start no second simulation.\<close>

locale one_lease = leases: db_rel leases_exclude "\<lambda>_. True" env for env

lemma one_leaseI: "(\<And>n d. leases_exclude d (we_others env n d)) \<Longrightarrow> one_lease env"
  by unfold_locales (auto simp: leases_exclude_def)

lemma tick_select_only_jobs:
  "tick_select sv snap p now rows denied d = Inr (x, denied', d') \<Longrightarrow> \<exists>js. d' = d\<lparr>jobs_t := js\<rparr>"
proof (induction rows arbitrary: denied d)
  case Nil
  then have "d' = d\<lparr>jobs_t := jobs_t d\<rparr>" by simp
  then show ?case by blast
next
  case (Cons row rows)
  have "d' = d \<or> (\<exists>st jid dn. tick_select sv snap p now rows dn (set_job_state jid st now d) = Inr (x, denied', d'))"
    using Cons.prems by (auto split: option.splits if_splits)
  then show ?case
  proof (elim disjE exE)
    assume "d' = d"
    then have "d' = d\<lparr>jobs_t := jobs_t d\<rparr>" by simp
    then show ?thesis by blast
  next
    fix st jid dn assume "tick_select sv snap p now rows dn (set_job_state jid st now d) = Inr (x, denied', d')"
    from Cons.IH [OF this] show ?thesis by (auto simp: set_job_state_def)
  qed
qed

lemma record_tick_leases: "record_tick sv key r now d = Inr (x, d') \<Longrightarrow> leases_t d' = leases_t d"
  by (auto dest!: record_tick_frame)

lemma audit_leases: "audit sv ev who det now d = Inr (i, d') \<Longrightarrow> leases_t d' = leases_t d"
  by (auto dest!: audit_frame)

lemma tick_done_leases:
  assumes "tick_claim sv key who now lease_id d = Inr (Tick_done r, d')"
  shows "leases_t d' = leases_t d"
proof -
  have none: "leases_t e' = leases_t e" if "tick_none sv key now denied e = Inr (y, e')" for denied y and e e' :: db
    using that by (auto simp: tick_none_def dest: record_tick_leases)
  have blocked: "leases_t e' = leases_t e" if "tick_blocked sv key who now dec e = Inr (y, e')" for dec y and e e' :: db
    using that by (auto simp: tick_blocked_def set_controller_def dest!: audit_leases record_tick_leases)
  have take: "tick_take sv who now lease_id p snap j dec e \<noteq> Inr (Tick_done r, d')" for p snap j dec e
    by (auto simp: tick_take_def)
  have choose: "leases_t d' = leases_t d" if chosen: "tick_choose sv key who now lease_id p snap d = Inr (Tick_done r, d')" for p snap
  proof -
    obtain sel denied d1 where sel: "tick_select sv snap p now (tick_candidates d) [] d = Inr (sel, denied, d1)"
      using chosen unfolding tick_choose_def rbind_Inr_iff by auto
    moreover have "sel = None \<and> tick_none sv key now denied d1 = Inr (Tick_done r, d')"
      using chosen sel take by (auto simp: tick_choose_def split: option.splits)
    ultimately show ?thesis
      using none tick_select_only_jobs [OF sel] by fastforce
  qed
  show ?thesis
    using assms choose blocked
    by (auto simp: tick_claim_def split: if_splits)
qed

lemma tick_claim_exclusive:
  assumes "tick_claim sv key who now lease_id d = Inr (r, d')"
  shows "leases_exclude d d'"
proof (cases r)
  case (Tick_done x)
  with assms tick_done_leases show ?thesis
    by (auto simp: leases_exclude_def lease_exclusive_def active_leases_def)
next
  case (Tick_claimed lid j dec p s)
  with assms have "map (\<lambda>r. (ls_id r, ls_job r, ls_expires r)) (active_leases d')
        = [(lease_id, job_id j, now + of_int (lease_seconds p))]"
    by (simp add: tick_claims_claimed_lease)
  from arg_cong [OF this, of length] show ?thesis
    by (simp add: leases_exclude_def lease_exclusive_def)
qed

lemma tick_finish_exclusive: "tick_finish sv key who now lid j dec p s d = Inr (r, d') \<Longrightarrow> leases_exclude d d'"
  by (drule tick_finish_leases) (simp add: leases_exclude_def lease_exclusive_def)

context one_lease begin

lemma tick_exclusive: "leases.lifted.keeps (tick env key who)"
  unfolding tick_def Let_def
  by (intro keeps_intros leases.lifted_wtx)
     (auto intro!: keeps_intros leases.lifted_wtx split: tick_claim_result.split
       intro: tick_claim_exclusive tick_finish_exclusive)

lemma tick_lease_exclusive: "lease_exclusive (w_db s) \<Longrightarrow> lease_exclusive (w_db (snd (tick env key who s)))"
  using leases.lifted.keepsD [OF tick_exclusive, of s key who] by (simp add: leases_exclude_def)

end

interpretation simulating_peers: one_lease "with_peers env sched" for env sched
proof (rule one_leaseI)
  fix n d
  show "leases_exclude d (we_others (with_peers env sched) n d)"
    using framed_active(1) [OF framed_peer_step, of "we_svc env" "sched n" d]
    by (simp add: with_peers_def leases_exclude_def lease_exclusive_def)
qed

text \<open>
  Simulations exclude each other. If at most one lease is active, then at most one is active after
  a whole \<open>tick\<close>, however it ends, while any schedule of the controller's other commands commits between
  its transactions.
\<close>

theorem tick_keeps_single_lease:
  assumes "lease_exclusive (w_db s)"
  shows "lease_exclusive (w_db (snd (tick (with_peers env sched) key who s)))"
  using assms by (rule simulating_peers.tick_lease_exclusive)

end
