(* ===== verification/Dispatch.thy ===== *)
theory Dispatch
  imports Simulation
begin

text \<open>
  service.py, \<open>dispatch_preflight\<close> and \<open>dispatch_run\<close>: one live run of an approved work package. A fresh
  quota probe and the preflight come first; one transaction re-checks everything and claims the job and
  the run; the work runner drives the App Server and calls back (thread known, turn known, is it still
  safe?); a last probe decides whether the run counts; a final transaction files the outcome. The runner
  is a parameter: any function of the three callbacks.
\<close>

section \<open>Runs\<close>

definition run_state_name :: "run_state \<Rightarrow> string" where
  "run_state_name st =
     (case st of run_starting \<Rightarrow> ''starting'' | run_running \<Rightarrow> ''running'' | run_succeeded \<Rightarrow> ''succeeded''
      | run_failed \<Rightarrow> ''failed'' | run_interrupted \<Rightarrow> ''interrupted'' | run_blocked \<Rightarrow> ''blocked''
      | run_needs_review \<Rightarrow> ''needs_review'')"

definition get_run :: "string \<Rightarrow> db \<Rightarrow> run_row res" where
  "get_run rid d =
     (case fetchone (\<lambda>r. rn_id r = rid) (runs_t d) of None \<Rightarrow> Inl (Sched ''RUN_NOT_FOUND'') | Some r \<Rightarrow> Inr r)"

definition list_runs :: "db \<Rightarrow> run_row list" where
  "list_runs d = sort_key (\<lambda>r. (- rn_started r, rn_id r)) (runs_t d)"

definition opt_num :: "rat option \<Rightarrow> json" where
  "opt_num q = (case q of None \<Rightarrow> JNull | Some x \<Rightarrow> JNum x)"

definition run_dict :: "run_row \<Rightarrow> json" where
  "run_dict r = JObj
     [(''run_id'', JStr (rn_id r)), (''job_id'', opt_str (rn_job r)),
      (''kind'', JStr (case rn_kind r of canary \<Rightarrow> ''canary'' | work \<Rightarrow> ''work'')),
      (''state'', JStr (run_state_name (rn_state r))), (''thread_id'', opt_str (rn_thread r)),
      (''turn_id'', opt_str (rn_turn r)), (''started_at'', JNum (rn_started r)),
      (''updated_at'', JNum (rn_updated r)), (''lease_expires_at'', JNum (rn_lease_expires r)),
      (''completed_at'', opt_num (rn_completed r)), (''stop_reason'', opt_str (rn_stop_reason r))]"

section \<open>Choosing the work package\<close>

record candidate =
  cand_approval :: string
  cand_cwd :: string
  cand_decision :: decision
  cand_job :: string
  cand_package :: work_package
  cand_hash :: string

text \<open>The two LEFT JOINs, kept only when the proposal is approved and the approval exists.\<close>

definition authorisation :: "db \<Rightarrow> job_row \<Rightarrow> (proposal_row \<times> approval_row) option" where
  "authorisation d row =
     (case (fetchone (\<lambda>p. pr_id p = jr_id row) (proposals_t d), fetchone (\<lambda>a. appr_id a = jr_approval row) (approvals_t d)) of
        (Some p, Some a) \<Rightarrow> if pr_state p = proposal_approved then Some (p, a) else None
      | _ \<Rightarrow> None)"

definition grants_dispatch :: "json \<Rightarrow> bool" where
  "grants_dispatch v = (case v of JArr xs \<Rightarrow> JStr ''work.dispatch'' \<in> set xs | _ \<Rightarrow> False)"

text \<open>\<open>except (SchedulerError, TypeError, ValueError)\<close> around the validation of the stored package.\<close>

definition stored_package :: "json \<Rightarrow> work_package option res" where
  "stored_package v =
     (case validate_work_package v of
        Inr p \<Rightarrow> Inr (Some p)
      | Inl (Sched c) \<Rightarrow> Inr None
      | Inl (PyExc c) \<Rightarrow> if c \<in> {''TypeError'', ''ValueError''} then Inr None else Inl (PyExc c))"

text \<open>The directory of the package; only a SchedulerError is caught.\<close>

definition package_cwd :: "svc \<Rightarrow> work_package \<Rightarrow> string option res" where
  "package_cwd sv p =
     (case resolve_workspace_cwd sv (cwd (wp_execution p)) of
        Inr dir \<Rightarrow> Inr (Some dir)
      | Inl (Sched c) \<Rightarrow> Inr None
      | Inl (PyExc c) \<Rightarrow> Inl (PyExc c))"

definition issue_if :: "bool \<Rightarrow> string \<Rightarrow> string list" where
  "issue_if b code = (if b then [code] else [])"

lemma issue_if_Nil [simp]: "issue_if b c = [] \<longleftrightarrow> \<not> b"
  by (simp add: issue_if_def)

definition state_issues :: "job_row \<Rightarrow> string list" where
  "state_issues row = issue_if (jr_state row \<notin> set dispatchable_states) ''JOB_NOT_DISPATCHABLE''"

text \<open>The checks of a package that parsed, up to the policy.\<close>

definition package_issues ::
    "svc \<Rightarrow> rat \<Rightarrow> db \<Rightarrow> job_row \<Rightarrow> proposal_row \<Rightarrow> approval_row \<Rightarrow> work_package \<Rightarrow> string option \<Rightarrow> string list" where
  "package_issues sv now d row p a pkg dir =
     issue_if (\<not> grants_dispatch (appr_capabilities a)) ''WORK_AUTHORIZATION_MISSING''
     @ issue_if (package_hash_of sv pkg \<noteq> pr_hash p) ''WORK_PACKAGE_HASH_MISMATCH''
     @ issue_if (payload_hash (sv_host sv) (job_dict (wp_job pkg)) \<noteq> jr_manifest_hash row) ''WORK_MANIFEST_HASH_MISMATCH''
     @ issue_if (job_id (wp_job pkg) \<noteq> jr_id row) ''WORK_PACKAGE_IDENTITY_MISMATCH''
     @ issue_if (dir = None) ''WORKSPACE_DENIED''
     @ issue_if (case not_before pkg of None \<Rightarrow> False | Some t \<Rightarrow> t > now) ''NOT_BEFORE_PENDING''
     @ issue_if (\<not> list_all (dependency_done d) (dependencies pkg)) ''DEPENDENCY_PENDING''"

definition candidate_of :: "job_row \<Rightarrow> proposal_row \<Rightarrow> work_package \<Rightarrow> string option \<Rightarrow> decision \<Rightarrow> candidate" where
  "candidate_of row p pkg dir dec =
     \<lparr>cand_approval = jr_approval row, cand_cwd = (case dir of None \<Rightarrow> [] | Some x \<Rightarrow> x), cand_decision = dec,
      cand_job = jr_id row, cand_package = pkg, cand_hash = pr_hash p\<rparr>"

text \<open>One row: its issues, and the candidate when there are none.\<close>

definition examine_row ::
    "svc \<Rightarrow> json option \<Rightarrow> policy \<Rightarrow> rat \<Rightarrow> db \<Rightarrow> job_row \<Rightarrow> (string list \<times> candidate option) res" where
  "examine_row sv snap p now d row =
     (case authorisation d row of
        None \<Rightarrow> Inr (state_issues row @ [''WORK_AUTHORIZATION_MISSING''], None)
      | Some (pr, a) \<Rightarrow>
          rbind (stored_package (pr_package pr)) (\<lambda>parsed.
            case parsed of
              None \<Rightarrow> Inr (state_issues row @ [''WORK_PACKAGE_INVALID''], None)
            | Some pkg \<Rightarrow>
                rbind (package_cwd sv pkg) (\<lambda>dir.
                rbind (evaluate_current_policy (sv_config sv) snap p now (Some (expected_usage (wp_job pkg))) d) (\<lambda>dec.
                  (let issues = state_issues row @ package_issues sv now d row pr a pkg dir @ reasons dec in
                   Inr (issues, if issues = [] then Some (candidate_of row pr pkg dir dec) else None))))))"

fun select_rows ::
    "svc \<Rightarrow> json option \<Rightarrow> policy \<Rightarrow> rat \<Rightarrow> bool \<Rightarrow> db \<Rightarrow> job_row list \<Rightarrow> string list
     \<Rightarrow> (candidate option \<times> string list) res" where
  "select_rows sv snap p now single d [] issues = Inr (None, issues)"
| "select_rows sv snap p now single d (row # rows) issues =
     rbind (examine_row sv snap p now d row) (\<lambda>(found, c).
       case c of
         Some x \<Rightarrow> Inr (Some x, [])
       | None \<Rightarrow>
           if single then Inr (None, issues @ found)
           else select_rows sv snap p now single d rows (issues @ found))"

definition dispatch_rows :: "string option \<Rightarrow> db \<Rightarrow> job_row list" where
  "dispatch_rows jid d =
     sort_key job_order (filter (\<lambda>r. case jid of None \<Rightarrow> True | Some i \<Rightarrow> jr_id r = i) (jobs_t d))"

definition select_dispatch_candidate ::
    "svc \<Rightarrow> rat \<Rightarrow> string option \<Rightarrow> db \<Rightarrow> (candidate option \<times> string list) res" where
  "select_dispatch_candidate sv now jid d =
     (let rows = dispatch_rows jid d in
      if jid \<noteq> None \<and> rows = [] then Inr (None, [''JOB_NOT_FOUND''])
      else
        rbind (policy_in d) (\<lambda>p.
        rbind (select_rows sv (latest_snapshot d) p now (jid \<noteq> None) d rows []) (\<lambda>(c, issues).
          case c of
            Some x \<Rightarrow> Inr (Some x, [])
          | None \<Rightarrow>
              Inr (None, sorted_set (issues @ issue_if (issues = [] \<or> jid = None) ''NO_ELIGIBLE_JOB'')))))"

definition paid_credit_issues :: "config \<Rightarrow> json option \<Rightarrow> string list" where
  "paid_credit_issues cfg snap =
     (case snap of
        None \<Rightarrow> [''PAID_CREDIT_SIGNAL_UNVERIFIED'']
      | Some v \<Rightarrow>
          (let paid = jgetn (obj_fields v) ''paid_credit_state''; spend = jgetn (obj_fields v) ''spend_control_state'' in
           if paid = JStr ''available'' then [''PAID_CREDITS_AVAILABLE'']
           else if spend = JStr ''reached'' then [''SPEND_CONTROL_REACHED'']
           else if cfg_credit_mode cfg = ''operator_attested_subscription_only'' then []
           else if paid = JStr ''unknown'' then [''PAID_CREDIT_SIGNAL_UNVERIFIED'']
           else if spend \<noteq> JStr ''not_reached'' then [''SPEND_CONTROL_SIGNAL_UNVERIFIED'']
           else []))"

section \<open>The preflight\<close>

record preflight =
  pf_candidate :: "candidate option"
  pf_mode :: controller_mode
  pf_issues :: "string list"

definition safe_to_dispatch :: "preflight \<Rightarrow> bool" where
  "safe_to_dispatch pf \<longleftrightarrow> pf_issues pf = []"

definition guard_holding :: "guard_session_state list" where
  "guard_holding = [STOPPING, HELD_QUOTA, RESUMING]"

definition guard_issues :: "guard_session_state set \<Rightarrow> string list" where
  "guard_issues sts =
     (if NEEDS_REVIEW \<in> sts then [''QUOTA_GUARD_NEEDS_REVIEW'']
      else if sts \<inter> set guard_holding \<noteq> {} then [''QUOTA_GUARD_HELD''] else [])"

text \<open>Each read is its own connection; the others may commit between them.\<close>

definition dispatch_preflight :: "wenv \<Rightarrow> string option \<Rightarrow> (wst, preflight) eff" where
  "dispatch_preflight env jid =
     (let sv = we_svc env; cfg = sv_config sv in
      ethen (elift (require_capability sv ''work.dispatch''))
     (ethen (elift (case jid of None \<Rightarrow> Inr () | Some i \<Rightarrow> rbind (validate_identifier (JStr i)) (\<lambda>_. Inr ())))
     (ebind (wclock env) (\<lambda>now.
      ebind (wread env controller) (\<lambda>c.
      ebind (wread env (\<lambda>d. Inr (active_leases d \<noteq> []))) (\<lambda>leased.
      ebind (wread env (\<lambda>d. Inr (list_ex (\<lambda>r. rn_state r \<in> {run_starting, run_running}) (list_runs d)))) (\<lambda>busy.
      ebind (wread env (list_quota_guard_sessions None None)) (\<lambda>sessions.
      ebind (wread env (\<lambda>d. Inr (reconciliation_candidates now d \<noteq> []))) (\<lambda>stale1.
      ebind (if stale1 then eret True else wread env (\<lambda>d. Inr (run_reconciliation_candidates now d \<noteq> []))) (\<lambda>stale.
      ebind (integrity env) (\<lambda>messages.
      ebind (wread env (\<lambda>d. Inr (valid (verify_audit (sv_host sv) d)))) (\<lambda>audited.
      ebind (wread env (\<lambda>d. Inr (latest_snapshot d))) (\<lambda>snap.
      ebind (wread env (select_dispatch_candidate sv now jid)) (\<lambda>(cand, issues).
        eret \<lparr>pf_candidate = cand, pf_mode = mode c,
          pf_issues = sorted_set
            (issue_if (\<not> cfg_dispatch_enabled cfg) ''DISPATCH_DISABLED''
             @ issue_if (mode c \<noteq> READY) ''CONTROLLER_NOT_READY''
             @ issue_if leased ''LEASE_ACTIVE'' @ issue_if busy ''RUN_ACTIVE''
             @ guard_issues (set (map gs_state sessions))
             @ issue_if stale ''RECONCILE_REQUIRED'' @ issue_if (\<not> check_passed messages) ''DATABASE_INVALID''
             @ issue_if (\<not> audited) ''AUDIT_INVALID'' @ paid_credit_issues cfg snap @ issues)\<rparr>))))))))))))))"

definition preflight_dict :: "config \<Rightarrow> preflight \<Rightarrow> json" where
  "preflight_dict cfg pf = JObj
     [(''candidate'', case pf_candidate pf of
         None \<Rightarrow> JNull
       | Some c \<Rightarrow> JObj [(''approval_id'', JStr (cand_approval c)), (''job_id'', JStr (cand_job c)),
                        (''package_hash'', JStr (cand_hash c))]),
      (''controller_mode'', JStr (mode_name (pf_mode pf))),
      (''credit_verification_mode'', JStr (cfg_credit_mode cfg)), (''issues'', JArr (map JStr (pf_issues pf))),
      (''policy_decision'', case pf_candidate pf of None \<Rightarrow> JNull | Some c \<Rightarrow> decision_dict (cand_decision c)),
      (''safe_to_dispatch'', JBool (safe_to_dispatch pf))]"

section \<open>The claim\<close>

record dispatch_call =
  dc_job :: "string option"
  dc_key :: string
  dc_actor :: string
  dc_owner :: "string option"
  dc_heartbeat :: "(wst, unit) eff option"
  dc_shutdown :: "(wst, bool) eff option"

text \<open>What the claim fixes for the rest of the run.\<close>

record claim =
  cl_run :: string
  cl_owner :: string
  cl_actor :: string
  cl_selected :: candidate
  cl_snapshot :: "json option"

definition cl_job :: "claim \<Rightarrow> string" where
  "cl_job c = cand_job (cl_selected c)"

definition heartbeat_seconds :: "config \<Rightarrow> rat" where
  "heartbeat_seconds cfg = of_int (max 90 (cfg_dispatch_poll cfg * 3))"

definition dispatch_request :: "dispatch_call \<Rightarrow> json" where
  "dispatch_request c = JObj [(''job_id'', opt_str (dc_job c))]"

definition first_issue :: "string list \<Rightarrow> string" where
  "first_issue issues = (case issues of [] \<Rightarrow> ''DISPATCH_DENIED'' | i # _ \<Rightarrow> i)"

definition new_run :: "string \<Rightarrow> string \<Rightarrow> string \<Rightarrow> rat \<Rightarrow> rat \<Rightarrow> run_row" where
  "new_run rid jid owner now expires =
     \<lparr>rn_id = rid, rn_job = Some jid, rn_kind = work, rn_state = run_starting, rn_thread = None,
      rn_turn = None, rn_started = now, rn_updated = now, rn_lease_expires = expires,
      rn_lease_owner = Some owner, rn_completed = None, rn_stop_reason = None\<rparr>"

definition insert_run :: "run_row \<Rightarrow> db \<Rightarrow> (unit \<times> db) res" where
  "insert_run r d =
     (if rn_id r \<in> set (map rn_id (runs_t d)) then Inl (PyExc ''IntegrityError'')
      else Inr ((), d\<lparr>runs_t := runs_t d @ [r]\<rparr>))"

text \<open>Everything the claim re-checks before it writes.\<close>

definition claim_guards :: "svc \<Rightarrow> bool \<Rightarrow> rat \<Rightarrow> string \<Rightarrow> db \<Rightarrow> candidate res" where
  "claim_guards sv intact now jid d =
     rbind (guard (valid (verify_audit (sv_host sv) d)) ''AUDIT_INVALID'') (\<lambda>_.
     rbind (guard intact ''DATABASE_INVALID'') (\<lambda>_.
     rbind (current_mode d) (\<lambda>m.
     rbind (guard (m = READY) ''CONTROLLER_NOT_READY'') (\<lambda>_.
     (let sts = set (map gs_state (filter (\<lambda>s. gs_state s \<noteq> DISARMED) (sessions_t d))) in
      rbind (guard (NEEDS_REVIEW \<notin> sts) ''QUOTA_GUARD_NEEDS_REVIEW'') (\<lambda>_.
      rbind (guard (sts \<inter> set guard_holding = {}) ''QUOTA_GUARD_HELD'') (\<lambda>_.
      rbind (guard (active_runs d = []) ''RUN_ACTIVE'') (\<lambda>_.
      rbind (guard (active_leases d = []) ''LEASE_ACTIVE'') (\<lambda>_.
      rbind (select_dispatch_candidate sv now (Some jid) d) (\<lambda>(cand, issues).
        case cand of
          None \<Rightarrow> Inl (Sched (first_issue issues))
        | Some c \<Rightarrow>
            (case paid_credit_issues (sv_config sv) (latest_snapshot d) of
               [] \<Rightarrow> Inr c
             | i # _ \<Rightarrow> Inl (Sched i))))))))))))"

definition claimable :: "string \<Rightarrow> job_row \<Rightarrow> bool" where
  "claimable jid r \<longleftrightarrow> jr_id r = jid \<and> jr_state r \<in> set dispatchable_states"

text \<open>The claim itself: job, run, audit event, idempotency record.\<close>

definition claim_writes ::
    "svc \<Rightarrow> dispatch_call \<Rightarrow> string \<Rightarrow> rat \<Rightarrow> string \<Rightarrow> string \<Rightarrow> string \<Rightarrow> candidate \<Rightarrow> db \<Rightarrow> (claim \<times> db) res" where
  "claim_writes sv call who now rid owner jid c d =
     rbind (guard (row_count (claimable jid) (jobs_t d) = 1) ''JOB_CLAIM_CONFLICT'') (\<lambda>_.
     rbind (insert_run (new_run rid jid owner now (now + heartbeat_seconds (sv_config sv)))
              (d\<lparr>jobs_t := update_where (claimable jid) (\<lambda>r. r\<lparr>jr_state := running, jr_updated := now\<rparr>) (jobs_t d)\<rparr>))
       (\<lambda>(_, d1).
     rbind (audit sv ''dispatch.claimed'' who
              (JObj [(''approval_id'', JStr (cand_approval c)),
                     (''credit_verification_mode'', JStr (cfg_credit_mode (sv_config sv))),
                     (''job_id'', JStr jid), (''package_hash'', JStr (cand_hash c)), (''run_id'', JStr rid)]) now d1)
       (\<lambda>(event_id, d2).
     rbind (record_idempotent (sv_host sv) (dc_key call) ''dispatch.run'' (dispatch_request call)
              (JObj [(''approval_id'', JStr (cand_approval c)), (''audit_event_id'', JStr event_id),
                     (''job_id'', JStr jid), (''live_dispatch'', JBool True), (''run_id'', JStr rid),
                     (''state'', JStr ''starting'')]) now d2) (\<lambda>d3.
       Inr (\<lparr>cl_run = rid, cl_owner = owner, cl_actor = who, cl_selected = c, cl_snapshot = latest_snapshot d\<rparr>, d3)))))"

definition claim_transaction ::
    "svc \<Rightarrow> dispatch_call \<Rightarrow> bool \<Rightarrow> string \<Rightarrow> rat \<Rightarrow> string \<Rightarrow> string \<Rightarrow> string \<Rightarrow> db \<Rightarrow> (claim \<times> db) res" where
  "claim_transaction sv call intact who now rid owner jid d =
     rbind (claim_guards sv intact now jid d) (\<lambda>c. claim_writes sv call who now rid owner jid c d)"

section \<open>The runner's callbacks\<close>

definition own_run :: "claim \<Rightarrow> run_row \<Rightarrow> bool" where
  "own_run c r \<longleftrightarrow> rn_id r = cl_run c \<and> rn_lease_owner r = Some (cl_owner c)"

definition own_job_run :: "claim \<Rightarrow> run_row \<Rightarrow> bool" where
  "own_job_run c r \<longleftrightarrow> own_run c r \<and> rn_job r = Some (cl_job c)"

definition own_starting :: "claim \<Rightarrow> run_row \<Rightarrow> bool" where
  "own_starting c r \<longleftrightarrow> own_job_run c r \<and> rn_state r = run_starting"

definition started_transaction ::
    "svc \<Rightarrow> claim \<Rightarrow> string \<Rightarrow> json \<Rightarrow> (run_row \<Rightarrow> run_row) \<Rightarrow> rat \<Rightarrow> db \<Rightarrow> (unit \<times> db) res" where
  "started_transaction sv c event details change now d =
     rbind (guard (row_count (own_starting c) (runs_t d) = 1) ''RUN_CLAIM_LOST'') (\<lambda>_.
     rbind (audit sv event (cl_actor c) details now
              (d\<lparr>runs_t := update_where (own_starting c) change (runs_t d)\<rparr>)) (\<lambda>(_, d1). Inr ((), d1)))"

definition thread_transaction :: "svc \<Rightarrow> claim \<Rightarrow> string \<Rightarrow> rat \<Rightarrow> db \<Rightarrow> (unit \<times> db) res" where
  "thread_transaction sv c thread_id now =
     started_transaction sv c ''dispatch.thread_started''
       (JObj [(''job_id'', JStr (cl_job c)), (''run_id'', JStr (cl_run c)), (''thread_id'', JStr thread_id)])
       (\<lambda>r. r\<lparr>rn_thread := Some thread_id, rn_updated := now,
              rn_lease_expires := now + heartbeat_seconds (sv_config sv)\<rparr>) now"

definition turn_transaction :: "svc \<Rightarrow> claim \<Rightarrow> string \<Rightarrow> string \<Rightarrow> rat \<Rightarrow> db \<Rightarrow> (unit \<times> db) res" where
  "turn_transaction sv c thread_id turn_id now =
     started_transaction sv c ''dispatch.started''
       (JObj [(''job_id'', JStr (cl_job c)), (''run_id'', JStr (cl_run c)), (''thread_id'', JStr thread_id),
              (''turn_id'', JStr turn_id)])
       (\<lambda>r. r\<lparr>rn_state := run_running, rn_thread := Some thread_id, rn_turn := Some turn_id, rn_updated := now,
              rn_lease_expires := now + heartbeat_seconds (sv_config sv)\<rparr>) now"

definition on_thread_started :: "wenv \<Rightarrow> claim \<Rightarrow> string \<Rightarrow> (wst, unit) eff" where
  "on_thread_started env c thread_id =
     ebind (wclock env) (\<lambda>now. wtx env (thread_transaction (we_svc env) c thread_id now))"

definition on_started :: "wenv \<Rightarrow> claim \<Rightarrow> string \<Rightarrow> string \<Rightarrow> (wst, unit) eff" where
  "on_started env c thread_id turn_id =
     ebind (wclock env) (\<lambda>now. wtx env (turn_transaction (we_svc env) c thread_id turn_id now))"

text \<open>The transaction at the end of \<open>safety_check\<close>: an early \<open>return False\<close> commits no change.\<close>

definition safety_transaction :: "svc \<Rightarrow> claim \<Rightarrow> rat \<Rightarrow> db \<Rightarrow> (bool \<times> db) res" where
  "safety_transaction sv c now d =
     rbind (current_mode d) (\<lambda>m.
       if m \<notin> {READY, PAUSED} then Inr (False, d)
       else if \<exists>s \<in> set (sessions_t d). gs_state s \<in> set (NEEDS_REVIEW # guard_holding) then Inr (False, d)
       else
         (case fetchone (own_job_run c) (runs_t d) of
            None \<Rightarrow> Inr (False, d)
          | Some r \<Rightarrow>
              if rn_state r \<notin> {run_starting, run_running} then Inr (False, d)
              else if paid_credit_issues (sv_config sv) (latest_snapshot d) \<noteq> [] then Inr (False, d)
              else
                rbind (policy_in d) (\<lambda>p.
                rbind (evaluate_current_policy (sv_config sv) (latest_snapshot d) p now
                         (Some (expected_usage (wp_job (cand_package (cl_selected c))))) d) (\<lambda>dec.
                  if \<not> eligible dec then Inr (False, d)
                  else Inr (True, d\<lparr>runs_t := update_where (own_run c)
                         (\<lambda>r. r\<lparr>rn_lease_expires := now + heartbeat_seconds (sv_config sv), rn_updated := now\<rparr>)
                         (runs_t d)\<rparr>)))))"

definition count_check :: "(wst, nat) eff" where
  "count_check s = (Inr (Suc (w_checks s)), s\<lparr>w_checks := Suc (w_checks s)\<rparr>)"

text \<open>\<open>try: m except Exception: return False\<close>.\<close>

definition succeeds :: "('s, 'a) eff \<Rightarrow> ('s, bool) eff" where
  "succeeds m = ecatch (ebind m (\<lambda>_. eret True)) (\<lambda>_. eret False)"

definition step_key :: "svc \<Rightarrow> string \<Rightarrow> json \<Rightarrow> nat \<Rightarrow> string" where
  "step_key sv prefix v n = prefix @ take n (payload_hash (sv_host sv) v)"

definition safety_key :: "svc \<Rightarrow> dispatch_call \<Rightarrow> nat \<Rightarrow> string" where
  "safety_key sv call n =
     step_key sv ''dispatch-safety-'' (JObj [(''operation'', JStr (dc_key call))]) 40 @ ''-'' @ dec_nat n"

definition safety_check :: "wenv \<Rightarrow> dispatch_call \<Rightarrow> claim \<Rightarrow> (wst, bool) eff" where
  "safety_check env call c =
     ebind count_check (\<lambda>n.
     ebind (case dc_shutdown call of None \<Rightarrow> eret False | Some asked \<Rightarrow> asked) (\<lambda>closing.
       if closing then eret False
       else
         ebind (case dc_heartbeat call of None \<Rightarrow> eret True | Some beat \<Rightarrow> succeeds beat) (\<lambda>alive.
           if \<not> alive then eret False
           else
             ebind (if n > 1 then succeeds (probe_quota env (safety_key (we_svc env) call n) (cl_actor c)) else eret True)
               (\<lambda>observed.
                 if \<not> observed then eret False
                 else ebind (wclock env) (\<lambda>now. wtx env (safety_transaction (we_svc env) c now))))))"

section \<open>The run\<close>

record runner_result =
  rr_state :: run_state
  rr_stop :: "string option"
  rr_thread :: "string option"
  rr_turn :: "string option"

record run_request =
  rq_objective :: string
  rq_cwd :: string
  rq_model :: string
  rq_effort :: string
  rq_sandbox :: string
  rq_max_runtime :: int
  rq_poll :: int

text \<open>\<open>work_runner.run\<close>: the request, the safety check, the two notifications.\<close>

type_synonym 's runner =
  "run_request \<Rightarrow> ('s, bool) eff \<Rightarrow> (string \<Rightarrow> ('s, unit) eff) \<Rightarrow> (string \<Rightarrow> string \<Rightarrow> ('s, unit) eff)
   \<Rightarrow> ('s, runner_result) eff"

definition run_request_of :: "config \<Rightarrow> claim \<Rightarrow> run_request" where
  "run_request_of cfg c =
     (let pkg = cand_package (cl_selected c); x = wp_execution pkg in
      \<lparr>rq_objective = objective pkg, rq_cwd = cand_cwd (cl_selected c), rq_model = model x,
       rq_effort = effort x, rq_sandbox = sandbox x, rq_max_runtime = max_runtime_seconds x,
       rq_poll = cfg_dispatch_poll cfg\<rparr>)"

definition truthy_text :: "string option \<Rightarrow> bool" where
  "truthy_text t \<longleftrightarrow> t \<noteq> None \<and> t \<noteq> Some []"

definition failure_code :: "err \<Rightarrow> string" where
  "failure_code e = (case e of Sched c \<Rightarrow> c | PyExc _ \<Rightarrow> ''WORK_RUNNER_INTERNAL_FAILURE'')"

definition result_of_failure :: "string \<Rightarrow> run_row \<Rightarrow> runner_result" where
  "result_of_failure code r =
     \<lparr>rr_state = (if truthy_text (rn_turn r) then run_needs_review else run_failed), rr_stop = Some code,
      rr_thread = rn_thread r, rr_turn = rn_turn r\<rparr>"

text \<open>The runner's result, and the code of the error that it raised if it did.\<close>

definition run_work ::
    "wenv \<Rightarrow> wst runner \<Rightarrow> dispatch_call \<Rightarrow> claim \<Rightarrow> (wst, runner_result \<times> string option) eff" where
  "run_work env runner call c =
     ecatch
       (ebind (runner (run_request_of (sv_config (we_svc env)) c) (safety_check env call c)
                 (on_thread_started env c) (on_started env c)) (\<lambda>r. eret (r, None)))
       (\<lambda>e. ebind (wread env (get_run (cl_run c))) (\<lambda>row.
          eret (result_of_failure (failure_code e) row, Some (failure_code e))))"

section \<open>Does the run count?\<close>

definition window_overran :: "window \<Rightarrow> window \<Rightarrow> rat \<Rightarrow> rat \<Rightarrow> bool" where
  "window_overran final initial expected multiplier \<longleftrightarrow>
     resets_at final = resets_at initial
     \<and> max 0 (used_percent final - used_percent initial) > expected * multiplier"

definition usage_overran :: "snapshot \<Rightarrow> snapshot \<Rightarrow> usage \<Rightarrow> policy \<Rightarrow> bool" where
  "usage_overran final initial expected p \<longleftrightarrow>
     window_overran (five_hour final) (five_hour initial) (five_hour_percent expected) (estimate_multiplier p)
     \<or> window_overran (weekly final) (weekly initial) (weekly_percent expected) (estimate_multiplier p)"

definition to_review :: "string \<Rightarrow> runner_result \<Rightarrow> runner_result" where
  "to_review reason r = r\<lparr>rr_state := run_needs_review, rr_stop := Some reason\<rparr>"

text \<open>
  What the last snapshot says: the result, and whether an overrun was detected. Both snapshots were
  validated when they were stored.
\<close>

definition post_run_verdict ::
    "config \<Rightarrow> claim \<Rightarrow> json option \<Rightarrow> policy \<Rightarrow> decision \<Rightarrow> runner_result \<Rightarrow> (runner_result \<times> bool) res" where
  "post_run_verdict cfg c final p dec r =
     (case paid_credit_issues cfg final of
        i # _ \<Rightarrow> Inr (to_review i r, False)
      | [] \<Rightarrow>
          if \<not> eligible dec then Inr (to_review ''POST_RUN_RESERVE_BREACH'' r, False)
          else
            (case (cl_snapshot c, final) of
               (Some before, Some after) \<Rightarrow>
                 rbind (stored (validate_snapshot before)) (\<lambda>b.
                 rbind (stored (validate_snapshot after)) (\<lambda>a.
                   if usage_overran a b (expected_usage (wp_job (cand_package (cl_selected c)))) p
                   then Inr (to_review ''USAGE_ESTIMATE_OVERRUN'' r, True)
                   else Inr (r, False)))
             | _ \<Rightarrow> Inr (r, False)))"

definition final_key :: "svc \<Rightarrow> dispatch_call \<Rightarrow> string" where
  "final_key sv call =
     step_key sv ''dispatch-final-'' (JObj [(''operation'', JStr (dc_key call)), (''step'', JStr ''final-probe'')]) 48"

definition post_run ::
    "wenv \<Rightarrow> dispatch_call \<Rightarrow> claim \<Rightarrow> runner_result \<Rightarrow> (wst, runner_result \<times> bool) eff" where
  "post_run env call c r =
     (let cfg = sv_config (we_svc env) in
      if rr_state r \<noteq> run_succeeded then eret (r, False)
      else
        ecatch
          (ebind (probe_quota env (final_key (we_svc env) call) (cl_actor c)) (\<lambda>_.
           ebind (wread env (\<lambda>d. Inr (latest_snapshot d))) (\<lambda>final.
           ebind (wread env current_policy) (\<lambda>p.
           ebind (wclock env) (\<lambda>now.
           ebind (wread env (evaluate_current_policy cfg final p now None)) (\<lambda>dec.
             elift (post_run_verdict cfg c final p dec r)))))))
          (\<lambda>_. eret (to_review ''POST_RUN_SIGNAL_LOST'' r, False)))"

section \<open>Filing the outcome\<close>

definition coalesce :: "'a option \<Rightarrow> 'a option \<Rightarrow> 'a option" where
  "coalesce a b = (case a of None \<Rightarrow> b | Some x \<Rightarrow> Some x)"

definition finished_run :: "runner_result \<Rightarrow> rat \<Rightarrow> run_row \<Rightarrow> run_row" where
  "finished_run res now r = r\<lparr>rn_state := rr_state res, rn_thread := coalesce (rn_thread r) (rr_thread res),
     rn_turn := coalesce (rn_turn r) (rr_turn res), rn_updated := now, rn_completed := Some now,
     rn_stop_reason := rr_stop res\<rparr>"

definition dispatch_job_state :: "runner_result \<Rightarrow> job_state" where
  "dispatch_job_state r = (if rr_state r = run_succeeded then succeeded else needs_review)"

definition dispatch_result :: "claim \<Rightarrow> runner_result \<Rightarrow> bool \<Rightarrow> string \<Rightarrow> json" where
  "dispatch_result c r overrun event_id = JObj
     [(''approval_id'', JStr (cand_approval (cl_selected c))), (''job_id'', JStr (cl_job c)),
      (''live_dispatch'', JBool True), (''overrun_detected'', JBool overrun), (''run_id'', JStr (cl_run c)),
      (''state'', JStr (run_state_name (rr_state r))), (''stop_reason'', opt_str (rr_stop r)),
      (''thread_id'', opt_str (rr_thread r)), (''turn_id'', opt_str (rr_turn r)),
      (''audit_event_id'', JStr event_id)]"

text \<open>A run that does not count pauses a ready controller.\<close>

definition pause_after :: "runner_result \<Rightarrow> rat \<Rightarrow> db \<Rightarrow> db res" where
  "pause_after r now d =
     (if rr_state r = run_succeeded then Inr d
      else rbind (current_mode d) (\<lambda>m.
        Inr (if m = READY
             then set_controller PAUSED
                    (Some (if truthy_text (rr_stop r) then the (rr_stop r) else ''WORK_REVIEW_REQUIRED'')) now d
             else d)))"

definition finish_transaction ::
    "svc \<Rightarrow> dispatch_call \<Rightarrow> claim \<Rightarrow> runner_result \<Rightarrow> string option \<Rightarrow> bool \<Rightarrow> rat \<Rightarrow> db \<Rightarrow> (json \<times> db) res" where
  "finish_transaction sv call c r failure overrun now d =
     rbind (guard (row_count (own_run c) (runs_t d) = 1) ''RUN_CLAIM_LOST'') (\<lambda>_.
     rbind (pause_after r now (set_job_state (cl_job c) (dispatch_job_state r) now
              (d\<lparr>runs_t := update_where (own_run c) (finished_run r now) (runs_t d)\<rparr>))) (\<lambda>d1.
     rbind (audit sv (if failure = None then ''dispatch.completed'' else ''dispatch.failed'') (cl_actor c)
              (JObj [(''failure_code'', opt_str failure), (''job_id'', JStr (cl_job c)),
                     (''job_state'', JStr (job_state_name (dispatch_job_state r))),
                     (''overrun_detected'', JBool overrun), (''run_id'', JStr (cl_run c)),
                     (''state'', JStr (run_state_name (rr_state r))), (''stop_reason'', opt_str (rr_stop r)),
                     (''thread_id'', opt_str (rr_thread r)), (''turn_id'', opt_str (rr_turn r))]) now d1)
       (\<lambda>(event_id, d2).
       (let result = dispatch_result c r overrun event_id in
        Inr (result, d2\<lparr>idem_t := update_where (\<lambda>i. idem_key i = dc_key call)
               (\<lambda>i. i\<lparr>idem_result := result\<rparr>) (idem_t d2)\<rparr>)))))"

section \<open>The whole dispatch\<close>

definition reset_checks :: "(wst, unit) eff" where
  "reset_checks s = (Inr (), s\<lparr>w_checks := 0\<rparr>)"

definition claimed_dispatch ::
    "wenv \<Rightarrow> wst runner \<Rightarrow> dispatch_call \<Rightarrow> claim \<Rightarrow> (wst, command_result) eff" where
  "claimed_dispatch env runner call c =
     ethen reset_checks
    (ebind (run_work env runner call c) (\<lambda>(r, failure).
     ebind (post_run env call c r) (\<lambda>(r', overrun).
     ebind (wclock env) (\<lambda>finished_at.
     ebind (wtx env (finish_transaction (we_svc env) call c r' failure overrun finished_at)) (\<lambda>result.
       eret (result, False))))))"

text \<open>A stored result names its run; the current row of that run is added to the replay.\<close>

definition replayed_result :: "json \<Rightarrow> db \<Rightarrow> json res" where
  "replayed_result stored_value d =
     (case jgetn (obj_fields stored_value) ''run_id'' of
        JStr rid \<Rightarrow>
          if rid = [] then Inr stored_value
          else rbind (get_run rid d) (\<lambda>row.
            Inr (JObj (filter (\<lambda>kv. fst kv \<noteq> ''run'') (obj_fields stored_value) @ [(''run'', run_dict row)])))
      | _ \<Rightarrow> Inr stored_value)"

definition claim_owner :: "svc \<Rightarrow> dispatch_call \<Rightarrow> string" where
  "claim_owner sv call =
     (if truthy_text (dc_owner call) then the (dc_owner call)
      else step_key sv ''dispatch-'' (JObj [(''idempotency_key'', JStr (dc_key call))]) 48)"

definition preflight_key :: "svc \<Rightarrow> dispatch_call \<Rightarrow> string" where
  "preflight_key sv call =
     step_key sv ''dispatch-preflight-'' (JObj [(''operation'', JStr (dc_key call)), (''step'', JStr ''probe'')]) 48"

definition checked_candidate :: "preflight \<Rightarrow> string res" where
  "checked_candidate pf =
     rbind (guard (safe_to_dispatch pf) (first_issue (pf_issues pf))) (\<lambda>_.
       case pf_candidate pf of None \<Rightarrow> Inl (PyExc ''TypeError'') | Some c \<Rightarrow> Inr (cand_job c))"

text \<open>From the absence of a stored result to the claim.\<close>

definition dispatch_claim :: "wenv \<Rightarrow> dispatch_call \<Rightarrow> string \<Rightarrow> string \<Rightarrow> (wst, claim) eff" where
  "dispatch_claim env call who owner =
     ebind (case dc_shutdown call of None \<Rightarrow> eret False | Some asked \<Rightarrow> asked) (\<lambda>closing.
     ethen (eguard (\<not> closing) ''SERVICE_SHUTDOWN_REQUESTED'')
    (ethen (case dc_heartbeat call of None \<Rightarrow> eret () | Some beat \<Rightarrow> beat)
    (ebind (probe_quota env (preflight_key (we_svc env) call) who) (\<lambda>_.
     ebind (dispatch_preflight env (dc_job call)) (\<lambda>pf.
     ebind (elift (checked_candidate pf)) (\<lambda>jid.
     ebind (wclock env) (\<lambda>started_at.
     ebind (wid env ''run'') (\<lambda>rid.
     ebind (integrity env) (\<lambda>messages.
       wtx env (claim_transaction (we_svc env) call (check_passed messages) who started_at rid owner jid))))))))))"

definition dispatch_run :: "wenv \<Rightarrow> wst runner \<Rightarrow> dispatch_call \<Rightarrow> (wst, command_result) eff" where
  "dispatch_run env runner call =
     (let sv = we_svc env in
      ethen (elift (require_capability sv ''work.dispatch''))
     (ebind (elift (valid_actor (dc_actor call))) (\<lambda>who.
      ethen (elift (case dc_job call of None \<Rightarrow> Inr () | Some i \<Rightarrow> rbind (validate_identifier (JStr i)) (\<lambda>_. Inr ())))
     (ebind (elift (validate_identifier (JStr (claim_owner sv call)))) (\<lambda>owner.
      ebind (wread env (replay_idempotent (sv_host sv) (dc_key call) ''dispatch.run'' (dispatch_request call)))
        (\<lambda>replay.
        case replay of
          Some r \<Rightarrow> ebind (wread env (replayed_result r)) (\<lambda>v. eret (v, True))
        | None \<Rightarrow> ebind (dispatch_claim env call who owner) (claimed_dispatch env runner call)))))))"

end
