(* ===== verification/DispatchSafety.thy ===== *)
theory DispatchSafety
  imports Dispatch
begin

text \<open>
  What a dispatch guarantees. Only authorised, eligible work is claimed, and only when nothing else is
  active; at most one run is active whatever other controllers and dispatchers commit in between; a job
  counts as done only when the runner finished and the last probe left both reserves; a stored result is
  never run again. The runner is any function that touches the world through its callbacks only.
\<close>

section \<open>What is claimed\<close>

text \<open>The work package of a job as it is stored and approved, unchanged since, and due.\<close>

definition authorised_work :: "svc \<Rightarrow> rat \<Rightarrow> db \<Rightarrow> candidate \<Rightarrow> bool" where
  "authorised_work sv now d c \<longleftrightarrow>
     (\<exists>row pr a. row \<in> set (jobs_t d) \<and> jr_id row = cand_job c \<and> jr_state row \<in> set dispatchable_states
        \<and> authorisation d row = Some (pr, a) \<and> cand_approval c = jr_approval row
        \<and> grants_dispatch (appr_capabilities a)
        \<and> validate_work_package (pr_package pr) = Inr (cand_package c)
        \<and> package_hash_of sv (cand_package c) = pr_hash pr \<and> cand_hash c = pr_hash pr
        \<and> payload_hash (sv_host sv) (job_dict (wp_job (cand_package c))) = jr_manifest_hash row
        \<and> job_id (wp_job (cand_package c)) = cand_job c)
     \<and> resolve_workspace_cwd sv (cwd (wp_execution (cand_package c))) = Inr (cand_cwd c)
     \<and> (\<forall>t. not_before (cand_package c) = Some t \<longrightarrow> t \<le> now)
     \<and> (\<forall>x \<in> set (dependencies (cand_package c)). dependency_done d x)"

lemma stored_package_Some: "stored_package v = Inr (Some p) \<longleftrightarrow> validate_work_package v = Inr p"
  by (auto simp: stored_package_def split: sum.splits err.splits)

lemma package_cwd_Some: "package_cwd sv p = Inr (Some dir) \<longleftrightarrow> resolve_workspace_cwd sv (cwd (wp_execution p)) = Inr dir"
  by (auto simp: package_cwd_def split: sum.splits err.splits)

lemma package_issues_Nil:
  "package_issues sv now d row pr a pkg dir = [] \<longleftrightarrow>
     grants_dispatch (appr_capabilities a) \<and> package_hash_of sv pkg = pr_hash pr
     \<and> payload_hash (sv_host sv) (job_dict (wp_job pkg)) = jr_manifest_hash row
     \<and> job_id (wp_job pkg) = jr_id row \<and> dir \<noteq> None
     \<and> (\<forall>t. not_before pkg = Some t \<longrightarrow> t \<le> now) \<and> (\<forall>x \<in> set (dependencies pkg). dependency_done d x)"
  by (auto simp: package_issues_def list_all_iff split: option.splits)

lemma no_reasons_eligible:
  assumes "evaluate_current_policy cfg snap p now u d = Inr dec" and "reasons dec = []"
  shows "eligible dec"
  using assms
  by (auto simp: evaluate_current_policy_def invalid_signal_decision_def eligible_iff_no_reasons
      split: option.splits sum.splits err.splits if_splits)

lemma examine_row_Some:
  assumes "examine_row sv snap p now d row = Inr (issues, Some c)"
  shows "jr_state row \<in> set dispatchable_states \<and> cand_job c = jr_id row
    \<and> (\<exists>pr a. authorisation d row = Some (pr, a) \<and> cand_approval c = jr_approval row
        \<and> grants_dispatch (appr_capabilities a) \<and> validate_work_package (pr_package pr) = Inr (cand_package c)
        \<and> package_hash_of sv (cand_package c) = pr_hash pr \<and> cand_hash c = pr_hash pr
        \<and> payload_hash (sv_host sv) (job_dict (wp_job (cand_package c))) = jr_manifest_hash row
        \<and> job_id (wp_job (cand_package c)) = jr_id row)
    \<and> resolve_workspace_cwd sv (cwd (wp_execution (cand_package c))) = Inr (cand_cwd c)
    \<and> (\<forall>t. not_before (cand_package c) = Some t \<longrightarrow> t \<le> now)
    \<and> (\<forall>x \<in> set (dependencies (cand_package c)). dependency_done d x)
    \<and> bound_and_eligible (sv_config sv) snap p now (Some (expected_usage (wp_job (cand_package c)))) d"
proof -
  obtain pr a pkg dir dec where
      au: "authorisation d row = Some (pr, a)"
    and pkg: "validate_work_package (pr_package pr) = Inr pkg"
    and dir: "package_cwd sv pkg = Inr dir"
    and dec: "evaluate_current_policy (sv_config sv) snap p now (Some (expected_usage (wp_job pkg))) d = Inr dec"
    and none: "state_issues row = []" "package_issues sv now d row pr a pkg dir = []" "reasons dec = []"
    and c: "c = candidate_of row pr pkg dir dec"
    using assms
    by (auto simp: examine_row_def Let_def stored_package_Some split: option.splits if_splits)
  from none(2) obtain x where x: "dir = Some x" by (auto simp: package_issues_Nil)
  have "resolve_workspace_cwd sv (cwd (wp_execution pkg)) = Inr x"
    using dir x package_cwd_Some by blast
  with none(2) pkg au show ?thesis
    using none(1) evaluate_current_policy_eligible [OF dec no_reasons_eligible [OF dec none(3)]]
    by (simp add: c x candidate_of_def package_issues_Nil state_issues_def)
qed

lemma select_rows_Some:
  assumes "select_rows sv snap p now single d rows issues = Inr (Some c, rest)"
  shows "\<exists>row issues'. row \<in> set rows \<and> examine_row sv snap p now d row = Inr (issues', Some c)"
  using assms
proof (induction rows arbitrary: issues)
  case (Cons row rows)
  then obtain found x where e: "examine_row sv snap p now d row = Inr (found, x)" by auto
  show ?case
  proof (cases x)
    case (Some y)
    with Cons.prems e show ?thesis by auto
  next
    case None
    with Cons.prems e have "select_rows sv snap p now single d rows (issues @ found) = Inr (Some c, rest)"
      by (auto split: if_splits)
    from Cons.IH [OF this] show ?thesis by auto
  qed
qed simp

lemma select_dispatch_candidate_Some:
  assumes "select_dispatch_candidate sv now jid d = Inr (Some c, issues)"
  shows "authorised_work sv now d c \<and> (\<forall>i. jid = Some i \<longrightarrow> cand_job c = i)
    \<and> (\<exists>p. policy_in d = Inr p
         \<and> bound_and_eligible (sv_config sv) (latest_snapshot d) p now (Some (expected_usage (wp_job (cand_package c)))) d)"
proof -
  obtain p rest where p: "policy_in d = Inr p"
    and sel: "select_rows sv (latest_snapshot d) p now (jid \<noteq> None) d (dispatch_rows jid d) [] = Inr (Some c, rest)"
    using assms by (auto simp: select_dispatch_candidate_def Let_def split: if_splits option.splits)
  from select_rows_Some [OF sel] obtain row issues' where
    row: "row \<in> set (dispatch_rows jid d)" "examine_row sv (latest_snapshot d) p now d row = Inr (issues', Some c)"
    by blast
  from row(1) have mem: "row \<in> set (jobs_t d)" "\<forall>i. jid = Some i \<longrightarrow> jr_id row = i"
    by (auto simp: dispatch_rows_def)
  from examine_row_Some [OF row(2)] obtain pr a where e: "jr_state row \<in> set dispatchable_states" "cand_job c = jr_id row"
      "authorisation d row = Some (pr, a)" "cand_approval c = jr_approval row"
      "grants_dispatch (appr_capabilities a)" "validate_work_package (pr_package pr) = Inr (cand_package c)"
      "package_hash_of sv (cand_package c) = pr_hash pr" "cand_hash c = pr_hash pr"
      "payload_hash (sv_host sv) (job_dict (wp_job (cand_package c))) = jr_manifest_hash row"
      "job_id (wp_job (cand_package c)) = jr_id row"
      "resolve_workspace_cwd sv (cwd (wp_execution (cand_package c))) = Inr (cand_cwd c)"
      "\<forall>t. not_before (cand_package c) = Some t \<longrightarrow> t \<le> now"
      "\<forall>x \<in> set (dependencies (cand_package c)). dependency_done d x"
      "bound_and_eligible (sv_config sv) (latest_snapshot d) p now (Some (expected_usage (wp_job (cand_package c)))) d"
    by blast
  have "authorised_work sv now d c"
    unfolding authorised_work_def
    by (intro conjI exI [of _ row] exI [of _ pr] exI [of _ a]) (use e mem in simp_all)
  then show ?thesis
    using e(2,14) mem(2) p by auto
qed

text \<open>Nothing forbids a run: no other run or lease, no guard that holds or needs review.\<close>

definition nothing_blocks :: "db \<Rightarrow> bool" where
  "nothing_blocks d \<longleftrightarrow> ready d \<and> active_runs d = [] \<and> active_leases d = []
     \<and> (\<forall>s \<in> set (sessions_t d). gs_state s \<in> {ARMED, DISARMED})"

lemma guard_states_free:
  assumes "NEEDS_REVIEW \<notin> set (map gs_state (filter (\<lambda>s. gs_state s \<noteq> DISARMED) ss))"
    and "set (map gs_state (filter (\<lambda>s. gs_state s \<noteq> DISARMED) ss)) \<inter> set guard_holding = {}"
  shows "\<forall>s \<in> set ss. gs_state s \<in> {ARMED, DISARMED}"
proof
  fix s assume "s \<in> set ss"
  with assms show "gs_state s \<in> {ARMED, DISARMED}"
    by (cases "gs_state s") (force simp: guard_holding_def)+
qed

lemma claim_guards_Inr:
  assumes "claim_guards sv intact now jid d = Inr c"
  shows "valid (verify_audit (sv_host sv) d) \<and> intact \<and> nothing_blocks d
    \<and> paid_credit_issues (sv_config sv) (latest_snapshot d) = []
    \<and> (\<exists>issues. select_dispatch_candidate sv now (Some jid) d = Inr (Some c, issues))"
proof -
  let ?sts = "set (map gs_state (filter (\<lambda>s. gs_state s \<noteq> DISARMED) (sessions_t d)))"
  obtain cand issues where *: "valid (verify_audit (sv_host sv) d)" "intact" "ready d" "NEEDS_REVIEW \<notin> ?sts"
      "?sts \<inter> set guard_holding = {}" "active_runs d = []" "active_leases d = []"
      "select_dispatch_candidate sv now (Some jid) d = Inr (cand, issues)"
      "(case cand of None \<Rightarrow> Inl (Sched (first_issue issues))
        | Some c \<Rightarrow> (case paid_credit_issues (sv_config sv) (latest_snapshot d) of
               [] \<Rightarrow> Inr c | i # _ \<Rightarrow> Inl (Sched i))) = Inr c"
    using assms unfolding claim_guards_def Let_def rbind_Inr_iff guard_Inr current_mode_def ready_def
    by (auto split: option.splits)
  from *(9) have "paid_credit_issues (sv_config sv) (latest_snapshot d) = [] \<and> cand = Some c"
    by (auto split: option.splits list.splits)
  with * guard_states_free [OF *(4,5)] show ?thesis by (simp add: nothing_blocks_def)
qed

lemma record_idempotent_bound:
  assumes "record_idempotent h key command request result now d = Inr d'"
  shows "bound_key h key command request result d' \<and> (\<exists>x. d' = d\<lparr>idem_t := x\<rparr>)"
proof -
  have k: "valid_key key" "key \<notin> set (map idem_key (idem_t d))"
    and d': "d' = d\<lparr>idem_t := idem_t d @ [\<lparr>idem_key = key, idem_command = command,
              idem_request_hash = payload_hash h request, idem_result = result, idem_created = now\<rparr>]\<rparr>"
    using assms by (auto simp: record_idempotent_def split: if_splits)
  have "fetchone (\<lambda>r. idem_key r = key) (idem_t d) = None"
    using k(2) by (auto simp: fetchone_None)
  from fetchone_append_None [OF this] k d' show ?thesis by (auto simp: bound_key_def)
qed

lemma claim_writes_Inr:
  assumes "claim_writes sv call who now rid owner jid c d = Inr (cl, d')"
  shows "cl = \<lparr>cl_run = rid, cl_owner = owner, cl_actor = who, cl_selected = c, cl_snapshot = latest_snapshot d\<rparr>
    \<and> (\<exists>ev i. d' = d\<lparr>jobs_t := update_where (claimable jid) (\<lambda>r. r\<lparr>jr_state := running, jr_updated := now\<rparr>) (jobs_t d),
             runs_t := runs_t d @ [new_run rid jid owner now (now + heartbeat_seconds (sv_config sv))],
             audit_t := audit_t d @ [ev], idem_t := i\<rparr>)
    \<and> (\<exists>res. bound_key (sv_host sv) (dc_key call) ''dispatch.run'' (dispatch_request call) res d')"
proof -
  let ?d = "d\<lparr>jobs_t := update_where (claimable jid) (\<lambda>r. r\<lparr>jr_state := running, jr_updated := now\<rparr>) (jobs_t d),
             runs_t := runs_t d @ [new_run rid jid owner now (now + heartbeat_seconds (sv_config sv))]\<rparr>"
  obtain i det d2 res where a: "audit sv ''dispatch.claimed'' who det now ?d = Inr (i, d2)"
    and rec: "record_idempotent (sv_host sv) (dc_key call) ''dispatch.run'' (dispatch_request call) res now d2 = Inr d'"
    and cl: "cl = \<lparr>cl_run = rid, cl_owner = owner, cl_actor = who, cl_selected = c, cl_snapshot = latest_snapshot d\<rparr>"
    using assms by (auto simp: claim_writes_def insert_run_def split: if_splits)
  from audit_frame [OF a] obtain ev where d2: "d2 = ?d\<lparr>audit_t := audit_t d @ [ev]\<rparr>" by auto
  from record_idempotent_bound [OF rec] obtain x where x: "d' = d2\<lparr>idem_t := x\<rparr>"
    and bound: "bound_key (sv_host sv) (dc_key call) ''dispatch.run'' (dispatch_request call) res d'" by blast
  show ?thesis
    using cl bound x d2
    by (intro conjI exI [of _ ev] exI [of _ x] exI [of _ res]) (assumption | hypsubst, simp)+
qed

lemma claim_writes_job:
  assumes "claim_writes sv call who now rid owner jid c d = Inr (cl, d')"
  shows "\<exists>r \<in> set (jobs_t d'). jr_id r = jid \<and> jr_state r = running"
proof -
  have "row_count (claimable jid) (jobs_t d) = 1"
    using assms by (auto simp: claim_writes_def)
  then have "row_count (claimable jid) (jobs_t d) \<noteq> 0" by linarith
  then obtain q where "q \<in> set (jobs_t d)" "claimable jid q" by auto
  moreover have "jobs_t d' = update_where (claimable jid) (\<lambda>r. r\<lparr>jr_state := running, jr_updated := now\<rparr>) (jobs_t d)"
    using claim_writes_Inr [OF assms] by auto
  ultimately show ?thesis
    by (intro bexI [of _ "q\<lparr>jr_state := running, jr_updated := now\<rparr>"]) (force simp: claimable_def in_update_where)+
qed

text \<open>
  C3. Only authorised work is claimed. When the claim transaction of a dispatch commits, the audit chain
  verified and the database was intact, the controller was ready, no run, no simulation lease and no
  holding guard existed; the claimed job has an approved proposal whose package still hashes to what was
  approved and to its manifest, an approval that grants dispatch, a directory inside the workspace, no
  pending start time or dependency, and an eligible decision for the bound account without any
  paid-credit concern. Afterwards its run is the only active one, the job is running, and the
  idempotency key is bound.
\<close>

theorem dispatch_claims_authorised_work:
  assumes "claim_transaction sv call intact who now rid owner jid d = Inr (cl, d')"
  shows "valid (verify_audit (sv_host sv) d) \<and> intact \<and> nothing_blocks d
    \<and> cl_job cl = jid \<and> authorised_work sv now d (cl_selected cl)
    \<and> paid_credit_issues (sv_config sv) (latest_snapshot d) = []
    \<and> (\<exists>p. policy_in d = Inr p \<and> bound_and_eligible (sv_config sv) (latest_snapshot d) p now
          (Some (expected_usage (wp_job (cand_package (cl_selected cl))))) d)
    \<and> active_runs d' = [new_run rid jid owner now (now + heartbeat_seconds (sv_config sv))]
    \<and> (\<exists>r \<in> set (jobs_t d'). jr_id r = jid \<and> jr_state r = running)
    \<and> (\<forall>r \<in> set (jobs_t d'). \<not> claimable jid r)
    \<and> (\<exists>r. bound_key (sv_host sv) (dc_key call) ''dispatch.run'' (dispatch_request call) r d')"
proof -
  obtain c where g: "claim_guards sv intact now jid d = Inr c"
    and w: "claim_writes sv call who now rid owner jid c d = Inr (cl, d')"
    using assms by (auto simp: claim_transaction_def)
  from claim_guards_Inr [OF g] obtain issues where
    s: "select_dispatch_candidate sv now (Some jid) d = Inr (Some c, issues)" by blast
  note f = claim_writes_Inr [OF w]
  then obtain ev i where d': "d' = d\<lparr>jobs_t := update_where (claimable jid) (\<lambda>r. r\<lparr>jr_state := running, jr_updated := now\<rparr>) (jobs_t d),
             runs_t := runs_t d @ [new_run rid jid owner now (now + heartbeat_seconds (sv_config sv))],
             audit_t := audit_t d @ [ev], idem_t := i\<rparr>" by blast
  note k = claim_guards_Inr [OF g]
  then have "active_runs d = []" by (simp add: nothing_blocks_def)
  then have "active_runs d' = [new_run rid jid owner now (now + heartbeat_seconds (sv_config sv))]"
    by (simp add: d' active_runs_def new_run_def)
  moreover have jobs: "jobs_t d' = update_where (claimable jid) (\<lambda>r. r\<lparr>jr_state := running, jr_updated := now\<rparr>) (jobs_t d)"
    by (simp add: d')
  have "\<forall>r \<in> set (jobs_t d'). \<not> claimable jid r"
  proof
    fix r assume "r \<in> set (jobs_t d')"
    from update_where_cases [OF this [unfolded jobs]] show "\<not> claimable jid r"
      by (elim disjE bexE conjE) (simp_all add: claimable_def dispatchable_states_def)
  qed
  moreover have "cl_selected cl = c" using f by simp
  moreover have "cl_job cl = jid"
    using f select_dispatch_candidate_Some [OF s] by (simp add: cl_job_def)
  ultimately show ?thesis
    using k f select_dispatch_candidate_Some [OF s] claim_writes_job [OF w] by (elim conjE) (intro conjI; simp)
qed

section \<open>Runs exclude each other\<close>

definition one_run :: "db \<Rightarrow> bool" where
  "one_run d \<longleftrightarrow> length (active_runs d) \<le> 1"

definition runs_exclude :: "db \<Rightarrow> db \<Rightarrow> bool" where
  "runs_exclude d d' \<longleftrightarrow> (one_run d \<longrightarrow> one_run d')"

lemma one_run_same: "active_runs d' = active_runs d \<Longrightarrow> one_run d' = one_run d"
  by (simp add: one_run_def)

lemma runs_exclude_fewer: "length (active_runs d') \<le> length (active_runs d) \<Longrightarrow> runs_exclude d d'"
  by (simp add: runs_exclude_def one_run_def)

lemma active_runs_cong: "runs_t d' = runs_t d \<Longrightarrow> active_runs d' = active_runs d"
  by (simp add: active_runs_def)

interpretation run_exclusion: command_rel runs_exclude
  by unfold_locales (auto simp: runs_exclude_def one_run_def active_runs_def)

lemma probe_operation_runs:
  assumes "probe_operation sv who now i s d = Inr (r, e)"
  shows "runs_t e = runs_t d"
proof -
  obtain c d1 sn ev where "bind_account (sv_config sv) s d = Inr (c, d1)" "e = d1\<lparr>snapshots_t := sn, audit_t := ev\<rparr>"
    using probe_operation_Inr [OF assms] by blast
  then show ?thesis by (auto simp: bind_account_def split: option.splits if_splits)
qed

lemma probe_exclusive: "probe_operation sv who now i s d = Inr (r, e) \<Longrightarrow> runs_exclude d e"
  by (drule probe_operation_runs) (simp add: runs_exclude_fewer active_runs_def)

lemma claim_exclusive:
  assumes "claim_transaction sv call intact who now rid owner jid d = Inr (cl, d')"
  shows "runs_exclude d d'"
proof -
  obtain c where g: "claim_guards sv intact now jid d = Inr c"
    and w: "claim_writes sv call who now rid owner jid c d = Inr (cl, d')"
    using assms by (auto simp: claim_transaction_def)
  from claim_writes_Inr [OF w] obtain x where "runs_t d' = runs_t d @ [new_run rid jid owner now x]" by auto
  then have "active_runs d' = active_runs d @ [new_run rid jid owner now x]"
    by (simp add: active_runs_def new_run_def)
  with claim_guards_Inr [OF g] show ?thesis
    by (simp add: runs_exclude_def one_run_def nothing_blocks_def)
qed

lemma update_runs_exclusive:
  assumes "runs_t d' = update_where Q f (runs_t d)"
    and "\<And>r. Q r \<Longrightarrow> rn_state (f r) \<in> {run_starting, run_running} \<Longrightarrow> rn_state r \<in> {run_starting, run_running}"
  shows "runs_exclude d d'"
  by (rule runs_exclude_fewer) (unfold active_runs_def assms(1), rule filter_update_length, rule assms(2))

lemma started_exclusive:
  assumes "started_transaction sv c ev det change now d = Inr (u, d')"
    and "\<And>r. rn_state r = run_starting \<Longrightarrow> rn_state (change r) \<in> {run_starting, run_running}"
  shows "runs_exclude d d'"
proof (rule update_runs_exclusive)
  show "runs_t d' = update_where (own_starting c) change (runs_t d)"
    using assms(1) by (auto simp: started_transaction_def dest!: audit_frame)
qed (simp add: own_starting_def)

lemma callbacks_exclusive:
  "thread_transaction sv c t now d = Inr (u, d') \<Longrightarrow> runs_exclude d d'"
  "turn_transaction sv c t v now d = Inr (u, d') \<Longrightarrow> runs_exclude d d'"
  unfolding thread_transaction_def turn_transaction_def by (erule started_exclusive; simp)+

lemma safety_exclusive:
  assumes "safety_transaction sv c now d = Inr (b, d')"
  shows "runs_exclude d d'"
proof (cases "d' = d")
  case False
  with assms obtain t where "runs_t d' = update_where (own_run c) (\<lambda>r. r\<lparr>rn_lease_expires := t, rn_updated := now\<rparr>) (runs_t d)"
    by (auto simp: safety_transaction_def split: if_splits option.splits)
  then show ?thesis by (rule update_runs_exclusive) simp
qed (simp add: runs_exclude_def)

definition ended :: "runner_result \<Rightarrow> bool" where
  "ended r \<longleftrightarrow> rr_state r \<notin> {run_starting, run_running}"

lemma pause_after_runs: "pause_after r now d = Inr d' \<Longrightarrow> runs_t d' = runs_t d \<and> jobs_t d' = jobs_t d"
  by (auto simp: pause_after_def set_controller_def split: if_splits)

lemma finish_runs:
  assumes "finish_transaction sv call c r failure overrun now d = Inr (v, d')"
  shows "runs_t d' = update_where (own_run c) (finished_run r now) (runs_t d)"
  using assms
  by (auto simp: finish_transaction_def Let_def set_job_state_def dest!: audit_frame pause_after_runs)

lemma finish_exclusive:
  assumes "finish_transaction sv call c r failure overrun now d = Inr (v, d')" and "ended r"
  shows "runs_exclude d d'"
  using finish_runs [OF assms(1)] by (rule update_runs_exclusive) (use assms(2) in \<open>simp add: finished_run_def ended_def\<close>)

text \<open>
  The interface of the work runner: it reaches the database through its callbacks only, so whatever
  relation they keep it keeps, and it never reports a run that is still going.
\<close>

locale callback_runner =
  fixes runner :: "wst runner"
  assumes only_callbacks: "step_rel R K \<Longrightarrow> step_rel.keeps R K safe_now
      \<Longrightarrow> (\<And>t. step_rel.keeps R K (thread_known t)) \<Longrightarrow> (\<And>t u. step_rel.keeps R K (turn_known t u))
      \<Longrightarrow> step_rel.keeps R K (runner rq safe_now thread_known turn_known)"
    and stops: "fst (runner rq safe_now thread_known turn_known s) = Inr r \<Longrightarrow> ended r"

lemma ended_review [simp]: "ended (to_review reason r)"
  by (simp add: ended_def to_review_def)

lemma ended_failure [simp]: "ended (result_of_failure code row)"
  by (simp add: ended_def result_of_failure_def)

lemma post_run_verdict_ended:
  "post_run_verdict cfg c final p dec r = Inr (r', b) \<Longrightarrow> ended r \<Longrightarrow> ended r'"
  by (auto simp: post_run_verdict_def split: list.splits if_splits option.splits)

lemma post_run_ended:
  assumes "fst (post_run env call c r s) = Inr (r', b)" and "ended r"
  shows "ended r'"
  using assms post_run_verdict_ended
  by (auto simp: post_run_def Let_def eff_defs split: if_splits sum.splits prod.splits)

context callback_runner begin

lemma stopped: "runner rq safe_now thread_known turn_known s = (Inr r, s') \<Longrightarrow> ended r"
  using stops [of rq safe_now thread_known turn_known s r] by simp

lemma run_work_ended:
  assumes "fst (run_work env runner call c s) = Inr (r, failure)"
  shows "ended r"
  using assms stopped by (auto simp: run_work_def eff_defs split: sum.splits prod.splits)

end

text \<open>The callbacks that a call brings (the supervisor's heartbeat and shutdown flag) keep a relation.\<close>

definition call_keeps :: "(db \<Rightarrow> db \<Rightarrow> bool) \<Rightarrow> dispatch_call \<Rightarrow> bool" where
  "call_keeps R call \<longleftrightarrow>
     (\<forall>beat s. dc_heartbeat call = Some beat \<longrightarrow> R (w_db s) (w_db (snd (beat s))))
     \<and> (\<forall>asked s. dc_shutdown call = Some asked \<longrightarrow> R (w_db s) (w_db (snd (asked s))))"

text \<open>
  The interface of a relation that each transaction of a dispatch keeps, in a world whose other processes
  keep it too: then the whole dispatch keeps it, whatever the runner does between its callbacks.
\<close>

locale dispatch_rel = rel: db_rel R "\<lambda>_. True" env + command: command_rel R + callback_runner runner
  for R :: "db \<Rightarrow> db \<Rightarrow> bool" and env :: wenv and runner :: "wst runner" +
  assumes probe_step: "probe_operation (we_svc env) who now i m d = Inr (r, e) \<Longrightarrow> R d e"
    and claim_step: "claim_transaction (we_svc env) call ok who now rid owner jid d = Inr (cl, d') \<Longrightarrow> R d d'"
    and thread_step: "thread_transaction (we_svc env) c t now d = Inr (u, d') \<Longrightarrow> R d d'"
    and turn_step: "turn_transaction (we_svc env) c t v now d = Inr (u, d') \<Longrightarrow> R d d'"
    and safety_step: "safety_transaction (we_svc env) c now d = Inr (b, d') \<Longrightarrow> R d d'"
    and finish_step: "finish_transaction (we_svc env) call c r' failure overrun now d = Inr (j, d') \<Longrightarrow> ended r' \<Longrightarrow> R d d'"
begin

lemma keeps_same_db [keeps_intros]: "rel.lifted.keeps count_check" "rel.lifted.keeps reset_checks"
  by (auto simp: rel.lifted.keeps_def count_check_def reset_checks_def rel.refl)

lemma keeps_call:
  assumes "call_keeps R call"
  shows "dc_heartbeat call = Some beat \<Longrightarrow> rel.lifted.keeps beat" "dc_shutdown call = Some asked \<Longrightarrow> rel.lifted.keeps asked"
  using assms by (auto simp: call_keeps_def rel.lifted.keeps_def)

lemma keeps_shutdown:
  "call_keeps R call \<Longrightarrow> rel.lifted.keeps (case dc_shutdown call of None \<Rightarrow> eret False | Some asked \<Rightarrow> asked)"
  by (auto split: option.split intro: keeps_intros keeps_call)

lemma keeps_succeeds [keeps_intros]: "rel.lifted.keeps m \<Longrightarrow> rel.lifted.keeps (succeeds m)"
  unfolding succeeds_def by (intro keeps_intros)

lemma keeps_probe [keeps_intros]: "rel.lifted.keeps (probe_quota env key who)"
  unfolding probe_quota_def Let_def
  by (intro keeps_intros rel.lifted_wtx) (rule command.execute_keeps [OF probe_step])

lemma keeps_callbacks:
  "rel.lifted.keeps (on_thread_started env c t)" "rel.lifted.keeps (on_started env c t u)"
  unfolding on_thread_started_def on_started_def
  by (intro keeps_intros rel.lifted_wtx; erule thread_step turn_step)+

lemma keeps_beat:
  "call_keeps R call \<Longrightarrow> rel.lifted.keeps (case dc_heartbeat call of None \<Rightarrow> eret True | Some beat \<Rightarrow> succeeds beat)"
  "call_keeps R call \<Longrightarrow> rel.lifted.keeps (case dc_heartbeat call of None \<Rightarrow> eret () | Some beat \<Rightarrow> beat)"
  by (auto split: option.split intro: keeps_intros keeps_call)

lemmas plain_intros = rel.lifted.keeps_ebind rel.lifted.keeps_if rel.lifted.keeps_eret rel.lifted.keeps_elift
  rel.lifted.keeps_eguard rel.lifted.keeps_case_prod rel.lifted_wclock rel.lifted_wid rel.lifted_wobserve rel.lifted_integrity
  rel.lifted_wread keeps_same_db keeps_probe keeps_succeeds rel.lifted_wtx

lemma keeps_safety_check:
  assumes "call_keeps R call"
  shows "rel.lifted.keeps (safety_check env call c)"
  unfolding safety_check_def
  by (intro plain_intros keeps_shutdown [OF assms] keeps_beat [OF assms]) (erule safety_step)

lemma keeps_run_work:
  assumes "call_keeps R call"
  shows "rel.lifted.keeps (run_work env runner call c)"
  unfolding run_work_def
  by (intro plain_intros rel.lifted.keeps_ecatch only_callbacks keeps_safety_check [OF assms] keeps_callbacks)
     unfold_locales

lemma keeps_post_run: "rel.lifted.keeps (post_run env call c r)"
  unfolding post_run_def Let_def by (intro plain_intros rel.lifted.keeps_ecatch)

lemma keeps_claimed_dispatch:
  assumes "call_keeps R call"
  shows "rel.lifted.keeps (claimed_dispatch env runner call c)"
proof -
  have finish: "rel.lifted.keeps (ebind (wclock env) (\<lambda>t.
      ebind (wtx env (finish_transaction (we_svc env) call c r failure overrun t)) (\<lambda>v. eret (v, False))))"
    if "ended r" for r failure overrun
    by (intro plain_intros) (erule finish_step, rule that)
  have post: "rel.lifted.keeps (ebind (post_run env call c r) (\<lambda>(r', overrun). ebind (wclock env) (\<lambda>t.
      ebind (wtx env (finish_transaction (we_svc env) call c r' failure overrun t)) (\<lambda>v. eret (v, False)))))"
    if "ended r" for r failure
  proof (rule rel.lifted.keeps_ebind_yields [OF keeps_post_run])
    show "rel.lifted.yields (post_run env call c r) (\<lambda>x. ended (fst x))"
      using post_run_ended [OF _ that] by (intro rel.lifted.yieldsI) (metis prod.collapse)
  qed (auto simp: case_prod_beta intro: finish)
  show ?thesis
    unfolding claimed_dispatch_def
  proof (rule rel.lifted.keeps_ebind [OF keeps_same_db(2)], rule rel.lifted.keeps_ebind_yields [OF keeps_run_work [OF assms]])
    show "rel.lifted.yields (run_work env runner call c) (\<lambda>x. ended (fst x))"
      using run_work_ended by (intro rel.lifted.yieldsI) (metis prod.collapse)
  qed (auto intro: post)
qed

lemma keeps_preflight: "rel.lifted.keeps (dispatch_preflight env jid)"
  unfolding dispatch_preflight_def Let_def by (intro plain_intros)

lemma keeps_dispatch_claim:
  assumes "call_keeps R call"
  shows "rel.lifted.keeps (dispatch_claim env call who owner)"
  unfolding dispatch_claim_def
  by (intro plain_intros keeps_shutdown [OF assms] keeps_beat [OF assms] keeps_preflight) (erule claim_step)

lemma keeps_dispatch_run:
  assumes "call_keeps R call"
  shows "rel.lifted.keeps (dispatch_run env runner call)"
  unfolding dispatch_run_def Let_def
  by (intro plain_intros rel.lifted.keeps_case_option keeps_dispatch_claim [OF assms] keeps_claimed_dispatch [OF assms])

lemma dispatch_keeps: "call_keeps R call \<Longrightarrow> R (w_db s) (w_db (snd (dispatch_run env runner call s)))"
  by (rule rel.lifted.keepsD [OF keeps_dispatch_run]) simp_all

end

text \<open>The world of the runs: other processes that keep them exclusive, and a runner.\<close>

abbreviation call_starts_no_run :: "dispatch_call \<Rightarrow> bool" where
  "call_starts_no_run \<equiv> call_keeps runs_exclude"

locale dispatch_world = runs: db_rel runs_exclude "\<lambda>_. True" env + callback_runner runner
  for env :: wenv and runner :: "wst runner"

sublocale dispatch_world \<subseteq> exclusive: dispatch_rel runs_exclude env runner
  by unfold_locales
    (erule run_exclusion.idem probe_exclusive claim_exclusive callbacks_exclusive safety_exclusive finish_exclusive, assumption?)+

context dispatch_world begin

lemma dispatch_keeps_one_run:
  assumes "call_starts_no_run call" and "one_run (w_db s)"
  shows "one_run (w_db (snd (dispatch_run env runner call s)))"
  using exclusive.dispatch_keeps [OF assms(1), of s] assms(2) by (simp add: runs_exclude_def)

end

section \<open>Concurrent dispatchers\<close>

text \<open>
  What another dispatcher can commit: any transaction of a dispatch, for any call, claim and result and
  in any order; or another command of the controller.
\<close>

datatype dispatcher =
    D_command peer
  | D_probe string rat string snapshot
  | D_claim dispatch_call bool string rat string string string
  | D_thread claim string rat
  | D_turn claim string string rat
  | D_safety claim rat
  | D_finish dispatch_call claim runner_result "string option" bool rat

fun dispatcher_step :: "svc \<Rightarrow> dispatcher \<Rightarrow> db \<Rightarrow> db" where
  "dispatcher_step sv (D_command p) d = peer_step sv p d"
| "dispatcher_step sv (D_probe who now i m) d = snd (transact (probe_operation sv who now i m) d)"
| "dispatcher_step sv (D_claim call intact who now rid owner jid) d =
     snd (transact (claim_transaction sv call intact who now rid owner jid) d)"
| "dispatcher_step sv (D_thread c t now) d = snd (transact (thread_transaction sv c t now) d)"
| "dispatcher_step sv (D_turn c t u now) d = snd (transact (turn_transaction sv c t u now) d)"
| "dispatcher_step sv (D_safety c now) d = snd (transact (safety_transaction sv c now) d)"
| "dispatcher_step sv (D_finish call c r failure overrun now) d =
     (if ended r then snd (transact (finish_transaction sv call c r failure overrun now) d) else d)"

definition with_dispatchers :: "wenv \<Rightarrow> (nat \<Rightarrow> dispatcher) \<Rightarrow> wenv" where
  "with_dispatchers env sched = env\<lparr>we_others := (\<lambda>n. dispatcher_step (we_svc env) (sched n))\<rparr>"

lemma exclusive_transact: "(\<And>x e. body d = Inr (x, e) \<Longrightarrow> runs_exclude d e) \<Longrightarrow> runs_exclude d (snd (transact body d))"
  by (auto simp: transact_def runs_exclude_def split: sum.splits)

lemma exclusive_dispatcher: "runs_exclude d (dispatcher_step sv p d)"
proof (cases p)
  case (D_command q)
  then show ?thesis
    using framed_active(2) [OF framed_peer_step] by (simp add: runs_exclude_fewer)
next
  case (D_finish call c r failure overrun now)
  then show ?thesis
    by (auto intro!: exclusive_transact elim: finish_exclusive simp: runs_exclude_def [of d d])
qed (auto intro!: exclusive_transact intro: probe_exclusive claim_exclusive callbacks_exclusive safety_exclusive)

section \<open>What counts as done\<close>

text \<open>The last snapshot of a run that counts: no paid-credit concern, both reserves, no overrun.\<close>

definition run_counts :: "config \<Rightarrow> claim \<Rightarrow> json option \<Rightarrow> policy \<Rightarrow> decision \<Rightarrow> bool" where
  "run_counts cfg c final p dec \<longleftrightarrow>
     paid_credit_issues cfg final = [] \<and> eligible dec
     \<and> (\<forall>v w b a. cl_snapshot c = Some v \<and> final = Some w \<and> validate_snapshot v = Inr b \<and> validate_snapshot w = Inr a \<longrightarrow>
          \<not> usage_overran a b (expected_usage (wp_job (cand_package (cl_selected c)))) p)"

lemma rr_state_review [simp]: "rr_state (to_review reason r) = run_needs_review"
  by (simp add: to_review_def)

lemma post_run_verdict_succeeded:
  assumes "post_run_verdict cfg c final p dec r = Inr (r', b)" and "rr_state r' = run_succeeded"
  shows "r' = r \<and> run_counts cfg c final p dec"
  using assms by (auto simp: post_run_verdict_def run_counts_def split: list.splits if_splits option.splits)

lemma post_run_succeeded:
  assumes "post_run env call c r s = (Inr (r', b), s')" and "rr_state r' = run_succeeded"
  shows "r' = r \<and> (\<exists>final p dec now d. run_counts (sv_config (we_svc env)) c final p dec
    \<and> evaluate_current_policy (sv_config (we_svc env)) final p now None d = Inr dec)"
proof -
  have "rr_state r = run_succeeded"
    using assms by (cases "rr_state r = run_succeeded") (auto simp: post_run_def eff_defs)
  then obtain final p dec now d where
    "evaluate_current_policy (sv_config (we_svc env)) final p now None d = Inr dec"
    "post_run_verdict (sv_config (we_svc env)) c final p dec r = Inr (r', b)"
    using assms
    by (auto simp: post_run_def Let_def wstep_defs eff_defs to_review_def split: sum.splits prod.splits)
  with post_run_verdict_succeeded [OF this(2) assms(2)] show ?thesis by blast
qed

lemma run_work_succeeded:
  assumes "run_work env runner call c s = (Inr (r, failure), s')" and "rr_state r = run_succeeded"
  shows "\<exists>t. fst (runner (run_request_of (sv_config (we_svc env)) c) (safety_check env call c)
              (on_thread_started env c) (on_started env c) t) = Inr r"
  using assms
  by (auto simp: run_work_def eff_defs result_of_failure_def split: sum.splits prod.splits if_splits intro: exI [of _ s])

lemma finish_outcome:
  assumes "finish_transaction sv call c r failure overrun now d = Inr (v, d')"
  shows "(\<exists>i. v = dispatch_result c r overrun i)
    \<and> (\<forall>q \<in> set (jobs_t d'). jr_id q = cl_job c \<longrightarrow> jr_state q = dispatch_job_state r)
    \<and> (\<forall>q \<in> set (runs_t d'). own_run c q \<longrightarrow> rn_state q = rr_state r)
    \<and> (rr_state r \<noteq> run_succeeded \<longrightarrow> \<not> ready d')"
proof -
  let ?e = "set_job_state (cl_job c) (dispatch_job_state r) now
              (d\<lparr>runs_t := update_where (own_run c) (finished_run r now) (runs_t d)\<rparr>)"
  have "\<exists>d1 i d2 ev det x. pause_after r now ?e = Inr d1 \<and> audit sv ev (cl_actor c) det now d1 = Inr (i, d2)
      \<and> v = dispatch_result c r overrun i \<and> d' = d2\<lparr>idem_t := x\<rparr>"
    using assms by (clarsimp simp: finish_transaction_def Let_def) (intro exI conjI; (rule refl | assumption))
  then obtain d1 i d2 ev det x where p: "pause_after r now ?e = Inr d1"
    and a: "audit sv ev (cl_actor c) det now d1 = Inr (i, d2)"
    and v: "v = dispatch_result c r overrun i" and d': "d' = d2\<lparr>idem_t := x\<rparr>" by blast
  from audit_frame [OF a] d' obtain x y where d'': "d' = d1\<lparr>audit_t := x, idem_t := y\<rparr>" by auto
  have "jobs_t d' = jobs_t ?e"
    using pause_after_runs [OF p] by (simp add: d'')
  then have jobs: "\<forall>q \<in> set (jobs_t d'). jr_id q = cl_job c \<longrightarrow> jr_state q = dispatch_job_state r"
    using job_state_after [of "cl_job c" "dispatch_job_state r" now
        "d\<lparr>runs_t := update_where (own_run c) (finished_run r now) (runs_t d)\<rparr>"] by simp
  have runs: "\<forall>q \<in> set (runs_t d'). own_run c q \<longrightarrow> rn_state q = rr_state r"
  proof
    fix q assume "q \<in> set (runs_t d')"
    from update_where_cases [OF this [unfolded finish_runs [OF assms]]]
    show "own_run c q \<longrightarrow> rn_state q = rr_state r"
      by (elim disjE bexE conjE) (simp_all add: finished_run_def)
  qed
  have "rr_state r \<noteq> run_succeeded \<longrightarrow> \<not> ready d'"
    using p by (auto simp: d'' pause_after_def current_mode_def ready_def set_controller_def split: option.splits if_splits)
  with v jobs runs show ?thesis by blast
qed


text \<open>
  A stored dispatch is never run again. When \<open>dispatch_run\<close> answers with a replay, it has taken two
  steps, both reads: the database is what the other processes made of it, no runner was called, no probe
  made, no audit event added.
\<close>

theorem replayed_dispatch_starts_nothing:
  assumes "dispatch_run env runner call s = (Inr (v, True), s')"
  shows "w_step s' = w_step s + 2
    \<and> w_db s' = we_others env (w_step s + 1) (we_others env (w_step s) (w_db s))
    \<and> (\<exists>r. replay_idempotent (sv_host (we_svc env)) (dc_key call) ''dispatch.run'' (dispatch_request call)
          (we_others env (w_step s) (w_db s)) = Inr (Some r))"
proof -
  have "\<not> (\<exists>t. claimed_dispatch env runner call c t = (Inr (v, True), s'))" for c
    by (auto simp: claimed_dispatch_def eff_defs split: sum.splits prod.splits)
  with assms show ?thesis
    by (auto simp: dispatch_run_def Let_def wread_def wdb_def eff_defs split: sum.splits prod.splits option.splits)
qed

end
