(* ===== verification/Stdio.thy ===== *)
theory Stdio
  imports StoreOps
begin

text \<open>
  The JSON-lines transport that the four App Server clients share (probe.py, monitor.py,
  thread_control.py, work_runner.py): a subprocess, a reader thread that fills a queue, and a poll loop
  with a deadline. The environment is the sequence of clock readings, of what the queue gives (nothing
  in time, the end of the output, a line) and of whether a write succeeds. Deadlines are finite and time
  passes: from \<open>io_horizon\<close> on, every deadline has passed. \<open>ss_sent\<close> records every message a client
  hands to the transport; nothing reads it.
\<close>

datatype queue_event = Q_empty | Q_end | Q_line "json option"

datatype spawn = Spawn_failed | Spawn_no_pipes | Spawn_ok

record stdio =
  io_spawn :: spawn
  io_clock :: "nat \<Rightarrow> rat"
  io_wall :: "nat \<Rightarrow> rat"
  io_horizon :: nat
  io_poll :: "nat \<Rightarrow> queue_event"
  io_write :: "nat \<Rightarrow> bool"

record 's session =
  ss_world :: 's
  ss_step :: nat
  ss_next :: nat
  ss_sent :: "json list"

definition new_session :: "'s \<Rightarrow> 's session" where
  "new_session w = \<lparr>ss_world = w, ss_step = 0, ss_next = 0, ss_sent = []\<rparr>"

definition tick_session :: "'s session \<Rightarrow> 's session" where
  "tick_session st = st\<lparr>ss_step := Suc (ss_step st)\<rparr>"

lemma tick_session_simps [simp]:
  "ss_step (tick_session st) = Suc (ss_step st)" "ss_world (tick_session st) = ss_world st"
  "ss_next (tick_session st) = ss_next st" "ss_sent (tick_session st) = ss_sent st"
  by (simp_all add: tick_session_def)

lemma ebind_elift [simp]:
  "ebind (elift (Inr x)) f = f x" "ebind (elift (Inl e)) f = eraise e"
  by (simp_all add: ebind_def elift_def eraise_def fun_eq_iff)

text \<open>What every value of a successful run satisfies.\<close>

definition returns :: "('s, 'a) eff \<Rightarrow> ('a \<Rightarrow> bool) \<Rightarrow> bool" where
  "returns m Q \<longleftrightarrow> (\<forall>s x. fst (m s) = Inr x \<longrightarrow> Q x)"

lemma returnsD: "returns m Q \<Longrightarrow> m s = (Inr x, s') \<Longrightarrow> Q x"
  by (metis fst_conv returns_def)

lemma returns_eret: "Q x \<Longrightarrow> returns (eret x) Q"
  by (simp add: returns_def eret_def)

lemma returns_ebind_where: "returns m P \<Longrightarrow> (\<And>x. P x \<Longrightarrow> returns (f x) Q) \<Longrightarrow> returns (ebind m f) Q"
  by (auto simp: returns_def ebind_def split: sum.splits prod.splits) (metis fst_conv)

lemma returns_ebind: "(\<And>x. returns (f x) Q) \<Longrightarrow> returns (ebind m f) Q"
  by (rule returns_ebind_where [where P = "\<lambda>_. True"]) (simp_all add: returns_def)

lemma returns_ecatch: "returns m Q \<Longrightarrow> (\<And>e. returns (h e) Q) \<Longrightarrow> returns (ecatch m h) Q"
  by (auto simp: returns_def ecatch_def split: sum.splits prod.splits) (metis fst_conv)

lemma returns_if: "returns m Q \<Longrightarrow> returns n Q \<Longrightarrow> returns (if b then m else n) Q"
  by simp

lemma returns_case_prod: "(\<And>x y. returns (f x y) Q) \<Longrightarrow> returns (case v of (x, y) \<Rightarrow> f x y) Q"
  by (cases v) simp

lemmas returns_intros = returns_eret returns_ebind returns_ecatch returns_if returns_case_prod

section \<open>Operations\<close>

definition io_now :: "stdio \<Rightarrow> ('s session, rat) eff" where
  "io_now io st = (Inr (io_clock io (ss_step st)), tick_session st)"

definition io_wall_now :: "stdio \<Rightarrow> ('s session, rat) eff" where
  "io_wall_now io st = (Inr (io_wall io (ss_step st)), tick_session st)"

definition fresh_id :: "('s session, nat) eff" where
  "fresh_id st = (Inr (Suc (ss_next st)), st\<lparr>ss_next := Suc (ss_next st)\<rparr>)"

text \<open>Writing one line: an OSError becomes the client's error.\<close>

definition io_send :: "stdio \<Rightarrow> err \<Rightarrow> json \<Rightarrow> ('s session, unit) eff" where
  "io_send io lost message st =
     (if io_write io (ss_step st) then Inr () else Inl lost,
      (tick_session st)\<lparr>ss_sent := ss_sent st @ [message]\<rparr>)"

text \<open>A callback runs on the caller's world.\<close>

definition io_call :: "('s, 'a) eff \<Rightarrow> ('s session, 'a) eff" where
  "io_call m st = (case m (ss_world st) of (r, w) \<Rightarrow> (r, st\<lparr>ss_world := w\<rparr>))"

definition io_open :: "stdio \<Rightarrow> string \<Rightarrow> unit res" where
  "io_open io code = (case io_spawn io of Spawn_ok \<Rightarrow> Inr () | _ \<Rightarrow> Inl (Sched code))"

lemmas io_defs = io_now_def io_wall_now_def fresh_id_def io_send_def io_call_def

section \<open>The poll loop\<close>

definition before_deadline :: "stdio \<Rightarrow> rat \<Rightarrow> nat \<Rightarrow> bool" where
  "before_deadline io deadline n \<longleftrightarrow> io_clock io n < deadline"

text \<open>
  \<open>handle b line\<close> decides about one line with the accumulator \<open>b\<close>: stop with a result, or go on with a
  new accumulator; \<open>finish ended b\<close> is the result at the end of the output or at the deadline.
\<close>

function poll_loop ::
    "stdio \<Rightarrow> (nat \<Rightarrow> bool) \<Rightarrow> ('b \<Rightarrow> json option \<Rightarrow> 'a res + 'b) \<Rightarrow> (bool \<Rightarrow> 'b \<Rightarrow> 'a res) \<Rightarrow> 'b
     \<Rightarrow> ('s session, 'a) eff" where
  "poll_loop io live handle finish b st =
     (if \<not> (ss_step st < io_horizon io \<and> live (ss_step st)) then (finish False b, tick_session st)
      else
        (case io_poll io (ss_step st) of
           Q_empty \<Rightarrow> poll_loop io live handle finish b (tick_session st)
         | Q_end \<Rightarrow> (finish True b, tick_session st)
         | Q_line line \<Rightarrow>
             (case handle b line of
                Inl r \<Rightarrow> (r, tick_session st)
              | Inr b' \<Rightarrow> poll_loop io live handle finish b' (tick_session st))))"
  by pat_completeness auto
termination
  by (relation "measure (\<lambda>(io, live, handle, finish, b, st). io_horizon io - ss_step st)") auto

declare poll_loop.simps [simp del]

text \<open>What the loop touches: the step counter only.\<close>

lemma poll_loop_step: "\<exists>n. snd (poll_loop io live handle finish b st) = st\<lparr>ss_step := n\<rparr>"
proof (induction io live handle finish b st rule: poll_loop.induct)
  case (1 io live handle finish b st)
  then show ?case
    by (subst poll_loop.simps) (auto simp: tick_session_def split: queue_event.split sum.split)
qed

lemma poll_loop_frame [simp]:
  "ss_world (snd (poll_loop io live handle finish b st)) = ss_world st"
  "ss_sent (snd (poll_loop io live handle finish b st)) = ss_sent st"
  "ss_next (snd (poll_loop io live handle finish b st)) = ss_next st"
  using poll_loop_step [of io live handle finish b st] by auto

text \<open>
  The horizon does not matter once the deadline has passed before it: any two horizons beyond that give
  the same run.
\<close>

lemma poll_loop_horizon:
  assumes "\<And>n. N \<le> n \<Longrightarrow> \<not> live n" and "N \<le> h" and "N \<le> h'"
  shows "poll_loop (io\<lparr>io_horizon := h\<rparr>) live handle finish b st = poll_loop (io\<lparr>io_horizon := h'\<rparr>) live handle finish b st"
proof (induction "N - ss_step st" arbitrary: b st rule: less_induct)
  case less
  show ?case
  proof (cases "live (ss_step st)")
    case False
    then show ?thesis by (simp add: poll_loop.simps)
  next
    case True
    then have n: "ss_step st < N" using assms(1) not_le by blast
    then have later: "poll_loop (io\<lparr>io_horizon := h\<rparr>) live handle finish b' (tick_session st)
        = poll_loop (io\<lparr>io_horizon := h'\<rparr>) live handle finish b' (tick_session st)" for b'
      using less.hyps [of "tick_session st"] by simp
    show ?thesis
      using n assms(2,3) True
      by (subst (1 2) poll_loop.simps) (simp add: later split: queue_event.split sum.split)
  qed
qed

section \<open>Messages\<close>

definition request_message :: "nat \<Rightarrow> string \<Rightarrow> json \<Rightarrow> json" where
  "request_message n method params =
     JObj [(''id'', JInt (int n)), (''method'', JStr method), (''params'', params)]"

definition notification_message :: "string \<Rightarrow> json \<Rightarrow> json" where
  "notification_message method params = JObj [(''method'', JStr method), (''params'', params)]"

definition message_method :: "json \<Rightarrow> string" where
  "message_method m = (case jgetn (obj_fields m) ''method'' of JStr s \<Rightarrow> s | _ \<Rightarrow> [])"

definition message_params :: "json \<Rightarrow> json" where
  "message_params m = jgetn (obj_fields m) ''params''"

lemma message_simps [simp]:
  "message_method (request_message n method params) = method"
  "message_method (notification_message method params) = method"
  "message_params (request_message n method params) = params"
  "message_params (notification_message method params) = params"
  by (simp_all add: message_method_def message_params_def request_message_def notification_message_def jgetn_def)

definition client_info :: "string \<Rightarrow> string \<Rightarrow> json" where
  "client_info name title = JObj [(''clientInfo'', JObj
     [(''name'', JStr name), (''title'', JStr title), (''version'', JStr APP_VERSION)])]"

text \<open>\<open>message.get("id") == n\<close>: Python's equality identifies 1, 1.0 and True.\<close>

fun equals_int :: "json \<Rightarrow> int \<Rightarrow> bool" where
  "equals_int (JInt k) n = (k = n)"
| "equals_int (JFlt (Fin q)) n = (q = of_int n)"
| "equals_int (JBool b) n = ((if b then 1 else 0) = n)"
| "equals_int _ n = False"

text \<open>\<open>key in message\<close> for any JSON value: a key, an element, a substring, or a TypeError.\<close>

fun is_substring :: "string \<Rightarrow> string \<Rightarrow> bool" where
  "is_substring k [] = (k = [])"
| "is_substring k (c # cs) = (take (length k) (c # cs) = k \<or> is_substring k cs)"

fun contains_key :: "json \<Rightarrow> string \<Rightarrow> bool res" where
  "contains_key (JObj fs) k = Inr (jget fs k \<noteq> None)"
| "contains_key (JArr xs) k = Inr (JStr k \<in> set xs)"
| "contains_key (JStr s) k = Inr (is_substring k s)"
| "contains_key _ k = Inl (PyExc ''TypeError'')"

text \<open>\<open>message.get(key)\<close> raises AttributeError on anything but a dictionary.\<close>

fun get_attr :: "json \<Rightarrow> string \<Rightarrow> json res" where
  "get_attr (JObj fs) k = Inr (jgetn fs k)"
| "get_attr _ k = Inl (PyExc ''AttributeError'')"

text \<open>\<open>v.get(key) if isinstance(v, dict) else None\<close>.\<close>

definition dict_get :: "json \<Rightarrow> string \<Rightarrow> json" where
  "dict_get v k = (case v of JObj fs \<Rightarrow> jgetn fs k | _ \<Rightarrow> JNull)"

section \<open>What is sent\<close>

text \<open>Every message that an operation sends satisfies \<open>P\<close>.\<close>

definition sends_only :: "(json \<Rightarrow> bool) \<Rightarrow> 's session \<Rightarrow> 's session \<Rightarrow> bool" where
  "sends_only P st st' \<longleftrightarrow> (\<exists>new. ss_sent st' = ss_sent st @ new \<and> list_all P new)"

interpretation sending: step_rel "sends_only P" "\<lambda>_. True" for P :: "json \<Rightarrow> bool"
proof unfold_locales
  fix s t u :: "'b session" assume "sends_only P s t" and "sends_only P t u"
  then show "sends_only P s u" by (auto simp: sends_only_def)
qed (auto simp: sends_only_def)

lemma sends_only_none: "ss_sent st' = ss_sent st \<Longrightarrow> sends_only P st st'"
  by (simp add: sends_only_def)

lemma sending_io [keeps_intros]:
  "sending.keeps P (io_now io)" "sending.keeps P (io_wall_now io)" "sending.keeps P fresh_id" "sending.keeps P (io_call m)"
  by (auto simp: sending.keeps_def io_defs intro!: sends_only_none split: prod.split)

lemma sending_send: "P message \<Longrightarrow> sending.keeps P (io_send io lost message)"
  by (simp add: sending.keeps_def io_send_def sends_only_def)

lemma sending_poll [keeps_intros]: "sending.keeps P (poll_loop io live handle finish b)"
  by (simp add: sending.keeps_def sends_only_none)

section \<open>The caller's world\<close>

text \<open>A relation on the caller's world, lifted to sessions: only callbacks can move it.\<close>

definition world_rel :: "('s \<Rightarrow> 's \<Rightarrow> bool) \<Rightarrow> 's session \<Rightarrow> 's session \<Rightarrow> bool" where
  "world_rel R st st' \<longleftrightarrow> R (ss_world st) (ss_world st')"

locale caller_rel = step_rel R K for R :: "'s \<Rightarrow> 's \<Rightarrow> bool" and K :: "'s \<Rightarrow> bool"

sublocale caller_rel \<subseteq> session: step_rel "world_rel R" "\<lambda>st. K (ss_world st)"
  by unfold_locales (auto simp: world_rel_def intro: refl trans K_step)

context caller_rel begin

lemma session_io [keeps_intros]:
  "session.keeps (io_now io)" "session.keeps (io_wall_now io)" "session.keeps fresh_id" "session.keeps (io_send io lost m)"
  by (auto simp: session.keeps_def io_defs world_rel_def refl)

lemma session_call [keeps_intros]: "keeps m \<Longrightarrow> session.keeps (io_call m)"
  by (auto simp: session.keeps_def io_call_def world_rel_def keeps_def split: prod.split)

lemma session_poll [keeps_intros]: "session.keeps (poll_loop io live handle finish b)"
  by (simp add: session.keeps_def world_rel_def refl)

end

end
