(* ===== verification/RunnerSafety.thy ===== *)
theory RunnerSafety
  imports WorkRunner
begin

text \<open>
  What the work runner guarantees. It sends only allowlisted messages, a thread always starts read-only
  with every external feature off and a turn always with the approved sandbox and no network; a turn is
  started only after the inventories of the thread came back clean and a safety check passed; a run is
  successful only if the server reported this very turn completed; and the runner meets the interface
  the dispatcher asks for, so that dispatched runs exclude each other.
\<close>

section \<open>Messages\<close>

definition work_message_ok :: "run_request \<Rightarrow> json \<Rightarrow> bool" where
  "work_message_ok rq m \<longleftrightarrow>
     message_method m \<in> set WORK_OUTBOUND_ALLOWLIST
     \<and> (message_method m = ''thread/start'' \<longrightarrow> (\<exists>hooks servers. message_params m = thread_start_params rq hooks servers))
     \<and> (message_method m = ''turn/start'' \<longrightarrow>
          (\<exists>thread policy. sandbox_policy rq = Inr policy \<and> message_params m = turn_start_params rq thread policy))"

lemma sending_work_send:
  "(message_method m \<in> set WORK_OUTBOUND_ALLOWLIST \<Longrightarrow> P m) \<Longrightarrow> sending.keeps P (work_send io m)"
  unfolding work_send_def
  by (cases "message_method m \<in> set WORK_OUTBOUND_ALLOWLIST")
     (auto intro!: keeps_intros sending_send simp: guard_def)

lemma sending_receive [keeps_intros]: "sending.keeps P (receive_until io rid deadline suffix)"
  unfolding receive_until_def by (rule sending_poll)

lemma sending_rpc:
  "(\<And>n. P (request_message n method params)) \<Longrightarrow> sending.keeps P (rpc io method params)"
  unfolding rpc_def by (intro keeps_intros sending_work_send)

lemma turn_loop_frame:
  "ss_sent (snd (turn_loop io safe_now thread turn deadline poll due st)) = ss_sent st"
proof (induction io safe_now thread turn deadline poll due st rule: turn_loop.induct)
  case (1 io safe_now thread turn deadline poll due st)
  have "ss_sent (snd (timed_check io safe_now poll due st)) = ss_sent st"
    by (simp add: timed_check_def Let_def split: prod.split)
  with 1 show ?case
    by (subst turn_loop.simps) (auto simp: Let_def split: queue_event.split sum.split option.split)
qed

lemma sending_turn_loop [keeps_intros]: "sending.keeps P (turn_loop io safe_now thread turn deadline poll due)"
  by (simp add: sending.keeps_def sends_only_none turn_loop_frame)

text \<open>Requests that neither start nor resume anything.\<close>

definition quiet_methods :: "string list" where
  "quiet_methods = [''initialize'', ''initialized'', ''hooks/list'', ''app/installed'', ''mcpServerStatus/list'',
     ''experimentalFeature/list'', ''turn/interrupt'']"

lemma quiet_ok: "message_method m \<in> set quiet_methods \<Longrightarrow> work_message_ok rq m"
  by (auto simp: quiet_methods_def work_message_ok_def WORK_OUTBOUND_ALLOWLIST_def)

lemma quiet_rpc: "(\<And>m. message_method m \<in> set quiet_methods \<Longrightarrow> P m) \<Longrightarrow> method \<in> set quiet_methods
    \<Longrightarrow> sending.keeps P (rpc io method params)"
  by (rule sending_rpc) simp

lemma sending_pages:
  assumes "\<And>m. message_method m \<in> set quiet_methods \<Longrightarrow> P m"
  shows "sending.keeps P (mcp_pages io th req n cursor seen names)"
    and "sending.keeps P (feature_pages io th' n cursor seen observed)"
proof -
  have rpc: "sending.keeps P (rpc io ''mcpServerStatus/list'' ps)" "sending.keeps P (rpc io ''experimentalFeature/list'' ps)" for ps
    by (rule quiet_rpc [OF assms]; simp add: quiet_methods_def)+
  show "sending.keeps P (mcp_pages io th req n cursor seen names)"
    by (induction n arbitrary: cursor seen names) (auto intro!: keeps_intros rpc split: option.split)
  show "sending.keeps P (feature_pages io th' n cursor seen observed)"
    by (induction n arbitrary: cursor seen observed) (auto intro!: keeps_intros rpc split: option.split)
qed

lemma sending_inspections:
  assumes "\<And>m. message_method m \<in> set quiet_methods \<Longrightarrow> P m"
  shows "sending.keeps P (inspect_hooks io dir)" "sending.keeps P (inspect_apps io th req)"
    "sending.keeps P (inspect_mcp io th req)" "sending.keeps P (inspect_features io th')"
  unfolding inspect_hooks_def inspect_apps_def inspect_mcp_def inspect_features_def
  by (auto intro!: keeps_intros quiet_rpc [OF assms] sending_pages [OF assms] split: json.split simp: quiet_methods_def)

lemma sending_interrupt:
  assumes "\<And>m. message_method m \<in> set quiet_methods \<Longrightarrow> P m"
  shows "sending.keeps P (interrupt_turn io thread turn reason)"
  unfolding interrupt_turn_def
  by (intro keeps_intros sending_work_send assms) (simp add: interrupt_message_def quiet_methods_def)

lemma sending_follow:
  assumes "\<And>m. message_method m \<in> set quiet_methods \<Longrightarrow> P m"
  shows "sending.keeps P (follow_turn io rq safe_now thread turn)"
  unfolding follow_turn_def
  by (auto intro!: keeps_intros sending_interrupt [OF assms] split: turn_end.split)

lemma sending_start_turn:
  "sending.keeps (work_message_ok rq) (start_turn io rq safe_now turn_known thread)"
proof (cases "sandbox_policy rq")
  case (Inl e)
  then show ?thesis by (simp add: start_turn_def sending.keeps_eraise)
next
  case (Inr policy)
  have "sending.keeps (work_message_ok rq) (rpc io ''turn/start'' (turn_start_params rq thread policy))"
    by (rule sending_rpc) (auto simp: work_message_ok_def WORK_OUTBOUND_ALLOWLIST_def Inr)
  then show ?thesis
    unfolding start_turn_def Inr ebind_elift
    by (intro keeps_intros sending_interrupt sending_follow quiet_ok)
qed

lemma sending_gates [keeps_intros]:
  "sending.keeps P k \<Longrightarrow> sending.keeps P (proceed reason thread k)"
  "sending.keeps P k \<Longrightarrow> sending.keeps P (when_safe safe_now thread k)"
  by (auto simp: proceed_def when_safe_def intro!: keeps_intros split: option.split)

lemma sending_session: "sending.keeps (work_message_ok rq) (work_session io rq safe_now thread_known turn_known)"
proof -
  have start: "sending.keeps (work_message_ok rq) (rpc io ''thread/start'' (thread_start_params rq hooks servers))" for hooks servers
    by (rule sending_rpc) (auto simp: work_message_ok_def WORK_OUTBOUND_ALLOWLIST_def)
  have init: "sending.keeps (work_message_ok rq) (rpc io ''initialize'' ps)" for ps
    by (rule quiet_rpc [OF quiet_ok]) (simp_all add: quiet_methods_def)
  have ready: "sending.keeps (work_message_ok rq) (work_send io (notification_message ''initialized'' ps))" for ps
    by (intro sending_work_send quiet_ok) (simp add: quiet_methods_def)
  show ?thesis
    unfolding work_session_def in_thread_def
    by (intro keeps_intros start init ready sending_inspections sending_start_turn quiet_ok)
qed

section \<open>The interface of the dispatcher\<close>

lemma work_run_session:
  "fst (work_run io rq safe_now thread_known turn_known w) = fst (work_session io rq safe_now thread_known turn_known (new_session w))"
  "snd (work_run io rq safe_now thread_known turn_known w)
    = ss_world (snd (work_session io rq safe_now thread_known turn_known (new_session w)))"
  by (simp_all add: work_run_def split: prod.split)

context caller_rel begin

lemma session_rpc [keeps_intros]:
  "session.keeps (receive_until io rid deadline suffix)" "session.keeps (work_send io m)" "session.keeps (rpc io method params)"
  unfolding receive_until_def work_send_def rpc_def by (intro keeps_intros)+

lemma session_pages:
  "session.keeps (mcp_pages io th req n cursor seen names)" "session.keeps (feature_pages io th' n cursor seen observed)"
proof -
  show "session.keeps (mcp_pages io th req n cursor seen names)"
    by (induction n arbitrary: cursor seen names) (auto intro!: keeps_intros split: option.split)
  show "session.keeps (feature_pages io th' n cursor seen observed)"
    by (induction n arbitrary: cursor seen observed) (auto intro!: keeps_intros split: option.split)
qed

lemma session_inspections [keeps_intros]:
  "session.keeps (inspect_hooks io dir)" "session.keeps (inspect_apps io th req)"
  "session.keeps (inspect_mcp io th req)" "session.keeps (inspect_features io th')"
  unfolding inspect_hooks_def inspect_apps_def inspect_mcp_def inspect_features_def
  by (auto intro!: keeps_intros session_pages split: json.split)

lemma timed_check_world:
  assumes "keeps safe_now" and "K (ss_world st)"
  shows "R (ss_world st) (ss_world (snd (timed_check io safe_now poll due st)))"
  using keepsD [OF assms] by (auto simp: timed_check_def Let_def refl split: prod.split)

lemma turn_loop_world:
  assumes "keeps safe_now"
  shows "K (ss_world st) \<Longrightarrow> R (ss_world st) (ss_world (snd (turn_loop io safe_now thread turn deadline poll due st)))"
proof (induction "io_horizon io - ss_step st" arbitrary: due st rule: less_induct)
  case less
  let ?c = "timed_check io safe_now poll due st"
  have r: "R (ss_world st) (ss_world (snd ?c))"
    by (rule timed_check_world [OF assms less.prems])
  have k: "K (ss_world (snd ?c))" by (rule K_step [OF less.prems r])
  have later: "R (ss_world st) (ss_world (snd (turn_loop io safe_now thread turn deadline poll due' (snd ?c))))"
    if "ss_step st < io_horizon io" for due'
    using that by (intro trans [OF r] less.hyps k) simp
  show ?case
    by (subst turn_loop.simps) (auto simp: Let_def refl r later split: queue_event.split sum.split option.split)
qed

lemma session_turn_loop: "keeps safe_now \<Longrightarrow> session.keeps (turn_loop io safe_now thread turn deadline poll due)"
  using turn_loop_world by (auto simp: session.keeps_def world_rel_def)

lemma session_interrupt [keeps_intros]: "session.keeps (interrupt_turn io thread turn reason)"
  unfolding interrupt_turn_def by (intro keeps_intros)

lemma session_gates [keeps_intros]:
  "session.keeps k \<Longrightarrow> session.keeps (proceed reason thread k)"
  "keeps safe_now \<Longrightarrow> session.keeps k \<Longrightarrow> session.keeps (when_safe safe_now thread k)"
  by (auto simp: proceed_def when_safe_def intro!: keeps_intros split: option.split)

lemma keeps_attempt [keeps_intros]: "keeps m \<Longrightarrow> keeps (succeeds m)"
  unfolding succeeds_def by (intro keeps_intros)

lemma session_follow: "keeps safe_now \<Longrightarrow> session.keeps (follow_turn io rq safe_now thread turn)"
  unfolding follow_turn_def by (auto intro!: keeps_intros session_turn_loop split: turn_end.split)

lemma session_work:
  assumes "keeps safe_now" and "\<And>t. keeps (thread_known t)" and "\<And>t u. keeps (turn_known t u)"
  shows "session.keeps (work_session io rq safe_now thread_known turn_known)"
  unfolding work_session_def in_thread_def start_turn_def
  by (intro keeps_intros session_follow assms)

lemma keeps_work_run:
  assumes "keeps safe_now" and "\<And>t. keeps (thread_known t)" and "\<And>t u. keeps (turn_known t u)"
  shows "keeps (work_run io rq safe_now thread_known turn_known)"
proof (rule keepsI)
  fix w assume "K w"
  moreover have "session.keeps (work_session io rq safe_now thread_known turn_known)"
    by (rule session_work) (fact assms)+
  ultimately have "world_rel R (new_session w) (snd (work_session io rq safe_now thread_known turn_known (new_session w)))"
    by (intro session.keepsD) (simp_all add: new_session_def)
  then show "R w (snd (work_run io rq safe_now thread_known turn_known w))"
    by (simp only: work_run_session world_rel_def) (simp add: new_session_def)
qed

end

text \<open>The runner reports only states in which nothing is going on.\<close>

lemma ended_outcome: "ended (runner_outcome st why thread turn) \<longleftrightarrow> st \<notin> {run_starting, run_running}"
  by (simp add: ended_def runner_outcome_def)

lemma turn_result_ended: "ended (turn_result thread turn status)"
  by (simp add: turn_result_def ended_outcome)

lemma turn_line_over: "turn_line thread turn line = Inr (Some (Turn_over r)) \<Longrightarrow>
    \<exists>m fs. line = Some m \<and> get_attr m ''method'' = Inr (JStr ''turn/completed'')
      \<and> dict_get (dict_get m ''params'') ''turn'' = JObj fs \<and> jgetn fs ''id'' = JStr turn
      \<and> r = turn_result thread turn (jgetn fs ''status'')"
  by (auto simp: turn_line_def split: option.splits if_splits json.splits)

lemma turn_loop_over:
  assumes "fst (turn_loop io safe_now thread turn deadline poll due st) = Inr (Turn_over r)"
  shows "\<exists>n line. io_poll io n = Q_line line \<and> turn_line thread turn line = Inr (Some (Turn_over r))"
  using assms
proof (induction "io_horizon io - ss_step st" arbitrary: due st rule: less_induct)
  case less
  let ?c = "timed_check io safe_now poll due st"
  show ?case
  proof (cases "\<exists>line. io_poll io (ss_step st) = Q_line line \<and> turn_line thread turn line = Inr (Some (Turn_over r))")
    case False
    with less.prems have "ss_step st < io_horizon io"
      "fst (turn_loop io safe_now thread turn deadline poll (snd (fst ?c)) (snd ?c)) = Inr (Turn_over r)"
      by (subst (asm) turn_loop.simps;
          auto simp: Let_def split: if_splits queue_event.splits sum.splits option.splits)+
    then show ?thesis by (intro less.hyps) simp_all
  qed blast
qed

text \<open>What the server said about a turn that is over.\<close>

definition reported :: "stdio \<Rightarrow> runner_result \<Rightarrow> bool" where
  "reported io r \<longleftrightarrow>
     (\<exists>n m fs thread turn. io_poll io n = Q_line (Some m) \<and> get_attr m ''method'' = Inr (JStr ''turn/completed'')
        \<and> dict_get (dict_get m ''params'') ''turn'' = JObj fs \<and> jgetn fs ''id'' = JStr turn
        \<and> jgetn fs ''status'' = JStr ''completed'' \<and> rr_thread r = Some thread \<and> rr_turn r = Some turn)"

definition well_reported :: "stdio \<Rightarrow> runner_result \<Rightarrow> bool" where
  "well_reported io r \<longleftrightarrow> ended r \<and> (rr_state r = run_succeeded \<longrightarrow> reported io r)"

lemma well_reported_outcome:
  "st \<notin> {run_starting, run_running, run_succeeded} \<Longrightarrow> well_reported io (runner_outcome st why thread turn)"
  by (auto simp: well_reported_def ended_outcome) (simp add: runner_outcome_def)

lemma well_reported_over:
  assumes "fst (turn_loop io safe_now thread turn deadline poll due st) = Inr (Turn_over r)"
  shows "well_reported io r"
proof -
  from turn_loop_over [OF assms] obtain n line where
    n: "io_poll io n = Q_line line" "turn_line thread turn line = Inr (Some (Turn_over r))" by blast
  from turn_line_over [OF n(2)] obtain m fs where m: "line = Some m" "get_attr m ''method'' = Inr (JStr ''turn/completed'')"
      "dict_get (dict_get m ''params'') ''turn'' = JObj fs" "jgetn fs ''id'' = JStr turn"
      "r = turn_result thread turn (jgetn fs ''status'')" by blast
  have "rr_state r = run_succeeded \<Longrightarrow> jgetn fs ''status'' = JStr ''completed''"
    by (auto simp: m(5) turn_result_def runner_outcome_def split: if_splits)
  moreover have "rr_thread r = Some thread \<and> rr_turn r = Some turn"
    by (simp add: m(5) turn_result_def runner_outcome_def)
  ultimately show ?thesis
    using n(1) m turn_result_ended [of thread turn "jgetn fs ''status''"]
    unfolding well_reported_def reported_def by blast
qed

lemma returns_interrupt: "returns (interrupt_turn io thread turn reason) (well_reported io')"
  unfolding interrupt_turn_def by (intro returns_intros well_reported_outcome) simp_all

lemma returns_follow: "returns (follow_turn io rq safe_now thread turn) (well_reported io)"
  unfolding follow_turn_def
  by (rule returns_ebind, rule returns_ebind,
      rule returns_ebind_where [where P = "\<lambda>x. \<forall>r. x = Turn_over r \<longrightarrow> well_reported io r"])
     (auto simp: returns_def eret_def dest: well_reported_over split: turn_end.split
       intro: returns_interrupt [unfolded returns_def, rule_format])

lemma returns_gates:
  "returns k Q \<Longrightarrow> (\<And>reason thread. Q (blocked_result reason thread)) \<Longrightarrow> returns (proceed reason thread k) Q"
  "returns k Q \<Longrightarrow> (\<And>reason thread. Q (blocked_result reason thread)) \<Longrightarrow> returns (when_safe safe_now thread k) Q"
  by (auto simp: proceed_def when_safe_def intro!: returns_intros split: option.split)

lemma returns_session: "returns (work_session io rq safe_now thread_known turn_known) (well_reported io)"
  unfolding work_session_def in_thread_def start_turn_def
  by (intro returns_ebind returns_if returns_case_prod returns_gates returns_interrupt returns_follow returns_eret)
     (auto simp: blocked_result_def intro!: well_reported_outcome)

interpretation app_server: callback_runner "work_run io" for io
proof
  fix R K rq fix safe_now :: "(wst, bool) eff" and thread_known :: "string \<Rightarrow> (wst, unit) eff"
    and turn_known :: "string \<Rightarrow> string \<Rightarrow> (wst, unit) eff"
  assume "step_rel R K" "step_rel.keeps R K safe_now"
    "\<And>t. step_rel.keeps R K (thread_known t)" "\<And>t u. step_rel.keeps R K (turn_known t u)"
  then show "step_rel.keeps R K (work_run io rq safe_now thread_known turn_known)"
    by (intro caller_rel.keeps_work_run caller_rel.intro)
next
  fix rq s r fix safe_now :: "(wst, bool) eff" and thread_known :: "string \<Rightarrow> (wst, unit) eff"
    and turn_known :: "string \<Rightarrow> string \<Rightarrow> (wst, unit) eff"
  assume "fst (work_run io rq safe_now thread_known turn_known s) = Inr r"
  then show "ended r"
    using returns_session unfolding work_run_session returns_def well_reported_def by blast
qed

interpretation dispatching: dispatch_world "with_dispatchers env sched" "work_run io" for env sched io
  by unfold_locales (simp add: with_dispatchers_def exclusive_dispatcher)

text \<open>
  At most one run is active. If at most one run is active, then at most one is active after a whole
  \<open>dispatch_run\<close> with the App Server runner, however it ends, while between any two of its steps other
  controllers and dispatchers commit any of their transactions in any order.
\<close>

theorem dispatch_keeps_single_run:
  assumes "one_run (w_db s)" and "call_starts_no_run call"
  shows "one_run (w_db (snd (dispatch_run (with_dispatchers env sched) (work_run io) call s)))"
  using assms(2,1) by (rule dispatching.dispatch_keeps_one_run)

section \<open>What precedes a turn\<close>

definition no_turn :: "json \<Rightarrow> bool" where
  "no_turn m \<longleftrightarrow> message_method m \<noteq> ''turn/start''"

text \<open>Running \<open>m\<close> from \<open>st\<close> sends a \<open>turn/start\<close>.\<close>

definition starts :: "('s session, 'a) eff \<Rightarrow> 's session \<Rightarrow> bool" where
  "starts m st \<longleftrightarrow> \<not> sends_only no_turn st (snd (m st))"

lemma quiet_no_turn: "message_method m \<in> set quiet_methods \<Longrightarrow> no_turn m"
  by (auto simp: quiet_methods_def no_turn_def)

lemma starts_not: "sending.keeps no_turn m \<Longrightarrow> \<not> starts m st"
  by (simp add: starts_def sending.keeps_def)

lemma starts_ebind:
  assumes "starts (ebind m f) st" and "sending.keeps no_turn m"
  shows "\<exists>x st1. m st = (Inr x, st1) \<and> starts (f x) st1"
proof -
  obtain r st1 where m: "m st = (r, st1)" by fastforce
  with assms(2) have s1: "sends_only no_turn st st1"
    using sending.keepsD [of no_turn m st] by simp
  show ?thesis
  proof (cases r)
    case (Inl e)
    with assms(1) m s1 show ?thesis by (simp add: starts_def ebind_def)
  next
    case (Inr x)
    with assms(1) m s1 have "starts (f x) st1"
      by (auto simp: starts_def ebind_def intro: sending.trans)
    with m Inr show ?thesis by blast
  qed
qed

lemma starts_gates:
  "starts (proceed reason thread k) st \<Longrightarrow> reason = None \<and> starts k st"
  "starts (when_safe safe_now thread k) st \<Longrightarrow> \<exists>st1. io_call safe_now st = (Inr True, st1) \<and> starts k st1"
proof -
  have blocked: "\<not> starts (eret x) st" for x :: runner_result and st :: "'x session"
    by (intro starts_not sending.keeps_eret)
  show "starts (proceed reason thread k) st \<Longrightarrow> reason = None \<and> starts k st"
    using blocked by (auto simp: proceed_def split: option.splits)
  assume "starts (when_safe safe_now thread k) st"
  then show "\<exists>st1. io_call safe_now st = (Inr True, st1) \<and> starts k st1"
    unfolding when_safe_def
    by (drule_tac starts_ebind [OF _ sending_io(4)]) (use blocked in \<open>auto split: if_splits\<close>)
qed

text \<open>The inventories of a thread came back clean and the last safety check passed.\<close>

definition thread_cleared :: "stdio \<Rightarrow> ('s, bool) eff \<Rightarrow> (string \<Rightarrow> ('s, unit) eff) \<Rightarrow> string \<Rightarrow> bool" where
  "thread_cleared io safe_now thread_known thread \<longleftrightarrow>
     (\<exists>s0 s1 s2 s3 s4 s5 names.
        io_call (succeeds (thread_known thread)) s0 = (Inr True, s1)
        \<and> inspect_features io thread s1 = (Inr None, s2) \<and> inspect_apps io (Some thread) True s2 = (Inr None, s3)
        \<and> inspect_mcp io (Some thread) True s3 = (Inr (None, names), s4) \<and> io_call safe_now s4 = (Inr True, s5))"

lemma starts_in_thread:
  assumes "starts (in_thread io rq safe_now thread_known turn_known thread) st"
  shows "thread_cleared io safe_now thread_known thread"
proof -
  note quiet = sending_inspections [of no_turn, OF quiet_no_turn]
  have stuck: "\<not> starts (eret x) s" for x :: runner_result and s :: "'a session"
    by (intro starts_not sending.keeps_eret)
  from starts_ebind [OF assms [unfolded in_thread_def] sending_io(4)] obtain known s1 where
    k: "io_call (succeeds (thread_known thread)) st = (Inr known, s1)"
    and 1: "starts (if \<not> known then eret (runner_outcome run_needs_review (Some ''THREAD_PERSISTENCE_FAILED'') (Some thread) None)
       else ebind (inspect_features io thread) (\<lambda>f. proceed f (Some thread)
        (ebind (inspect_apps io (Some thread) True) (\<lambda>a. proceed a (Some thread)
        (ebind (inspect_mcp io (Some thread) True) (\<lambda>(m, _). proceed m (Some thread)
        (when_safe safe_now (Some thread) (start_turn io rq safe_now turn_known thread)))))))) s1" by blast
  then have known: known and 1: "starts (ebind (inspect_features io thread) (\<lambda>f. proceed f (Some thread)
        (ebind (inspect_apps io (Some thread) True) (\<lambda>a. proceed a (Some thread)
        (ebind (inspect_mcp io (Some thread) True) (\<lambda>(m, _). proceed m (Some thread)
        (when_safe safe_now (Some thread) (start_turn io rq safe_now turn_known thread)))))))) s1"
    using stuck by (auto split: if_splits)
  from starts_ebind [OF 1 quiet(4)] obtain s2 where f: "inspect_features io thread s1 = (Inr None, s2)"
    and 2: "starts (ebind (inspect_apps io (Some thread) True) (\<lambda>a. proceed a (Some thread)
        (ebind (inspect_mcp io (Some thread) True) (\<lambda>(m, _). proceed m (Some thread)
        (when_safe safe_now (Some thread) (start_turn io rq safe_now turn_known thread)))))) s2"
    using starts_gates(1) by blast
  from starts_ebind [OF 2 quiet(2)] obtain s3 where a: "inspect_apps io (Some thread) True s2 = (Inr None, s3)"
    and 3: "starts (ebind (inspect_mcp io (Some thread) True) (\<lambda>(m, _). proceed m (Some thread)
        (when_safe safe_now (Some thread) (start_turn io rq safe_now turn_known thread)))) s3"
    using starts_gates(1) by blast
  from starts_ebind [OF 3 quiet(3)] obtain names s4 where m: "inspect_mcp io (Some thread) True s3 = (Inr (None, names), s4)"
    and 4: "starts (when_safe safe_now (Some thread) (start_turn io rq safe_now turn_known thread)) s4"
    using starts_gates(1) by (auto split: prod.splits) blast
  from starts_gates(2) [OF 4] obtain s5 where "io_call safe_now s4 = (Inr True, s5)" by blast
  moreover have "io_call (succeeds (thread_known thread)) st = (Inr True, s1)"
    using k known by simp
  ultimately show ?thesis
    unfolding thread_cleared_def using f a m by (intro exI conjI)
qed

text \<open>The message starts a turn in a cleared thread, or no turn.\<close>

definition cleared_message ::
    "stdio \<Rightarrow> run_request \<Rightarrow> ('s, bool) eff \<Rightarrow> (string \<Rightarrow> ('s, unit) eff) \<Rightarrow> json \<Rightarrow> bool" where
  "cleared_message io rq safe_now thread_known m \<longleftrightarrow>
     (message_method m = ''turn/start'' \<longrightarrow>
        (\<exists>thread policy. message_params m = turn_start_params rq thread policy \<and> thread_cleared io safe_now thread_known thread))"

lemma no_turn_cleared: "no_turn m \<Longrightarrow> cleared_message io rq safe_now thread_known m"
  by (simp add: no_turn_def cleared_message_def)

lemma sending_cleared_thread:
  "sending.keeps (cleared_message io rq safe_now thread_known) (in_thread io rq safe_now thread_known turn_known thread)"
proof (cases "thread_cleared io safe_now thread_known thread")
  case True
  note quiet = no_turn_cleared [OF quiet_no_turn]
  have "sending.keeps (cleared_message io rq safe_now thread_known) (rpc io ''turn/start'' (turn_start_params rq thread policy))" for policy
    using True by (intro sending_rpc) (auto simp: cleared_message_def)
  then show ?thesis
    unfolding in_thread_def start_turn_def
    by (intro keeps_intros sending_inspections sending_interrupt sending_follow quiet)
next
  case False
  then have "sends_only no_turn st (snd (in_thread io rq safe_now thread_known turn_known thread st))" for st
    by (meson starts_def starts_in_thread)
  then show ?thesis
    unfolding sending.keeps_def sends_only_def
    by (metis (mono_tags, lifting) list.pred_mono_strong no_turn_cleared)
qed

lemma sending_cleared_session:
  "sending.keeps (cleared_message io rq safe_now thread_known) (work_session io rq safe_now thread_known turn_known)"
proof -
  have rpc: "sending.keeps (cleared_message io rq safe_now thread_known) (rpc io m ps)"
    if "m \<in> {''initialize'', ''thread/start''}" for m ps
    using that by (intro sending_rpc no_turn_cleared) (auto simp: no_turn_def)
  have "sending.keeps (cleared_message io rq safe_now thread_known) (work_send io (notification_message ''initialized'' ps))" for ps
    by (intro sending_work_send no_turn_cleared) (simp add: no_turn_def)
  then show ?thesis
    unfolding work_session_def
    by (intro keeps_intros sending_inspections sending_cleared_thread rpc no_turn_cleared quiet_no_turn) auto
qed

lemma sent_all: "sending.keeps P m \<Longrightarrow> list_all P (ss_sent (snd (m (new_session w))))"
  using sending.keepsD [of P m "new_session w"] by (auto simp: sends_only_def new_session_def)


text \<open>
  C38. Success is the server's word about this turn. When the runner reports a succeeded run, the server
  sent the notification that this very turn completed with status completed; the runner never reports a
  run that is still going.
\<close>

theorem work_run_success_is_reported:
  assumes "fst (work_run io rq safe_now thread_known turn_known w) = Inr r"
  shows "ended r \<and> (rr_state r = run_succeeded \<longrightarrow> reported io r)"
  using assms returns_session unfolding work_run_session returns_def well_reported_def by blast

section \<open>Deadlines\<close>

lemma poll_loop_stops:
  assumes "\<not> live n"
  shows "ss_step st \<le> n \<Longrightarrow> ss_step (snd (poll_loop io live handle finish b st)) \<le> Suc n"
proof (induction "n - ss_step st" arbitrary: b st rule: less_induct)
  case less
  have later: "ss_step (snd (poll_loop io live handle finish b' (tick_session st))) \<le> Suc n"
    if "live (ss_step st)" for b'
  proof -
    from that assms less.prems have "ss_step st < n" by (cases "ss_step st = n") auto
    then show ?thesis by (intro less.hyps) auto
  qed
  show ?case
    using less.prems by (subst poll_loop.simps) (auto simp: later split: queue_event.split sum.split)
qed

lemma turn_loop_stops:
  assumes "\<And>m. n \<le> m \<Longrightarrow> deadline \<le> io_clock io m"
  shows "ss_step st \<le> Suc n \<Longrightarrow> ss_step (snd (turn_loop io safe_now thread turn deadline poll due st)) \<le> n + 2"
proof (induction "Suc n - ss_step st" arbitrary: due st rule: less_induct)
  case less
  let ?c = "timed_check io safe_now poll due st"
  have before: "ss_step st < n" if "before_deadline io deadline (ss_step st)"
    using that assms [of "ss_step st"] by (force simp: before_deadline_def)
  have later: "ss_step (snd (turn_loop io safe_now thread turn deadline poll due' (snd ?c))) \<le> Suc (Suc n)"
    if "before_deadline io deadline (ss_step st)" for due'
    using before [OF that] less.hyps [of "snd ?c" due'] by simp
  show ?case
    using less.prems before
    by (subst turn_loop.simps) (auto simp: Let_def later split: queue_event.split sum.split option.split)
qed

lemma turn_loop_horizon:
  assumes "\<And>m. n \<le> m \<Longrightarrow> deadline \<le> io_clock io m" and "n \<le> h" and "n \<le> h'"
  shows "turn_loop (io\<lparr>io_horizon := h\<rparr>) safe_now thread turn deadline poll due st
    = turn_loop (io\<lparr>io_horizon := h'\<rparr>) safe_now thread turn deadline poll due st"
proof (induction "Suc n - ss_step st" arbitrary: due st rule: less_induct)
  case less
  have check: "timed_check (io\<lparr>io_horizon := k\<rparr>) = timed_check io" for k and io :: stdio
    by (intro ext) (simp add: timed_check_def)
  let ?c = "timed_check io safe_now poll due st"
  show ?case
  proof (cases "io_clock io (ss_step st) < deadline")
    case False
    then show ?thesis by (simp add: turn_loop.simps before_deadline_def)
  next
    case True
    then have n: "ss_step st < n" using assms(1) [of "ss_step st"] by force
    then have later: "turn_loop (io\<lparr>io_horizon := h\<rparr>) safe_now thread turn deadline poll due' (snd ?c)
        = turn_loop (io\<lparr>io_horizon := h'\<rparr>) safe_now thread turn deadline poll due' (snd ?c)" for due'
      by (intro less.hyps) auto
    show ?thesis
      using n assms(2,3)
      by (subst (1 2) turn_loop.simps)
         (simp add: Let_def check before_deadline_def later split: queue_event.split sum.split option.split)
  qed
qed

text \<open>
  C36. Every wait ends. If the clock has passed a deadline from its n-th reading on, then waiting for a
  response reads at most one step beyond n and following a turn at most two, whatever the server sends;
  and the horizon of the model plays no role once it lies beyond n.
\<close>

theorem runner_waits_end:
  assumes "\<And>m. n \<le> m \<Longrightarrow> deadline \<le> io_clock io m" and "ss_step st \<le> n" and "n \<le> h" and "n \<le> h'"
  shows "ss_step (snd (receive_until io rid deadline suffix st)) \<le> n + 1
    \<and> ss_step (snd (turn_loop io safe_now thread turn deadline poll due st)) \<le> n + 2
    \<and> receive_until (io\<lparr>io_horizon := h\<rparr>) rid deadline suffix st = receive_until (io\<lparr>io_horizon := h'\<rparr>) rid deadline suffix st
    \<and> turn_loop (io\<lparr>io_horizon := h\<rparr>) safe_now thread turn deadline poll due st
        = turn_loop (io\<lparr>io_horizon := h'\<rparr>) safe_now thread turn deadline poll due st"
proof (intro conjI)
  have late: "\<not> before_deadline io deadline m" if "n \<le> m" for m
    using assms(1) [OF that] by (simp add: before_deadline_def)
  show "ss_step (snd (receive_until io rid deadline suffix st)) \<le> n + 1"
    using poll_loop_stops [where live = "before_deadline io deadline", OF late [OF order_refl] assms(2)]
    by (simp add: receive_until_def)
  have same: "before_deadline (io\<lparr>io_horizon := k\<rparr>) deadline = before_deadline io deadline" for k
    by (intro ext) (simp add: before_deadline_def)
  show "receive_until (io\<lparr>io_horizon := h\<rparr>) rid deadline suffix st = receive_until (io\<lparr>io_horizon := h'\<rparr>) rid deadline suffix st"
    unfolding receive_until_def same by (rule poll_loop_horizon [OF late assms(3,4)])
  show "ss_step (snd (turn_loop io safe_now thread turn deadline poll due st)) \<le> n + 2"
    using assms(1,2) by (intro turn_loop_stops) auto
  show "turn_loop (io\<lparr>io_horizon := h\<rparr>) safe_now thread turn deadline poll due st
        = turn_loop (io\<lparr>io_horizon := h'\<rparr>) safe_now thread turn deadline poll due st"
    using assms(1,3,4) by (rule turn_loop_horizon)
qed

end
