(* ===== verification/Recovery.thy ===== *)
theory Recovery
  imports ControlOps
begin

text \<open>
  Crash recovery of leases and runs in closed form: what \<open>background_recover\<close> does to every row. It
  fences exactly the expired leases and runs, sends their jobs to review and never starts anything.
  The second part shows how a failed dispatch treats the controller's mode.
\<close>

section \<open>The loops in closed form\<close>

definition expired_lease :: "bool \<Rightarrow> rat \<Rightarrow> lease_row \<Rightarrow> lease_row" where
  "expired_lease stamp now r =
     r\<lparr>ls_state := lease_expired, ls_completed := (if stamp then Some now else ls_completed r)\<rparr>"

definition fenced_run :: "rat \<Rightarrow> run_row \<Rightarrow> run_row" where
  "fenced_run now r =
     r\<lparr>rn_state := run_needs_review, rn_updated := now, rn_completed := Some now,
       rn_stop_reason := Some ''LEASE_EXPIRED''\<rparr>"

definition reviewed_job :: "rat \<Rightarrow> job_row \<Rightarrow> job_row" where
  "reviewed_job now j = j\<lparr>jr_state := needs_review, jr_updated := now\<rparr>"

definition review_jobs :: "string set \<Rightarrow> rat \<Rightarrow> job_row list \<Rightarrow> job_row list" where
  "review_jobs ids now = update_where (\<lambda>j. jr_id j \<in> ids) (reviewed_job now)"

lemma reviewed_job_simps [simp]:
  "jr_id (reviewed_job now j) = jr_id j" "jr_state (reviewed_job now j) = needs_review"
  "reviewed_job now (reviewed_job now j) = reviewed_job now j"
  by (simp_all add: reviewed_job_def)

lemma review_jobs_twice: "review_jobs A now (review_jobs B now js) = review_jobs (A \<union> B) now js"
  by (auto simp: review_jobs_def update_where_def)

lemma review_jobs_empty [simp]: "review_jobs {} now js = js"
  by (simp add: review_jobs_def)

lemma set_job_state_review:
  "set_job_state j needs_review now d = d\<lparr>jobs_t := review_jobs {j} now (jobs_t d)\<rparr>"
  by (simp add: set_job_state_def review_jobs_def reviewed_job_def [abs_def])

lemma expire_lease_found:
  assumes "c \<in> set (leases_t d)" and "lease_expired_at now c"
  shows "expire_lease stamp now c (ids, d) =
    (ids @ [ls_id c],
     d\<lparr>leases_t := update_where (\<lambda>r. ls_id r = ls_id c \<and> lease_expired_at now r) (expired_lease stamp now) (leases_t d),
       jobs_t := review_jobs {ls_job c} now (jobs_t d)\<rparr>)"
proof -
  have "row_count (\<lambda>r. ls_id r = ls_id c \<and> lease_expired_at now r) (leases_t d) \<noteq> 0"
    using assms by auto
  then show ?thesis
    by (simp add: expire_lease_def Let_def set_job_state_review expired_lease_def [abs_def] del: row_count_0)
qed

lemma lease_not_expired_after [simp]: "\<not> lease_expired_at now (expired_lease stamp now r)"
  by (simp add: lease_expired_at_def expired_lease_def)

lemma run_not_expired_after [simp]: "\<not> run_expired_at now (fenced_run now r)"
  by (simp add: run_expired_at_def fenced_run_def)

lemma fold_expire_lease:
  assumes "distinct (map ls_id cs)" and "\<forall>c \<in> set cs. c \<in> set (leases_t d) \<and> lease_expired_at now c"
  shows "fold (expire_lease stamp now) cs (ids, d) =
    (ids @ map ls_id cs,
     d\<lparr>leases_t := update_where (\<lambda>r. ls_id r \<in> ls_id ` set cs \<and> lease_expired_at now r)
                    (expired_lease stamp now) (leases_t d),
       jobs_t := review_jobs (ls_job ` set cs) now (jobs_t d)\<rparr>)"
  using assms
proof (induction cs arbitrary: ids d)
  case (Cons c cs)
  let ?P = "\<lambda>r. ls_id r = ls_id c \<and> lease_expired_at now r"
  let ?d = "d\<lparr>leases_t := update_where ?P (expired_lease stamp now) (leases_t d),
       jobs_t := review_jobs {ls_job c} now (jobs_t d)\<rparr>"
  have rest: "\<forall>x \<in> set cs. x \<in> set (leases_t ?d) \<and> lease_expired_at now x"
  proof
    fix x assume x: "x \<in> set cs"
    from imageI [OF this, of ls_id] Cons.prems(1) have "ls_id x \<noteq> ls_id c" by auto
    with Cons.prems(2) x show "x \<in> set (leases_t ?d) \<and> lease_expired_at now x"
      by (auto simp: in_update_where)
  qed
  have both: "update_where (\<lambda>r. ls_id r \<in> ls_id ` set cs \<and> lease_expired_at now r) (expired_lease stamp now)
        (update_where ?P (expired_lease stamp now) (leases_t d))
      = update_where (\<lambda>r. ls_id r \<in> ls_id ` set (c # cs) \<and> lease_expired_at now r) (expired_lease stamp now) (leases_t d)"
    by (auto simp: update_where_def)
  have "fold (expire_lease stamp now) (c # cs) (ids, d) = fold (expire_lease stamp now) cs (ids @ [ls_id c], ?d)"
    using Cons.prems by (simp add: expire_lease_found)
  also have "\<dots> = (ids @ map ls_id (c # cs),
     d\<lparr>leases_t := update_where (\<lambda>r. ls_id r \<in> ls_id ` set (c # cs) \<and> lease_expired_at now r)
                    (expired_lease stamp now) (leases_t d),
       jobs_t := review_jobs (ls_job ` set (c # cs)) now (jobs_t d)\<rparr>)"
    using Cons.IH [OF _ rest, of "ids @ [ls_id c]"] Cons.prems(1) both
    by (simp add: review_jobs_twice)
  finally show ?case .
qed simp

definition run_jobs :: "run_row list \<Rightarrow> string set" where
  "run_jobs rs = {j. \<exists>r \<in> set rs. rn_job r = Some j}"

lemma fence_run_found:
  assumes "c \<in> set (runs_t d)" and "run_expired_at now c" and "distinct (map rn_id (runs_t d))"
  shows "fence_run now c (ids, d) =
    (ids @ [rn_id c],
     d\<lparr>runs_t := update_where (\<lambda>r. rn_id r = rn_id c \<and> run_expired_at now r) (fenced_run now) (runs_t d),
       jobs_t := review_jobs (run_jobs [c]) now (jobs_t d)\<rparr>)"
proof -
  have "row_count (\<lambda>r. rn_id r = rn_id c \<and> run_expired_at now r) (runs_t d) \<noteq> 0"
    using assms by auto
  moreover have "fetchone (\<lambda>r. rn_id r = rn_id c) (runs_t d) = Some c"
    using assms(1,3) by (intro fetchone_unique)
  moreover have "fenced_run now = (\<lambda>r. r\<lparr>rn_state := run_needs_review, rn_updated := now,
      rn_completed := Some now, rn_stop_reason := Some ''LEASE_EXPIRED''\<rparr>)"
    by (simp add: fenced_run_def fun_eq_iff)
  ultimately show ?thesis
    by (cases "rn_job c")
       (simp_all add: fence_run_def Let_def set_job_state_review run_jobs_def del: row_count_0)
qed

lemma fold_fence_run:
  assumes "distinct (map rn_id cs)" and "\<forall>c \<in> set cs. c \<in> set (runs_t d) \<and> run_expired_at now c"
    and "distinct (map rn_id (runs_t d))"
  shows "fold (fence_run now) cs (ids, d) =
    (ids @ map rn_id cs,
     d\<lparr>runs_t := update_where (\<lambda>r. rn_id r \<in> rn_id ` set cs \<and> run_expired_at now r) (fenced_run now) (runs_t d),
       jobs_t := review_jobs (run_jobs cs) now (jobs_t d)\<rparr>)"
  using assms
proof (induction cs arbitrary: ids d)
  case (Cons c cs)
  let ?P = "\<lambda>r. rn_id r = rn_id c \<and> run_expired_at now r"
  let ?d = "d\<lparr>runs_t := update_where ?P (fenced_run now) (runs_t d),
       jobs_t := review_jobs (run_jobs [c]) now (jobs_t d)\<rparr>"
  have rest: "\<forall>x \<in> set cs. x \<in> set (runs_t ?d) \<and> run_expired_at now x"
  proof
    fix x assume x: "x \<in> set cs"
    from imageI [OF this, of rn_id] Cons.prems(1) have "rn_id x \<noteq> rn_id c" by auto
    with Cons.prems(2) x show "x \<in> set (runs_t ?d) \<and> run_expired_at now x"
      by (auto simp: in_update_where)
  qed
  have keys: "distinct (map rn_id (runs_t ?d))"
    using Cons.prems(3) by (simp add: map_update_where fenced_run_def)
  have both: "update_where (\<lambda>r. rn_id r \<in> rn_id ` set cs \<and> run_expired_at now r) (fenced_run now)
        (update_where ?P (fenced_run now) (runs_t d))
      = update_where (\<lambda>r. rn_id r \<in> rn_id ` set (c # cs) \<and> run_expired_at now r) (fenced_run now) (runs_t d)"
    by (auto simp: update_where_def)
  have jobs: "run_jobs cs \<union> run_jobs [c] = run_jobs (c # cs)"
    by (auto simp: run_jobs_def)
  have "fold (fence_run now) (c # cs) (ids, d) = fold (fence_run now) cs (ids @ [rn_id c], ?d)"
    using Cons.prems by (simp add: fence_run_found)
  also have "\<dots> = (ids @ map rn_id (c # cs),
     d\<lparr>runs_t := update_where (\<lambda>r. rn_id r \<in> rn_id ` set (c # cs) \<and> run_expired_at now r) (fenced_run now) (runs_t d),
       jobs_t := review_jobs (run_jobs (c # cs)) now (jobs_t d)\<rparr>)"
    using Cons.IH [OF _ rest keys, of "ids @ [rn_id c]"] Cons.prems(1) both jobs
    by (simp add: review_jobs_twice)
  finally show ?case .
qed (simp add: run_jobs_def)

section \<open>Background recovery\<close>

definition work_keys_ok :: "db \<Rightarrow> bool" where
  "work_keys_ok d \<longleftrightarrow> distinct (map ls_id (leases_t d)) \<and> distinct (map rn_id (runs_t d))"

definition recovered_db :: "rat \<Rightarrow> db \<Rightarrow> db" where
  "recovered_db now d =
     d\<lparr>leases_t := update_where (lease_expired_at now) (expired_lease True now) (leases_t d),
       runs_t := update_where (run_expired_at now) (fenced_run now) (runs_t d),
       jobs_t := review_jobs (ls_job ` {r \<in> set (leases_t d). lease_expired_at now r}
                   \<union> run_jobs (filter (run_expired_at now) (runs_t d))) now (jobs_t d)\<rparr>"

lemma update_where_cong: "(\<And>r. r \<in> set rows \<Longrightarrow> P r = Q r) \<Longrightarrow> update_where P f rows = update_where Q f rows"
  by (simp add: update_where_def)

lemma expire_candidates:
  assumes "work_keys_ok d"
  shows "fold (expire_lease True now) (reconciliation_candidates now d) ([], d) =
      (map ls_id (reconciliation_candidates now d),
       d\<lparr>leases_t := update_where (lease_expired_at now) (expired_lease True now) (leases_t d),
         jobs_t := review_jobs (ls_job ` {r \<in> set (leases_t d). lease_expired_at now r}) now (jobs_t d)\<rparr>)"
proof -
  let ?cs = "reconciliation_candidates now d"
  have cs: "set ?cs = {r \<in> set (leases_t d). lease_expired_at now r}"
    by (auto simp: reconciliation_candidates_def)
  have "distinct (map ls_id ?cs)"
    using assms by (auto simp: work_keys_ok_def reconciliation_candidates_def distinct_map inj_on_def)
  moreover have "update_where (\<lambda>r. ls_id r \<in> ls_id ` set ?cs \<and> lease_expired_at now r) (expired_lease True now) (leases_t d)
      = update_where (lease_expired_at now) (expired_lease True now) (leases_t d)"
    by (rule update_where_cong) (auto simp: cs)
  ultimately show ?thesis
    using fold_expire_lease [of ?cs d now True "[]"] cs by simp
qed

lemma fence_candidates:
  assumes "work_keys_ok d"
  shows "fold (fence_run now) (run_reconciliation_candidates now d) ([], d) =
      (map rn_id (run_reconciliation_candidates now d),
       d\<lparr>runs_t := update_where (run_expired_at now) (fenced_run now) (runs_t d),
         jobs_t := review_jobs (run_jobs (filter (run_expired_at now) (runs_t d))) now (jobs_t d)\<rparr>)"
proof -
  let ?rs = "run_reconciliation_candidates now d"
  have rs: "set ?rs = {r \<in> set (runs_t d). run_expired_at now r}"
    by (auto simp: run_reconciliation_candidates_def)
  have "distinct (map rn_id ?rs)" "distinct (map rn_id (runs_t d))"
    using assms by (auto simp: work_keys_ok_def run_reconciliation_candidates_def distinct_map inj_on_def)
  moreover have "update_where (\<lambda>r. rn_id r \<in> rn_id ` set ?rs \<and> run_expired_at now r) (fenced_run now) (runs_t d)
      = update_where (run_expired_at now) (fenced_run now) (runs_t d)"
    by (rule update_where_cong) (auto simp: rs)
  moreover have "run_jobs ?rs = run_jobs (filter (run_expired_at now) (runs_t d))"
    by (auto simp: run_jobs_def rs)
  ultimately show ?thesis
    using fold_fence_run [of ?rs d now "[]"] rs by simp
qed

text \<open>The whole transaction.\<close>

lemma recover_transaction_result:
  assumes "work_keys_ok d" and "recover_transaction sv who now d = Inr ((lids, rids), d')"
  shows "lids = map ls_id (reconciliation_candidates now d)
    \<and> rids = map rn_id (run_reconciliation_candidates now d)
    \<and> valid (verify_audit (sv_host sv) d)
    \<and> (if lids = [] \<and> rids = [] then d' = recovered_db now d
       else \<exists>ev. d' = (set_controller PAUSED (Some ''RECOVERY_REVIEW_REQUIRED'') now (recovered_db now d))
              \<lparr>audit_t := audit_t d @ [ev]\<rparr>)"
proof -
  let ?e = "d\<lparr>leases_t := update_where (lease_expired_at now) (expired_lease True now) (leases_t d),
         jobs_t := review_jobs (ls_job ` {r \<in> set (leases_t d). lease_expired_at now r}) now (jobs_t d)\<rparr>"
  have keys: "work_keys_ok ?e"
    using assms(1) by (simp add: work_keys_ok_def map_update_where expired_lease_def)
  have cand: "run_reconciliation_candidates now ?e = run_reconciliation_candidates now d"
    by (simp add: run_reconciliation_candidates_def)
  have db: "?e\<lparr>runs_t := update_where (run_expired_at now) (fenced_run now) (runs_t ?e),
         jobs_t := review_jobs (run_jobs (filter (run_expired_at now) (runs_t ?e))) now (jobs_t ?e)\<rparr> = recovered_db now d"
    by (simp add: recovered_db_def review_jobs_twice Un_commute)
  have fenced: "fold (fence_run now) (run_reconciliation_candidates now ?e) ([], ?e)
      = (map rn_id (run_reconciliation_candidates now d), recovered_db now d)"
    using fence_candidates [OF keys, of now] unfolding db cand .
  have body: "recover_transaction sv who now d =
     rbind (guard (valid (verify_audit (sv_host sv) d)) ''AUDIT_INVALID'') (\<lambda>_.
       if map ls_id (reconciliation_candidates now d) \<noteq> [] \<or> map rn_id (run_reconciliation_candidates now d) \<noteq> []
           then rbind (audit sv ''background.recovered'' who
                         (JObj [(''lease_ids'', id_array (map ls_id (reconciliation_candidates now d))),
                                (''run_ids'', id_array (map rn_id (run_reconciliation_candidates now d)))]) now
                         (set_controller PAUSED (Some ''RECOVERY_REVIEW_REQUIRED'') now (recovered_db now d)))
                  (\<lambda>(event_id, d3). Inr ((map ls_id (reconciliation_candidates now d), map rn_id (run_reconciliation_candidates now d)), d3))
           else Inr ((map ls_id (reconciliation_candidates now d), map rn_id (run_reconciliation_candidates now d)), recovered_db now d))"
    unfolding recover_transaction_def expire_candidates [OF assms(1)] Let_def prod.case
      fenced ..
  have audit: "audit_t (set_controller PAUSED r now (recovered_db now d)) = audit_t d" for r
    by (simp add: set_controller_def recovered_db_def)
  show ?thesis
    using assms(2) unfolding body by (auto simp: audit dest!: audit_frame split: if_splits)
qed

text \<open>
  Crash recovery fences and never restarts. When \<open>background_recover\<close> succeeds on tables with
  unique identifiers, the audit chain was valid; afterwards no active lease and no active run is past
  its expiry; every expired lease and run is closed and its job is in review; every other lease and run
  is unchanged, every job is unchanged or in review; and if anything was fenced the controller is
  paused, while if nothing was, the controller and the jobs are untouched.
\<close>

theorem background_recover_fences_expired_work:
  assumes "background_recover sv who now d = (Inr (lids, rids), d')" and "work_keys_ok d"
  shows "valid (verify_audit (sv_host sv) d)
    \<and> leases_t d' = map (\<lambda>r. if lease_expired_at now r then expired_lease True now r else r) (leases_t d)
    \<and> runs_t d' = map (\<lambda>r. if run_expired_at now r then fenced_run now r else r) (runs_t d)
    \<and> (\<forall>r \<in> set (leases_t d'). \<not> lease_expired_at now r) \<and> (\<forall>r \<in> set (runs_t d'). \<not> run_expired_at now r)
    \<and> list_all2 (\<lambda>j j'. j' = reviewed_job now j \<or>
          j' = j \<and> (\<forall>r \<in> set (leases_t d). lease_expired_at now r \<longrightarrow> ls_job r \<noteq> jr_id j)
                 \<and> (\<forall>r \<in> set (runs_t d). run_expired_at now r \<longrightarrow> rn_job r \<noteq> Some (jr_id j)))
        (jobs_t d) (jobs_t d')
    \<and> set lids = ls_id ` {r \<in> set (leases_t d). lease_expired_at now r}
    \<and> set rids = rn_id ` {r \<in> set (runs_t d). run_expired_at now r}
    \<and> (if lids = [] \<and> rids = [] then controller_t d' = controller_t d \<and> jobs_t d' = jobs_t d
       else \<forall>c. controller_t d' = Some c \<longrightarrow> mode c = PAUSED)"
proof -
  obtain who' where t: "recover_transaction sv who' now d = Inr ((lids, rids), d')"
    using assms(1) by (auto simp: background_recover_def eff_defs split: sum.splits prod.splits)
  note res = recover_transaction_result [OF assms(2) t]
  let ?ids = "ls_job ` {r \<in> set (leases_t d). lease_expired_at now r} \<union> run_jobs (filter (run_expired_at now) (runs_t d))"
  have tables: "leases_t d' = update_where (lease_expired_at now) (expired_lease True now) (leases_t d)"
    "runs_t d' = update_where (run_expired_at now) (fenced_run now) (runs_t d)"
    "jobs_t d' = review_jobs ?ids now (jobs_t d)"
    using res by (auto simp: recovered_db_def set_controller_def split: if_splits)
  have sets: "set lids = ls_id ` {r \<in> set (leases_t d). lease_expired_at now r}"
    "set rids = rn_id ` {r \<in> set (runs_t d). run_expired_at now r}"
    using res by (auto simp: reconciliation_candidates_def run_reconciliation_candidates_def)
  have jobs: "list_all2 (\<lambda>j j'. j' = reviewed_job now j \<or>
          j' = j \<and> (\<forall>r \<in> set (leases_t d). lease_expired_at now r \<longrightarrow> ls_job r \<noteq> jr_id j)
                 \<and> (\<forall>r \<in> set (runs_t d). run_expired_at now r \<longrightarrow> rn_job r \<noteq> Some (jr_id j)))
        (jobs_t d) (jobs_t d')"
    unfolding tables(3) review_jobs_def update_where_def list_all2_map2
    by (rule list.rel_refl) (auto simp: run_jobs_def image_iff)
  have mode: "if lids = [] \<and> rids = [] then controller_t d' = controller_t d \<and> jobs_t d' = jobs_t d
       else \<forall>c. controller_t d' = Some c \<longrightarrow> mode c = PAUSED"
  proof (cases "lids = [] \<and> rids = []")
    case True
    then have "?ids = {}"
      using sets by (auto simp: run_jobs_def)
    then have "jobs_t d' = jobs_t d"
      by (simp only: tables(3) review_jobs_empty)
    moreover have "controller_t d' = controller_t d"
      using res True by (simp add: recovered_db_def)
    ultimately show ?thesis
      using True by simp
  next
    case False
    then show ?thesis
      using res by (auto simp: set_controller_def)
  qed
  show ?thesis
    using res jobs mode sets by (auto simp: tables update_where_def)
qed

section \<open>A failed dispatch\<close>

lemma audit_if_valid_frame:
  assumes "audit_if_valid sv ev who det now d = Inr (i, d')"
  shows "\<exists>rs. d' = d\<lparr>audit_t := audit_t d @ rs\<rparr>"
proof (cases "valid (verify_audit (sv_host sv) d)")
  case True
  then show ?thesis using assms by (auto simp: audit_if_valid_def dest!: audit_frame)
next
  case False
  then have "d' = d\<lparr>audit_t := audit_t d @ []\<rparr>" using assms by (simp add: audit_if_valid_def)
  then show ?thesis by blast
qed

text \<open>
  An attempted dispatch that failed is not retried: afterwards no job with that identifier is in a
  dispatchable state, the jobs that were (and only they) are in review, leases and runs are untouched,
  and the mode is BLOCKED for an invalid audit or database and PAUSED for every other reason, whatever it
  was before. A controller that the operator had stopped is therefore left PAUSED.
\<close>

theorem failed_dispatch_is_not_retried:
  assumes "background_dispatch_failed sv jid reason who now d = (Inr (changed, previous), d')"
  shows "job_state_of jid d = Some previous
    \<and> jobs_t d' = map (\<lambda>j. if jr_id j = jid \<and> jr_state j \<in> set dispatchable_states then reviewed_job now j else j) (jobs_t d)
    \<and> (\<forall>j \<in> set (jobs_t d'). jr_id j = jid \<longrightarrow> jr_state j \<notin> set dispatchable_states)
    \<and> leases_t d' = leases_t d \<and> runs_t d' = runs_t d
    \<and> map_option mode (controller_t d')
        = map_option (\<lambda>_. if reason \<in> {''AUDIT_INVALID'', ''DATABASE_INVALID''} then BLOCKED else PAUSED) (controller_t d)"
proof -
  obtain who' where t: "dispatch_failed_transaction sv jid reason who' now d = Inr ((changed, previous), d')"
    using assms by (auto simp: background_dispatch_failed_def eff_defs split: sum.splits prod.splits)
  let ?P = "\<lambda>r. jr_id r = jid \<and> jr_state r \<in> set dispatchable_states"
  let ?jobs = "update_where ?P (reviewed_job now) (jobs_t d)"
  have f: "(\<lambda>r. r\<lparr>jr_state := needs_review, jr_updated := now\<rparr>) = reviewed_job now"
    by (simp add: reviewed_job_def fun_eq_iff)
  have prev: "job_state_of jid d = Some previous"
    using t by (auto simp: dispatch_failed_transaction_def Let_def split: option.splits)
  have tables: "jobs_t d' = ?jobs" "leases_t d' = leases_t d" "runs_t d' = runs_t d"
    using t by (auto simp: dispatch_failed_transaction_def Let_def f set_controller_def
        split: option.splits dest!: audit_if_valid_frame)
  have review: "needs_review \<notin> set dispatchable_states"
    by (simp add: dispatchable_states_def)
  have clear: "\<forall>j \<in> set (jobs_t d'). jr_id j = jid \<longrightarrow> jr_state j \<notin> set dispatchable_states"
  proof
    fix j assume "j \<in> set (jobs_t d')"
    then obtain r where "j = (if ?P r then reviewed_job now r else r)"
      unfolding tables(1) in_update_where by blast
    then show "jr_id j = jid \<longrightarrow> jr_state j \<notin> set dispatchable_states"
      using review by (cases "?P r") auto
  qed
  have mode: "map_option mode (controller_t d')
        = map_option (\<lambda>_. if reason \<in> {''AUDIT_INVALID'', ''DATABASE_INVALID''} then BLOCKED else PAUSED) (controller_t d)"
    using dispatch_failed_controller [OF t] by (cases "controller_t d") (auto simp: set_controller_def)
  have jobs: "jobs_t d' = map (\<lambda>j. if ?P j then reviewed_job now j else j) (jobs_t d)"
    by (simp only: tables update_where_def)
  show ?thesis
    using prev jobs clear tables(2,3) mode by blast
qed

end
