(* ===== verification/ControlScenarios.thy ===== *)
theory ControlScenarios
  imports Recovery
begin

text \<open>
  Concrete runs of the controller's commands, used to witness that the hypotheses of their properties
  can hold: a job is submitted and cancelled, a ready controller stays ready, a paused one is resumed
  on an eligible snapshot, and an expired lease is fenced.
\<close>

section \<open>A controller\<close>

text \<open>A host whose digests have the right shape; every digest is the same.\<close>

definition demo_digest :: string where
  "demo_digest = replicate 64 (CHR ''a'')"

definition demo_host :: host where
  "demo_host = \<lparr>float_repr = (\<lambda>_. ''0.0''), sha256_hex = (\<lambda>_. demo_digest)\<rparr>"

definition demo_config :: config where
  "demo_config = sample_config\<lparr>cfg_capabilities := LOCAL_DRY_RUN_CAPABILITIES, cfg_dispatch_poll := 30\<rparr>"

definition demo_sv :: svc where
  "demo_sv = \<lparr>sv_host = demo_host, sv_config = demo_config, sv_event_id = (\<lambda>n. ''e'' @ dec_nat n),
     sv_resolve = (\<lambda>p. p), sv_is_dir = (\<lambda>p. True)\<rparr>"

definition demo_approval :: "string \<Rightarrow> json" where
  "demo_approval act = approval_dict \<lparr>approval_id = ''ap1'', actor = ''user'', action = act,
     scope_hash = demo_digest, capabilities = [''control.local.write'', ''queue.local.write''], granted_at = 1000,
     expires_at = 2000\<rparr>"

definition demo_job :: json where
  "demo_job = job_dict \<lparr>job_id = ''j1'', work_ref = ''w1'', priority = 5,
     expected_usage = sample_usage, simulation_of = None\<rparr>"

definition demo_job_row :: job_row where
  "demo_job_row = \<lparr>jr_id = ''j1'', jr_work_ref = ''w1'', jr_priority = 5, jr_state = approved,
     jr_manifest = demo_job, jr_manifest_hash = demo_digest, jr_approval = ''ap0'', jr_created = 900,
     jr_updated = 900\<rparr>"

definition demo_db :: "controller_mode \<Rightarrow> db" where
  "demo_db m = empty_db\<lparr>controller_t := Some \<lparr>mode = m, controller_reason = None, controller_updated_at = 900\<rparr>,
     policies_t := Some \<lparr>policy_version = 1, policy_json = policy_dict sample_policy,
       policy_row_hash = demo_digest, policy_updated_at = 900\<rparr>,
     snapshots_t := [\<lparr>snap_id = ''q1'', snap_observed_at = 1000, snap_json = snapshot_dict sample_snapshot,
       snap_hash = demo_digest\<rparr>],
     bindings_t := [\<lparr>bind_profile = ''default'', bind_fingerprint = replicate 64 (CHR ''a''),
       bind_account_type = ''chatgpt'', bind_plan = Some ''pro'', bind_first = 900, bind_last = 900\<rparr>],
     jobs_t := [demo_job_row]\<rparr>"

section \<open>Workspace paths and cancelling\<close>

theorem resolve_workspace_cwd_confined_witness: "path_below ''/work'' ''/work/app'' \<or> ''/work/app'' = ''/work''"
proof -
  have "resolve_workspace_cwd demo_sv ''app'' = Inr ''/work/app''" by code_simp
  from resolve_workspace_cwd_confined [OF this] show ?thesis
    by (auto simp: demo_sv_def demo_config_def sample_config_def)
qed

definition cancel_run :: "(err + command_result) \<times> db" where
  "cancel_run = queue_cancel demo_sv ''j1'' ''k1'' ''user'' 1010 (demo_db READY)"

lemma cancel_run_ok: "map_sum id snd (fst cancel_run) = Inr False"
  by code_simp

lemma inr_run: "map_sum id snd (fst x) = Inr b \<Longrightarrow> \<exists>r. x = (Inr (r, b), snd x)"
  by (cases x; cases "fst x") (auto simp: prod_eq_iff)

theorem queue_cancel_only_unstarted_witness:
  "jobs_t (snd cancel_run) = jobs_t (set_job_state ''j1'' cancelled 1010 (demo_db READY))"
proof -
  obtain r where r: "cancel_run = (Inr (r, False), snd cancel_run)"
    using inr_run [OF cancel_run_ok] by blast
  from queue_cancel_only_unstarted [OF r [unfolded cancel_run_def]] show ?thesis
    by (simp add: cancel_run_def)
qed

theorem only_resume_makes_ready_witness: "ready (demo_db READY)"
proof (rule only_resume_makes_ready [of demo_sv demo_job "''k1''" "''user''" 1010 "demo_db READY"])
  have "mode (the (controller_t (snd cancel_run))) = READY" "controller_t (snd cancel_run) \<noteq> None"
    by code_simp+
  then have "ready (snd cancel_run)" by (auto simp: ready_def)
  then show "ready (snd (queue_propose demo_sv demo_job ''k1'' ''user'' 1010 (demo_db READY)))
      \<or> ready (snd (queue_approve demo_sv ''j1'' JNull ''k1'' ''user'' 1010 (demo_db READY)))
      \<or> ready (snd (queue_submit demo_sv demo_job JNull ''k1'' ''user'' 1010 (demo_db READY)))
      \<or> ready (snd (queue_cancel demo_sv ''j1'' ''k1'' ''user'' 1010 (demo_db READY)))
      \<or> ready (snd (policy_set demo_sv demo_job JNull ''k1'' ''user'' 1010 (demo_db READY)))
      \<or> ready (snd (pause demo_sv ''r'' ''k1'' ''user'' 1010 (demo_db READY)))
      \<or> ready (snd (stop demo_sv ''r'' ''k1'' ''user'' 1010 (demo_db READY)))
      \<or> ready (snd (reconcile demo_sv JNull ''k1'' ''user'' 1010 (demo_db READY)))
      \<or> ready (snd (background_recover demo_sv ''user'' 1010 (demo_db READY)))
      \<or> ready (snd (background_safety_stop demo_sv ''r'' ''user'' 1010 (demo_db READY)))
      \<or> ready (snd (background_dispatch_failed demo_sv ''j1'' ''r'' ''user'' 1010 (demo_db READY)))"
    by (simp add: cancel_run_def)
qed

section \<open>Submitting and resuming\<close>

definition submit_run :: "(err + command_result) \<times> db" where
  "submit_run = queue_submit demo_sv demo_job (demo_approval ''queue.submit'') ''k1'' ''user'' 1010 empty_db"

lemma submit_run_changes: "jobs_t (snd submit_run) \<noteq> []"
  by code_simp


definition resume_run :: "(err + command_result) \<times> db" where
  "resume_run = resume demo_sv (demo_approval ''resume'') ''k1'' ''user'' 1010 (demo_db PAUSED)"

lemma resume_run_ok: "map_sum id snd (fst resume_run) = Inr False"
  by code_simp

theorem resume_only_when_safe_witness:
  "ready (snd resume_run) \<and> \<not> ready (demo_db PAUSED)
   \<and> (\<exists>p. current_policy (demo_db PAUSED) = Inr p
        \<and> bound_and_eligible demo_config (latest_snapshot (demo_db PAUSED)) p 1010 None (demo_db PAUSED))"
proof -
  obtain r where r: "resume_run = (Inr (r, False), snd resume_run)"
    using inr_run [OF resume_run_ok] by blast
  from resume_only_when_safe [OF r [unfolded resume_run_def]] show ?thesis
    by (auto simp: resume_run_def demo_sv_def ready_def)
qed

section \<open>Recovery\<close>

definition stale_db :: db where
  "stale_db = (demo_db READY)\<lparr>jobs_t := [demo_job_row\<lparr>jr_state := simulating\<rparr>],
     leases_t := [\<lparr>ls_id = ''l1'', ls_job = ''j1'', ls_owner = ''o'', ls_state = lease_active,
       ls_acquired = 900, ls_expires = 960, ls_completed = None\<rparr>]\<rparr>"

definition recover_run :: "(err + string list \<times> string list) \<times> db" where
  "recover_run = background_recover demo_sv ''user'' 1010 stale_db"

lemma recover_run_ok: "fst recover_run = Inr ([''l1''], [])"
  by code_simp

theorem background_recover_fences_expired_work_witness:
  "leases_t (snd recover_run)
     = map (\<lambda>r. if lease_expired_at 1010 r then expired_lease True 1010 r else r) (leases_t stale_db)"
proof -
  have run: "background_recover demo_sv ''user'' 1010 stale_db = (Inr ([''l1''], []), snd recover_run)"
    using recover_run_ok by (simp add: recover_run_def prod_eq_iff)
  have "work_keys_ok stale_db"
    by (simp add: work_keys_ok_def stale_db_def demo_db_def empty_db_def)
  from background_recover_fences_expired_work [OF run this] show ?thesis
    by (elim conjE)
qed

definition failed_run :: "(err + bool \<times> job_state) \<times> db" where
  "failed_run = background_dispatch_failed demo_sv ''j1'' ''WORKER_FAILED'' ''user'' 1010 (demo_db STOPPED)"

lemma failed_run_ok: "fst failed_run = Inr (True, approved)"
  by code_simp

text \<open>The stopped controller is paused.\<close>

theorem failed_dispatch_is_not_retried_witness:
  "map_option mode (controller_t (demo_db STOPPED)) = Some STOPPED
   \<and> map_option mode (controller_t (snd failed_run)) = Some PAUSED"
proof -
  have run: "background_dispatch_failed demo_sv ''j1'' ''WORKER_FAILED'' ''user'' 1010 (demo_db STOPPED)
      = (Inr (True, approved), snd failed_run)"
    using failed_run_ok by (simp add: failed_run_def prod_eq_iff)
  from failed_dispatch_is_not_retried [OF run] show ?thesis
    by (simp add: demo_db_def)
qed

end
