(* ===== verification/WorldScenarios.thy ===== *)
theory WorldScenarios
  imports RunnerSafety ControlScenarios
begin

text \<open>
  Concrete runs of the long operations, used to witness that the hypotheses of their properties can
  hold: a quota probe, a simulated run, the claim of an approved work package, a dispatch whose runner
  fails, a replayed dispatch and a short App Server session.
\<close>

section \<open>A world\<close>

definition demo_env :: wenv where
  "demo_env = \<lparr>we_svc = demo_sv, we_others = (\<lambda>_ d. d), we_clock = (\<lambda>_. 1010), we_hex = (\<lambda>_. ''0a''),
     we_probe = (\<lambda>_. Inr (snapshot_dict sample_snapshot)), we_shutdown = (\<lambda>_. False), we_check = (\<lambda>_. [''ok''])\<rparr>"

definition demo_world :: "db \<Rightarrow> wst" where
  "demo_world d = \<lparr>w_db = d, w_step = 0, w_checks = 0\<rparr>"

lemma inr_world: "map_sum id snd (fst x) = Inr b \<Longrightarrow> \<exists>r. x = (Inr (r, b), snd x)"
  by (cases x; cases "fst x") (auto simp: prod_eq_iff)

section \<open>A probe\<close>

definition unprobed :: db where
  "unprobed = demo_db READY\<lparr>snapshots_t := [], bindings_t := []\<rparr>"

lemma demo_hash [simp]: "payload_hash demo_host v = demo_digest" "payload_hash (sv_host demo_sv) v = demo_digest"
  by (simp_all add: payload_hash_def demo_host_def demo_sv_def)

lemma probe_steps:
  "require_capability demo_sv ''quota.read'' = Inr ()"
  "valid_actor ''user'' = Inr ''user''"
  "accept_probe demo_config (Inr (snapshot_dict sample_snapshot)) = Inr sample_snapshot"
  by code_simp+

lemma probe_first: "idem_t d = [] \<Longrightarrow> replay_idempotent (sv_host demo_sv) ''k1'' ''probe'' (probe_request demo_sv) d = Inr None"
  by (simp add: replay_idempotent_def valid_key_def fetchone_def)

lemma probe_commits:
  "\<exists>r e. execute_idempotent (sv_host demo_sv) ''k1'' ''probe'' (probe_request demo_sv) 1010
     (probe_operation demo_sv ''user'' 1010 ''qta_0a'' sample_snapshot) unprobed = Inr ((r, False), e)"
  by (simp add: execute_idempotent_def valid_key_def fetchone_def Let_def probe_operation_def bind_account_def
      unprobed_def demo_db_def empty_db_def account_binding_def check_previous_def latest_snapshot_def reset_windows_def
      insert_snapshot_def audit_def append_audit_def)

definition probe_run :: "(err + command_result) \<times> wst" where
  "probe_run = probe_quota demo_env ''k1'' ''user'' (demo_world unprobed)"

lemma probe_run_observes: "\<exists>r. fst probe_run = Inr (r, False)"
proof -
  from probe_commits obtain r e where "execute_idempotent (sv_host demo_sv) ''k1'' ''probe'' (probe_request demo_sv) 1010
     (probe_operation demo_sv ''user'' 1010 ''qta_0a'' sample_snapshot) unprobed = Inr ((r, False), e)" by blast
  moreover have "sv_config demo_sv = demo_config" "idem_t unprobed = []"
    by (simp_all add: demo_sv_def unprobed_def demo_db_def empty_db_def)
  ultimately show ?thesis
    by (simp add: probe_run_def probe_quota_def demo_env_def demo_world_def wstep_defs eff_defs probe_steps probe_first new_id_def)
qed

theorem probe_quota_observes_bound_account_witness:
  "\<exists>b. account_binding ''default'' (w_db (snd probe_run)) = Some b \<and> bind_fingerprint b = replicate 64 (CHR ''a'')"
proof -
  obtain r where r: "probe_run = (Inr (r, False), snd probe_run)"
    using probe_run_observes by (metis prod.collapse)
  have "observations_kept d (we_others demo_env n d)" for n d
    by (simp add: demo_env_def observation.refl)
  from probe_quota_observes_bound_account [OF this r [unfolded probe_run_def]] obtain n x b where
    "accept_probe demo_config (we_probe demo_env n) = Inr x"
    "account_binding ''default'' (w_db (snd probe_run)) = Some b" "bind_fingerprint b = account_fingerprint x"
    by (auto simp: demo_env_def demo_sv_def demo_config_def sample_config_def probe_run_def)
  then show ?thesis
    using probe_steps(3) by (auto simp: demo_env_def sample_snapshot_def)
qed

section \<open>A simulated run\<close>

definition simulating_db :: db where
  "simulating_db = (demo_db READY)\<lparr>leases_t := [\<lparr>ls_id = ''l1'', ls_job = ''j1'', ls_owner = ''user'',
     ls_state = lease_active, ls_acquired = 1000, ls_expires = 1060, ls_completed = None\<rparr>]\<rparr>"

definition demo_job_value :: job where
  "demo_job_value = \<lparr>job_id = ''j1'', work_ref = ''w1'', priority = 5, expected_usage = sample_usage, simulation_of = None\<rparr>"

lemma demo_job_valid: "validate_job demo_job = Inr demo_job_value"
  by code_simp

lemma demo_ready: "current_mode (demo_db READY) = Inr READY" "policy_in (demo_db READY) = Inr sample_policy"
  "active_leases (demo_db READY) = []" "latest_snapshot (demo_db READY) = Some (snapshot_dict sample_snapshot)"
  "tick_candidates (demo_db READY) = [demo_job_row]"
  by code_simp+

lemma demo_decision:
  "map_sum id eligible (evaluate_current_policy demo_config (Some (snapshot_dict sample_snapshot)) sample_policy 1010
     (Some sample_usage) (demo_db READY)) = Inr True"
  "map_sum id has_signal_failure (evaluate_current_policy demo_config (Some (snapshot_dict sample_snapshot)) sample_policy 1010
     None (demo_db READY)) = Inr False"
  by code_simp+

lemma map_sum_Inr: "map_sum id f x = Inr y \<Longrightarrow> \<exists>z. x = Inr z \<and> f z = y"
  by (cases x) auto

lemma tick_claim_run:
  "\<exists>dec d'. tick_claim demo_sv ''k1'' ''user'' 1010 ''l1'' (demo_db READY)
     = Inr (Tick_claimed ''l1'' demo_job_value dec sample_policy sample_snapshot, d')"
proof -
  from map_sum_Inr [OF demo_decision(1)] map_sum_Inr [OF demo_decision(2)] obtain dec signal where
    "evaluate_current_policy demo_config (Some (snapshot_dict sample_snapshot)) sample_policy 1010
      (Some sample_usage) (demo_db READY) = Inr dec" "eligible dec"
    "evaluate_current_policy demo_config (Some (snapshot_dict sample_snapshot)) sample_policy 1010
      None (demo_db READY) = Inr signal" "\<not> has_signal_failure signal" by blast
  moreover have "sv_config demo_sv = demo_config" "expected_usage demo_job_value = sample_usage"
    "jr_manifest demo_job_row = demo_job" "validate_snapshot (snapshot_dict sample_snapshot) = Inr sample_snapshot"
    using probe_steps(3) by (auto simp: demo_sv_def demo_job_value_def demo_job_row_def accept_probe_def)
  moreover have "max_concurrency sample_policy = 1" "proposals_t (demo_db READY) = []" "leases_t (demo_db READY) = []"
    "audit_t (demo_db READY) = []"
    by (simp_all add: sample_policy_def demo_db_def empty_db_def)
  ultimately show ?thesis
    by (simp add: tick_claim_def demo_ready tick_choose_def demo_job_valid schedule_hold_def fetchone_def tick_take_def
        insert_lease_def audit_def append_audit_def set_job_state_def)
qed

theorem tick_claims_first_eligible_witness:
  "bound_and_eligible demo_config (latest_snapshot (demo_db READY)) sample_policy 1010 (Some sample_usage) (demo_db READY)"
proof -
  obtain dec d' where "tick_claim demo_sv ''k1'' ''user'' 1010 ''l1'' (demo_db READY)
     = Inr (Tick_claimed ''l1'' demo_job_value dec sample_policy sample_snapshot, d')"
    using tick_claim_run by blast
  from tick_claims_first_eligible [OF this] show ?thesis
    by (simp add: demo_sv_def demo_job_value_def)
qed

lemma tick_finish_run:
  "\<exists>r d'. tick_finish demo_sv ''k1'' ''user'' 1010 ''l1'' demo_job_value (missing_decision) sample_policy sample_snapshot simulating_db
     = Inr (r, d')"
proof -
  have "lease_held_by_job ''l1'' ''j1'' simulating_db" by code_simp
  then show ?thesis
    by (simp add: tick_finish_def demo_job_value_def fake_run_def tick_completed_def Let_def audit_def append_audit_def
        record_tick_def record_idempotent_def valid_key_def set_job_state_def close_lease_def set_controller_def
        simulating_db_def demo_db_def empty_db_def)
qed

theorem tick_finish_files_outcome_witness:
  "\<exists>r d'. tick_finish demo_sv ''k1'' ''user'' 1010 ''l1'' demo_job_value (missing_decision) sample_policy sample_snapshot simulating_db
     = Inr (r, d') \<and> active_leases d' = []"
proof -
  obtain r d' where f: "tick_finish demo_sv ''k1'' ''user'' 1010 ''l1'' demo_job_value (missing_decision) sample_policy
      sample_snapshot simulating_db = Inr (r, d')" using tick_finish_run by blast
  have "q \<notin> set (active_leases d')" for q
    using tick_finish_files_outcome [OF f] by (auto simp: active_leases_def simulating_db_def)
  then have "active_leases d' = []" by (metis list.set_intros(1) list.exhaust)
  with f show ?thesis by blast
qed

theorem tick_keeps_single_lease_witness:
  "lease_exclusive (w_db (snd (tick (with_peers demo_env (\<lambda>_. P_pause ''r'' ''k9'' ''user'' 1011)) ''k1'' ''user'' (demo_world simulating_db))))"
  by (rule tick_keeps_single_lease) (simp add: demo_world_def lease_exclusive_def active_leases_def simulating_db_def)

section \<open>A dispatch\<close>

definition demo_package :: work_package where
  "demo_package = \<lparr>wp_job = demo_job_value, objective = ''tidy'',
     wp_execution = \<lparr>cwd = ''app'', model = ''m1'', effort = ''low'', sandbox = ''read_only'', max_runtime_seconds = 60\<rparr>,
     dependencies = [], not_before = None\<rparr>"

definition dispatch_db :: db where
  "dispatch_db = (demo_db READY)\<lparr>
     proposals_t := [\<lparr>pr_id = ''j1'', pr_work_ref = ''w1'', pr_priority = 5, pr_state = proposal_approved,
       pr_package = work_package_dict demo_package, pr_hash = demo_digest, pr_created = 900, pr_updated = 900,
       pr_approved_at = Some 900\<rparr>],
     approvals_t := [\<lparr>appr_id = ''ap0'', appr_action = ''queue.approve'', appr_actor = ''user'', appr_scope = demo_digest,
       appr_capabilities = JArr [JStr ''work.dispatch''], appr_granted = 900, appr_expires = 2000, appr_hash = demo_digest\<rparr>]\<rparr>"

definition demo_call :: dispatch_call where
  "demo_call = \<lparr>dc_job = Some ''j1'', dc_key = ''k1'', dc_actor = ''user'', dc_owner = Some ''o1'',
     dc_heartbeat = None, dc_shutdown = None\<rparr>"

lemma demo_package_valid: "validate_work_package (work_package_dict demo_package) = Inr demo_package"
  by code_simp

lemma dispatch_facts:
  "current_mode dispatch_db = Inr READY" "policy_in dispatch_db = Inr sample_policy"
  "active_leases dispatch_db = []" "active_runs dispatch_db = []"
  "latest_snapshot dispatch_db = Some (snapshot_dict sample_snapshot)"
  "dispatch_rows (Some ''j1'') dispatch_db = [demo_job_row]"
  "resolve_workspace_cwd demo_sv ''app'' = Inr ''/work/app''"
  "paid_credit_issues demo_config (Some (snapshot_dict sample_snapshot)) = []"
  "row_count (claimable ''j1'') (jobs_t dispatch_db) = 1"
  by code_simp+

lemma dispatch_decision:
  "map_sum id eligible (evaluate_current_policy demo_config (Some (snapshot_dict sample_snapshot)) sample_policy 1010
     (Some sample_usage) dispatch_db) = Inr True"
  by code_simp

lemma eligible_no_reasons:
  assumes "evaluate_current_policy cfg snap p now u d = Inr dec" and "eligible dec"
  shows "reasons dec = []"
  using assms
  by (auto simp: evaluate_current_policy_def invalid_signal_decision_def eligible_iff_no_reasons
      split: option.splits sum.splits err.splits if_splits)

lemma dispatch_tables:
  "sv_config demo_sv = demo_config" "proposals_t dispatch_db = [\<lparr>pr_id = ''j1'', pr_work_ref = ''w1'', pr_priority = 5,
     pr_state = proposal_approved, pr_package = work_package_dict demo_package, pr_hash = demo_digest, pr_created = 900,
     pr_updated = 900, pr_approved_at = Some 900\<rparr>]" "audit_t dispatch_db = []" "runs_t dispatch_db = []"
  "idem_t dispatch_db = []" "sessions_t dispatch_db = []"
  "approvals_t dispatch_db = [\<lparr>appr_id = ''ap0'', appr_action = ''queue.approve'', appr_actor = ''user'', appr_scope = demo_digest,
     appr_capabilities = JArr [JStr ''work.dispatch''], appr_granted = 900, appr_expires = 2000, appr_hash = demo_digest\<rparr>]"
  by (simp_all add: demo_sv_def dispatch_db_def demo_db_def empty_db_def)

lemma selection_run:
  "\<exists>c. select_dispatch_candidate demo_sv 1010 (Some ''j1'') dispatch_db = Inr (Some c, []) \<and> cand_job c = ''j1''
     \<and> cand_package c = demo_package"
proof -
  from map_sum_Inr [OF dispatch_decision] obtain dec where
    dec: "evaluate_current_policy demo_config (Some (snapshot_dict sample_snapshot)) sample_policy 1010
      (Some sample_usage) dispatch_db = Inr dec" "eligible dec" by blast
  have none: "reasons dec = []"
    by (rule eligible_no_reasons [OF dec])
  have row: "jr_id demo_job_row = ''j1''" "jr_approval demo_job_row = ''ap0''" "jr_state demo_job_row = approved"
      "jr_manifest_hash demo_job_row = demo_digest"
    by (simp_all add: demo_job_row_def)
  have pkg: "expected_usage (wp_job demo_package) = sample_usage" "cwd (wp_execution demo_package) = ''app''"
      "job_id (wp_job demo_package) = ''j1''" "not_before demo_package = None" "dependencies demo_package = []"
    by (simp_all add: demo_package_def demo_job_value_def)
  have "examine_row demo_sv (Some (snapshot_dict sample_snapshot)) sample_policy 1010 dispatch_db demo_job_row
      = Inr ([], Some (candidate_of demo_job_row (hd (proposals_t dispatch_db)) demo_package (Some ''/work/app'') dec))"
    by (simp add: examine_row_def authorisation_def dispatch_tables fetchone_def row stored_package_def demo_package_valid
        package_cwd_def pkg dispatch_facts dec none package_issues_def package_hash_of_def grants_dispatch_def state_issues_def
        dispatchable_states_def Let_def issue_if_def)
  then show ?thesis
    by (simp add: select_dispatch_candidate_def dispatch_facts Let_def candidate_of_def row)
qed

lemma claim_run:
  "\<exists>c d'. claim_transaction demo_sv demo_call True ''user'' 1010 ''run_0a'' ''o1'' ''j1'' dispatch_db = Inr (c, d')"
proof -
  obtain c where "select_dispatch_candidate demo_sv 1010 (Some ''j1'') dispatch_db = Inr (Some c, [])" "cand_job c = ''j1''"
      "cand_package c = demo_package"
    using selection_run by blast
  then show ?thesis
    by (simp add: claim_transaction_def claim_guards_def dispatch_facts dispatch_tables verify_audit_def Let_def claim_writes_def
        insert_run_def audit_def append_audit_def record_idempotent_def valid_key_def demo_call_def)
qed

theorem dispatch_claims_authorised_work_witness:
  "\<exists>c d'. claim_transaction demo_sv demo_call True ''user'' 1010 ''run_0a'' ''o1'' ''j1'' dispatch_db = Inr (c, d')
     \<and> authorised_work demo_sv 1010 dispatch_db (cl_selected c)
     \<and> active_runs d' = [new_run ''run_0a'' ''j1'' ''o1'' 1010 (1010 + heartbeat_seconds demo_config)]"
proof -
  obtain c d' where c: "claim_transaction demo_sv demo_call True ''user'' 1010 ''run_0a'' ''o1'' ''j1'' dispatch_db = Inr (c, d')"
    using claim_run by blast
  with dispatch_claims_authorised_work [OF c] show ?thesis
    by (auto simp: demo_sv_def)
qed

theorem dispatch_keeps_single_run_witness:
  "one_run (w_db (snd (dispatch_run (with_dispatchers demo_env (\<lambda>_. D_claim demo_call True ''user'' 1010 ''r9'' ''o9'' ''j1''))
      (work_run \<lparr>io_spawn = Spawn_ok, io_clock = (\<lambda>n. of_nat n), io_wall = (\<lambda>n. of_nat n), io_horizon = 100,
         io_poll = (\<lambda>_. Q_empty), io_write = (\<lambda>_. True)\<rparr>) demo_call (demo_world dispatch_db))))"
  by (rule dispatch_keeps_single_run)
     (simp_all add: demo_world_def one_run_def dispatch_facts call_keeps_def demo_call_def)

definition demo_claim :: claim where
  "demo_claim = \<lparr>cl_run = ''r1'', cl_owner = ''o1'', cl_actor = ''user'',
     cl_selected = \<lparr>cand_approval = ''ap0'', cand_cwd = ''/work/app'', cand_decision = missing_decision, cand_job = ''j1'',
       cand_package = demo_package, cand_hash = demo_digest\<rparr>, cl_snapshot = None\<rparr>"

definition running_db :: db where
  "running_db = dispatch_db\<lparr>runs_t := [new_run ''r1'' ''j1'' ''o1'' 1000 1090]\<rparr>"

text \<open>A runner whose turn failed.\<close>

definition failing_runner :: "wst runner" where
  "failing_runner rq safe_now thread_known turn_known =
     eret (runner_outcome run_failed (Some ''TURN_FAILED'') (Some ''t1'') (Some ''u1''))"

definition failed_run :: "(err + command_result) \<times> wst" where
  "failed_run = claimed_dispatch demo_env failing_runner demo_call demo_claim (demo_world running_db)"

lemma failed_run_returns: "\<exists>v. fst failed_run = Inr (v, False)"
proof -
  have "row_count (own_run demo_claim) (runs_t running_db) = 1"
    by (simp add: running_db_def row_count_def own_run_def new_run_def demo_claim_def)
  moreover have "audit_t running_db = []" "controller_t running_db = Some \<lparr>mode = READY, controller_reason = None, controller_updated_at = 900\<rparr>"
    by (simp_all add: running_db_def dispatch_db_def demo_db_def empty_db_def)
  ultimately show ?thesis
    by (simp add: failed_run_def claimed_dispatch_def reset_checks_def run_work_def failing_runner_def runner_outcome_def
        post_run_def wstep_defs eff_defs demo_env_def demo_world_def finish_transaction_def pause_after_def current_mode_def
        set_job_state_def set_controller_def audit_def append_audit_def truthy_text_def Let_def)
qed


definition replay_db :: db where
  "replay_db = dispatch_db\<lparr>idem_t := [\<lparr>idem_key = ''k1'', idem_command = ''dispatch.run'', idem_request_hash = demo_digest,
     idem_result = JObj [(''state'', JStr ''succeeded'')], idem_created = 950\<rparr>]\<rparr>"

definition dispatch_sv :: svc where
  "dispatch_sv = demo_sv\<lparr>sv_config := demo_config\<lparr>cfg_capabilities := [''work.dispatch'']\<rparr>\<rparr>"

definition replay_run :: "(err + command_result) \<times> wst" where
  "replay_run = dispatch_run (demo_env\<lparr>we_svc := dispatch_sv\<rparr>) failing_runner demo_call (demo_world replay_db)"

lemma replay_run_returns: "fst replay_run = Inr (JObj [(''state'', JStr ''succeeded'')], True)"
proof -
  have names: "valid_actor ''user'' = Inr ''user''" "validate_identifier (JStr ''j1'') = Inr ''j1''"
    "validate_identifier (JStr ''o1'') = Inr ''o1''" by code_simp+
  show ?thesis
    by (simp add: names replay_run_def dispatch_run_def require_capability_def dispatch_sv_def demo_call_def claim_owner_def
        truthy_text_def demo_env_def demo_world_def wstep_defs eff_defs replay_idempotent_def valid_key_def replay_db_def
        fetchone_def replayed_result_def jgetn_def Let_def)
qed

theorem replayed_dispatch_starts_nothing_witness: "w_step (snd replay_run) = 2 \<and> w_db (snd replay_run) = replay_db"
proof -
  have r: "replay_run = (Inr (JObj [(''state'', JStr ''succeeded'')], True), snd replay_run)"
    using replay_run_returns by (metis prod.collapse)
  from replayed_dispatch_starts_nothing [OF r [unfolded replay_run_def]] show ?thesis
    by (simp add: replay_run_def demo_env_def demo_world_def)
qed

section \<open>An App Server session\<close>

text \<open>The server answers the first request; the safety check refuses.\<close>

definition short_io :: stdio where
  "short_io = \<lparr>io_spawn = Spawn_ok, io_clock = (\<lambda>n. of_nat n), io_wall = (\<lambda>n. of_nat n), io_horizon = 50,
     io_poll = (\<lambda>_. Q_line (Some (JObj [(''id'', JInt 1), (''result'', JObj [])]))), io_write = (\<lambda>_. True)\<rparr>"

definition demo_request :: run_request where
  "demo_request = \<lparr>rq_objective = ''tidy'', rq_cwd = ''/work/app'', rq_model = ''m1'', rq_effort = ''low'',
     rq_sandbox = ''read_only'', rq_max_runtime = 60, rq_poll = 30\<rparr>"

definition refused_run :: "(err + runner_result) \<times> nat" where
  "refused_run = work_run short_io demo_request (eret False) (\<lambda>_. eret ()) (\<lambda>_ _. eret ()) 0"

lemma refused_run_result: "fst refused_run = Inr (blocked_result ''SAFETY_CHECK_FAILED'' None)"
proof -
  have "work_line 1 suffix u (Some (JObj [(''id'', JInt 1), (''result'', JObj [])]))
      = Inl (Inr (JObj [(''id'', JInt 1), (''result'', JObj [])]))" for suffix u
    by (simp add: work_line_def jgetn_def jget_def)
  then show ?thesis
    unfolding refused_run_def work_run_session
    by (simp add: work_session_def io_open_def short_io_def rpc_def work_send_def io_defs eff_defs new_session_def
        receive_until_def poll_loop.simps before_deadline_def when_safe_def guard_def WORK_OUTBOUND_ALLOWLIST_def)
qed

theorem work_run_success_is_reported_witness: "ended (blocked_result ''SAFETY_CHECK_FAILED'' None)"
  using work_run_success_is_reported [OF refused_run_result [unfolded refused_run_def]] by blast

theorem runner_waits_end_witness:
  "ss_step (snd (receive_until (short_io\<lparr>io_poll := \<lambda>_. Q_empty\<rparr>) 1 20 [] (new_session (0::nat)))) \<le> 21"
  using runner_waits_end [of 20 20 "short_io\<lparr>io_poll := \<lambda>_. Q_empty\<rparr>" "new_session (0::nat)" 20 20 1 "[]"]
  by (simp add: short_io_def new_session_def)

end
