(* ===== verification/GuardStability.thy ===== *)
theory GuardStability
  imports GuardSafety
begin

text \<open>
  What a due cycle leaves alone. The interface \<open>quiet\<close> is for relations that look at the database only
  and that the adapter's side effects respect; it gives the interface \<open>resumption\<close>. It is interpreted
  at three relations: finished rows are never touched again, every changed row has a higher revision,
  and the tables outside the guard change only by valid audit events.
\<close>

section \<open>Relations on the database\<close>

locale quiet = step_rel R K
  for R :: "cst \<Rightarrow> cst \<Rightarrow> bool" and K :: "cst \<Rightarrow> bool" +
  fixes env :: genv and T :: "guard_target_state \<Rightarrow> bool"
  assumes q_T_live: "live st \<Longrightarrow> T st"
    and any_call: "keeps (adapter_call env c)"
    and q_target_write: "T st \<Longrightarrow> keeps (on_db (update_quota_guard_target g th (Some n) (Some st) now cs))"
    and q_target_written: "T st \<Longrightarrow> live_changes cs \<Longrightarrow> cs \<noteq> [] \<Longrightarrow>
          yields (on_db (update_quota_guard_target g th (Some n) (Some st) now cs)) (\<lambda>t. T (gt_state t))"
    and q_session_write: "sst \<noteq> DISARMED \<Longrightarrow>
          keeps (on_db (update_quota_guard_session g (Some n) (Some sst) now scs))"
    and q_fence_keeps: "keeps (on_db (\<lambda>d. case recover_quota_guard_pending reason now d of (gs, d') \<Rightarrow> (Inr gs, d')))"
    and q_audit_keeps: "keeps (audit_guard env ev s extra now)"
begin

lemma keeps_unless_disarmed: "keeps k \<Longrightarrow> keeps (unless_disarmed g x k)"
  unfolding unless_disarmed_def get_session_def on_db_eread by (intro keeps_intros)

lemma keeps_resume_gate: "keeps k \<Longrightarrow> keeps (resume_gate g x k)"
  unfolding resume_gate_def on_db_eread by (intro keeps_unless_disarmed keeps_intros)

lemma keeps_stop:
  assumes "T (gt_state t)" and "\<And>u v. T (gt_state u) \<Longrightarrow> keeps (confirm u v)"
    and "\<And>u e. T (gt_state u) \<Longrightarrow> keeps (handler u e)"
  shows "keeps (ebind (transition_target t T_STOPPING now [TC_original_turn (Some turn_id)]) (\<lambda>stopping.
            ecatch (unless_disarmed (gt_guard t) stopping
                      (ebind (adapter_call env (A_interrupt (gt_thread t) turn_id)) (confirm stopping)))
                   (handler stopping)))"
proof (rule keeps_ebind_yields)
  show "keeps (transition_target t T_STOPPING now [TC_original_turn (Some turn_id)])"
    unfolding transition_target_def transition_quota_guard_target_def by (rule q_target_write) (rule assms(1))
  show "yields (transition_target t T_STOPPING now [TC_original_turn (Some turn_id)]) (\<lambda>u. T (gt_state u))"
    unfolding transition_target_def transition_quota_guard_target_def
    by (rule q_target_written) (simp_all add: assms(1) live_changes_def live_def)
qed (intro keeps_ecatch keeps_unless_disarmed keeps_ebind any_call assms)

end

sublocale quiet \<subseteq> resumption R K env T
proof unfold_locales
  fix g x c and f :: "json \<Rightarrow> (cst, guard_target) eff"
  show "keeps (unless_disarmed g x (ebind (adapter_call env c) f))" if "\<And>v. keeps (f v)"
    by (intro keeps_unless_disarmed keeps_ebind any_call that)
  show "keeps (resume_gate g x (ebind (adapter_call env c) f))" if "\<And>v. keeps (f v)"
    by (intro keeps_resume_gate keeps_ebind any_call that)
qed (auto intro: q_T_live any_call q_target_write q_target_written q_session_write q_fence_keeps q_audit_keeps keeps_stop)

text \<open>The adapter's side effects respect a relation.\<close>

definition env_respects :: "(db \<Rightarrow> db \<Rightarrow> bool) \<Rightarrow> genv \<Rightarrow> bool" where
  "env_respects Q env \<longleftrightarrow> (\<forall>calls c d. Q d (snd (ge_adapter env calls c d)))"

definition tables_rel :: "(db \<Rightarrow> db \<Rightarrow> bool) \<Rightarrow> cst \<Rightarrow> cst \<Rightarrow> bool" where
  "tables_rel Q s t \<longleftrightarrow> Q (c_db s) (c_db t)"

lemma env_respectsD: "env_respects Q env \<Longrightarrow> tables_rel Q s (snd (adapter_call env c s))"
  by (simp add: env_respects_def tables_rel_def adapter_call_def split: prod.split) (metis snd_conv)

lemma tables_rel_on_db: "tables_rel Q s (snd (on_db m s)) \<longleftrightarrow> Q (c_db s) (snd (m (c_db s)))"
  by (simp add: tables_rel_def on_db_def split: prod.split)

lemma update_target_cases:
  "snd (update_quota_guard_target g th n st now cs d) = d
   \<or> snd (update_quota_guard_target g th n st now cs d)
       = d\<lparr>targets_t := update_where (target_matches g th n st) (changed_target cs now) (targets_t d)\<rparr>"
  using write_guard_target_Inr(1) [of g th n st now cs d]
  by (auto simp: update_quota_guard_target_def eff_defs split: sum.split)

lemma update_session_cases:
  "snd (update_quota_guard_session g n st now cs d) = d
   \<or> snd (update_quota_guard_session g n st now cs d)
       = d\<lparr>sessions_t := update_where (session_matches g n st) (changed_session cs now) (sessions_t d)\<rparr>"
  using write_guard_session_Inr(1) [of g n st now cs d]
  by (auto simp: update_quota_guard_session_def eff_defs split: sum.split)

lemma audit_guard_cases:
  "c_db (snd (audit_guard env ev s extra now st)) = c_db st
   \<or> (\<exists>i r. append_audit (ge_host env) i ev (ge_actor env) (JObj ((''guard_id'', JStr (gs_id s)) # extra)) now (c_db st)
        = Inr (r, c_db (snd (audit_guard env ev s extra now st))))"
  unfolding audit_guard_def on_db_def transact_def
  by (auto split: sum.split prod.split)

section \<open>Finished rows\<close>

text \<open>Completed and fenced targets and disarmed sessions stay exactly as they are.\<close>

definition finished_kept :: "db \<Rightarrow> db \<Rightarrow> bool" where
  "finished_kept d d' \<longleftrightarrow> (guard_keys_ok d \<longrightarrow> guard_keys_ok d')
     \<and> (\<forall>t \<in> set (targets_t d). \<not> live (gt_state t) \<longrightarrow> t \<in> set (targets_t d'))
     \<and> (\<forall>s \<in> set (sessions_t d). gs_state s = DISARMED \<longrightarrow> s \<in> set (sessions_t d'))"

lemma kept_update_where: "x \<in> set rows \<Longrightarrow> \<not> P x \<Longrightarrow> x \<in> set (update_where P f rows)"
  by (auto simp: in_update_where)

lemma finished_kept_target_write:
  assumes "live st"
  shows "finished_kept d (snd (update_quota_guard_target g th (Some n) (Some st) now cs d))"
proof -
  let ?d = "snd (update_quota_guard_target g th (Some n) (Some st) now cs d)"
  have k: "guard_keys_ok d \<longrightarrow> guard_keys_ok ?d"
    by (rule keys.keepsD [OF keys_update_quota_guard_target TrueI])
  have s: "sessions_t ?d = sessions_t d"
    using update_target_cases [of g th "Some n" "Some st" now cs d] by (elim disjE) simp_all
  have "t \<in> set (targets_t ?d)" if "t \<in> set (targets_t d)" "\<not> live (gt_state t)" for t
    using update_target_cases [of g th "Some n" "Some st" now cs d]
  proof
    assume "?d = d\<lparr>targets_t := update_where (target_matches g th (Some n) (Some st)) (changed_target cs now) (targets_t d)\<rparr>"
    moreover have "\<not> target_matches g th (Some n) (Some st) t"
      using that(2) assms by (auto simp: target_matches_def)
    ultimately show ?thesis
      using kept_update_where [OF that(1)] by simp
  qed (use that in simp)
  with k s show ?thesis by (simp add: finished_kept_def)
qed

lemma finished_kept_session_write:
  assumes "st \<noteq> DISARMED"
  shows "finished_kept d (snd (update_quota_guard_session g (Some n) (Some st) now cs d))"
proof -
  let ?d = "snd (update_quota_guard_session g (Some n) (Some st) now cs d)"
  have k: "guard_keys_ok d \<longrightarrow> guard_keys_ok ?d"
    by (rule keys.keepsD [OF keys_update_quota_guard_session TrueI])
  have t: "targets_t ?d = targets_t d"
    using update_session_cases [of g "Some n" "Some st" now cs d] by (elim disjE) simp_all
  have "s \<in> set (sessions_t ?d)" if "s \<in> set (sessions_t d)" "gs_state s = DISARMED" for s
    using update_session_cases [of g "Some n" "Some st" now cs d]
  proof
    assume "?d = d\<lparr>sessions_t := update_where (session_matches g (Some n) (Some st)) (changed_session cs now) (sessions_t d)\<rparr>"
    moreover have "\<not> session_matches g (Some n) (Some st) s"
      using that(2) assms by (auto simp: session_matches_def)
    ultimately show ?thesis
      using kept_update_where [OF that(1)] by simp
  qed (use that in simp)
  with k t show ?thesis by (simp add: finished_kept_def)
qed

lemma finished_kept_recover: "finished_kept d (snd (recover_quota_guard_pending reason now d))"
  using recover_keys [of d reason now]
  by (auto simp: finished_kept_def recover_targets recover_sessions live_def image_iff split: if_splits)

lemma fold_change_live:
  "live (gt_state t) \<Longrightarrow> live_changes cs \<Longrightarrow> live (gt_state (fold change_target cs t))"
proof (induction cs arbitrary: t)
  case (Cons c cs)
  then show ?case by (cases c) (auto simp: live_changes_def)
qed simp

lemma live_written:
  assumes "guard_keys_ok d" and "live st" and "live_changes cs" and "cs \<noteq> []"
    and "update_quota_guard_target g th (Some n) (Some st) now cs d = (Inr u, d')"
  shows "live (gt_state u)"
proof -
  let ?P = "target_matches g th (Some n) (Some st)" and ?k = "\<lambda>t. (gt_guard t, gt_thread t)"
  note run = update_target_run [OF assms(5,4)]
  note w = write_guard_target_Inr [OF run(1)]
  have u: "u \<in> set (targets_t d')" "?k u = (g, th)"
    using run(2) fetchone_Some [of "is_target g th" "targets_t d'"]
    by (auto simp: get_quota_guard_target_def guard_target_from_row_def is_target_def split: option.splits)
  have "distinct (map ?k (targets_t d))"
    using assms(1) by (simp add: guard_keys_ok_def)
  note all = row_count_key(2) [OF this _ w(2), of "(g, th)"]
  obtain r where r: "r \<in> set (targets_t d)" "u = (if ?P r then changed_target cs now r else r)"
    using u(1) w(1) by (auto simp: in_update_where)
  have "?k r = (g, th)"
    using u(2) r(2) by (auto split: if_splits)
  then have "?P r"
    using all r(1) by (auto simp: target_matches_def)
  then have "u = changed_target cs now r" "gt_state r = st"
    using r(2) by (simp_all add: target_matches_def)
  then show ?thesis
    using fold_change_live [OF _ assms(3), of r] assms(2) by (simp add: changed_target_def)
qed

definition finished_env :: "genv \<Rightarrow> cst \<Rightarrow> bool" where
  "finished_env env s \<longleftrightarrow> env_respects finished_kept env \<and> guard_keys_ok (c_db s)"

interpretation finished_rel: step_rel "tables_rel finished_kept" "finished_env env" for env
proof unfold_locales
  fix s t u :: cst
  show "tables_rel finished_kept s s" by (simp add: tables_rel_def finished_kept_def)
  show "tables_rel finished_kept s u" if "tables_rel finished_kept s t" "tables_rel finished_kept t u"
    using that by (auto simp: tables_rel_def finished_kept_def)
  show "finished_env env t" if "finished_env env s" "tables_rel finished_kept s t"
    using that by (auto simp: tables_rel_def finished_kept_def finished_env_def)
qed

lemma finished_on_db: "(\<And>d. finished_kept d (snd (m d))) \<Longrightarrow> finished_rel.keeps env (on_db m)"
  by (rule finished_rel.keepsI) (simp add: tables_rel_on_db)

lemma append_audit_db:
  "append_audit h i t w det n d = Inr (j, d') \<Longrightarrow> \<exists>r. d' = d\<lparr>audit_t := audit_t d @ [r]\<rparr>"
  using append_audit_Inr by blast

interpretation finished: quiet "tables_rel finished_kept" "finished_env env" env live for env
proof unfold_locales
  fix c g th n st now cs sst scs reason ev s extra
  show "finished_rel.keeps env (adapter_call env c)"
    by (rule finished_rel.keepsI) (simp add: finished_env_def env_respectsD)
  show "finished_rel.keeps env (on_db (update_quota_guard_target g th (Some n) (Some st) now cs))" if "live st"
    using that by (intro finished_on_db finished_kept_target_write)
  show "finished_rel.yields env (on_db (update_quota_guard_target g th (Some n) (Some st) now cs)) (\<lambda>t. live (gt_state t))"
    if "live st" "live_changes cs" "cs \<noteq> []"
  proof (rule finished_rel.yieldsI)
    fix s u assume "finished_env env s"
      and "fst (on_db (update_quota_guard_target g th (Some n) (Some st) now cs) s) = Inr u"
    then show "live (gt_state u)"
      using live_written [OF _ that, of "c_db s" g th n now u]
      by (auto simp: finished_env_def on_db_def split: prod.splits)
  qed
  show "finished_rel.keeps env (on_db (update_quota_guard_session g (Some n) (Some sst) now scs))" if "sst \<noteq> DISARMED"
    using that by (intro finished_on_db finished_kept_session_write)
  show "finished_rel.keeps env (on_db (\<lambda>d. case recover_quota_guard_pending reason now d of (gs, d') \<Rightarrow> (Inr gs, d')))"
    using finished_kept_recover by (intro finished_on_db) (simp split: prod.split, metis snd_conv)
  show "finished_rel.keeps env (audit_guard env ev s extra now)"
  proof (rule finished_rel.keepsI)
    fix st
    show "tables_rel finished_kept st (snd (audit_guard env ev s extra now st))"
      using audit_guard_cases [of env ev s extra now st] append_audit_db
      by (fastforce simp: tables_rel_def finished_kept_def guard_keys_ok_def)
  qed
qed

text \<open>
  Finished rows are final: provided other processes do not rewrite them either, a due cycle never
  changes a completed target, a target that needs review, or a disarmed session, in any of its
  branches; only an operator can take them further.
\<close>

theorem one_due_cycle_keeps_finished_rows:
  assumes "guard_keys_ok (c_db s)" and "env_respects finished_kept env"
  shows "let d' = c_db (snd (one_due_cycle env now allow signal s)) in
     guard_keys_ok d'
     \<and> {t \<in> set (targets_t (c_db s)). gt_state t \<in> {T_COMPLETED, T_NEEDS_REVIEW}} \<subseteq> set (targets_t d')
     \<and> {g \<in> set (sessions_t (c_db s)). gs_state g = DISARMED} \<subseteq> set (sessions_t d')"
  using finished_rel.keepsD [OF finished.keeps_one_due_cycle, where s = s] assms
  by (auto simp: finished_env_def tables_rel_def finished_kept_def live_def Let_def)

section \<open>Revisions and the other tables\<close>

text \<open>Every row stays; it is the same row or carries a higher revision.\<close>

definition revision_kept :: "db \<Rightarrow> db \<Rightarrow> bool" where
  "revision_kept d d' \<longleftrightarrow>
     (\<forall>t \<in> set (targets_t d). \<exists>t' \<in> set (targets_t d'). gt_guard t' = gt_guard t \<and> gt_thread t' = gt_thread t
        \<and> (t' = t \<or> gt_revision t < gt_revision t'))
     \<and> (\<forall>s \<in> set (sessions_t d). \<exists>s' \<in> set (sessions_t d'). gs_id s' = gs_id s
        \<and> (s' = s \<or> gs_revision s < gs_revision s'))"

text \<open>Only the guard tables and the audit log change; the log grows at its end and stays valid.\<close>

definition outside_kept :: "host \<Rightarrow> db \<Rightarrow> db \<Rightarrow> bool" where
  "outside_kept h d d' \<longleftrightarrow>
     d' = d\<lparr>sessions_t := sessions_t d', targets_t := targets_t d', audit_t := audit_t d'\<rparr>
     \<and> (\<exists>ext. audit_t d' = audit_t d @ ext)
     \<and> (audit_numbered d \<and> valid (verify_audit h d) \<longrightarrow> audit_numbered d' \<and> valid (verify_audit h d'))"

lemma revision_kept_refl: "revision_kept d d"
  by (auto simp: revision_kept_def)

lemma revision_kept_trans:
  assumes "revision_kept d e" and "revision_kept e f"
  shows "revision_kept d f"
  unfolding revision_kept_def
proof (intro conjI ballI)
  fix t assume "t \<in> set (targets_t d)"
  then obtain u where u: "u \<in> set (targets_t e)" "gt_guard u = gt_guard t" "gt_thread u = gt_thread t"
      "u = t \<or> gt_revision t < gt_revision u"
    using assms(1) unfolding revision_kept_def by blast
  then obtain v where v: "v \<in> set (targets_t f)" "gt_guard v = gt_guard u" "gt_thread v = gt_thread u"
      "v = u \<or> gt_revision u < gt_revision v"
    using assms(2) unfolding revision_kept_def by blast
  show "\<exists>v \<in> set (targets_t f). gt_guard v = gt_guard t \<and> gt_thread v = gt_thread t
      \<and> (v = t \<or> gt_revision t < gt_revision v)"
    using u(2-4) v by (intro bexI [OF _ v(1)]) auto
next
  fix t assume "t \<in> set (sessions_t d)"
  then obtain u where u: "u \<in> set (sessions_t e)" "gs_id u = gs_id t" "u = t \<or> gs_revision t < gs_revision u"
    using assms(1) unfolding revision_kept_def by blast
  then obtain v where v: "v \<in> set (sessions_t f)" "gs_id v = gs_id u" "v = u \<or> gs_revision u < gs_revision v"
    using assms(2) unfolding revision_kept_def by blast
  show "\<exists>v \<in> set (sessions_t f). gs_id v = gs_id t \<and> (v = t \<or> gs_revision t < gs_revision v)"
    using u(2,3) v by (intro bexI [OF _ v(1)]) auto
qed

lemma outside_kept_trans: "outside_kept h d e \<Longrightarrow> outside_kept h e f \<Longrightarrow> outside_kept h d f"
  by (cases d; cases e; cases f) (auto simp: outside_kept_def)

text \<open>A write that raises the revision of the rows it changes, and leaves the others.\<close>

lemma update_where_image: "t \<in> set rows \<Longrightarrow> (if P t then f t else t) \<in> set (update_where P f rows)"
  by (auto simp: update_where_def)

lemma revision_kept_targets:
  assumes "\<And>t. P t \<Longrightarrow> gt_guard (f t) = gt_guard t \<and> gt_thread (f t) = gt_thread t \<and> gt_revision t < gt_revision (f t)"
  shows "revision_kept d (d\<lparr>targets_t := update_where P f (targets_t d)\<rparr>)"
  unfolding revision_kept_def
proof (intro conjI ballI)
  fix t assume t: "t \<in> set (targets_t d)"
  show "\<exists>t' \<in> set (targets_t (d\<lparr>targets_t := update_where P f (targets_t d)\<rparr>)).
      gt_guard t' = gt_guard t \<and> gt_thread t' = gt_thread t \<and> (t' = t \<or> gt_revision t < gt_revision t')"
    using assms update_where_image [OF t, of P f] by (intro bexI [of _ "if P t then f t else t"]) auto
qed auto

lemma revision_kept_sessions:
  assumes "\<And>s. P s \<Longrightarrow> gs_id (f s) = gs_id s \<and> gs_revision s < gs_revision (f s)"
  shows "revision_kept d (d\<lparr>sessions_t := update_where P f (sessions_t d)\<rparr>)"
  unfolding revision_kept_def
proof (intro conjI ballI)
  fix s assume s: "s \<in> set (sessions_t d)"
  show "\<exists>s' \<in> set (sessions_t (d\<lparr>sessions_t := update_where P f (sessions_t d)\<rparr>)).
      gs_id s' = gs_id s \<and> (s' = s \<or> gs_revision s < gs_revision s')"
    using assms update_where_image [OF s, of P f] by (intro bexI [of _ "if P s then f s else s"]) auto
qed auto

lemma outside_kept_guard_rows:
  "outside_kept h d (d\<lparr>sessions_t := ss\<rparr>)" "outside_kept h d (d\<lparr>targets_t := ts\<rparr>)"
  "outside_kept h d (d\<lparr>targets_t := ts, sessions_t := ss\<rparr>)" "outside_kept h d d"
  by (auto simp: outside_kept_def audit_numbered_def verify_audit_def Let_def)

definition stable :: "host \<Rightarrow> db \<Rightarrow> db \<Rightarrow> bool" where
  "stable h d d' \<longleftrightarrow> revision_kept d d' \<and> outside_kept h d d'"

lemma stable_refl: "stable h d d"
  by (simp add: stable_def revision_kept_refl outside_kept_guard_rows)

lemma stable_trans: "stable h d e \<Longrightarrow> stable h e f \<Longrightarrow> stable h d f"
  by (auto simp: stable_def intro: revision_kept_trans outside_kept_trans)

lemma stable_target_write: "stable h d (snd (update_quota_guard_target g th n st now cs d))"
proof -
  have "stable h d (d\<lparr>targets_t := update_where (target_matches g th n st) (changed_target cs now) (targets_t d)\<rparr>)"
    by (simp add: stable_def revision_kept_targets outside_kept_guard_rows)
  then show ?thesis
    using update_target_cases [of g th n st now cs d] by (elim disjE) (simp_all add: stable_refl)
qed

lemma stable_session_write: "stable h d (snd (update_quota_guard_session g n st now cs d))"
proof -
  have "stable h d (d\<lparr>sessions_t := update_where (session_matches g n st) (changed_session cs now) (sessions_t d)\<rparr>)"
    by (simp add: stable_def revision_kept_sessions outside_kept_guard_rows)
  then show ?thesis
    using update_session_cases [of g n st now cs d] by (elim disjE) (simp_all add: stable_refl)
qed

lemma stable_fence: "stable h d (fence_guard reason now g d)"
proof -
  let ?d = "d\<lparr>targets_t := update_where (\<lambda>t. gt_guard t = g \<and> gt_state t \<notin> {T_COMPLETED, T_RESUMED, T_NEEDS_REVIEW})
         (fence_target reason now) (targets_t d)\<rparr>"
  have "revision_kept d ?d"
    by (rule revision_kept_targets) (simp add: fence_target_def)
  moreover have "revision_kept ?d (fence_guard reason now g d)"
    using revision_kept_sessions [of "\<lambda>s. gs_id s = g \<and> gs_state s \<noteq> DISARMED" "fence_session reason now" ?d]
    by (simp add: fence_guard_def) (simp add: fence_session_def)
  ultimately show ?thesis
    unfolding stable_def fence_guard_def
    by (intro conjI outside_kept_guard_rows(3)) (rule revision_kept_trans)
qed

lemma stable_recover: "stable h d (snd (recover_quota_guard_pending reason now d))"
proof -
  have "stable h d (fold (fence_guard reason now) gs d)" for gs
    by (induction gs arbitrary: d) (auto intro: stable_refl stable_trans stable_fence)
  then show ?thesis by (simp add: recover_quota_guard_pending_def)
qed

lemma stable_append_audit: "append_audit h i ev who det now d = Inr (j, d') \<Longrightarrow> stable h d d'"
  using append_audit_Inr append_audit_numbered append_audit_valid
  by (fastforce simp: stable_def revision_kept_def outside_kept_def)

definition stable_env :: "genv \<Rightarrow> cst \<Rightarrow> bool" where
  "stable_env env s \<longleftrightarrow> env_respects (stable (ge_host env)) env"

interpretation stable_rel: step_rel "tables_rel (stable (ge_host env))" "stable_env env" for env
  by unfold_locales (auto simp: tables_rel_def stable_env_def intro: stable_refl stable_trans)

lemma stable_on_db: "(\<And>d. stable (ge_host env) d (snd (m d))) \<Longrightarrow> stable_rel.keeps env (on_db m)"
  by (rule stable_rel.keepsI) (simp add: tables_rel_on_db)

interpretation stability: quiet "tables_rel (stable (ge_host env))" "stable_env env" env "\<lambda>_. True" for env
proof unfold_locales
  fix c g th n st now cs sst scs reason ev s extra
  show "stable_rel.keeps env (adapter_call env c)"
    by (rule stable_rel.keepsI) (simp add: stable_env_def env_respectsD)
  show "stable_rel.keeps env (on_db (update_quota_guard_target g th (Some n) (Some st) now cs))"
    "stable_rel.keeps env (on_db (update_quota_guard_session g (Some n) (Some sst) now scs))"
    by (intro stable_on_db stable_target_write stable_session_write)+
  show "stable_rel.yields env (on_db (update_quota_guard_target g th (Some n) (Some st) now cs)) (\<lambda>t. True)"
    by (rule stable_rel.yields_True)
  show "stable_rel.keeps env (on_db (\<lambda>d. case recover_quota_guard_pending reason now d of (gs, d') \<Rightarrow> (Inr gs, d')))"
    using stable_recover by (intro stable_on_db) (simp split: prod.split, metis snd_conv)
  show "stable_rel.keeps env (audit_guard env ev s extra now)"
  proof (rule stable_rel.keepsI)
    fix st
    show "tables_rel (stable (ge_host env)) st (snd (audit_guard env ev s extra now st))"
      using audit_guard_cases [of env ev s extra now st]
      by (auto simp: tables_rel_def stable_refl intro: stable_append_audit)
  qed
qed auto

text \<open>
  A due cycle accounts for what it does: provided the adapter's own effects do the same, no guard
  row is lost and every changed row carries a higher revision, only the guard tables and the audit log
  change (controller, policy, jobs, approvals, runs and all other tables are untouched), and the audit
  log only grows at its end, staying valid if it was.
\<close>

theorem one_due_cycle_accounts_for_changes:
  assumes "env_respects (stable (ge_host env)) env"
  shows "let d = c_db s; d' = c_db (snd (one_due_cycle env now allow signal s)) in
     revision_kept d d'
     \<and> d' = d\<lparr>sessions_t := sessions_t d', targets_t := targets_t d', audit_t := audit_t d'\<rparr>
     \<and> (\<exists>ext. audit_t d' = audit_t d @ ext)
     \<and> (audit_numbered d \<and> valid (verify_audit (ge_host env) d) \<longrightarrow> valid (verify_audit (ge_host env) d'))"
  using stable_rel.keepsD [OF stability.keeps_one_due_cycle, where s = s] assms
  by (simp add: stable_env_def tables_rel_def stable_def outside_kept_def Let_def)

end
