(* ===== verification/GuardContainment.thy ===== *)
theory GuardContainment
  imports GuardCoordinator
begin

text \<open>
  What success and failure of containment mean. A contained target has been seen not running by the
  last call that was made for it, unless the operator disarmed the guard in between; an error in the
  re-check of a held target is not recorded.
\<close>

section \<open>Postconditions of successful runs\<close>

definition post :: "(cst, 'a) eff \<Rightarrow> (cst \<Rightarrow> bool) \<Rightarrow> bool" where
  "post m Q \<longleftrightarrow> (\<forall>s x s'. m s = (Inr x, s') \<longrightarrow> Q s')"

definition same_log :: "(cst, 'a) eff \<Rightarrow> bool" where
  "same_log m \<longleftrightarrow> (\<forall>s. c_log (snd (m s)) = c_log s)"

named_theorems post_intros

lemma postI: "(\<And>s x s'. m s = (Inr x, s') \<Longrightarrow> Q s') \<Longrightarrow> post m Q"
  by (auto simp: post_def)

lemma post_eraise [post_intros]: "post (eraise e) Q"
  by (simp add: post_def eraise_def)

lemma post_ebind [post_intros]: "(\<And>x. post (f x) Q) \<Longrightarrow> post (ebind m f) Q"
  by (fastforce simp: post_def ebind_def split: prod.splits sum.splits)

lemma post_if [post_intros]: "post m Q \<Longrightarrow> post n Q \<Longrightarrow> post (if b then m else n) Q"
  by simp

lemma post_case_option [post_intros]:
  "post m Q \<Longrightarrow> (\<And>x. post (f x) Q) \<Longrightarrow> post (case v of None \<Rightarrow> m | Some x \<Rightarrow> f x) Q"
  by (cases v) auto

lemma post_catch_reraise [post_intros]:
  "post m Q \<Longrightarrow> post (ecatch m (\<lambda>e. reraise (h e) e)) Q"
  by (fastforce simp: post_def ecatch_def reraise_def ebind_def eraise_def split: prod.splits sum.splits)

lemma same_log_on_db: "same_log (on_db m)"
  by (simp add: same_log_def on_db_def split: prod.split)

section \<open>The last read\<close>

definition not_running_read :: "thread_read \<Rightarrow> bool" where
  "not_running_read r \<longleftrightarrow> active_turn r = None \<and> tr_status r \<noteq> ''active''"

text \<open>The last call of the log is a read of the task that shows it not running.\<close>

definition seen_stopped :: "string \<Rightarrow> cst \<Rightarrow> bool" where
  "seen_stopped th s \<longleftrightarrow>
     (\<exists>calls d v r. c_log s = calls @ [(A_read th, d, Inr v)] \<and> parse_thread_read th v = Inr r
        \<and> not_running_read r)"

definition stopped_or_disarmed :: "string \<Rightarrow> string \<Rightarrow> cst \<Rightarrow> bool" where
  "stopped_or_disarmed g th s \<longleftrightarrow>
     seen_stopped th s
     \<or> (\<exists>u. get_quota_guard_session g (c_db s) = Inr u \<and> gs_state u = DISARMED)"

lemma completed_not_running:
  assumes "parse_thread_read th v = Inr r" and "thread_completed r"
  shows "not_running_read r"
proof -
  have c: "consistent_read r"
    using assms(1) by (rule parse_consistent)
  have "tr_status r \<noteq> ''active''"
    using assms(2) by (auto simp: thread_completed_def Let_def casefold_words)
  with c show ?thesis by (simp add: not_running_read_def consistent_read_def)
qed

lemma post_read:
  assumes "\<And>v r. parse_thread_read th v = Inr r \<Longrightarrow> not_running_read r \<and> same_log (k r) \<or> post (k r) Q"
    and "\<And>s. seen_stopped th s \<Longrightarrow> Q s"
  shows "post (ebind (read_thread env th) k) Q"
proof (rule postI)
  fix s x s'
  assume run: "ebind (read_thread env th) k s = (Inr x, s')"
  then obtain v d' r where r: "ge_adapter env (c_log s) (A_read th) (c_db s) = (Inr v, d')"
      "parse_thread_read th v = Inr r"
      "k r \<lparr>c_db = d', c_log = c_log s @ [(A_read th, c_db s, Inr v)]\<rparr> = (Inr x, s')"
    by (auto simp: read_thread_def ebind_def adapter_call_def elift_def split: prod.splits sum.splits)
  show "Q s'"
    using assms(1) [OF r(2)]
  proof
    assume "not_running_read r \<and> same_log (k r)"
    then have "c_log s' = c_log s @ [(A_read th, c_db s, Inr v)]" "not_running_read r"
      using r(3) by (auto simp: same_log_def dest!: spec [of _ "\<lparr>c_db = d', c_log = c_log s @ [(A_read th, c_db s, Inr v)]\<rparr>"])
    then show ?thesis
      using r(2) by (intro assms(2)) (auto simp: seen_stopped_def)
  next
    assume "post (k r) Q"
    with r(3) show ?thesis by (auto simp: post_def)
  qed
qed

lemma post_unless_disarmed:
  assumes "post k (stopped_or_disarmed g th)"
  shows "post (unless_disarmed g x k) (stopped_or_disarmed g th)"
proof (rule postI)
  fix s y s'
  assume "unless_disarmed g x k s = (Inr y, s')"
  then show "stopped_or_disarmed g th s'"
    using assms by (auto simp: unless_disarmed_def get_session_def on_db_def eff_defs post_def
        stopped_or_disarmed_def split: sum.splits if_splits)
qed

lemma same_log_transition: "same_log (transition_target t st now cs)"
  unfolding transition_target_def by (rule same_log_on_db)

text \<open>A row that was written is returned under its key.\<close>

definition same_key :: "guard_target \<Rightarrow> guard_target \<Rightarrow> bool" where
  "same_key t u \<longleftrightarrow> gt_guard u = gt_guard t \<and> gt_thread u = gt_thread t"

definition gives :: "(cst, 'a) eff \<Rightarrow> ('a \<Rightarrow> bool) \<Rightarrow> bool" where
  "gives m V \<longleftrightarrow> (\<forall>s x s'. m s = (Inr x, s') \<longrightarrow> V x)"

lemma post_ebind_gives: "gives m V \<Longrightarrow> (\<And>x. V x \<Longrightarrow> post (f x) Q) \<Longrightarrow> post (ebind m f) Q"
  by (fastforce simp: post_def gives_def ebind_def split: prod.splits sum.splits)

lemma get_target_key: "get_quota_guard_target g th d = Inr u \<Longrightarrow> gt_guard u = g \<and> gt_thread u = th"
  using fetchone_Some [of "is_target g th" "targets_t d"]
  by (auto simp: get_quota_guard_target_def guard_target_from_row_def is_target_def split: option.splits)

lemma gives_write: "gives (on_db (update_quota_guard_target (gt_guard t) (gt_thread t) n st now cs)) (same_key t)"
  using get_target_key
  by (fastforce simp: gives_def same_key_def on_db_def update_quota_guard_target_def eff_defs
      split: prod.splits sum.splits if_splits)

lemma gives_transition_target: "gives (transition_target t st now cs) (same_key t)"
  unfolding transition_target_def transition_quota_guard_target_def by (rule gives_write)

lemma gives_write_target: "gives (write_target t now cs) (same_key t)"
  unfolding write_target_def by (rule gives_write)

lemma seen_is_enough: "seen_stopped th s \<Longrightarrow> stopped_or_disarmed g th s"
  by (simp add: stopped_or_disarmed_def)

lemma post_confirm_stopped:
  "post (confirm_stopped env u turn_id now) (stopped_or_disarmed g (gt_thread u))"
  unfolding confirm_stopped_def
  by (rule post_read)
     (auto simp: not_running_read_def seen_is_enough same_log_transition post_eraise split: option.split)

lemma post_stop_exact_turn:
  "post (stop_exact_turn env t turn_id now) (stopped_or_disarmed (gt_guard t) (gt_thread t))"
  unfolding stop_exact_turn_def
proof (rule post_ebind_gives [OF gives_transition_target], intro post_catch_reraise post_unless_disarmed post_ebind)
  fix u assume "same_key t u"
  then show "post (confirm_stopped env u turn_id now) (stopped_or_disarmed (gt_guard t) (gt_thread t))"
    using post_confirm_stopped [of env u turn_id now "gt_guard t"] by (simp add: same_key_def)
qed

lemma post_contain_turn: "post (contain_turn env t now) (stopped_or_disarmed (gt_guard t) (gt_thread t))"
  unfolding contain_turn_def
proof (rule post_read)
  fix v r assume r: "parse_thread_read (gt_thread t) v = Inr r"
  let ?k = "if thread_completed r then
         transition_target t T_COMPLETED now
           [TC_original_status (if truthy (gt_original_status t) then gt_original_status t else Some (tr_status r))]
       else
         (case active_turn r of
            None \<Rightarrow> if tr_status r = ''active'' then eraise (Sched ''TURN_MISSING'')
                    else transition_target t T_HELD now []
          | Some turn_id \<Rightarrow> stop_exact_turn env t turn_id now)"
  show "not_running_read r \<and> same_log ?k \<or> post ?k (stopped_or_disarmed (gt_guard t) (gt_thread t))"
    using completed_not_running [OF r] post_stop_exact_turn
    by (auto simp: same_log_transition not_running_read_def post_eraise split: option.split)
qed (rule seen_is_enough)

lemma post_pause_goal:
  assumes "\<And>u. same_key t u \<Longrightarrow> post (k u) (stopped_or_disarmed (gt_guard t) (gt_thread t))"
  shows "post (pause_goal env t goal now k) (stopped_or_disarmed (gt_guard t) (gt_thread t))"
  unfolding pause_goal_def
  by (intro post_case_option post_eraise post_unless_disarmed post_ebind post_if
      post_ebind_gives [OF gives_write_target] assms)

lemma post_contain_rest:
  assumes "same_key t u"
  shows "post (if goal_active goal then pause_goal env u goal now (\<lambda>t2. contain_turn env t2 now)
         else contain_turn env u now) (stopped_or_disarmed (gt_guard t) (gt_thread t))"
proof -
  have turn: "post (contain_turn env w now) (stopped_or_disarmed (gt_guard u) (gt_thread u))"
    if "same_key u w" for w
    using post_contain_turn [of env w now] that by (simp add: same_key_def)
  have "post (if goal_active goal then pause_goal env u goal now (\<lambda>t2. contain_turn env t2 now)
         else contain_turn env u now) (stopped_or_disarmed (gt_guard u) (gt_thread u))"
    by (intro post_if post_pause_goal turn) (simp_all add: same_key_def)
  with assms show ?thesis by (simp add: same_key_def)
qed

lemma gives_first_write:
  "gives (if b then write_target t now cs else eret t) (same_key t)"
  using gives_write_target [of t now cs] by (simp add: gives_def eret_def same_key_def)

lemma post_contain_target:
  assumes "gt_state t \<notin> {T_COMPLETED, T_NEEDS_REVIEW}"
  shows "post (contain_target env t now) (stopped_or_disarmed (gt_guard t) (gt_thread t))"
  unfolding contain_target_def if_not_P [OF assms]
proof (rule post_read)
  fix v r assume r: "parse_thread_read (gt_thread t) v = Inr r"
  let ?Q = "stopped_or_disarmed (gt_guard t) (gt_thread t)"
  let ?goal = "ebind (read_goal env (gt_thread t)) (\<lambda>goal.
            ethen (check_goal_ownership goal t)
            (ebind (if gt_original_status t = None
                    then write_target t now
                           [TC_original_status (Some (tr_status r)), TC_goal_was_active (goal_active goal)]
                    else eret t) (\<lambda>t1.
               if goal_active goal
               then pause_goal env t1 goal now (\<lambda>t2. contain_turn env t2 now)
               else contain_turn env t1 now)))"
  have "post ?goal ?Q"
    by (rule post_ebind, rule post_ebind, rule post_ebind_gives [OF gives_first_write post_contain_rest])
  then show "not_running_read r \<and> same_log (if thread_completed r
        then transition_target t T_COMPLETED now [TC_original_status (Some (tr_status r))] else ?goal)
    \<or> post (if thread_completed r
        then transition_target t T_COMPLETED now [TC_original_status (Some (tr_status r))] else ?goal) ?Q"
    using completed_not_running [OF r] same_log_transition by simp
qed (rule seen_is_enough)

text \<open>
  C37. Containment is confirmed, not assumed: when the containment of a live target returns, the last
  external call was a read of that task that shows no active turn and no active status, or the
  operator disarmed the guard meanwhile. Every other outcome is an exception.
\<close>

theorem contain_target_confirms_stop:
  assumes "contain_target env t now s = (Inr u, s')" and "gt_state t \<notin> {T_COMPLETED, T_NEEDS_REVIEW}"
  shows "seen_stopped (gt_thread t) s'
    \<or> (\<exists>g. get_quota_guard_session (gt_guard t) (c_db s') = Inr g \<and> gs_state g = DISARMED)"
  using post_contain_target [OF assms(2), of env now] assms(1)
  by (auto simp: post_def stopped_or_disarmed_def)

section \<open>Errors while a held target is checked again\<close>

text \<open>
  When the re-check of a target ends in an exception and the target's row still says held, the
  loop of the due cycle goes on as if nothing had happened: the exception is dropped and no row changes,
  so the target is not fenced and the next cycle tries again.
\<close>

theorem held_target_error_is_dropped:
  assumes "contain_target env t now st = (Inl e, st')"
    and "get_quota_guard_target (gs_id s) (gt_thread t) (c_db st') = Inr current"
    and "gt_state current = T_HELD"
  shows "contain_or_fence env s now t st = (Inr (), st')"
  using assms by (simp add: contain_or_fence_def get_target_def on_db_def eff_defs)

end
