(* ===== verification/GuardScenarios.thy ===== *)
theory GuardScenarios
  imports GuardStability GuardContainment
begin

text \<open>
  Concrete runs of the coordinator against a small task server, used to witness that the hypotheses
  of its properties can hold: a held task whose goal the guard paused is restored after a proven reset,
  and a running turn is stopped when the quota falls to the threshold.
\<close>

section \<open>A task server\<close>

text \<open>The goal is reactivated at time 9 by a set-goal call; before, it is paused at time 5.\<close>

definition goal_answer :: "call_log \<Rightarrow> json" where
  "goal_answer calls =
     (if list_ex (\<lambda>(c, d, r). c = A_set_goal ''t1'' ''active'') calls
      then JObj [(''status'', JStr ''active''), (''updatedAt'', JInt 9)]
      else JObj [(''status'', JStr ''paused''), (''updatedAt'', JInt 5)])"

fun held_server :: adapter where
  "held_server calls (A_read th) d = (Inr idle_answer, d)"
| "held_server calls (A_get_goal th) d = (Inr (goal_answer calls), d)"
| "held_server calls c d = (Inr JNull, d)"

definition held_env :: genv where
  "held_env = \<lparr>ge_host = weak_host, ge_ids = (\<lambda>n. ''e'' @ dec_nat n), ge_adapter = held_server,
     ge_actor = ''quota_guard'', ge_max_age = 300\<rparr>"

definition held_target :: guard_target where
  "held_target = (new_target ''g1'' 100 100 ''t1'')
     \<lparr>gt_state := T_HELD, gt_original_status := Some ''active'', gt_goal_was_active := True,
      gt_goal_changed := True, gt_goal_pause_at := Some 5, gt_revision := 4\<rparr>"

definition held_session :: guard_session where
  "held_session = sample_session
     \<lparr>gs_state := HELD_QUOTA, gs_profile_key := ''default'', gs_limit_id := ''codex'',
      gs_hysteresis := 1, gs_stop_snapshot_hash := Some ''s1'', gs_tripped_windows := [''five_hour''],
      gs_reason := Some ''QUOTA_THRESHOLD'', gs_revision := 3\<rparr>"

definition held_db :: db where
  "held_db = empty_db\<lparr>sessions_t := [held_session], targets_t := [held_target],
     snapshots_t := [\<lparr>snap_id = ''q1'', snap_observed_at = 100,
        snap_json = snapshot_dict sample_stop_snapshot, snap_hash = ''s1''\<rparr>]\<rparr>"

definition held_state :: cst where
  "held_state = \<lparr>c_db = held_db, c_log = []\<rparr>"

definition held_run :: "(err + guard_session) \<times> cst" where
  "held_run = process_session held_env held_session (Some (snapshot_dict sample_snapshot)) 1010 True held_state"

text \<open>
  The run re-contains the held target, checks the goal's ownership and that nothing runs, reactivates
  the goal and confirms it; the session is armed again.
\<close>

lemma held_run_calls:
  "map fst (c_log (snd held_run)) =
     [A_read ''t1'', A_get_goal ''t1'', A_read ''t1'', A_read ''t1'', A_get_goal ''t1'', A_read ''t1'',
      A_set_goal ''t1'' ''active'', A_get_goal ''t1'']"
  by code_simp

lemma held_run_armed: "map_sum id gs_state (fst held_run) = Inr ARMED"
  by code_simp

lemma held_run_resumes: "\<exists>c d r. (c, d, r) \<in> set (c_log (snd held_run)) \<and> resume_call c"
proof -
  have "A_set_goal ''t1'' ''active'' \<in> set (map fst (c_log (snd held_run)))"
    unfolding held_run_calls by simp
  from this [unfolded set_map] obtain x where
    x: "A_set_goal ''t1'' ''active'' = fst x" "x \<in> set (c_log (snd held_run))"
    by (rule imageE)
  have "(fst x, fst (snd x), snd (snd x)) \<in> set (c_log (snd held_run))"
    using x(2) by (simp only: prod.collapse)
  moreover have "resume_call (fst x)"
    unfolding x(1) [symmetric] by (simp only: resume_call.simps)
  ultimately show ?thesis by blast
qed

theorem process_session_resumes_only_when_proven_witness:
  "resume_proven held_env held_session (session_snapshot (Some (snapshot_dict sample_snapshot)) held_session)
     (stop_snapshot_of held_session held_db) 1010 True"
proof -
  obtain c d r where call: "(c, d, r) \<in> set (c_log (snd held_run))" "resume_call c"
    using held_run_resumes by blast
  show ?thesis
    using process_session_resumes_only_when_proven [OF _ call, of held_env held_session
        "Some (snapshot_dict sample_snapshot)" 1010 True held_state]
    by (simp add: held_run_def held_state_def)
qed

theorem cycle_without_permission_or_signal_never_resumes_witness:
  "\<not> list_ex (\<lambda>(c, d, r). resume_call c) (c_log (snd (one_due_cycle held_env 1010 False True held_state)))"
  using cycle_without_permission_or_signal_never_resumes [of False True held_env 1010 held_state]
  by (auto simp: held_state_def list_ex_iff list_all_iff)

section \<open>Hypotheses about the adapter\<close>

text \<open>The task server does not write to the database.\<close>

lemma held_server_db: "snd (held_server calls c d) = d"
  by (cases c) simp_all

lemma held_env_respects: "(\<And>d. Q d d) \<Longrightarrow> env_respects Q held_env"
  by (simp add: env_respects_def held_env_def held_server_db)

lemma held_db_keys: "guard_keys_ok held_db"
  by (simp add: guard_keys_ok_def held_db_def single_active_def)

theorem one_due_cycle_keeps_finished_rows_witness:
  "guard_keys_ok (c_db (snd (one_due_cycle held_env 1010 True True held_state)))"
  using one_due_cycle_keeps_finished_rows [of held_state held_env 1010 True True]
    held_env_respects [of finished_kept] held_db_keys
  by (simp add: held_state_def finished_kept_def Let_def)

theorem one_due_cycle_accounts_for_changes_witness:
  "controller_t (c_db (snd (one_due_cycle held_env 1010 True True held_state))) = None"
proof -
  let ?d' = "c_db (snd (one_due_cycle held_env 1010 True True held_state))"
  have "env_respects (stable (ge_host held_env)) held_env"
    by (rule held_env_respects) (rule stable_refl)
  from one_due_cycle_accounts_for_changes [OF this, of held_state 1010 True True]
  have "?d' = held_db\<lparr>sessions_t := sessions_t ?d', targets_t := targets_t ?d', audit_t := audit_t ?d'\<rparr>"
    by (simp add: held_state_def Let_def)
  from arg_cong [OF this, of controller_t] show ?thesis
    by (simp add: held_db_def empty_db_def)
qed

section \<open>Containing the held target again\<close>

definition recheck_run :: "(err + guard_target) \<times> cst" where
  "recheck_run = contain_target held_env held_target 1010 held_state"

lemma recheck_run_ok: "map_sum id gt_state (fst recheck_run) = Inr T_HELD"
  by code_simp

theorem contain_target_confirms_stop_witness:
  "seen_stopped ''t1'' (snd recheck_run)
   \<or> (\<exists>g. get_quota_guard_session ''g1'' (c_db (snd recheck_run)) = Inr g \<and> gs_state g = DISARMED)"
proof -
  obtain u where "fst recheck_run = Inr u"
    using recheck_run_ok by (cases "fst recheck_run") auto
  then have run: "contain_target held_env held_target 1010 held_state = (Inr u, snd recheck_run)"
    by (simp add: recheck_run_def prod_eq_iff)
  show ?thesis
    using contain_target_confirms_stop [OF run] by (simp add: held_target_def new_target_def)
qed

text \<open>The same target when the task server cannot be reached: the held target is left as it was.\<close>

definition down_env :: genv where
  "down_env = held_env\<lparr>ge_adapter := (\<lambda>calls c d. (Inl (Sched ''APP_SERVER_UNAVAILABLE''), d))\<rparr>"

definition down_state :: cst where
  "down_state = held_state\<lparr>c_log := [(A_read ''t1'', held_db, Inl (Sched ''APP_SERVER_UNAVAILABLE''))]\<rparr>"

lemma down_run: "contain_target down_env held_target 1010 held_state
    = (Inl (Sched ''APP_SERVER_UNAVAILABLE''), down_state)"
  by (simp add: contain_target_def down_env_def held_target_def new_target_def read_thread_def
      adapter_call_def ebind_def held_state_def down_state_def)

theorem held_target_error_is_dropped_witness:
  "contain_or_fence down_env held_session 1010 held_target held_state = (Inr (), down_state)"
proof (rule held_target_error_is_dropped [OF down_run, of held_session held_target])
  show "get_quota_guard_target (gs_id held_session) (gt_thread held_target) (c_db down_state) = Inr held_target"
    by (simp add: get_quota_guard_target_def down_state_def held_state_def held_db_def held_session_def
        sample_session_def held_target_def new_target_def fetchone_def is_target_def guard_target_from_row_def)
  show "gt_state held_target = T_HELD"
    by (simp add: held_target_def)
qed

end
