(* ===== verification/GuardService.thy ===== *)
theory GuardService
  imports World GuardCoordinator
begin

text \<open>
  service.py, the quota-guard commands: \<open>quota_guard_arm\<close>, \<open>quota_guard_disarm\<close>,
  \<open>quota_guard_cycle\<close> and the read-only views. Arming is an approved command whose scope is the
  validated plan together with the account's limit bucket. A cycle runs the coordinator and then puts
  the controller on hold. The lemmas show what an armed guard rests on, and that the hold can only
  make the controller stricter, except that it may replace STOPPED by BLOCKED.
\<close>

section \<open>Views\<close>

definition session_view :: "db \<Rightarrow> guard_session \<Rightarrow> json res" where
  "session_view d s =
     rbind (list_quota_guard_targets (gs_id s) d) (\<lambda>targets.
       Inr (JObj
         [(''schema_version'', JStr ''1''), (''guard_id'', JStr (gs_id s)),
          (''state'', JStr (session_state_name (gs_state s))),
          (''threshold_remaining_percent'', JNum (gs_threshold s)),
          (''check_interval_seconds'', JInt (gs_interval s)), (''target_count'', JInt (int (length targets))),
          (''next_check_at'', JNum (gs_next_check_at s)),
          (''last_checked_at'', case gs_last_checked_at s of None \<Rightarrow> JNull | Some t \<Rightarrow> JNum t),
          (''reason_code'', opt_json (gs_reason s)), (''created_at'', JNum (gs_created_at s)),
          (''updated_at'', JNum (gs_updated_at s))]))"

definition target_state_name :: "guard_target_state \<Rightarrow> string" where
  "target_state_name st =
     (case st of T_MONITORING \<Rightarrow> ''MONITORING'' | T_STOPPING \<Rightarrow> ''STOPPING'' | T_HELD \<Rightarrow> ''HELD''
      | T_RESUMING \<Rightarrow> ''RESUMING'' | T_RESUMED \<Rightarrow> ''RESUMED'' | T_COMPLETED \<Rightarrow> ''COMPLETED'' | T_NEEDS_REVIEW \<Rightarrow> ''NEEDS_REVIEW'')"

definition target_view :: "guard_target \<Rightarrow> json" where
  "target_view t = JObj
     [(''thread_id'', JStr (gt_thread t)), (''state'', JStr (target_state_name (gt_state t))),
      (''goal_changed_by_guard'', JBool (gt_goal_changed t)), (''reason_code'', opt_json (gt_reason t))]"

definition quota_guard_list :: "svc \<Rightarrow> db \<Rightarrow> json res" where
  "quota_guard_list sv d =
     rbind (require_capability sv ''quota_guard.read'') (\<lambda>_.
     rbind (list_quota_guard_sessions None None d) (\<lambda>sessions.
     rbind (rmap (session_view d) sessions) (\<lambda>views. Inr (JObj [(''sessions'', JArr views)]))))"

definition quota_guard_status :: "svc \<Rightarrow> string \<Rightarrow> db \<Rightarrow> json res" where
  "quota_guard_status sv guard_id d =
     rbind (require_capability sv ''quota_guard.read'') (\<lambda>_.
     rbind (validate_identifier (JStr guard_id)) (\<lambda>g.
     rbind (get_quota_guard_session g d) (\<lambda>s.
     rbind (list_quota_guard_targets g d) (\<lambda>targets.
     rbind (session_view d s) (\<lambda>view.
       Inr (JObj [(''session'', view), (''targets'', JArr (map target_view targets))]))))))"

text \<open>\<open>quota_guard_inventory\<close>: the adapter's answer, passed through.\<close>

definition quota_guard_inventory :: "svc \<Rightarrow> json res \<Rightarrow> json res" where
  "quota_guard_inventory sv answer =
     rbind (require_capability sv ''quota_guard.read'') (\<lambda>_.
     rbind answer (\<lambda>v. Inr (JObj [(''threads'', v)])))"

section \<open>Arming\<close>

definition signal_code :: "decision \<Rightarrow> string" where
  "signal_code dec = (case reasons dec of [] \<Rightarrow> ''SIGNAL_MISSING'' | r # _ \<Rightarrow> r)"

record guard_scope =
  gsc_plan :: guard_plan
  gsc_profile :: string
  gsc_limit :: string
  gsc_hysteresis :: rat

text \<open>\<open>snapshot["limit_id"]\<close> of a snapshot that the policy has just accepted.\<close>

definition snapshot_limit :: "json option \<Rightarrow> string res" where
  "snapshot_limit snap =
     (case snap of
        None \<Rightarrow> Inl (PyExc ''TypeError'')
      | Some v \<Rightarrow> (case jgetn (obj_fields v) ''limit_id'' of JStr l \<Rightarrow> Inr l | _ \<Rightarrow> Inl (PyExc ''TypeError'')))"

definition quota_guard_scope :: "svc \<Rightarrow> json \<Rightarrow> rat \<Rightarrow> db \<Rightarrow> guard_scope res" where
  "quota_guard_scope sv plan_value now d =
     (let cfg = sv_config sv in
      rbind (validate_quota_guard_plan plan_value (config_dict cfg)) (\<lambda>plan.
      rbind (current_policy d) (\<lambda>p.
      rbind (evaluate_current_policy cfg (latest_snapshot d) p now None d) (\<lambda>dec.
      rbind (guard (latest_snapshot d \<noteq> None \<and> \<not> has_signal_failure dec) (signal_code dec)) (\<lambda>_.
      rbind (snapshot_limit (latest_snapshot d)) (\<lambda>limit.
        Inr \<lparr>gsc_plan = plan, gsc_profile = cfg_profile_key cfg, gsc_limit = limit,
             gsc_hysteresis = cfg_guard_hysteresis cfg\<rparr>))))))"

definition scope_dict :: "guard_scope \<Rightarrow> json" where
  "scope_dict sc = JObj
     (plan_fields (gsc_plan sc)
      @ [(''profile_key'', JStr (gsc_profile sc)), (''limit_id'', JStr (gsc_limit sc)),
         (''resume_hysteresis_percent'', JNum (gsc_hysteresis sc))])"

definition armed_session :: "string \<Rightarrow> string \<Rightarrow> string \<Rightarrow> guard_scope \<Rightarrow> rat \<Rightarrow> guard_session" where
  "armed_session guard_id appr digest sc now =
     \<lparr>gs_id = guard_id, gs_state = ARMED, gs_profile_key = gsc_profile sc, gs_limit_id = gsc_limit sc,
      gs_threshold = gp_threshold (gsc_plan sc), gs_hysteresis = gsc_hysteresis sc,
      gs_interval = gp_interval (gsc_plan sc), gs_resume_non_goal = gp_resume_non_goal (gsc_plan sc),
      gs_approval = appr, gs_plan_hash = digest, gs_stop_snapshot_hash = None, gs_tripped_windows = [],
      gs_next_check_at = now, gs_last_checked_at = None, gs_reason = None, gs_revision = 1,
      gs_created_at = now, gs_updated_at = now\<rparr>"

text \<open>The INSERTs of the session and its targets; a key that exists raises IntegrityError.\<close>

definition insert_armed :: "guard_session \<Rightarrow> string list \<Rightarrow> db \<Rightarrow> (unit \<times> db) res" where
  "insert_armed s threads d =
     (if gs_id s \<in> set (map gs_id (sessions_t d))
         \<or> (\<exists>t \<in> set (targets_t d). gt_guard t = gs_id s \<and> gt_thread t \<in> set threads) \<or> \<not> distinct threads
      then Inl (PyExc ''IntegrityError'')
      else Inr ((), d\<lparr>sessions_t := sessions_t d @ [s],
             targets_t := targets_t d @ map (new_target (gs_id s) (gs_created_at s) (gs_updated_at s)) threads\<rparr>))"

definition arm_operation ::
    "svc \<Rightarrow> string \<Rightarrow> rat \<Rightarrow> string \<Rightarrow> guard_scope \<Rightarrow> approval \<Rightarrow> db \<Rightarrow> (json \<times> db) res" where
  "arm_operation sv who now guard_id sc a d =
     (let digest = payload_hash (sv_host sv) (scope_dict sc); threads = gp_targets (gsc_plan sc) in
      rbind (guard (\<forall>s \<in> set (sessions_t d). gs_state s = DISARMED) ''QUOTA_GUARD_ACTIVE'') (\<lambda>_.
      rbind (insert_approval sv a d) (\<lambda>(_, d1).
      rbind (insert_armed (armed_session guard_id (approval_id a) digest sc now) threads d1) (\<lambda>(_, d2).
      rbind (audit sv ''quota_guard.armed'' who
               (JObj [(''approval_id'', JStr (approval_id a)), (''guard_id'', JStr guard_id),
                      (''plan_hash'', JStr digest), (''target_count'', JInt (int (length threads)))]) now d2) (\<lambda>(event_id, d3).
      Inr (JObj [(''approval_id'', JStr (approval_id a)), (''audit_event_id'', JStr event_id),
                 (''guard_id'', JStr guard_id), (''plan_hash'', JStr digest), (''state'', JStr ''ARMED''),
                 (''target_count'', JInt (int (length threads)))], d3))))))"

text \<open>
  \<open>guard_id\<close> is the fresh identifier and \<open>now\<close>, \<open>signal_now\<close> are the two clock readings (the command's
  and the one at which the quota signal is judged).
\<close>

definition quota_guard_arm ::
    "svc \<Rightarrow> json \<Rightarrow> json \<Rightarrow> string \<Rightarrow> string \<Rightarrow> rat \<Rightarrow> rat \<Rightarrow> string \<Rightarrow> (db, command_result) eff" where
  "quota_guard_arm sv plan_value approval_value key who now signal_now guard_id =
     (let cfg = sv_config sv in
      ethen (elift (require_capability sv ''quota_guard.local.write''))
     (ethen (elift (require_capability sv ''quota_guard.thread.control''))
     (ethen (eguard (cfg_guard_enabled cfg) ''QUOTA_GUARD_DISABLED'')
     (ethen (eguard (cfg_background_enabled cfg) ''BACKGROUND_DISABLED'')
     (ebind (elift (valid_actor who)) (\<lambda>who'.
      ebind (eread (quota_guard_scope sv plan_value signal_now)) (\<lambda>sc.
      ethen (eguard (\<not> cfg_poll_interval cfg > gp_interval (gsc_plan sc)) ''QUOTA_GUARD_INTERVAL_UNACHIEVABLE'')
     (approved_command sv key ''quota-guard.arm'' ''quota-guard.arm''
        (\<lambda>d. Inr (payload_hash (sv_host sv) (scope_dict sc))) ''quota_guard.thread.control'' approval_value now
        (\<lambda>av. JObj [(''approval'', av), (''scope'', scope_dict sc)])
        (arm_operation sv who' now guard_id sc)))))))))"

section \<open>Disarming\<close>

definition disarm_operation :: "svc \<Rightarrow> string \<Rightarrow> rat \<Rightarrow> string \<Rightarrow> db \<Rightarrow> (json \<times> db) res" where
  "disarm_operation sv who now g d =
     (case fetchone (\<lambda>s. gs_id s = g) (sessions_t d) of
        None \<Rightarrow> Inl (Sched ''GUARD_NOT_FOUND'')
      | Some s \<Rightarrow>
          (let previous = session_state_name (gs_state s);
               d1 = (if gs_state s = DISARMED then d
                     else d\<lparr>sessions_t := update_where (\<lambda>r. gs_id r = g)
                            (\<lambda>r. r\<lparr>gs_state := DISARMED, gs_reason := Some ''OPERATOR_DISARM'',
                                   gs_revision := gs_revision r + 1, gs_updated_at := now\<rparr>) (sessions_t d)\<rparr>)
           in rbind (audit sv ''quota_guard.disarmed'' who
                       (JObj [(''from'', JStr previous), (''guard_id'', JStr g), (''to'', JStr ''DISARMED'')]) now d1)
                (\<lambda>(event_id, d2).
                Inr (JObj [(''audit_event_id'', JStr event_id), (''guard_id'', JStr g),
                           (''previous_state'', JStr previous), (''state'', JStr ''DISARMED'')], d2))))"

definition quota_guard_disarm :: "svc \<Rightarrow> string \<Rightarrow> string \<Rightarrow> string \<Rightarrow> rat \<Rightarrow> (db, command_result) eff" where
  "quota_guard_disarm sv guard_id key who now =
     ethen (elift (require_capability sv ''quota_guard.local.write''))
    (ebind (elift (validate_identifier (JStr guard_id))) (\<lambda>g.
     ebind (elift (valid_actor who)) (\<lambda>who'.
     plain_command sv key ''quota-guard.disarm'' (JObj [(''guard_id'', JStr g)]) now (disarm_operation sv who' now g))))"

section \<open>The cycle\<close>

text \<open>
  The coordinator runs on the database that the world holds; its adapter (indexed by the step, every
  cycle meets other answers) commits what other processes do while its calls are outstanding.
\<close>

definition wguard :: "wenv \<Rightarrow> (nat \<Rightarrow> (cst, 'a) eff) \<Rightarrow> (wst, 'a) eff" where
  "wguard env m s =
     (case m (w_step s) \<lparr>c_db = we_others env (w_step s) (w_db s), c_log = []\<rparr> of
        (r, cs) \<Rightarrow> (r, s\<lparr>w_db := c_db cs, w_step := Suc (w_step s)\<rparr>))"

datatype guard_cycle = Guard_disabled | Guard_stopped | Guard_checked cycle_report

definition hold_of :: "guard_session_state set \<Rightarrow> (controller_mode \<times> string) option" where
  "hold_of states =
     (if NEEDS_REVIEW \<in> states then Some (BLOCKED, ''QUOTA_GUARD_NEEDS_REVIEW'')
      else if states \<inter> {STOPPING, HELD_QUOTA, RESUMING} \<noteq> {} then Some (PAUSED, ''QUOTA_GUARD_HELD'')
      else None)"

definition hold_transaction ::
    "svc \<Rightarrow> controller_mode \<Rightarrow> string \<Rightarrow> rat \<Rightarrow> rat \<Rightarrow> db \<Rightarrow> (unit \<times> db) res" where
  "hold_transaction sv target reason set_at now d =
     (case controller_t d of
        None \<Rightarrow> Inl (PyExc ''TypeError'')
      | Some c \<Rightarrow>
          if (mode c \<notin> {STOPPED, BLOCKED} \<or> target = BLOCKED)
             \<and> (mode c \<noteq> target \<or> controller_reason c \<noteq> Some reason)
          then rbind (audit sv ''quota_guard.controller_hold'' ''quota-guard''
                        (JObj [(''from'', JStr (mode_name (mode c))), (''reason_code'', JStr reason),
                               (''to'', JStr (mode_name target))]) now
                        (set_controller target (Some reason) set_at d)) (\<lambda>(_, d'). Inr ((), d'))
          else Inr ((), d))"

definition resume_allowed :: "controller_mode \<Rightarrow> bool option \<Rightarrow> bool" where
  "resume_allowed m asked = (m \<noteq> BLOCKED \<and> (case asked of None \<Rightarrow> True | Some b \<Rightarrow> b))"

definition guard_hold :: "wenv \<Rightarrow> cycle_report \<Rightarrow> (wst, unit) eff" where
  "guard_hold env report =
     (case hold_of (set (map oc_state (outcomes report))) of
        None \<Rightarrow> eret ()
      | Some (target, reason) \<Rightarrow>
          ebind (wclock env) (\<lambda>set_at. ebind (wclock env) (\<lambda>now.
            wtx env (hold_transaction (we_svc env) target reason set_at now))))"

definition quota_guard_cycle ::
    "wenv \<Rightarrow> (nat \<Rightarrow> genv) \<Rightarrow> bool \<Rightarrow> bool option \<Rightarrow> (wst, guard_cycle) eff" where
  "quota_guard_cycle env ge signal_available allow_resume =
     (let sv = we_svc env in
      if \<not> cfg_guard_enabled (sv_config sv) then eret Guard_disabled
      else
        ebind (wread env controller) (\<lambda>c.
          if mode c = STOPPED then eret Guard_stopped
          else
            ethen (elift (require_capability sv ''quota_guard.local.write''))
           (ethen (elift (require_capability sv ''quota_guard.thread.control''))
           (ebind (wclock env) (\<lambda>now.
            ebind (wguard env (\<lambda>n. one_due_cycle (ge n) now (resume_allowed (mode c) allow_resume) signal_available)) (\<lambda>report.
            ethen (guard_hold env report) (eret (Guard_checked report))))))))"

section \<open>What arming rests on\<close>

lemma insert_armed_Inr:
  "insert_armed s threads d = Inr (u, d') \<Longrightarrow>
   distinct threads
   \<and> d' = d\<lparr>sessions_t := sessions_t d @ [s],
            targets_t := targets_t d @ map (new_target (gs_id s) (gs_created_at s) (gs_updated_at s)) threads\<rparr>"
  by (auto simp: insert_armed_def split: if_splits)

lemma arm_operation_Inr:
  assumes "arm_operation sv who now g sc a d = Inr (r, d')"
  shows "approval_id a \<notin> set (map appr_id (approvals_t d)) \<and> approval_id a \<in> set (map appr_id (approvals_t d'))
    \<and> (\<forall>s \<in> set (sessions_t d). gs_state s = DISARMED)
    \<and> sessions_t d' = sessions_t d
        @ [armed_session g (approval_id a) (payload_hash (sv_host sv) (scope_dict sc)) sc now]
    \<and> targets_t d' = targets_t d @ map (new_target g now now) (gp_targets (gsc_plan sc))"
  using assms
  by (auto simp: arm_operation_def insert_approval_Inr armed_session_def Let_def dest!: insert_armed_Inr audit_frame)

interpretation arm_op: approved_operation "arm_operation sv who now g sc" for sv who now g sc
  by unfold_locales (use arm_operation_Inr in blast)

lemma quota_guard_arm_run:
  assumes "snd (quota_guard_arm sv pv av key who now signal_now g d) \<noteq> d"
  shows "\<exists>sc who'. quota_guard_scope sv pv signal_now d = Inr sc \<and> cfg_guard_enabled (sv_config sv)
    \<and> cfg_background_enabled (sv_config sv) \<and> cfg_poll_interval (sv_config sv) \<le> gp_interval (gsc_plan sc)
    \<and> quota_guard_arm sv pv av key who now signal_now g d
      = approved_command sv key ''quota-guard.arm'' ''quota-guard.arm''
        (\<lambda>d. Inr (payload_hash (sv_host sv) (scope_dict sc))) ''quota_guard.thread.control'' av now
        (\<lambda>av. JObj [(''approval'', av), (''scope'', scope_dict sc)]) (arm_operation sv who' now g sc) d"
proof (cases "quota_guard_scope sv pv signal_now d")
  case (Inl e)
  with assms show ?thesis
    by (auto simp: quota_guard_arm_def require_capability_def guard_def eff_defs Let_def split: sum.splits if_splits)
next
  case (Inr sc)
  with assms show ?thesis
    by (auto simp: quota_guard_arm_def require_capability_def guard_def eff_defs Let_def split: sum.splits if_splits)
qed

lemma approved_command_change:
  assumes "approved_command sv key command act scope cap av now request op d = (res, d')" and "d' \<noteq> d"
  shows "\<exists>a r e. op a d = Inr (r, e) \<and> d' = e\<lparr>idem_t := idem_t d'\<rparr>"
proof -
  from assms obtain a x where a: "execute_idempotent (sv_host sv) key command (request (approval_dict a)) now (op a) d = Inr (x, d')"
    by (auto simp: approved_command_def eff_defs split: sum.splits prod.splits option.splits)
  obtain result replayed where x: "x = (result, replayed)" by fastforce
  from execute_idempotent_fresh [OF a [unfolded x]] assms(2) show ?thesis
    by (cases replayed) auto
qed

text \<open>The signal that a scope was judged on: fresh enough for the policy and of the bound account.\<close>

definition signal_accepted :: "svc \<Rightarrow> rat \<Rightarrow> db \<Rightarrow> bool" where
  "signal_accepted sv now d \<longleftrightarrow>
     (\<exists>p dec. current_policy d = Inr p \<and> latest_snapshot d \<noteq> None
        \<and> evaluate_current_policy (sv_config sv) (latest_snapshot d) p now None d = Inr dec
        \<and> \<not> has_signal_failure dec)"

lemma quota_guard_scope_Inr:
  assumes "quota_guard_scope sv pv now d = Inr sc"
  shows "signal_accepted sv now d \<and> validate_quota_guard_plan pv (config_dict (sv_config sv)) = Inr (gsc_plan sc)
    \<and> gsc_profile sc = cfg_profile_key (sv_config sv) \<and> gsc_hysteresis sc = cfg_guard_hysteresis (sv_config sv)"
  using assms by (auto simp: quota_guard_scope_def signal_accepted_def Let_def)

text \<open>
  C26. Arming a guard. If arming changes anything, then the guard and the background service are enabled, the
  quota signal is fresh and of the bound account, the plan is within the configured limits, no other guard
  is active, and a current, unused approval names the hash of exactly this plan, account and bucket. What is
  stored is one armed session with the plan's threshold and interval, and one monitored target per task
  of the plan.
\<close>

theorem quota_guard_arm_is_approved:
  assumes "snd (quota_guard_arm sv pv av key who now signal_now g d) \<noteq> d" and "config_ok (sv_config sv)"
  shows "\<exists>sc a. cfg_guard_enabled (sv_config sv) \<and> cfg_background_enabled (sv_config sv)
    \<and> signal_accepted sv signal_now d \<and> plan_ok (sv_config sv) (gsc_plan sc)
    \<and> cfg_poll_interval (sv_config sv) \<le> gp_interval (gsc_plan sc)
    \<and> (\<forall>s \<in> set (sessions_t d). gs_state s = DISARMED)
    \<and> consumed_approval av now ''quota-guard.arm'' (payload_hash (sv_host sv) (scope_dict sc)) ''quota_guard.thread.control''
        d (snd (quota_guard_arm sv pv av key who now signal_now g d))
    \<and> sessions_t (snd (quota_guard_arm sv pv av key who now signal_now g d)) = sessions_t d
        @ [armed_session g a (payload_hash (sv_host sv) (scope_dict sc)) sc now]
    \<and> targets_t (snd (quota_guard_arm sv pv av key who now signal_now g d)) = targets_t d
        @ map (new_target g now now) (gp_targets (gsc_plan sc))"
proof -
  from quota_guard_arm_run [OF assms(1)] obtain sc who' where sc: "quota_guard_scope sv pv signal_now d = Inr sc"
      "cfg_guard_enabled (sv_config sv)" "cfg_background_enabled (sv_config sv)"
      "cfg_poll_interval (sv_config sv) \<le> gp_interval (gsc_plan sc)"
    and run: "quota_guard_arm sv pv av key who now signal_now g d
      = approved_command sv key ''quota-guard.arm'' ''quota-guard.arm''
        (\<lambda>d. Inr (payload_hash (sv_host sv) (scope_dict sc))) ''quota_guard.thread.control'' av now
        (\<lambda>av. JObj [(''approval'', av), (''scope'', scope_dict sc)]) (arm_operation sv who' now g sc) d"
    by blast
  let ?m = "quota_guard_arm sv pv av key who now signal_now g d"
  from approved_command_change [of sv key _ _ _ _ av now _ "arm_operation sv who' now g sc" d "fst ?m" "snd ?m"] assms(1) run
  obtain a r e where e: "arm_operation sv who' now g sc a d = Inr (r, e)" "snd ?m = e\<lparr>idem_t := idem_t (snd ?m)\<rparr>"
    by (metis prod.collapse)
  from idem_frame [OF e(2)] arm_operation_Inr [OF e(1)]
  have stored: "\<forall>s \<in> set (sessions_t d). gs_state s = DISARMED"
      "sessions_t (snd ?m) = sessions_t d @ [armed_session g (approval_id a) (payload_hash (sv_host sv) (scope_dict sc)) sc now]"
      "targets_t (snd ?m) = targets_t d @ map (new_target g now now) (gp_targets (gsc_plan sc))"
    by auto
  moreover have "consumed_approval av now ''quota-guard.arm'' (payload_hash (sv_host sv) (scope_dict sc))
      ''quota_guard.thread.control'' d (snd ?m)"
    using approved_operation_change [OF arm_op.approved_operation_axioms] assms(1) unfolding run by blast
  ultimately show ?thesis
    using sc quota_guard_scope_Inr [OF sc(1)] validate_plan_ok [OF assms(2)] by blast
qed

section \<open>The hold on the controller\<close>

lemma set_controller_mode:
  "controller_t d = Some c \<Longrightarrow>
   controller_t (set_controller m r now d) = Some (c\<lparr>mode := m, controller_reason := r, controller_updated_at := now\<rparr>)"
  by (simp add: set_controller_def)

lemma audit_same_controller: "audit sv ev who det now d = Inr (i, d') \<Longrightarrow> controller_t d' = controller_t d"
  by (auto dest!: audit_frame)

text \<open>After the hold: blocked if that was asked, and in no case ready.\<close>

lemma hold_transaction_mode:
  assumes "hold_transaction sv target reason set_at now d = Inr (u, d')" and "target \<in> {PAUSED, BLOCKED}"
  shows "\<exists>m. current_mode d' = Inr m \<and> m \<noteq> READY \<and> (target = BLOCKED \<longrightarrow> m = BLOCKED)"
  using assms
  by (auto simp: hold_transaction_def current_mode_def set_controller_mode
      dest!: audit_same_controller split: option.splits if_splits)

text \<open>An operator's stop is not kept: a guard that needs review replaces it.\<close>

lemma hold_replaces_stop:
  assumes "hold_transaction sv BLOCKED reason set_at now d = Inr (u, d')" and "current_mode d = Inr STOPPED"
  shows "current_mode d' = Inr BLOCKED"
  using hold_transaction_mode [OF assms(1)] by auto

lemma hold_of_target: "hold_of sts = Some (target, reason) \<Longrightarrow> target \<in> {PAUSED, BLOCKED} \<and> (NEEDS_REVIEW \<in> sts \<longrightarrow> target = BLOCKED)"
  by (auto simp: hold_of_def split: if_splits)

lemma hold_of_held: "sts \<inter> {STOPPING, HELD_QUOTA, RESUMING, NEEDS_REVIEW} \<noteq> {} \<Longrightarrow> hold_of sts \<noteq> None"
  by (auto simp: hold_of_def)

lemma guard_hold_mode:
  assumes "guard_hold env report s = (Inr (), s')"
    and "set (map oc_state (outcomes report)) \<inter> {STOPPING, HELD_QUOTA, RESUMING, NEEDS_REVIEW} \<noteq> {}"
  shows "\<exists>m. current_mode (w_db s') = Inr m \<and> m \<noteq> READY
    \<and> (NEEDS_REVIEW \<in> set (map oc_state (outcomes report)) \<longrightarrow> m = BLOCKED)"
proof -
  obtain target reason where h: "hold_of (set (map oc_state (outcomes report))) = Some (target, reason)"
    using hold_of_held [OF assms(2)] by auto
  with assms(1) obtain set_at now d where
      "hold_transaction (we_svc env) target reason set_at now d = Inr ((), w_db s')"
    by (auto simp: guard_hold_def wstep_defs eff_defs split: sum.splits prod.splits)
  from hold_transaction_mode [OF this] hold_of_target [OF h] show ?thesis
    by auto
qed

text \<open>
  C27. A held guard holds the controller. When a cycle ends and one of its guards is stopping, held,
  resuming or needs review, the controller is not ready afterwards, whatever other processes and the App
  Server did during the cycle; if one needs review, the controller is blocked.
\<close>

theorem quota_guard_cycle_holds_controller:
  assumes "quota_guard_cycle env ge signal_available allow_resume s = (Inr (Guard_checked report), s')"
    and "set (map oc_state (outcomes report)) \<inter> {STOPPING, HELD_QUOTA, RESUMING, NEEDS_REVIEW} \<noteq> {}"
  shows "\<exists>m. current_mode (w_db s') = Inr m \<and> m \<noteq> READY
    \<and> (NEEDS_REVIEW \<in> set (map oc_state (outcomes report)) \<longrightarrow> m = BLOCKED)"
proof -
  from assms(1) obtain t where "guard_hold env report t = (Inr (), s')"
    by (auto simp: quota_guard_cycle_def Let_def ebind_def eret_def eraise_def split: sum.splits prod.splits if_splits)
  with assms(2) show ?thesis by (rule guard_hold_mode [rotated])
qed

end
