(* ===== verification/Reports.thy ===== *)
theory Reports
  imports Dispatch GuardService
begin

text \<open>
  service.py, the commands that only read (\<open>status\<close>, \<open>preflight\<close>, \<open>approval_prepare\<close>, \<open>policy_check\<close>,
  \<open>reconcile_plan\<close>, the listings) with the reads of store.py behind them, and \<open>cycle\<close>, which probes, asks the
  preflight and then simulates. Every read is a connection of its own, so other processes may commit between
  two of them. The lemmas show that reading changes nothing, and that a requirement that
  \<open>approval_prepare\<close> prints is the one the command will demand.
\<close>

section \<open>Rows as documents\<close>

definition mode_json :: "controller_row \<Rightarrow> json" where
  "mode_json c = JObj [(''mode'', JStr (mode_name (mode c))), (''reason_code'', opt_str (controller_reason c)),
     (''updated_at'', JNum (controller_updated_at c))]"

definition account_binding_view :: "config \<Rightarrow> db \<Rightarrow> json" where
  "account_binding_view cfg d =
     (case account_binding (cfg_profile_key cfg) d of
        None \<Rightarrow> JObj [(''bound'', JBool False)]
      | Some b \<Rightarrow> JObj
          [(''account_type'', JStr (bind_account_type b)), (''bound'', JBool True),
           (''fingerprint_prefix'', JStr (take 12 (bind_fingerprint b))),
           (''first_observed_at'', JNum (bind_first b)), (''last_observed_at'', JNum (bind_last b)),
           (''plan_type'', opt_str (bind_plan b))])"

definition policy_record :: "policy_row \<Rightarrow> json" where
  "policy_record row = JObj
     [(''policy'', policy_json row), (''policy_hash'', JStr (policy_row_hash row)),
      (''updated_at'', JNum (policy_updated_at row)), (''version'', JInt (policy_version row))]"

definition job_view :: "bool \<Rightarrow> job_row \<Rightarrow> json" where
  "job_view listed r = JObj
     ([(''approval_id'', JStr (jr_approval r)), (''created_at'', JNum (jr_created r)), (''job'', jr_manifest r),
       (''job_id'', JStr (jr_id r)), (''state'', JStr (job_state_name (jr_state r))),
       (''updated_at'', JNum (jr_updated r))]
      @ (if listed then [(''priority'', JInt (jr_priority r)), (''work_ref'', JStr (jr_work_ref r))] else []))"

definition list_jobs :: "db \<Rightarrow> json list" where
  "list_jobs d = map (job_view True) (sort_key job_order (jobs_t d))"

definition get_job :: "string \<Rightarrow> db \<Rightarrow> json res" where
  "get_job jid d =
     (case fetchone (\<lambda>r. jr_id r = jid) (jobs_t d) of
        None \<Rightarrow> Inl (Sched ''JOB_NOT_FOUND'') | Some r \<Rightarrow> Inr (job_view False r))"

definition proposal_state_name :: "proposal_state \<Rightarrow> string" where
  "proposal_state_name st = (case st of proposed \<Rightarrow> ''proposed'' | proposal_approved \<Rightarrow> ''approved'')"

definition proposal_view :: "(string \<times> json) list \<Rightarrow> proposal_row \<Rightarrow> json" where
  "proposal_view extra r = JObj
     ([(''job_id'', JStr (pr_id r)), (''work_ref'', JStr (pr_work_ref r)), (''priority'', JInt (pr_priority r)),
       (''state'', JStr (proposal_state_name (pr_state r))), (''package_hash'', JStr (pr_hash r)),
       (''created_at'', JNum (pr_created r)), (''updated_at'', JNum (pr_updated r)),
       (''approved_at'', opt_num (pr_approved_at r))] @ extra)"

definition proposal_order :: "proposal_row \<Rightarrow> int \<times> rat \<times> string" where
  "proposal_order r = (- pr_priority r, pr_created r, pr_id r)"

definition list_proposals :: "db \<Rightarrow> json list" where
  "list_proposals d = map (proposal_view []) (sort_key proposal_order (proposals_t d))"

definition lease_candidate_view :: "lease_row \<Rightarrow> json" where
  "lease_candidate_view r = JObj [(''lease_id'', JStr (ls_id r)), (''job_id'', JStr (ls_job r)),
     (''acquired_at'', JNum (ls_acquired r)), (''expires_at'', JNum (ls_expires r))]"

definition run_candidate_view :: "run_row \<Rightarrow> json" where
  "run_candidate_view r = JObj [(''run_id'', JStr (rn_id r)), (''thread_id'', opt_str (rn_thread r)),
     (''turn_id'', opt_str (rn_turn r)), (''state'', JStr (run_state_name (rn_state r))),
     (''lease_expires_at'', JNum (rn_lease_expires r))]"

text \<open>\<open>GROUP BY state ORDER BY state\<close>.\<close>

definition grouped :: "string list \<Rightarrow> json" where
  "grouped names = JObj (map (\<lambda>k. (k, JInt (int (length (filter ((=) k) names))))) (sorted_set names))"

definition counts :: "rat \<Rightarrow> db \<Rightarrow> json" where
  "counts now d = JObj
     [(''active_leases'', JInt (int (length (active_leases d)))),
      (''jobs'', grouped (map (job_state_name \<circ> jr_state) (jobs_t d))),
      (''proposals'', grouped (map (proposal_state_name \<circ> pr_state) (proposals_t d))),
      (''runs'', grouped (map (run_state_name \<circ> rn_state) (runs_t d))),
      (''stale_leases'', JInt (int (length (filter (lease_expired_at now) (leases_t d)))))]"

definition audit_dict :: "audit_report \<Rightarrow> json" where
  "audit_dict r = JObj [(''event_count'', JInt (int (event_count r))),
     (''first_invalid_sequence'', case first_invalid_sequence r of None \<Rightarrow> JNull | Some n \<Rightarrow> JInt (int n)),
     (''valid'', JBool (valid r))]"

text \<open>\<open>json.loads\<close> of a details column that is not JSON raises.\<close>

definition audit_event :: "audit_row \<Rightarrow> json res" where
  "audit_event r =
     (case au_details r of
        None \<Rightarrow> Inl (PyExc ''JSONDecodeError'')
      | Some details \<Rightarrow> Inr (JObj
          [(''actor'', JStr (au_actor r)), (''details'', details), (''event_hash'', JStr (au_event_hash r)),
           (''event_id'', JStr (au_event_id r)), (''event_type'', JStr (au_event_type r)),
           (''occurred_at'', JNum (au_occurred_at r)), (''previous_hash'', JStr (au_previous_hash r)),
           (''sequence'', JInt (int (au_sequence r)))]))"

definition list_audit :: "nat \<Rightarrow> db \<Rightarrow> json list res" where
  "list_audit limit d = rmap audit_event (take limit (rev (sort_key au_sequence (audit_t d))))"

definition service_lease_status :: "rat \<Rightarrow> db \<Rightarrow> json" where
  "service_lease_status now d =
     (case service_lease_t d of
        None \<Rightarrow> JObj [(''present'', JBool False), (''running'', JBool False)]
      | Some r \<Rightarrow> JObj
          [(''acquired_at'', JNum (sl_acquired r)), (''expires_at'', JNum (sl_expires r)),
           (''heartbeat_at'', JNum (sl_heartbeat r)), (''lease_id'', JStr (sl_id r)),
           (''owner_prefix'', JStr (take 12 (sl_owner r))), (''present'', JBool True),
           (''released_at'', opt_num (sl_released r)), (''running'', JBool (lease_held r now)),
           (''state'', JStr (case sl_state r of svc_active \<Rightarrow> ''active'' | svc_released \<Rightarrow> ''released''))])"

section \<open>Listings\<close>

definition queue_list :: "svc \<Rightarrow> db \<Rightarrow> json res" where
  "queue_list sv d = rbind (require_capability sv ''queue.read'') (\<lambda>_. Inr (JObj [(''jobs'', JArr (list_jobs d))]))"

definition queue_get :: "svc \<Rightarrow> string \<Rightarrow> db \<Rightarrow> json res" where
  "queue_get sv jid d =
     rbind (require_capability sv ''queue.read'') (\<lambda>_. get_job jid d)"

definition queue_proposals :: "svc \<Rightarrow> db \<Rightarrow> json res" where
  "queue_proposals sv d =
     rbind (require_capability sv ''queue.read'') (\<lambda>_. Inr (JObj [(''proposals'', JArr (list_proposals d))]))"

definition queue_proposal_get :: "svc \<Rightarrow> string \<Rightarrow> db \<Rightarrow> json res" where
  "queue_proposal_get sv jid d =
     rbind (require_capability sv ''queue.read'') (\<lambda>_.
     rbind (get_proposal jid d) (\<lambda>r. Inr (proposal_view [(''package'', pr_package r)] r)))"

definition policy_show :: "svc \<Rightarrow> db \<Rightarrow> json res" where
  "policy_show sv d =
     rbind (require_capability sv ''policy.read'') (\<lambda>_. rbind (stored_policy d) (\<lambda>row. Inr (policy_record row)))"

definition audit_list :: "svc \<Rightarrow> int \<Rightarrow> db \<Rightarrow> json res" where
  "audit_list sv limit d =
     rbind (require_capability sv ''audit.read'') (\<lambda>_.
     rbind (guard (\<not> (limit < 1 \<or> limit > 1000)) ''INVALID_ARGUMENT'') (\<lambda>_.
     rbind (list_audit (nat limit) d) (\<lambda>es. Inr (JObj [(''events'', JArr es)]))))"

definition audit_verify :: "svc \<Rightarrow> db \<Rightarrow> json res" where
  "audit_verify sv d =
     rbind (require_capability sv ''audit.read'') (\<lambda>_. Inr (audit_dict (verify_audit (sv_host sv) d)))"

definition monitor_list :: "svc \<Rightarrow> db \<Rightarrow> json res" where
  "monitor_list sv d =
     rbind (require_capability sv ''monitor.read'') (\<lambda>_. Inr (JObj [(''runs'', JArr (map run_dict (list_runs d)))]))"

definition monitor_get :: "svc \<Rightarrow> string \<Rightarrow> db \<Rightarrow> json res" where
  "monitor_get sv rid d =
     rbind (require_capability sv ''monitor.read'') (\<lambda>_.
     rbind (validate_identifier (JStr rid)) (\<lambda>i. rbind (get_run i d) (\<lambda>r. Inr (run_dict r))))"

section \<open>Status\<close>

record status_report =
  sr_controller :: controller_row
  sr_binding :: json
  sr_counts :: json
  sr_policy :: policy_row
  sr_snapshot :: "json option"
  sr_decision :: decision
  sr_sessions :: "json list"

definition policy_of_row :: "policy_row \<Rightarrow> policy res" where
  "policy_of_row row = stored (validate_policy (policy_json row))"

definition status :: "wenv \<Rightarrow> (wst, status_report) eff" where
  "status env =
     (let sv = we_svc env; cfg = sv_config sv in
      ethen (elift (require_capability sv ''control.read''))
     (ebind (wread env controller) (\<lambda>c.
      ebind (wread env stored_policy) (\<lambda>row.
      ebind (wread env (\<lambda>d. Inr (latest_snapshot d))) (\<lambda>snap.
      ebind (wclock env) (\<lambda>now.
      ebind (elift (policy_of_row row)) (\<lambda>p.
      ebind (wread env (evaluate_current_policy cfg snap p now None)) (\<lambda>dec.
      ebind (wread env (\<lambda>d. Inr (account_binding_view cfg d))) (\<lambda>binding.
      ebind (wclock env) (\<lambda>counted.
      ebind (wread env (\<lambda>d. Inr (counts counted d))) (\<lambda>numbers.
      ebind (wread env (list_quota_guard_sessions None None)) (\<lambda>sessions.
      ebind (emap (\<lambda>g. wread env (\<lambda>d. session_view d g)) sessions) (\<lambda>views.
        eret \<lparr>sr_controller = c, sr_binding = binding, sr_counts = numbers, sr_policy = row,
              sr_snapshot = snap, sr_decision = dec, sr_sessions = views\<rparr>)))))))))))))"

definition effective_mode :: "controller_mode \<Rightarrow> decision \<Rightarrow> controller_mode" where
  "effective_mode m dec = (if m = READY \<and> has_signal_failure dec then BLOCKED else m)"

definition status_dict :: "config \<Rightarrow> status_report \<Rightarrow> json" where
  "status_dict cfg r = JObj
     [(''controller'', mode_json (sr_controller r)), (''account_binding'', sr_binding r), (''counts'', sr_counts r),
      (''dry_run'', JBool True),
      (''effective_mode'', JStr (mode_name (effective_mode (mode (sr_controller r)) (sr_decision r)))),
      (''execution_modes'', JObj
         [(''dispatch'', JStr (if cfg_dispatch_enabled cfg then ''guarded_live'' else ''disabled'')),
          (''tick'', JStr ''fake_only'')]),
      (''paid_credit_policy'', JObj
         [(''account_binding_required'', JBool True), (''contrary_signal_blocks'', JBool True),
          (''verification_mode'', JStr (cfg_credit_mode cfg))]),
      (''phase'', JStr ''D_GUARDED_DISPATCH''),
      (''policy'', JObj [(''policy_hash'', JStr (policy_row_hash (sr_policy r))),
                        (''version'', JInt (policy_version (sr_policy r)))]),
      (''quota'', JObj [(''decision'', decision_dict (sr_decision r)),
                       (''snapshot'', case sr_snapshot r of None \<Rightarrow> JNull | Some v \<Rightarrow> v)]),
      (''quota_guard'', JObj [(''configured'', JBool (cfg_guard_enabled cfg)), (''sessions'', JArr (sr_sessions r))])]"

definition policy_check :: "wenv \<Rightarrow> json option \<Rightarrow> json option \<Rightarrow> (wst, decision) eff" where
  "policy_check env snapshot_value job_value =
     (let sv = we_svc env; cfg = sv_config sv in
      ethen (elift (require_capability sv ''policy.evaluate''))
     (ebind (case snapshot_value of
               Some v \<Rightarrow> elift (rbind (validate_snapshot v) (\<lambda>s.
                 rbind (ensure_profile s (cfg_profile_key cfg) (cfg_limit_id cfg)) (\<lambda>_. Inr (Some s, None))))
             | None \<Rightarrow> wread env (\<lambda>d. Inr (None, latest_snapshot d))) (\<lambda>(given, stored_one).
      ebind (elift (case job_value of None \<Rightarrow> Inr None | Some v \<Rightarrow> rbind (validate_job v) (\<lambda>j. Inr (Some (expected_usage j)))))
        (\<lambda>usage_opt.
      ebind (wread env current_policy) (\<lambda>p.
      ebind (wclock env) (\<lambda>now.
        case given of
          Some s \<Rightarrow> eret (evaluate_policy (Some s) p now usage_opt)
        | None \<Rightarrow> wread env (evaluate_current_policy cfg stored_one p now usage_opt)))))))"

definition reconcile_plan :: "wenv \<Rightarrow> (wst, json) eff" where
  "reconcile_plan env =
     (let sv = we_svc env in
      ethen (elift (require_capability sv ''reconcile.local''))
     (ebind (wclock env) (\<lambda>now.
      ebind (wread env (\<lambda>d. Inr (reconciliation_candidates now d))) (\<lambda>ls.
      ebind (wclock env) (\<lambda>later.
      ebind (wread env (\<lambda>d. Inr (run_reconciliation_candidates later d))) (\<lambda>rs.
        eret (JObj
          [(''approval_requirement'', JObj
              [(''action'', JStr ''reconcile''), (''capability'', JStr ''reconcile.local''),
               (''scope_hash'', JStr (payload_hash (sv_host sv) (reconcile_scope ls rs)))]),
           (''candidates'', JArr (map lease_candidate_view ls)), (''run_candidates'', JArr (map run_candidate_view rs)),
           (''dry_run'', JBool True)])))))))"

section \<open>What a command will demand\<close>

record requirement =
  rq_action :: string
  rq_capability :: string
  rq_scope :: string

definition no_input :: "json option \<Rightarrow> 'a \<Rightarrow> ('s, 'a) eff" where
  "no_input input x = (case input of None \<Rightarrow> eret x | Some _ \<Rightarrow> eraise (Sched ''INVALID_ARGUMENT''))"

definition with_input :: "json option \<Rightarrow> (json \<Rightarrow> ('s, 'a) eff) \<Rightarrow> ('s, 'a) eff" where
  "with_input input f = (case input of None \<Rightarrow> eraise (Sched ''INVALID_ARGUMENT'') | Some v \<Rightarrow> f v)"

definition live_test_scope :: "svc \<Rightarrow> db \<Rightarrow> json res" where
  "live_test_scope sv d =
     (let cfg = sv_config sv; live = cfg_live cfg in
      rbind (stored_policy d) (\<lambda>row.
      (case cfg_workspace_roots cfg of
         [] \<Rightarrow> Inl (PyExc ''IndexError'')
       | root_path # _ \<Rightarrow> Inr (JObj
           [(''action'', JStr ''live-test.run''), (''canary_version'', JStr ''1''), (''effort'', JStr (lt_effort live)),
            (''expected_usage'', usage_dict (lt_usage live)), (''max_runtime_seconds'', JInt (lt_max_runtime live)),
            (''model'', JStr (lt_model live)), (''policy_hash'', JStr (policy_row_hash row)),
            (''workspace_root'', JStr (sv_resolve sv root_path))]))))"

text \<open>The scope that an approval of the action has to name, and the capability it has to grant.\<close>

definition scoped_value ::
    "wenv \<Rightarrow> string \<Rightarrow> json option \<Rightarrow> lease_row list \<Rightarrow> run_row list \<Rightarrow> (wst, json \<times> string) eff" where
  "scoped_value env act input ls rs =
     (let sv = we_svc env in
      if act = ''queue.submit'' then with_input input (\<lambda>v.
        elift (rbind (validate_job v) (\<lambda>j. Inr (job_dict j, ''queue.local.write''))))
      else if act = ''queue.approve'' then with_input input (\<lambda>v.
        elift (rbind (normalize_work_package sv v) (\<lambda>p. Inr (work_package_dict p, ''work.dispatch''))))
      else if act = ''policy.set'' then with_input input (\<lambda>v.
        elift (rbind (validate_policy v) (\<lambda>p. Inr (policy_dict p, ''policy.local.write''))))
      else if act = ''resume'' then no_input input (resume_scope, ''control.local.write'')
      else if act = ''reconcile'' then no_input input (reconcile_scope ls rs, ''reconcile.local'')
      else if act = ''live-test.run'' then
        ethen (no_input input ()) (ebind (wread env (live_test_scope sv)) (\<lambda>v. eret (v, ''live_test.dispatch'')))
      else if act = ''quota-guard.arm'' then with_input input (\<lambda>v.
        ebind (wclock env) (\<lambda>now.
        ebind (wread env (quota_guard_scope sv v now)) (\<lambda>sc. eret (scope_dict sc, ''quota_guard.thread.control''))))
      else eraise (Sched ''INVALID_ARGUMENT''))"

definition requirement_of ::
    "wenv \<Rightarrow> string option \<Rightarrow> json option \<Rightarrow> lease_row list \<Rightarrow> run_row list \<Rightarrow> (wst, requirement option) eff" where
  "requirement_of env action_opt input ls rs =
     (case action_opt of
        None \<Rightarrow> eret None
      | Some act \<Rightarrow>
          ebind (scoped_value env act input ls rs) (\<lambda>(v, cap).
          ethen (elift (require_capability (we_svc env) cap))
            (eret (Some \<lparr>rq_action = act, rq_capability = cap, rq_scope = payload_hash (sv_host (we_svc env)) v\<rparr>))))"

section \<open>Preflight\<close>

record readiness =
  rd_requirement :: "requirement option"
  rd_mode :: controller_mode
  rd_issues :: "string list"
  rd_audit :: audit_report
  rd_messages :: "string list"
  rd_decision :: decision
  rd_leases :: "string list"
  rd_runs :: "string list"

definition safe_to_resume :: "readiness \<Rightarrow> bool" where
  "safe_to_resume r \<longleftrightarrow> rd_issues r = []"

definition run_in_flight :: "run_row \<Rightarrow> bool" where
  "run_in_flight r \<longleftrightarrow> rn_state r \<in> {run_starting, run_running}"

definition preflight :: "wenv \<Rightarrow> string option \<Rightarrow> json option \<Rightarrow> (wst, readiness) eff" where
  "preflight env action_opt input =
     (let sv = we_svc env; cfg = sv_config sv in
      ethen (elift (require_capability sv ''policy.evaluate''))
     (ebind (wclock env) (\<lambda>now.
      ebind (wread env controller) (\<lambda>c.
      ebind (wread env current_policy) (\<lambda>p.
      ebind (wread env (\<lambda>d. Inr (latest_snapshot d))) (\<lambda>snap.
      ebind (wread env (evaluate_current_policy cfg snap p now None)) (\<lambda>dec.
      ebind (wread env (\<lambda>d. Inr (reconciliation_candidates now d))) (\<lambda>ls.
      ebind (wread env (\<lambda>d. Inr (run_reconciliation_candidates now d))) (\<lambda>rs.
      ebind (integrity env) (\<lambda>messages.
      ebind (wread env (\<lambda>d. Inr (verify_audit (sv_host sv) d))) (\<lambda>chain.
      ebind (if ls \<noteq> [] \<or> rs \<noteq> [] then eret False else wread env (\<lambda>d. Inr (active_leases d \<noteq> []))) (\<lambda>leased.
      ebind (wread env (\<lambda>d. Inr (list_ex run_in_flight (list_runs d)))) (\<lambda>busy.
      ebind (wread env (list_quota_guard_sessions None None)) (\<lambda>sessions.
      ebind (requirement_of env action_opt input ls rs) (\<lambda>req.
        eret \<lparr>rd_requirement = req, rd_mode = mode c,
              rd_issues = sorted_set
                (reasons dec @ issue_if (\<not> check_passed messages) ''DATABASE_INVALID''
                 @ issue_if (\<not> valid chain) ''AUDIT_INVALID''
                 @ issue_if (ls \<noteq> [] \<or> rs \<noteq> []) ''RECONCILE_REQUIRED'' @ issue_if leased ''LEASE_ACTIVE''
                 @ issue_if busy ''RUN_ACTIVE'' @ guard_issues (set (map gs_state sessions))),
              rd_audit = chain, rd_messages = messages, rd_decision = dec,
              rd_leases = map ls_id ls, rd_runs = map rn_id rs\<rparr>)))))))))))))))"

definition requirement_dict :: "requirement option \<Rightarrow> json" where
  "requirement_dict r =
     (case r of
        None \<Rightarrow> JNull
      | Some q \<Rightarrow> JObj [(''action'', JStr (rq_action q)), (''capability'', JStr (rq_capability q)),
                       (''scope_hash'', JStr (rq_scope q))])"

definition readiness_dict :: "readiness \<Rightarrow> json" where
  "readiness_dict r = JObj
     [(''approval_requirement'', requirement_dict (rd_requirement r)), (''controller_mode'', JStr (mode_name (rd_mode r))),
      (''dry_run'', JBool True), (''issues'', JArr (map JStr (rd_issues r))),
      (''integrity'', JObj [(''audit'', audit_dict (rd_audit r)), (''database'', integrity_dict (rd_messages r))]),
      (''policy_decision'', decision_dict (rd_decision r)), (''reconciliation_candidates'', id_array (rd_leases r)),
      (''run_reconciliation_candidates'', id_array (rd_runs r)), (''safe_to_resume'', JBool (safe_to_resume r))]"

section \<open>Preparing an approval\<close>

record approval_request =
  aq_id :: string
  aq_requirement :: requirement
  aq_created :: rat
  aq_approver :: string
  aq_ttl :: int
  aq_preflight :: readiness

definition approval_prepare :: "wenv \<Rightarrow> string \<Rightarrow> json option \<Rightarrow> string \<Rightarrow> int \<Rightarrow> (wst, approval_request) eff" where
  "approval_prepare env act input approver ttl =
     ebind (elift (valid_actor approver)) (\<lambda>who.
     ethen (eguard (\<not> (ttl < 60 \<or> ttl > 86400)) ''INVALID_ARGUMENT'')
    (ebind (preflight env (Some act) input) (\<lambda>rd.
      case rd_requirement rd of
        None \<Rightarrow> eraise (Sched ''STATE_INVALID'')
      | Some q \<Rightarrow>
          ebind (wclock env) (\<lambda>created.
          ebind (wid env ''apr'') (\<lambda>request_id.
            eret \<lparr>aq_id = request_id, aq_requirement = q, aq_created = created, aq_approver = who,
                  aq_ttl = ttl, aq_preflight = rd\<rparr>)))))"

definition approval_request_dict :: "approval_request \<Rightarrow> json" where
  "approval_request_dict a = JObj
     [(''approval_request'', JObj
         [(''schema_version'', JStr ''1''), (''request_id'', JStr (aq_id a)),
          (''action'', JStr (rq_action (aq_requirement a))), (''scope_hash'', JStr (rq_scope (aq_requirement a))),
          (''capability'', JStr (rq_capability (aq_requirement a))), (''created_at'', JNum (aq_created a)),
          (''requested_approver'', JStr (aq_approver a)), (''suggested_ttl_seconds'', JInt (aq_ttl a))]),
      (''approval_template'', JObj
         [(''schema_version'', JStr ''1''), (''approval_id'', JNull), (''actor'', JStr (aq_approver a)),
          (''action'', JStr (rq_action (aq_requirement a))), (''scope_hash'', JStr (rq_scope (aq_requirement a))),
          (''capabilities'', JArr [JStr (rq_capability (aq_requirement a))]), (''granted_at'', JNull),
          (''expires_at'', JNull)]),
      (''dry_run'', JBool True), (''preflight'', readiness_dict (aq_preflight a)),
      (''template_is_approval'', JBool False)]"

section \<open>Observe, evaluate, simulate\<close>

definition with_replay :: "command_result \<Rightarrow> json" where
  "with_replay r =
     JObj (filter (\<lambda>kv. fst kv \<noteq> ''idempotent_replay'') (obj_fields (fst r)) @ [(''idempotent_replay'', JBool (snd r))])"

definition flag_set :: "json \<Rightarrow> string \<Rightarrow> bool" where
  "flag_set v k \<longleftrightarrow> jgetn (obj_fields v) k = JBool True"

definition cycle_request :: "config \<Rightarrow> json" where
  "cycle_request cfg = JObj [(''dry_run'', JBool True), (''limit_id'', JStr (cfg_limit_id cfg)),
     (''profile_key'', JStr (cfg_profile_key cfg))]"

definition cycle_step_key :: "svc \<Rightarrow> string \<Rightarrow> string \<Rightarrow> string" where
  "cycle_step_key sv key part = step_key sv (''cycle-'' @ part @ ''-'') (JObj [(''cycle'', JStr key), (''step'', JStr part)]) 48"

definition tick_outcome :: "json \<Rightarrow> string" where
  "tick_outcome r =
     (if flag_set r ''simulated'' then ''simulated'' else if flag_set r ''requires_review'' then ''needs_review''
      else if flag_set r ''blocked'' then ''blocked'' else ''no_eligible_job'')"

definition cycle_tick :: "wenv \<Rightarrow> string \<Rightarrow> string \<Rightarrow> readiness \<Rightarrow> (wst, string \<times> json) eff" where
  "cycle_tick env key who rd =
     (if rd_mode rd \<noteq> READY then eret (''skipped_controller_not_ready'', JNull)
      else if \<not> safe_to_resume rd then eret (''skipped_preflight_denied'', JNull)
      else ebind (tick env (cycle_step_key (we_svc env) key ''tick'') who) (\<lambda>r.
             eret (tick_outcome (fst r), with_replay r)))"

definition cycle_result :: "string \<Rightarrow> readiness \<Rightarrow> command_result \<Rightarrow> json \<Rightarrow> json" where
  "cycle_result result_kind rd probe_result tick_result = JObj
     [(''dry_run'', JBool True), (''outcome'', JStr result_kind), (''preflight'', readiness_dict rd),
      (''probe'', with_replay probe_result), (''tick'', tick_result)]"

definition cycle :: "wenv \<Rightarrow> string \<Rightarrow> string \<Rightarrow> (wst, command_result) eff" where
  "cycle env key who =
     (let sv = we_svc env; request = cycle_request (sv_config sv) in
      ebind (elift (valid_actor who)) (\<lambda>who'.
      ebind (wclock env) (\<lambda>now.
      ebind (wread env (replay_idempotent (sv_host sv) key ''cycle'' request)) (\<lambda>replay.
        case replay of
          Some r \<Rightarrow> eret (r, True)
        | None \<Rightarrow>
            ebind (probe_quota env (cycle_step_key sv key ''probe'') who') (\<lambda>probe_result.
            ebind (preflight env None None) (\<lambda>rd.
            ebind (cycle_tick env key who' rd) (\<lambda>(result_kind, tick_result).
              wtx env (execute_idempotent (sv_host sv) key ''cycle'' request now
                (\<lambda>d. Inr (cycle_result result_kind rd probe_result tick_result, d))))))))))"

section \<open>A printed requirement is the demanded one\<close>

lemma ebind_Inr: "ebind m f s = (Inr x, s') \<longleftrightarrow> (\<exists>y t. m s = (Inr y, t) \<and> f y t = (Inr x, s'))"
  by (auto simp: ebind_def split: prod.splits sum.splits)

lemma eret_Inr: "eret x s = (Inr y, s') \<longleftrightarrow> y = x \<and> s' = s"
  by (auto simp: eret_def)

lemma elift_Inr: "elift r s = (Inr y, s') \<longleftrightarrow> r = Inr y \<and> s' = s"
  by (auto simp: elift_def)

lemma eraise_Inr: "eraise e s = (Inr y, s') \<longleftrightarrow> False"
  by (simp add: eraise_def)

lemmas eff_Inr = ebind_Inr eret_Inr elift_Inr eraise_Inr

lemma requirement_of_Some:
  assumes "requirement_of env (Some act) input ls rs s = (Inr q, s')"
  shows "\<exists>v cap t. scoped_value env act input ls rs s = (Inr (v, cap), t)
    \<and> q = Some \<lparr>rq_action = act, rq_capability = cap, rq_scope = payload_hash (sv_host (we_svc env)) v\<rparr>"
  using assms by (auto simp: requirement_of_def eff_Inr)

lemma preflight_requirement:
  assumes "preflight env action_opt input s = (Inr rd, s')"
  shows "\<exists>ls rs t t'. requirement_of env action_opt input ls rs t = (Inr (rd_requirement rd), t')
    \<and> rd_leases rd = map ls_id ls \<and> rd_runs rd = map rn_id rs"
  using assms by (auto simp: preflight_def Let_def eff_Inr) blast

lemma prepared_requirement:
  assumes "approval_prepare env act input approver ttl s = (Inr rq, s')"
  shows "\<exists>ls rs t t' v cap. scoped_value env act input ls rs t = (Inr (v, cap), t')
    \<and> aq_requirement rq = \<lparr>rq_action = act, rq_capability = cap, rq_scope = payload_hash (sv_host (we_svc env)) v\<rparr>
    \<and> rd_leases (aq_preflight rq) = map ls_id ls \<and> rd_runs (aq_preflight rq) = map rn_id rs"
proof -
  from assms obtain rd q t t' where p: "preflight env (Some act) input t = (Inr rd, t')"
    and q: "rd_requirement rd = Some q" "aq_requirement rq = q" "aq_preflight rq = rd"
    by (auto simp: approval_prepare_def eff_Inr split: option.splits)
  from preflight_requirement [OF p] obtain ls rs u u' where
      "requirement_of env (Some act) input ls rs u = (Inr (Some q), u')"
      "rd_leases rd = map ls_id ls" "rd_runs rd = map rn_id rs"
    unfolding q by blast
  with requirement_of_Some [OF this(1)] show ?thesis
    unfolding q by blast
qed

text \<open>The scope of a reconciliation depends on the identifiers only.\<close>

lemma reconcile_scope_cong:
  "map ls_id ls = map ls_id ls' \<Longrightarrow> map rn_id rs = map rn_id rs' \<Longrightarrow> reconcile_scope ls rs = reconcile_scope ls' rs'"
  by (simp add: reconcile_scope_def)

text \<open>
  A prepared approval is the one the command demands. The action, capability and scope hash that
  \<open>approval_prepare\<close> prints for a job, a policy, a resume or a reconciliation are those of the approval
  that the later command consumes when it changes anything: for a reconciliation as long as the same leases
  and runs have expired, for a package as long as the stored proposal has the hash of the normalised input.
\<close>

theorem prepared_requirement_is_demanded:
  assumes prepared: "approval_prepare env act input approver ttl s = (Inr rq, s')"
  defines "sv \<equiv> we_svc env" and "q \<equiv> aq_requirement rq"
  shows "rq_action q = act
   \<and> (act = ''queue.submit'' \<longrightarrow> snd (queue_submit sv (the input) av key who now d) \<noteq> d \<longrightarrow>
        consumed_approval av now act (rq_scope q) (rq_capability q) d (snd (queue_submit sv (the input) av key who now d)))
   \<and> (act = ''queue.approve'' \<longrightarrow> snd (queue_approve sv jid av key who now d) \<noteq> d \<longrightarrow>
        rbind (get_proposal jid d) (\<lambda>row. Inr (pr_hash row))
          = rbind (normalize_work_package sv (the input)) (\<lambda>p. Inr (package_hash_of sv p)) \<longrightarrow>
        consumed_approval av now act (rq_scope q) (rq_capability q) d (snd (queue_approve sv jid av key who now d)))
   \<and> (act = ''policy.set'' \<longrightarrow> snd (policy_set sv (the input) av key who now d) \<noteq> d \<longrightarrow>
        consumed_approval av now act (rq_scope q) (rq_capability q) d (snd (policy_set sv (the input) av key who now d)))
   \<and> (act = ''resume'' \<longrightarrow> snd (resume sv av key who now d) \<noteq> d \<longrightarrow>
        consumed_approval av now act (rq_scope q) (rq_capability q) d (snd (resume sv av key who now d)))
   \<and> (act = ''reconcile'' \<longrightarrow> snd (reconcile sv av key who now d) \<noteq> d \<longrightarrow>
        map ls_id (reconciliation_candidates now d) = rd_leases (aq_preflight rq) \<longrightarrow>
        map rn_id (run_reconciliation_candidates now d) = rd_runs (aq_preflight rq) \<longrightarrow>
        consumed_approval av now act (rq_scope q) (rq_capability q) d (snd (reconcile sv av key who now d)))"
proof -
  from prepared_requirement [OF prepared] obtain ls rs t t' v cap where
      v: "scoped_value env act input ls rs t = (Inr (v, cap), t')"
    and q: "rq_action q = act" "rq_capability q = cap" "rq_scope q = payload_hash (sv_host sv) v"
    and ids: "rd_leases (aq_preflight rq) = map ls_id ls" "rd_runs (aq_preflight rq) = map rn_id rs"
    unfolding q_def sv_def by force
  note v = v [unfolded scoped_value_def Let_def with_input_def no_input_def eff_Inr, folded sv_def]
  have submit: "consumed_approval av now act (rq_scope q) (rq_capability q) d (snd (queue_submit sv (the input) av key who now d))"
    if "act = ''queue.submit''" "snd (queue_submit sv (the input) av key who now d) \<noteq> d"
    using queue_submit_change [OF that(2)] v that(1) q by (auto simp: eff_Inr split: option.splits)
  have policy: "consumed_approval av now act (rq_scope q) (rq_capability q) d (snd (policy_set sv (the input) av key who now d))"
    if "act = ''policy.set''" "snd (policy_set sv (the input) av key who now d) \<noteq> d"
    using policy_set_change [OF that(2)] v that(1) q by (auto simp: eff_Inr split: option.splits)
  have approve: "consumed_approval av now act (rq_scope q) (rq_capability q) d (snd (queue_approve sv jid av key who now d))"
    if "act = ''queue.approve''" "snd (queue_approve sv jid av key who now d) \<noteq> d"
      "rbind (get_proposal jid d) (\<lambda>row. Inr (pr_hash row))
         = rbind (normalize_work_package sv (the input)) (\<lambda>p. Inr (package_hash_of sv p))"
    using queue_approve_change [OF that(2)] v that(1,3) q
    by (auto simp: eff_Inr package_hash_of_def split: option.splits)
  have resumed: "consumed_approval av now act (rq_scope q) (rq_capability q) d (snd (resume sv av key who now d))"
    if "act = ''resume''" "snd (resume sv av key who now d) \<noteq> d"
    using resume_change [OF that(2)] v that(1) q by (auto simp: eff_Inr split: option.splits)
  have reconciled: "consumed_approval av now act (rq_scope q) (rq_capability q) d (snd (reconcile sv av key who now d))"
    if "act = ''reconcile''" "snd (reconcile sv av key who now d) \<noteq> d"
      "map ls_id (reconciliation_candidates now d) = rd_leases (aq_preflight rq)"
      "map rn_id (run_reconciliation_candidates now d) = rd_runs (aq_preflight rq)"
    using reconcile_change [OF that(2)] reconcile_scope_cong [OF that(3,4) [unfolded ids]] v that(1) q
    by (auto simp: eff_Inr split: option.splits)
  show ?thesis
    using q(1) submit policy approve resumed reconciled by blast
qed

end
