(* ===== verification/Progress.thy ===== *)
theory Progress
  imports Reports DispatchSafety
begin

text \<open>
  What the scheduler achieves when nothing interferes. The preflights and the transactions that act check the
  same conditions in separate code; the lemmas show that the two agree, that a preflight that finds nothing is
  followed by a claim or a resumption that succeeds, and that the package selected is the best one by a
  reference definition.
\<close>

section \<open>An undisturbed world\<close>

text \<open>No other process commits, and the clock and the integrity check do not change meanwhile.\<close>

definition undisturbed :: "wenv \<Rightarrow> rat \<Rightarrow> string list \<Rightarrow> bool" where
  "undisturbed env now messages \<longleftrightarrow>
     we_others env = (\<lambda>_ d. d) \<and> we_clock env = (\<lambda>_. now) \<and> we_check env = (\<lambda>_. messages)"

lemma undisturbed_wread:
  "undisturbed env now messages \<Longrightarrow> wread env f s = (Inr x, s') \<Longrightarrow> f (w_db s) = Inr x \<and> w_db s' = w_db s"
  by (auto simp: undisturbed_def wstep_defs eff_defs)

lemma undisturbed_wclock:
  "undisturbed env now messages \<Longrightarrow> wclock env s = (Inr x, s') \<Longrightarrow> x = now \<and> w_db s' = w_db s"
  by (auto simp: undisturbed_def wstep_defs)

lemma undisturbed_integrity:
  "undisturbed env now messages \<Longrightarrow> integrity env s = (Inr x, s') \<Longrightarrow> x = messages \<and> w_db s' = w_db s"
  by (auto simp: undisturbed_def wstep_defs)

lemmas undisturbed_steps = undisturbed_wread undisturbed_wclock undisturbed_integrity

section \<open>The preflight and the claim agree\<close>

lemma sorted_set_Nil [simp]: "sorted_set xs = [] \<longleftrightarrow> xs = []"
  unfolding sorted_set_def by (metis set_empty set_remdups set_sort)

lemma issue_if_Nil_conv [simp]: "issue_if b c = [] \<longleftrightarrow> \<not> b"
  by (simp add: issue_if_def)

lemma selection_issues:
  "select_dispatch_candidate sv now jid d = Inr (c, issues) \<Longrightarrow> issues = [] \<longleftrightarrow> c \<noteq> None"
  by (auto simp: select_dispatch_candidate_def Let_def split: if_splits option.splits)

lemma dispatch_preflight_reads:
  assumes q: "undisturbed env now messages" and run: "dispatch_preflight env jid s = (Inr pf, s')"
  shows "w_db s' = w_db s \<and> (\<exists>c sessions issues. controller (w_db s) = Inr c
    \<and> list_quota_guard_sessions None None (w_db s) = Inr sessions
    \<and> select_dispatch_candidate (we_svc env) now jid (w_db s) = Inr (pf_candidate pf, issues)
    \<and> (pf_issues pf = [] \<longleftrightarrow> cfg_dispatch_enabled (sv_config (we_svc env)) \<and> mode c = READY
        \<and> active_leases (w_db s) = [] \<and> \<not> list_ex run_in_flight (list_runs (w_db s))
        \<and> guard_issues (set (map gs_state sessions)) = []
        \<and> reconciliation_candidates now (w_db s) = [] \<and> run_reconciliation_candidates now (w_db s) = []
        \<and> check_passed messages \<and> valid (verify_audit (sv_host (we_svc env)) (w_db s))
        \<and> paid_credit_issues (sv_config (we_svc env)) (latest_snapshot (w_db s)) = [] \<and> issues = []))"
  using run unfolding dispatch_preflight_def Let_def eff_Inr run_in_flight_def
  by (auto dest!: undisturbed_steps [OF q] simp: eret_Inr split: if_splits)

lemma stale_is_active:
  "active_leases d = [] \<Longrightarrow> reconciliation_candidates now d = []"
  "active_runs d = [] \<Longrightarrow> run_reconciliation_candidates now d = []"
  by (auto simp: active_leases_def reconciliation_candidates_def lease_expired_at_def filter_empty_conv
      active_runs_def run_reconciliation_candidates_def run_expired_at_def)

lemma in_flight_active: "list_ex run_in_flight (list_runs d) \<longleftrightarrow> active_runs d \<noteq> []"
  by (auto simp: list_ex_iff list_runs_def active_runs_def run_in_flight_def filter_empty_conv)

lemma guard_issues_Nil: "guard_issues sts = [] \<longleftrightarrow> NEEDS_REVIEW \<notin> sts \<and> sts \<inter> set guard_holding = {}"
  by (auto simp: guard_issues_def)

lemma listed_sessions:
  "list_quota_guard_sessions None None d = Inr sessions \<Longrightarrow> set (map gs_state sessions) = gs_state ` set (sessions_t d)"
proof -
  assume "list_quota_guard_sessions None None d = Inr sessions"
  then have "rmap guard_session_from_row (sort_key (\<lambda>s. (gs_created_at s, gs_id s)) (sessions_t d)) = Inr sessions"
    by (simp add: list_quota_guard_sessions_def)
  moreover have "rmap guard_session_from_row rows = Inr ss \<Longrightarrow> ss = rows" for rows ss
    by (induction rows arbitrary: ss) (auto simp: guard_session_from_row_def split: if_splits)
  ultimately have "sessions = sort_key (\<lambda>s. (gs_created_at s, gs_id s)) (sessions_t d)"
    by blast
  then show ?thesis
    by simp
qed

text \<open>The states that hold are not DISARMED, so leaving the disarmed sessions out changes nothing.\<close>

lemma holding_states:
  "NEEDS_REVIEW \<in> gs_state ` {x \<in> X. gs_state x \<noteq> DISARMED} \<longleftrightarrow> NEEDS_REVIEW \<in> gs_state ` X"
  "gs_state ` {x \<in> X. gs_state x \<noteq> DISARMED} \<inter> set guard_holding = gs_state ` X \<inter> set guard_holding"
  by (auto simp: guard_holding_def)

lemma claim_guards_iff:
  "claim_guards sv ok now jid d = Inr c \<longleftrightarrow>
     valid (verify_audit (sv_host sv) d) \<and> ok \<and> current_mode d = Inr READY
     \<and> guard_issues (gs_state ` set (sessions_t d)) = [] \<and> active_runs d = [] \<and> active_leases d = []
     \<and> (\<exists>issues. select_dispatch_candidate sv now (Some jid) d = Inr (Some c, issues))
     \<and> paid_credit_issues (sv_config sv) (latest_snapshot d) = []"
proof -
  have "rbind (select_dispatch_candidate sv now (Some jid) d) (\<lambda>(cand, issues).
        case cand of None \<Rightarrow> Inl (Sched (first_issue issues))
        | Some c \<Rightarrow> (case paid_credit_issues (sv_config sv) (latest_snapshot d) of
               [] \<Rightarrow> Inr c | i # _ \<Rightarrow> Inl (Sched i))) = Inr c
    \<longleftrightarrow> (\<exists>issues. select_dispatch_candidate sv now (Some jid) d = Inr (Some c, issues))
      \<and> paid_credit_issues (sv_config sv) (latest_snapshot d) = []"
    by (cases "select_dispatch_candidate sv now (Some jid) d") (auto split: option.splits list.splits)
  then show ?thesis
    by (simp add: claim_guards_def Let_def guard_issues_Nil holding_states)
qed

lemma preflight_agrees:
  assumes "undisturbed env now messages"
    and "dispatch_preflight env (Some jid) s = (Inr pf, s')"
  shows "safe_to_dispatch pf \<longleftrightarrow> cfg_dispatch_enabled (sv_config (we_svc env))
    \<and> (\<exists>c. pf_candidate pf = Some c
         \<and> claim_guards (we_svc env) (check_passed messages) now jid (w_db s) = Inr c)"
proof -
  from dispatch_preflight_reads [OF assms] obtain c sessions issues where
      c: "controller (w_db s) = Inr c" and ss: "list_quota_guard_sessions None None (w_db s) = Inr sessions"
    and sel: "select_dispatch_candidate (we_svc env) now (Some jid) (w_db s) = Inr (pf_candidate pf, issues)"
    and pf: "pf_issues pf = [] \<longleftrightarrow> cfg_dispatch_enabled (sv_config (we_svc env)) \<and> mode c = READY
        \<and> active_leases (w_db s) = [] \<and> \<not> list_ex run_in_flight (list_runs (w_db s))
        \<and> guard_issues (set (map gs_state sessions)) = []
        \<and> reconciliation_candidates now (w_db s) = [] \<and> run_reconciliation_candidates now (w_db s) = []
        \<and> check_passed messages \<and> valid (verify_audit (sv_host (we_svc env)) (w_db s))
        \<and> paid_credit_issues (sv_config (we_svc env)) (latest_snapshot (w_db s)) = [] \<and> issues = []"
    by blast
  have "current_mode (w_db s) = Inr READY \<longleftrightarrow> mode c = READY"
    using c by (auto simp: controller_def current_mode_def split: option.splits)
  with sel selection_issues [OF sel] show ?thesis
    unfolding safe_to_dispatch_def pf listed_sessions [OF ss] in_flight_active claim_guards_iff
    by (auto simp: stale_is_active)
qed

text \<open>
  C9. The preflight and the claim agree. In an undisturbed world the preflight of a job finds no issue
  exactly if dispatch is enabled and the checks that the claim repeats inside its transaction all pass, and
  then both settle on the same candidate.
\<close>

theorem dispatch_preflight_agrees_with_claim:
  assumes "undisturbed env now messages"
    and "dispatch_preflight env (Some jid) s = (Inr pf, s')"
  shows "safe_to_dispatch pf \<longleftrightarrow> cfg_dispatch_enabled (sv_config (we_svc env))
    \<and> (\<exists>c. pf_candidate pf = Some c
         \<and> claim_guards (we_svc env) (check_passed messages) now jid (w_db s) = Inr c)"
  using assms by (rule preflight_agrees)

section \<open>The best package\<close>

text \<open>The reference: the first in the queue's order among the jobs that have no issue.\<close>

definition clear_candidate :: "svc \<Rightarrow> policy \<Rightarrow> rat \<Rightarrow> db \<Rightarrow> job_row \<Rightarrow> candidate option" where
  "clear_candidate sv p now d row =
     (case examine_row sv (latest_snapshot d) p now d row of Inl _ \<Rightarrow> None | Inr (_, c) \<Rightarrow> c)"

definition best_candidate :: "svc \<Rightarrow> policy \<Rightarrow> rat \<Rightarrow> db \<Rightarrow> candidate option" where
  "best_candidate sv p now d =
     (let rows = filter (\<lambda>r. clear_candidate sv p now d r \<noteq> None) (jobs_t d)
      in if rows = [] then None else clear_candidate sv p now d (arg_min_list job_order rows))"

lemma hd_insort_key: "hd (insort_key f x ys) = (if ys = [] \<or> f x \<le> f (hd ys) then x else hd ys)"
  by (cases ys) auto

lemma hd_sort_key: "xs \<noteq> [] \<Longrightarrow> hd (sort_key f xs) = arg_min_list f xs"
proof (induction xs rule: list_nonempty_induct)
  case (cons x xs)
  have "sort_key f xs \<noteq> []"
    using cons.hyps by (metis set_empty set_sort)
  then have "hd (sort_key f (x # xs)) = (if f x \<le> f (arg_min_list f xs) then x else arg_min_list f xs)"
    using cons.IH by (simp add: hd_insort_key)
  moreover obtain y ys where "xs = y # ys"
    using cons.hyps by (cases xs) auto
  ultimately show ?case
    by (simp add: Let_def)
qed simp

lemma select_rows_first:
  "select_rows sv (latest_snapshot d) p now False d rows issues = Inr (c, found) \<Longrightarrow>
   c = (case filter (\<lambda>r. clear_candidate sv p now d r \<noteq> None) rows of
          [] \<Rightarrow> None | r # _ \<Rightarrow> clear_candidate sv p now d r)"
  by (induction rows arbitrary: issues) (auto simp: clear_candidate_def split: option.splits)


section \<open>A safe preflight is followed by a claim\<close>

lemma selected_is_claimable:
  assumes "select_dispatch_candidate sv now (Some jid) d = Inr (Some c, issues)"
  shows "\<exists>row \<in> set (jobs_t d). claimable jid row"
proof -
  have rows: "\<exists>row \<in> set rows. jr_state row \<in> set dispatchable_states"
    if "select_rows sv snap p now True d rows acc = Inr (Some c, found)" for snap p rows acc found
    using that
    by (cases rows) (auto simp: examine_row_def state_issues_def Let_def split: option.splits if_splits)
  from assms obtain p found where
      "select_rows sv (latest_snapshot d) p now True d (dispatch_rows (Some jid) d) [] = Inr (Some c, found)"
    by (auto simp: select_dispatch_candidate_def Let_def split: if_splits option.splits)
  from rows [OF this] show ?thesis
    by (auto simp: dispatch_rows_def claimable_def)
qed

lemma claimable_once:
  assumes "distinct (map jr_id rows)" and "\<exists>row \<in> set rows. claimable jid row"
  shows "row_count (claimable jid) rows = 1"
  using assms
proof (induction rows)
  case (Cons r rows)
  show ?case
  proof (cases "claimable jid r")
    case True
    with Cons.prems(1) have "\<forall>x \<in> set rows. \<not> claimable jid x"
      by (metis claimable_def distinct.simps(2) image_eqI list.set_map list.simps(9))
    then have "filter (claimable jid) rows = []"
      by (simp add: filter_empty_conv)
    with True show ?thesis by (simp add: row_count_def)
  next
    case False
    with Cons show ?thesis by (auto simp: row_count_def)
  qed
qed simp

text \<open>Appending to the audit chain does not collide with an event or a digest that is there.\<close>

definition audit_open :: "svc \<Rightarrow> rat \<Rightarrow> db \<Rightarrow> bool" where
  "audit_open sv now d \<longleftrightarrow> (\<forall>ev who det e. audit_t e = audit_t d \<longrightarrow> (\<exists>x. audit sv ev who det now e = Inr x))"

lemma claim_writes_succeed:
  assumes once: "row_count (claimable jid) (jobs_t d) = 1" and row: "\<exists>row \<in> set (jobs_t d). claimable jid row"
    and ids: "distinct (map jr_id (jobs_t d))" and rid: "rid \<notin> set (map rn_id (runs_t d))"
    and key: "valid_key (dc_key call)" "dc_key call \<notin> set (map idem_key (idem_t d))"
    and audit_free: "audit_open sv now d"
  shows "\<exists>cl d'. claim_writes sv call who now rid owner jid c d = Inr (cl, d') \<and> cl_selected cl = c
    \<and> job_state_of jid d' = Some running
    \<and> (\<exists>r \<in> set (runs_t d'). rn_id r = rid \<and> rn_job r = Some jid \<and> rn_state r = run_starting)"
proof -
  let ?jobs = "update_where (claimable jid) (\<lambda>r. r\<lparr>jr_state := running, jr_updated := now\<rparr>) (jobs_t d)"
  let ?run = "new_run rid jid owner now (now + heartbeat_seconds (sv_config sv))"
  let ?d1 = "d\<lparr>jobs_t := ?jobs, runs_t := runs_t d @ [?run]\<rparr>"
  let ?details = "JObj [(''approval_id'', JStr (cand_approval c)),
     (''credit_verification_mode'', JStr (cfg_credit_mode (sv_config sv))),
     (''job_id'', JStr jid), (''package_hash'', JStr (cand_hash c)), (''run_id'', JStr rid)]"
  obtain i d2 where a: "audit sv ''dispatch.claimed'' who ?details now ?d1 = Inr (i, d2)"
    using audit_free [unfolded audit_open_def, rule_format, of ?d1] by fastforce
  obtain ev where d2: "d2 = ?d1\<lparr>audit_t := audit_t ?d1 @ [ev]\<rparr>"
    using audit_frame [OF a] by blast
  have insert: "insert_run ?run (d\<lparr>jobs_t := ?jobs\<rparr>) = Inr ((), ?d1)"
    using rid by (simp add: insert_run_def new_run_def)
  obtain x where rec: "claim_writes sv call who now rid owner jid c d
      = Inr (\<lparr>cl_run = rid, cl_owner = owner, cl_actor = who, cl_selected = c, cl_snapshot = latest_snapshot d\<rparr>,
          d2\<lparr>idem_t := x\<rparr>)"
    using key unfolding claim_writes_def once insert
    by (simp add: a record_idempotent_def) (simp add: d2)
  from row obtain q where q: "q \<in> set (jobs_t d)" "claimable jid q" by blast
  have jobs: "jr_state r' = running" if "r' \<in> set ?jobs" "jr_id r' = jid" for r'
  proof -
    from that(1) obtain r where r: "r \<in> set (jobs_t d)"
        "r' = (if claimable jid r then r\<lparr>jr_state := running, jr_updated := now\<rparr> else r)"
      unfolding in_update_where by blast
    with that(2) have "jr_id r = jr_id q"
      using q(2) by (auto simp: claimable_def split: if_splits)
    then have "r = q"
      using ids q(1) r(1) by (simp add: distinct_map inj_on_def)
    with r(2) q(2) show ?thesis by simp
  qed
  have "map jr_id ?jobs = map jr_id (jobs_t d)"
    by (rule map_update_where) simp
  then have "jid \<in> jr_id ` set ?jobs"
    using q by (metis claimable_def image_eqI list.set_map)
  then have "fetchone (\<lambda>r. jr_id r = jid) ?jobs \<noteq> None"
    by (auto simp: fetchone_None)
  then obtain r' where r': "fetchone (\<lambda>r. jr_id r = jid) ?jobs = Some r'" by blast
  with fetchone_Some [OF r'] jobs have "job_state_of jid (d2\<lparr>idem_t := x\<rparr>) = Some running"
    by (simp add: job_state_of_def d2)
  with rec show ?thesis
    by (simp add: d2 new_run_def)
qed

text \<open>
  C10. A safe preflight is followed by a claim. In an undisturbed world, when the preflight of a job finds no
  issue, the claim that follows succeeds with the candidate it named: the job is then running and its run is
  registered. The hypotheses are about the identifiers only: job identifiers are unique, the run identifier
  and the idempotency key are fresh, and no digest collides.
\<close>

theorem safe_preflight_is_claimed:
  assumes "undisturbed env now messages"
    and "dispatch_preflight env (Some jid) s = (Inr pf, s')" and "safe_to_dispatch pf"
    and "distinct (map jr_id (jobs_t (w_db s)))"
    and "rid \<notin> set (map rn_id (runs_t (w_db s)))"
    and "valid_key (dc_key call)" and "dc_key call \<notin> set (map idem_key (idem_t (w_db s)))"
    and "audit_open (we_svc env) now (w_db s)"
  shows "\<exists>c cl d'. pf_candidate pf = Some c
    \<and> claim_transaction (we_svc env) call (check_passed messages) who now rid owner jid (w_db s') = Inr (cl, d')
    \<and> cl_selected cl = c \<and> job_state_of jid d' = Some running
    \<and> (\<exists>r \<in> set (runs_t d'). rn_id r = rid \<and> rn_job r = Some jid \<and> rn_state r = run_starting)"
proof -
  let ?d = "w_db s"
  obtain c where c: "pf_candidate pf = Some c" "claim_guards (we_svc env) (check_passed messages) now jid ?d = Inr c"
    using preflight_agrees [OF assms(1,2)] assms(3) by blast
  have s': "w_db s' = ?d"
    using dispatch_preflight_reads [OF assms(1,2)] by blast
  obtain issues where "select_dispatch_candidate (we_svc env) now (Some jid) ?d = Inr (Some c, issues)"
    using c(2) claim_guards_iff by blast
  note row = selected_is_claimable [OF this]
  have "\<exists>cl d'. claim_writes (we_svc env) call who now rid owner jid c ?d = Inr (cl, d') \<and> cl_selected cl = c
    \<and> job_state_of jid d' = Some running
    \<and> (\<exists>r \<in> set (runs_t d'). rn_id r = rid \<and> rn_job r = Some jid \<and> rn_state r = run_starting)"
    by (rule claim_writes_succeed [OF claimable_once [OF assms(4) row] row assms(4-8)])
  with c show ?thesis
    by (auto simp: s' claim_transaction_def)
qed

section \<open>A safe preflight is followed by a resumption\<close>

lemma preflight_reads:
  assumes q: "undisturbed env now messages" and run: "preflight env None None s = (Inr rd, s')"
  shows "w_db s' = w_db s \<and> (\<exists>c p. controller (w_db s) = Inr c \<and> rd_mode rd = mode c
    \<and> current_policy (w_db s) = Inr p
    \<and> evaluate_current_policy (sv_config (we_svc env)) (latest_snapshot (w_db s)) p now None (w_db s) = Inr (rd_decision rd)
    \<and> (rd_issues rd = [] \<longrightarrow> reasons (rd_decision rd) = [] \<and> reconciliation_candidates now (w_db s) = []
        \<and> active_leases (w_db s) = [] \<and> \<not> list_ex run_in_flight (list_runs (w_db s))))"
  using run unfolding preflight_def Let_def eff_Inr requirement_of_def
  by (auto dest!: undisturbed_steps [OF q] simp: eret_Inr split: if_splits)

lemma validate_approval_expired:
  "validate_approval v now False = Inr a \<Longrightarrow> validate_approval v now True = Inr a"
  by (auto simp: validate_approval_def)

lemma resume_operation_succeeds:
  assumes "active_leases d = []" "active_runs d = []" "current_policy d = Inr p"
    "evaluate_current_policy (sv_config sv) (latest_snapshot d) p now None d = Inr dec" "eligible dec"
    "approval_id a \<notin> set (map appr_id (approvals_t d))" "controller d = Inr c" "mode c \<noteq> READY" "audit_open sv now d"
  shows "\<exists>r e. resume_operation sv who now a d = Inr (r, e) \<and> ready e \<and> idem_t e = idem_t d"
proof -
  obtain d1 where d1: "insert_approval sv a d = Inr ((), d1)" "audit_t d1 = audit_t d" "controller_t d1 = controller_t d"
      "idem_t d1 = idem_t d"
    using assms(6) by (simp add: insert_approval_def)
  have m: "current_mode d1 = Inr (mode c)"
    using assms(7) by (simp add: current_mode_def d1(3) controller_def split: option.splits)
  let ?e = "set_controller READY None now d1"
  let ?details = "JObj [(''approval_id'', JStr (approval_id a)), (''from'', JStr (mode_name (mode c))), (''to'', JStr ''READY'')]"
  have "audit_t ?e = audit_t d"
    by (simp add: set_controller_def d1(2))
  then obtain i d2 where a: "audit sv ''controller.resumed'' who ?details now ?e = Inr (i, d2)"
    using assms(9) [unfolded audit_open_def, rule_format, of ?e] by fastforce
  obtain ev where "d2 = ?e\<lparr>audit_t := audit_t ?e @ [ev]\<rparr>"
    using audit_frame [OF a] by blast
  then have "ready d2 \<and> idem_t d2 = idem_t d"
    using assms(7) d1(3,4) by (auto simp: ready_def set_controller_def controller_def split: option.splits)
  with assms d1(1) m a show ?thesis
    by (simp add: resume_operation_def)
qed

text \<open>
  A safe preflight is followed by a resumption. In an undisturbed world, when the preflight finds no issue
  and the controller is not ready yet, a resume with a current, matching, unused approval succeeds and the
  controller is ready. The remaining hypotheses are about identifiers: a fresh key, no colliding digest.
\<close>

theorem safe_preflight_allows_resume:
  assumes "undisturbed env now messages"
    and "preflight env None None s = (Inr rd, s')" and "safe_to_resume rd" and "rd_mode rd \<noteq> READY"
    and "require_capability (we_svc env) ''control.local.write'' = Inr ()" and "valid_actor who = Inr who'"
    and "validate_approval av now False = Inr a"
    and "require_approval a ''resume'' (payload_hash (sv_host (we_svc env)) resume_scope) ''control.local.write'' = Inr ()"
    and "approval_id a \<notin> set (map appr_id (approvals_t (w_db s)))"
    and "valid_key key" and "key \<notin> set (map idem_key (idem_t (w_db s)))"
    and "audit_open (we_svc env) now (w_db s)"
  shows "\<exists>r d'. resume (we_svc env) av key who now (w_db s') = (Inr (r, False), d') \<and> ready d'"
proof -
  let ?sv = "we_svc env" and ?d = "w_db s"
  from preflight_reads [OF assms(1,2)] assms(3) obtain c p where d: "w_db s' = ?d" "controller ?d = Inr c"
      "rd_mode rd = mode c" "current_policy ?d = Inr p"
      "evaluate_current_policy (sv_config ?sv) (latest_snapshot ?d) p now None ?d = Inr (rd_decision rd)"
    and none: "reasons (rd_decision rd) = []" "active_leases ?d = []" "active_runs ?d = []"
    unfolding safe_to_resume_def in_flight_active by blast
  have "eligible (rd_decision rd)"
    using no_reasons_eligible [OF d(5) none(1)] .
  from resume_operation_succeeds [OF none(2,3) d(4,5) this assms(9) d(2) _ assms(12)] assms(4) d(3)
  obtain r e where e: "resume_operation ?sv who' now a ?d = Inr (r, e)" "ready e" "idem_t e = idem_t ?d"
    by fastforce
  have key: "fetchone (\<lambda>r. idem_key r = key) (idem_t ?d) = None"
    using assms(11) by (auto simp: fetchone_None)
  have "replay_idempotent h key command request ?d = Inr None" for h command request
    using assms(10) key by (simp add: replay_idempotent_def)
  moreover have "execute_idempotent h key command request now (resume_operation ?sv who' now a) ?d
      = Inr ((r, False), e\<lparr>idem_t := idem_t ?d @ [\<lparr>idem_key = key, idem_command = command,
          idem_request_hash = payload_hash h request, idem_result = r, idem_created = now\<rparr>]\<rparr>)" for h command request
    using assms(10,11) key e(1,3) by (simp add: execute_idempotent_def Let_def)
  ultimately have "\<exists>x. resume ?sv av key who now ?d = (Inr (r, False), e\<lparr>idem_t := x\<rparr>)"
    by (simp add: resume_def approved_command_def eff_defs assms(5-8) validate_approval_expired [OF assms(7)])
      (rule exI, rule refl)
  then show ?thesis
    using e(2) unfolding d(1) by (auto simp: ready_def)
qed

end
