(* ===== verification/Notifications.thy ===== *)
theory Notifications
  imports Peers Stdio
begin

text \<open>
  notifications.py and the notification table of store.py: structured events, redacted to a fixed set of
  keys and to scalar values, reserved under a de-duplication key and then handed to a local sink. The sink is
  a parameter: whether it accepts the event offered at the n-th step. The lemmas show what a stored event
  can contain, that a key is stored once, and that what was reported as delivered is not delivered again.
\<close>

section \<open>Redaction\<close>

definition EVENT_TYPES :: "string list" where
  "EVENT_TYPES = [''completion'', ''dispatch'', ''hold'', ''needs_review'', ''safety_stop'', ''signal_loss'']"

definition SUBJECT_KINDS :: "string list" where
  "SUBJECT_KINDS = [''controller'', ''job'', ''run'', ''service'']"

definition SAFE_DETAIL_KEYS :: "string list" where
  "SAFE_DETAIL_KEYS =
     [''controller_mode'', ''failure_count'', ''job_state'', ''lease_recovered'', ''next_delay_seconds'',
      ''package_hash'', ''run_id'', ''run_state'']"

definition safe_identifier :: "string \<Rightarrow> string res" where
  "safe_identifier s = (if ident_fullmatch s then Inr s else Inl (Sched ''NOTIFICATION_INVALID''))"

definition opt_identifier :: "string option \<Rightarrow> string option res" where
  "opt_identifier v = (case v of None \<Rightarrow> Inr None | Some s \<Rightarrow> rbind (safe_identifier s) (\<lambda>t. Inr (Some t)))"

fun redacted_value :: "json \<Rightarrow> json res" where
  "redacted_value (JBool b) = Inr (JBool b)"
| "redacted_value (JInt n) = Inr (JInt n)"
| "redacted_value (JFlt f) = Inr (JFlt f)"
| "redacted_value (JStr s) =
     (if ident_fullmatch s then Inr (JStr s) else Inl (Sched ''NOTIFICATION_REDACTION_REQUIRED''))"
| "redacted_value _ = Inl (Sched ''NOTIFICATION_REDACTION_REQUIRED'')"

definition redacted_entry :: "string \<times> json \<Rightarrow> (string \<times> json) res" where
  "redacted_entry kv = rbind (redacted_value (snd kv)) (\<lambda>v. Inr (fst kv, v))"

definition redacted_details :: "json \<Rightarrow> (string \<times> json) list res" where
  "redacted_details v =
     (case v of
        JNull \<Rightarrow> Inr []
      | JObj fs \<Rightarrow>
          rbind (guard (set (jkeys fs) \<subseteq> set SAFE_DETAIL_KEYS) ''NOTIFICATION_REDACTION_REQUIRED'') (\<lambda>_.
            rmap redacted_entry (sort_key fst fs))
      | _ \<Rightarrow> Inl (Sched ''NOTIFICATION_INVALID''))"

section \<open>The table\<close>

definition event_id_of :: "json \<Rightarrow> string" where
  "event_id_of event = (case jgetn (obj_fields event) ''event_id'' of JStr s \<Rightarrow> s | _ \<Rightarrow> [])"

text \<open>The result: whether to deliver, the stored event, whether the key was known.\<close>

definition reserve_notification :: "json \<Rightarrow> string \<Rightarrow> string \<Rightarrow> db \<Rightarrow> ((bool \<times> json \<times> bool) \<times> db) res" where
  "reserve_notification event key kind d =
     (case fetchone (\<lambda>r. nt_dedupe r = key) (notifications_t d) of
        Some r \<Rightarrow> Inr ((nt_delivered r = None, nt_event r, True), d)
      | None \<Rightarrow>
          if event_id_of event \<in> set (map nt_event_id (notifications_t d)) then Inl (PyExc ''IntegrityError'')
          else Inr ((True, event, False), d\<lparr>notifications_t := notifications_t d @
                 [\<lparr>nt_event_id = event_id_of event, nt_dedupe = key, nt_event = event, nt_sink = kind,
                   nt_delivered = None\<rparr>]\<rparr>))"

definition mark_notification_delivered :: "string \<Rightarrow> rat \<Rightarrow> db \<Rightarrow> (unit \<times> db) res" where
  "mark_notification_delivered event_id t d =
     Inr ((), d\<lparr>notifications_t := update_where (\<lambda>r. nt_event_id r = event_id \<and> nt_delivered r = None)
                 (\<lambda>r. r\<lparr>nt_delivered := Some t\<rparr>) (notifications_t d)\<rparr>)"

text \<open>Newest first; the sequence number is the position in the table.\<close>

definition listed_notification :: "nat \<times> notification_row \<Rightarrow> json" where
  "listed_notification nr =
     JObj (filter (\<lambda>kv. fst kv \<notin> {''delivered_at'', ''sequence'', ''sink_kind''}) (obj_fields (nt_event (snd nr)))
       @ [(''delivered_at'', case nt_delivered (snd nr) of None \<Rightarrow> JNull | Some t \<Rightarrow> JNum t),
          (''sequence'', JInt (int (Suc (fst nr)))), (''sink_kind'', JStr (nt_sink (snd nr)))])"

definition list_notifications :: "nat \<Rightarrow> db \<Rightarrow> json list" where
  "list_notifications limit d = map listed_notification (take limit (rev (enumerate 0 (notifications_t d))))"

section \<open>The bus\<close>

record notice =
  no_type :: string
  no_dedupe :: string
  no_kind :: string
  no_subject :: "string option"
  no_reason :: "string option"
  no_details :: json

definition note_event :: "notice \<Rightarrow> rat \<Rightarrow> string \<Rightarrow> (string \<times> json) list \<Rightarrow> json" where
  "note_event n t event_id details = JObj
     [(''schema_version'', JStr ''1''), (''event_id'', JStr event_id), (''event_type'', JStr (no_type n)),
      (''occurred_at'', JNum t), (''reason_code'', opt_str (no_reason n)),
      (''subject'', JObj [(''id'', opt_str (no_subject n)), (''kind'', JStr (no_kind n))]),
      (''details'', JObj details)]"

record bus =
  bus_kind :: string
  bus_accepts :: "nat \<Rightarrow> json \<Rightarrow> bool"

record emitted =
  em_delivered :: bool
  em_event :: json
  em_replayed :: bool

definition check_note :: "notice \<Rightarrow> unit res" where
  "check_note n =
     rbind (guard (no_type n \<in> set EVENT_TYPES) ''NOTIFICATION_INVALID'') (\<lambda>_.
     rbind (guard (no_kind n \<in> set SUBJECT_KINDS) ''NOTIFICATION_INVALID'') (\<lambda>_.
     rbind (safe_identifier (no_dedupe n)) (\<lambda>_.
     rbind (opt_identifier (no_subject n)) (\<lambda>_.
     rbind (opt_identifier (no_reason n)) (\<lambda>_. Inr ())))))"

definition hand_over :: "bus \<Rightarrow> json \<Rightarrow> (wst, unit) eff" where
  "hand_over b event = wobserve (\<lambda>k. guard (bus_accepts b k event) ''NOTIFICATION_DELIVERY_FAILED'')"

definition emit_note :: "wenv \<Rightarrow> bus \<Rightarrow> notice \<Rightarrow> (wst, emitted) eff" where
  "emit_note env b n =
     ethen (elift (check_note n))
    (ebind (wclock env) (\<lambda>t.
     ebind (wid env ''ntf'') (\<lambda>event_id.
     ebind (elift (redacted_details (no_details n))) (\<lambda>details.
     ebind (wtx env (reserve_notification (note_event n t event_id details) (no_dedupe n) (bus_kind b)))
       (\<lambda>(deliver, event, replayed).
     ethen (if deliver
            then ethen (hand_over b event)
                (ebind (wclock env) (\<lambda>done_at. wtx env (mark_notification_delivered (event_id_of event) done_at)))
            else eret ())
           (eret \<lparr>em_delivered = deliver, em_event = event, em_replayed = replayed\<rparr>))))))"

section \<open>What is stored\<close>

text \<open>An event as the contract allows it: fixed keys, identifiers, numbers and booleans only.\<close>

fun redacted_scalar :: "json \<Rightarrow> bool" where
  "redacted_scalar (JBool _) = True"
| "redacted_scalar (JInt _) = True"
| "redacted_scalar (JFlt _) = True"
| "redacted_scalar (JStr s) = ident_fullmatch s"
| "redacted_scalar _ = False"

definition opt_safe :: "json \<Rightarrow> bool" where
  "opt_safe v \<longleftrightarrow> v = JNull \<or> (\<exists>s. v = JStr s \<and> ident_fullmatch s)"

definition redacted_event :: "json \<Rightarrow> bool" where
  "redacted_event v \<longleftrightarrow>
     (\<exists>n t i details. v = note_event n t i details \<and> no_type n \<in> set EVENT_TYPES \<and> no_kind n \<in> set SUBJECT_KINDS
        \<and> opt_safe (opt_str (no_subject n)) \<and> opt_safe (opt_str (no_reason n))
        \<and> (\<forall>kv \<in> set details. fst kv \<in> set SAFE_DETAIL_KEYS \<and> redacted_scalar (snd kv)))"

lemma redacted_value_Inr: "redacted_value v = Inr w \<Longrightarrow> w = v \<and> redacted_scalar w"
  by (cases v) (auto split: if_splits)

lemma redacted_entry_Inr: "redacted_entry kv = Inr kw \<Longrightarrow> kw = kv \<and> redacted_scalar (snd kw)"
  by (cases kv) (auto simp: redacted_entry_def dest!: redacted_value_Inr)

lemma rmap_redacted:
  "rmap redacted_entry fs = Inr ds \<Longrightarrow> ds = fs \<and> (\<forall>kv \<in> set ds. redacted_scalar (snd kv))"
proof (induction fs arbitrary: ds)
  case (Cons f fs)
  then obtain e es where "redacted_entry f = Inr e" "rmap redacted_entry fs = Inr es" "ds = e # es"
    by auto
  with Cons.IH show ?case
    by (simp add: redacted_entry_Inr)
qed simp

lemma redacted_details_Inr:
  assumes "redacted_details v = Inr ds"
  shows "\<forall>kv \<in> set ds. fst kv \<in> set SAFE_DETAIL_KEYS \<and> redacted_scalar (snd kv)"
proof (cases v)
  case (JObj fs)
  with assms have "set (jkeys fs) \<subseteq> set SAFE_DETAIL_KEYS" "rmap redacted_entry (sort_key fst fs) = Inr ds"
    by (auto simp: redacted_details_def split: if_splits)
  moreover from rmap_redacted [OF this(2)] have "ds = sort_key fst fs" "\<forall>kv \<in> set ds. redacted_scalar (snd kv)"
    by simp_all
  ultimately show ?thesis
    by (auto simp: jkeys_def)
qed (use assms in \<open>simp_all add: redacted_details_def\<close>)

lemma opt_identifier_Inr: "opt_identifier v = Inr w \<Longrightarrow> opt_safe (opt_str v)"
  by (auto simp: opt_identifier_def safe_identifier_def opt_safe_def opt_str_def split: option.splits if_splits)

lemma note_event_redacted:
  "check_note n = Inr u \<Longrightarrow> redacted_details (no_details n) = Inr ds \<Longrightarrow> redacted_event (note_event n t i ds)"
  unfolding redacted_event_def check_note_def
  by (intro exI [of _ n] exI [of _ t] exI [of _ i] exI [of _ ds])
     (auto dest!: opt_identifier_Inr redacted_details_Inr)

section \<open>Keys are stored once\<close>

definition note_ok :: "notification_row \<Rightarrow> bool" where
  "note_ok r \<longleftrightarrow> redacted_event (nt_event r) \<and> event_id_of (nt_event r) = nt_event_id r"

definition notes_ok :: "db \<Rightarrow> bool" where
  "notes_ok d \<longleftrightarrow> distinct (map nt_dedupe (notifications_t d)) \<and> (\<forall>r \<in> set (notifications_t d). note_ok r)"

text \<open>A later version of a row: a delivery may have been recorded, nothing else.\<close>

definition same_note :: "notification_row \<Rightarrow> notification_row \<Rightarrow> bool" where
  "same_note r r' \<longleftrightarrow> nt_event_id r' = nt_event_id r \<and> nt_dedupe r' = nt_dedupe r \<and> nt_event r' = nt_event r
     \<and> (nt_delivered r \<noteq> None \<longrightarrow> nt_delivered r' = nt_delivered r)"

definition notes_kept :: "db \<Rightarrow> db \<Rightarrow> bool" where
  "notes_kept d d' \<longleftrightarrow> (notes_ok d \<longrightarrow> notes_ok d')
     \<and> (\<forall>r \<in> set (notifications_t d). \<exists>r' \<in> set (notifications_t d'). same_note r r')"

interpretation noting: step_rel notes_kept notes_ok
proof unfold_locales
  fix d e f assume "notes_kept d e" and "notes_kept e f"
  then show "notes_kept d f"
    unfolding notes_kept_def same_note_def by (metis (no_types, lifting))
qed (auto simp: notes_kept_def same_note_def)

definition others_keep_notes :: "wenv \<Rightarrow> bool" where
  "others_keep_notes env \<longleftrightarrow> (\<forall>n d. notes_ok d \<longrightarrow> notes_kept d (we_others env n d))"

lemma same_note_refl [simp]: "same_note r r"
  by (simp add: same_note_def)

lemma note_ok_delivered [simp]: "note_ok (r\<lparr>nt_delivered := x\<rparr>) = note_ok r"
  by (simp add: note_ok_def)

lemma reserve_known:
  assumes "fetchone (\<lambda>r. nt_dedupe r = key) (notifications_t d) = Some r"
    and "reserve_notification event key kind d = Inr ((deliver, stored_event, known), d')"
  shows "deliver = (nt_delivered r = None)" "stored_event = nt_event r" "d' = d"
    "r \<in> set (notifications_t d)" "nt_dedupe r = key"
  using assms fetchone_Some [OF assms(1)] unfolding reserve_notification_def by simp_all

lemma reserve_fresh:
  assumes "fetchone (\<lambda>r. nt_dedupe r = key) (notifications_t d) = None"
    and "reserve_notification event key kind d = Inr ((deliver, stored_event, known), d')"
  shows "deliver" "stored_event = event"
    "notifications_t d' = notifications_t d @ [\<lparr>nt_event_id = event_id_of event, nt_dedupe = key,
       nt_event = event, nt_sink = kind, nt_delivered = None\<rparr>]"
  using assms by (auto simp: reserve_notification_def split: if_splits)

lemma reserve_kept:
  assumes reserved: "reserve_notification event key kind d = Inr ((deliver, stored_event, known), d')"
    and "redacted_event event"
  shows "notes_kept d d'"
proof (cases "fetchone (\<lambda>r. nt_dedupe r = key) (notifications_t d)")
  case (Some r)
  show ?thesis
    unfolding reserve_known(3) [OF Some reserved] by (rule noting.refl)
next
  case None
  note d' = reserve_fresh [OF None reserved]
  have "notes_ok d \<Longrightarrow> notes_ok d'"
    using None assms(2) by (auto simp: d' notes_ok_def note_ok_def fetchone_None)
  moreover have "\<exists>r' \<in> set (notifications_t d'). same_note r r'" if "r \<in> set (notifications_t d)" for r
    using that unfolding d' by (intro bexI [of _ r]) simp_all
  ultimately show ?thesis
    by (simp add: notes_kept_def)
qed

text \<open>The row reserved or found; what was delivered is not offered again.\<close>

lemma reserve_row:
  assumes reserved: "reserve_notification event key kind d = Inr ((deliver, stored_event, known), d')"
  shows "\<exists>r \<in> set (notifications_t d'). nt_dedupe r = key \<and> nt_event r = stored_event
      \<and> (\<not> deliver \<longrightarrow> nt_delivered r \<noteq> None)"
proof (cases "fetchone (\<lambda>r. nt_dedupe r = key) (notifications_t d)")
  case (Some r)
  note d' = reserve_known [OF this reserved]
  show ?thesis
    unfolding d'(3) by (rule bexI [OF _ d'(4)]) (simp add: d'(1,2,5))
next
  case None
  note d' = reserve_fresh [OF None reserved]
  show ?thesis
    by (simp add: d')
qed

lemma reserve_repeat:
  assumes reserved: "reserve_notification event key kind d = Inr ((deliver, stored_event, known), d')"
    and "notes_ok d" "r \<in> set (notifications_t d)" "nt_dedupe r = key" "nt_delivered r \<noteq> None"
  shows "\<not> deliver \<and> stored_event = nt_event r"
proof (cases "fetchone (\<lambda>r. nt_dedupe r = key) (notifications_t d)")
  case (Some r')
  note d' = reserve_known [OF this reserved]
  have "inj_on nt_dedupe (set (notifications_t d))"
    using assms(2) by (simp add: notes_ok_def distinct_map)
  then have "r' = r"
    using assms(3,4) d'(4,5) by (simp add: inj_on_def)
  with assms(5) show ?thesis
    unfolding d'(1,2) by simp
next
  case None
  with assms(3,4) show ?thesis
    by (simp add: fetchone_None)
qed

lemma mark_same_note:
  "same_note r (if nt_event_id r = i \<and> nt_delivered r = None then r\<lparr>nt_delivered := Some t\<rparr> else r)"
  by (simp add: same_note_def)

lemma mark_kept:
  assumes "mark_notification_delivered i t d = Inr (u, d')"
  shows "notes_kept d d'"
    and "r \<in> set (notifications_t d) \<Longrightarrow> nt_event_id r = i \<Longrightarrow>
      \<exists>r' \<in> set (notifications_t d'). same_note r r' \<and> nt_delivered r' \<noteq> None"
proof -
  let ?f = "\<lambda>r. if nt_event_id r = i \<and> nt_delivered r = None then r\<lparr>nt_delivered := Some t\<rparr> else r"
  have d': "notifications_t d' = map ?f (notifications_t d)"
    using assms by (auto simp: mark_notification_delivered_def update_where_def)
  have keys: "map (nt_dedupe \<circ> ?f) rs = map nt_dedupe rs" for rs
    by simp
  have "note_ok (?f r) = note_ok r" for r
    by simp
  then have rows: "\<forall>r \<in> set rs. note_ok r \<Longrightarrow> \<forall>r \<in> set (map ?f rs). note_ok r" for rs
    by (metis (no_types, lifting) imageE list.set_map)
  have "notes_ok d \<Longrightarrow> notes_ok d'"
    unfolding notes_ok_def d' map_map keys using rows by blast
  then show "notes_kept d d'"
    unfolding notes_kept_def d' using mark_same_note by (metis (no_types, lifting) image_eqI list.set_map)
  assume "r \<in> set (notifications_t d)" "nt_event_id r = i"
  moreover from this(2) have "nt_delivered (?f r) \<noteq> None"
    by simp
  ultimately show "\<exists>r' \<in> set (notifications_t d'). same_note r r' \<and> nt_delivered r' \<noteq> None"
    unfolding d' using mark_same_note by (metis (no_types, lifting) image_eqI list.set_map)
qed

section \<open>Emitting\<close>

text \<open>The interface of the other processes: they store no unredacted event and withdraw none.\<close>

locale honest_notes = others: db_rel notes_kept notes_ok env for env
begin

lemma emit_note_kept: "others.lifted.keeps (emit_note env b n)"
proof -
  have sink: "others.lifted.keeps (hand_over b event)" for event
    unfolding hand_over_def by (rule others.lifted_wobserve)
  have mark: "others.lifted.keeps (wtx env (mark_notification_delivered i t))" for i t
    by (rule others.lifted_wtx) (rule mark_kept(1))
  show ?thesis
  proof (rule others.lifted.keepsI)
    fix s :: wst assume K: "notes_ok (w_db s)"
    show "notes_kept (w_db s) (w_db (snd (emit_note env b n s)))"
    proof (cases "\<exists>details. check_note n = Inr () \<and> redacted_details (no_details n) = Inr details")
      case False
      then show ?thesis
        by (auto simp: emit_note_def wstep_defs eff_defs noting.refl split: sum.splits)
    next
      case True
      then obtain details where c: "check_note n = Inr ()" "redacted_details (no_details n) = Inr details"
        by blast
      have reserve: "others.lifted.keeps (wtx env (reserve_notification (note_event n t i details) key kind))" for t i key kind
        by (rule others.lifted_wtx) (use reserve_kept note_event_redacted [OF c] in \<open>auto\<close>)
      have "others.lifted.keeps (emit_note env b n)"
        unfolding emit_note_def c ebind_elift by (intro keeps_intros reserve mark sink)
      then show ?thesis
        using K by (rule others.lifted.keepsD)
    qed
  qed
qed

lemma emit_note_notes: "notes_ok (w_db s) \<Longrightarrow> notes_kept (w_db s) (w_db (snd (emit_note env b n s)))"
  by (rule others.lifted.keepsD [OF emit_note_kept])

end

lemma honest_notesI: "(\<And>n d. notes_ok d \<Longrightarrow> notes_kept d (we_others env n d)) \<Longrightarrow> honest_notes env"
  by unfold_locales auto

text \<open>The controller's own commands leave the notifications alone.\<close>

interpretation peer_notes: honest_notes "with_peers env sched" for env sched
proof (rule honest_notesI)
  fix n d
  have "notifications_t (we_others (with_peers env sched) n d) = notifications_t d"
    using framed_peer_step by (simp add: with_peers_def command_frame_def)
  then show "notes_kept d (we_others (with_peers env sched) n d)"
    unfolding notes_kept_def notes_ok_def by (metis same_note_refl)
qed

lemma emit_note_Inr:
  assumes "emit_note env b n s = (Inr em, s')"
  shows "\<exists>k t i details known d1 m u. check_note n = Inr () \<and> redacted_details (no_details n) = Inr details
    \<and> reserve_notification (note_event n t i details) (no_dedupe n) (bus_kind b) (we_others env k (w_db s))
       = Inr ((em_delivered em, em_event em, known), d1)
    \<and> (if em_delivered em
       then mark_notification_delivered (event_id_of (em_event em)) u (we_others env m d1) = Inr ((), w_db s')
       else w_db s' = d1)"
  using assms
  by (auto simp: emit_note_def hand_over_def wstep_defs eff_defs split: sum.splits prod.splits if_splits)
    (metis, metis)

lemma emitted_row:
  assumes others: "\<And>n d. notes_ok d \<Longrightarrow> notes_kept d (we_others env n d)"
    and ok: "notes_ok (w_db s)" and "emit_note env b n s = (Inr em, s')"
  shows "\<exists>r \<in> set (notifications_t (w_db s')). nt_dedupe r = no_dedupe n \<and> nt_event r = em_event em
      \<and> nt_delivered r \<noteq> None \<and> redacted_event (em_event em)"
proof -
  from emit_note_Inr [OF assms(3)] obtain k t i details known d1 m u where
      c: "check_note n = Inr ()" "redacted_details (no_details n) = Inr details"
    and r: "reserve_notification (note_event n t i details) (no_dedupe n) (bus_kind b) (we_others env k (w_db s))
       = Inr ((em_delivered em, em_event em, known), d1)"
    and last: "if em_delivered em
       then mark_notification_delivered (event_id_of (em_event em)) u (we_others env m d1) = Inr ((), w_db s')
       else w_db s' = d1" by blast
  let ?d = "we_others env k (w_db s)"
  have "notes_ok d1"
    using others [OF ok] reserve_kept [OF r note_event_redacted [OF c]] ok by (simp add: notes_kept_def)
  obtain q where q: "q \<in> set (notifications_t d1)" "nt_dedupe q = no_dedupe n" "nt_event q = em_event em"
    "\<not> em_delivered em \<longrightarrow> nt_delivered q \<noteq> None"
    using reserve_row [OF r] by blast
  have ev: "redacted_event (em_event em)" "event_id_of (em_event em) = nt_event_id q"
    using \<open>notes_ok d1\<close> q(1,3) by (auto simp: notes_ok_def note_ok_def)
  show ?thesis
  proof (cases "em_delivered em")
    case False
    with last q ev show ?thesis by auto
  next
    case True
    then have mark: "mark_notification_delivered (event_id_of (em_event em)) u (we_others env m d1) = Inr ((), w_db s')"
      using last by simp
    obtain q' where q': "q' \<in> set (notifications_t (we_others env m d1))" "same_note q q'"
      using others [OF \<open>notes_ok d1\<close>] q(1) unfolding notes_kept_def by blast
    then have "nt_event_id q' = event_id_of (em_event em)"
      by (simp add: same_note_def ev(2))
    from mark_kept(2) [OF mark q'(1) this] obtain z where
      "z \<in> set (notifications_t (w_db s'))" "same_note q' z" "nt_delivered z \<noteq> None" by blast
    with q(2,3) q'(2) ev(1) show ?thesis
      by (intro bexI [of _ z]) (simp_all add: same_note_def)
  qed
qed

lemma emitted_repeat:
  assumes others: "\<And>n d. notes_ok d \<Longrightarrow> notes_kept d (we_others env n d)"
    and ok: "notes_ok (w_db s)" and "emit_note env b n s = (Inr em, s')"
    and r: "r \<in> set (notifications_t (w_db s))" "nt_dedupe r = no_dedupe n" "nt_delivered r \<noteq> None"
  shows "\<not> em_delivered em \<and> em_event em = nt_event r"
proof -
  from emit_note_Inr [OF assms(3)] obtain k t i details known d1 where
    e: "reserve_notification (note_event n t i details) (no_dedupe n) (bus_kind b) (we_others env k (w_db s))
       = Inr ((em_delivered em, em_event em, known), d1)" by blast
  have kept: "notes_kept (w_db s) (we_others env k (w_db s))"
    by (rule others [OF ok])
  with r(1) obtain r' where r': "r' \<in> set (notifications_t (we_others env k (w_db s)))" "same_note r r'"
    unfolding notes_kept_def by blast
  have k: "notes_ok (we_others env k (w_db s))"
    using kept ok by (simp add: notes_kept_def)
  have "\<not> em_delivered em \<and> em_event em = nt_event r'"
    by (rule reserve_repeat [OF e k r'(1)]) (use r r'(2) in \<open>simp_all add: same_note_def\<close>)
  with r'(2) show ?thesis
    by (simp add: same_note_def)
qed

text \<open>
  C33. Notifications are redacted and delivered once per key. Whatever is emitted and however it fails
  (an invalid notice, a detail outside the allowed keys, a sink that refuses), every stored event has the
  contract's shape, with identifiers, numbers and booleans only, and keys stay unique. A notice that is
  emitted has a row under its key whose delivery is recorded; a key already delivered before is not
  handed over again, and the caller gets the event stored then.
\<close>

theorem emitted_notes_are_redacted_and_delivered_once:
  assumes "\<And>n d. notes_ok d \<Longrightarrow> notes_kept d (we_others env n d)"
    and "notes_ok (w_db s)"
    and "emit_note env b n s = (res, s')"
  shows "notes_ok (w_db s')
    \<and> (\<forall>em. res = Inr em \<longrightarrow>
        (\<exists>r \<in> set (notifications_t (w_db s')). nt_dedupe r = no_dedupe n \<and> nt_event r = em_event em
           \<and> nt_delivered r \<noteq> None \<and> redacted_event (em_event em))
        \<and> (\<forall>r \<in> set (notifications_t (w_db s)). nt_dedupe r = no_dedupe n \<longrightarrow> nt_delivered r \<noteq> None \<longrightarrow>
             \<not> em_delivered em \<and> em_event em = nt_event r))"
proof (intro conjI allI impI ballI)
  have "notes_kept (w_db s) (w_db s')"
    using honest_notes.emit_note_notes [OF honest_notesI [OF assms(1)] assms(2), of b n] assms(3) by simp
  then show "notes_ok (w_db s')"
    using assms(2) by (simp add: notes_kept_def)
next
  fix em assume "res = Inr em"
  with assms show "\<exists>r \<in> set (notifications_t (w_db s')). nt_dedupe r = no_dedupe n \<and> nt_event r = em_event em
      \<and> nt_delivered r \<noteq> None \<and> redacted_event (em_event em)"
    using emitted_row by blast
next
  fix em r assume "res = Inr em" and r: "r \<in> set (notifications_t (w_db s))" "nt_dedupe r = no_dedupe n"
    "nt_delivered r \<noteq> None"
  with assms show "\<not> em_delivered em" "em_event em = nt_event r"
    using emitted_repeat [OF assms(1,2) _ r] by blast+
qed

end
