(* ===== verification/Background.thy ===== *)
theory Background
  imports Progress Notifications GuardStability RunnerSafety
begin

text \<open>
  background.py: the supervisor of the foreground service. It holds the service lease, and each round renews
  it, checks the database and the audit chain, recovers expired work, probes the quota, runs the guard cycle,
  asks the preflight and dispatches one package. Whatever looks unsafe ends in a safety stop. Signals, the
  jitter and the wait between rounds are observations of the environment; the rounds are bounded by fuel,
  and with a limit on the cycles the fuel is enough.
\<close>

section \<open>The supervisor and its environment\<close>

definition HOLD_ISSUES :: "string list" where
  "HOLD_ISSUES =
     [''CONTROLLER_NOT_READY'', ''DEPENDENCY_PENDING'', ''DISPATCH_DISABLED'', ''JOB_NOT_DISPATCHABLE'',
      ''LEASE_ACTIVE'', ''NO_ELIGIBLE_JOB'', ''NOT_BEFORE_PENDING'', ''QUOTA_GUARD_HELD'', ''RECONCILE_REQUIRED'',
      ''RUN_ACTIVE'', ''WORK_AUTHORIZATION_MISSING'']"

definition SIGNAL_ISSUES :: "string list" where
  "SIGNAL_ISSUES =
     [''ACCOUNT_IDENTITY_UNAVAILABLE'', ''PROBE_PROTOCOL_ERROR'', ''PROBE_REJECTED'', ''PROBE_TIMEOUT'',
      ''PROBE_UNAVAILABLE'', ''PROFILE_MISMATCH'', ''SIGNAL_AMBIGUOUS'', ''SIGNAL_INVALID'', ''SIGNAL_MISSING'',
      ''SIGNAL_STALE'']"

record benv =
  be_world :: wenv
  be_bus :: bus
  be_guard :: "nat \<Rightarrow> genv"
  be_runner :: "wst runner"
  be_random :: "nat \<Rightarrow> rat"
  be_wait :: "nat \<Rightarrow> rat \<Rightarrow> bool"
  be_owner :: string

text \<open>The fields of \<open>BackgroundSupervisor\<close> that change, beside the world.\<close>

record bst =
  b_world :: wst
  b_lease :: "string option"
  b_failures :: nat
  b_incident :: "string option"
  b_token :: "string option"

definition on_world :: "(wst, 'a) eff \<Rightarrow> (bst, 'a) eff" where
  "on_world m s = (case m (b_world s) of (r, w) \<Rightarrow> (r, s\<lparr>b_world := w\<rparr>))"

definition bget :: "(bst \<Rightarrow> 'a) \<Rightarrow> (bst, 'a) eff" where
  "bget f s = (Inr (f s), s)"

text \<open>Assignments to the supervisor's own fields.\<close>

definition set_lease :: "string option \<Rightarrow> (bst, unit) eff" where
  "set_lease l s = (Inr (), s\<lparr>b_lease := l\<rparr>)"

definition set_failures :: "nat \<Rightarrow> (bst, unit) eff" where
  "set_failures n s = (Inr (), s\<lparr>b_failures := n\<rparr>)"

definition set_incident :: "string option \<Rightarrow> string option \<Rightarrow> (bst, unit) eff" where
  "set_incident reason token s = (Inr (), s\<lparr>b_incident := reason, b_token := token\<rparr>)"

text \<open>\<open>try ... except Exception\<close>, and whether a SchedulerError was raised (others go on).\<close>

definition etry :: "('s, 'a) eff \<Rightarrow> ('s, 'a res) eff" where
  "etry m = ecatch (ebind m (\<lambda>x. eret (Inr x))) (\<lambda>e. eret (Inl e))"

definition sched_failed :: "('s, 'a) eff \<Rightarrow> ('s, bool) eff" where
  "sched_failed m = ecatch (ebind m (\<lambda>_. eret False)) (\<lambda>e. case e of Sched _ \<Rightarrow> eret True | PyExc _ \<Rightarrow> eraise e)"

definition stop_asked :: "wenv \<Rightarrow> (wst, bool) eff" where
  "stop_asked env = wobserve (\<lambda>n. Inr (we_shutdown env n))"

abbreviation supervisor_name :: string where
  "supervisor_name \<equiv> ''background-supervisor''"

section \<open>Delays\<close>

text \<open>\<open>round(x, 3)\<close>: half to even, on the exact value.\<close>

definition round_even :: "rat \<Rightarrow> int" where
  "round_even q =
     (let f = \<lfloor>q\<rfloor>; r = q - of_int f
      in if r < 1 / 2 \<or> r = 1 / 2 \<and> even f then f else f + 1)"

definition round3 :: "rat \<Rightarrow> rat" where
  "round3 q = of_int (round_even (q * 1000)) / 1000"

definition delay_of :: "config \<Rightarrow> nat \<Rightarrow> rat \<Rightarrow> rat" where
  "delay_of cfg failure_count random =
     (let base = of_int (cfg_poll_interval cfg) * (if failure_count = 0 then 1 else 2 ^ min (failure_count - 1) 16);
          top = of_int (cfg_max_backoff cfg);
          bounded = min base top;
          ratio = cfg_jitter cfg;
          chance = min 1 (max 0 random);
          jittered = bounded * (1 - ratio + 2 * ratio * chance)
      in round3 (min jittered top))"

definition supervisor_delay :: "benv \<Rightarrow> nat \<Rightarrow> (bst, rat) eff" where
  "supervisor_delay be failure_count =
     on_world (wobserve (\<lambda>n. Inr (delay_of (sv_config (we_svc (be_world be))) failure_count (be_random be n))))"

section \<open>The lease\<close>

definition lease_seconds :: "benv \<Rightarrow> int" where
  "lease_seconds be = cfg_service_lease (sv_config (we_svc (be_world be)))"

definition supervisor_audit :: "benv \<Rightarrow> string \<Rightarrow> json \<Rightarrow> (wst, string option) eff" where
  "supervisor_audit be event_type details =
     (let env = be_world be in
      ebind (wclock env) (\<lambda>now. wtx env (audit_if_valid (we_svc env) event_type supervisor_name details now)))"

definition heartbeat_with :: "benv \<Rightarrow> string option \<Rightarrow> (wst, unit) eff" where
  "heartbeat_with be lease =
     (case lease of
        None \<Rightarrow> eraise (Sched ''SERVICE_LEASE_MISSING'')
      | Some lid \<Rightarrow>
          ebind (wclock (be_world be)) (\<lambda>now.
          ebind (wtx (be_world be) (renew_service_lease lid (be_owner be) now (lease_seconds be))) (\<lambda>_. eret ())))"

definition heartbeat :: "benv \<Rightarrow> (bst, unit) eff" where
  "heartbeat be = ebind (bget b_lease) (\<lambda>lease. on_world (heartbeat_with be lease))"

definition release_world :: "benv \<Rightarrow> string \<Rightarrow> (wst, bool) eff" where
  "release_world be lid =
     ebind (wclock (be_world be)) (\<lambda>now. wtx (be_world be) (release_service_lease lid (be_owner be) now))"

definition acquire :: "benv \<Rightarrow> (bst, string) eff" where
  "acquire be =
     (let env = be_world be; sv = we_svc env in
      ethen (eguard (cfg_background_enabled (sv_config sv)) ''BACKGROUND_DISABLED'')
     (ethen (elift (require_capability sv ''background.run''))
     (ethen (elift (require_capability sv ''notification.local.write''))
     (ebind (on_world (wclock env)) (\<lambda>now.
      ebind (on_world (wid env ''svc'')) (\<lambda>fresh_id.
      ebind (on_world (wtx env (acquire_service_lease fresh_id (be_owner be) now (lease_seconds be)))) (\<lambda>(row, recovered).
      ethen (set_lease (Some (sl_id row)))
     (ethen (ecatch (ebind (on_world (supervisor_audit be ''background.started''
                              (JObj [(''lease_id'', JStr (sl_id row)), (''recovered'', JBool recovered)]))) (\<lambda>_. eret ()))
               (\<lambda>e. ethen (ebind (on_world (release_world be (sl_id row))) (\<lambda>_. set_lease None)) (eraise e)))
            (eret (sl_id row))))))))))"

definition release :: "benv \<Rightarrow> string \<Rightarrow> (bst, unit) eff" where
  "release be reason =
     ebind (bget b_lease) (\<lambda>lease.
       case lease of
         None \<Rightarrow> eret ()
       | Some lid \<Rightarrow>
           ebind (on_world (release_world be lid)) (\<lambda>released.
           ebind (etry (on_world (supervisor_audit be ''background.stopped''
                    (JObj [(''lease_id'', JStr lid), (''reason_code'', JStr reason), (''released'', JBool released)])))) (\<lambda>_.
           set_lease None)))"

text \<open>\<open>BackgroundSupervisor.status\<close>.\<close>

definition supervisor_status :: "benv \<Rightarrow> (wst, json) eff" where
  "supervisor_status be =
     (let env = be_world be; cfg = sv_config (we_svc env) in
      ethen (elift (require_capability (we_svc env) ''background.read''))
     (ebind (wclock env) (\<lambda>now.
      ebind (wread env (\<lambda>d. Inr (service_lease_status now d))) (\<lambda>lease.
        eret (JObj
          [(''configured'', JObj
             [(''enabled'', JBool (cfg_background_enabled cfg)), (''jitter_ratio'', JNum (cfg_jitter cfg)),
              (''max_backoff_seconds'', JInt (cfg_max_backoff cfg)),
              (''poll_interval_seconds'', JInt (cfg_poll_interval cfg)),
              (''service_lease_seconds'', JInt (cfg_service_lease cfg))]),
           (''lease'', lease)])))))"

section \<open>Safety stops\<close>

text \<open>What a round returns: the dictionary of \<open>run_once\<close>, entry by entry.\<close>

record bg_round =
  ro_outcome :: string
  ro_delay :: rat
  ro_reason :: "string option"
  ro_failures :: "nat option"
  ro_recovered :: "(string list \<times> string list) option"
  ro_issues :: "string list"
  ro_guard :: "guard_cycle option"
  ro_review :: "(bool \<times> job_state) option"
  ro_dispatch :: "command_result option"

definition plain_round :: "string \<Rightarrow> rat \<Rightarrow> bg_round" where
  "plain_round verdict delay =
     \<lparr>ro_outcome = verdict, ro_delay = delay, ro_reason = None, ro_failures = None, ro_recovered = None,
      ro_issues = [], ro_guard = None, ro_review = None, ro_dispatch = None\<rparr>"

definition note_incident :: "benv \<Rightarrow> string \<Rightarrow> (bst, unit) eff" where
  "note_incident be reason =
     ebind (bget b_incident) (\<lambda>known.
       if known = Some reason then eret ()
       else ebind (on_world (wid (be_world be) ''incident'')) (\<lambda>token. set_incident (Some reason) (Some token)))"

definition dedupe_key :: "benv \<Rightarrow> string \<Rightarrow> json \<Rightarrow> string" where
  "dedupe_key be event_type v = step_key (we_svc (be_world be)) (event_type @ ''-'') v 48"

definition notify :: "benv \<Rightarrow> notice \<Rightarrow> (bst, emitted) eff" where
  "notify be n = on_world (emit_note (be_world be) (be_bus be) n)"

definition controller_notice :: "string \<Rightarrow> string \<Rightarrow> string \<Rightarrow> (string \<times> json) list \<Rightarrow> notice" where
  "controller_notice event_type key reason details =
     \<lparr>no_type = event_type, no_dedupe = key, no_kind = ''controller'', no_subject = None,
      no_reason = Some reason, no_details = JObj details\<rparr>"

definition stop_event :: "string \<Rightarrow> string" where
  "stop_event reason = (if reason \<in> set SIGNAL_ISSUES then ''signal_loss'' else ''safety_stop'')"

text \<open>\<open>_safety_stop\<close> without its last resort; the result says whether the notification failed.\<close>

definition safety_attempt :: "benv \<Rightarrow> string \<Rightarrow> nat \<Rightarrow> (bst, bool \<times> bg_round) eff" where
  "safety_attempt be reason failure_count =
     (let env = be_world be in
      ethen (note_incident be reason)
     (ebind (on_world (wclock env)) (\<lambda>now.
      ebind (on_world (wdb env (background_safety_stop (we_svc env) reason supervisor_name now))) (\<lambda>_.
      ebind (supervisor_delay be failure_count) (\<lambda>delay.
      ebind (bget b_token) (\<lambda>token.
      ebind (sched_failed (notify be (controller_notice (stop_event reason)
               (dedupe_key be (stop_event reason) (JObj [(''incident'', opt_str token), (''reason_code'', JStr reason)]))
               reason
               [(''controller_mode'', JStr ''BLOCKED''), (''failure_count'', JInt (int failure_count)),
                (''next_delay_seconds'', JNum delay)]))) (\<lambda>refused.
        eret (refused, (plain_round (stop_event reason) delay)
                \<lparr>ro_reason := Some reason, ro_failures := Some failure_count\<rparr>))))))))"

text \<open>A failed notification stops once more, for that reason; that it fails again is ignored.\<close>

definition safety_stop :: "benv \<Rightarrow> string \<Rightarrow> nat \<Rightarrow> (bst, bg_round) eff" where
  "safety_stop be reason failure_count =
     ebind (safety_attempt be reason failure_count) (\<lambda>(refused, r).
       if refused \<and> reason \<noteq> ''NOTIFICATION_DELIVERY_FAILED''
       then ebind (safety_attempt be ''NOTIFICATION_DELIVERY_FAILED'' failure_count) (\<lambda>(_, r'). eret r')
       else eret r)"

text \<open>\<open>try: notify except SchedulerError: return _safety_stop(...)\<close>, then the rest.\<close>

definition notified :: "benv \<Rightarrow> (bst, emitted) eff \<Rightarrow> (bst, bg_round) eff \<Rightarrow> (bst, bg_round) eff" where
  "notified be send rest =
     ebind (sched_failed send) (\<lambda>refused.
       if refused then safety_stop be ''NOTIFICATION_DELIVERY_FAILED'' 1 else rest)"

text \<open>\<open>self._failure_count += 1\<close> and the stop with the new count.\<close>

definition fail_round :: "benv \<Rightarrow> string \<Rightarrow> (bst, bg_round) eff" where
  "fail_round be reason =
     ebind (bget b_failures) (\<lambda>n. ethen (set_failures (Suc n)) (safety_stop be reason (Suc n)))"

definition contain_guards_without_signal :: "benv \<Rightarrow> (bst, unit) eff" where
  "contain_guards_without_signal be =
     (if \<not> cfg_guard_enabled (sv_config (we_svc (be_world be))) then eret ()
      else ebind (etry (on_world (quota_guard_cycle (be_world be) (be_guard be) False (Some False)))) (\<lambda>_. eret ()))"

definition signal_lost :: "benv \<Rightarrow> string \<Rightarrow> (bst, bg_round) eff" where
  "signal_lost be reason =
     ebind (bget b_failures) (\<lambda>n.
     ethen (set_failures (Suc n))
    (ethen (contain_guards_without_signal be) (safety_stop be reason (Suc n))))"

section \<open>One round\<close>

definition job_notice :: "string \<Rightarrow> string \<Rightarrow> string \<Rightarrow> string \<Rightarrow> string \<Rightarrow> (string \<times> json) list \<Rightarrow> notice" where
  "job_notice event_type key kind subject reason details =
     \<lparr>no_type = event_type, no_dedupe = key, no_kind = kind, no_subject = Some subject,
      no_reason = Some reason, no_details = JObj details\<rparr>"

text \<open>After the run: the result's entries decide what is announced.\<close>

definition text_entry :: "json \<Rightarrow> string \<Rightarrow> string res" where
  "text_entry v k = rbind (subscript v k) (\<lambda>x. case x of JStr s \<Rightarrow> Inr s | _ \<Rightarrow> Inl (PyExc ''TypeError''))"

definition stop_reason_entry :: "json \<Rightarrow> string res" where
  "stop_reason_entry v =
     rbind (subscript v ''stop_reason'') (\<lambda>x.
       case x of
         JStr s \<Rightarrow> Inr (if s = [] then ''WORK_COMPLETED'' else s)
       | JNull \<Rightarrow> Inr ''WORK_COMPLETED''
       | _ \<Rightarrow> Inl (PyExc ''TypeError''))"

definition finished_round :: "benv \<Rightarrow> guard_cycle \<Rightarrow> command_result \<Rightarrow> (bst, bg_round) eff" where
  "finished_round be g result =
     ebind (elift (text_entry (fst result) ''state'')) (\<lambda>state.
     ebind (elift (stop_reason_entry (fst result))) (\<lambda>reason.
     ebind (elift (text_entry (fst result) ''run_id'')) (\<lambda>rid.
       (let event_type = (if state = ''succeeded'' then ''completion'' else ''needs_review'');
            verdict = (if state = ''succeeded'' then ''succeeded'' else ''needs_review'')
        in notified be
             (notify be (job_notice event_type
                (dedupe_key be event_type (JObj [(''run_id'', JStr rid), (''state'', JStr state)])) ''run'' rid reason
                [(''job_state'', JStr verdict), (''run_id'', JStr rid), (''run_state'', JStr state)]))
             (ebind (supervisor_delay be 0) (\<lambda>delay.
                eret ((plain_round event_type delay)\<lparr>ro_guard := Some g, ro_dispatch := Some result\<rparr>)))))))"

text \<open>A dispatch that raised a SchedulerError: the job is marked, the operator told.\<close>

definition failed_round :: "benv \<Rightarrow> string \<Rightarrow> string \<Rightarrow> (bst, bg_round) eff" where
  "failed_round be jid code =
     (let env = be_world be in
      ebind (on_world (wclock env)) (\<lambda>now.
      ebind (on_world (wdb env (background_dispatch_failed (we_svc env) jid code supervisor_name now))) (\<lambda>review.
      notified be
        (notify be (job_notice ''needs_review''
           (dedupe_key be ''needs-review'' (JObj [(''job_id'', JStr jid), (''reason_code'', JStr code)])) ''job'' jid code
           [(''controller_mode'', JStr ''PAUSED''), (''job_state'', JStr ''needs_review'')]))
        (ebind (supervisor_delay be 1) (\<lambda>delay.
           eret ((plain_round ''needs_review'' delay)\<lparr>ro_review := Some review\<rparr>))))))"

definition package_key :: "candidate \<Rightarrow> json" where
  "package_key c = JObj [(''job_id'', JStr (cand_job c)), (''package_hash'', JStr (cand_hash c))]"

definition supervisor_call :: "benv \<Rightarrow> string option \<Rightarrow> candidate \<Rightarrow> dispatch_call" where
  "supervisor_call be lease c =
     \<lparr>dc_job = Some (cand_job c), dc_key = step_key (we_svc (be_world be)) ''background-dispatch-'' (package_key c) 48,
      dc_actor = supervisor_name, dc_owner = Some (be_owner be),
      dc_heartbeat = Some (heartbeat_with be lease), dc_shutdown = Some (stop_asked (be_world be))\<rparr>"

definition dispatch_round :: "benv \<Rightarrow> guard_cycle \<Rightarrow> candidate \<Rightarrow> (bst, bg_round) eff" where
  "dispatch_round be g c =
     (let env = be_world be; jid = cand_job c in
      ebind (sched_failed (notify be (job_notice ''dispatch'' (dedupe_key be ''dispatch'' (package_key c)) ''job'' jid
               ''APPROVED_WORK_SELECTED'' [(''job_state'', JStr ''approved''), (''package_hash'', JStr (cand_hash c))])))
        (\<lambda>refused.
        if refused
        then
          ebind (on_world (wclock env)) (\<lambda>now.
          ebind (on_world (wdb env (background_dispatch_failed (we_svc env) jid ''NOTIFICATION_DELIVERY_FAILED'' supervisor_name now)))
            (\<lambda>_. safety_stop be ''NOTIFICATION_DELIVERY_FAILED'' 1))
        else
          ebind (bget b_lease) (\<lambda>lease.
          ebind (etry (on_world (dispatch_run env (be_runner be) (supervisor_call be lease c)))) (\<lambda>r.
            case r of
              Inr result \<Rightarrow> finished_round be g result
            | Inl (Sched code) \<Rightarrow> failed_round be jid code
            | Inl (PyExc x) \<Rightarrow> eraise (PyExc x)))))"

definition hold_round :: "benv \<Rightarrow> guard_cycle \<Rightarrow> preflight \<Rightarrow> (bst, bg_round) eff" where
  "hold_round be g pf =
     (let env = be_world be; issues = (if pf_issues pf = [] then [''NO_ELIGIBLE_JOB''] else pf_issues pf); reason = hd issues in
      ebind (supervisor_delay be 0) (\<lambda>delay.
      notified be
        (ebind (on_world (wread env controller)) (\<lambda>c.
           notify be (controller_notice ''hold''
             (dedupe_key be ''hold'' (JObj [(''controller_mode'', JStr (mode_name (pf_mode pf))), (''reason_code'', JStr reason),
                (''updated_at'', JNum (controller_updated_at c))])) reason
             [(''controller_mode'', JStr (mode_name (pf_mode pf))), (''next_delay_seconds'', JNum delay)])))
        (eret ((plain_round ''hold'' delay)\<lparr>ro_issues := issues, ro_guard := Some g\<rparr>))))"

definition preflight_round :: "benv \<Rightarrow> guard_cycle \<Rightarrow> (bst, bg_round) eff" where
  "preflight_round be g =
     ebind (on_world (dispatch_preflight (be_world be) None)) (\<lambda>pf.
       case sorted_set (filter (\<lambda>i. i \<notin> set HOLD_ISSUES) (pf_issues pf)) of
         i # _ \<Rightarrow> safety_stop be i 1
       | [] \<Rightarrow>
           ethen (set_incident None None)
             (if pf_mode pf = STOPPED then eret (plain_round ''stopped'' 0)
              else if \<not> safe_to_dispatch pf then hold_round be g pf
              else
                (case pf_candidate pf of
                   None \<Rightarrow> eraise (PyExc ''TypeError'')
                 | Some c \<Rightarrow> dispatch_round be g c)))"

definition guard_round :: "benv \<Rightarrow> (bst, bg_round) eff" where
  "guard_round be =
     ebind (etry (on_world (quota_guard_cycle (be_world be) (be_guard be) True None))) (\<lambda>r.
       case r of
         Inl (Sched code) \<Rightarrow> safety_stop be code 1
       | Inl (PyExc _) \<Rightarrow> safety_stop be ''QUOTA_GUARD_UNAVAILABLE'' 1
       | Inr g \<Rightarrow> preflight_round be g)"

definition signal_reasons :: "status_report \<Rightarrow> string list" where
  "signal_reasons st = sort (filter (\<lambda>r. r \<in> set SIGNAL_ISSUES) (reasons (sr_decision st)))"

definition signal_round :: "benv \<Rightarrow> (bst, bg_round) eff" where
  "signal_round be =
     ebind (on_world (status (be_world be))) (\<lambda>st.
       case signal_reasons st of
         r # _ \<Rightarrow> signal_lost be r
       | [] \<Rightarrow> ethen (set_failures 0) (guard_round be))"

definition probe_failure :: "err \<Rightarrow> string" where
  "probe_failure e =
     (case e of
        Sched code \<Rightarrow> if code \<in> set SIGNAL_ISSUES then code else ''SIGNAL_INVALID''
      | PyExc _ \<Rightarrow> ''PROBE_UNAVAILABLE'')"

definition probe_round :: "benv \<Rightarrow> nat \<Rightarrow> (bst, bg_round) eff" where
  "probe_round be cycle_number =
     (let env = be_world be in
      ebind (bget b_lease) (\<lambda>lease.
      ebind (etry (on_world (probe_quota env
               (step_key (we_svc env) ''background-probe-''
                  (JObj [(''cycle'', JInt (int cycle_number)), (''lease_id'', opt_str lease), (''owner_id'', JStr (be_owner be))]) 48)
               supervisor_name))) (\<lambda>r.
        case r of
          Inl e \<Rightarrow> signal_lost be (probe_failure e)
        | Inr _ \<Rightarrow> signal_round be)))"

definition review_round :: "benv \<Rightarrow> string list \<Rightarrow> string list \<Rightarrow> (bst, bg_round) eff" where
  "review_round be lease_ids run_ids =
     ethen (set_failures 0)
    (notified be
       (notify be \<lparr>no_type = ''needs_review'',
          no_dedupe = dedupe_key be ''needs-review'' (JObj [(''leases'', id_array lease_ids), (''runs'', id_array run_ids)]),
          no_kind = ''service'', no_subject = None, no_reason = Some ''RECOVERY_REVIEW_REQUIRED'',
          no_details = JObj [(''controller_mode'', JStr ''PAUSED'')]\<rparr>)
       (ebind (supervisor_delay be 0) (\<lambda>delay.
          eret ((plain_round ''needs_review'' delay)\<lparr>ro_recovered := Some (lease_ids, run_ids)\<rparr>))))"

definition recover_round :: "benv \<Rightarrow> nat \<Rightarrow> (bst, bg_round) eff" where
  "recover_round be cycle_number =
     (let env = be_world be in
      ebind (on_world (wclock env)) (\<lambda>now.
      ebind (on_world (wdb env (background_recover (we_svc env) supervisor_name now))) (\<lambda>(lease_ids, run_ids).
        if lease_ids \<noteq> [] \<or> run_ids \<noteq> [] then review_round be lease_ids run_ids
        else probe_round be cycle_number)))"

definition run_once :: "benv \<Rightarrow> nat \<Rightarrow> (bst, bg_round) eff" where
  "run_once be cycle_number =
     (let env = be_world be in
      ethen (heartbeat be)
     (ebind (on_world (stop_asked env)) (\<lambda>stopping.
      if stopping then eret (plain_round ''shutdown'' 0)
      else
        ebind (on_world (wread env controller)) (\<lambda>c.
        if mode c = STOPPED then eret (plain_round ''stopped'' 0)
        else
          ebind (on_world (integrity env)) (\<lambda>messages.
          if \<not> check_passed messages then fail_round be ''DATABASE_INVALID''
          else
            ebind (on_world (wread env (\<lambda>d. Inr (valid (verify_audit (sv_host (we_svc env)) d))))) (\<lambda>chained.
            if \<not> chained then fail_round be ''AUDIT_INVALID''
            else recover_round be cycle_number))))))"

section \<open>The loop\<close>

record bg_report =
  bg_cycles :: nat
  bg_last :: "bg_round option"
  bg_stop :: string

text \<open>The loop of \<open>run\<close>; \<open>None\<close> when the fuel runs out. A limit of 0 is no limit.\<close>

fun rounds :: "benv \<Rightarrow> nat \<Rightarrow> nat \<Rightarrow> nat \<Rightarrow> bg_round option \<Rightarrow> (bst, bg_report option) eff" where
  "rounds be limit 0 cycles last_round = eret None"
| "rounds be limit (Suc fuel) cycles last_round =
     ebind (on_world (stop_asked (be_world be))) (\<lambda>stopping.
       if stopping then eret (Some \<lparr>bg_cycles = cycles, bg_last = last_round, bg_stop = ''SHUTDOWN_REQUESTED''\<rparr>)
       else if limit \<noteq> 0 \<and> limit \<le> cycles
       then eret (Some \<lparr>bg_cycles = cycles, bg_last = last_round, bg_stop = ''MAX_CYCLES_REACHED''\<rparr>)
       else
         ebind (run_once be (Suc cycles)) (\<lambda>r.
           if ro_outcome r \<in> {''shutdown'', ''stopped''}
           then eret (Some \<lparr>bg_cycles = Suc cycles, bg_last = Some r, bg_stop = ''CONTROLLER_STOPPED''\<rparr>)
           else if limit \<noteq> 0 \<and> limit \<le> Suc cycles
           then eret (Some \<lparr>bg_cycles = Suc cycles, bg_last = Some r, bg_stop = ''MAX_CYCLES_REACHED''\<rparr>)
           else
             ebind (on_world (wobserve (\<lambda>n. Inr (be_wait be n (ro_delay r))))) (\<lambda>woken.
               if woken then eret (Some \<lparr>bg_cycles = Suc cycles, bg_last = Some r, bg_stop = ''SHUTDOWN_REQUESTED''\<rparr>)
               else rounds be limit fuel (Suc cycles) (Some r))))"

text \<open>\<open>run\<close>: the release is the \<open>finally\<close> of the loop. Without fuel nothing is released, the loop goes on.\<close>

definition run :: "benv \<Rightarrow> int \<Rightarrow> nat \<Rightarrow> (bst, (string \<times> bg_report) option) eff" where
  "run be max_cycles fuel =
     ethen (eguard (\<not> max_cycles < 0) ''INVALID_ARGUMENT'')
    (ebind (acquire be) (\<lambda>lease.
     ebind (ecatch (rounds be (nat max_cycles) fuel 0 None)
              (\<lambda>e. ethen (release be ''SHUTDOWN_REQUESTED'') (eraise e))) (\<lambda>done_with.
       case done_with of
         None \<Rightarrow> eret None
       | Some report \<Rightarrow> ethen (release be (bg_stop report)) (eret (Some (lease, report))))))"

end
