(* ===== verification/BackgroundSafety.thy ===== *)
theory BackgroundSafety
  imports Background
begin

text \<open>
  What the supervisor keeps to: its waits are shorter than its lease, a stop leaves the controller blocked,
  a limited run ends, the lease is released, and no step of a whole run makes the controller ready or
  starts a second run. The last two rest on one interface, \<open>service_rel\<close>, for relations that every
  transaction of the service keeps.
\<close>

section \<open>Waits\<close>

lemma round_even_lower: "of_int m \<le> q \<Longrightarrow> m \<le> round_even q"
proof -
  assume "of_int m \<le> q"
  then have "m \<le> \<lfloor>q\<rfloor>" by (simp add: le_floor_iff)
  then show ?thesis by (auto simp: round_even_def Let_def)
qed

lemma round_even_upper: "q \<le> of_int m \<Longrightarrow> round_even q \<le> m"
proof -
  assume q: "q \<le> of_int m"
  then have f: "\<lfloor>q\<rfloor> \<le> m"
    by linarith
  show ?thesis
  proof (cases "\<lfloor>q\<rfloor> = m")
    case True
    with q have "q = of_int \<lfloor>q\<rfloor>" by linarith
    with True show ?thesis by (simp add: round_even_def Let_def)
  next
    case False
    with f show ?thesis by (auto simp: round_even_def Let_def)
  qed
qed

lemma round3_lower: "of_int m / 1000 \<le> q \<Longrightarrow> of_int m / 1000 \<le> round3 q"
  using round_even_lower [of m "q * 1000"] by (simp add: round3_def divide_le_eq le_divide_eq)

lemma round3_upper: "q \<le> of_int m / 1000 \<Longrightarrow> round3 q \<le> of_int m / 1000"
  using round_even_upper [of "q * 1000" m] by (simp add: round3_def le_divide_eq divide_le_eq)

text \<open>
  C35. Waits. With a valid configuration, whatever the random source gives and after any number of
  failures, the wait between two rounds is at least half the polling interval and at most the maximal
  back-off, which is less than the service lease: a supervisor that waits does not lose its lease by waiting.
\<close>

theorem supervisor_waits_within_lease:
  assumes "config_ok cfg"
  shows "of_int (cfg_poll_interval cfg) / 2 \<le> delay_of cfg n random
    \<and> delay_of cfg n random \<le> of_int (cfg_max_backoff cfg)
    \<and> cfg_max_backoff cfg < cfg_service_lease cfg"
proof -
  define top where "top = rat_of_int (cfg_max_backoff cfg)"
  define base where "base = rat_of_int (cfg_poll_interval cfg) * (if n = 0 then 1 else 2 ^ min (n - 1) 16)"
  define chance where "chance = min 1 (max 0 random)"
  define factor where "factor = 1 - cfg_jitter cfg + 2 * cfg_jitter cfg * chance"
  have c: "5 \<le> cfg_poll_interval cfg" "cfg_poll_interval cfg \<le> cfg_max_backoff cfg"
      "cfg_max_backoff cfg < cfg_service_lease cfg" "0 \<le> cfg_jitter cfg" "cfg_jitter cfg \<le> 1 / 2"
    using assms by (auto simp: config_ok_def background_ok_def)
  have poll: "rat_of_int (cfg_poll_interval cfg) \<le> top" "0 \<le> rat_of_int (cfg_poll_interval cfg)"
    using c(1,2) by (simp_all add: top_def)
  have "0 \<le> chance" by (simp add: chance_def)
  then have "0 \<le> cfg_jitter cfg * chance" using c(4) by simp
  then have factor: "1 / 2 \<le> factor" using c(5) by (simp add: factor_def)
  have "1 \<le> (if n = 0 then 1 else 2 ^ min (n - 1) 16 :: rat)" by simp
  then have "rat_of_int (cfg_poll_interval cfg) \<le> base"
    using mult_left_mono [OF _ poll(2)] by (fastforce simp: base_def)
  then have bounded: "rat_of_int (cfg_poll_interval cfg) \<le> min base top"
    using poll(1) by simp
  then have "rat_of_int (cfg_poll_interval cfg) * (1 / 2) \<le> min base top * factor"
    using factor poll(2) by (intro mult_mono) auto
  then have lower: "rat_of_int (500 * cfg_poll_interval cfg) / 1000 \<le> min (min base top * factor) top"
    using poll by simp
  have upper: "min (min base top * factor) top \<le> rat_of_int (1000 * cfg_max_backoff cfg) / 1000"
    by (simp add: top_def)
  have d: "delay_of cfg n random = round3 (min (min base top * factor) top)"
    by (simp add: delay_of_def Let_def top_def base_def chance_def factor_def)
  show ?thesis
    using round3_lower [OF lower] round3_upper [OF upper] c(3) unfolding d by simp
qed

section \<open>Stops\<close>

definition blocked :: "bst \<Rightarrow> bool" where
  "blocked s \<longleftrightarrow> current_mode (w_db (b_world s)) = Inr BLOCKED"

text \<open>An effect whose stopping results leave the controller blocked.\<close>

definition stops_blocked :: "(bst, bg_round) eff \<Rightarrow> bool" where
  "stops_blocked m \<longleftrightarrow>
     (\<forall>s r s'. m s = (Inr r, s') \<longrightarrow> ro_outcome r \<in> {''signal_loss'', ''safety_stop''} \<longrightarrow> blocked s')"

lemma stops_ebind: "(\<And>x. stops_blocked (f x)) \<Longrightarrow> stops_blocked (ebind m f)"
  unfolding stops_blocked_def ebind_Inr by blast

lemma stops_eret: "ro_outcome r \<notin> {''signal_loss'', ''safety_stop''} \<Longrightarrow> stops_blocked (eret r)"
  by (auto simp: stops_blocked_def eret_def)

lemma stops_eraise: "stops_blocked (eraise e)"
  by (simp add: stops_blocked_def eraise_def)

lemma stops_if: "(b \<Longrightarrow> stops_blocked m) \<Longrightarrow> (\<not> b \<Longrightarrow> stops_blocked k) \<Longrightarrow> stops_blocked (if b then m else k)"
  by simp

lemma ro_outcome_plain [simp]: "ro_outcome (plain_round v t) = v"
  by (simp add: plain_round_def)

text \<open>Nobody else unblocks the controller: that takes an operator's resume.\<close>

definition others_keep_blocked :: "benv \<Rightarrow> bool" where
  "others_keep_blocked be \<longleftrightarrow>
     (\<forall>n d. current_mode d = Inr BLOCKED \<longrightarrow> current_mode (we_others (be_world be) n d) = Inr BLOCKED)"

definition stays_blocked :: "db \<Rightarrow> db \<Rightarrow> bool" where
  "stays_blocked d e \<longleftrightarrow> (current_mode d = Inr BLOCKED \<longrightarrow> current_mode e = Inr BLOCKED)"

context db_rel begin

lemma keeps_hand_over: "lifted.keeps (hand_over b event)"
  unfolding hand_over_def by (rule lifted_wobserve)

text \<open>Emitting changes the notification table only.\<close>

lemma keeps_emit_note:
  assumes "\<And>d x. R d (d\<lparr>notifications_t := x\<rparr>)"
  shows "lifted.keeps (emit_note env b n)"
proof -
  have reserve: "lifted.keeps (wtx env (reserve_notification event key kind))" for event key kind
  proof (rule lifted_wtx)
    fix d x e assume "reserve_notification event key kind d = Inr (x, e)"
    then obtain y where "e = d \<or> e = d\<lparr>notifications_t := y\<rparr>"
      by (auto simp: reserve_notification_def split: option.splits if_splits)
    then show "R d e" using refl assms by blast
  qed
  have mark: "lifted.keeps (wtx env (mark_notification_delivered i t))" for i t
    by (rule lifted_wtx) (auto simp: mark_notification_delivered_def assms)
  show ?thesis
    unfolding emit_note_def by (intro keeps_intros reserve mark keeps_hand_over)
qed

end

lemma safety_stop_transaction_blocks:
  assumes "safety_stop_transaction sv reason who now d = Inr (i, e)"
  shows "current_mode e = Inr BLOCKED"
proof -
  obtain c where c: "controller_t d = Some c"
    using assms by (auto simp: safety_stop_transaction_def split: option.splits)
  show ?thesis
  proof (cases "mode c = BLOCKED \<and> controller_reason c = Some reason")
    case True
    with assms c show ?thesis by (simp add: safety_stop_transaction_def current_mode_def)
  next
    case False
    with assms c have "controller_t e = controller_t (set_controller BLOCKED (Some reason) now d)"
      by (auto simp: safety_stop_transaction_def dest: audit_if_valid_controller)
    with c show ?thesis by (simp add: current_mode_def set_controller_def)
  qed
qed

text \<open>The interface of the other processes: none of them unblocks.\<close>

locale keeping_blocked = blocking: db_rel stays_blocked "\<lambda>_. True" env for env
begin

lemma notify_keeps: "emit_note env b n w = (r, w') \<Longrightarrow> current_mode (w_db w) = Inr BLOCKED \<Longrightarrow> current_mode (w_db w') = Inr BLOCKED"
  using blocking.lifted.keepsD [OF blocking.keeps_emit_note, of w b n]
  by (simp add: stays_blocked_def current_mode_def)

end

lemma keeping_blockedI: "others_keep_blocked be \<Longrightarrow> keeping_blocked (be_world be)"
  by unfold_locales (auto simp: stays_blocked_def others_keep_blocked_def)

text \<open>Commands that queue work or stop never unblock; every other command counts as idle here.\<close>

definition queueing :: "peer \<Rightarrow> peer" where
  "queueing p =
     (case p of P_propose v key who now \<Rightarrow> p | P_approve jid av key who now \<Rightarrow> p | P_submit v av key who now \<Rightarrow> p
      | P_cancel jid key who now \<Rightarrow> p | P_safety_stop reason who now \<Rightarrow> p | _ \<Rightarrow> P_idle)"

interpretation blocking_rel: command_rel stays_blocked
  by unfold_locales (auto simp: stays_blocked_def current_mode_def)

lemma stays_blocked_same: "controller_t e = controller_t d \<Longrightarrow> stays_blocked d e"
  by (simp add: stays_blocked_def current_mode_def)

lemma queueing_operations:
  "propose_operation sv who now p d = Inr (r, e) \<Longrightarrow> stays_blocked d e"
  "approve_operation sv who now jid p hash a d = Inr (r, e) \<Longrightarrow> stays_blocked d e"
  "submit_operation sv who now j a d = Inr (r, e) \<Longrightarrow> stays_blocked d e"
  "cancel_operation sv who now jid d = Inr (r, e) \<Longrightarrow> stays_blocked d e"
  by (auto simp: propose_operation_def approve_operation_def submit_operation_def cancel_operation_def
      insert_approval_Inr insert_job_def Let_def set_job_state_def intro!: stays_blocked_same dest!: audit_controller
      split: option.splits if_splits)

lemma stop_transaction_blocked: "safety_stop_transaction sv reason who now d = Inr (i, e) \<Longrightarrow> stays_blocked d e"
  by (simp add: stays_blocked_def safety_stop_transaction_blocks)

lemma queueing_keeps:
  "blocking_rel.keeps (queue_propose sv v key who now)" "blocking_rel.keeps (queue_approve sv jid av key who now)"
  "blocking_rel.keeps (queue_submit sv v av key who now)" "blocking_rel.keeps (queue_cancel sv jid key who now)"
  "blocking_rel.keeps (background_safety_stop sv reason who now)"
  unfolding queue_propose_def queue_approve_def queue_submit_def queue_cancel_def background_safety_stop_def
  by (intro keeps_intros blocking_rel.keeps_plain_command blocking_rel.keeps_approved_command blocking_rel.keeps_transact;
      (rule queueing_operations stop_transaction_blocked, assumption))+

lemma queueing_blocked: "stays_blocked d (peer_step sv (queueing p) d)"
  using queueing_keeps by (cases p) (simp_all add: queueing_def blocking_rel.keeps_def blocking_rel.refl)

interpretation queueing_world: keeping_blocked "with_peers env (\<lambda>n. queueing (sched n))" for env sched
  by unfold_locales (simp add: with_peers_def queueing_blocked)

lemma blocked_on_world:
  "on_world m s = (r, s') \<Longrightarrow> m (b_world s) = (r, b_world s') \<and> b_lease s' = b_lease s"
  by (auto simp: on_world_def split: prod.splits)

lemma stop_command_blocks:
  assumes "on_world (wdb env (background_safety_stop sv reason who now)) s = (Inr x, s')"
  shows "blocked s'"
  using assms safety_stop_transaction_blocks
  by (auto simp: on_world_def wdb_def background_safety_stop_def eff_defs blocked_def split: sum.splits prod.splits)

lemma failed_notice_keeps_blocked:
  assumes "others_keep_blocked be" and "sched_failed (notify be n) s = (Inr refused, s')" and "blocked s"
  shows "blocked s'"
proof -
  obtain r s1 where "notify be n s = (r, s1)" by fastforce
  with assms(2) have "notify be n s = (r, s')"
    by (auto simp: sched_failed_def eff_defs split: sum.splits err.splits)
  then have "on_world (emit_note (be_world be) (be_bus be) n) s = (r, s')"
    by (simp add: notify_def)
  from blocked_on_world [OF this]
  have "emit_note (be_world be) (be_bus be) n (b_world s) = (r, b_world s')" ..
  from keeping_blocked.notify_keeps [OF keeping_blockedI [OF assms(1)] this] assms(3) show ?thesis
    by (simp add: blocked_def)
qed

lemma supervisor_delay_keeps: "supervisor_delay be n s = (Inr t, s') \<Longrightarrow> blocked s' = blocked s"
  by (auto simp: supervisor_delay_def on_world_def wobserve_def blocked_def)

lemma safety_attempt_blocked:
  assumes "others_keep_blocked be" and "safety_attempt be reason n s = (Inr x, s')"
  shows "blocked s'"
proof -
  from assms(2) obtain u s1 t s2 v s3 refused where
      "on_world (wdb (be_world be) (background_safety_stop (we_svc (be_world be)) reason supervisor_name u)) s1 = (Inr v, s2)"
    and d: "supervisor_delay be n s2 = (Inr t, s3)"
    and f: "\<exists>note. sched_failed (notify be note) s3 = (Inr refused, s')"
    by (auto simp: safety_attempt_def Let_def eff_Inr bget_def) blast
  then have "blocked s2" by (blast dest: stop_command_blocks)
  with f show ?thesis
    using supervisor_delay_keeps [OF d] failed_notice_keeps_blocked [OF assms(1)] by blast
qed

lemma safety_stop_blocked:
  assumes "others_keep_blocked be" and "safety_stop be reason n s = (Inr r, s')"
  shows "blocked s'"
  using assms(2) safety_attempt_blocked [OF assms(1)]
  by (auto simp: safety_stop_def eff_Inr split: if_splits)

lemma stops_safety_stop: "others_keep_blocked be \<Longrightarrow> stops_blocked (safety_stop be reason n)"
  using safety_stop_blocked by (auto simp: stops_blocked_def)

lemma stops_notified: "others_keep_blocked be \<Longrightarrow> stops_blocked k \<Longrightarrow> stops_blocked (notified be send k)"
  unfolding notified_def by (intro stops_ebind stops_if stops_safety_stop)

lemma stops_case_option: "(\<And>x. stops_blocked (f x)) \<Longrightarrow> stops_blocked m \<Longrightarrow> stops_blocked (case v of None \<Rightarrow> m | Some x \<Rightarrow> f x)"
  by (cases v) auto

lemma stops_case_list: "stops_blocked m \<Longrightarrow> (\<And>x xs. stops_blocked (f x xs)) \<Longrightarrow> stops_blocked (case v of [] \<Rightarrow> m | x # xs \<Rightarrow> f x xs)"
  by (cases v) auto

lemma stops_case_sum: "(\<And>e. stops_blocked (f e)) \<Longrightarrow> (\<And>x. stops_blocked (g x)) \<Longrightarrow> stops_blocked (case v of Inl e \<Rightarrow> f e | Inr x \<Rightarrow> g x)"
  by (cases v) auto

lemma stops_case_err: "(\<And>c. stops_blocked (f c)) \<Longrightarrow> (\<And>c. stops_blocked (g c)) \<Longrightarrow> stops_blocked (case e of Sched c \<Rightarrow> f c | PyExc c \<Rightarrow> g c)"
  by (cases e) auto

lemma stops_case_prod: "(\<And>x y. stops_blocked (f x y)) \<Longrightarrow> stops_blocked (case v of (x, y) \<Rightarrow> f x y)"
  by (cases v) auto

lemmas stops_intros = stops_ebind stops_if stops_eraise stops_safety_stop stops_notified stops_case_option
  stops_case_list stops_case_sum stops_case_err stops_case_prod stops_eret

lemma stops_rounds:
  assumes "others_keep_blocked be"
  shows "stops_blocked (finished_round be g result)" "stops_blocked (failed_round be jid code)"
    "stops_blocked (hold_round be g pf)" "stops_blocked (review_round be ls rs)"
  unfolding finished_round_def failed_round_def hold_round_def review_round_def Let_def
  by (intro stops_intros assms; simp)+

lemma stops_lost:
  assumes "others_keep_blocked be"
  shows "stops_blocked (fail_round be reason)" "stops_blocked (signal_lost be reason)"
  unfolding fail_round_def signal_lost_def by (intro stops_intros assms)+

lemma stops_dispatch_round:
  assumes "others_keep_blocked be"
  shows "stops_blocked (dispatch_round be g c)"
  unfolding dispatch_round_def Let_def by (intro stops_intros stops_rounds assms)

lemma stops_preflight_round:
  assumes "others_keep_blocked be"
  shows "stops_blocked (preflight_round be g)"
  unfolding preflight_round_def by (intro stops_intros stops_rounds stops_dispatch_round assms) simp

lemma stops_signal_round:
  assumes "others_keep_blocked be"
  shows "stops_blocked (signal_round be)"
  unfolding signal_round_def guard_round_def by (intro stops_intros stops_lost stops_preflight_round assms)

lemma stops_recover_round:
  assumes "others_keep_blocked be"
  shows "stops_blocked (recover_round be k)"
  unfolding recover_round_def probe_round_def Let_def
  by (intro stops_intros stops_rounds stops_lost stops_signal_round assms)

text \<open>
  C13. A stop is a stop. When a round of the supervisor ends in a safety stop or a loss of the quota signal
  (a broken database or audit chain, a failed probe, an unusable signal, a guard cycle that fails, an
  issue that is not a mere hold, a notification nobody took), the controller is blocked at the end of the
  round, provided that no other process unblocks it meanwhile.
\<close>

theorem stopped_round_blocks_controller:
  assumes "others_keep_blocked be" and "run_once be k s = (Inr r, s')"
    and "ro_outcome r \<in> {''signal_loss'', ''safety_stop''}"
  shows "current_mode (w_db (b_world s')) = Inr BLOCKED"
proof -
  have "stops_blocked (run_once be k)"
    unfolding run_once_def Let_def
    by (intro stops_intros stops_lost stops_recover_round assms(1)) simp_all
  with assms(2,3) show ?thesis
    unfolding stops_blocked_def blocked_def by blast
qed

section \<open>A limited run ends\<close>

lemma rounds_limited:
  "cycles < limit \<Longrightarrow> limit - cycles \<le> fuel \<Longrightarrow> rounds be limit fuel cycles before s = (Inr v, s') \<Longrightarrow>
   \<exists>report. v = Some report \<and> bg_cycles report \<le> limit"
proof (induction fuel arbitrary: cycles before s)
  case (Suc fuel)
  show ?case
  proof (cases "limit \<le> Suc cycles")
    case True
    with Suc.prems show ?thesis
      by (auto simp: eff_Inr split: if_splits)
  next
    case False
    then have left: "Suc cycles < limit" "limit - Suc cycles \<le> fuel"
      using Suc.prems(2) by simp_all
    from Suc.prems(3) Suc.IH [OF left] Suc.prems(1) False show ?thesis
      by (auto simp: eff_Inr split: if_splits)
  qed
qed simp

lemma ecatch_reraise_Inr: "ecatch m (\<lambda>e. ethen k (eraise e)) s = (Inr x, s') \<longleftrightarrow> m s = (Inr x, s')"
  by (auto simp: ecatch_def eff_Inr split: prod.splits sum.splits)

text \<open>
  C34. A limited run ends. With a limit of \<open>n > 0\<close> cycles, fuel \<open>n\<close> is enough: the run never runs out of it,
  whatever the environment does, and a run that returns has done at most \<open>n\<close> rounds. (With the limit 0 it goes on
  until it is asked to stop, the controller is stopped or an exception escapes.)
\<close>

theorem limited_run_ends:
  assumes "0 < max_cycles" and "nat max_cycles \<le> fuel"
  shows "fst (run be max_cycles fuel s) \<noteq> Inr None
    \<and> (\<forall>lease report. fst (run be max_cycles fuel s) = Inr (Some (lease, report)) \<longrightarrow> int (bg_cycles report) \<le> max_cycles)"
proof -
  have lim: "0 < nat max_cycles" "nat max_cycles - 0 \<le> fuel"
    using assms by simp_all
  have "(\<exists>lease report. v = Some (lease, report) \<and> bg_cycles report \<le> nat max_cycles)"
    if "run be max_cycles fuel s = (Inr v, s')" for v s'
  proof -
    from that obtain lease w t t' u where w: "rounds be (nat max_cycles) fuel 0 None t = (Inr w, t')"
      and u: "(case w of None \<Rightarrow> eret None
               | Some report \<Rightarrow> ethen (release be (bg_stop report)) (eret (Some (lease, report)))) t' = (Inr v, u)"
      unfolding run_def eff_Inr ecatch_reraise_Inr by blast
    from rounds_limited [OF lim w] obtain report where "w = Some report" "bg_cycles report \<le> nat max_cycles"
      by blast
    with u show ?thesis
      by (auto simp: eff_Inr)
  qed
  then show ?thesis
    by (cases "run be max_cycles fuel s") (use assms(1) in \<open>fastforce simp: le_nat_iff\<close>)
qed

section \<open>Relations that the whole service keeps\<close>

context step_rel begin

lemma keeps_etry: "keeps m \<Longrightarrow> keeps (etry m)"
  unfolding etry_def by (intro keeps_intros)

lemma keeps_case_err:
  "(\<And>c. keeps (f c)) \<Longrightarrow> (\<And>c. keeps (g c)) \<Longrightarrow> keeps (case e of Sched c \<Rightarrow> f c | PyExc c \<Rightarrow> g c)"
  by (cases e) auto

lemma keeps_case_sum:
  "(\<And>e. keeps (f e)) \<Longrightarrow> (\<And>x. keeps (g x)) \<Longrightarrow> keeps (case v of Inl e \<Rightarrow> f e | Inr x \<Rightarrow> g x)"
  by (cases v) auto

lemma keeps_case_list:
  "keeps m \<Longrightarrow> (\<And>x xs. keeps (f x xs)) \<Longrightarrow> keeps (case v of [] \<Rightarrow> m | x # xs \<Rightarrow> f x xs)"
  by (cases v) auto

lemma keeps_sched_failed: "keeps m \<Longrightarrow> keeps (sched_failed m)"
  unfolding sched_failed_def by (intro keeps_intros keeps_case_err)

lemma keeps_emap: "(\<And>x. keeps (f x)) \<Longrightarrow> keeps (emap f xs)"
  by (induction xs) (auto intro!: keeps_intros)

end

text \<open>
  The interface: a relation that every transaction of the service keeps, in a world whose other processes
  and App Server calls keep it. Its lemmas carry the relation through a whole run.
\<close>

locale service_rel = dispatch_rel R "be_world be" "be_runner be"
  for R :: "db \<Rightarrow> db \<Rightarrow> bool" and be :: benv +
  assumes recover_step: "recover_transaction (we_svc (be_world be)) who now d = Inr (x, e) \<Longrightarrow> R d e"
    and stop_step: "safety_stop_transaction (we_svc (be_world be)) reason who now d = Inr (i, e) \<Longrightarrow> R d e"
    and failed_step: "dispatch_failed_transaction (we_svc (be_world be)) jid reason who now d = Inr (v, e) \<Longrightarrow> R d e"
    and hold_step: "target \<in> {PAUSED, BLOCKED} \<Longrightarrow>
          hold_transaction (we_svc (be_world be)) target reason set_at now d = Inr (u, e) \<Longrightarrow> R d e"
    and guard_step: "R d (c_db (snd (one_due_cycle (be_guard be n) now allow signal \<lparr>c_db = d, c_log = []\<rparr>)))"
    and notices: "R d (d\<lparr>notifications_t := ns\<rparr>)"
    and service_leases: "R d (d\<lparr>service_lease_t := l\<rparr>)"
    and audit_step: "audit_if_valid (we_svc (be_world be)) ev who det now d = Inr (j, e) \<Longrightarrow> R d e"
begin

lemma keeps_supervisor_audit: "rel.lifted.keeps (supervisor_audit be ev det)"
  unfolding supervisor_audit_def Let_def by (intro keeps_intros rel.lifted_wtx) (rule audit_step)

lemma keeps_heartbeat_with: "rel.lifted.keeps (heartbeat_with be lease)"
  unfolding heartbeat_with_def
  by (intro keeps_intros rel.lifted_wtx)
     (auto simp: renew_service_lease_def service_leases split: option.splits if_splits)

lemma keeps_release_world: "rel.lifted.keeps (release_world be lid)"
  unfolding release_world_def
  by (intro keeps_intros rel.lifted_wtx)
     (auto simp: release_service_lease_def service_leases rel.refl split: option.splits if_splits)

lemma keeps_guard_cycle: "rel.lifted.keeps (quota_guard_cycle (be_world be) (be_guard be) signal allow)"
proof -
  have guard: "rel.lifted.keeps (wguard (be_world be) (\<lambda>n. one_due_cycle (be_guard be n) now a b))" for now a b
  proof (rule rel.lifted.keepsI)
    fix s :: wst
    have "R (w_db s) (we_others (be_world be) (w_step s) (w_db s))"
      by (rule rel.others) simp
    then show "R (w_db s) (w_db (snd (wguard (be_world be) (\<lambda>n. one_due_cycle (be_guard be n) now a b) s)))"
      using guard_step [of "we_others (be_world be) (w_step s) (w_db s)" "w_step s" now a b]
      by (auto simp: wguard_def split: prod.splits intro: rel.trans)
  qed
  have hold: "rel.lifted.keeps (guard_hold (be_world be) report)" for report
  proof (cases "hold_of (set (map oc_state (outcomes report)))")
    case None
    then show ?thesis
      unfolding guard_hold_def by (simp add: rel.lifted.keeps_eret)
  next
    case (Some h)
    obtain target reason where h: "h = (target, reason)" by fastforce
    have "target \<in> {PAUSED, BLOCKED}"
      using hold_of_target [OF Some [unfolded h]] by blast
    from hold_step [OF this]
    have "rel.lifted.keeps (wtx (be_world be) (hold_transaction (we_svc (be_world be)) target reason set_at now))" for set_at now
      by (rule rel.lifted_wtx)
    then show ?thesis
      unfolding guard_hold_def Some h option.case prod.case by (intro keeps_intros)
  qed
  show ?thesis
    unfolding quota_guard_cycle_def Let_def by (intro keeps_intros guard hold)
qed

lemma keeps_status: "rel.lifted.keeps (status (be_world be))"
  unfolding status_def Let_def by (intro keeps_intros rel.lifted.keeps_emap)

lemma keeps_supervised_dispatch:
  "rel.lifted.keeps (dispatch_run (be_world be) (be_runner be) (supervisor_call be lease c))"
proof (rule keeps_dispatch_run)
  have "R (w_db s) (w_db (snd (heartbeat_with be lease s)))" for s
    by (rule rel.lifted.keepsD [OF keeps_heartbeat_with]) simp
  moreover have "R (w_db s) (w_db (snd (stop_asked (be_world be) s)))" for s
    by (simp add: stop_asked_def wobserve_def rel.refl)
  ultimately show "call_keeps R (supervisor_call be lease c)"
    by (simp add: call_keeps_def supervisor_call_def)
qed

lemma keeps_commands:
  "rel.lifted.keeps (wdb (be_world be) (background_recover (we_svc (be_world be)) who now))"
  "rel.lifted.keeps (wdb (be_world be) (background_safety_stop (we_svc (be_world be)) reason who now))"
  "rel.lifted.keeps (wdb (be_world be) (background_dispatch_failed (we_svc (be_world be)) jid reason who now))"
  unfolding background_recover_def background_safety_stop_def background_dispatch_failed_def
  by (intro rel.lifted_wdb keeps_intros rel.keeps_transact; erule recover_step stop_step failed_step)+

end

text \<open>The lifting to the supervisor's state; its steps between acquiring and releasing keep the lease field.\<close>

sublocale service_rel \<subseteq> service:
  step_rel "\<lambda>s t. R (w_db (b_world s)) (w_db (b_world t)) \<and> b_lease t = b_lease s" "\<lambda>_ :: bst. True"
  by unfold_locales (auto intro: rel.refl rel.trans)

context service_rel begin

lemma service_on_world: "rel.lifted.keeps m \<Longrightarrow> service.keeps (on_world m)"
proof (rule service.keepsI)
  fix s :: bst assume "rel.lifted.keeps m"
  from rel.lifted.keepsD [OF this, of "b_world s"]
  show "R (w_db (b_world s)) (w_db (b_world (snd (on_world m s)))) \<and> b_lease (snd (on_world m s)) = b_lease s"
    by (cases "m (b_world s)") (simp add: on_world_def)
qed

lemma service_fields:
  "service.keeps (bget f)" "service.keeps (set_failures n)" "service.keeps (set_incident reason token)"
  by (simp_all add: service.keeps_def bget_def set_failures_def set_incident_def rel.refl)

lemmas world_intros = keeps_supervisor_audit keeps_heartbeat_with keeps_guard_cycle keeps_status
  keeps_supervised_dispatch keeps_commands keeps_preflight rel.keeps_emit_note [OF notices] keeps_probe
  rel.lifted_wclock rel.lifted_wid rel.lifted_wread rel.lifted_wobserve rel.lifted_integrity

lemmas service_intros = service.keeps_ebind service.keeps_if service.keeps_eret service.keeps_eraise
  service.keeps_elift service.keeps_case_option service.keeps_case_prod service.keeps_case_err
  service.keeps_case_sum service.keeps_case_list service.keeps_etry service.keeps_sched_failed
  service_fields service_on_world world_intros

lemma service_delay: "service.keeps (supervisor_delay be n)"
  unfolding supervisor_delay_def by (intro service_intros)

lemma service_stop: "service.keeps (safety_stop be reason n)"
  unfolding safety_stop_def safety_attempt_def note_incident_def notify_def Let_def
  by (intro service_intros service_delay)

lemma service_notified: "service.keeps k \<Longrightarrow> service.keeps send \<Longrightarrow> service.keeps (notified be send k)"
  unfolding notified_def by (intro service_intros service_stop)

lemma service_lost: "service.keeps (fail_round be reason)" "service.keeps (signal_lost be reason)"
  unfolding fail_round_def signal_lost_def contain_guards_without_signal_def
  by (intro service_intros service_stop)+

lemma service_rounds:
  "service.keeps (finished_round be g result)" "service.keeps (failed_round be jid code)"
  "service.keeps (hold_round be g pf)" "service.keeps (review_round be ls rs)"
  unfolding finished_round_def failed_round_def hold_round_def review_round_def notify_def Let_def
  by (intro service_intros service_notified service_delay)+

lemma service_dispatch: "service.keeps (dispatch_round be g c)"
  unfolding dispatch_round_def notify_def Let_def by (intro service_intros service_rounds service_stop)

lemma service_run_once: "service.keeps (run_once be k)"
  unfolding run_once_def heartbeat_def stop_asked_def recover_round_def probe_round_def signal_round_def
    guard_round_def preflight_round_def Let_def
  by (intro service_intros service_rounds service_lost service_stop service_dispatch)

lemma service_loop: "service.keeps (rounds be limit fuel cycles before)"
proof (induction fuel arbitrary: cycles before)
  case (Suc fuel)
  show ?case
    unfolding rounds.simps stop_asked_def by (intro service_intros service_run_once Suc.IH)
qed (simp add: service.keeps_eret)

end

context service_rel begin

text \<open>Acquiring and releasing touch the service lease and the audit log.\<close>

lemma world_kept: "rel.lifted.keeps m \<Longrightarrow> R (w_db (b_world s)) (w_db (b_world (snd (on_world m s))))"
  using service.keepsD [OF service_on_world, of m s] by simp

lemma keeps_acquire_world:
  "rel.lifted.keeps (wtx (be_world be) (acquire_service_lease i owner now secs))"
  by (rule rel.lifted_wtx)
     (auto simp: acquire_service_lease_def Let_def service_leases rel.refl split: option.splits if_splits)

end

text \<open>The same relation without the lease field, for a whole run.\<close>

sublocale service_rel \<subseteq> whole: step_rel "\<lambda>s t. R (w_db (b_world s)) (w_db (b_world t))" "\<lambda>_ :: bst. True"
  by unfold_locales (auto intro: rel.refl rel.trans)

context service_rel begin

lemma whole_service: "service.keeps m \<Longrightarrow> whole.keeps m"
  by (simp add: service.keeps_def whole.keeps_def)

lemma whole_fields: "whole.keeps (bget f)" "whole.keeps (set_lease l)"
  by (simp_all add: whole.keeps_def bget_def set_lease_def rel.refl)

lemma whole_on_world: "rel.lifted.keeps m \<Longrightarrow> whole.keeps (on_world m)"
  by (rule whole_service [OF service_on_world])

lemmas whole_intros = whole.keeps_ebind whole.keeps_if whole.keeps_eret whole.keeps_eraise whole.keeps_eguard
  whole.keeps_elift whole.keeps_ecatch whole.keeps_case_option whole.keeps_case_prod whole.keeps_etry whole_fields
  whole_on_world keeps_supervisor_audit keeps_release_world keeps_acquire_world rel.lifted_wclock rel.lifted_wid

lemma whole_acquire: "whole.keeps (acquire be)"
  unfolding acquire_def Let_def by (intro whole_intros)

lemma whole_release: "whole.keeps (release be reason)"
  unfolding release_def by (intro whole_intros)

lemma run_keeps: "R (w_db (b_world s)) (w_db (b_world (snd (run be max_cycles fuel s))))"
proof -
  have "whole.keeps (run be max_cycles fuel)"
    unfolding run_def by (intro whole_intros whole_acquire whole_release whole_service [OF service_loop])
  from whole.keepsD [OF this] show ?thesis by simp
qed

text \<open>A loop that returns has the lease it started with.\<close>

lemma loop_lease: "rounds be limit fuel cycles before s = (Inr v, s') \<Longrightarrow> b_lease s' = b_lease s"
  using service.keepsD [OF service_loop, of s limit fuel cycles before] by simp

end

section \<open>Nothing becomes ready\<close>

lemma not_readied_dispatch:
  "probe_operation sv who now i m d = Inr (r, e) \<Longrightarrow> not_readied d e"
  "claim_transaction sv call ok who now rid owner jid d = Inr (cl, d') \<Longrightarrow> not_readied d d'"
  "thread_transaction sv c t now d = Inr (u, d') \<Longrightarrow> not_readied d d'"
  "turn_transaction sv c t v now d = Inr (u, d') \<Longrightarrow> not_readied d d'"
  "safety_transaction sv c now d = Inr (b, d') \<Longrightarrow> not_readied d d'"
  "finish_transaction sv call c r' failure overrun now d = Inr (j, d') \<Longrightarrow> not_readied d d'"
proof -
  show "not_readied d e" if "probe_operation sv who now i m d = Inr (r, e)"
    using probe_operation_Inr [OF that]
    by (auto simp: bind_account_def intro!: not_readied_same split: option.splits if_splits)
  show "not_readied d d'" if "claim_transaction sv call ok who now rid owner jid d = Inr (cl, d')"
    using that
    by (auto simp: claim_transaction_def claim_writes_def insert_run_def record_idempotent_def intro!: not_readied_same
        dest!: audit_controller split: if_splits)
  show "not_readied d d'" if "thread_transaction sv c t now d = Inr (u, d')"
    using that by (auto simp: thread_transaction_def started_transaction_def intro!: not_readied_same dest!: audit_controller)
  show "not_readied d d'" if "turn_transaction sv c t v now d = Inr (u, d')"
    using that by (auto simp: turn_transaction_def started_transaction_def intro!: not_readied_same dest!: audit_controller)
  show "not_readied d d'" if "safety_transaction sv c now d = Inr (b, d')"
    using that by (auto simp: safety_transaction_def intro!: not_readied_same split: if_splits option.splits)
  show "not_readied d d'" if fin: "finish_transaction sv call c r' failure overrun now d = Inr (j, d')"
  proof -
    obtain d1 where p: "pause_after r' now (set_job_state (cl_job c) (dispatch_job_state r') now
              (d\<lparr>runs_t := update_where (own_run c) (finished_run r' now) (runs_t d)\<rparr>)) = Inr d1"
      and d': "controller_t d' = controller_t d1"
      using fin by (auto simp: finish_transaction_def Let_def dest!: audit_controller)
    from p have "not_readied d d1"
      by (auto simp: pause_after_def set_job_state_def intro: not_readied_same not_readied_set_controller split: if_splits)
    with d' show ?thesis
      by (simp add: not_readied_def ready_def)
  qed
qed

text \<open>
  The interface for guard cycles: a relation that the tables of the guard and the audit log do not matter
  to, and that the App Server calls respect.
\<close>

locale guard_frame = frame: step_rel Q "\<lambda>_. True" for Q :: "db \<Rightarrow> db \<Rightarrow> bool" +
  fixes env :: genv
  assumes outside: "Q d (d\<lparr>sessions_t := x, targets_t := y, audit_t := z\<rparr>)"
    and respected: "env_respects Q env"
begin

lemma stable_outside: "stable h d e \<Longrightarrow> Q d e"
  using outside [where d = d and x = "sessions_t e" and y = "targets_t e" and z = "audit_t e"]
  by (simp add: stable_def outside_kept_def Let_def)

end

sublocale guard_frame \<subseteq> tables: step_rel "tables_rel Q" "\<lambda>_. True"
  by unfold_locales (auto simp: tables_rel_def intro: frame.refl frame.trans)

context guard_frame begin

lemma tables_on_db: "(\<And>d. stable h d (snd (m d))) \<Longrightarrow> tables.keeps (on_db m)"
  by (rule tables.keepsI) (simp add: tables_rel_on_db, rule stable_outside)

end

sublocale guard_frame \<subseteq> quiet "tables_rel Q" "\<lambda>_. True" env "\<lambda>_. True"
proof unfold_locales
  fix c g th n st now cs sst scs reason ev s extra
  show "tables.keeps (adapter_call env c)"
    by (rule tables.keepsI) (simp add: env_respectsD respected)
  show "tables.keeps (on_db (update_quota_guard_target g th (Some n) (Some st) now cs))"
    "tables.keeps (on_db (update_quota_guard_session g (Some n) (Some sst) now scs))"
    by (rule tables_on_db, rule stable_target_write stable_session_write)+
  show "tables.yields (on_db (update_quota_guard_target g th (Some n) (Some st) now cs)) (\<lambda>t. True)"
    by (rule tables.yields_True)
  show "tables.keeps (on_db (\<lambda>d. case recover_quota_guard_pending reason now d of (gs, d') \<Rightarrow> (Inr gs, d')))"
    using stable_recover by (intro tables_on_db) (simp split: prod.split, metis snd_conv)
  show "tables.keeps (audit_guard env ev s extra now)"
  proof (rule tables.keepsI)
    fix st
    show "tables_rel Q st (snd (audit_guard env ev s extra now st))"
      using audit_guard_cases [of env ev s extra now st]
      by (auto simp: tables_rel_def frame.refl intro: stable_outside stable_append_audit)
  qed
qed auto

context guard_frame begin

lemma cycle_kept: "Q d (c_db (snd (one_due_cycle env now allow signal \<lparr>c_db = d, c_log = []\<rparr>)))"
  using tables.keepsD [OF keeps_one_due_cycle, of "\<lparr>c_db = d, c_log = []\<rparr>" now allow signal]
  by (simp add: tables_rel_def)

end

text \<open>An App Server whose calls leave the database alone, whatever they answer.\<close>

definition silent :: "(acall list \<Rightarrow> acall \<Rightarrow> json res) \<Rightarrow> genv \<Rightarrow> genv" where
  "silent answers g = g\<lparr>ge_adapter := (\<lambda>calls c d. (answers (map fst calls) c, d))\<rparr>"

lemma silent_respects: "(\<And>d. Q d d) \<Longrightarrow> env_respects Q (silent answers g)"
  by (simp add: env_respects_def silent_def)

lemma not_readied_frame: "env_respects not_readied g \<Longrightarrow> guard_frame not_readied g"
  by unfold_locales (auto simp: not_readied_def ready_def)

lemma runs_exclude_frame: "env_respects runs_exclude g \<Longrightarrow> guard_frame runs_exclude g"
  by unfold_locales (auto simp: runs_exclude_def one_run_def active_runs_def)

interpretation silent_cycle: guard_frame not_readied "silent answers g" for answers g
  by (rule not_readied_frame) (rule silent_respects, rule readiness.refl)

lemma hold_never_readies:
  assumes "target \<in> {PAUSED, BLOCKED}" and "hold_transaction sv target reason set_at now d = Inr (u, e)"
  shows "not_readied d e"
  using hold_transaction_mode [OF assms(2,1)]
  by (auto simp: not_readied_def ready_def current_mode_def split: option.splits)

text \<open>What the others, the runner and the App Server have to respect.\<close>

definition surroundings_respect :: "(db \<Rightarrow> db \<Rightarrow> bool) \<Rightarrow> benv \<Rightarrow> bool" where
  "surroundings_respect R be \<longleftrightarrow>
     (\<forall>n d. R d (we_others (be_world be) n d)) \<and> (\<forall>n. env_respects R (be_guard be n))
     \<and> (\<exists>io. be_runner be = work_run io)"

lemma surroundings_runner: "surroundings_respect R be \<Longrightarrow> callback_runner (be_runner be)"
  unfolding surroundings_respect_def using app_server.callback_runner_axioms by fastforce

lemma ready_service: "surroundings_respect not_readied be \<Longrightarrow> service_rel not_readied be"
proof (intro service_rel.intro dispatch_rel.intro)
  assume *: "surroundings_respect not_readied be"
  show "callback_runner (be_runner be)"
    by (rule surroundings_runner [OF *])
  show "db_rel not_readied (\<lambda>_. True) (be_world be)"
    using * by unfold_locales (simp add: surroundings_respect_def)
  show "command_rel not_readied"
    by (rule readiness.command_rel_axioms)
  show "dispatch_rel_axioms not_readied (be_world be)"
    by unfold_locales (erule not_readied_dispatch)+
  have cycles: "guard_frame not_readied (be_guard be n)" for n
    using * by (intro not_readied_frame) (simp add: surroundings_respect_def)
  show "service_rel_axioms not_readied be"
  proof
    show "not_readied d (c_db (snd (one_due_cycle (be_guard be n) now allow signal \<lparr>c_db = d, c_log = []\<rparr>)))"
      for d n now allow signal
      by (rule guard_frame.cycle_kept [OF cycles])
  qed (erule readied_recover readied_safety_stop readied_dispatch_failed | rule hold_never_readies, assumption, assumption
      | rule not_readied_same, simp | drule audit_if_valid_controller, rule not_readied_same, assumption)+
qed

text \<open>
  The service never makes the controller ready. Whatever rounds a whole run consists of, with the App Server
  runner and any answers of its environment, and however it ends, the controller is ready afterwards only if
  it was ready before, provided that no other process resumes it meanwhile.
\<close>

theorem service_never_readies_controller:
  assumes "surroundings_respect not_readied be"
    and "ready (w_db (b_world (snd (run be max_cycles fuel s))))"
  shows "ready (w_db (b_world s))"
  using service_rel.run_keeps [OF ready_service [OF assms(1)], of s max_cycles fuel] assms(2)
  by (simp add: not_readied_def)

section \<open>One run at a time\<close>

lemma runs_same: "runs_t e = runs_t d \<Longrightarrow> runs_exclude d e"
  by (rule runs_exclude_fewer) (simp add: active_runs_def)

lemma recover_exclusive:
  assumes "recover_transaction sv who now d = Inr (x, e)"
  shows "runs_exclude d e"
  by (rule runs_exclude_fewer) (rule framed_active(2) [OF framed_recover [OF assms]])

lemma single_run_service: "surroundings_respect runs_exclude be \<Longrightarrow> service_rel runs_exclude be"
proof (intro service_rel.intro dispatch_rel.intro)
  assume *: "surroundings_respect runs_exclude be"
  show "callback_runner (be_runner be)"
    by (rule surroundings_runner [OF *])
  show "db_rel runs_exclude (\<lambda>_. True) (be_world be)"
    using * by unfold_locales (simp add: surroundings_respect_def)
  show "command_rel runs_exclude"
    by (rule run_exclusion.command_rel_axioms)
  show "dispatch_rel_axioms runs_exclude (be_world be)"
    by unfold_locales (erule probe_exclusive claim_exclusive callbacks_exclusive safety_exclusive finish_exclusive, assumption?)+
  have cycles: "guard_frame runs_exclude (be_guard be n)" for n
    using * by (intro runs_exclude_frame) (simp add: surroundings_respect_def)
  show "service_rel_axioms runs_exclude be"
  proof
    show "runs_exclude d (c_db (snd (one_due_cycle (be_guard be n) now allow signal \<lparr>c_db = d, c_log = []\<rparr>)))"
      for d n now allow signal
      by (rule guard_frame.cycle_kept [OF cycles])
    show "runs_exclude d e" if "hold_transaction sv target reason set_at now d = Inr (u, e)" for sv target reason set_at now d u e
      using that by (auto simp: hold_transaction_def set_controller_def intro!: runs_same dest!: audit_frame
          split: option.splits if_splits)
    show "runs_exclude d e" if "safety_stop_transaction sv reason who now d = Inr (i, e)" for sv reason who now d i e
      using that by (auto simp: safety_stop_transaction_def audit_if_valid_def set_controller_def intro!: runs_same
          dest!: audit_frame split: option.splits if_splits)
    show "runs_exclude d e" if "audit_if_valid sv ev who det now d = Inr (j, e)" for sv ev who det now d j e
      using that by (auto simp: audit_if_valid_def intro!: runs_same dest!: audit_frame split: if_splits)
    show "runs_exclude d e" if "dispatch_failed_transaction sv jid reason who now d = Inr (v, e)" for sv jid reason who now d v e
      using that by (auto simp: dispatch_failed_transaction_def audit_if_valid_def Let_def set_controller_def intro!: runs_same
          dest!: audit_frame split: option.splits if_splits)
  qed (erule recover_exclusive | rule runs_same, simp)+
qed

text \<open>
  C4. The service runs one package at a time. If at most one run is active when a whole run of the service
  starts, at most one is active when it ends, however it ends, while other processes commit whatever keeps
  that too.
\<close>

theorem service_keeps_single_run:
  assumes "surroundings_respect runs_exclude be" and "one_run (w_db (b_world s))"
  shows "one_run (w_db (b_world (snd (run be max_cycles fuel s))))"
  using service_rel.run_keeps [OF single_run_service [OF assms(1)], of s max_cycles fuel] assms(2)
  by (simp add: runs_exclude_def)

text \<open>The interface on the model: other dispatchers and commands in between, the App Server runner.\<close>

definition app_service :: "benv \<Rightarrow> (nat \<Rightarrow> dispatcher) \<Rightarrow> stdio \<Rightarrow> (acall list \<Rightarrow> acall \<Rightarrow> json res) \<Rightarrow> genv \<Rightarrow> benv" where
  "app_service be sched io answers g =
     be\<lparr>be_world := with_dispatchers (be_world be) sched, be_runner := work_run io, be_guard := (\<lambda>_. silent answers g)\<rparr>"

interpretation supervised: service_rel runs_exclude "app_service be sched io answers g" for be sched io answers g
proof (rule single_run_service)
  have "env_respects runs_exclude (silent answers g)"
    by (rule silent_respects) (rule run_exclusion.refl)
  then show "surroundings_respect runs_exclude (app_service be sched io answers g)"
    by (auto simp: surroundings_respect_def app_service_def with_dispatchers_def exclusive_dispatcher)
qed

section \<open>The lease is given back\<close>

definition lease_over :: "string \<Rightarrow> string \<Rightarrow> db \<Rightarrow> bool" where
  "lease_over lid owner_id d \<longleftrightarrow>
     (\<forall>r. service_lease_t d = Some r \<longrightarrow> sl_id r = lid \<longrightarrow> sl_owner r = owner_id \<longrightarrow> sl_state r = svc_released)"

lemma release_ends_lease: "release_service_lease lid owner_id now d = Inr (b, e) \<Longrightarrow> lease_over lid owner_id e"
  by (auto simp: release_service_lease_def lease_over_def split: option.splits if_splits)
    (metis service_lease_state.exhaust)

lemma lease_over_audit: "audit_if_valid sv ev who det now d = Inr (j, e) \<Longrightarrow> lease_over lid owner_id e = lease_over lid owner_id d"
  by (auto simp: audit_if_valid_def lease_over_def dest!: audit_frame split: if_splits)

definition any_change :: "db \<Rightarrow> db \<Rightarrow> bool" where
  "any_change d e \<longleftrightarrow> True"

lemma free_service:
  assumes "\<exists>io. be_runner be = work_run io"
  shows "service_rel any_change be"
proof (intro service_rel.intro dispatch_rel.intro)
  show "callback_runner (be_runner be)"
    using assms app_server.callback_runner_axioms by fastforce
  show "db_rel any_change (\<lambda>_. True) (be_world be)" "command_rel any_change"
    by (unfold_locales; simp add: any_change_def)+
  show "dispatch_rel_axioms any_change (be_world be)" "service_rel_axioms any_change be"
    by (unfold_locales; simp add: any_change_def)+
qed

lemma loop_keeps_lease:
  "\<exists>io. be_runner be = work_run io \<Longrightarrow> rounds be limit fuel cycles before s = (Inr v, s') \<Longrightarrow> b_lease s' = b_lease s"
  by (rule service_rel.loop_lease [OF free_service])

lemma acquire_lease: "acquire be s = (Inr lid, s') \<Longrightarrow> b_lease s' = Some lid"
  by (auto simp: acquire_def Let_def eff_Inr ecatch_reraise_Inr set_lease_def dest!: blocked_on_world)

lemma audit_keeps_over:
  assumes "\<And>n d. lease_over lid (be_owner be) d \<Longrightarrow> lease_over lid (be_owner be) (we_others (be_world be) n d)"
    and "lease_over lid (be_owner be) (w_db w)"
  shows "lease_over lid (be_owner be) (w_db (snd (supervisor_audit be ev det w)))"
proof -
  let ?env = "be_world be"
  let ?d = "we_others ?env (Suc (w_step w)) (w_db w)"
  have d: "lease_over lid (be_owner be) ?d"
    by (rule assms(1) [OF assms(2)])
  show ?thesis
  proof (cases "audit_if_valid (we_svc ?env) ev supervisor_name det (we_clock ?env (w_step w)) ?d")
    case (Inl e)
    with d show ?thesis by (simp add: supervisor_audit_def Let_def wstep_defs eff_defs)
  next
    case (Inr x)
    obtain j e where x: "x = (j, e)" by fastforce
    with Inr d lease_over_audit [OF Inr [unfolded x]] show ?thesis
      by (simp add: supervisor_audit_def Let_def wstep_defs eff_defs)
  qed
qed

lemma etry_state: "etry m s = (r, s') \<Longrightarrow> s' = snd (m s)"
  by (auto simp: etry_def eff_defs split: prod.splits sum.splits)

lemma release_over:
  assumes others: "\<And>n d. lease_over lid (be_owner be) d \<Longrightarrow> lease_over lid (be_owner be) (we_others (be_world be) n d)"
    and "b_lease s = Some lid" and "release be reason s = (Inr u, s')"
  shows "lease_over lid (be_owner be) (w_db (b_world s')) \<and> b_lease s' = None"
proof -
  from assms(2,3) obtain b s1 x s2 where
      r: "on_world (release_world be lid) s = (Inr b, s1)"
    and a: "\<exists>det. etry (on_world (supervisor_audit be ''background.stopped'' det)) s1 = (Inr x, s2)"
    and s': "s' = s2\<lparr>b_lease := None\<rparr>"
    by (auto simp: release_def eff_Inr bget_def set_lease_def) blast
  have "lease_over lid (be_owner be) (w_db w')" if "release_world be lid w = (Inr b, w')" for w w'
    using that by (auto simp: release_world_def wstep_defs eff_defs dest: release_ends_lease split: sum.splits prod.splits)
  from this [OF conjunct1 [OF blocked_on_world [OF r]]] have "lease_over lid (be_owner be) (w_db (b_world s1))" .
  from audit_keeps_over [OF others this] a have "lease_over lid (be_owner be) (w_db (b_world s2))"
    by (auto simp: on_world_def dest!: etry_state split: prod.splits) (metis snd_conv)
  then show ?thesis
    by (simp add: s')
qed

text \<open>
  The lease is given back. A run of the service that returns has released the lease it reports: no
  active lease with that identifier and owner is left, and the supervisor remembers none, provided that no
  other process revives it.
\<close>

theorem finished_service_holds_no_lease:
  assumes "run be max_cycles fuel s = (Inr (Some (lid, report)), s')"
    and "be_runner be = work_run io"
    and "\<And>n d. lease_over lid (be_owner be) d \<Longrightarrow> lease_over lid (be_owner be) (we_others (be_world be) n d)"
  shows "lease_over lid (be_owner be) (w_db (b_world s')) \<and> b_lease s' = None"
proof -
  have io: "\<exists>io. be_runner be = work_run io"
    using assms(2) by blast
  from assms(1) obtain s1 s2 u where
      a: "acquire be s1 = (Inr lid, s2)"
    and "rounds be (nat max_cycles) fuel 0 None s2 = (Inr (Some report), u)"
    and r: "release be (bg_stop report) u = (Inr (), s')"
    by (auto simp: run_def eff_Inr ecatch_reraise_Inr split: option.splits)
  then have "b_lease u = Some lid"
    using loop_keeps_lease [OF io] acquire_lease [OF a] by simp
  from release_over [OF assms(3) this r] show ?thesis .
qed

end
