(* ===== verification/ServiceScenarios.thy ===== *)
theory ServiceScenarios
  imports WorldScenarios GuardScenarios BackgroundSafety
begin

text \<open>
  Concrete runs of the service's parts, used to witness that the hypotheses of their properties can hold: a
  guard is armed and held, a notice is delivered, and the two preflights find nothing.
\<close>

section \<open>Arming a guard\<close>

definition arming_sv :: svc where
  "arming_sv = demo_sv\<lparr>sv_config := sample_config\<rparr>"

definition demo_plan :: json where
  "demo_plan = JObj
     [(''schema_version'', JStr ''1''), (''threshold_remaining_percent'', JInt 10),
      (''check_interval_seconds'', JInt 60), (''target_thread_ids'', JArr [JStr ''t1'']),
      (''resume_non_goal_threads'', JBool False)]"

definition arming_approval :: json where
  "arming_approval = approval_dict \<lparr>approval_id = ''ap1'', actor = ''user'', action = ''quota-guard.arm'',
     scope_hash = demo_digest, capabilities = [''quota_guard.thread.control''], granted_at = 1000, expires_at = 2000\<rparr>"

definition arm_run :: "(err + command_result) \<times> db" where
  "arm_run = quota_guard_arm arming_sv demo_plan arming_approval ''k1'' ''user'' 1010 1010 ''g1'' (demo_db READY)"

lemma arm_run_changes: "sessions_t (snd arm_run) \<noteq> []"
  by code_simp

theorem quota_guard_arm_is_approved_witness:
  "signal_accepted arming_sv 1010 (demo_db READY) \<and> sessions_t (snd arm_run) \<noteq> []"
proof -
  have "snd arm_run \<noteq> demo_db READY"
    using arm_run_changes by (auto simp: demo_db_def empty_db_def)
  moreover have "config_ok (sv_config arming_sv)"
    using sample_config_ok by (simp add: arming_sv_def)
  ultimately show ?thesis
    using quota_guard_arm_is_approved [of arming_sv demo_plan arming_approval "''k1''" "''user''" 1010 1010 "''g1''" "demo_db READY"]
      arm_run_changes
    by (auto simp: arm_run_def)
qed

section \<open>A held guard\<close>

definition holding_world :: wst where
  "holding_world = demo_world (held_db\<lparr>controller_t := controller_t (demo_db READY)\<rparr>)"

definition holding_run :: "(err + guard_cycle) \<times> wst" where
  "holding_run = quota_guard_cycle demo_env (\<lambda>_. held_env) True (Some False) holding_world"

fun cycle_states :: "guard_cycle \<Rightarrow> guard_session_state list" where
  "cycle_states (Guard_checked report) = map oc_state (outcomes report)"
| "cycle_states _ = []"

lemma holding_run_holds: "map_sum id cycle_states (fst holding_run) = Inr [HELD_QUOTA]"
  by code_simp

theorem quota_guard_cycle_holds_controller_witness:
  "\<exists>m. current_mode (w_db (snd holding_run)) = Inr m \<and> m \<noteq> READY"
proof -
  obtain g where g: "fst holding_run = Inr g" "cycle_states g = [HELD_QUOTA]"
    using map_sum_Inr [OF holding_run_holds] by blast
  then obtain report where "g = Guard_checked report"
    by (cases g) auto
  with g have run: "holding_run = (Inr (Guard_checked report), snd holding_run)"
      and held: "set (map oc_state (outcomes report)) \<inter> {STOPPING, HELD_QUOTA, RESUMING, NEEDS_REVIEW} \<noteq> {}"
    by (simp_all add: prod_eq_iff)
  from quota_guard_cycle_holds_controller [OF run [unfolded holding_run_def] held] show ?thesis
    by (auto simp: holding_run_def)
qed

section \<open>The preflights\<close>

lemma demo_undisturbed: "undisturbed demo_env 1010 [''ok'']"
  by (simp add: undisturbed_def demo_env_def)

definition checked_run :: "(err + preflight) \<times> wst" where
  "checked_run = dispatch_preflight demo_env (Some ''j1'') (demo_world dispatch_db)"

lemma checked_run_safe: "\<exists>pf. fst checked_run = Inr pf \<and> safe_to_dispatch pf"
proof -
  obtain c where sel: "select_dispatch_candidate demo_sv 1010 (Some ''j1'') dispatch_db = Inr (Some c, [])"
    using selection_run by blast
  have names: "validate_identifier (JStr ''j1'') = Inr ''j1''" "require_capability demo_sv ''work.dispatch'' = Inr ()" by code_simp+
  have mode: "controller dispatch_db = Inr \<lparr>mode = READY, controller_reason = None, controller_updated_at = 900\<rparr>"
    "list_quota_guard_sessions None None dispatch_db = Inr []" "list_runs dispatch_db = []"
    "reconciliation_candidates 1010 dispatch_db = []" "run_reconciliation_candidates 1010 dispatch_db = []"
    "cfg_dispatch_enabled demo_config"
    by code_simp+
  show ?thesis
    by (simp add: checked_run_def dispatch_preflight_def demo_env_def demo_world_def wstep_defs eff_defs names mode
        dispatch_facts dispatch_tables sel verify_audit_def check_passed_def safe_to_dispatch_def guard_issues_def)
qed


lemma checked_run_steps: "\<exists>pf. checked_run = (Inr pf, snd checked_run) \<and> safe_to_dispatch pf"
  using checked_run_safe by (metis prod.collapse)

theorem dispatch_preflight_agrees_with_claim_witness:
  "\<exists>c. claim_guards demo_sv True 1010 ''j1'' dispatch_db = Inr c"
proof -
  obtain pf where pf: "checked_run = (Inr pf, snd checked_run)" "safe_to_dispatch pf"
    using checked_run_steps by blast
  from dispatch_preflight_agrees_with_claim [OF demo_undisturbed pf(1) [unfolded checked_run_def]] pf(2) show ?thesis
    by (auto simp: demo_env_def demo_world_def check_passed_def)
qed

lemma selection_scan:
  "map_sum id (\<lambda>(c, _). map_option cand_job c) (select_dispatch_candidate demo_sv 1010 None dispatch_db) = Inr (Some ''j1'')"
  by code_simp


lemma demo_jobs: "jobs_t dispatch_db = [demo_job_row]"
  by (simp add: dispatch_db_def demo_db_def)

lemma demo_audit_open: "audit_t d = [] \<Longrightarrow> audit_open demo_sv 1010 d"
  by (simp add: audit_open_def audit_def append_audit_def Let_def)

theorem safe_preflight_is_claimed_witness:
  "\<exists>cl d'. claim_transaction demo_sv demo_call True ''user'' 1010 ''run_0a'' ''o1'' ''j1'' (w_db (snd checked_run)) = Inr (cl, d')
     \<and> job_state_of ''j1'' d' = Some running"
proof -
  obtain pf where pf: "checked_run = (Inr pf, snd checked_run)" "safe_to_dispatch pf"
    using checked_run_steps by blast
  have ids: "distinct (map jr_id (jobs_t (w_db (demo_world dispatch_db))))" "valid_key (dc_key demo_call)"
      "''run_0a'' \<notin> set (map rn_id (runs_t (w_db (demo_world dispatch_db))))"
      "dc_key demo_call \<notin> set (map idem_key (idem_t (w_db (demo_world dispatch_db))))"
    by (simp_all add: demo_world_def demo_call_def dispatch_tables valid_key_def demo_jobs)
  have "audit_open (we_svc demo_env) 1010 (w_db (demo_world dispatch_db))"
    by (simp add: demo_env_def demo_world_def demo_audit_open dispatch_tables)
  from safe_preflight_is_claimed [OF demo_undisturbed pf(1) [unfolded checked_run_def] pf(2) ids(1,3,2,4) this, of "''user''" "''o1''"] show ?thesis
    unfolding checked_run_def by (auto simp: demo_env_def check_passed_def)
qed

lemma demo_approval_read:
  "map_sum id (\<lambda>a. (approval_id a, require_approval a ''resume'' demo_digest ''control.local.write''))
     (validate_approval (demo_approval ''resume'') 1010 False) = Inr (''ap1'', Inr ())"
  by code_simp

definition ready_check :: "(err + readiness) \<times> wst" where
  "ready_check = preflight demo_env None None (demo_world (demo_db PAUSED))"

lemma ready_check_safe: "map_sum id (\<lambda>rd. (safe_to_resume rd, rd_mode rd)) (fst ready_check) = Inr (True, PAUSED)"
  by code_simp

theorem safe_preflight_allows_resume_witness:
  "\<exists>r d'. resume demo_sv (demo_approval ''resume'') ''k1'' ''user'' 1010 (w_db (snd ready_check)) = (Inr (r, False), d') \<and> ready d'"
proof -
  obtain rd where rd: "fst ready_check = Inr rd" "safe_to_resume rd" "rd_mode rd = PAUSED"
    using map_sum_Inr [OF ready_check_safe] by blast
  then have run: "preflight demo_env None None (demo_world (demo_db PAUSED)) = (Inr rd, snd ready_check)"
    by (simp add: ready_check_def prod_eq_iff)
  obtain a where a: "validate_approval (demo_approval ''resume'') 1010 False = Inr a"
      "approval_id a = ''ap1''" "require_approval a ''resume'' demo_digest ''control.local.write'' = Inr ()"
    using map_sum_Inr [OF demo_approval_read] by (auto simp: require_approval_def)
  have free: "approval_id a \<notin> set (map appr_id (approvals_t (w_db (demo_world (demo_db PAUSED)))))" "valid_key ''k1''"
      "''k1'' \<notin> set (map idem_key (idem_t (w_db (demo_world (demo_db PAUSED)))))"
      "audit_open (we_svc demo_env) 1010 (w_db (demo_world (demo_db PAUSED)))"
    by (simp_all add: demo_world_def demo_env_def demo_db_def empty_db_def valid_key_def demo_audit_open)
  have who: "require_capability (we_svc demo_env) ''control.local.write'' = Inr ()" "valid_actor ''user'' = Inr ''user''"
    by code_simp+
  have "require_approval a ''resume'' (payload_hash (sv_host (we_svc demo_env)) resume_scope) ''control.local.write'' = Inr ()"
    using a(3) by (simp add: demo_env_def)
  moreover have "rd_mode rd \<noteq> READY"
    using rd(3) by simp
  ultimately show ?thesis
    using safe_preflight_allows_resume [OF demo_undisturbed run rd(2) _ who a(1) _ free] by (simp add: demo_env_def)
qed


definition prepare_run :: "(err + approval_request) \<times> wst" where
  "prepare_run = approval_prepare demo_env ''resume'' None ''user'' 600 (demo_world (demo_db PAUSED))"

lemma prepare_run_ok: "map_sum id (\<lambda>rq. rq_capability (aq_requirement rq)) (fst prepare_run) = Inr ''control.local.write''"
  by code_simp

theorem prepared_requirement_is_demanded_witness:
  "\<exists>rq. fst prepare_run = Inr rq
     \<and> consumed_approval (demo_approval ''resume'') 1010 ''resume'' (rq_scope (aq_requirement rq)) ''control.local.write''
         (demo_db PAUSED) (snd resume_run)"
proof -
  obtain rq where rq: "fst prepare_run = Inr rq" "rq_capability (aq_requirement rq) = ''control.local.write''"
    using map_sum_Inr [OF prepare_run_ok] by blast
  then have run: "approval_prepare demo_env ''resume'' None ''user'' 600 (demo_world (demo_db PAUSED)) = (Inr rq, snd prepare_run)"
    by (simp add: prepare_run_def prod_eq_iff)
  have "mode (the (controller_t (snd resume_run))) = READY" "mode (the (controller_t (demo_db PAUSED))) = PAUSED"
    by code_simp+
  then have "snd resume_run \<noteq> demo_db PAUSED"
    by auto
  with prepared_requirement_is_demanded [OF run, of "demo_approval ''resume''" "''k1''" "''user''" 1010 "demo_db PAUSED"] rq
  show ?thesis
    by (simp add: resume_run_def demo_env_def)
qed

section \<open>A notice\<close>

definition demo_bus :: bus where
  "demo_bus = \<lparr>bus_kind = ''file'', bus_accepts = (\<lambda>_ _. True)\<rparr>"

definition demo_notice :: notice where
  "demo_notice = \<lparr>no_type = ''hold'', no_dedupe = ''hold-1'', no_kind = ''controller'', no_subject = None,
     no_reason = Some ''NO_ELIGIBLE_JOB'', no_details = JObj [(''controller_mode'', JStr ''READY'')]\<rparr>"

definition notice_run :: "(err + emitted) \<times> wst" where
  "notice_run = emit_note demo_env demo_bus demo_notice (demo_world empty_db)"

lemma notice_run_delivers: "map_sum id em_delivered (fst notice_run) = Inr True"
  by code_simp

theorem emitted_notes_are_redacted_and_delivered_once_witness:
  "\<exists>r \<in> set (notifications_t (w_db (snd notice_run))). nt_dedupe r = ''hold-1'' \<and> nt_delivered r \<noteq> None \<and> redacted_event (nt_event r)"
proof -
  obtain em where em: "fst notice_run = Inr em"
    using map_sum_Inr [OF notice_run_delivers] by blast
  then have run: "emit_note demo_env demo_bus demo_notice (demo_world empty_db) = (Inr em, snd notice_run)"
    by (simp add: notice_run_def prod_eq_iff)
  have "notes_kept d (we_others demo_env n d)" for n d
    by (simp add: demo_env_def noting.refl)
  moreover have "notes_ok (w_db (demo_world empty_db))"
    by (simp add: notes_ok_def demo_world_def empty_db_def)
  ultimately show ?thesis
    using emitted_notes_are_redacted_and_delivered_once [OF _ _ run] by (auto simp: demo_notice_def)
qed

end
