(* ===== verification/Refinement.thy ===== *)
theory Refinement
  imports BackgroundSafety
begin

text \<open>
  An abstract machine of what may happen to the scheduler: its state is the controller mode, the approvals
  used up, the jobs admitted and the policy. Anything may make it stricter; a first policy is installed for free; to become ready, to admit a job, to
  change the policy and to reconcile each use up an approval that was not used before. The lemmas show by
  simulation that every command of the controller, and whole runs of the service, are paths of this machine.
\<close>

section \<open>The abstract machine\<close>

record permits =
  pm_mode :: "controller_mode option"
  pm_used :: "string set"
  pm_jobs :: "string set"
  pm_policy :: "json option"

inductive permit_step :: "permits \<Rightarrow> permits \<Rightarrow> bool" where
  restrict: "pm_used t = pm_used s \<Longrightarrow> pm_jobs t = pm_jobs s \<Longrightarrow> pm_policy t = pm_policy s
    \<Longrightarrow> (pm_mode t = Some READY \<Longrightarrow> pm_mode s = Some READY) \<Longrightarrow> permit_step s t"
| make_ready: "a \<notin> pm_used s \<Longrightarrow> pm_used t = insert a (pm_used s) \<Longrightarrow> pm_jobs t = pm_jobs s \<Longrightarrow> pm_policy t = pm_policy s
    \<Longrightarrow> pm_mode t = Some READY \<Longrightarrow> permit_step s t"
| admit: "a \<notin> pm_used s \<Longrightarrow> pm_used t = insert a (pm_used s) \<Longrightarrow> j \<notin> pm_jobs s \<Longrightarrow> pm_jobs t = insert j (pm_jobs s)
    \<Longrightarrow> pm_policy t = pm_policy s \<Longrightarrow> pm_mode t = pm_mode s \<Longrightarrow> permit_step s t"
| change_policy: "a \<notin> pm_used s \<Longrightarrow> pm_used t = insert a (pm_used s) \<Longrightarrow> pm_jobs t = pm_jobs s
    \<Longrightarrow> pm_mode t \<noteq> Some READY \<Longrightarrow> permit_step s t"
| spend: "a \<notin> pm_used s \<Longrightarrow> pm_used t = insert a (pm_used s) \<Longrightarrow> pm_jobs t = pm_jobs s \<Longrightarrow> pm_policy t = pm_policy s
    \<Longrightarrow> (pm_mode t = Some READY \<Longrightarrow> pm_mode s = Some READY) \<Longrightarrow> permit_step s t"
| install: "pm_policy s = None \<Longrightarrow> pm_used t = pm_used s \<Longrightarrow> pm_jobs t = pm_jobs s
    \<Longrightarrow> (pm_mode t = Some READY \<Longrightarrow> pm_mode s = Some READY) \<Longrightarrow> permit_step s t"

inductive_cases permit_stepE: "permit_step s t"

text \<open>What a path gains: readiness, jobs, another policy than the one installed first. Each costs an approval.\<close>

definition gained :: "permits \<Rightarrow> permits \<Rightarrow> nat" where
  "gained s t =
     of_bool (pm_mode t = Some READY \<and> pm_mode s \<noteq> Some READY) + card (pm_jobs t - pm_jobs s)
     + of_bool (pm_policy s \<noteq> None \<and> pm_policy t \<noteq> pm_policy s)"

definition paid :: "permits \<Rightarrow> permits \<Rightarrow> bool" where
  "paid s t \<longleftrightarrow> pm_used s \<subseteq> pm_used t \<and> pm_jobs s \<subseteq> pm_jobs t \<and> finite (pm_used t - pm_used s)
     \<and> finite (pm_jobs t - pm_jobs s) \<and> gained s t \<le> card (pm_used t - pm_used s)"

lemma card_insert_new:
  assumes "finite (A - B)" and "B \<subseteq> A" and "a \<notin> A"
  shows "card (insert a A - B) = Suc (card (A - B)) \<and> finite (insert a A - B)"
proof -
  have "insert a A - B = insert a (A - B)" using assms by blast
  with assms show ?thesis by simp
qed

lemma paid_step:
  assumes "paid r s" and "permit_step s t"
  shows "paid r t"
  using assms(2)
proof (cases rule: permit_step.cases)
  case restrict
  with assms(1) show ?thesis
    by (auto simp: paid_def gained_def)
next
  case (make_ready a)
  with assms(1) show ?thesis
    using card_insert_new [of "pm_used s" "pm_used r" a] by (auto simp: paid_def gained_def)
next
  case (admit a j)
  with assms(1) show ?thesis
    using card_insert_new [of "pm_used s" "pm_used r" a] card_insert_new [of "pm_jobs s" "pm_jobs r" j]
    by (auto simp: paid_def gained_def)
next
  case (change_policy a)
  with assms(1) show ?thesis
    using card_insert_new [of "pm_used s" "pm_used r" a] by (auto simp: paid_def gained_def)
next
  case (spend a)
  with assms(1) show ?thesis
    using card_insert_new [of "pm_used s" "pm_used r" a] by (auto simp: paid_def gained_def)
next
  case install
  with assms(1) show ?thesis
    by (auto simp: paid_def gained_def)
qed

lemma path_paid: "permit_step\<^sup>*\<^sup>* s t \<Longrightarrow> paid s t"
proof (induction rule: rtranclp_induct)
  case base
  show ?case by (simp add: paid_def gained_def)
qed (rule paid_step)

section \<open>The simulation relation\<close>

definition permits_of :: "db \<Rightarrow> permits" where
  "permits_of d = \<lparr>pm_mode = map_option mode (controller_t d), pm_used = set (map appr_id (approvals_t d)),
     pm_jobs = set (map jr_id (jobs_t d)), pm_policy = map_option policy_json (policies_t d)\<rparr>"

lemma permits_of_simps [simp]:
  "pm_mode (permits_of d) = map_option mode (controller_t d)"
  "pm_used (permits_of d) = set (map appr_id (approvals_t d))"
  "pm_jobs (permits_of d) = set (map jr_id (jobs_t d))"
  "pm_policy (permits_of d) = map_option policy_json (policies_t d)"
  by (simp_all add: permits_of_def)

definition permitted :: "db \<Rightarrow> db \<Rightarrow> bool" where
  "permitted d e \<longleftrightarrow> permit_step\<^sup>*\<^sup>* (permits_of d) (permits_of e)"

lemma permitted_step: "permit_step (permits_of d) (permits_of e) \<Longrightarrow> permitted d e"
  by (simp add: permitted_def r_into_rtranclp)

interpretation permitting: command_rel permitted
proof unfold_locales
  show "permitted d d" for d
    by (simp add: permitted_def)
  show "permitted d e \<Longrightarrow> permitted e f \<Longrightarrow> permitted d f" for d e f
    by (simp add: permitted_def)
  show "permitted d e \<Longrightarrow> permitted d (e\<lparr>idem_t := x\<rparr>)" for d e x
    by (simp add: permitted_def permits_of_def)
qed

text \<open>Operations that leave approvals, job identifiers and policy alone and do not make it ready.\<close>

definition same_permits :: "db \<Rightarrow> db \<Rightarrow> bool" where
  "same_permits d e \<longleftrightarrow> map appr_id (approvals_t e) = map appr_id (approvals_t d)
     \<and> map jr_id (jobs_t e) = map jr_id (jobs_t d) \<and> policies_t e = policies_t d"

lemma ready_mode: "ready d \<longleftrightarrow> map_option mode (controller_t d) = Some READY"
  by (auto simp: ready_def)

lemma permitted_restrict: "same_permits d e \<Longrightarrow> not_readied d e \<Longrightarrow> permitted d e"
  by (rule permitted_step, rule restrict)
     (simp_all add: same_permits_def not_readied_def ready_mode del: set_map flip: set_map)


lemma same_permits_frame [simp]:
  "same_permits d (set_controller m r now e) \<longleftrightarrow> same_permits d e"
  "same_permits d (set_job_state j st now e) \<longleftrightarrow> same_permits d e"
  "same_permits d d"
  by (simp_all add: same_permits_def set_controller_def set_job_state_def map_update_where)

lemma same_permits_audit: "audit sv ev who det now e = Inr (i, f) \<Longrightarrow> same_permits d f = same_permits d e"
  by (auto simp: same_permits_def dest!: audit_frame)

lemma same_permits_audit_if_valid:
  "audit_if_valid sv ev who det now e = Inr (i, f) \<Longrightarrow> same_permits d f = same_permits d e"
  by (auto simp: audit_if_valid_def dest: same_permits_audit split: if_splits)

lemma same_permits_expire: "same_permits d (snd (expire_lease b now c acc)) = same_permits d (snd acc)"
proof (cases acc)
  case (Pair ids e)
  then show ?thesis
    by (simp add: expire_lease_def Let_def) (simp add: same_permits_def)
qed

lemma same_permits_fence: "same_permits d (snd (fence_run now c acc)) = same_permits d (snd acc)"
proof (cases acc)
  case (Pair ids e)
  then show ?thesis
    by (simp add: fence_run_def Let_def split: option.split) (simp add: same_permits_def)
qed

lemmas same_permits_fences =
  fold_frame [where g = "same_permits d" and f = "expire_lease b now" for d b now, OF same_permits_expire]
  fold_frame [where g = "same_permits d" and f = "fence_run now" for d now, OF same_permits_fence]


section \<open>The commands\<close>

lemma permitted_queue:
  "propose_operation sv who now p d = Inr (r, e) \<Longrightarrow> permitted d e"
  "cancel_operation sv who now jid d = Inr (r, e) \<Longrightarrow> permitted d e"
proof -
  assume op: "propose_operation sv who now p d = Inr (r, e)"
  then have "same_permits d e"
    by (auto simp: propose_operation_def Let_def same_permits_def dest!: audit_frame split: if_splits)
  with readied_operations(1) [OF op] show "permitted d e"
    by (rule permitted_restrict [rotated])
next
  assume op: "cancel_operation sv who now jid d = Inr (r, e)"
  then have "same_permits d e"
    by (auto simp: cancel_operation_def same_permits_audit split: option.splits if_splits)
  with readied_operations(4) [OF op] show "permitted d e"
    by (rule permitted_restrict [rotated])
qed

lemma permitted_admission:
  "approve_operation sv who now jid p hash a d = Inr (r, e) \<Longrightarrow> permitted d e"
  "submit_operation sv who now j a d = Inr (r, e) \<Longrightarrow> permitted d e"
  by (rule permitted_step, rule admit;
      auto simp: approve_operation_def submit_operation_def insert_approval_Inr insert_job_def Let_def
        dest!: audit_frame split: option.splits if_splits)+

lemma permitted_policy_set: "policy_set_operation sv who now p a d = Inr (r, e) \<Longrightarrow> permitted d e"
  by (rule permitted_step, rule change_policy [where a = "approval_id a"])
     (auto simp: policy_set_operation_def insert_approval_Inr set_controller_def Let_def dest!: audit_frame
      split: option.splits)

lemma permitted_set_mode:
  assumes "m \<noteq> READY" and "set_mode_operation sv who now command m reason d = Inr (r, e)"
  shows "permitted d e"
proof (rule permitted_restrict [OF _ readied_set_mode [OF assms]])
  show "same_permits d e"
    using assms(2) by (auto simp: set_mode_operation_def same_permits_audit)
qed

lemma permitted_resume: "resume_operation sv who now a d = Inr (r, e) \<Longrightarrow> permitted d e"
  by (rule permitted_step, rule make_ready [where a = "approval_id a"])
     (auto simp: resume_operation_def insert_approval_Inr set_controller_def current_mode_def dest!: audit_frame
      split: option.splits)

lemma fence_expired_same_permits:
  "fence_expired b now ls rs d = (lids, rids, e) \<Longrightarrow> same_permits c e = same_permits c d"
proof -
  assume "fence_expired b now ls rs d = (lids, rids, e)"
  then have "e = snd (fold (fence_run now) rs ([], snd (fold (expire_lease b now) ls ([], d))))"
    by (simp add: fence_expired_def case_prod_beta Let_def)
  then show ?thesis
    by (simp add: same_permits_fences)
qed

lemma permitted_reconcile:
  assumes op: "reconcile_operation sv who now ls rs a d = Inr (r, e)"
  shows "permitted d e"
proof -
  from op obtain d1 where d1: "insert_approval sv a d = Inr ((), d1)"
    by (auto simp: reconcile_operation_def)
  obtain lids rids d2 where f: "fence_expired False now ls rs d1 = (lids, rids, d2)"
    by (cases "fence_expired False now ls rs d1") auto
  have "same_permits d1 e"
    using op d1 f fence_expired_same_permits [OF f, of d1]
    by (auto simp: reconcile_operation_def Let_def same_permits_audit)
  with d1 readied_reconcile [OF op] show ?thesis
    by (intro permitted_step spend [where a = "approval_id a"])
       (auto simp: same_permits_def insert_approval_Inr not_readied_def ready_mode simp flip: set_map)
qed

lemma permitted_recover:
  assumes op: "recover_transaction sv who now d = Inr (r, e)"
  shows "permitted d e"
proof (rule permitted_restrict [OF _ readied_recover [OF op]])
  show "same_permits d e"
    using op by (auto simp: recover_transaction_def case_prod_beta Let_def same_permits_audit same_permits_fences split: if_splits)
qed

lemma permitted_stop: "safety_stop_transaction sv reason who now d = Inr (r, e) \<Longrightarrow> permitted d e"
proof (rule permitted_restrict [OF _ readied_safety_stop])
  show "same_permits d e" if "safety_stop_transaction sv reason who now d = Inr (r, e)"
    using that by (auto simp: safety_stop_transaction_def same_permits_audit_if_valid split: option.splits if_splits)
qed

lemma permitted_failed: "dispatch_failed_transaction sv jid reason who now d = Inr (r, e) \<Longrightarrow> permitted d e"
proof (rule permitted_restrict [OF _ readied_dispatch_failed])
  show "same_permits d e" if "dispatch_failed_transaction sv jid reason who now d = Inr (r, e)"
    using that
    by (auto simp: dispatch_failed_transaction_def Let_def same_permits_audit_if_valid split: option.splits if_splits)
       (simp_all add: same_permits_def map_update_where)
qed

lemma permitted_commands:
  "permitting.keeps (queue_propose sv v key who now)" "permitting.keeps (queue_approve sv jid av key who now)"
  "permitting.keeps (queue_submit sv v av key who now)" "permitting.keeps (queue_cancel sv jid key who now)"
  "permitting.keeps (policy_set sv v av key who now)" "permitting.keeps (pause sv reason key who now)"
  "permitting.keeps (stop sv reason key who now)" "permitting.keeps (resume sv av key who now)"
  "permitting.keeps (reconcile sv av key who now)" "permitting.keeps (background_recover sv who now)"
  "permitting.keeps (background_safety_stop sv reason who now)"
  "permitting.keeps (background_dispatch_failed sv jid reason who now)"
  unfolding queue_propose_def queue_approve_def queue_submit_def queue_cancel_def policy_set_def pause_def
    stop_def set_mode_def resume_def reconcile_def background_recover_def background_safety_stop_def
    background_dispatch_failed_def
  by (intro keeps_intros permitting.keeps_plain_command permitting.keeps_approved_command permitting.keeps_transact;
      (rule permitted_queue permitted_admission permitted_policy_set permitted_resume permitted_reconcile
        permitted_recover permitted_stop permitted_failed permitted_set_mode [rotated], assumption, simp?))+

lemma permitted_peer_step: "permitted d (peer_step sv p d)"
  using permitted_commands [THEN permitting.keepsD, of d] by (cases p) (auto simp: permitting.refl)


text \<open>Arming a guard spends its approval; disarming and the hold of a guard cost nothing.\<close>

lemma permitted_arm: "arm_operation sv who now g sc a d = Inr (r, e) \<Longrightarrow> permitted d e"
  by (rule permitted_step, rule spend [where a = "approval_id a"])
     (auto simp: arm_operation_def insert_approval_Inr Let_def dest!: insert_armed_Inr audit_frame)

lemma permitted_quota_guard:
  "permitting.keeps (quota_guard_arm sv pv av key who now t g)" "permitting.keeps (quota_guard_disarm sv i key who now)"
proof -
  show "permitting.keeps (quota_guard_arm sv pv av key who now t g)"
    unfolding quota_guard_arm_def Let_def
    by (intro keeps_intros permitting.keeps_approved_command) (rule permitted_arm)
  have "same_permits d e" "not_readied d e" if "disarm_operation sv who' now i' d = Inr (r, e)" for who' i' d r e
    using that by (auto simp: disarm_operation_def Let_def same_permits_def intro!: not_readied_same dest!: audit_frame
        split: option.splits if_splits)
  then show "permitting.keeps (quota_guard_disarm sv i key who now)"
    unfolding quota_guard_disarm_def
    by (intro keeps_intros permitting.keeps_plain_command permitted_restrict)
qed

lemma permitted_hold:
  assumes "target \<in> {PAUSED, BLOCKED}" and "hold_transaction sv target reason set_at now d = Inr (u, e)"
  shows "permitted d e"
proof (rule permitted_restrict [OF _ hold_never_readies [OF assms]])
  show "same_permits d e"
    using assms(2) by (auto simp: hold_transaction_def same_permits_audit split: option.splits if_splits)
qed

text \<open>
  The commands implement the abstract machine. Whatever commands any processes run, in any order and
  whether they succeed or not, the path of the database is a path of the machine: the controller becomes
  ready, a job is admitted, the policy changes and expired work is reconciled only in a step that uses up an
  approval that was never used before. The same holds for arming and disarming a quota guard.
\<close>

theorem commands_refine_permits:
  "permit_step\<^sup>*\<^sup>* (permits_of d) (permits_of (fold (peer_step sv) ps d))
   \<and> permit_step\<^sup>*\<^sup>* (permits_of d) (permits_of (snd (quota_guard_arm sv pv av key who now t g d)))
   \<and> permit_step\<^sup>*\<^sup>* (permits_of d) (permits_of (snd (quota_guard_disarm sv i key who now d)))"
proof -
  have "permitted d (fold (peer_step sv) ps d)"
    by (induction ps arbitrary: d) (auto intro: permitting.refl permitting.trans permitted_peer_step)
  then show ?thesis
    using permitted_quota_guard [THEN permitting.keepsD, of d] by (simp add: permitted_def)
qed

section \<open>The service\<close>

lemma permitted_dispatch:
  "probe_operation sv who now i m d = Inr (r, e) \<Longrightarrow> permitted d e"
  "claim_transaction sv call ok who now rid owner jid d = Inr (cl, d') \<Longrightarrow> permitted d d'"
  "thread_transaction sv c t now d = Inr (u, d') \<Longrightarrow> permitted d d'"
  "turn_transaction sv c t v now d = Inr (u, d') \<Longrightarrow> permitted d d'"
  "safety_transaction sv c now d = Inr (b, d') \<Longrightarrow> permitted d d'"
  "finish_transaction sv call c r' failure overrun now d = Inr (j, d') \<Longrightarrow> permitted d d'"
proof -
  show "permitted d e" if op: "probe_operation sv who now i m d = Inr (r, e)"
  proof (rule permitted_restrict [OF _ not_readied_dispatch(1) [OF op]])
    show "same_permits d e"
      using probe_operation_Inr [OF op] by (auto simp: bind_account_def same_permits_def split: option.splits if_splits)
  qed
  show "permitted d d'" if op: "claim_transaction sv call ok who now rid owner jid d = Inr (cl, d')"
  proof (rule permitted_restrict [OF _ not_readied_dispatch(2) [OF op]])
    show "same_permits d d'"
      using op by (auto simp: claim_transaction_def claim_writes_def insert_run_def record_idempotent_def same_permits_def
          map_update_where dest!: audit_frame split: if_splits)
  qed
  show "permitted d d'" if op: "thread_transaction sv c t now d = Inr (u, d')"
  proof (rule permitted_restrict [OF _ not_readied_dispatch(3) [OF op]])
    show "same_permits d d'"
      using op by (auto simp: thread_transaction_def started_transaction_def same_permits_def dest!: audit_frame)
  qed
  show "permitted d d'" if op: "turn_transaction sv c t v now d = Inr (u, d')"
  proof (rule permitted_restrict [OF _ not_readied_dispatch(4) [OF op]])
    show "same_permits d d'"
      using op by (auto simp: turn_transaction_def started_transaction_def same_permits_def dest!: audit_frame)
  qed
  show "permitted d d'" if op: "safety_transaction sv c now d = Inr (b, d')"
  proof (rule permitted_restrict [OF _ not_readied_dispatch(5) [OF op]])
    show "same_permits d d'"
      using op by (auto simp: safety_transaction_def same_permits_def split: if_splits option.splits)
  qed
  show "permitted d d'" if op: "finish_transaction sv call c r' failure overrun now d = Inr (j, d')"
  proof (rule permitted_restrict [OF _ not_readied_dispatch(6) [OF op]])
    show "same_permits d d'"
      using op by (auto simp: finish_transaction_def pause_after_def set_job_state_def set_controller_def Let_def same_permits_def
          map_update_where dest!: audit_frame split: if_splits)
  qed
qed

lemma permitted_frame: "env_respects permitted g \<Longrightarrow> guard_frame permitted g"
  by unfold_locales (auto intro!: permitted_restrict simp: same_permits_def not_readied_def ready_def)


lemma permitted_service: "surroundings_respect permitted be \<Longrightarrow> service_rel permitted be"
proof (intro service_rel.intro dispatch_rel.intro)
  assume *: "surroundings_respect permitted be"
  show "callback_runner (be_runner be)"
    by (rule surroundings_runner [OF *])
  show "db_rel permitted (\<lambda>_. True) (be_world be)"
    using * by unfold_locales (simp add: surroundings_respect_def)
  show "command_rel permitted"
    by (rule permitting.command_rel_axioms)
  show "dispatch_rel_axioms permitted (be_world be)"
    by unfold_locales (erule permitted_dispatch)+
  have cycles: "guard_frame permitted (be_guard be n)" for n
    using * by (intro permitted_frame) (simp add: surroundings_respect_def)
  show "service_rel_axioms permitted be"
  proof
    show "permitted d (c_db (snd (one_due_cycle (be_guard be n) now allow signal \<lparr>c_db = d, c_log = []\<rparr>)))"
      for d n now allow signal
      by (rule guard_frame.cycle_kept [OF cycles])
    show "permitted d e" if "audit_if_valid sv ev who det now d = Inr (j, e)" for sv ev who det now d j e
      using that by (intro permitted_restrict not_readied_same) (simp_all add: same_permits_audit_if_valid audit_if_valid_controller)
    show "permitted d (d\<lparr>notifications_t := ns\<rparr>)" "permitted d (d\<lparr>service_lease_t := l\<rparr>)" for d ns l
      by (intro permitted_restrict not_readied_same; simp add: same_permits_def)+
  qed (erule permitted_recover permitted_stop permitted_failed | rule permitted_hold, assumption, assumption)+
qed

text \<open>
  C5. A whole run of the service implements the abstract machine too, however it ends, as long as the other
  processes and the App Server's effects do (commands do, by the previous property). So every way to gain is
  paid for: becoming ready, each job that is new and a change of the policy need as many approvals used since.
\<close>

theorem service_refines_permits:
  assumes "surroundings_respect permitted be"
  shows "permit_step\<^sup>*\<^sup>* (permits_of (w_db (b_world s))) (permits_of (w_db (b_world (snd (run be max_cycles fuel s)))))
    \<and> paid (permits_of (w_db (b_world s))) (permits_of (w_db (b_world (snd (run be max_cycles fuel s)))))"
  using service_rel.run_keeps [OF permitted_service [OF assms], of s max_cycles fuel] path_paid
  by (simp add: permitted_def)

text \<open>The interface on the model: other commands in between, the App Server runner, an App Server that only answers.\<close>

interpretation permitted_run: service_rel permitted
  "be\<lparr>be_world := with_peers (be_world be) sched, be_runner := work_run io, be_guard := (\<lambda>_. silent answers g)\<rparr>"
  for be sched io answers g
proof (rule permitted_service)
  have "env_respects permitted (silent answers g)"
    by (rule silent_respects) (rule permitting.refl)
  then show "surroundings_respect permitted
      (be\<lparr>be_world := with_peers (be_world be) sched, be_runner := work_run io, be_guard := (\<lambda>_. silent answers g)\<rparr>)"
    by (auto simp: surroundings_respect_def with_peers_def permitted_peer_step)
qed

end
