(* ===== verification/SupervisorScenarios.thy ===== *)
theory SupervisorScenarios
  imports ServiceScenarios Refinement
begin

text \<open>
  Concrete runs of the supervisor, used to witness that the hypotheses of its properties can hold: a run
  that is asked to stop before its first round, and a round that finds the database corrupted.
\<close>

theorem supervisor_waits_within_lease_witness: "15 \<le> delay_of sample_config 3 (1 / 2)"
  using supervisor_waits_within_lease [OF sample_config_ok, of 3 "1 / 2"] by (simp add: sample_config_def)

section \<open>A run that is asked to stop\<close>

definition demo_service :: benv where
  "demo_service = \<lparr>be_world = demo_env\<lparr>we_shutdown := (\<lambda>_. True)\<rparr>, be_bus = demo_bus, be_guard = (\<lambda>_. held_env),
     be_runner = work_run short_io, be_random = (\<lambda>_. 1 / 2), be_wait = (\<lambda>_ _. False), be_owner = ''o1''\<rparr>"

definition demo_supervisor :: "db \<Rightarrow> bst" where
  "demo_supervisor d = \<lparr>b_world = demo_world d, b_lease = None, b_failures = 0, b_incident = None, b_token = None\<rparr>"

definition short_run :: "(err + (string \<times> bg_report) option) \<times> bst" where
  "short_run = run demo_service 2 2 (demo_supervisor (demo_db READY))"

theorem limited_run_ends_witness: "fst short_run \<noteq> Inr None"
  using limited_run_ends [of 2 2 demo_service "demo_supervisor (demo_db READY)"] by (simp add: short_run_def)

lemma short_run_result: "map_sum id (map_option fst) (fst short_run) = Inr (Some ''svc_0a'')"
  by code_simp

lemma short_run_ready: "map_option mode (controller_t (w_db (b_world (snd short_run)))) = Some READY"
  by code_simp


lemma demo_surroundings: "(\<And>d. R d d) \<Longrightarrow> surroundings_respect R demo_service"
  by (auto simp: surroundings_respect_def demo_service_def demo_env_def held_env_respects)

theorem service_never_readies_controller_witness: "ready (demo_db READY)"
proof -
  have "ready (w_db (b_world (snd short_run)))"
    using short_run_ready by (auto simp: ready_def)
  from service_never_readies_controller [OF _ this [unfolded short_run_def]] demo_surroundings [of not_readied] show ?thesis
    by (simp add: demo_supervisor_def demo_world_def readiness.refl)
qed

theorem service_keeps_single_run_witness: "one_run (w_db (b_world (snd short_run)))"
  using service_keeps_single_run [of demo_service "demo_supervisor (demo_db READY)" 2 2] demo_surroundings [of runs_exclude]
  by (simp add: short_run_def run_exclusion.refl demo_supervisor_def demo_world_def one_run_def active_runs_def demo_db_def
      empty_db_def)

theorem finished_service_holds_no_lease_witness: "lease_over ''svc_0a'' ''o1'' (w_db (b_world (snd short_run)))"
proof -
  obtain v where v: "fst short_run = Inr v" "map_option fst v = Some ''svc_0a''"
    using map_sum_Inr [OF short_run_result] by blast
  then obtain report where "v = Some (''svc_0a'', report)"
    by (cases v) auto
  with v have "run demo_service 2 2 (demo_supervisor (demo_db READY)) = (Inr (Some (''svc_0a'', report)), snd short_run)"
    by (simp add: short_run_def prod_eq_iff)
  from finished_service_holds_no_lease [OF this, of short_io] show ?thesis
    by (simp add: demo_service_def demo_env_def)
qed

theorem service_refines_permits_witness:
  "paid (permits_of (demo_db READY)) (permits_of (w_db (b_world (snd short_run))))"
  using service_refines_permits [of demo_service "demo_supervisor (demo_db READY)" 2 2] demo_surroundings [of permitted]
  by (simp add: short_run_def permitting.refl demo_supervisor_def demo_world_def)

section \<open>A corrupted database\<close>

definition broken_service :: benv where
  "broken_service = demo_service\<lparr>be_world := demo_env\<lparr>we_check := (\<lambda>_. [''row 3 missing from index''])\<rparr>\<rparr>"

definition leased_supervisor :: bst where
  "leased_supervisor = demo_supervisor ((demo_db READY)\<lparr>service_lease_t := Some \<lparr>sl_id = ''s1'', sl_owner = ''o1'',
     sl_state = svc_active, sl_acquired = 1000, sl_heartbeat = 1000, sl_expires = 1060, sl_released = None\<rparr>\<rparr>)
     \<lparr>b_lease := Some ''s1''\<rparr>"

definition broken_round :: "(err + bg_round) \<times> bst" where
  "broken_round = run_once broken_service 1 leased_supervisor"

lemma broken_round_stops: "map_sum id (\<lambda>r. (ro_outcome r, ro_reason r)) (fst broken_round) = Inr (''safety_stop'', Some ''DATABASE_INVALID'')"
  by code_simp

theorem stopped_round_blocks_controller_witness: "current_mode (w_db (b_world (snd broken_round))) = Inr BLOCKED"
proof -
  obtain r where r: "fst broken_round = Inr r" "ro_outcome r = ''safety_stop''"
    using map_sum_Inr [OF broken_round_stops] by blast
  then have run: "run_once broken_service 1 leased_supervisor = (Inr r, snd broken_round)"
    by (simp add: broken_round_def prod_eq_iff)
  have "others_keep_blocked broken_service"
    by (simp add: others_keep_blocked_def broken_service_def demo_env_def)
  from stopped_round_blocks_controller [OF this run] r(2) show ?thesis
    by (simp add: broken_round_def)
qed

end
