(* ===== verification/ProbeClient.thy ===== *)
theory ProbeClient
  imports Probing ThreadView Stdio
begin

text \<open>
  probe.py: the App Server client that reads the account and its rate limits. It sends four fixed messages,
  waits for two answers and normalises them into a quota snapshot. The keyed digest of the account (Blake2 with
  a key kept in the database) is the parameter \<open>fp\<close>. The lemmas show what is sent, which answer a snapshot
  comes from, and that it claims paid credits to be absent only if the server said so.
\<close>

section \<open>Messages\<close>

definition probe_messages :: "json list" where
  "probe_messages =
     [request_message 1 ''initialize'' (client_info ''codex_work_scheduler'' ''Codex Work Scheduler''),
      notification_message ''initialized'' (JObj []),
      request_message 2 ''account/read'' (JObj [(''refreshToken'', JBool False)]),
      JObj [(''id'', JInt 3), (''method'', JStr ''account/rateLimits/read'')]]"

definition build_messages :: "json list res" where
  "build_messages =
     rbind (guard (\<forall>m \<in> set probe_messages. message_method m \<in> set APP_SERVER_OUTBOUND_ALLOWLIST) ''METHOD_DENIED'')
       (\<lambda>_. Inr probe_messages)"

section \<open>Answers\<close>

text \<open>\<open>v in {2, 3}\<close>, a set or a dictionary key: lists and dictionaries are not hashable.\<close>

fun hashable :: "json \<Rightarrow> unit res" where
  "hashable (JArr _) = Inl (PyExc ''TypeError'')"
| "hashable (JObj _) = Inl (PyExc ''TypeError'')"
| "hashable _ = Inr ()"

definition probe_line :: "json option \<times> json option \<Rightarrow> json option \<Rightarrow> (json \<times> json) res + json option \<times> json option" where
  "probe_line acc line =
     (case line of
        None \<Rightarrow> Inl (Inl (Sched ''PROBE_PROTOCOL_ERROR''))
      | Some (JObj fs) \<Rightarrow>
          (case hashable (jgetn fs ''id'') of
             Inl e \<Rightarrow> Inl (Inl e)
           | Inr _ \<Rightarrow>
               (case (if equals_int (jgetn fs ''id'') 2 then Some (JObj fs) else fst acc,
                      if equals_int (jgetn fs ''id'') 3 then Some (JObj fs) else snd acc) of
                  (Some account, Some limits) \<Rightarrow> Inl (Inr (account, limits))
                | acc' \<Rightarrow> Inr acc'))
      | Some _ \<Rightarrow> Inl (Inl (PyExc ''AttributeError'')))"

definition probe_answers :: "stdio \<Rightarrow> rat \<Rightarrow> ('s session, json \<times> json) eff" where
  "probe_answers io deadline =
     poll_loop io (before_deadline io deadline) probe_line (\<lambda>_ _. Inl (Sched ''PROBE_TIMEOUT'')) (None, None)"

section \<open>The account\<close>

text \<open>\<open>str.strip\<close> on code points below 256.\<close>

definition is_space :: "char \<Rightarrow> bool" where
  "is_space c = (let n = (of_char c :: nat) in 9 \<le> n \<and> n \<le> 13 \<or> 28 \<le> n \<and> n \<le> 32 \<or> n = 133 \<or> n = 160)"

definition strip :: "string \<Rightarrow> string" where
  "strip s = rev (dropWhile is_space (rev (dropWhile is_space s)))"

record account_view =
  av_fingerprint :: string
  av_plan :: "string option"

definition account_identity :: "string \<Rightarrow> json" where
  "account_identity email = JObj [(''email'', JStr (casefold (strip email))), (''type'', JStr ''chatgpt'')]"

definition plan_text :: "json \<Rightarrow> string option res" where
  "plan_text v = (case v of JNull \<Rightarrow> Inr None | JStr s \<Rightarrow> Inr (Some s) | _ \<Rightarrow> Inl (Sched ''SIGNAL_INVALID''))"

definition normalize_account_result :: "(json \<Rightarrow> string res) \<Rightarrow> json \<Rightarrow> account_view res" where
  "normalize_account_result fp v =
     (case v of
        JObj fs \<Rightarrow>
          (case jgetn fs ''account'' of
             JObj acct \<Rightarrow>
               if jgetn acct ''type'' \<noteq> JStr ''chatgpt'' then Inl (Sched ''ACCOUNT_IDENTITY_UNAVAILABLE'')
               else
                 (case jgetn acct ''email'' of
                    JStr email \<Rightarrow>
                      rbind (guard (strip email \<noteq> []) ''ACCOUNT_IDENTITY_UNAVAILABLE'') (\<lambda>_.
                      rbind (plan_text (jgetn acct ''planType'')) (\<lambda>plan.
                      rbind (fp (account_identity email)) (\<lambda>digest.
                        Inr \<lparr>av_fingerprint = digest, av_plan = plan\<rparr>)))
                  | _ \<Rightarrow> Inl (Sched ''ACCOUNT_IDENTITY_UNAVAILABLE''))
           | _ \<Rightarrow> Inl (Sched ''ACCOUNT_IDENTITY_UNAVAILABLE''))
      | _ \<Rightarrow> Inl (Sched ''PROBE_PROTOCOL_ERROR''))"

section \<open>The bucket\<close>

definition window_duration :: "json \<Rightarrow> json" where
  "window_duration w = jgetn (obj_fields w) ''windowDurationMins''"

definition bucket_windows :: "(string \<times> json) list \<Rightarrow> json list" where
  "bucket_windows bucket = [jgetn bucket ''primary'', jgetn bucket ''secondary'']"

definition has_required_windows :: "json \<Rightarrow> bool res" where
  "has_required_windows v =
     (case v of
        JObj bucket \<Rightarrow>
          (let durations = map window_duration (filter is_obj (bucket_windows bucket))
           in rbind (rmap hashable durations) (\<lambda>_.
                Inr (list_ex (\<lambda>x. equals_int x FIVE_HOUR_MINUTES) durations
                     \<and> list_ex (\<lambda>x. equals_int x WEEKLY_MINUTES) durations)))
      | _ \<Rightarrow> Inr False)"

text \<open>A comprehension whose condition can raise.\<close>

fun rfilter :: "('a \<Rightarrow> bool res) \<Rightarrow> 'a list \<Rightarrow> 'a list res" where
  "rfilter f [] = Inr []"
| "rfilter f (x # xs) = rbind (f x) (\<lambda>b. rbind (rfilter f xs) (\<lambda>ys. Inr (if b then x # ys else ys)))"

definition bucket_values :: "json \<Rightarrow> json list" where
  "bucket_values by_id = map snd (obj_fields by_id)"

definition the_bucket :: "json list \<Rightarrow> (string \<times> json) list res" where
  "the_bucket matches =
     (case matches of
        [] \<Rightarrow> Inl (Sched ''SIGNAL_MISSING'')
      | [v] \<Rightarrow>
          (case jgetn (obj_fields v) ''limitId'' of
             JStr (c # cs) \<Rightarrow> Inr (obj_fields v)
           | _ \<Rightarrow> Inl (Sched ''SIGNAL_INVALID''))
      | _ \<Rightarrow> Inl (Sched ''SIGNAL_AMBIGUOUS''))"

definition select_bucket :: "(string \<times> json) list \<Rightarrow> string \<Rightarrow> (string \<times> json) list res" where
  "select_bucket result wanted =
     (let by_id = jgetn result ''rateLimitsByLimitId''; single = jgetn result ''rateLimits'' in
      if wanted = ''auto''
      then
        rbind (rfilter has_required_windows (bucket_values by_id)) (\<lambda>matches.
        rbind (if matches = [] then has_required_windows single else Inr False) (\<lambda>fallback.
          the_bucket (if fallback then [single] else matches)))
      else
        (case (case jget (obj_fields by_id) wanted of Some v \<Rightarrow> v | None \<Rightarrow> single) of
           JObj bucket \<Rightarrow>
             rbind (guard (jgetn bucket ''limitId'' = JStr wanted) ''SIGNAL_MISSING'') (\<lambda>_. Inr bucket)
         | _ \<Rightarrow> Inl (Sched ''SIGNAL_MISSING'')))"

text \<open>Missing credits prove nothing: unknown.\<close>

definition paid_credits :: "(string \<times> json) list \<Rightarrow> string res" where
  "paid_credits bucket =
     (case jgetn bucket ''credits'' of
        JNull \<Rightarrow> Inr ''unknown''
      | JObj credits \<Rightarrow>
          (case (jgetn credits ''hasCredits'', jgetn credits ''unlimited'') of
             (JBool has, JBool unlimited) \<Rightarrow> Inr (if has \<or> unlimited then ''available'' else ''unavailable'')
           | _ \<Rightarrow> Inl (Sched ''SIGNAL_INVALID''))
      | _ \<Rightarrow> Inl (Sched ''SIGNAL_INVALID''))"

definition spend_control :: "(string \<times> json) list \<Rightarrow> (string \<times> json) list \<Rightarrow> string res" where
  "spend_control result bucket =
     (case jgetd bucket ''spendControlReached'' (jgetn result ''spendControlReached'') of
        JNull \<Rightarrow> Inr ''unknown''
      | JBool b \<Rightarrow> Inr (if b then ''reached'' else ''not_reached'')
      | _ \<Rightarrow> Inl (Sched ''SIGNAL_INVALID''))"


section \<open>The snapshot\<close>

text \<open>A usage percentage: an int or a float between 0 and 100.\<close>

fun used_value :: "json \<Rightarrow> rat res" where
  "used_value (JInt n) = rbind (guard (0 \<le> n \<and> n \<le> 100) ''SIGNAL_INVALID'') (\<lambda>_. Inr (of_int n))"
| "used_value (JFlt (Fin q)) = rbind (guard (0 \<le> q \<and> q \<le> 100) ''SIGNAL_INVALID'') (\<lambda>_. Inr q)"
| "used_value _ = Inl (Sched ''SIGNAL_INVALID'')"

text \<open>A reset time: not at most 0, so that infinity and NaN pass.\<close>

fun reset_value :: "json \<Rightarrow> pyfloat res" where
  "reset_value (JInt n) = rbind (guard (\<not> n \<le> 0) ''SIGNAL_INVALID'') (\<lambda>_. rbind (float_of_int n) (\<lambda>q. Inr (Fin q)))"
| "reset_value (JFlt (Fin q)) = rbind (guard (\<not> q \<le> 0) ''SIGNAL_INVALID'') (\<lambda>_. Inr (Fin q))"
| "reset_value (JFlt NegInf) = Inl (Sched ''SIGNAL_INVALID'')"
| "reset_value (JFlt x) = Inr x"
| "reset_value _ = Inl (Sched ''SIGNAL_INVALID'')"

definition normalize_window :: "json \<Rightarrow> int \<Rightarrow> json res" where
  "normalize_window v expected =
     (case v of
        JObj fs \<Rightarrow>
          rbind (guard (equals_int (jgetn fs ''windowDurationMins'') expected) ''SIGNAL_INVALID'') (\<lambda>_.
          rbind (used_value (jgetn fs ''usedPercent'')) (\<lambda>used.
          rbind (reset_value (jgetn fs ''resetsAt'')) (\<lambda>resets.
            Inr (JObj [(''remaining_percent'', JNum (100 - used)), (''resets_at'', JFlt resets),
                       (''used_percent'', JNum used), (''window_duration_minutes'', JInt expected)]))))
      | _ \<Rightarrow> Inl (Sched ''SIGNAL_MISSING''))"

text \<open>The loop over the two candidates: the windows of five hours and of a week found so far.\<close>

definition place_window :: "json \<Rightarrow> json option \<times> json option \<Rightarrow> (json option \<times> json option) res" where
  "place_window candidate acc =
     (case candidate of
        JNull \<Rightarrow> Inr acc
      | JObj fs \<Rightarrow>
          (let minutes = jgetn fs ''windowDurationMins'' in
           rbind (hashable minutes) (\<lambda>_.
           rbind (guard (\<not> (equals_int minutes FIVE_HOUR_MINUTES \<and> fst acc \<noteq> None
                       \<or> equals_int minutes WEEKLY_MINUTES \<and> snd acc \<noteq> None)) ''SIGNAL_INVALID'') (\<lambda>_.
             Inr (if equals_int minutes FIVE_HOUR_MINUTES then (Some candidate, snd acc)
                  else if equals_int minutes WEEKLY_MINUTES then (fst acc, Some candidate) else acc))))
      | _ \<Rightarrow> Inl (Sched ''SIGNAL_INVALID''))"

definition quota_windows :: "(string \<times> json) list \<Rightarrow> (json \<times> json) res" where
  "quota_windows bucket =
     rbind (place_window (jgetn bucket ''primary'') (None, None)) (\<lambda>acc.
     rbind (place_window (jgetn bucket ''secondary'') acc) (\<lambda>acc'.
       case acc' of (Some five, Some week) \<Rightarrow> Inr (five, week) | _ \<Rightarrow> Inl (Sched ''SIGNAL_MISSING'')))"

definition bucket_plan :: "(string \<times> json) list \<Rightarrow> string option" where
  "bucket_plan bucket = (case jgetn bucket ''planType'' of JStr s \<Rightarrow> Some s | _ \<Rightarrow> None)"

definition reached_type :: "(string \<times> json) list \<Rightarrow> string option" where
  "reached_type bucket =
     (case jgetn bucket ''rateLimitReachedType'' of JNull \<Rightarrow> None | JStr s \<Rightarrow> Some s | _ \<Rightarrow> Some ''unknown'')"

definition normalize_rate_limit_result :: "json \<Rightarrow> rat \<Rightarrow> string \<Rightarrow> string \<Rightarrow> account_view \<Rightarrow> json res" where
  "normalize_rate_limit_result v observed profile wanted acct =
     (case v of
        JObj result \<Rightarrow>
          rbind (select_bucket result wanted) (\<lambda>bucket.
          rbind (quota_windows bucket) (\<lambda>(five, week).
            let plan = bucket_plan bucket in
            rbind (guard (\<not> (plan \<noteq> None \<and> av_plan acct \<noteq> None \<and> plan \<noteq> av_plan acct)) ''PROFILE_MISMATCH'') (\<lambda>_.
            rbind (paid_credits bucket) (\<lambda>credits.
            rbind (spend_control result bucket) (\<lambda>spend.
            rbind (normalize_window five FIVE_HOUR_MINUTES) (\<lambda>five_window.
            rbind (normalize_window week WEEKLY_MINUTES) (\<lambda>week_window.
              Inr (JObj
                [(''schema_version'', JStr SNAPSHOT_SCHEMA_VERSION), (''observed_at'', JNum observed),
                 (''source'', JStr ''codex_app_server''), (''profile_key'', JStr profile),
                 (''limit_id'', jgetn bucket ''limitId''), (''account_fingerprint'', JStr (av_fingerprint acct)),
                 (''account_type'', JStr ''chatgpt''),
                 (''plan_type'', opt_str (if plan = None \<or> plan = Some [] then av_plan acct else plan)),
                 (''credit_signal'', JStr (expected_credit_signal credits)), (''paid_credit_state'', JStr credits),
                 (''spend_control_state'', JStr spend), (''rate_limit_reached_type'', opt_str (reached_type bucket)),
                 (''five_hour'', five_window), (''weekly'', week_window)]))))))))
      | _ \<Rightarrow> Inl (Sched ''PROBE_PROTOCOL_ERROR''))"

section \<open>The read\<close>

fun send_all :: "stdio \<Rightarrow> err \<Rightarrow> json list \<Rightarrow> ('s session, unit) eff" where
  "send_all io lost [] = eret ()"
| "send_all io lost (m # ms) = ethen (io_send io lost m) (send_all io lost ms)"

definition probe_read ::
    "stdio \<Rightarrow> rat \<Rightarrow> (json \<Rightarrow> string res) \<Rightarrow> string \<Rightarrow> string \<Rightarrow> ('s session, json) eff" where
  "probe_read io timeout fp profile wanted =
     ethen (elift (io_open io ''PROBE_UNAVAILABLE''))
    (ebind (elift build_messages) (\<lambda>messages.
     ethen (send_all io (Sched ''PROBE_UNAVAILABLE'') messages)
    (ebind (io_now io) (\<lambda>started.
     ebind (probe_answers io (started + timeout)) (\<lambda>(account, limits).
     ethen (eguard (\<not> (jgetn (obj_fields account) ''error'' \<noteq> JNull \<or> jgetn (obj_fields limits) ''error'' \<noteq> JNull))
              ''PROBE_REJECTED'')
    (ebind (elift (normalize_account_result fp (jgetn (obj_fields account) ''result''))) (\<lambda>acct.
     ebind (io_now io) (\<lambda>observed.
       elift (normalize_rate_limit_result (jgetn (obj_fields limits) ''result'') observed profile wanted acct)))))))))"


section \<open>What a snapshot stands for\<close>

text \<open>A window of the bucket that the percentages of a snapshot were taken from.\<close>

definition taken_from :: "window \<Rightarrow> json \<Rightarrow> (string \<times> json) list \<Rightarrow> int \<Rightarrow> bool" where
  "taken_from w v bucket minutes \<longleftrightarrow>
     v \<in> set (bucket_windows bucket) \<and> equals_int (window_duration v) minutes
     \<and> used_value (jgetn (obj_fields v) ''usedPercent'') = Inr (used_percent w)
     \<and> remaining_percent w = 100 - used_percent w \<and> window_duration_minutes w = minutes"

lemma normalize_window_Inr:
  assumes "normalize_window v m = Inr nw" and "validate_window nw m = Inr w"
  shows "used_value (jgetn (obj_fields v) ''usedPercent'') = Inr (used_percent w)
    \<and> remaining_percent w = 100 - used_percent w \<and> window_duration_minutes w = m"
  using assms
  by (auto simp: normalize_window_def validate_window_def jgetn_def split: json.splits if_splits)

lemma place_window_Inr:
  "place_window c acc = Inr (a, b) \<Longrightarrow>
   (a = fst acc \<or> a = Some c \<and> equals_int (window_duration c) FIVE_HOUR_MINUTES)
   \<and> (b = snd acc \<or> b = Some c \<and> equals_int (window_duration c) WEEKLY_MINUTES)"
  by (auto simp: place_window_def window_duration_def Let_def split: json.splits if_splits)

lemma quota_windows_Inr:
  assumes "quota_windows bucket = Inr (five, week)"
  shows "five \<in> set (bucket_windows bucket) \<and> equals_int (window_duration five) FIVE_HOUR_MINUTES
    \<and> week \<in> set (bucket_windows bucket) \<and> equals_int (window_duration week) WEEKLY_MINUTES"
proof -
  from assms obtain a b where ab: "place_window (jgetn bucket ''primary'') (None, None) = Inr (a, b)"
      "place_window (jgetn bucket ''secondary'') (a, b) = Inr (Some five, Some week)"
    by (auto simp: quota_windows_def split: option.splits prod.splits)
  from place_window_Inr [OF ab(1)] place_window_Inr [OF ab(2)] show ?thesis
    by (auto simp: bucket_windows_def)
qed

lemma normalize_Inr:
  assumes "normalize_rate_limit_result v observed profile wanted acct = Inr w"
  shows "\<exists>result bucket five week credits spend nf nw. v = JObj result \<and> select_bucket result wanted = Inr bucket
    \<and> quota_windows bucket = Inr (five, week) \<and> paid_credits bucket = Inr credits
    \<and> normalize_window five FIVE_HOUR_MINUTES = Inr nf \<and> normalize_window week WEEKLY_MINUTES = Inr nw
    \<and> w = JObj
        [(''schema_version'', JStr SNAPSHOT_SCHEMA_VERSION), (''observed_at'', JNum observed),
         (''source'', JStr ''codex_app_server''), (''profile_key'', JStr profile),
         (''limit_id'', jgetn bucket ''limitId''), (''account_fingerprint'', JStr (av_fingerprint acct)),
         (''account_type'', JStr ''chatgpt''),
         (''plan_type'', opt_str (if bucket_plan bucket = None \<or> bucket_plan bucket = Some [] then av_plan acct else bucket_plan bucket)),
         (''credit_signal'', JStr (expected_credit_signal credits)), (''paid_credit_state'', JStr credits),
         (''spend_control_state'', JStr spend), (''rate_limit_reached_type'', opt_str (reached_type bucket)),
         (''five_hour'', nf), (''weekly'', nw)]"
  using assms
  by (auto simp: normalize_rate_limit_result_def Let_def split: json.splits prod.splits)

lemma validated_fields:
  "validate_snapshot (JObj data) = Inr x \<Longrightarrow>
   number (jgetn data ''observed_at'') 0 32503680000 = Inr (observed_at x)
   \<and> str (jgetn data ''limit_id'') True 256 = Inr (limit_id x)
   \<and> hex_digest (jgetn data ''account_fingerprint'') = Inr (account_fingerprint x)
   \<and> one_of (jgetn data ''paid_credit_state'') [''available'', ''unavailable'', ''unknown''] = Inr (paid_credit_state x)
   \<and> validate_window (jgetn data ''five_hour'') FIVE_HOUR_MINUTES = Inr (five_hour x)
   \<and> validate_window (jgetn data ''weekly'') WEEKLY_MINUTES = Inr (weekly x)"
  unfolding validate_snapshot_def rbind_Inr_iff object_of.simps by (clarify, simp only: snapshot.simps sum.inject)


lemma send_all_sent: "send_all io lost ms st = (Inr u, st') \<Longrightarrow> ss_sent st' = ss_sent st @ ms"
  by (induction ms arbitrary: st) (auto simp: eff_defs io_send_def split: if_splits)

lemma build_messages_Inr: "build_messages = Inr ms \<Longrightarrow> ms = probe_messages"
  by (auto simp: build_messages_def)

lemma probe_read_Inr:
  assumes "probe_read io timeout fp profile wanted st = (Inr v, st')"
  shows "ss_sent st' = ss_sent st @ probe_messages
    \<and> (\<exists>account limits acct observed. normalize_account_result fp (jgetn (obj_fields account) ''result'') = Inr acct
         \<and> jgetn (obj_fields account) ''error'' = JNull \<and> jgetn (obj_fields limits) ''error'' = JNull
         \<and> normalize_rate_limit_result (jgetn (obj_fields limits) ''result'') observed profile wanted acct = Inr v)"
proof -
  from assms obtain ms s1 account limits started s2 where
      ms: "build_messages = Inr ms" and s1: "send_all io (Sched ''PROBE_UNAVAILABLE'') ms st = (Inr (), s1)"
    and answers: "probe_answers io (started + timeout) (tick_session s1) = (Inr (account, limits), s2)"
    and rest: "(\<exists>acct observed. normalize_account_result fp (jgetn (obj_fields account) ''result'') = Inr acct
         \<and> jgetn (obj_fields account) ''error'' = JNull \<and> jgetn (obj_fields limits) ''error'' = JNull
         \<and> normalize_rate_limit_result (jgetn (obj_fields limits) ''result'') observed profile wanted acct = Inr v)"
    and st': "ss_sent st' = ss_sent s2"
    by (auto simp: probe_read_def eff_defs io_now_def split: sum.splits prod.splits if_splits) blast
  have "ss_sent s2 = ss_sent s1"
    using answers by (metis poll_loop_frame(2) probe_answers_def snd_conv tick_session_simps(4))
  with send_all_sent [OF s1] build_messages_Inr [OF ms] st' rest show ?thesis
    by auto
qed


lemma account_Inr:
  assumes "normalize_account_result fp v = Inr acct"
  shows "\<exists>email. dict_get v ''account'' \<noteq> JNull \<and> dict_get (dict_get v ''account'') ''type'' = JStr ''chatgpt''
    \<and> dict_get (dict_get v ''account'') ''email'' = JStr email \<and> strip email \<noteq> []
    \<and> fp (account_identity email) = Inr (av_fingerprint acct)"
  using assms by (auto simp: normalize_account_result_def dict_get_def split: json.splits if_splits)

lemma paid_credits_unavailable:
  "paid_credits bucket = Inr ''unavailable'' \<Longrightarrow>
   \<exists>credits. jgetn bucket ''credits'' = JObj credits \<and> jgetn credits ''hasCredits'' = JBool False \<and> jgetn credits ''unlimited'' = JBool False"
  by (auto simp: paid_credits_def split: json.splits if_splits)

lemma rfilter_filter: "rfilter f xs = Inr ys \<Longrightarrow> ys = filter (\<lambda>x. f x = Inr True) xs"
  by (induction xs arbitrary: ys) (auto split: if_splits)

lemma select_bucket_unique:
  assumes "select_bucket result ''auto'' = Inr bucket" and "\<exists>v \<in> set (bucket_values (jgetn result ''rateLimitsByLimitId'')). has_required_windows v = Inr True"
  shows "\<exists>v. filter (\<lambda>v. has_required_windows v = Inr True) (bucket_values (jgetn result ''rateLimitsByLimitId'')) = [v]
    \<and> bucket = obj_fields v"
proof -
  let ?vs = "filter (\<lambda>v. has_required_windows v = Inr True) (bucket_values (jgetn result ''rateLimitsByLimitId''))"
  have "?vs \<noteq> []"
    using assms(2) by (auto simp: filter_empty_conv)
  with assms(1) have "the_bucket ?vs = Inr bucket"
    by (auto simp: select_bucket_def Let_def dest!: rfilter_filter split: if_splits)
  then show ?thesis
    by (auto simp: the_bucket_def split: list.splits json.splits)
qed

lemma select_bucket_limit: "select_bucket result wanted = Inr bucket \<Longrightarrow> wanted \<noteq> ''auto'' \<Longrightarrow> jgetn bucket ''limitId'' = JStr wanted"
  by (auto simp: select_bucket_def Let_def split: json.splits)


end
