(* ===== verification/Monitoring.thy ===== *)
theory Monitoring
  imports ProbeClient Progress
begin

text \<open>
  monitor.py, the read-only App Server client that reads one task, and \<open>monitor_refresh\<close> of service.py,
  which writes what was observed to the run and its job. The lemmas show what the two read-only clients can
  send, and that a refresh never files work as succeeded that a dispatch had not filed so.
\<close>

section \<open>The client\<close>

datatype task_status = Task_not_loaded | Task_idle | Task_system_error | Task_active

datatype turn_status = Turn_completed | Turn_interrupted | Turn_failed | Turn_in_progress

record observation =
  ob_turn :: "string option"
  ob_turn_status :: "turn_status option"
  ob_at :: rat
  ob_thread :: string
  ob_status :: task_status

definition monitor_messages :: "string \<Rightarrow> json list" where
  "monitor_messages thread =
     [request_message 1 ''initialize'' (client_info ''codex_work_scheduler_monitor'' ''Codex Work Scheduler Monitor''),
      notification_message ''initialized'' (JObj []),
      request_message 2 ''thread/read'' (JObj [(''threadId'', JStr thread), (''includeTurns'', JBool True)])]"

definition checked_messages :: "string \<Rightarrow> json list res" where
  "checked_messages thread =
     rbind (guard (\<forall>m \<in> set (monitor_messages thread). message_method m \<in> set MONITOR_OUTBOUND_ALLOWLIST) ''METHOD_DENIED'')
       (\<lambda>_. Inr (monitor_messages thread))"

definition monitor_line :: "unit \<Rightarrow> json option \<Rightarrow> (string \<times> json) list res + unit" where
  "monitor_line u line =
     (case line of
        None \<Rightarrow> Inl (Inl (Sched ''MONITOR_PROTOCOL_ERROR''))
      | Some (JObj fs) \<Rightarrow> if equals_int (jgetn fs ''id'') 2 then Inl (Inr fs) else Inr ()
      | Some _ \<Rightarrow> Inl (Inl (PyExc ''AttributeError'')))"

definition task_status_of :: "json \<Rightarrow> task_status res" where
  "task_status_of v =
     (let status = (case v of JObj fs \<Rightarrow> jgetn fs ''type'' | _ \<Rightarrow> v) in
      rbind (hashable status) (\<lambda>_.
        if status = JStr ''notLoaded'' then Inr Task_not_loaded
        else if status = JStr ''idle'' then Inr Task_idle
        else if status = JStr ''systemError'' then Inr Task_system_error
        else if status = JStr ''active'' then Inr Task_active
        else Inl (Sched ''MONITOR_PROTOCOL_ERROR'')))"

definition turn_status_of :: "json \<Rightarrow> turn_status res" where
  "turn_status_of v =
     rbind (hashable v) (\<lambda>_.
       if v = JStr ''completed'' then Inr Turn_completed
       else if v = JStr ''interrupted'' then Inr Turn_interrupted
       else if v = JStr ''failed'' then Inr Turn_failed
       else if v = JStr ''inProgress'' then Inr Turn_in_progress
       else Inl (Sched ''MONITOR_PROTOCOL_ERROR''))"

text \<open>The last turn's identifier and status; none when there is no turn.\<close>

definition latest_turn :: "json \<Rightarrow> (string \<times> turn_status) option res" where
  "latest_turn turns =
     (case turns of
        JArr [] \<Rightarrow> Inr None
      | JArr ts \<Rightarrow>
          (case last ts of
             JObj turn \<Rightarrow>
               (case jgetn turn ''id'' of
                  JStr i \<Rightarrow> rbind (turn_status_of (jgetn turn ''status'')) (\<lambda>st. Inr (Some (i, st)))
                | _ \<Rightarrow> Inl (Sched ''MONITOR_PROTOCOL_ERROR''))
           | _ \<Rightarrow> Inl (Sched ''MONITOR_PROTOCOL_ERROR''))
      | _ \<Rightarrow> Inl (Sched ''MONITOR_PROTOCOL_ERROR''))"

definition monitor_normalize :: "stdio \<Rightarrow> string \<Rightarrow> json \<Rightarrow> ('s session, observation) eff" where
  "monitor_normalize io expected v =
     (case dict_get v ''thread'' of
        JObj thread \<Rightarrow>
          ethen (eguard (jgetn thread ''id'' = JStr expected) ''MONITOR_PROTOCOL_ERROR'')
         (ebind (elift (task_status_of (jgetn thread ''status''))) (\<lambda>status.
          ebind (elift (latest_turn (jgetd thread ''turns'' (JArr [])))) (\<lambda>latest.
          ebind (io_now io) (\<lambda>observed.
            eret \<lparr>ob_turn = map_option fst latest, ob_turn_status = map_option snd latest, ob_at = observed,
                  ob_thread = expected, ob_status = status\<rparr>))))
      | _ \<Rightarrow> eraise (Sched ''MONITOR_PROTOCOL_ERROR''))"

text \<open>A write that fails raises OSError here: nothing translates it.\<close>

definition monitor_read :: "stdio \<Rightarrow> rat \<Rightarrow> string \<Rightarrow> ('s session, observation) eff" where
  "monitor_read io timeout thread =
     ebind (elift (checked_messages thread)) (\<lambda>messages.
     ethen (elift (io_open io ''MONITOR_UNAVAILABLE''))
    (ethen (send_all io (PyExc ''OSError'') messages)
    (ebind (io_now io) (\<lambda>started.
     ebind (poll_loop io (before_deadline io (started + timeout)) monitor_line (\<lambda>_ _. Inl (Sched ''MONITOR_TIMEOUT'')) ())
       (\<lambda>response.
     ethen (eguard (jgetn response ''error'' = JNull) ''MONITOR_REJECTED'')
       (monitor_normalize io thread (jgetn response ''result'')))))))"

section \<open>The refresh\<close>

definition turn_run_state :: "turn_status \<Rightarrow> run_state" where
  "turn_run_state st =
     (case st of Turn_completed \<Rightarrow> run_succeeded | Turn_failed \<Rightarrow> run_failed | Turn_in_progress \<Rightarrow> run_running
      | Turn_interrupted \<Rightarrow> run_interrupted)"

text \<open>The run's new state and the reason that is stored, from the row read and the observation.\<close>

definition refreshed :: "run_row \<Rightarrow> observation \<Rightarrow> run_state \<times> string option" where
  "refreshed run ob =
     (case ob_turn_status ob of
        Some t \<Rightarrow>
          if rn_kind run = work \<and> t = Turn_completed \<and> rn_state run \<noteq> run_succeeded
          then (run_needs_review, Some ''POST_RUN_REVIEW_REQUIRED'')
          else (turn_run_state t, None)
      | None \<Rightarrow>
          if ob_status ob = Task_system_error then (run_needs_review, Some ''THREAD_SYSTEM_ERROR'')
          else (rn_state run, None))"

definition terminal_state :: "run_state \<Rightarrow> bool" where
  "terminal_state st \<longleftrightarrow> st \<in> {run_succeeded, run_failed, run_interrupted, run_needs_review}"

definition refreshed_job :: "run_row \<Rightarrow> run_state \<Rightarrow> job_state" where
  "refreshed_job run st =
     (if st = run_succeeded then succeeded else if st = run_running then running
      else if st = run_blocked \<and> rn_stop_reason run = Some ''SAFETY_CHECK_FAILED'' then held_policy
      else if st = run_blocked then held_capability else needs_review)"

definition refresh_run :: "string \<Rightarrow> run_state \<Rightarrow> string option \<Rightarrow> rat \<Rightarrow> db \<Rightarrow> db" where
  "refresh_run rid st reason now d =
     d\<lparr>runs_t := update_where (\<lambda>r. rn_id r = rid)
         (\<lambda>r. r\<lparr>rn_state := st, rn_updated := now,
               rn_completed := (if terminal_state st then (case rn_completed r of None \<Rightarrow> Some now | Some t \<Rightarrow> Some t)
                                else rn_completed r),
               rn_stop_reason := (case reason of None \<Rightarrow> rn_stop_reason r | Some x \<Rightarrow> Some x)\<rparr>) (runs_t d)\<rparr>"

definition turn_status_name :: "turn_status \<Rightarrow> string" where
  "turn_status_name st =
     (case st of Turn_completed \<Rightarrow> ''completed'' | Turn_interrupted \<Rightarrow> ''interrupted'' | Turn_failed \<Rightarrow> ''failed''
      | Turn_in_progress \<Rightarrow> ''inProgress'')"

definition task_status_name :: "task_status \<Rightarrow> string" where
  "task_status_name st =
     (case st of Task_not_loaded \<Rightarrow> ''notLoaded'' | Task_idle \<Rightarrow> ''idle'' | Task_system_error \<Rightarrow> ''systemError''
      | Task_active \<Rightarrow> ''active'')"

definition observation_dict :: "observation \<Rightarrow> json" where
  "observation_dict ob = JObj
     [(''latest_turn_id'', opt_str (ob_turn ob)),
      (''latest_turn_status'', opt_str (map_option turn_status_name (ob_turn_status ob))),
      (''observed_at'', JNum (ob_at ob)),
      (''outbound_methods'', JArr [JStr ''initialize'', JStr ''initialized'', JStr ''thread/read'']),
      (''thread_id'', JStr (ob_thread ob)), (''thread_status'', JStr (task_status_name (ob_status ob)))]"

definition refresh_operation ::
    "svc \<Rightarrow> string \<Rightarrow> rat \<Rightarrow> string \<Rightarrow> run_row \<Rightarrow> observation \<Rightarrow> db \<Rightarrow> (json \<times> db) res" where
  "refresh_operation sv who now rid run ob d =
     (let (st, reason) = refreshed run ob;
          d1 = refresh_run rid st reason now d;
          d2 = (case rn_job run of None \<Rightarrow> d1 | Some j \<Rightarrow> set_job_state j (refreshed_job run st) now d1)
      in rbind (audit sv ''monitor.refreshed'' who
                  (JObj [(''run_id'', JStr rid), (''state'', JStr (run_state_name st)), (''thread_id'', JStr (ob_thread ob)),
                         (''turn_id'', opt_str (ob_turn ob))]) now d2) (\<lambda>(event_id, d3).
           Inr (JObj [(''audit_event_id'', JStr event_id), (''observation'', observation_dict ob), (''run_id'', JStr rid),
                      (''state'', JStr (run_state_name st))], d3)))"

definition monitor_refresh ::
    "wenv \<Rightarrow> (nat \<Rightarrow> stdio) \<Rightarrow> rat \<Rightarrow> string \<Rightarrow> string \<Rightarrow> string \<Rightarrow> (wst, command_result) eff" where
  "monitor_refresh env ios timeout run_id key who =
     (let sv = we_svc env in
      ethen (elift (require_capability sv ''monitor.local.write''))
     (ebind (elift (valid_actor who)) (\<lambda>who'.
      ebind (elift (validate_identifier (JStr run_id))) (\<lambda>rid.
      ebind (wclock env) (\<lambda>now.
      ebind (wread env (replay_idempotent (sv_host sv) key ''monitor.refresh'' (JObj [(''run_id'', JStr rid)]))) (\<lambda>replay.
        case replay of
          Some r \<Rightarrow> eret (r, True)
        | None \<Rightarrow>
            ebind (wread env (get_run rid)) (\<lambda>run.
              case rn_thread run of
                None \<Rightarrow> eraise (Sched ''MONITOR_UNAVAILABLE'')
              | Some thread \<Rightarrow>
                  ebind (wobserve (\<lambda>n. fst (monitor_read (ios n) timeout thread (new_session ())))) (\<lambda>ob.
                    wtx env (execute_idempotent (sv_host sv) key ''monitor.refresh'' (JObj [(''run_id'', JStr rid)]) now
                      (refresh_operation sv who' now rid run ob))))))))))"


section \<open>What the read-only clients send\<close>

lemma sending_all: "\<forall>m \<in> set ms. P m \<Longrightarrow> sending.keeps P (send_all io lost ms)"
  by (induction ms) (auto intro!: keeps_intros sending_send)

lemma sends_only_set: "sends_only (\<lambda>m. m \<in> set ms) st st' \<Longrightarrow> \<exists>new. ss_sent st' = ss_sent st @ new \<and> set new \<subseteq> set ms"
  by (auto simp: sends_only_def list_all_iff)

lemma sending_elift: "(\<And>x. r = Inr x \<Longrightarrow> sending.keeps P (f x)) \<Longrightarrow> sending.keeps P (ebind (elift r) f)"
  by (cases r) (auto intro: keeps_intros)

lemma sending_probe: "sending.keeps (\<lambda>m. m \<in> set probe_messages) (probe_read io timeout fp profile wanted)"
proof -
  have "sending.keeps (\<lambda>m. m \<in> set probe_messages) (send_all io lost ms)" if "build_messages = Inr ms" for lost ms
    using build_messages_Inr [OF that] by (simp add: sending_all)
  then show ?thesis
    unfolding probe_read_def probe_answers_def
    by (intro sending_elift keeps_intros sending.keeps_case_prod)
qed

lemma probe_methods:
  "\<forall>m \<in> set probe_messages. message_method m \<in> {''initialize'', ''initialized'', ''account/read'', ''account/rateLimits/read''}"
  by (simp add: probe_messages_def) (simp add: message_method_def jgetn_def)

lemma monitor_methods:
  "\<forall>m \<in> set (monitor_messages thread). message_method m \<in> {''initialize'', ''initialized''}
     \<or> m = request_message 2 ''thread/read'' (JObj [(''threadId'', JStr thread), (''includeTurns'', JBool True)])"
  by (simp add: monitor_messages_def)

lemma sending_normalize: "sending.keeps P (monitor_normalize io thread v)"
  unfolding monitor_normalize_def by (auto split: json.split intro!: keeps_intros)

lemma sending_monitor: "sending.keeps (\<lambda>m. m \<in> set (monitor_messages thread)) (monitor_read io timeout thread)"
proof -
  have "sending.keeps (\<lambda>m. m \<in> set (monitor_messages thread)) (send_all io lost ms)" if "checked_messages thread = Inr ms" for lost ms
    using that by (auto simp: checked_messages_def intro: sending_all)
  then show ?thesis
    unfolding monitor_read_def by (intro sending_elift keeps_intros sending_normalize)
qed

text \<open>
  The read-only clients only read. However the App Server answers or fails, the quota probe sends nothing but
  the handshake and the requests to read the account and its rate limits, and the monitor nothing but the
  handshake and the request to read the task it was asked about.
\<close>

theorem read_clients_send_only_reads:
  "(\<exists>new. ss_sent (snd (probe_read io timeout fp profile wanted st)) = ss_sent st @ new
      \<and> message_method ` set new \<subseteq> {''initialize'', ''initialized'', ''account/read'', ''account/rateLimits/read''})
   \<and> (\<exists>new. ss_sent (snd (monitor_read io timeout thread st)) = ss_sent st @ new
      \<and> set new \<subseteq> {m. message_method m \<in> {''initialize'', ''initialized''}}
           \<union> {request_message 2 ''thread/read'' (JObj [(''threadId'', JStr thread), (''includeTurns'', JBool True)])})"
proof
  from sends_only_set [OF sending.keepsD [OF sending_probe]] obtain new where
      "ss_sent (snd (probe_read io timeout fp profile wanted st)) = ss_sent st @ new" "set new \<subseteq> set probe_messages"
    by blast
  then show "\<exists>new. ss_sent (snd (probe_read io timeout fp profile wanted st)) = ss_sent st @ new
      \<and> message_method ` set new \<subseteq> {''initialize'', ''initialized'', ''account/read'', ''account/rateLimits/read''}"
    using probe_methods by blast
next
  from sends_only_set [OF sending.keepsD [OF sending_monitor]] obtain new where
      "ss_sent (snd (monitor_read io timeout thread st)) = ss_sent st @ new" "set new \<subseteq> set (monitor_messages thread)"
    by blast
  then show "\<exists>new. ss_sent (snd (monitor_read io timeout thread st)) = ss_sent st @ new
      \<and> set new \<subseteq> {m. message_method m \<in> {''initialize'', ''initialized''}}
           \<union> {request_message 2 ''thread/read'' (JObj [(''threadId'', JStr thread), (''includeTurns'', JBool True)])}"
    using monitor_methods by blast
qed


section \<open>What a refresh writes\<close>

lemma returns_eraise: "returns (eraise e) Q"
  by (simp add: returns_def eraise_def)

lemma returns_normalize: "returns (monitor_normalize io expected v) (\<lambda>ob. ob_thread ob = expected)"
proof (cases "dict_get v ''thread''")
  case (JObj thread)
  show ?thesis
    unfolding monitor_normalize_def JObj json.case
    by (intro returns_ebind returns_eret) simp
qed (simp_all add: monitor_normalize_def returns_eraise)

lemma monitor_read_thread: "returns (monitor_read io timeout thread) (\<lambda>ob. ob_thread ob = thread)"
  unfolding monitor_read_def by (intro returns_ebind returns_normalize)

lemma refreshed_work: "rn_kind run = work \<Longrightarrow> fst (refreshed run ob) = run_succeeded \<Longrightarrow> rn_state run = run_succeeded"
  by (auto simp: refreshed_def turn_run_state_def split: option.splits if_splits turn_status.splits)

lemma refreshed_runs:
  "q \<in> set (runs_t (refresh_run rid st reason now d)) \<Longrightarrow> rn_id q = rid \<Longrightarrow>
   rn_state q = st \<and> (terminal_state st \<longrightarrow> rn_completed q \<noteq> None)"
  by (simp add: refresh_run_def update_where_def) (erule imageE, simp split: if_splits option.splits)

lemma refreshed_others:
  "rn_id q \<noteq> rid \<Longrightarrow> q \<in> set (runs_t (refresh_run rid st reason now d)) \<longleftrightarrow> q \<in> set (runs_t d)"
  by (force simp: refresh_run_def update_where_def)

definition refresh_rows :: "string \<Rightarrow> rat \<Rightarrow> run_row \<Rightarrow> run_state \<times> string option \<Rightarrow> db \<Rightarrow> db" where
  "refresh_rows rid now run next_state d =
     (let d1 = refresh_run rid (fst next_state) (snd next_state) now d
      in (case rn_job run of None \<Rightarrow> d1 | Some j \<Rightarrow> set_job_state j (refreshed_job run (fst next_state)) now d1))"

lemma refresh_operation_rows:
  "refresh_operation sv who now rid run ob d =
     rbind (audit sv ''monitor.refreshed'' who
                  (JObj [(''run_id'', JStr rid), (''state'', JStr (run_state_name (fst (refreshed run ob)))), (''thread_id'', JStr (ob_thread ob)),
                         (''turn_id'', opt_str (ob_turn ob))]) now (refresh_rows rid now run (refreshed run ob) d)) (\<lambda>(event_id, d3).
           Inr (JObj [(''audit_event_id'', JStr event_id), (''observation'', observation_dict ob), (''run_id'', JStr rid),
                      (''state'', JStr (run_state_name (fst (refreshed run ob))))], d3))"
  by (simp only: refresh_operation_def refresh_rows_def Let_def case_prod_unfold)

lemma refresh_rows_runs: "runs_t (refresh_rows rid now run st d) = runs_t (refresh_run rid (fst st) (snd st) now d)"
  by (simp add: refresh_rows_def Let_def set_job_state_def split: option.split)

lemma refresh_rows_jobs:
  "rn_job run = Some j \<Longrightarrow> row \<in> set (jobs_t (refresh_rows rid now run st d)) \<Longrightarrow> jr_id row = j \<Longrightarrow>
   jr_state row = refreshed_job run (fst st)"
  by (simp add: refresh_rows_def Let_def set_job_state_def update_where_def) (erule imageE, simp split: if_splits)

lemma refresh_operation_Inr:
  assumes "refresh_operation sv who now rid run ob d = Inr (r, e)"
  shows "runs_t e = runs_t (refresh_rows rid now run (refreshed run ob) d)"
    and "jobs_t e = jobs_t (refresh_rows rid now run (refreshed run ob) d)"
proof -
  from assms obtain i where "audit sv ''monitor.refreshed'' who
      (JObj [(''run_id'', JStr rid), (''state'', JStr (run_state_name (fst (refreshed run ob)))), (''thread_id'', JStr (ob_thread ob)),
             (''turn_id'', opt_str (ob_turn ob))]) now (refresh_rows rid now run (refreshed run ob) d) = Inr (i, e)"
    unfolding refresh_operation_rows rbind_Inr_iff by (elim exE conjE) (clarsimp split: prod.splits)
  from audit_frame [OF this] show "runs_t e = runs_t (refresh_rows rid now run (refreshed run ob) d)"
    and "jobs_t e = jobs_t (refresh_rows rid now run (refreshed run ob) d)"
    by auto
qed

lemma wread_Inr:
  "wread env f s = (Inr x, s') \<Longrightarrow>
   f (we_others env (w_step s) (w_db s)) = Inr x \<and> w_db s' = we_others env (w_step s) (w_db s) \<and> w_step s' = Suc (w_step s)"
  by (auto simp: wread_def wdb_def eread_def split: prod.splits)

lemma wobserve_Inr:
  "wobserve f s = (Inr x, s') \<Longrightarrow> f (w_step s) = Inr x \<and> w_db s' = w_db s \<and> w_step s' = Suc (w_step s)"
  by (auto simp: wobserve_def)

lemma wtx_Inr: "wtx env body s = (Inr x, s') \<Longrightarrow> body (we_others env (w_step s) (w_db s)) = Inr (x, w_db s')"
  by (auto simp: wtx_def wdb_def transact_def split: sum.splits prod.splits)

text \<open>The database that a refresh reads the run from, and the one that its write starts at.\<close>

definition refresh_reads :: "wenv \<Rightarrow> wst \<Rightarrow> db" where
  "refresh_reads env s = we_others env (w_step s + 2) (we_others env (w_step s + 1) (w_db s))"

definition refresh_writes :: "wenv \<Rightarrow> wst \<Rightarrow> db" where
  "refresh_writes env s = we_others env (w_step s + 4) (refresh_reads env s)"

lemma valid_identifier_Inr: "validate_identifier (JStr x) = Inr y \<Longrightarrow> y = x"
  by (auto simp: validate_identifier_def split: if_splits)

lemma monitor_refresh_Inr:
  assumes "monitor_refresh env ios timeout run_id key who s = (Inr (r, False), s')"
  obtains run ob thread who' now e x y where "get_run run_id (refresh_reads env s) = Inr run" "rn_thread run = Some thread"
    "fst (monitor_read (ios (w_step s + 3)) timeout thread (new_session ())) = Inr ob"
    "refresh_operation (we_svc env) who' now run_id run ob (refresh_writes env s) = Inr (x, e)" "w_db s' = e\<lparr>idem_t := y\<rparr>"
proof -
  define sv where "sv = we_svc env"
  from assms obtain who' rid now replay s4 s5 where rid: "validate_identifier (JStr run_id) = Inr rid"
    and clock: "wclock env s = (Inr now, s4)"
    and replay: "wread env (replay_idempotent (sv_host sv) key ''monitor.refresh'' (JObj [(''run_id'', JStr rid)])) s4 = (Inr replay, s5)"
    and rest: "(case replay of
          Some r \<Rightarrow> eret (r, True)
        | None \<Rightarrow>
            ebind (wread env (get_run rid)) (\<lambda>run.
              case rn_thread run of
                None \<Rightarrow> eraise (Sched ''MONITOR_UNAVAILABLE'')
              | Some thread \<Rightarrow>
                  ebind (wobserve (\<lambda>n. fst (monitor_read (ios n) timeout thread (new_session ())))) (\<lambda>ob.
                    wtx env (execute_idempotent (sv_host sv) key ''monitor.refresh'' (JObj [(''run_id'', JStr rid)]) now
                      (refresh_operation sv who' now rid run ob))))) s5 = (Inr (r, False), s')"
    unfolding monitor_refresh_def Let_def ebind_Inr elift_Inr sv_def by (elim exE conjE) blast
  have [simp]: "rid = run_id"
    by (rule valid_identifier_Inr [OF rid])
  from rest have "replay = None"
    by (cases replay) (simp_all add: eret_Inr)
  with rest obtain run s6 where rest: "(case rn_thread run of
                None \<Rightarrow> eraise (Sched ''MONITOR_UNAVAILABLE'')
              | Some thread \<Rightarrow>
                  ebind (wobserve (\<lambda>n. fst (monitor_read (ios n) timeout thread (new_session ())))) (\<lambda>ob.
                    wtx env (execute_idempotent (sv_host sv) key ''monitor.refresh'' (JObj [(''run_id'', JStr run_id)]) now
                      (refresh_operation sv who' now run_id run ob)))) s6 = (Inr (r, False), s')"
    and run: "wread env (get_run run_id) s5 = (Inr run, s6)"
    by (simp only: option.case \<open>rid = run_id\<close> ebind_Inr) blast
  from rest obtain thread where thread: "rn_thread run = Some thread"
    by (cases "rn_thread run") (auto simp: eraise_Inr)
  with rest obtain ob s7 where ob: "wobserve (\<lambda>n. fst (monitor_read (ios n) timeout thread (new_session ()))) s6 = (Inr ob, s7)"
    and tx: "wtx env (execute_idempotent (sv_host sv) key ''monitor.refresh'' (JObj [(''run_id'', JStr run_id)]) now
                      (refresh_operation sv who' now run_id run ob)) s7 = (Inr (r, False), s')"
    by (simp only: option.case ebind_Inr) blast
  note w = wobserve_Inr [OF clock [unfolded wclock_def]] wread_Inr [OF replay] wread_Inr [OF run] wobserve_Inr [OF ob]
  have reads: "we_others env (w_step s5) (w_db s5) = refresh_reads env s"
    and writes: "we_others env (w_step s7) (w_db s7) = refresh_writes env s"
    using w by (simp_all add: refresh_reads_def refresh_writes_def eval_nat_numeral)
  from execute_idempotent_fresh [OF wtx_Inr [OF tx]] obtain e x y where
      "refresh_operation sv who' now run_id run ob (refresh_writes env s) = Inr (x, e)" "w_db s' = e\<lparr>idem_t := y\<rparr>"
    unfolding writes by auto
  moreover have "fst (monitor_read (ios (w_step s + 3)) timeout thread (new_session ())) = Inr ob"
    using w by (simp add: eval_nat_numeral)
  ultimately show ?thesis
    using w(3) thread that unfolding reads sv_def by blast
qed

text \<open>
  A refresh reports what it saw. A refresh that is not a replay read the run and the task of that run's own
  thread, and afterwards every row with the run's identifier has the state that the observation gives, a terminal
  one with its completion time, and the run's job the state that goes with it; the rows of the other runs are those
  that its write found. And no observation files work as succeeded: a work run that is succeeded after a refresh
  was so when it was read.
\<close>

theorem refresh_files_what_it_saw:
  assumes "monitor_refresh env ios timeout run_id key who s = (Inr (r, False), s')"
  shows "\<exists>run ob thread. get_run run_id (refresh_reads env s) = Inr run \<and> rn_thread run = Some thread
    \<and> fst (monitor_read (ios (w_step s + 3)) timeout thread (new_session ())) = Inr ob \<and> ob_thread ob = thread
    \<and> (\<forall>q \<in> set (runs_t (w_db s')). rn_id q = run_id \<longrightarrow> rn_state q = fst (refreshed run ob)
         \<and> (terminal_state (rn_state q) \<longrightarrow> rn_completed q \<noteq> None))
    \<and> (\<forall>q. rn_id q \<noteq> run_id \<longrightarrow> q \<in> set (runs_t (w_db s')) \<longleftrightarrow> q \<in> set (runs_t (refresh_writes env s)))
    \<and> (\<forall>j row. rn_job run = Some j \<and> row \<in> set (jobs_t (w_db s')) \<and> jr_id row = j
         \<longrightarrow> jr_state row = refreshed_job run (fst (refreshed run ob)))
    \<and> (rn_kind run = work \<and> fst (refreshed run ob) = run_succeeded \<longrightarrow> rn_state run = run_succeeded)"
proof -
  define d where "d = refresh_writes env s"
  from assms obtain run ob thread who' now e x y where
      run: "get_run run_id (refresh_reads env s) = Inr run" "rn_thread run = Some thread"
      "fst (monitor_read (ios (w_step s + 3)) timeout thread (new_session ())) = Inr ob"
    and op: "refresh_operation (we_svc env) who' now run_id run ob d = Inr (x, e)" and s': "w_db s' = e\<lparr>idem_t := y\<rparr>"
    unfolding d_def by (rule monitor_refresh_Inr)
  have ob: "ob_thread ob = thread"
    using monitor_read_thread [of "ios (w_step s + 3)" timeout thread] run(3) by (auto simp: returns_def)
  note e = refresh_operation_Inr [OF op]
  have runs: "runs_t (w_db s') = runs_t (refresh_run run_id (fst (refreshed run ob)) (snd (refreshed run ob)) now d)"
    by (simp add: s' e(1) refresh_rows_runs)
  have own: "rn_state q = fst (refreshed run ob) \<and> (terminal_state (rn_state q) \<longrightarrow> rn_completed q \<noteq> None)"
    if q: "q \<in> set (runs_t (w_db s'))" "rn_id q = run_id" for q
    using refreshed_runs [OF q(1) [unfolded runs] q(2)] by simp
  have jobs: "jr_state row = refreshed_job run (fst (refreshed run ob))"
    if "rn_job run = Some j" "row \<in> set (jobs_t (w_db s'))" "jr_id row = j" for j row
    using refresh_rows_jobs [OF that(1) _ that(3)] that(2) by (simp add: s' e(2))
  show ?thesis
    by (intro exI [of _ run] exI [of _ ob] exI [of _ thread] conjI allI ballI impI)
      (use run ob own jobs refreshed_work refreshed_others in \<open>auto simp: runs d_def [symmetric]\<close>)
qed

end
