(* ===== verification/ClientScenarios.thy ===== *)
theory ClientScenarios
  imports Monitoring WorldScenarios
begin

text \<open>
  Concrete sessions of the two read-only clients: the server answers the probe, and a refresh sees that a turn
  has completed. They witness that the hypotheses of the clients' properties can hold. The last section shows a
  refresh that revives a fenced run while another one is active.
\<close>

section \<open>A probe\<close>

definition account_answer :: json where
  "account_answer = JObj
     [(''id'', JInt 2),
      (''result'', JObj [(''account'', JObj [(''type'', JStr ''chatgpt''), (''email'', JStr '' A@b''), (''planType'', JStr ''pro'')])])]"

definition answered_window :: "int \<Rightarrow> int \<Rightarrow> json" where
  "answered_window minutes used = JObj
     [(''windowDurationMins'', JInt minutes), (''usedPercent'', JInt used), (''resetsAt'', JInt 5000)]"

definition answered_bucket :: "(string \<times> json) list" where
  "answered_bucket =
     [(''limitId'', JStr ''codex''), (''primary'', answered_window 300 10), (''secondary'', answered_window 10080 40),
      (''credits'', JObj [(''hasCredits'', JBool False), (''unlimited'', JBool False)])]"

definition limits_answer :: json where
  "limits_answer = JObj [(''id'', JInt 3), (''result'', JObj [(''rateLimits'', JObj answered_bucket)])]"

definition answering_io :: stdio where
  "answering_io = short_io\<lparr>io_poll := (\<lambda>n. Q_line (Some (if n = 5 then account_answer else limits_answer)))\<rparr>"

definition answered_run :: "(err + json) \<times> nat session" where
  "answered_run = probe_read answering_io 20 (\<lambda>_. Inr demo_digest) ''default'' ''codex'' (new_session 0)"

lemma answered_run_valid:
  "map_sum id (\<lambda>x. (paid_credit_state x, limit_id x)) (rbind (fst answered_run) validate_snapshot)
   = Inr (''unavailable'', ''codex'')"
  by code_simp


section \<open>A refresh\<close>

definition seen_run :: "run_state \<Rightarrow> run_row" where
  "seen_run st = (new_run ''r1'' ''j1'' ''o1'' 900 990)\<lparr>rn_state := st, rn_thread := Some ''t1''\<rparr>"

definition seen_db :: db where
  "seen_db = demo_db READY\<lparr>runs_t := [seen_run run_running]\<rparr>"

definition turn_io :: "string \<Rightarrow> stdio" where
  "turn_io seen = short_io\<lparr>io_poll := (\<lambda>_. Q_line (Some (JObj
     [(''id'', JInt 2),
      (''result'', JObj [(''thread'', JObj
        [(''id'', JStr ''t1''), (''status'', JStr ''idle''),
         (''turns'', JArr [JObj [(''id'', JStr ''u1''), (''status'', JStr seen)]])])])])))\<rparr>"

definition refresh_world :: "string \<Rightarrow> db \<Rightarrow> (err + command_result) \<times> wst" where
  "refresh_world seen d = monitor_refresh demo_env (\<lambda>_. turn_io seen) 20 ''r1'' ''k1'' ''user'' (demo_world d)"

lemma refresh_world_ok: "map_sum id snd (fst (refresh_world ''completed'' seen_db)) = Inr False"
  by code_simp

lemma refresh_world_rows:
  "map (\<lambda>r. (rn_id r, rn_state r)) (runs_t (w_db (snd (refresh_world ''completed'' seen_db)))) = [(''r1'', run_needs_review)]"
  by code_simp

theorem refresh_files_what_it_saw_witness:
  "\<exists>run ob. fst (refreshed run ob) = run_needs_review
    \<and> (\<forall>q \<in> set (runs_t (w_db (snd (refresh_world ''completed'' seen_db)))). rn_completed q \<noteq> None)"
proof -
  obtain r where r: "refresh_world ''completed'' seen_db = (Inr (r, False), snd (refresh_world ''completed'' seen_db))"
    using inr_world [OF refresh_world_ok] by blast
  have rows: "\<forall>q \<in> set (runs_t (w_db (snd (refresh_world ''completed'' seen_db)))). rn_id q = ''r1'' \<and> rn_state q = run_needs_review"
    "runs_t (w_db (snd (refresh_world ''completed'' seen_db))) \<noteq> []"
    using refresh_world_rows by auto
  from refresh_files_what_it_saw [OF r [unfolded refresh_world_def], folded refresh_world_def] rows show ?thesis
    by (metis terminal_state_def insertCI list.set_intros(1) neq_Nil_conv)
qed

section \<open>A fenced run that comes back\<close>

text \<open>
  A run whose lease expired is fenced to review, and another run has started since. The refresh of the first sees
  its turn in progress and files it as running again: two runs are active, which the dispatcher never allows.
\<close>

definition fenced_db :: db where
  "fenced_db = demo_db READY\<lparr>runs_t := [seen_run run_needs_review, new_run ''r2'' ''j2'' ''o2'' 1000 1090]\<rparr>"

lemma refresh_revives_fenced_run:
  "map (\<lambda>r. (rn_id r, rn_state r)) (runs_t (w_db (snd (refresh_world ''inProgress'' fenced_db))))
   = [(''r1'', run_running), (''r2'', run_starting)]"
  by code_simp

end
