(* ===== verification/LiveRunner.thy ===== *)
theory LiveRunner
  imports RunnerSafety
begin

text \<open>
  live_test.py: one canary turn with a fixed prompt in a read-only sandbox. The lemmas show that nothing but the
  canary can be sent, that success means the server reported this turn completed, and what the runner keeps of
  its caller's world.
\<close>

section \<open>Constants\<close>

definition dquote :: string where
  "dquote = [CHR 0x22]"

definition CANARY_PROMPT :: string where
  "CANARY_PROMPT = ''Return exactly the JSON object {'' @ dquote @ ''status'' @ dquote @ '':'' @ dquote @ ''ok'' @ dquote
     @ ''}. Do not call tools.''"

definition CANARY_OUTPUT_SCHEMA :: json where
  "CANARY_OUTPUT_SCHEMA = JObj
     [(''type'', JStr ''object''), (''additionalProperties'', JBool False), (''required'', JArr [JStr ''status'']),
      (''properties'', JObj [(''status'', JObj [(''const'', JStr ''ok'')])])]"

record live_request =
  lr_cwd :: string
  lr_model :: string
  lr_effort :: string
  lr_max_runtime :: int
  lr_poll :: int

section \<open>Requests\<close>

definition live_send :: "stdio \<Rightarrow> json \<Rightarrow> ('s session, unit) eff" where
  "live_send io message =
     ethen (elift (guard (message_method message \<in> set LIVE_TEST_OUTBOUND_ALLOWLIST) ''METHOD_DENIED''))
           (io_send io (Sched ''LIVE_TEST_UNAVAILABLE'') message)"

text \<open>An answer is recognised by its identifier alone, before a request of the server is.\<close>

definition live_line :: "nat \<Rightarrow> unit \<Rightarrow> json option \<Rightarrow> json res + unit" where
  "live_line rid u line =
     (case line of
        None \<Rightarrow> Inl (Inl (Sched ''LIVE_TEST_PROTOCOL_ERROR''))
      | Some (JObj fs) \<Rightarrow>
          if equals_int (jgetn fs ''id'') (int rid)
          then Inl (if jgetn fs ''error'' \<noteq> JNull then Inl (Sched ''LIVE_TEST_REJECTED'') else Inr (JObj fs))
          else if jget fs ''id'' \<noteq> None \<and> jget fs ''method'' \<noteq> None
          then Inl (Inl (Sched ''LIVE_TEST_APPROVAL_REQUESTED''))
          else Inr ()
      | Some _ \<Rightarrow> Inl (Inl (PyExc ''AttributeError'')))"

definition live_receive :: "stdio \<Rightarrow> nat \<Rightarrow> rat \<Rightarrow> ('s session, json) eff" where
  "live_receive io rid deadline =
     poll_loop io (before_deadline io deadline) (live_line rid) (\<lambda>_ _. Inl (Sched ''LIVE_TEST_TIMEOUT'')) ()"

text \<open>A request and its answer, awaited for the given time.\<close>

definition live_rpc :: "stdio \<Rightarrow> rat \<Rightarrow> json \<Rightarrow> nat \<Rightarrow> ('s session, json) eff" where
  "live_rpc io patience message rid =
     ethen (live_send io message) (ebind (io_now io) (\<lambda>t. live_receive io rid (t + patience)))"

definition patience_of :: "live_request \<Rightarrow> rat" where
  "patience_of rq = of_int (min 10 (lr_max_runtime rq))"

text \<open>The identifier in \<open>response.get("result", {}).get(key)\<close>.\<close>

definition live_id :: "json \<Rightarrow> string \<Rightarrow> string res" where
  "live_id response key =
     rbind (get_attr (result_or_empty response) key) (\<lambda>v.
       case dict_get v ''id'' of JStr s \<Rightarrow> Inr s | _ \<Rightarrow> Inl (Sched ''LIVE_TEST_PROTOCOL_ERROR''))"

section \<open>The turn\<close>

definition canary_thread_params :: "live_request \<Rightarrow> json" where
  "canary_thread_params rq = JObj
     [(''approvalPolicy'', JStr ''never''), (''cwd'', JStr (lr_cwd rq)), (''ephemeral'', JBool False),
      (''model'', JStr (lr_model rq)), (''sandbox'', JStr ''read-only'')]"

definition canary_turn_params :: "live_request \<Rightarrow> string \<Rightarrow> json" where
  "canary_turn_params rq thread = JObj
     [(''approvalPolicy'', JStr ''never''), (''effort'', JStr (lr_effort rq)),
      (''input'', JArr [JObj [(''type'', JStr ''text''), (''text'', JStr CANARY_PROMPT)]]),
      (''model'', JStr (lr_model rq)), (''outputSchema'', CANARY_OUTPUT_SCHEMA),
      (''sandboxPolicy'', JObj [(''type'', JStr ''readOnly''), (''networkAccess'', JBool False)]),
      (''threadId'', JStr thread)]"

definition live_interrupt :: "string \<Rightarrow> string \<Rightarrow> json" where
  "live_interrupt thread turn =
     request_message 4 ''turn/interrupt'' (JObj [(''threadId'', JStr thread), (''turnId'', JStr turn)])"

definition live_turn_line :: "string \<Rightarrow> string \<Rightarrow> json option \<Rightarrow> turn_end option res" where
  "live_turn_line thread turn line =
     (case line of
        None \<Rightarrow> Inl (Sched ''LIVE_TEST_PROTOCOL_ERROR'')
      | Some m \<Rightarrow>
          rbind (contains_key m ''id'') (\<lambda>has_id.
          rbind (if has_id then contains_key m ''method'' else Inr False) (\<lambda>asks.
            if asks then Inr (Some (Turn_stop (Some ''APPROVAL_REQUESTED'')))
            else
              rbind (get_attr m ''method'') (\<lambda>method.
                if method \<noteq> JStr ''turn/completed'' then Inr None
                else
                  (case dict_get (dict_get m ''params'') ''turn'' of
                     JObj fs \<Rightarrow>
                       if jgetn fs ''id'' = JStr turn then Inr (Some (Turn_over (turn_result thread turn (jgetn fs ''status''))))
                       else Inr None
                   | _ \<Rightarrow> Inr None)))))"

text \<open>The safety check when it is due: only a SchedulerError counts as unsafe, anything else is passed on.\<close>

definition live_check ::
    "stdio \<Rightarrow> ('s, bool) eff \<Rightarrow> rat \<Rightarrow> rat \<Rightarrow> ('s session, bool \<times> rat) eff" where
  "live_check io safe_now poll due st =
     (let now = io_clock io (Suc (ss_step st)); st' = tick_session (tick_session st) in
      if now \<ge> due
      then (case safe_now (ss_world st') of
              (Inr ok, w) \<Rightarrow> (Inr (ok, now + poll), st'\<lparr>ss_world := w\<rparr>)
            | (Inl (Sched _), w) \<Rightarrow> (Inr (False, now + poll), st'\<lparr>ss_world := w\<rparr>)
            | (Inl e, w) \<Rightarrow> (Inl e, st'\<lparr>ss_world := w\<rparr>))
      else (Inr (True, due), st'))"

lemma live_check_step [simp]: "ss_step (snd (live_check io safe_now poll due st)) = ss_step st + 2"
  by (simp add: live_check_def Let_def split: prod.split sum.split err.split)

function live_loop ::
    "stdio \<Rightarrow> ('s, bool) eff \<Rightarrow> string \<Rightarrow> string \<Rightarrow> rat \<Rightarrow> rat \<Rightarrow> rat \<Rightarrow> ('s session, turn_end) eff" where
  "live_loop io safe_now thread turn deadline poll due st =
     (if \<not> (ss_step st < io_horizon io \<and> before_deadline io deadline (ss_step st)) then (Inr (Turn_stop None), tick_session st)
      else
        (let c = live_check io safe_now poll due st; st' = snd c in
         case fst c of
           Inl e \<Rightarrow> (Inl e, st')
         | Inr (ok, due') \<Rightarrow>
             if \<not> ok then (Inr (Turn_stop (Some ''SAFETY_CHECK_FAILED'')), st')
             else
               (case io_poll io (ss_step st) of
                  Q_empty \<Rightarrow> live_loop io safe_now thread turn deadline poll due' st'
                | Q_end \<Rightarrow> (Inl (Sched ''LIVE_TEST_UNAVAILABLE''), st')
                | Q_line line \<Rightarrow>
                    (case live_turn_line thread turn line of
                       Inl e \<Rightarrow> (Inl e, st')
                     | Inr (Some x) \<Rightarrow> (Inr x, st')
                     | Inr None \<Rightarrow> live_loop io safe_now thread turn deadline poll due' st'))))"
  by pat_completeness auto
termination
  by (relation "measure (\<lambda>(io, safe_now, thread, turn, deadline, poll, due, st). io_horizon io - ss_step st)") auto

declare live_loop.simps [simp del]

section \<open>The session\<close>

text \<open>The interrupt after the started turn could not be recorded.\<close>

definition abandon_turn :: "stdio \<Rightarrow> string \<Rightarrow> string \<Rightarrow> ('s session, runner_result) eff" where
  "abandon_turn io thread turn =
     ebind (ecatch (ethen (live_send io (live_interrupt thread turn))
                     (ebind (io_now io) (\<lambda>t. ethen (ebind (live_receive io 4 (t + 5)) (\<lambda>_. eret ()))
                       (eret ''RUN_PERSISTENCE_FAILED''))))
             (\<lambda>_. eret ''RUN_PERSISTENCE_FAILED_INTERRUPT_UNCONFIRMED''))
       (\<lambda>reason. eret (runner_outcome run_needs_review (Some reason) (Some thread) (Some turn)))"

text \<open>The interrupt after the loop: a failing write raises, an answer that fails with a SchedulerError does not.\<close>

definition stop_turn :: "stdio \<Rightarrow> string \<Rightarrow> string \<Rightarrow> string \<Rightarrow> ('s session, runner_result) eff" where
  "stop_turn io thread turn reason =
     ethen (live_send io (live_interrupt thread turn))
       (ecatch
         (ebind (io_now io) (\<lambda>t. ebind (live_receive io 4 (t + 5)) (\<lambda>_.
            eret (runner_outcome run_interrupted (Some reason) (Some thread) (Some turn)))))
         (\<lambda>e. case e of
            Sched _ \<Rightarrow> eret (runner_outcome run_needs_review (Some (reason @ ''_INTERRUPT_UNCONFIRMED'')) (Some thread) (Some turn))
          | PyExc c \<Rightarrow> eraise (PyExc c)))"

definition follow_canary ::
    "stdio \<Rightarrow> live_request \<Rightarrow> ('s, bool) eff \<Rightarrow> string \<Rightarrow> string \<Rightarrow> ('s session, runner_result) eff" where
  "follow_canary io rq safe_now thread turn =
     ebind (io_now io) (\<lambda>t0.
     ebind (io_now io) (\<lambda>t1.
     ebind (live_loop io safe_now thread turn (t0 + of_int (lr_max_runtime rq)) (of_int (lr_poll rq))
              (t1 + of_int (lr_poll rq))) (\<lambda>x.
       case x of
         Turn_over r \<Rightarrow> eret r
       | Turn_stop reason \<Rightarrow>
           stop_turn io thread turn (case reason of None \<Rightarrow> ''RUNTIME_LIMIT'' | Some r \<Rightarrow> r))))"

definition if_safe ::
    "('s, bool) eff \<Rightarrow> string option \<Rightarrow> ('s session, runner_result) eff \<Rightarrow> ('s session, runner_result) eff" where
  "if_safe safe_now thread k =
     ebind (io_call safe_now) (\<lambda>ok.
       if ok then k else eret (runner_outcome run_interrupted (Some ''SAFETY_CHECK_FAILED'') thread None))"

definition canary_turn ::
    "stdio \<Rightarrow> live_request \<Rightarrow> ('s, bool) eff \<Rightarrow> (string \<Rightarrow> string \<Rightarrow> ('s, unit) eff) \<Rightarrow> string
     \<Rightarrow> ('s session, runner_result) eff" where
  "canary_turn io rq safe_now turn_known thread =
     ebind (live_rpc io (patience_of rq) (request_message 3 ''turn/start'' (canary_turn_params rq thread)) 3) (\<lambda>response.
     ebind (elift (live_id response ''turn'')) (\<lambda>turn.
     ebind (io_call (succeeds (turn_known thread turn))) (\<lambda>known.
       if \<not> known then abandon_turn io thread turn else follow_canary io rq safe_now thread turn)))"

definition live_session ::
    "stdio \<Rightarrow> live_request \<Rightarrow> ('s, bool) eff \<Rightarrow> (string \<Rightarrow> string \<Rightarrow> ('s, unit) eff) \<Rightarrow> ('s session, runner_result) eff" where
  "live_session io rq safe_now turn_known =
     ethen (elift (io_open io ''LIVE_TEST_UNAVAILABLE''))
    (ebind (live_rpc io (patience_of rq) (request_message 1 ''initialize''
              (client_info ''codex_work_scheduler_live_test'' ''Codex Work Scheduler Live Test'')) 1) (\<lambda>_.
     ethen (live_send io (notification_message ''initialized'' (JObj [])))
    (if_safe safe_now None
      (ebind (live_rpc io (patience_of rq) (request_message 2 ''thread/start'' (canary_thread_params rq)) 2) (\<lambda>response.
       ebind (elift (live_id response ''thread'')) (\<lambda>thread.
         if_safe safe_now (Some thread) (canary_turn io rq safe_now turn_known thread)))))))"

definition live_run ::
    "stdio \<Rightarrow> live_request \<Rightarrow> ('s, bool) eff \<Rightarrow> (string \<Rightarrow> string \<Rightarrow> ('s, unit) eff) \<Rightarrow> ('s, runner_result) eff" where
  "live_run io rq safe_now turn_known w =
     (case live_session io rq safe_now turn_known (new_session w) of (r, st) \<Rightarrow> (r, ss_world st))"

section \<open>What the canary can send\<close>

definition canary_message :: "live_request \<Rightarrow> json \<Rightarrow> bool" where
  "canary_message rq m \<longleftrightarrow>
     message_method m \<in> set LIVE_TEST_OUTBOUND_ALLOWLIST
     \<and> (message_method m = ''thread/start'' \<longrightarrow> message_params m = canary_thread_params rq)
     \<and> (message_method m = ''turn/start'' \<longrightarrow> (\<exists>thread. message_params m = canary_turn_params rq thread))"

lemma sending_live_send: "P m \<Longrightarrow> sending.keeps P (live_send io m)"
  unfolding live_send_def by (intro keeps_intros sending_send)

lemma sending_live_receive [keeps_intros]: "sending.keeps P (live_receive io rid deadline)"
  unfolding live_receive_def by (rule sending_poll)

lemma sending_live_rpc: "P m \<Longrightarrow> sending.keeps P (live_rpc io patience m rid)"
  unfolding live_rpc_def by (intro keeps_intros sending_live_send)

lemma live_check_sent: "ss_sent (snd (live_check io safe_now poll due st)) = ss_sent st"
  by (simp add: live_check_def Let_def split: prod.split sum.split err.split)

lemma live_loop_sent: "ss_sent (snd (live_loop io safe_now thread turn deadline poll due st)) = ss_sent st"
proof (induction "io_horizon io - ss_step st" arbitrary: due st rule: less_induct)
  case less
  have later: "ss_sent (snd (live_loop io safe_now thread turn deadline poll due' (snd (live_check io safe_now poll due st)))) = ss_sent st"
    if "ss_step st < io_horizon io" for due'
    using that less.hyps [of "snd (live_check io safe_now poll due st)" due'] by (simp add: live_check_sent)
  show ?case
    by (subst live_loop.simps)
      (simp add: Let_def live_check_sent later split: queue_event.split sum.split option.split prod.split)
qed

lemma sending_live_loop [keeps_intros]: "sending.keeps P (live_loop io safe_now thread turn deadline poll due)"
  by (simp add: sending.keeps_def sends_only_none live_loop_sent)

lemma sending_if_safe [keeps_intros]: "sending.keeps P k \<Longrightarrow> sending.keeps P (if_safe safe_now thread k)"
  unfolding if_safe_def by (intro keeps_intros)

lemma canary_interrupt: "canary_message rq (live_interrupt thread turn)"
  by (simp add: canary_message_def live_interrupt_def LIVE_TEST_OUTBOUND_ALLOWLIST_def)

lemma sending_stop:
  "sending.keeps (canary_message rq) (abandon_turn io thread turn)"
  "sending.keeps (canary_message rq) (stop_turn io thread turn reason)"
  unfolding abandon_turn_def stop_turn_def
  by (auto intro!: keeps_intros sending_live_send canary_interrupt split: err.split)

lemma sending_follow_canary: "sending.keeps (canary_message rq) (follow_canary io rq' safe_now thread turn)"
  unfolding follow_canary_def by (auto intro!: keeps_intros sending_stop split: turn_end.split)

lemma sending_canary: "sending.keeps (canary_message rq) (live_session io rq safe_now turn_known)"
proof -
  have rpc: "sending.keeps (canary_message rq) (live_rpc io patience (request_message n m ps) rid)"
    if "canary_message rq (request_message n m ps)" for patience n m ps rid
    by (rule sending_live_rpc) (fact that)
  have messages: "canary_message rq (request_message 1 ''initialize'' ps)"
    "canary_message rq (notification_message ''initialized'' ps)"
    "canary_message rq (request_message 2 ''thread/start'' (canary_thread_params rq))"
    "canary_message rq (request_message 3 ''turn/start'' (canary_turn_params rq thread))" for ps thread
    by (auto simp: canary_message_def LIVE_TEST_OUTBOUND_ALLOWLIST_def)
  show ?thesis
    unfolding live_session_def canary_turn_def
    by (intro keeps_intros rpc messages sending_live_send sending_stop sending_follow_canary)
qed


section \<open>What a success means\<close>

lemma live_turn_line_over: "live_turn_line thread turn line = Inr (Some (Turn_over r)) \<Longrightarrow>
    \<exists>m fs. line = Some m \<and> get_attr m ''method'' = Inr (JStr ''turn/completed'')
      \<and> dict_get (dict_get m ''params'') ''turn'' = JObj fs \<and> jgetn fs ''id'' = JStr turn
      \<and> r = turn_result thread turn (jgetn fs ''status'')"
  by (auto simp: live_turn_line_def split: option.splits if_splits json.splits)

lemma live_loop_over:
  assumes "fst (live_loop io safe_now thread turn deadline poll due st) = Inr (Turn_over r)"
  shows "\<exists>n line. io_poll io n = Q_line line \<and> live_turn_line thread turn line = Inr (Some (Turn_over r))"
  using assms
proof (induction "io_horizon io - ss_step st" arbitrary: due st rule: less_induct)
  case less
  let ?c = "live_check io safe_now poll due st"
  show ?case
  proof (cases "\<exists>line. io_poll io (ss_step st) = Q_line line \<and> live_turn_line thread turn line = Inr (Some (Turn_over r))")
    case False
    with less.prems obtain due' where "ss_step st < io_horizon io"
      "fst (live_loop io safe_now thread turn deadline poll due' (snd ?c)) = Inr (Turn_over r)"
      by (subst (asm) live_loop.simps)
        (auto simp: Let_def split: if_splits queue_event.splits sum.splits option.splits prod.splits)
    then show ?thesis by (intro less.hyps) simp_all
  qed blast
qed

lemma turn_result_reported:
  assumes "io_poll io n = Q_line (Some m)" "get_attr m ''method'' = Inr (JStr ''turn/completed'')"
    and "dict_get (dict_get m ''params'') ''turn'' = JObj fs" "jgetn fs ''id'' = JStr turn"
  shows "well_reported io (turn_result thread turn (jgetn fs ''status''))"
proof -
  have "rr_state (turn_result thread turn v) = run_succeeded \<Longrightarrow> v = JStr ''completed''" for v
    by (auto simp: turn_result_def runner_outcome_def split: if_splits)
  moreover have "rr_thread (turn_result thread turn v) = Some thread \<and> rr_turn (turn_result thread turn v) = Some turn" for v
    by (simp add: turn_result_def runner_outcome_def)
  ultimately show ?thesis
    using assms turn_result_ended unfolding well_reported_def reported_def by blast
qed

lemma live_reported_over:
  "fst (live_loop io safe_now thread turn deadline poll due st) = Inr (Turn_over r) \<Longrightarrow> well_reported io r"
  by (metis live_loop_over live_turn_line_over turn_result_reported)

lemma returns_stop:
  "returns (abandon_turn io thread turn) (well_reported io')"
  "returns (stop_turn io thread turn reason) (well_reported io')"
proof -
  show "returns (abandon_turn io thread turn) (well_reported io')"
    unfolding abandon_turn_def by (intro returns_ebind returns_eret well_reported_outcome) simp
  have "returns (case e of Sched _ \<Rightarrow> eret (runner_outcome run_needs_review why (Some thread) (Some turn))
      | PyExc c \<Rightarrow> eraise (PyExc c)) (well_reported io')" for e why
    by (cases e) (auto simp: returns_def eraise_def eret_def intro!: well_reported_outcome)
  then show "returns (stop_turn io thread turn reason) (well_reported io')"
    unfolding stop_turn_def by (intro returns_ebind returns_ecatch returns_eret well_reported_outcome) simp
qed

lemma returns_follow_canary: "returns (follow_canary io rq safe_now thread turn) (well_reported io)"
  unfolding follow_canary_def
  by (rule returns_ebind, rule returns_ebind,
      rule returns_ebind_where [where P = "\<lambda>x. \<forall>r. x = Turn_over r \<longrightarrow> well_reported io r"])
     (auto simp: returns_def eret_def dest: live_reported_over split: turn_end.split
       intro: returns_stop [unfolded returns_def, rule_format])

lemma returns_if_safe:
  "returns k (well_reported io) \<Longrightarrow> returns (if_safe safe_now thread k) (well_reported io)"
  unfolding if_safe_def by (intro returns_ebind returns_if returns_eret well_reported_outcome) simp_all

lemma returns_live: "returns (live_session io rq safe_now turn_known) (well_reported io)"
  unfolding live_session_def canary_turn_def
  by (intro returns_ebind returns_if returns_if_safe returns_stop returns_follow_canary)

lemma live_run_session:
  "fst (live_run io rq safe_now turn_known w) = fst (live_session io rq safe_now turn_known (new_session w))"
  "snd (live_run io rq safe_now turn_known w) = ss_world (snd (live_session io rq safe_now turn_known (new_session w)))"
  by (simp_all add: live_run_def split: prod.split)

lemma live_run_reported: "fst (live_run io rq safe_now turn_known w) = Inr r \<Longrightarrow> well_reported io r"
  using returns_live unfolding live_run_session returns_def by blast

section \<open>What the runner keeps of its caller's world\<close>

context caller_rel begin

lemma live_check_world:
  assumes "keeps safe_now" and "K (ss_world st)"
  shows "R (ss_world st) (ss_world (snd (live_check io safe_now poll due st)))"
  using keepsD [OF assms] by (auto simp: live_check_def Let_def refl split: prod.split sum.split err.split)

lemma live_loop_world:
  assumes "keeps safe_now"
  shows "K (ss_world st) \<Longrightarrow> R (ss_world st) (ss_world (snd (live_loop io safe_now thread turn deadline poll due st)))"
proof (induction "io_horizon io - ss_step st" arbitrary: due st rule: less_induct)
  case less
  let ?c = "live_check io safe_now poll due st"
  have r: "R (ss_world st) (ss_world (snd ?c))"
    by (rule live_check_world [OF assms less.prems])
  have k: "K (ss_world (snd ?c))" by (rule K_step [OF less.prems r])
  have later: "R (ss_world st) (ss_world (snd (live_loop io safe_now thread turn deadline poll due' (snd ?c))))"
    if "ss_step st < io_horizon io" for due'
    using that by (intro trans [OF r] less.hyps k) simp
  show ?case
    by (subst live_loop.simps) (auto simp: Let_def refl r later split: queue_event.split sum.split option.split prod.split)
qed

lemma session_live_loop: "keeps safe_now \<Longrightarrow> session.keeps (live_loop io safe_now thread turn deadline poll due)"
  using live_loop_world by (auto simp: session.keeps_def world_rel_def)

lemma session_live_calls [keeps_intros]:
  "session.keeps (live_send io m)" "session.keeps (live_receive io rid deadline)" "session.keeps (live_rpc io patience m rid)"
  unfolding live_send_def live_receive_def live_rpc_def by (intro keeps_intros)+

lemma session_stop [keeps_intros]:
  "session.keeps (abandon_turn io thread turn)" "session.keeps (stop_turn io thread turn reason)"
  unfolding abandon_turn_def stop_turn_def by (auto intro!: keeps_intros split: err.split)

lemma session_if_safe [keeps_intros]: "keeps safe_now \<Longrightarrow> session.keeps k \<Longrightarrow> session.keeps (if_safe safe_now thread k)"
  unfolding if_safe_def by (intro keeps_intros)

lemma session_canary: "keeps safe_now \<Longrightarrow> session.keeps (follow_canary io rq safe_now thread turn)"
  unfolding follow_canary_def by (auto intro!: keeps_intros session_live_loop split: turn_end.split)

lemma session_live:
  assumes "keeps safe_now" and "\<And>t u. keeps (turn_known t u)"
  shows "session.keeps (live_session io rq safe_now turn_known)"
  unfolding live_session_def canary_turn_def by (intro keeps_intros session_canary assms)

lemma keeps_live_run:
  assumes "keeps safe_now" and "\<And>t u. keeps (turn_known t u)"
  shows "keeps (live_run io rq safe_now turn_known)"
proof (rule keepsI)
  fix w assume "K w"
  moreover have "session.keeps (live_session io rq safe_now turn_known)"
    by (rule session_live) (fact assms)+
  ultimately have "world_rel R (new_session w) (snd (live_session io rq safe_now turn_known (new_session w)))"
    by (intro session.keepsD) (simp_all add: new_session_def)
  then show "R w (snd (live_run io rq safe_now turn_known w))"
    by (simp only: live_run_session world_rel_def) (simp add: new_session_def)
qed

end

end
