(* ===== verification/LiveTest.thy ===== *)
theory LiveTest
  imports LiveRunner Progress
begin

text \<open>
  The live test of service.py: \<open>live_test_preflight\<close> and \<open>live_test_run\<close>, one canary run that an operator approves
  while the controller is paused. LiveSafety holds its proofs.
\<close>

section \<open>The preflight\<close>

record live_report =
  lv_mode :: controller_mode
  lv_issues :: "string list"
  lv_decision :: decision
  lv_scope :: json

definition safe_to_test :: "live_report \<Rightarrow> bool" where
  "safe_to_test r \<longleftrightarrow> lv_issues r = []"

text \<open>What the latest snapshot says about paid use; the credit verification mode plays no part here.\<close>

definition live_credit_issues :: "json option \<Rightarrow> string list" where
  "live_credit_issues snap =
     (case snap of
        None \<Rightarrow> [''PAID_CREDIT_SIGNAL_UNVERIFIED'']
      | Some v \<Rightarrow>
          (let paid = jgetn (obj_fields v) ''paid_credit_state'' in
           issue_if (paid = JStr ''unknown'') ''PAID_CREDIT_SIGNAL_UNVERIFIED''
           @ issue_if (paid = JStr ''available'') ''PAID_CREDITS_AVAILABLE''
           @ issue_if (jgetn (obj_fields v) ''spend_control_state'' = JStr ''reached'') ''SPEND_CONTROL_REACHED''))"

definition live_test_preflight :: "wenv \<Rightarrow> (wst, live_report) eff" where
  "live_test_preflight env =
     (let sv = we_svc env; live = cfg_live (sv_config sv) in
      ethen (elift (require_capability sv ''live_test.dispatch''))
     (ebind (wclock env) (\<lambda>now.
      ebind (wread env controller) (\<lambda>c.
      ebind (wread env current_policy) (\<lambda>p.
      ebind (wread env (\<lambda>d. Inr (latest_snapshot d))) (\<lambda>snap.
      ebind (wread env (evaluate_current_policy (sv_config sv) snap p now (Some (lt_usage live)))) (\<lambda>dec.
      ebind (wread env (\<lambda>d. Inr (active_leases d \<noteq> []))) (\<lambda>leased.
      ebind (wread env (\<lambda>d. Inr (list_ex run_in_flight (list_runs d)))) (\<lambda>busy.
      ebind (wread env (\<lambda>d. Inr (run_reconciliation_candidates now d \<noteq> []))) (\<lambda>stale.
      ebind (integrity env) (\<lambda>messages.
      ebind (wread env (\<lambda>d. Inr (valid (verify_audit (sv_host sv) d)))) (\<lambda>audited.
      ebind (wread env (live_test_scope sv)) (\<lambda>scope.
        eret \<lparr>lv_mode = mode c,
          lv_issues = sorted_set
            (reasons dec @ issue_if (\<not> lt_enabled live) ''LIVE_TEST_DISABLED''
             @ issue_if (mode c \<noteq> PAUSED) ''CONTROLLER_NOT_PAUSED''
             @ issue_if leased ''LEASE_ACTIVE'' @ issue_if busy ''LIVE_TEST_ACTIVE''
             @ issue_if stale ''RECONCILE_REQUIRED'' @ issue_if (\<not> check_passed messages) ''DATABASE_INVALID''
             @ issue_if (\<not> audited) ''AUDIT_INVALID'' @ live_credit_issues snap),
          lv_decision = dec, lv_scope = scope\<rparr>)))))))))))))"

definition live_report_dict :: "svc \<Rightarrow> live_report \<Rightarrow> json" where
  "live_report_dict sv r =
     (let part = (\<lambda>k. (k, jgetn (obj_fields (lv_scope r)) k)) in JObj
     [(''approval_requirement'', JObj
         [(''action'', JStr ''live-test.run''), (''capability'', JStr ''live_test.dispatch''),
          (''scope_hash'', JStr (payload_hash (sv_host sv) (lv_scope r)))]),
      (''controller_mode'', JStr (mode_name (lv_mode r))), (''issues'', JArr (map JStr (lv_issues r))),
      (''live_test'', JObj
         [part ''canary_version'', part ''effort'', part ''expected_usage'', part ''max_runtime_seconds'', part ''model'',
          (''network_access'', JBool False), (''sandbox'', JStr ''read-only'')]),
      (''policy_decision'', decision_dict (lv_decision r)), (''safe_to_dispatch'', JBool (safe_to_test r))])"

section \<open>The claim\<close>

record live_claim =
  lc_run :: string
  lc_key :: string
  lc_actor :: string
  lc_approval :: approval
  lc_scope :: json

definition live_request_json :: "approval \<Rightarrow> json \<Rightarrow> json" where
  "live_request_json a scope = JObj [(''approval'', approval_dict a), (''scope'', scope)]"

definition new_canary :: "string \<Rightarrow> rat \<Rightarrow> rat \<Rightarrow> run_row" where
  "new_canary rid now expires =
     \<lparr>rn_id = rid, rn_job = None, rn_kind = canary, rn_state = run_starting, rn_thread = None, rn_turn = None,
      rn_started = now, rn_updated = now, rn_lease_expires = expires, rn_lease_owner = None, rn_completed = None,
      rn_stop_reason = None\<rparr>"

definition live_claim_transaction :: "svc \<Rightarrow> live_claim \<Rightarrow> rat \<Rightarrow> db \<Rightarrow> (live_claim \<times> db) res" where
  "live_claim_transaction sv c now d =
     rbind (guard (active_runs d = []) ''LIVE_TEST_ACTIVE'') (\<lambda>_.
     rbind (insert_approval sv (lc_approval c) d) (\<lambda>(_, d1).
     rbind (insert_run (new_canary (lc_run c) now (now + of_int (lt_max_runtime (cfg_live (sv_config sv))) + 15)) d1)
       (\<lambda>(_, d2).
     rbind (audit sv ''live_test.claimed'' (lc_actor c)
              (JObj [(''approval_id'', JStr (approval_id (lc_approval c))), (''run_id'', JStr (lc_run c)),
                     (''scope_hash'', JStr (payload_hash (sv_host sv) (lc_scope c)))]) now d2) (\<lambda>(event_id, d3).
     rbind (record_idempotent (sv_host sv) (lc_key c) ''live-test.run'' (live_request_json (lc_approval c) (lc_scope c))
              (JObj [(''approval_id'', JStr (approval_id (lc_approval c))), (''live_dispatch'', JBool True),
                     (''run_id'', JStr (lc_run c)), (''state'', JStr ''starting''), (''audit_event_id'', JStr event_id)])
              now d3) (\<lambda>d4.
       Inr (c, d4))))))"

section \<open>The runner's callbacks\<close>

definition live_started_transaction :: "svc \<Rightarrow> live_claim \<Rightarrow> string \<Rightarrow> string \<Rightarrow> rat \<Rightarrow> db \<Rightarrow> (unit \<times> db) res" where
  "live_started_transaction sv c thread turn now d =
     rbind (audit sv ''live_test.started'' (lc_actor c)
              (JObj [(''run_id'', JStr (lc_run c)), (''thread_id'', JStr thread), (''turn_id'', JStr turn)]) now
              (d\<lparr>runs_t := update_where (\<lambda>r. rn_id r = lc_run c \<and> rn_state r = run_starting)
                   (\<lambda>r. r\<lparr>rn_state := run_running, rn_thread := Some thread, rn_turn := Some turn, rn_updated := now\<rparr>)
                   (runs_t d)\<rparr>)) (\<lambda>(_, d1). Inr ((), d1))"

definition live_started :: "wenv \<Rightarrow> live_claim \<Rightarrow> string \<Rightarrow> string \<Rightarrow> (wst, unit) eff" where
  "live_started env c thread turn =
     ebind (wclock env) (\<lambda>now. wtx env (live_started_transaction (we_svc env) c thread turn now))"

definition live_safety_key :: "svc \<Rightarrow> string \<Rightarrow> nat \<Rightarrow> string" where
  "live_safety_key sv key n = step_key sv ''live-safety-'' (JObj [(''operation'', JStr key)]) 40 @ ''-'' @ dec_nat n"

text \<open>The own run is active meanwhile, so the only acceptable issue is that a live test is active.\<close>

definition live_safety :: "wenv \<Rightarrow> live_claim \<Rightarrow> (wst, bool) eff" where
  "live_safety env c =
     ebind count_check (\<lambda>n.
     ebind (if n > 1 then succeeds (probe_quota env (live_safety_key (we_svc env) (lc_key c) n) (lc_actor c)) else eret True)
       (\<lambda>observed.
         if \<not> observed then eret False
         else ebind (live_test_preflight env) (\<lambda>r.
           eret (safe_to_test r \<or> lv_issues r = [''LIVE_TEST_ACTIVE'']))))"

section \<open>The run\<close>

text \<open>\<open>live_test_runner.run\<close>: the request, the safety check, the notification of the started turn.\<close>

type_synonym 's canary_runner =
  "live_request \<Rightarrow> ('s, bool) eff \<Rightarrow> (string \<Rightarrow> string \<Rightarrow> ('s, unit) eff) \<Rightarrow> ('s, runner_result) eff"

definition live_request_of :: "config \<Rightarrow> json \<Rightarrow> live_request" where
  "live_request_of cfg scope =
     \<lparr>lr_cwd = (case jgetn (obj_fields scope) ''workspace_root'' of JStr s \<Rightarrow> s | _ \<Rightarrow> []), lr_model = lt_model (cfg_live cfg),
      lr_effort = lt_effort (cfg_live cfg), lr_max_runtime = lt_max_runtime (cfg_live cfg), lr_poll = lt_poll (cfg_live cfg)\<rparr>"

definition live_failure_code :: "err \<Rightarrow> string" where
  "live_failure_code e = (case e of Sched c \<Rightarrow> c | PyExc _ \<Rightarrow> ''LIVE_TEST_INTERNAL_FAILURE'')"

definition run_canary :: "wenv \<Rightarrow> wst canary_runner \<Rightarrow> live_claim \<Rightarrow> (wst, runner_result \<times> string option) eff" where
  "run_canary env runner c =
     ecatch
       (ebind (runner (live_request_of (sv_config (we_svc env)) (lc_scope c)) (live_safety env c) (live_started env c))
          (\<lambda>r. eret (r, None)))
       (\<lambda>e. ebind (wread env (get_run (lc_run c))) (\<lambda>row.
          eret (result_of_failure (live_failure_code e) row, Some (live_failure_code e))))"

definition live_result :: "live_claim \<Rightarrow> runner_result \<Rightarrow> string \<Rightarrow> json" where
  "live_result c r event_id = JObj
     [(''approval_id'', JStr (approval_id (lc_approval c))), (''live_dispatch'', JBool True), (''run_id'', JStr (lc_run c)),
      (''state'', JStr (run_state_name (rr_state r))), (''stop_reason'', opt_str (rr_stop r)),
      (''thread_id'', opt_str (rr_thread r)), (''turn_id'', opt_str (rr_turn r)), (''audit_event_id'', JStr event_id)]"

definition live_finish_transaction ::
    "svc \<Rightarrow> live_claim \<Rightarrow> runner_result \<Rightarrow> string option \<Rightarrow> rat \<Rightarrow> db \<Rightarrow> (json \<times> db) res" where
  "live_finish_transaction sv c r failure now d =
     rbind (audit sv (if failure = None then ''live_test.completed'' else ''live_test.failed'') (lc_actor c)
              (JObj [(''failure_code'', opt_str failure), (''run_id'', JStr (lc_run c)),
                     (''state'', JStr (run_state_name (rr_state r))), (''stop_reason'', opt_str (rr_stop r)),
                     (''thread_id'', opt_str (rr_thread r)), (''turn_id'', opt_str (rr_turn r))]) now
              (d\<lparr>runs_t := update_where (\<lambda>row. rn_id row = lc_run c) (finished_run r now) (runs_t d)\<rparr>))
       (\<lambda>(event_id, d1).
         Inr (live_result c r event_id,
              d1\<lparr>idem_t := update_where (\<lambda>i. idem_key i = lc_key c)
                   (\<lambda>i. i\<lparr>idem_result := live_result c r event_id\<rparr>) (idem_t d1)\<rparr>))"

definition claimed_live :: "wenv \<Rightarrow> wst canary_runner \<Rightarrow> live_claim \<Rightarrow> (wst, command_result) eff" where
  "claimed_live env runner c =
     ethen reset_checks
    (ebind (run_canary env runner c) (\<lambda>(r, failure).
     ebind (wclock env) (\<lambda>finished_at.
     ebind (wtx env (live_finish_transaction (we_svc env) c r failure finished_at)) (\<lambda>result.
       eret (result, False)))))"

definition live_probe_key :: "svc \<Rightarrow> string \<Rightarrow> string" where
  "live_probe_key sv key =
     step_key sv ''live-preflight-'' (JObj [(''operation'', JStr key), (''step'', JStr ''probe'')]) 48"

definition live_denial :: "live_report \<Rightarrow> string" where
  "live_denial r = (case lv_issues r of [] \<Rightarrow> ''LIVE_TEST_DENIED'' | i # _ \<Rightarrow> i)"

text \<open>From the absence of a stored result to the claim.\<close>

definition claim_live :: "wenv \<Rightarrow> json \<Rightarrow> string \<Rightarrow> string \<Rightarrow> rat \<Rightarrow> json \<Rightarrow> (wst, live_claim) eff" where
  "claim_live env value key who started_at scope =
     (let sv = we_svc env in
      ebind (elift (validate_approval value started_at False)) (\<lambda>a.
      ethen (elift (require_approval a ''live-test.run'' (payload_hash (sv_host sv) scope) ''live_test.dispatch''))
     (ebind (probe_quota env (live_probe_key sv key) who) (\<lambda>_.
      ebind (live_test_preflight env) (\<lambda>r.
      ethen (eguard (safe_to_test r) (live_denial r))
     (ebind (wid env ''run'') (\<lambda>rid.
        wtx env (live_claim_transaction sv
          \<lparr>lc_run = rid, lc_key = key, lc_actor = who, lc_approval = a, lc_scope = scope\<rparr> started_at))))))))"

definition live_test_run ::
    "wenv \<Rightarrow> wst canary_runner \<Rightarrow> json \<Rightarrow> string \<Rightarrow> string \<Rightarrow> (wst, command_result) eff" where
  "live_test_run env runner value key actor_value =
     (let sv = we_svc env in
      ethen (elift (require_capability sv ''live_test.dispatch''))
     (ebind (elift (valid_actor actor_value)) (\<lambda>who.
      ebind (wclock env) (\<lambda>started_at.
      ebind (elift (validate_approval value started_at True)) (\<lambda>a.
      ebind (wread env (live_test_scope sv)) (\<lambda>scope.
      ebind (wread env (replay_idempotent (sv_host sv) key ''live-test.run'' (live_request_json a scope))) (\<lambda>replay.
        case replay of
          Some r \<Rightarrow> ebind (wread env (replayed_result r)) (\<lambda>v. eret (v, True))
        | None \<Rightarrow> ebind (claim_live env value key who started_at scope) (claimed_live env runner))))))))"

end
