(* ===== verification/LiveSafety.thy ===== *)
theory LiveSafety
  imports LiveTest
begin

text \<open>
  Proofs about the live test: what a started canary presupposes, that at most one run stays active beside any
  other process, that its row is filed as the runner reported it, and which tables it leaves alone.
\<close>

section \<open>What each transaction writes\<close>

lemma live_claim_Inr:
  assumes "live_claim_transaction sv c now d = Inr (c', d')"
  shows "c' = c \<and> active_runs d = [] \<and> approval_id (lc_approval c) \<notin> set (map appr_id (approvals_t d))
    \<and> lc_run c \<notin> set (map rn_id (runs_t d))
    \<and> (\<exists>row ev idem. appr_id row = approval_id (lc_approval c) \<and> d' = d\<lparr>approvals_t := approvals_t d @ [row],
         runs_t := runs_t d @ [new_canary (lc_run c) now (now + of_int (lt_max_runtime (cfg_live (sv_config sv))) + 15)],
         audit_t := ev, idem_t := idem\<rparr>)"
proof -
  let ?run = "new_canary (lc_run c) now (now + of_int (lt_max_runtime (cfg_live (sv_config sv))) + 15)"
  from assms obtain d1 d2 i det d3 r where free: "active_runs d = []"
    and a: "insert_approval sv (lc_approval c) d = Inr ((), d1)" and n: "insert_run ?run d1 = Inr ((), d2)"
    and l: "audit sv ''live_test.claimed'' (lc_actor c) det now d2 = Inr (i, d3)"
    and rec: "record_idempotent (sv_host sv) (lc_key c) ''live-test.run'' (live_request_json (lc_approval c) (lc_scope c)) r now d3 = Inr d'"
    and c': "c' = c"
    unfolding live_claim_transaction_def rbind_Inr_iff guard_Inr by (clarsimp split: prod.splits)
  from n have n': "lc_run c \<notin> set (map rn_id (runs_t d1))" "d2 = d1\<lparr>runs_t := runs_t d1 @ [?run]\<rparr>"
    by (auto simp: insert_run_def new_canary_def split: if_splits)
  obtain row where row: "appr_id row = approval_id (lc_approval c)" "d1 = d\<lparr>approvals_t := approvals_t d @ [row]\<rparr>"
    and fresh: "approval_id (lc_approval c) \<notin> set (map appr_id (approvals_t d))"
    using a [unfolded insert_approval_Inr] by (elim conjE) (rule that; simp)
  from audit_frame [OF l] record_idempotent_bound [OF rec] obtain x y where d': "d' = d2\<lparr>audit_t := x, idem_t := y\<rparr>"
    by auto
  have "d' = d\<lparr>approvals_t := approvals_t d @ [row], runs_t := runs_t d @ [?run], audit_t := x, idem_t := y\<rparr>"
    by (simp add: d' n'(2) row(2))
  with free c' n'(1) fresh row show ?thesis
    by (intro conjI exI [of _ row] exI [of _ x] exI [of _ y]) simp_all
qed

lemma live_started_runs:
  "live_started_transaction sv c t u now d = Inr (x, d') \<Longrightarrow>
   \<exists>ev. d' = d\<lparr>runs_t := update_where (\<lambda>r. rn_id r = lc_run c \<and> rn_state r = run_starting)
     (\<lambda>r. r\<lparr>rn_state := run_running, rn_thread := Some t, rn_turn := Some u, rn_updated := now\<rparr>) (runs_t d), audit_t := ev\<rparr>"
  by (auto simp: live_started_transaction_def dest!: audit_frame)

lemma live_finish_runs:
  "live_finish_transaction sv c r failure now d = Inr (v, d') \<Longrightarrow>
   (\<exists>i. v = live_result c r i) \<and>
   (\<exists>ev idem. d' = d\<lparr>runs_t := update_where (\<lambda>row. rn_id row = lc_run c) (finished_run r now) (runs_t d), audit_t := ev, idem_t := idem\<rparr>)"
  by (auto simp: live_finish_transaction_def dest!: audit_frame)

section \<open>Relations that a live test keeps\<close>

text \<open>The interface of a relation that each transaction of a live test keeps, as the other processes do.\<close>

locale live_rel = rel: db_rel R "\<lambda>_. True" env + command: command_rel R
  for R :: "db \<Rightarrow> db \<Rightarrow> bool" and env :: wenv +
  assumes probe_step: "probe_operation (we_svc env) who now i m d = Inr (r, e) \<Longrightarrow> R d e"
    and claim_step: "live_claim_transaction (we_svc env) c now d = Inr (c', e) \<Longrightarrow> R d e"
    and started_step: "live_started_transaction (we_svc env) c t u now d = Inr (x, e) \<Longrightarrow> R d e"
    and finish_step: "live_finish_transaction (we_svc env) c r' failure now d = Inr (j, e) \<Longrightarrow> ended r' \<Longrightarrow> R d e"
begin

lemma keeps_count [keeps_intros]: "rel.lifted.keeps count_check" "rel.lifted.keeps reset_checks"
  by (auto simp: rel.lifted.keeps_def count_check_def reset_checks_def rel.refl)

lemma keeps_trying [keeps_intros]: "rel.lifted.keeps m \<Longrightarrow> rel.lifted.keeps (succeeds m)"
  unfolding succeeds_def by (intro keeps_intros)

lemma keeps_probing [keeps_intros]: "rel.lifted.keeps (probe_quota env key who)"
  unfolding probe_quota_def Let_def
  by (intro keeps_intros rel.lifted_wtx) (rule command.execute_keeps [OF probe_step])

lemma keeps_reading [keeps_intros]: "rel.lifted.keeps (live_test_preflight env)"
  unfolding live_test_preflight_def Let_def by (intro keeps_intros)

lemma keeps_live_callbacks:
  "rel.lifted.keeps (live_safety env c)" "rel.lifted.keeps (live_started env c t u)"
  unfolding live_safety_def live_started_def
  by (intro keeps_intros rel.lifted_wtx; erule started_step)+

lemma caller: "caller_rel (\<lambda>s (t :: wst). R (w_db (s :: wst)) (w_db t)) (\<lambda>s. True)"
  by (rule caller_rel.intro) unfold_locales

lemma keeps_run_canary: "rel.lifted.keeps (run_canary env (live_run io) c)"
  unfolding run_canary_def
  by (intro rel.lifted.keeps_ecatch rel.lifted.keeps_ebind rel.lifted_wread rel.lifted.keeps_eret
      caller_rel.keeps_live_run [OF caller] keeps_live_callbacks)

lemma run_canary_ended: "run_canary env (live_run io) c s = (Inr (r, failure), s') \<Longrightarrow> ended r"
  by (auto simp: run_canary_def eff_defs well_reported_def result_of_failure_def ended_def
      split: sum.splits prod.splits if_splits dest!: live_run_reported [where io = io, OF arg_cong [where f = fst, THEN trans]])

lemma keeps_claimed_live: "rel.lifted.keeps (claimed_live env (live_run io) c)"
proof -
  have finish: "rel.lifted.keeps (ebind (wclock env) (\<lambda>t.
      ebind (wtx env (live_finish_transaction (we_svc env) c r failure t)) (\<lambda>v. eret (v, False))))"
    if "ended r" for r failure
    by (intro keeps_intros rel.lifted_wtx) (erule finish_step, rule that)
  show ?thesis
    unfolding claimed_live_def
  proof (rule rel.lifted.keeps_ebind [OF keeps_count(2)], rule rel.lifted.keeps_ebind_yields [OF keeps_run_canary])
    show "rel.lifted.yields (run_canary env (live_run io) c) (\<lambda>x. ended (fst x))"
      using run_canary_ended by (intro rel.lifted.yieldsI) (metis prod.collapse)
  qed (auto intro: finish)
qed

lemma keeps_live_test_run: "rel.lifted.keeps (live_test_run env (live_run io) value key who)"
  unfolding live_test_run_def claim_live_def Let_def
  by (intro keeps_intros keeps_claimed_live rel.lifted_wtx) (erule claim_step)

lemma live_test_keeps: "R (w_db s) (w_db (snd (live_test_run env (live_run io) value key who s)))"
  by (rule rel.lifted.keepsD [OF keeps_live_test_run]) simp

end

section \<open>At most one run\<close>

lemma live_exclusive:
  "live_claim_transaction sv c now d = Inr (c', e) \<Longrightarrow> runs_exclude d e"
  "live_started_transaction sv c t u now d = Inr (x, e) \<Longrightarrow> runs_exclude d e"
  "live_finish_transaction sv c r failure now d = Inr (j, e) \<Longrightarrow> ended r \<Longrightarrow> runs_exclude d e"
proof -
  assume "live_claim_transaction sv c now d = Inr (c', e)"
  from live_claim_Inr [OF this] obtain x where "active_runs d = []" "runs_t e = runs_t d @ [new_canary (lc_run c) now x]"
    by auto
  then show "runs_exclude d e"
    by (simp add: runs_exclude_def one_run_def active_runs_def new_canary_def)
next
  assume "live_started_transaction sv c t u now d = Inr (x, e)"
  from live_started_runs [OF this] have "runs_t e = update_where (\<lambda>r. rn_id r = lc_run c \<and> rn_state r = run_starting)
     (\<lambda>r. r\<lparr>rn_state := run_running, rn_thread := Some t, rn_turn := Some u, rn_updated := now\<rparr>) (runs_t d)"
    by auto
  then show "runs_exclude d e"
    by (rule update_runs_exclusive) simp
next
  assume "live_finish_transaction sv c r failure now d = Inr (j, e)" and r: "ended r"
  from live_finish_runs [OF this(1)] have "runs_t e = update_where (\<lambda>row. rn_id row = lc_run c) (finished_run r now) (runs_t d)"
    by auto
  then show "runs_exclude d e"
    by (rule update_runs_exclusive) (use r in \<open>simp add: finished_run_def ended_def\<close>)
qed

text \<open>What another process can commit: any step of the dispatchers and commands, or of another live test.\<close>

datatype live_peer =
    L_other dispatcher
  | L_claim live_claim rat
  | L_started live_claim string string rat
  | L_finish live_claim runner_result "string option" rat

fun live_peer_step :: "svc \<Rightarrow> live_peer \<Rightarrow> db \<Rightarrow> db" where
  "live_peer_step sv (L_other p) d = dispatcher_step sv p d"
| "live_peer_step sv (L_claim c now) d = snd (transact (live_claim_transaction sv c now) d)"
| "live_peer_step sv (L_started c t u now) d = snd (transact (live_started_transaction sv c t u now) d)"
| "live_peer_step sv (L_finish c r failure now) d =
     (if ended r then snd (transact (live_finish_transaction sv c r failure now) d) else d)"

definition with_live_tests :: "wenv \<Rightarrow> (nat \<Rightarrow> live_peer) \<Rightarrow> wenv" where
  "with_live_tests env sched = env\<lparr>we_others := (\<lambda>n. live_peer_step (we_svc env) (sched n))\<rparr>"

lemma exclusive_live_peer: "runs_exclude d (live_peer_step sv p d)"
proof (cases p)
  case (L_finish c r failure now)
  then show ?thesis
    by (auto intro!: exclusive_transact elim: live_exclusive simp: runs_exclude_def [of d d])
qed (auto intro!: exclusive_transact intro: live_exclusive exclusive_dispatcher)

interpretation testing: live_rel runs_exclude "with_live_tests env sched" for env sched
  by unfold_locales (auto simp: with_live_tests_def intro: exclusive_live_peer probe_exclusive live_exclusive)

text \<open>The dispatcher keeps its promise in the company of live tests.\<close>

interpretation dispatching_beside_tests: dispatch_world "with_live_tests env sched" "work_run io" for env sched io
  by unfold_locales (simp add: with_live_tests_def exclusive_live_peer)

text \<open>
  Live tests and dispatches exclude each other. If at most one run is active, then at most one is active after
  a whole live test, and after a whole dispatch, however it ends, while between any two of its steps other processes
  commit any of their transactions: dispatches, controller commands and other live tests.
\<close>

theorem live_test_keeps_single_run:
  assumes "one_run (w_db s)"
  shows "one_run (w_db (snd (live_test_run (with_live_tests env sched) (live_run io) value key who s)))
    \<and> (call_starts_no_run call \<longrightarrow> one_run (w_db (snd (dispatch_run (with_live_tests env sched) (work_run io') call s))))"
  using testing.live_test_keeps [of s env sched io] assms dispatching_beside_tests.dispatch_keeps_one_run
  by (auto simp: runs_exclude_def)

section \<open>What a live test leaves alone\<close>

definition work_kept :: "db \<Rightarrow> db \<Rightarrow> bool" where
  "work_kept d d' \<longleftrightarrow>
     controller_t d' = controller_t d \<and> policies_t d' = policies_t d \<and> jobs_t d' = jobs_t d \<and> proposals_t d' = proposals_t d
     \<and> leases_t d' = leases_t d \<and> service_lease_t d' = service_lease_t d \<and> notifications_t d' = notifications_t d
     \<and> sessions_t d' = sessions_t d \<and> targets_t d' = targets_t d
     \<and> (\<exists>new. approvals_t d' = approvals_t d @ new)"

interpretation working: command_rel work_kept
  by unfold_locales (auto simp: work_kept_def)

lemma probe_work_kept: "probe_operation sv who now i m d = Inr (r, e) \<Longrightarrow> work_kept d e"
proof -
  assume "probe_operation sv who now i m d = Inr (r, e)"
  then obtain c d1 sn ev where "bind_account (sv_config sv) m d = Inr (c, d1)" "e = d1\<lparr>snapshots_t := sn, audit_t := ev\<rparr>"
    using probe_operation_Inr by blast
  then show ?thesis
    by (auto simp: bind_account_def work_kept_def split: option.splits if_splits)
qed

lemma live_work_kept:
  "live_claim_transaction sv c now d = Inr (c', e) \<Longrightarrow> work_kept d e"
  "live_started_transaction sv c t u now d = Inr (x, e) \<Longrightarrow> work_kept d e"
  "live_finish_transaction sv c r failure now d = Inr (j, e) \<Longrightarrow> work_kept d e"
  by (auto simp: work_kept_def dest!: live_claim_Inr live_started_runs live_finish_runs)

text \<open>
  A live test touches no work. Unless other processes do, a live test changes neither the controller, nor
  the policy, a job, a proposal, a lease, a notification or a quota guard, and it only adds approvals, however it ends.
\<close>

theorem live_test_touches_no_work:
  assumes "\<And>n d. work_kept d (we_others env n d)"
  shows "work_kept (w_db s) (w_db (snd (live_test_run env (live_run io) value key who s)))"
proof -
  have "live_rel work_kept env"
    by unfold_locales (erule probe_work_kept live_work_kept | rule assms)+
  then show ?thesis
    by (rule live_rel.live_test_keeps)
qed

section \<open>What a claim presupposes\<close>

lemma live_preflight_reads:
  assumes q: "undisturbed env now messages" and run: "live_test_preflight env s = (Inr r, s')"
  shows "w_db s' = w_db s \<and> (lv_issues r = [] \<longrightarrow> current_mode (w_db s) = Inr PAUSED
    \<and> lt_enabled (cfg_live (sv_config (we_svc env))) \<and> active_leases (w_db s) = []
    \<and> check_passed messages \<and> valid (verify_audit (sv_host (we_svc env)) (w_db s))
    \<and> live_credit_issues (latest_snapshot (w_db s)) = []
    \<and> (\<exists>p dec. current_policy (w_db s) = Inr p \<and> eligible dec
         \<and> evaluate_current_policy (sv_config (we_svc env)) (latest_snapshot (w_db s)) p now
             (Some (lt_usage (cfg_live (sv_config (we_svc env))))) (w_db s) = Inr dec))"
  using run unfolding live_test_preflight_def Let_def eff_Inr
  by (auto dest!: undisturbed_steps [OF q] simp: eret_Inr controller_def current_mode_def
      intro: no_reasons_eligible split: if_splits option.splits)

lemma undisturbed_wtx:
  "undisturbed env now messages \<Longrightarrow> wtx env body s = (Inr x, s') \<Longrightarrow> body (w_db s) = Inr (x, w_db s')"
  by (auto simp: undisturbed_def wstep_defs transact_def split: sum.splits prod.splits)

lemma undisturbed_wid: "wid env prefix s = (Inr x, s') \<Longrightarrow> w_db s' = w_db s"
  by (auto simp: wstep_defs)

text \<open>
  C21. A canary starts only when nothing speaks against it. In an undisturbed world, a live test that gets as far as
  its claim has a current approval of exactly this scope, whose identifier it uses up; on the database that the probe
  left, the controller is paused, no lease and no run is active, both integrity checks pass, the policy admits the
  expected usage, and the snapshot shows paid credits to be neither available nor unknown; and the claim adds just the one
  canary run.
\<close>

theorem live_claim_is_safe:
  assumes q: "undisturbed env now messages"
    and run: "claim_live env value key who started_at scope s = (Inr c, s')"
    and d: "d = w_db (snd (probe_quota env (live_probe_key (we_svc env) key) who s))"
  shows "action (lc_approval c) = ''live-test.run''
    \<and> scope_hash (lc_approval c) = payload_hash (sv_host (we_svc env)) scope
    \<and> ''live_test.dispatch'' \<in> set (capabilities (lc_approval c)) \<and> started_at < expires_at (lc_approval c)
    \<and> approval_id (lc_approval c) \<notin> set (map appr_id (approvals_t d))
    \<and> approval_id (lc_approval c) \<in> set (map appr_id (approvals_t (w_db s')))
    \<and> current_mode d = Inr PAUSED \<and> lt_enabled (cfg_live (sv_config (we_svc env)))
    \<and> active_leases d = [] \<and> active_runs d = []
    \<and> check_passed messages \<and> valid (verify_audit (sv_host (we_svc env)) d)
    \<and> live_credit_issues (latest_snapshot d) = []
    \<and> (\<exists>p dec. current_policy d = Inr p \<and> eligible dec
         \<and> evaluate_current_policy (sv_config (we_svc env)) (latest_snapshot d) p now
             (Some (lt_usage (cfg_live (sv_config (we_svc env))))) d = Inr dec)
    \<and> (\<exists>expires. runs_t (w_db s') = runs_t d @ [new_canary (lc_run c) started_at expires])"
proof -
  let ?sv = "we_svc env"
  from run obtain a x s1 r s2 rid s3 where
      a: "validate_approval value started_at False = Inr a"
    and ok: "require_approval a ''live-test.run'' (payload_hash (sv_host ?sv) scope) ''live_test.dispatch'' = Inr ()"
    and probe: "probe_quota env (live_probe_key ?sv key) who s = (Inr x, s1)"
    and pre: "live_test_preflight env s1 = (Inr r, s2)" and safe: "lv_issues r = []"
    and rid: "wid env ''run'' s2 = (Inr rid, s3)"
    and tx: "wtx env (live_claim_transaction ?sv
          \<lparr>lc_run = rid, lc_key = key, lc_actor = who, lc_approval = a, lc_scope = scope\<rparr> started_at) s3 = (Inr c, s')"
    unfolding claim_live_def Let_def eff_Inr by (auto simp: safe_to_test_def eguard_def eret_Inr eraise_Inr split: if_splits)
  have s1: "w_db s1 = d"
    using d probe by simp
  note p = live_preflight_reads [OF q pre, unfolded s1]
  have s3: "w_db s3 = d"
    using undisturbed_wid [OF rid] p by simp
  note claim = live_claim_Inr [OF undisturbed_wtx [OF q tx], unfolded s3]
  then have c: "lc_approval c = a"
    by (simp add: conjunct1)
  show ?thesis
    using p safe claim c ok validate_approval_current [OF a] by (auto simp: d)
qed

section \<open>What is filed\<close>

lemma run_canary_reported:
  assumes "run_canary env (live_run io) c s = (Inr (r, failure), s')"
  shows "ended r \<and> (rr_state r = run_succeeded \<longrightarrow> reported io r)"
proof (cases "failure = None")
  case True
  with assms obtain w where "fst (live_run io (live_request_of (sv_config (we_svc env)) (lc_scope c)) (live_safety env c) (live_started env c) w) = Inr r"
    by (auto simp: run_canary_def eff_defs split: sum.splits prod.splits) (metis fst_conv)
  from live_run_reported [OF this] show ?thesis
    by (simp add: well_reported_def)
next
  case False
  with assms have "rr_state r \<in> {run_needs_review, run_failed}"
    by (auto simp: run_canary_def eff_defs result_of_failure_def split: sum.splits prod.splits if_splits)
  then show ?thesis
    by (auto simp: ended_def)
qed

text \<open>
  C25. The canary is filed as the runner reported it. When a claimed live test returns, its result and the row of its run
  tell the same final state and reason and the run is completed; and it is succeeded only if the server
  notified that the turn in the result completed.
\<close>

theorem live_test_files_the_report:
  assumes "claimed_live env (live_run io) c s = (Inr (result, replayed), s')"
  shows "\<exists>r i. result = live_result c r i \<and> ended r
    \<and> (\<forall>q \<in> set (runs_t (w_db s')). rn_id q = lc_run c \<longrightarrow>
         rn_state q = rr_state r \<and> rn_stop_reason q = rr_stop r \<and> rn_completed q \<noteq> None)
    \<and> (rr_state r = run_succeeded \<longrightarrow> reported io r)"
proof -
  from assms obtain r failure s1 s2 now s3 where
      run: "run_canary env (live_run io) c s1 = (Inr (r, failure), s2)"
    and tx: "wtx env (live_finish_transaction (we_svc env) c r failure now) s3 = (Inr result, s')"
    unfolding claimed_live_def eff_Inr by (auto simp: eff_Inr)
  have f: "live_finish_transaction (we_svc env) c r failure now (we_others env (w_step s3) (w_db s3)) = Inr (result, w_db s')"
    using tx by (auto simp: wtx_def wdb_def transact_def split: sum.splits prod.splits)
  from live_finish_runs [OF f] obtain i where i: "result = live_result c r i"
    and runs: "runs_t (w_db s') = update_where (\<lambda>row. rn_id row = lc_run c) (finished_run r now) (runs_t (we_others env (w_step s3) (w_db s3)))"
    by auto
  have "rn_state q = rr_state r \<and> rn_stop_reason q = rr_stop r \<and> rn_completed q \<noteq> None"
    if "q \<in> set (runs_t (w_db s'))" "rn_id q = lc_run c" for q
    using update_where_cases [OF that(1) [unfolded runs]] that(2) by (elim disjE bexE conjE) (simp_all add: finished_run_def)
  with i run_canary_reported [OF run] show ?thesis
    by blast
qed

end
