(* ===== verification/LiveScenarios.thy ===== *)
theory LiveScenarios
  imports LiveSafety WorldScenarios
begin

text \<open>
  A concrete live test on a paused controller, used to witness that the hypotheses of its properties can hold: the
  claim succeeds, and the canary is interrupted because its second safety check finds no new observation.
\<close>

section \<open>The claim\<close>

definition live_config :: config where
  "live_config = demo_config\<lparr>cfg_live := (cfg_live demo_config)\<lparr>lt_enabled := True\<rparr>\<rparr>"

definition live_sv :: svc where
  "live_sv = demo_sv\<lparr>sv_config := live_config\<rparr>"

definition live_env :: wenv where
  "live_env = demo_env\<lparr>we_svc := live_sv\<rparr>"

definition live_grant :: approval where
  "live_grant = \<lparr>approval_id = ''ap1'', actor = ''user'', action = ''live-test.run'',
     scope_hash = demo_digest, capabilities = [''live_test.dispatch''], granted_at = 1000, expires_at = 2000\<rparr>"

text \<open>The probe that precedes the preflight was made before, by an attempt with the same key.\<close>

definition probed_row :: idem_row where
  "probed_row = \<lparr>idem_key = live_probe_key live_sv ''k1'', idem_command = ''probe'', idem_request_hash = demo_digest,
     idem_result = JObj [], idem_created = 1000\<rparr>"

definition paused_db :: db where
  "paused_db = demo_db PAUSED\<lparr>idem_t := [probed_row]\<rparr>"

lemma live_hash [simp]: "payload_hash (sv_host live_sv) v = demo_digest" "sv_config live_sv = live_config"
  "we_svc live_env = live_sv"
  by (simp_all add: live_sv_def live_env_def)

lemma live_undisturbed: "undisturbed live_env 1010 [''ok'']"
  by (simp add: undisturbed_def live_env_def demo_env_def)

lemma live_facts:
  "validate_approval (approval_dict live_grant) 1010 False = Inr live_grant"
  "require_capability live_sv ''live_test.dispatch'' = Inr ()"
  "require_capability live_sv ''quota.read'' = Inr ()"
  "valid_actor ''user'' = Inr ''user''"
  by code_simp+

lemma paused_facts:
  "controller paused_db = Inr \<lparr>mode = PAUSED, controller_reason = None, controller_updated_at = 900\<rparr>"
  "current_policy paused_db = Inr sample_policy"
  "latest_snapshot paused_db = Some (snapshot_dict sample_snapshot)"
  "active_leases paused_db = []" "list_runs paused_db = []" "active_runs paused_db = []"
  "run_reconciliation_candidates 1010 paused_db = []"
  "live_credit_issues (Some (snapshot_dict sample_snapshot)) = []"
  by code_simp+

lemma paused_decision:
  "map_sum id reasons (evaluate_current_policy live_config (Some (snapshot_dict sample_snapshot)) sample_policy 1010
     (Some (lt_usage (cfg_live live_config))) paused_db) = Inr []"
  by code_simp

lemma paused_scope: "\<exists>v. live_test_scope live_sv paused_db = Inr v"
  by (simp add: live_test_scope_def paused_db_def demo_db_def stored_policy_def live_config_def demo_config_def sample_config_def)

lemma paused_tables:
  "audit_t paused_db = []" "runs_t paused_db = []" "approvals_t paused_db = []" "idem_t paused_db = [probed_row]"
  by (simp_all add: paused_db_def demo_db_def empty_db_def)

lemma probed_again:
  "replay_idempotent (sv_host live_sv) (live_probe_key live_sv ''k1'') ''probe'' (probe_request live_sv) paused_db = Inr (Some (JObj []))"
proof -
  have "valid_key (live_probe_key live_sv ''k1'')"
    by (simp add: valid_key_def live_probe_key_def step_key_def demo_digest_def)
  then show ?thesis
    by (simp add: replay_idempotent_def paused_tables fetchone_def probed_row_def)
qed

lemma live_preflight_run:
  "\<exists>r. live_test_preflight live_env \<lparr>w_db = paused_db, w_step = n, w_checks = m\<rparr>
      = (Inr r, \<lparr>w_db = paused_db, w_step = n + 11, w_checks = m\<rparr>) \<and> safe_to_test r"
proof -
  obtain dec where dec: "evaluate_current_policy live_config (Some (snapshot_dict sample_snapshot)) sample_policy 1010
     (Some (lt_usage (cfg_live live_config))) paused_db = Inr dec" "reasons dec = []"
    using map_sum_Inr [OF paused_decision] by blast
  obtain v where v: "live_test_scope live_sv paused_db = Inr v"
    using paused_scope by blast
  have env: "we_others live_env = (\<lambda>_ d. d)" "we_clock live_env = (\<lambda>_. 1010)" "we_check live_env = (\<lambda>_. [''ok''])"
    using live_undisturbed by (simp_all add: undisturbed_def)
  have enabled: "lt_enabled (cfg_live live_config)"
    by (simp add: live_config_def)
  show ?thesis
    by (simp add: live_test_preflight_def live_facts paused_facts Let_def wstep_defs eff_defs env dec v verify_audit_def
        paused_tables check_passed_def safe_to_test_def enabled)
qed

definition claimed_run :: "(err + live_claim) \<times> wst" where
  "claimed_run = claim_live live_env (approval_dict live_grant) ''k1'' ''user'' 1010 (JObj []) (demo_world paused_db)"

lemma probed_run:
  "\<exists>n. probe_quota live_env (live_probe_key live_sv ''k1'') ''user'' (demo_world paused_db)
      = (Inr (JObj [], True), \<lparr>w_db = paused_db, w_step = n, w_checks = 0\<rparr>)"
  by (simp add: probe_quota_def Let_def live_facts wstep_defs eff_defs probed_again demo_world_def live_env_def demo_env_def)

lemma live_grant_matches: "require_approval live_grant ''live-test.run'' demo_digest ''live_test.dispatch'' = Inr ()"
  by (simp add: live_grant_def)

lemma claimed_run_ok: "\<exists>c. claimed_run = (Inr c, snd claimed_run)"
proof -
  have env: "we_others live_env = (\<lambda>_ d. d)" "we_clock live_env = (\<lambda>_. 1010)" "we_hex live_env = (\<lambda>_. ''0a'')"
    by (simp_all add: live_env_def demo_env_def)
  obtain n where probe: "probe_quota live_env (live_probe_key live_sv ''k1'') ''user'' (demo_world paused_db)
      = (Inr (JObj [], True), \<lparr>w_db = paused_db, w_step = n, w_checks = 0\<rparr>)"
    using probed_run by blast
  obtain r where pre: "live_test_preflight live_env \<lparr>w_db = paused_db, w_step = n, w_checks = 0\<rparr>
      = (Inr r, \<lparr>w_db = paused_db, w_step = n + 11, w_checks = 0\<rparr>)" and safe: "safe_to_test r"
    using live_preflight_run by blast
  have other: "''k1'' \<noteq> live_probe_key live_sv ''k1''"
    by (simp add: live_probe_key_def step_key_def)
  obtain d where tx: "live_claim_transaction live_sv \<lparr>lc_run = new_id ''run'' ''0a'', lc_key = ''k1'', lc_actor = ''user'',
      lc_approval = live_grant, lc_scope = JObj []\<rparr> 1010 paused_db
        = Inr (\<lparr>lc_run = new_id ''run'' ''0a'', lc_key = ''k1'', lc_actor = ''user'', lc_approval = live_grant, lc_scope = JObj []\<rparr>, d)"
    by (simp add: live_claim_transaction_def paused_facts paused_tables insert_approval_def insert_run_def audit_def append_audit_def
        record_idempotent_def valid_key_def probed_row_def other)
  have "\<exists>x. claimed_run = (Inr \<lparr>lc_run = new_id ''run'' ''0a'', lc_key = ''k1'', lc_actor = ''user'', lc_approval = live_grant,
      lc_scope = JObj []\<rparr>, x)"
    by (simp add: claimed_run_def claim_live_def Let_def live_facts live_grant_matches eff_defs wstep_defs env transact_def probe pre safe tx
        del: require_approval_Inr)
  then show ?thesis
    by (metis snd_conv)
qed

theorem live_claim_is_safe_witness:
  "\<exists>c expires. claimed_run = (Inr c, snd claimed_run) \<and> current_mode paused_db = Inr PAUSED
     \<and> runs_t (w_db (snd claimed_run)) = [new_canary (lc_run c) 1010 expires]"
proof -
  obtain c where c: "claimed_run = (Inr c, snd claimed_run)"
    using claimed_run_ok by blast
  have d: "paused_db = w_db (snd (probe_quota (live_env) (live_probe_key (we_svc live_env) ''k1'') ''user'' (demo_world paused_db)))"
    using probed_run by auto
  have "current_mode paused_db = Inr PAUSED \<and> (\<exists>expires. runs_t (w_db (snd claimed_run)) = runs_t paused_db @ [new_canary (lc_run c) 1010 expires])"
    using live_claim_is_safe [OF live_undisturbed c [unfolded claimed_run_def] d] unfolding claimed_run_def by blast
  with c show ?thesis
    by (auto simp: paused_tables)
qed

section \<open>The canary\<close>

definition canary_claim :: live_claim where
  "canary_claim = \<lparr>lc_run = ''r1'', lc_key = ''k1'', lc_actor = ''user'', lc_approval = live_grant, lc_scope = JObj []\<rparr>"

definition canary_io :: stdio where
  "canary_io = short_io\<lparr>io_poll := (\<lambda>_. Q_end)\<rparr>"

definition canary_world :: wst where
  "canary_world = demo_world (paused_db\<lparr>runs_t := [new_canary ''r1'' 1000 1075]\<rparr>)"

definition canary_run :: "(err + command_result) \<times> wst" where
  "canary_run = claimed_live live_env (live_run canary_io) canary_claim canary_world"

lemma canary_run_ok: "map_sum id snd (fst canary_run) = Inr False"
  by code_simp

lemma canary_run_rows: "map rn_id (runs_t (w_db (snd canary_run))) = [''r1'']"
  by code_simp

theorem live_test_files_the_report_witness:
  "\<exists>q. runs_t (w_db (snd canary_run)) = [q] \<and> rn_completed q \<noteq> None \<and> rn_state q \<notin> {run_starting, run_running}"
proof -
  obtain result where "canary_run = (Inr (result, False), snd canary_run)"
    using inr_world [OF canary_run_ok] by blast
  from live_test_files_the_report [OF this [unfolded canary_run_def], folded canary_run_def]
  obtain r where "ended r" "\<forall>q \<in> set (runs_t (w_db (snd canary_run))). rn_id q = lc_run canary_claim \<longrightarrow>
      rn_state q = rr_state r \<and> rn_completed q \<noteq> None"
    by blast
  moreover obtain q where "runs_t (w_db (snd canary_run)) = [q]" "rn_id q = ''r1''"
    using canary_run_rows by auto
  ultimately show ?thesis
    by (auto simp: canary_claim_def ended_def)
qed

theorem live_test_touches_no_work_witness:
  "work_kept paused_db (w_db (snd (live_test_run live_env (live_run canary_io) (approval_dict live_grant) ''k1'' ''user'' (demo_world paused_db))))"
  using live_test_touches_no_work [of live_env "demo_world paused_db"]
  by (simp add: live_env_def demo_env_def work_kept_def demo_world_def)

theorem live_test_keeps_single_run_witness:
  "one_run (w_db (snd (live_test_run (with_live_tests live_env (\<lambda>_. L_claim canary_claim 1000)) (live_run canary_io)
     (approval_dict live_grant) ''k1'' ''user'' (demo_world paused_db))))"
  using live_test_keeps_single_run [of "demo_world paused_db"]
  by (simp add: demo_world_def one_run_def paused_facts)

end
