(* ===== verification/ThreadControl.thy ===== *)
theory ThreadControl
  imports GuardCoordinator Stdio
begin

text \<open>
  thread_control.py: the adapter that the quota guard uses to inspect, interrupt and continue existing
  tasks. Every operation is one session: open, initialize, one or two requests, close. Answers are
  projected: only identifiers and statuses leave the module. The lemmas show that what it sends is fixed
  and allowlisted, and that what it returns is exactly what the coordinator's parsers accept.
\<close>

section \<open>Constants\<close>

definition THREAD_CONTROL_OUTBOUND_ALLOWLIST :: "string list" where
  "THREAD_CONTROL_OUTBOUND_ALLOWLIST =
     [''initialize'', ''initialized'', ''thread/list'', ''thread/read'', ''thread/goal/get'', ''thread/goal/set'',
      ''thread/resume'', ''turn/interrupt'', ''turn/start'']"

definition FIXED_CONTINUATION_PROMPT :: string where
  "FIXED_CONTINUATION_PROMPT =
     ''Continue the interrupted task from the existing thread context. ''
     @ ''Stay within the approved scope and do not expand it.''"

definition control_thread_statuses :: "string list" where
  "control_thread_statuses = [''notLoaded'', ''idle'', ''systemError'', ''active'']"

definition control_active_statuses :: "string list" where
  "control_active_statuses = [''inProgress'', ''in_progress'', ''active'', ''running'']"

definition control_turn_statuses :: "string list" where
  "control_turn_statuses = [''completed'', ''interrupted'', ''failed'', ''inProgress'']"

definition goal_statuses :: "string list" where
  "goal_statuses = [''active'', ''paused'', ''blocked'', ''usageLimited'', ''budgetLimited'', ''complete'']"

definition ignored_notifications :: "string list" where
  "ignored_notifications = [''thread/status/changed'', ''thread/goal/updated'', ''turn/completed'']"

section \<open>Reading values\<close>

text \<open>
  \<open>_identifier\<close>: a nonempty string without surrounding white space and control characters. White space
  below code point 256 is what \<open>str.strip\<close> removes.
\<close>

definition white_space :: "char \<Rightarrow> bool" where
  "white_space c \<longleftrightarrow>
     (let n = (of_char c :: nat) in (9 \<le> n \<and> n \<le> 13) \<or> (28 \<le> n \<and> n \<le> 32) \<or> n = 133 \<or> n = 160)"

definition control_identifier :: "string \<Rightarrow> string res" where
  "control_identifier s =
     (if s = [] \<or> white_space (hd s) \<or> white_space (last s) \<or> (\<exists>c \<in> set s. (of_char c :: nat) < 32)
      then Inl (Sched ''THREAD_CONTROL_INVALID_ARGUMENT'') else Inr s)"

definition protocol_error :: "'a res" where
  "protocol_error = Inl (Sched ''THREAD_CONTROL_PROTOCOL_ERROR'')"

definition ambiguous :: "'a res" where
  "ambiguous = Inl (Sched ''THREAD_CONTROL_AMBIGUOUS'')"

text \<open>\<open>v in frozenset\<close>, then the value as text.\<close>

definition member_text :: "json \<Rightarrow> string list \<Rightarrow> string res" where
  "member_text v allowed =
     rbind (in_strings v allowed) (\<lambda>ok. case v of JStr s \<Rightarrow> if ok then Inr s else protocol_error | _ \<Rightarrow> protocol_error)"

definition flags_ok :: "json \<Rightarrow> bool" where
  "flags_ok v = (case v of JNull \<Rightarrow> True | JArr xs \<Rightarrow> list_all (\<lambda>x. case x of JStr _ \<Rightarrow> True | _ \<Rightarrow> False) xs | _ \<Rightarrow> False)"

definition control_status :: "json \<Rightarrow> string res" where
  "control_status v =
     (case v of
        JStr s \<Rightarrow> member_text v control_thread_statuses
      | JObj fs \<Rightarrow>
          if flags_ok (jgetn fs ''activeFlags'') then member_text (jgetn fs ''type'') control_thread_statuses
          else protocol_error
      | _ \<Rightarrow> protocol_error)"

definition control_turn_status :: "json \<Rightarrow> string res" where
  "control_turn_status v = member_text v control_turn_statuses"

definition text_id :: "json \<Rightarrow> string res" where
  "text_id v = (case v of JStr (c # cs) \<Rightarrow> Inr (c # cs) | _ \<Rightarrow> protocol_error)"

type_synonym control_turn = "string \<times> string"

fun turn_list :: "json list \<Rightarrow> string list \<Rightarrow> control_turn list res" where
  "turn_list [] seen = Inr []"
| "turn_list (raw # rest) seen =
     rbind (text_id (dict_get raw ''id'')) (\<lambda>i.
       if i \<in> set seen then ambiguous
       else
         rbind (control_turn_status (dict_get raw ''status'')) (\<lambda>st.
         rbind (turn_list rest (i # seen)) (\<lambda>ts. Inr ((i, st) # ts))))"

definition observed_active :: "control_turn list \<Rightarrow> string list" where
  "observed_active ts = map fst (filter (\<lambda>t. snd t \<in> set control_active_statuses) ts)"

definition control_turns :: "json \<Rightarrow> control_turn list res" where
  "control_turns v =
     (case v of
        JArr raw \<Rightarrow> rbind (turn_list raw []) (\<lambda>ts. if length (observed_active ts) > 1 then ambiguous else Inr ts)
      | _ \<Rightarrow> protocol_error)"

text \<open>The identifiers given under both spellings, in the task and in its status.\<close>

definition explicit_values :: "(string \<times> json) list \<Rightarrow> string list res" where
  "explicit_values fs =
     rmap text_id (filter (\<lambda>v. v \<noteq> JNull)
       (map (jgetn fs) [''activeTurnId'', ''active_turn_id'']
        @ map (dict_get (jgetn fs ''status'')) [''activeTurnId'', ''active_turn_id'']))"

definition explicit_active_turn :: "(string \<times> json) list \<Rightarrow> string option res" where
  "explicit_active_turn fs =
     rbind (explicit_values fs) (\<lambda>vs.
       if length (remdups vs) > 1 then ambiguous else Inr (case vs of [] \<Rightarrow> None | v # _ \<Rightarrow> Some v))"

definition active_turn_of :: "string option \<Rightarrow> control_turn list \<Rightarrow> string option res" where
  "active_turn_of given ts =
     (let seen = observed_active ts in
      if length seen > 1 then ambiguous
      else if given \<noteq> None \<and> seen \<noteq> [] \<and> given \<noteq> Some (hd seen) then ambiguous
      else Inr (if given \<noteq> None then given else if seen = [] then None else Some (hd seen)))"

section \<open>A request\<close>

definition is_bool :: "json \<Rightarrow> bool" where
  "is_bool v = (case v of JBool _ \<Rightarrow> True | _ \<Rightarrow> False)"

definition control_line :: "nat \<Rightarrow> unit \<Rightarrow> json option \<Rightarrow> (string \<times> json) list res + unit" where
  "control_line rid u line =
     (case line of
        Some (JObj fs) \<Rightarrow>
          if jget fs ''method'' \<noteq> None then
            (if jget fs ''id'' \<noteq> None then Inl (Inl (Sched ''THREAD_CONTROL_UNEXPECTED_REQUEST''))
             else
               (case in_strings (jgetn fs ''method'') ignored_notifications of
                  Inl e \<Rightarrow> Inl (Inl e)
                | Inr True \<Rightarrow> Inr ()
                | Inr False \<Rightarrow> Inl (Inl (Sched ''THREAD_CONTROL_UNEXPECTED_NOTIFICATION''))))
          else if jget fs ''id'' = None then Inl protocol_error
          else if is_bool (jgetn fs ''id'') \<or> \<not> equals_int (jgetn fs ''id'') (int rid)
          then Inl (Inl (Sched ''THREAD_CONTROL_RESPONSE_MISMATCH''))
          else if jgetn fs ''error'' \<noteq> JNull then Inl (Inl (Sched ''THREAD_CONTROL_REJECTED''))
          else Inl (case jgetn fs ''result'' of JObj r \<Rightarrow> Inr r | _ \<Rightarrow> protocol_error)
      | _ \<Rightarrow> Inl protocol_error)"

definition control_send :: "stdio \<Rightarrow> json \<Rightarrow> ('s session, unit) eff" where
  "control_send io message =
     ethen (elift (guard (message_method message \<in> set THREAD_CONTROL_OUTBOUND_ALLOWLIST) ''METHOD_DENIED''))
           (io_send io (Sched ''THREAD_CONTROL_UNAVAILABLE'') message)"

definition control_request :: "stdio \<Rightarrow> rat \<Rightarrow> string \<Rightarrow> json \<Rightarrow> ('s session, (string \<times> json) list) eff" where
  "control_request io timeout method params =
     ethen (elift (guard (method \<in> set THREAD_CONTROL_OUTBOUND_ALLOWLIST) ''METHOD_DENIED''))
    (ebind fresh_id (\<lambda>rid.
     ethen (control_send io (request_message rid method params))
    (ebind (io_now io) (\<lambda>t.
     ebind (io_wall_now io) (\<lambda>w.
       poll_loop io (\<lambda>n. io_clock io n < t + timeout \<and> io_wall io n < w + timeout) (control_line rid)
         (\<lambda>ended _. Inl (Sched (if ended then ''THREAD_CONTROL_UNAVAILABLE'' else ''THREAD_CONTROL_TIMEOUT''))) ())))))"

text \<open>
  \<open>_open\<close> with the constructor of the session: without pipes it closes itself before the reader thread is stored, and
  the access to that thread raises AttributeError before the error it means to raise.
\<close>

definition control_open :: "stdio \<Rightarrow> unit res" where
  "control_open io =
     (case io_spawn io of
        Spawn_failed \<Rightarrow> Inl (Sched ''THREAD_CONTROL_UNAVAILABLE'')
      | Spawn_no_pipes \<Rightarrow> Inl (PyExc ''AttributeError'')
      | Spawn_ok \<Rightarrow> Inr ())"

text \<open>\<open>_run\<close>: one initialized session around an operation.\<close>

definition control_run :: "stdio \<Rightarrow> rat \<Rightarrow> ('s session, 'a) eff \<Rightarrow> ('s session, 'a) eff" where
  "control_run io timeout operation =
     ethen (elift (control_open io))
    (ebind (control_request io timeout ''initialize''
              (client_info ''codex_work_scheduler_thread_control'' ''Codex Work Scheduler Thread Control'')) (\<lambda>_.
     ethen (control_send io (notification_message ''initialized'' (JObj []))) operation))"

section \<open>Operations\<close>

definition thread_identity :: "json \<Rightarrow> string res" where
  "thread_identity v = text_id (dict_get v ''id'')"

text \<open>A task in a response must be a dictionary with the expected identity.\<close>

definition expect_thread :: "json \<Rightarrow> string \<Rightarrow> (string \<times> json) list res" where
  "expect_thread v expected =
     (case v of
        JObj fs \<Rightarrow> rbind (thread_identity v) (\<lambda>i. if i = expected then Inr fs else ambiguous)
      | _ \<Rightarrow> ambiguous)"

record summary =
  sm_thread :: string
  sm_status :: string
  sm_active :: "string option"

definition summary_of :: "json \<Rightarrow> summary res" where
  "summary_of v =
     (case v of
        JObj fs \<Rightarrow>
          rbind (thread_identity v) (\<lambda>i.
          rbind (case jget fs ''turns'' of None \<Rightarrow> Inr [] | Some raw \<Rightarrow> control_turns raw) (\<lambda>ts.
          rbind (control_status (jgetn fs ''status'')) (\<lambda>st.
          rbind (explicit_active_turn fs) (\<lambda>given.
          rbind (active_turn_of given ts) (\<lambda>active.
            Inr \<lparr>sm_thread = i, sm_status = st, sm_active = active\<rparr>)))))
      | _ \<Rightarrow> protocol_error)"

text \<open>The entries of one page; a repeated identity is ambiguous.\<close>

fun page_summaries :: "json list \<Rightarrow> string list \<Rightarrow> summary list res" where
  "page_summaries [] seen = Inr []"
| "page_summaries (v # vs) seen =
     rbind (summary_of v) (\<lambda>x.
       if sm_thread x \<in> set seen then ambiguous
       else rbind (page_summaries vs (sm_thread x # seen)) (\<lambda>xs. Inr (x # xs)))"

definition summary_dict :: "summary \<Rightarrow> json" where
  "summary_dict x = JObj [(''thread_id'', JStr (sm_thread x)), (''status'', JStr (sm_status x)),
     (''active_turn_id'', opt_str (sm_active x))]"

fun inventory_pages ::
    "stdio \<Rightarrow> rat \<Rightarrow> nat \<Rightarrow> string option \<Rightarrow> string list \<Rightarrow> summary list \<Rightarrow> ('s session, summary list) eff" where
  "inventory_pages io timeout 0 cursor cursors found = eraise (Sched ''THREAD_CONTROL_TIMEOUT'')"
| "inventory_pages io timeout (Suc n) cursor cursors found =
     ebind (control_request io timeout ''thread/list''
              (JObj ([(''limit'', JInt 100), (''archived'', JBool False), (''useStateDbOnly'', JBool True)]
                 @ (case cursor of None \<Rightarrow> [] | Some c \<Rightarrow> [(''cursor'', JStr c)])))) (\<lambda>page.
       case jgetn page ''data'' of
         JArr entries \<Rightarrow>
           ebind (elift (page_summaries entries (map sm_thread found))) (\<lambda>xs.
             (case jgetn page ''nextCursor'' of
                JNull \<Rightarrow> eret (found @ xs)
              | JStr c \<Rightarrow>
                  if c = [] \<or> c \<in> set cursors then elift ambiguous
                  else inventory_pages io timeout n (Some c) (c # cursors) (found @ xs)
              | _ \<Rightarrow> elift ambiguous))
       | _ \<Rightarrow> elift protocol_error)"

text \<open>All summaries are kept for the identity check; the result has the active ones.\<close>

definition inventory_active_threads :: "stdio \<Rightarrow> rat \<Rightarrow> nat \<Rightarrow> ('s session, json) eff" where
  "inventory_active_threads io timeout max_pages =
     control_run io timeout
       (ebind (inventory_pages io timeout max_pages None [] []) (\<lambda>xs.
          eret (JArr (map summary_dict (filter (\<lambda>x. sm_status x = ''active'') xs)))))"

definition turn_dict :: "control_turn \<Rightarrow> json" where
  "turn_dict t = JObj [(''turn_id'', JStr (fst t)), (''status'', JStr (snd t))]"

definition read_dict :: "string \<Rightarrow> string \<Rightarrow> string option \<Rightarrow> control_turn list \<Rightarrow> json" where
  "read_dict expected st active ts =
     JObj [(''thread_id'', JStr expected), (''status'', JStr st), (''active_turn_id'', opt_str active),
           (''turns'', JArr (map turn_dict ts))]"

definition read_result :: "string \<Rightarrow> (string \<times> json) list \<Rightarrow> json res" where
  "read_result expected page =
     rbind (expect_thread (jgetn page ''thread'') expected) (\<lambda>fs.
     rbind (control_status (jgetn fs ''status'')) (\<lambda>st.
     rbind (control_turns (jgetn fs ''turns'')) (\<lambda>ts.
     rbind (explicit_active_turn fs) (\<lambda>given.
     rbind (active_turn_of given ts) (\<lambda>active.
       if st \<noteq> ''active'' \<and> active \<noteq> None then ambiguous
       else Inr (read_dict expected st active ts))))))"

definition control_read_thread :: "stdio \<Rightarrow> rat \<Rightarrow> string \<Rightarrow> ('s session, json) eff" where
  "control_read_thread io timeout thread_id =
     ebind (elift (control_identifier thread_id)) (\<lambda>expected.
     control_run io timeout
       (ebind (control_request io timeout ''thread/read''
                 (JObj [(''threadId'', JStr expected), (''includeTurns'', JBool True)])) (\<lambda>page.
        elift (read_result expected page))))"

definition goal_dict :: "string \<Rightarrow> string \<Rightarrow> int \<Rightarrow> json" where
  "goal_dict expected st updated =
     JObj [(''thread_id'', JStr expected), (''status'', JStr st), (''updated_at'', JInt updated)]"

definition updated_at_of :: "json \<Rightarrow> int res" where
  "updated_at_of v = (case v of JInt n \<Rightarrow> if n < 0 then protocol_error else Inr n | _ \<Rightarrow> protocol_error)"

definition goal_of_thread :: "json \<Rightarrow> string \<Rightarrow> bool" where
  "goal_of_thread v expected \<longleftrightarrow> is_obj v \<and> jgetd (obj_fields v) ''threadId'' (JStr expected) = JStr expected"

definition get_goal_result :: "string \<Rightarrow> (string \<times> json) list \<Rightarrow> json res" where
  "get_goal_result expected page =
     (case jget page ''goal'' of
        None \<Rightarrow> protocol_error
      | Some JNull \<Rightarrow> Inr JNull
      | Some v \<Rightarrow>
          if \<not> goal_of_thread v expected then ambiguous
          else
            rbind (member_text (dict_get v ''status'') goal_statuses) (\<lambda>st.
            rbind (updated_at_of (dict_get v ''updatedAt'')) (\<lambda>n. Inr (goal_dict expected st n))))"

definition control_get_goal :: "stdio \<Rightarrow> rat \<Rightarrow> string \<Rightarrow> ('s session, json) eff" where
  "control_get_goal io timeout thread_id =
     ebind (elift (control_identifier thread_id)) (\<lambda>expected.
     control_run io timeout
       (ebind (control_request io timeout ''thread/goal/get'' (JObj [(''threadId'', JStr expected)])) (\<lambda>page.
        elift (get_goal_result expected page))))"

definition set_goal_result :: "string \<Rightarrow> string \<Rightarrow> (string \<times> json) list \<Rightarrow> json res" where
  "set_goal_result expected st page =
     (let v = jgetn page ''goal'' in
      if \<not> goal_of_thread v expected \<or> dict_get v ''status'' \<noteq> JStr st then ambiguous
      else rbind (updated_at_of (dict_get v ''updatedAt'')) (\<lambda>n. Inr (goal_dict expected st n)))"

definition control_set_goal :: "stdio \<Rightarrow> rat \<Rightarrow> string \<Rightarrow> string \<Rightarrow> ('s session, json) eff" where
  "control_set_goal io timeout thread_id st =
     ebind (elift (control_identifier thread_id)) (\<lambda>expected.
     ethen (eguard (st \<in> set goal_statuses) ''THREAD_CONTROL_INVALID_ARGUMENT'')
    (control_run io timeout
       (ebind (control_request io timeout ''thread/goal/set''
                 (JObj [(''threadId'', JStr expected), (''status'', JStr st)])) (\<lambda>page.
        elift (set_goal_result expected st page)))))"

definition control_interrupt :: "stdio \<Rightarrow> rat \<Rightarrow> string \<Rightarrow> string \<Rightarrow> ('s session, json) eff" where
  "control_interrupt io timeout thread_id turn_id =
     ebind (elift (control_identifier thread_id)) (\<lambda>thread.
     ebind (elift (control_identifier turn_id)) (\<lambda>turn.
     control_run io timeout
       (ebind (control_request io timeout ''turn/interrupt''
                 (JObj [(''threadId'', JStr thread), (''turnId'', JStr turn)])) (\<lambda>page.
          if page \<noteq> [] then elift protocol_error
          else eret (JObj [(''thread_id'', JStr thread), (''turn_id'', JStr turn), (''accepted'', JBool True)])))))"

definition reopen_params :: "string \<Rightarrow> json" where
  "reopen_params expected = JObj [(''threadId'', JStr expected), (''approvalPolicy'', JStr ''never''),
     (''sandbox'', JStr ''read-only'')]"

definition control_resume_thread :: "stdio \<Rightarrow> rat \<Rightarrow> string \<Rightarrow> ('s session, json) eff" where
  "control_resume_thread io timeout thread_id =
     ebind (elift (control_identifier thread_id)) (\<lambda>expected.
     control_run io timeout
       (ebind (control_request io timeout ''thread/resume'' (reopen_params expected)) (\<lambda>page.
        ebind (elift (expect_thread (jgetn page ''thread'') expected)) (\<lambda>fs.
        ebind (elift (case jget fs ''status'' of None \<Rightarrow> Inr [] | Some v \<Rightarrow>
                        rbind (control_status v) (\<lambda>st. Inr [(''status'', JStr st)]))) (\<lambda>status.
          eret (JObj ([(''thread_id'', JStr expected), (''accepted'', JBool True)] @ status)))))))"

definition continuation_params :: "string \<Rightarrow> json" where
  "continuation_params thread = JObj
     [(''threadId'', JStr thread), (''approvalPolicy'', JStr ''never''),
      (''sandboxPolicy'', JObj [(''type'', JStr ''readOnly''), (''networkAccess'', JBool False)]),
      (''input'', JArr [JObj [(''type'', JStr ''text''), (''text'', JStr FIXED_CONTINUATION_PROMPT)]])]"

definition continuation_result :: "string \<Rightarrow> (string \<times> json) list \<Rightarrow> json res" where
  "continuation_result thread page =
     (let v = jgetn page ''turn'' in
      rbind (text_id (dict_get v ''id'')) (\<lambda>turn.
        if jget (obj_fields v) ''threadId'' \<notin> {None, Some (JStr thread)} then ambiguous
        else rbind (control_turn_status (dict_get v ''status'')) (\<lambda>st.
          Inr (JObj [(''thread_id'', JStr thread), (''turn_id'', JStr turn), (''status'', JStr st), (''accepted'', JBool True)]))))"

definition start_continuation_in :: "stdio \<Rightarrow> rat \<Rightarrow> string \<Rightarrow> ('s session, json) eff" where
  "start_continuation_in io timeout thread =
     ebind (control_request io timeout ''turn/start'' (continuation_params thread)) (\<lambda>page.
       elift (continuation_result thread page))"

definition control_start_continuation :: "stdio \<Rightarrow> rat \<Rightarrow> string \<Rightarrow> ('s session, json) eff" where
  "control_start_continuation io timeout thread_id =
     ebind (elift (control_identifier thread_id)) (\<lambda>expected. control_run io timeout (start_continuation_in io timeout expected))"

definition control_resume_and_continue :: "stdio \<Rightarrow> rat \<Rightarrow> string \<Rightarrow> ('s session, json) eff" where
  "control_resume_and_continue io timeout thread_id =
     ebind (elift (control_identifier thread_id)) (\<lambda>expected.
     control_run io timeout
       (ebind (control_request io timeout ''thread/resume'' (reopen_params expected)) (\<lambda>page.
        ebind (elift (expect_thread (jgetn page ''thread'') expected)) (\<lambda>_. start_continuation_in io timeout expected))))"

section \<open>The adapter\<close>

text \<open>One call of the coordinator, as a whole session.\<close>

fun control_call :: "stdio \<Rightarrow> rat \<Rightarrow> nat \<Rightarrow> acall \<Rightarrow> ('s session, json) eff" where
  "control_call io timeout pages A_inventory = inventory_active_threads io timeout pages"
| "control_call io timeout pages (A_read th) = control_read_thread io timeout th"
| "control_call io timeout pages (A_get_goal th) = control_get_goal io timeout th"
| "control_call io timeout pages (A_set_goal th st) = control_set_goal io timeout th st"
| "control_call io timeout pages (A_interrupt th turn) = control_interrupt io timeout th turn"
| "control_call io timeout pages (A_reopen th) = control_resume_thread io timeout th"
| "control_call io timeout pages (A_continuation th) = control_start_continuation io timeout th"

text \<open>The adapter of a coordinator: the n-th call meets the n-th transport.\<close>

definition control_adapter :: "(nat \<Rightarrow> stdio) \<Rightarrow> rat \<Rightarrow> nat \<Rightarrow> (nat \<Rightarrow> db \<Rightarrow> db) \<Rightarrow> adapter" where
  "control_adapter ios timeout pages others calls c d =
     (fst (control_call (ios (length calls)) timeout pages c (new_session ())), others (length calls) d)"

section \<open>What is sent\<close>

text \<open>Each call may send its own request, with its own parameters, and nothing else that acts.\<close>

definition acting_methods :: "string list" where
  "acting_methods = [''thread/goal/set'', ''thread/resume'', ''turn/interrupt'', ''turn/start'']"

fun acting_request :: "acall \<Rightarrow> (string \<times> json) option" where
  "acting_request (A_set_goal th st) = Some (''thread/goal/set'', JObj [(''threadId'', JStr th), (''status'', JStr st)])"
| "acting_request (A_interrupt th turn) = Some (''turn/interrupt'', JObj [(''threadId'', JStr th), (''turnId'', JStr turn)])"
| "acting_request (A_reopen th) = Some (''thread/resume'', reopen_params th)"
| "acting_request (A_continuation th) = Some (''turn/start'', continuation_params th)"
| "acting_request _ = None"

definition control_message_ok :: "acall \<Rightarrow> json \<Rightarrow> bool" where
  "control_message_ok c m \<longleftrightarrow>
     message_method m \<in> set THREAD_CONTROL_OUTBOUND_ALLOWLIST
     \<and> (message_method m \<in> set acting_methods \<longrightarrow> acting_request c = Some (message_method m, message_params m))"

lemma sending_control_send:
  "(message_method m \<in> set THREAD_CONTROL_OUTBOUND_ALLOWLIST \<Longrightarrow> P m) \<Longrightarrow> sending.keeps P (control_send io m)"
  unfolding control_send_def
  by (cases "message_method m \<in> set THREAD_CONTROL_OUTBOUND_ALLOWLIST")
     (auto intro!: keeps_intros sending_send simp: guard_def)

lemma sending_control_request:
  "(\<And>n. method \<in> set THREAD_CONTROL_OUTBOUND_ALLOWLIST \<Longrightarrow> P (request_message n method params))
   \<Longrightarrow> sending.keeps P (control_request io timeout method params)"
  unfolding control_request_def by (intro keeps_intros sending_control_send) simp

lemma own_request:
  "method \<notin> set acting_methods \<or> acting_request c = Some (method, params)
   \<Longrightarrow> sending.keeps (control_message_ok c) (control_request io timeout method params)"
  by (rule sending_control_request) (auto simp: control_message_ok_def)

lemma sending_control_run:
  assumes "sending.keeps (control_message_ok c) operation"
  shows "sending.keeps (control_message_ok c) (control_run io timeout operation)"
proof -
  have "sending.keeps (control_message_ok c) (control_request io timeout ''initialize'' ps)" for ps
    by (rule own_request) (simp add: acting_methods_def)
  moreover have "sending.keeps (control_message_ok c) (control_send io (notification_message ''initialized'' ps))" for ps
    by (rule sending_control_send) (simp add: control_message_ok_def acting_methods_def)
  ultimately show ?thesis
    unfolding control_run_def by (intro keeps_intros assms)
qed

lemma sending_inventory: "sending.keeps (control_message_ok c) (inventory_pages io timeout n cursor cursors found)"
proof (induction n arbitrary: cursor cursors found)
  case (Suc n)
  have "sending.keeps (control_message_ok c) (control_request io timeout ''thread/list'' ps)" for ps
    by (rule own_request) (simp add: acting_methods_def)
  with Suc show ?case
    by (auto intro!: keeps_intros split: json.split)
qed (simp add: sending.keeps_eraise)

lemma control_identifier_Inr: "control_identifier s = Inr t \<Longrightarrow> t = s"
  by (simp add: control_identifier_def split: if_splits)

lemma sending_identifier:
  "(control_identifier s = Inr s \<Longrightarrow> sending.keeps P (f s)) \<Longrightarrow> sending.keeps P (ebind (elift (control_identifier s)) f)"
  by (cases "control_identifier s") (auto dest: control_identifier_Inr simp: sending.keeps_eraise)

lemma sending_call: "sending.keeps (control_message_ok c) (control_call io timeout pages c)"
proof (cases c)
  case A_inventory
  then show ?thesis
    by (auto simp: inventory_active_threads_def intro!: sending_control_run keeps_intros sending_inventory)
next
  case (A_read th)
  have "sending.keeps (control_message_ok c) (control_request io timeout ''thread/read'' ps)" for ps
    by (rule own_request) (simp add: acting_methods_def)
  with A_read show ?thesis
    by (auto simp: control_read_thread_def intro!: sending_identifier sending_control_run keeps_intros)
next
  case (A_get_goal th)
  have "sending.keeps (control_message_ok c) (control_request io timeout ''thread/goal/get'' ps)" for ps
    by (rule own_request) (simp add: acting_methods_def)
  with A_get_goal show ?thesis
    by (auto simp: control_get_goal_def intro!: sending_identifier sending_control_run keeps_intros)
next
  case (A_set_goal th st)
  then show ?thesis
    by (auto simp: control_set_goal_def intro!: sending_identifier sending_control_run keeps_intros own_request)
next
  case (A_interrupt th turn)
  then show ?thesis
    by (auto simp: control_interrupt_def intro!: sending_identifier sending_control_run keeps_intros own_request)
next
  case (A_reopen th)
  then show ?thesis
    by (auto simp: control_resume_thread_def intro!: sending_identifier sending_control_run keeps_intros own_request)
next
  case (A_continuation th)
  then show ?thesis
    by (auto simp: control_start_continuation_def start_continuation_in_def
        intro!: sending_identifier sending_control_run keeps_intros own_request)
qed

text \<open>
  Reading never acts. Whatever the App Server answers, every message that a call of the adapter sends
  is on the fixed allowlist; a message that changes a task (goal status, reopening, interrupt, a new
  turn) is sent only by the call of that kind, with exactly its parameters: the named task and turn, the
  given status, the fixed read-only continuation without network.
\<close>

theorem control_call_sends_only_its_request:
  "list_all (control_message_ok c) (ss_sent (snd (control_call io timeout pages c (new_session w))))"
  using sending.keepsD [OF sending_call [of c io timeout pages], of "new_session w"]
  by (auto simp: sends_only_def new_session_def)

section \<open>What is returned\<close>

lemma member_text_Inr [simp]: "member_text v allowed = Inr s \<longleftrightarrow> v = JStr s \<and> s \<in> set allowed"
  by (cases v) (auto simp: member_text_def protocol_error_def)

lemma text_id_Inr [simp]: "text_id v = Inr s \<longleftrightarrow> v = JStr s \<and> s \<noteq> []"
  by (auto simp: text_id_def protocol_error_def split: json.splits list.splits)

lemma control_status_known: "control_status v = Inr s \<Longrightarrow> s \<in> set control_thread_statuses"
  by (auto simp: control_status_def protocol_error_def split: json.splits if_splits)

lemma turn_list_ok:
  "turn_list raw seen = Inr ts \<Longrightarrow>
   distinct (map fst ts) \<and> set (map fst ts) \<inter> set seen = {} \<and> (\<forall>t \<in> set ts. fst t \<noteq> [] \<and> snd t \<in> set control_turn_statuses)"
proof (induction raw arbitrary: seen ts)
  case (Cons r raw)
  then obtain i st rest where *: "i \<notin> set seen" "i \<noteq> []" "st \<in> set control_turn_statuses"
      "turn_list raw (i # seen) = Inr rest" "ts = (i, st) # rest"
    by (auto simp: control_turn_status_def ambiguous_def split: if_splits)
  from Cons.IH [OF this(4)] * show ?case by auto
qed simp

lemma read_turns_of_dicts:
  "distinct (map fst ts) \<Longrightarrow> \<forall>t \<in> set ts. Some (fst t) \<notin> set seen \<Longrightarrow> \<forall>t \<in> set ts. snd t \<in> set turn_statuses
   \<Longrightarrow> read_turns (map turn_dict ts) seen = Inr (map (\<lambda>t. (Some (fst t), snd t)) ts)"
proof (induction ts arbitrary: seen)
  case (Cons t ts)
  then have "read_turns (map turn_dict ts) (Some (fst t) # seen) = Inr (map (\<lambda>t. (Some (fst t), snd t)) ts)"
    by (intro Cons.IH) (auto simp: image_iff)
  with Cons.prems show ?case by (auto simp: turn_dict_def [of t] jgetd_def jgetn_def)
qed simp

lemma active_turns_of_dicts:
  "\<forall>t \<in> set ts. snd t \<in> set control_turn_statuses \<Longrightarrow>
   active_turns (map (\<lambda>t. (Some (fst t), snd t)) ts) = map Some (observed_active ts)"
  by (induction ts) (auto simp: active_turns_def observed_active_def control_active_statuses_def control_turn_statuses_def)

lemma explicit_nonempty: "explicit_active_turn fs = Inr (Some s) \<Longrightarrow> s \<noteq> []"
  by (auto simp: explicit_active_turn_def explicit_values_def ambiguous_def rmap_Inr_iff list_all2_Cons2
      split: if_splits list.splits)

lemma active_turn_of_Inr:
  "active_turn_of given ts = Inr active \<Longrightarrow>
   length (observed_active ts) \<le> 1 \<and> (active = None \<longrightarrow> observed_active ts = [])
   \<and> (active \<noteq> None \<longrightarrow> observed_active ts \<noteq> [] \<longrightarrow> active = Some (hd (observed_active ts)))
   \<and> (active \<noteq> None \<longrightarrow> given = active \<or> observed_active ts \<noteq> [])"
  by (auto simp: active_turn_of_def ambiguous_def Let_def split: if_splits)

lemma observed_in: "x \<in> set (observed_active ts) \<Longrightarrow> x \<in> set (map fst ts)"
  by (auto simp: observed_active_def)

text \<open>What a returned answer satisfies before it is encoded.\<close>

definition well_read :: "string \<Rightarrow> string option \<Rightarrow> control_turn list \<Rightarrow> bool" where
  "well_read st active ts \<longleftrightarrow>
     st \<in> set control_thread_statuses \<and> distinct (map fst ts)
     \<and> (\<forall>t \<in> set ts. fst t \<noteq> [] \<and> snd t \<in> set control_turn_statuses)
     \<and> active \<noteq> Some [] \<and> length (observed_active ts) \<le> 1
     \<and> (active = None \<longrightarrow> observed_active ts = [])
     \<and> (active \<noteq> None \<longrightarrow> st = ''active'' \<and> (observed_active ts = [] \<or> active = Some (hd (observed_active ts))))"

lemma read_result_well_read:
  assumes "read_result expected page = Inr v"
  obtains st active ts where "v = read_dict expected st active ts" and "well_read st active ts"
proof -
  from assms obtain fs st ts given active where *:
      "control_status (jgetn fs ''status'') = Inr st" "control_turns (jgetn fs ''turns'') = Inr ts"
      "explicit_active_turn fs = Inr given" "active_turn_of given ts = Inr active"
      "st \<noteq> ''active'' \<longrightarrow> active = None" "v = read_dict expected st active ts"
    by (auto simp: read_result_def ambiguous_def split: if_splits)
  from *(2) obtain raw where "turn_list raw [] = Inr ts"
    by (auto simp: control_turns_def protocol_error_def ambiguous_def split: json.splits if_splits)
  from turn_list_ok [OF this] have ts: "distinct (map fst ts)"
      "\<forall>t \<in> set ts. fst t \<noteq> [] \<and> snd t \<in> set control_turn_statuses" by auto
  then have "\<forall>i \<in> set (observed_active ts). i \<noteq> []" by (auto simp: observed_active_def)
  then have "active \<noteq> Some []"
    using active_turn_of_Inr [OF *(4)] explicit_nonempty [of fs "[]"] *(3) hd_in_set [of "observed_active ts"]
    by (cases "observed_active ts") auto
  with * ts active_turn_of_Inr [OF *(4)] control_status_known [OF *(1)] show thesis
    by (intro that [of st active ts]) (auto simp: well_read_def)
qed

lemma parse_read_dict:
  assumes "well_read st active ts"
  shows "parse_thread_read expected (read_dict expected st active ts)
         = Inr \<lparr>tr_status = st, tr_active = active, tr_turns = map (\<lambda>t. (Some (fst t), snd t)) ts\<rparr>"
proof -
  have turns: "read_turns (map turn_dict ts) [] = Inr (map (\<lambda>t. (Some (fst t), snd t)) ts)"
    using assms by (intro read_turns_of_dicts)
      (auto simp: well_read_def control_turn_statuses_def turn_statuses_def)
  have act: "active_turns (map (\<lambda>t. (Some (fst t), snd t)) ts) = map Some (observed_active ts)"
    using assms by (intro active_turns_of_dicts) (simp add: well_read_def)
  have st: "st \<in> set thread_statuses"
    using assms by (auto simp: well_read_def control_thread_statuses_def thread_statuses_def)
  have "read_status (JStr st) thread_statuses = Inr st" "id_text (opt_str active) = Inr active"
    using st by (auto simp: opt_str_def split: option.split)
  with turns assms show ?thesis
    by (auto simp: parse_thread_read_def read_dict_def jgetd_def jgetn_def read_of_def act well_read_def
        read_invalid_def hd_map split: option.split)
qed

text \<open>
  C39. The two sides of the adapter interface agree. Whatever page the App Server sends, when the adapter
  returns an answer for a task then the coordinator's parser accepts it and gets back the same status,
  turns and active turn, all known and consistent; no answer of the adapter is ever refused as invalid.
\<close>

theorem adapter_answers_are_accepted:
  assumes "fst (control_read_thread io timeout thread_id s) = Inr v"
  shows "\<exists>st active ts. v = read_dict thread_id st active ts \<and> well_read st active ts
         \<and> parse_thread_read thread_id v
           = Inr \<lparr>tr_status = st, tr_active = active, tr_turns = map (\<lambda>t. (Some (fst t), snd t)) ts\<rparr>"
proof -
  from assms obtain page where "read_result thread_id page = Inr v"
    by (auto simp: control_read_thread_def control_run_def ebind_def elift_def split: prod.splits sum.splits
        dest!: control_identifier_Inr)
  then obtain st active ts where "v = read_dict thread_id st active ts" and "well_read st active ts"
    by (rule read_result_well_read)
  with parse_read_dict show ?thesis by blast
qed

section \<open>Scenario\<close>

text \<open>An App Server that answers the initialization and one read: an active task with a finished and a running turn.\<close>

definition answer_line :: "int \<Rightarrow> (string \<times> json) list \<Rightarrow> queue_event" where
  "answer_line n result = Q_line (Some (JObj [(''id'', JInt n), (''result'', JObj result)]))"

definition running_task :: "(string \<times> json) list" where
  "running_task = [(''thread'', JObj
     [(''id'', JStr ''t1''), (''status'', JObj [(''type'', JStr ''active'')]),
      (''turns'', JArr [JObj [(''id'', JStr ''a''), (''status'', JStr ''completed'')],
                        JObj [(''id'', JStr ''b''), (''status'', JStr ''inProgress'')]])])]"

definition one_read :: stdio where
  "one_read =
     \<lparr>io_spawn = Spawn_ok, io_clock = rat_of_nat, io_wall = rat_of_nat, io_horizon = 40,
      io_poll = (\<lambda>n. if n = 3 then answer_line 1 [] else if n = 8 then answer_line 2 running_task else Q_empty),
      io_write = (\<lambda>_. True)\<rparr>"

lemma read_running_task:
  "read_result ''t1'' running_task
   = Inr (read_dict ''t1'' ''active'' (Some ''b'') [(''a'', ''completed''), (''b'', ''inProgress'')])"
  by code_simp

lemma control_request_answered:
  assumes "method \<in> set THREAD_CONTROL_OUTBOUND_ALLOWLIST" and "io_write io (ss_step s)"
    and "Suc (Suc (Suc (ss_step s))) < io_horizon io"
    and "io_clock io (Suc (Suc (Suc (ss_step s)))) < io_clock io (Suc (ss_step s)) + timeout"
    and "io_wall io (Suc (Suc (Suc (ss_step s)))) < io_wall io (Suc (Suc (ss_step s))) + timeout"
    and "io_poll io (Suc (Suc (Suc (ss_step s)))) = answer_line (int (Suc (ss_next s))) result"
  shows "control_request io timeout method params s
    = (Inr result, s\<lparr>ss_step := Suc (Suc (Suc (Suc (ss_step s)))), ss_next := Suc (ss_next s),
        ss_sent := ss_sent s @ [request_message (Suc (ss_next s)) method params]\<rparr>)"
proof -
  have "control_line n u (Some (JObj [(''id'', JInt (int n)), (''result'', JObj result)])) = Inl (Inr result)" for n u
    by (simp add: control_line_def jgetn_def jget_def is_bool_def)
  from this [of "Suc (ss_next s)"] assms show ?thesis
    by (simp add: control_request_def control_send_def guard_def io_defs eff_defs poll_loop.simps answer_line_def
        tick_session_def)
qed

lemma one_read_answer:
  "fst (control_read_thread one_read 10 ''t1'' (new_session ()))
   = Inr (read_dict ''t1'' ''active'' (Some ''b'') [(''a'', ''completed''), (''b'', ''inProgress'')])"
proof -
  have i: "control_identifier ''t1'' = Inr ''t1''" by code_simp
  have allowed: "''initialize'' \<in> set THREAD_CONTROL_OUTBOUND_ALLOWLIST" "''initialized'' \<in> set THREAD_CONTROL_OUTBOUND_ALLOWLIST"
      "''thread/read'' \<in> set THREAD_CONTROL_OUTBOUND_ALLOWLIST"
    by (simp_all add: THREAD_CONTROL_OUTBOUND_ALLOWLIST_def)
  define s1 where "s1 = (new_session ())\<lparr>ss_step := 4, ss_next := 1, ss_sent := [request_message 1 ''initialize''
      (client_info ''codex_work_scheduler_thread_control'' ''Codex Work Scheduler Thread Control'')]\<rparr>"
  define s2 where "s2 = s1\<lparr>ss_step := 5, ss_sent := ss_sent s1 @ [notification_message ''initialized'' (JObj [])]\<rparr>"
  have 1: "control_request one_read 10 ''initialize''
      (client_info ''codex_work_scheduler_thread_control'' ''Codex Work Scheduler Thread Control'') (new_session ()) = (Inr [], s1)"
    by (rule trans [OF control_request_answered [where result = "[]"]])
       (simp_all add: allowed new_session_def one_read_def s1_def)
  have 2: "control_send one_read (notification_message ''initialized'' (JObj [])) s1 = (Inr (), s2)"
    by (simp add: control_send_def io_send_def guard_def allowed s2_def s1_def new_session_def one_read_def tick_session_def)
  have 3: "fst (control_request one_read 10 ''thread/read'' params s2) = Inr running_task" for params
    by (subst control_request_answered [where result = running_task])
       (simp_all add: allowed new_session_def one_read_def s1_def s2_def)
  have spawn: "control_open one_read = Inr ()" by (simp add: control_open_def one_read_def)
  show ?thesis
    unfolding control_read_thread_def control_run_def i spawn ebind_elift
    unfolding ebind_def 1 2 prod.case sum.case
    using 3 by (auto simp: elift_def read_running_task split: sum.split prod.split dest!: arg_cong [of _ _ fst])
qed

theorem adapter_answers_are_accepted_witness:
  "parse_thread_read ''t1'' (read_dict ''t1'' ''active'' (Some ''b'') [(''a'', ''completed''), (''b'', ''inProgress'')])
   = Inr \<lparr>tr_status = ''active'', tr_active = Some ''b'',
          tr_turns = [(Some ''a'', ''completed''), (Some ''b'', ''inProgress'')]\<rparr>"
proof -
  obtain st active ts where
      e: "read_dict ''t1'' ''active'' (Some ''b'') [(''a'', ''completed''), (''b'', ''inProgress'')] = read_dict ''t1'' st active ts"
      and *: "parse_thread_read ''t1'' (read_dict ''t1'' st active ts)
         = Inr \<lparr>tr_status = st, tr_active = active, tr_turns = map (\<lambda>t. (Some (fst t), snd t)) ts\<rparr>"
    using adapter_answers_are_accepted [OF one_read_answer] by auto
  from e have st: "st = ''active''" "active = Some ''b''"
    by (auto simp: read_dict_def opt_str_def split: option.splits)
  have "inj turn_dict" by (auto simp: inj_def turn_dict_def prod_eq_iff)
  moreover from e have "map turn_dict ts = map turn_dict [(''a'', ''completed''), (''b'', ''inProgress'')]"
    by (simp add: read_dict_def)
  ultimately have "ts = [(''a'', ''completed''), (''b'', ''inProgress'')]"
    using inj_map_eq_map by blast
  with * st show ?thesis by simp
qed

end
