(* ===== verification/Launchd.thy ===== *)
theory Launchd
  imports Queue Stdio
begin

text \<open>
  launchd.py: the plist of a LaunchAgent is rendered from the template of the repository to a staging path, and a
  plist is checked against the reviewed contract. The standard library's plist parser, the file system and the home
  directory are parameters. The theorems: rendering fills in every marker and nothing else, and a plist is
  written only outside the install directories.
\<close>

section \<open>Property lists\<close>

text \<open>What \<open>plistlib.loads\<close> returns; \<open>Pl_other\<close> stands for data, dates and UIDs, told apart by their text.\<close>

datatype plist =
    Pl_bool bool
  | Pl_int int
  | Pl_real pyfloat
  | Pl_str string
  | Pl_other string
  | Pl_arr "plist list"
  | Pl_dict "(string \<times> plist) list"

text \<open>Python's equality: Booleans, integers and floats are compared as numbers, dictionaries without their order.\<close>

fun pl_number :: "plist \<Rightarrow> pyfloat option" where
  "pl_number (Pl_bool b) = Some (Fin (if b then 1 else 0))"
| "pl_number (Pl_int i) = Some (Fin (of_int i))"
| "pl_number (Pl_real f) = Some f"
| "pl_number _ = None"

definition numbers_equal :: "plist \<Rightarrow> plist \<Rightarrow> bool" where
  "numbers_equal v w \<longleftrightarrow> pl_number v = pl_number w \<and> pl_number v \<noteq> None \<and> pl_number v \<noteq> Some NaN"

fun pl_eq :: "plist \<Rightarrow> plist \<Rightarrow> bool" and pls_eq :: "plist list \<Rightarrow> plist list \<Rightarrow> bool"
  and entries_eq :: "(string \<times> plist) list \<Rightarrow> (string \<times> plist) list \<Rightarrow> bool" where
  "pl_eq (Pl_str a) w = (w = Pl_str a)"
| "pl_eq (Pl_other a) w = (w = Pl_other a)"
| "pl_eq (Pl_arr vs) w = (case w of Pl_arr ws \<Rightarrow> pls_eq vs ws | _ \<Rightarrow> False)"
| "pl_eq (Pl_dict fs) w = (case w of Pl_dict gs \<Rightarrow> length fs = length gs \<and> entries_eq fs gs | _ \<Rightarrow> False)"
| "pl_eq v w = numbers_equal v w"
| "pls_eq [] ws = (ws = [])"
| "pls_eq (v # vs) ws = (case ws of [] \<Rightarrow> False | w # ws' \<Rightarrow> pl_eq v w \<and> pls_eq vs ws')"
| "entries_eq [] gs = True"
| "entries_eq ((k, v) # fs) gs = ((case map_of gs k of None \<Rightarrow> False | Some w \<Rightarrow> pl_eq v w) \<and> entries_eq fs gs)"

section \<open>The surroundings\<close>

text \<open>
  The file system and the standard library: \<open>Path.resolve\<close>, \<open>exists\<close>, \<open>is_dir\<close>, \<open>is_file\<close>, \<open>Path.home\<close>,
  \<open>plistlib.loads\<close>, the bytes of a file, and what becomes of writing a file. A failed write may leave a part of it.
\<close>

datatype write_outcome = Write_ok | Write_refused | Write_partly nat

record places =
  pc_resolve :: "string \<Rightarrow> string"
  pc_exists :: "string \<Rightarrow> bool"
  pc_is_dir :: "string \<Rightarrow> bool"
  pc_is_file :: "string \<Rightarrow> bool"
  pc_home :: string
  pc_loads :: "string \<Rightarrow> plist res"
  pc_read :: "string \<Rightarrow> string res"
  pc_write :: "string \<Rightarrow> write_outcome"

type_synonym written = "(string \<times> string) list"

text \<open>\<open>parent / name\<close> and \<open>path.parent\<close> of a resolved path.\<close>

definition join_path :: "string \<Rightarrow> string \<Rightarrow> string" where
  "join_path base name = (if is_absolute name then name else if base = ''/'' then base @ name else base @ ''/'' @ name)"

definition path_parent :: "string \<Rightarrow> string" where
  "path_parent p =
     (case rev (dropWhile (\<lambda>c. c \<noteq> CHR 0x2F) (rev p)) of
        [] \<Rightarrow> ''.''
      | [c] \<Rightarrow> ''/''
      | c # d # rest \<Rightarrow> butlast (c # d # rest))"

definition absolute_existing :: "places \<Rightarrow> string \<Rightarrow> bool \<Rightarrow> string res" where
  "absolute_existing pc path directory =
     rbind (guard (is_absolute path) ''LAUNCHD_PATH_INVALID'') (\<lambda>_.
     let v = pc_resolve pc path in
     rbind (guard (pc_exists pc v) ''LAUNCHD_PATH_INVALID'') (\<lambda>_.
     rbind (guard (directory \<longrightarrow> pc_is_dir pc v) ''LAUNCHD_PATH_INVALID'') (\<lambda>_.
     rbind (guard (\<not> directory \<longrightarrow> pc_is_file pc v) ''LAUNCHD_PATH_INVALID'') (\<lambda>_. Inr v))))"

definition is_within :: "string \<Rightarrow> string \<Rightarrow> bool" where
  "is_within p base \<longleftrightarrow> p = base \<or> path_below base p"

definition DENIED_INSTALL_ROOTS :: "places \<Rightarrow> string list" where
  "DENIED_INSTALL_ROOTS pc =
     [join_path (pc_home pc) ''Library/LaunchAgents'', ''/Library/LaunchAgents'', ''/Library/LaunchDaemons'',
      ''/System/Library/LaunchAgents'', ''/System/Library/LaunchDaemons'']"

definition DEFAULT_LABEL :: string where
  "DEFAULT_LABEL = ''io.github.jremick.codex-work-scheduler''"

definition alphanumeric :: "char \<Rightarrow> bool" where
  "alphanumeric c \<longleftrightarrow> c \<in> set ''ABCDEFGHIJKLMNOPQRSTUVWXYZabcdefghijklmnopqrstuvwxyz0123456789''"

definition label_ok :: "string \<Rightarrow> bool" where
  "label_ok s \<longleftrightarrow> 3 \<le> length s \<and> length s \<le> 128 \<and> alphanumeric (hd s)
     \<and> list_all (\<lambda>c. alphanumeric c \<or> c = CHR 0x2E \<or> c = CHR 0x2D) (tl s)"

section \<open>The template\<close>

datatype part = Text string | Marker string

fun part_text :: "part \<Rightarrow> string" where
  "part_text (Text s) = s"
| "part_text (Marker m) = m"

definition text_lines :: "string list \<Rightarrow> string" where
  "text_lines ls = concat (map (\<lambda>l. l @ newline) ls)"

definition template_parts :: "part list" where
  "template_parts =
     [Text (text_lines [''<?xml version=\"1.0\" encoding=\"UTF-8\"?>'',
        ''<!DOCTYPE plist PUBLIC \"-//Apple//DTD PLIST 1.0//EN\" \"http://www.apple.com/DTDs/PropertyList-1.0.dtd\">'',
        ''<plist version=\"1.0\">'', ''<dict>'', ''  <key>Label</key>''] @ ''  <string>''),
      Marker ''__LABEL__'',
      Text (text_lines [''</string>'', ''  <key>Disabled</key>'', ''  <true/>'', ''  <key>Program</key>''] @ ''  <string>''),
      Marker ''__PYTHON_PATH__'',
      Text (text_lines [''</string>'', ''  <key>ProgramArguments</key>'', ''  <array>''] @ ''    <string>''),
      Marker ''__PYTHON_PATH__'',
      Text (text_lines [''</string>'', ''    <string>-m</string>'', ''    <string>codex_work_scheduler</string>'',
        ''    <string>--config</string>''] @ ''    <string>''),
      Marker ''__CONFIG_PATH__'',
      Text (text_lines [''</string>'', ''    <string>service</string>'', ''    <string>run</string>'', ''  </array>'',
        ''  <key>WorkingDirectory</key>''] @ ''  <string>''),
      Marker ''__REPOSITORY_PATH__'',
      Text (text_lines [''</string>'', ''  <key>EnvironmentVariables</key>'', ''  <dict>'', ''    <key>PATH</key>''] @ ''    <string>''),
      Marker ''__CODEX_BIN_DIR__'',
      Text (text_lines ['':/usr/bin:/bin:/usr/sbin:/sbin</string>'', ''    <key>PYTHONUNBUFFERED</key>'', ''    <string>1</string>'',
        ''  </dict>'', ''  <key>KeepAlive</key>'', ''  <dict>'', ''    <key>SuccessfulExit</key>'', ''    <false/>'', ''  </dict>'',
        ''  <key>RunAtLoad</key>'', ''  <true/>'', ''  <key>ThrottleInterval</key>'', ''  <integer>60</integer>'',
        ''  <key>ProcessType</key>'', ''  <string>Background</string>'', ''  <key>ExitTimeOut</key>'', ''  <integer>30</integer>'',
        ''  <key>Umask</key>'', ''  <integer>63</integer>'', ''  <key>StandardOutPath</key>''] @ ''  <string>''),
      Marker ''__STDOUT_PATH__'',
      Text (text_lines [''</string>'', ''  <key>StandardErrorPath</key>''] @ ''  <string>''),
      Marker ''__STDERR_PATH__'',
      Text (text_lines [''</string>'', ''</dict>'', ''</plist>''])]"

definition plist_template :: string where
  "plist_template = concat (map part_text template_parts)"

section \<open>Rendering\<close>

text \<open>\<open>xml.sax.saxutils.escape\<close> and \<open>str.replace\<close>.\<close>

fun xml_char :: "char \<Rightarrow> string" where
  "xml_char c = (if c = CHR ''&'' then ''&amp;'' else if c = CHR ''<'' then ''&lt;'' else if c = CHR ''>'' then ''&gt;'' else [c])"

definition xml_escape :: "string \<Rightarrow> string" where
  "xml_escape s = concat (map xml_char s)"

function replace_all :: "string \<Rightarrow> string \<Rightarrow> string \<Rightarrow> string" where
  "replace_all old new [] = []"
| "replace_all old new (c # cs) =
     (if old \<noteq> [] \<and> take (length old) (c # cs) = old then new @ replace_all old new (drop (length old) (c # cs))
      else c # replace_all old new cs)"
  by pat_completeness auto
termination
  by (relation "measure (\<lambda>(old, new, s). length s)") auto

record plist_paths =
  pp_python :: string
  pp_codex :: string
  pp_repository :: string
  pp_config :: string
  pp_stdout :: string
  pp_stderr :: string
  pp_label :: string

text \<open>The markers with their values, in the order of the dictionary.\<close>

definition plist_values :: "places \<Rightarrow> plist_paths \<Rightarrow> (string \<times> string) list res" where
  "plist_values pc pp =
     rbind (guard (label_ok (pp_label pp)) ''LAUNCHD_LABEL_INVALID'') (\<lambda>_.
     rbind (absolute_existing pc (pp_python pp) False) (\<lambda>python.
     rbind (absolute_existing pc (pp_codex pp) False) (\<lambda>codex.
     rbind (absolute_existing pc (pp_repository pp) True) (\<lambda>repository.
     rbind (absolute_existing pc (pp_config pp) False) (\<lambda>config_file.
       Inr [(''__CODEX_BIN_DIR__'', path_parent codex), (''__CONFIG_PATH__'', config_file), (''__LABEL__'', pp_label pp),
            (''__PYTHON_PATH__'', python), (''__REPOSITORY_PATH__'', repository),
            (''__STDERR_PATH__'', pc_resolve pc (pp_stderr pp)), (''__STDOUT_PATH__'', pc_resolve pc (pp_stdout pp))])))))"

definition replace_markers :: "(string \<times> string) list \<Rightarrow> string \<Rightarrow> string" where
  "replace_markers values text = fold (\<lambda>(marker, v) rendered. replace_all marker (xml_escape v) rendered) values text"

section \<open>The contract\<close>

definition plist_keys :: "string list" where
  "plist_keys = [''Disabled'', ''EnvironmentVariables'', ''ExitTimeOut'', ''KeepAlive'', ''Label'', ''ProcessType'', ''Program'',
     ''ProgramArguments'', ''RunAtLoad'', ''StandardErrorPath'', ''StandardOutPath'', ''ThrottleInterval'', ''Umask'', ''WorkingDirectory'']"

definition arguments_ok :: "plist \<Rightarrow> plist list \<Rightarrow> bool" where
  "arguments_ok program arguments \<longleftrightarrow>
     (case arguments of
        [a0, a1, a2, a3, a4, a5, a6] \<Rightarrow>
          a1 = Pl_str ''-m'' \<and> a2 = Pl_str ''codex_work_scheduler'' \<and> a3 = Pl_str ''--config''
          \<and> a5 = Pl_str ''service'' \<and> a6 = Pl_str ''run'' \<and> pl_eq a0 program
      | _ \<Rightarrow> False)"

record checked_plist =
  ck_label :: plist
  ck_arguments :: "plist list"

definition environment_ok :: "plist \<Rightarrow> bool" where
  "environment_ok v \<longleftrightarrow> (case v of Pl_dict env \<Rightarrow> set (map fst env) = {''PATH'', ''PYTHONUNBUFFERED''} | _ \<Rightarrow> False)"

text \<open>The lookups: every required key is present by then.\<close>

definition entry :: "(string \<times> plist) list \<Rightarrow> string \<Rightarrow> plist" where
  "entry fs k = (case map_of fs k of None \<Rightarrow> Pl_other ''None'' | Some v \<Rightarrow> v)"

definition check_plist_bytes :: "places \<Rightarrow> string \<Rightarrow> checked_plist res" where
  "check_plist_bytes pc content =
     (case pc_loads pc content of
        Inl e \<Rightarrow> Inl (Sched ''LAUNCHD_PLIST_INVALID'')
      | Inr (Pl_dict fs) \<Rightarrow>
          rbind (guard (set (map fst fs) = set plist_keys) ''LAUNCHD_PLIST_INVALID'') (\<lambda>_.
          (case entry fs ''ProgramArguments'' of
             Pl_arr arguments \<Rightarrow>
               rbind (guard (entry fs ''Disabled'' = Pl_bool True
                        \<and> pl_eq (entry fs ''KeepAlive'') (Pl_dict [(''SuccessfulExit'', Pl_bool False)])
                        \<and> entry fs ''RunAtLoad'' = Pl_bool True
                        \<and> entry fs ''ProcessType'' = Pl_str ''Background''
                        \<and> arguments_ok (entry fs ''Program'') arguments) ''LAUNCHD_PLIST_INVALID'') (\<lambda>_.
               rbind (guard (environment_ok (entry fs ''EnvironmentVariables'')) ''LAUNCHD_PLIST_INVALID'') (\<lambda>_.
                 Inr \<lparr>ck_label = entry fs ''Label'', ck_arguments = arguments\<rparr>))
           | _ \<Rightarrow> Inl (Sched ''LAUNCHD_PLIST_INVALID'')))
      | Inr _ \<Rightarrow> Inl (Sched ''LAUNCHD_PLIST_INVALID''))"

definition check_plist :: "places \<Rightarrow> string \<Rightarrow> checked_plist res" where
  "check_plist pc path =
     rbind (absolute_existing pc path False) (\<lambda>p.
     rbind (pc_read pc p) (\<lambda>content. check_plist_bytes pc content))"

definition render_plist :: "places \<Rightarrow> plist_paths \<Rightarrow> string res" where
  "render_plist pc pp =
     rbind (plist_values pc pp) (\<lambda>values.
     let rendered = replace_markers values plist_template in
     rbind (guard (\<not> is_substring ''__'' rendered) ''LAUNCHD_TEMPLATE_INVALID'') (\<lambda>_.
     rbind (check_plist_bytes pc rendered) (\<lambda>_. Inr rendered)))"

text \<open>The result names the path. The state is the list of the files that were written.\<close>

definition write_plist :: "places \<Rightarrow> string \<Rightarrow> string \<Rightarrow> (written, string \<times> checked_plist) eff" where
  "write_plist pc output_path content ws =
     (let output = pc_resolve pc output_path in
      if \<exists>d \<in> set (DENIED_INSTALL_ROOTS pc). is_within output (pc_resolve pc d)
      then (Inl (Sched ''LAUNCHD_INSTALL_DENIED''), ws)
      else
        (case pc_write pc output of
           Write_refused \<Rightarrow> (Inl (PyExc ''OSError''), ws)
         | Write_partly n \<Rightarrow> (Inl (PyExc ''OSError''), ws @ [(output, take n content)])
         | Write_ok \<Rightarrow>
             (rbind (check_plist_bytes pc content) (\<lambda>c. Inr (output, c)), ws @ [(output, content)])))"

section \<open>What is rendered\<close>

text \<open>
  The specification of rendering: every marker of the template is filled with its value at once. The code replaces
  one marker after another in the text it has so far; this agrees when no value contains two underscores in a row.
\<close>

definition filled :: "(string \<times> string) list \<Rightarrow> part \<Rightarrow> string" where
  "filled values p =
     (case p of Text s \<Rightarrow> s | Marker m \<Rightarrow> (case map_of values m of None \<Rightarrow> m | Some v \<Rightarrow> xml_escape v))"

abbreviation quiet_text :: "string \<Rightarrow> bool" where
  "quiet_text s \<equiv> \<not> is_substring ''__'' s"

lemma xml_escape_simps [simp]: "xml_escape [] = []" "xml_escape (c # cs) = xml_char c @ xml_escape cs"
  by (simp_all add: xml_escape_def)

lemma starts_twice: "take 2 (c # cs) = ''__'' \<longleftrightarrow> c = CHR ''_'' \<and> (\<exists>ds. cs = CHR ''_'' # ds)"
  by (cases cs) (auto simp: numeral_2_eq_2)

lemma quiet_Cons: "quiet_text (c # cs) \<longleftrightarrow> \<not> (c = CHR ''_'' \<and> (\<exists>ds. cs = CHR ''_'' # ds)) \<and> quiet_text cs"
  using starts_twice [of c cs] by (simp add: numeral_2_eq_2)

lemma xml_escape_underscore: "xml_escape s = CHR ''_'' # ds \<Longrightarrow> \<exists>es. s = CHR ''_'' # es"
  by (cases s) (auto split: if_splits)

lemma quiet_xml_escape: "quiet_text s \<Longrightarrow> quiet_text (xml_escape s)"
proof (induction s)
  case (Cons c s)
  then have s: "quiet_text (xml_escape s)" "\<not> (c = CHR ''_'' \<and> (\<exists>ds. s = CHR ''_'' # ds))"
    unfolding quiet_Cons by auto
  show ?case
  proof (cases "c \<in> set ''&<>''")
    case True
    with s(1) show ?thesis
      by (auto simp: quiet_Cons simp del: is_substring.simps(2))
  next
    case False
    then have "xml_escape (c # s) = c # xml_escape s" by simp
    with s show ?thesis
      unfolding quiet_Cons by (metis xml_escape_underscore quiet_Cons)
  qed
qed simp

text \<open>Text without two underscores is skipped, when the next character is none.\<close>

lemma replace_all_skips:
  assumes "quiet_text a" and "a = [] \<or> last a \<noteq> CHR ''_'' \<or> (\<exists>c ds. rest = c # ds \<and> c \<noteq> CHR ''_'')" and "take 2 old = ''__''"
  shows "replace_all old new (a @ rest) = a @ replace_all old new rest"
  using assms(1,2)
proof (induction a)
  case (Cons c a)
  have "take (length old) (c # a @ rest) \<noteq> old"
  proof
    assume eq: "take (length old) (c # a @ rest) = old"
    with assms(3) have "take 2 (c # a @ rest) = ''__''"
      by (metis (no_types, lifting) length_Cons list.size(3) min.commute min_def nat_le_linear numeral_2_eq_2
          take_all_iff take_take length_take)
    then obtain ds where "c = CHR ''_''" "a @ rest = CHR ''_'' # ds"
      unfolding starts_twice by blast
    with Cons.prems show False
      unfolding quiet_Cons by (cases a) auto
  qed
  with Cons show ?case
    unfolding quiet_Cons by (auto split: if_splits)
qed simp

lemma replace_all_here: "old \<noteq> [] \<Longrightarrow> replace_all old new (old @ rest) = new @ replace_all old new rest"
  by (cases old) auto

definition markers :: "string list" where
  "markers = [''__CODEX_BIN_DIR__'', ''__CONFIG_PATH__'', ''__LABEL__'', ''__PYTHON_PATH__'', ''__REPOSITORY_PATH__'',
     ''__STDERR_PATH__'', ''__STDOUT_PATH__'']"

text \<open>A text in which \<open>old\<close> differs from every suffix, already before the suffix ends, is skipped.\<close>

fun skips :: "string \<Rightarrow> string \<Rightarrow> string \<Rightarrow> bool" where
  "skips old [] k = True"
| "skips old (c # cs) k = (list_ex (\<lambda>(x, y). x \<noteq> y) (zip old (c # cs @ k)) \<and> skips old cs k)"

lemma zip_differs: "list_ex (\<lambda>(x, y). x \<noteq> y) (zip old t) \<Longrightarrow> take (length old) (t @ rest) \<noteq> old"
proof (induction old arbitrary: t)
  case (Cons x old)
  then show ?case by (cases t) auto
qed simp

lemma replace_all_skipped: "skips old s k \<Longrightarrow> replace_all old new (s @ k @ rest) = s @ replace_all old new (k @ rest)"
proof (induction s)
  case (Cons c s)
  then have "take (length old) (c # s @ k @ rest) \<noteq> old"
    using zip_differs [of old "c # s @ k" rest] by simp
  with Cons show ?case by simp
qed simp

lemma markers_apart: "\<forall>old \<in> set markers. \<forall>m \<in> set markers. m \<noteq> old \<longrightarrow> (\<forall>c \<in> set ''<:''. skips old m [c])"
  by code_simp

lemma replace_all_other:
  assumes "old \<in> set markers" "m \<in> set markers" "m \<noteq> old" "c \<in> set ''<:''"
  shows "replace_all old new (m @ c # rest) = m @ replace_all old new (c # rest)"
proof -
  have "skips old m [c]"
    using assms markers_apart by blast
  from replace_all_skipped [OF this, of new rest] show ?thesis by simp
qed

text \<open>The shape of the template: solid text around every marker.\<close>

definition solid :: "string \<Rightarrow> bool" where
  "solid s \<longleftrightarrow> quiet_text s \<and> s \<noteq> [] \<and> hd s \<in> set ''<:'' \<and> last s \<noteq> CHR ''_''"

fun hole_ok :: "part \<Rightarrow> bool" where
  "hole_ok (Text s) = quiet_text s"
| "hole_ok (Marker m) = (m \<in> set markers)"

fun spaced :: "part list \<Rightarrow> bool" where
  "spaced [Text s] = solid s"
| "spaced (Text s # h # ps) = (solid s \<and> hole_ok h \<and> spaced ps)"
| "spaced _ = False"

abbreviation parts_text :: "part list \<Rightarrow> string" where
  "parts_text ps \<equiv> concat (map part_text ps)"

definition put :: "string \<Rightarrow> string \<Rightarrow> part \<Rightarrow> part" where
  "put m s p = (if p = Marker m then Text s else p)"

lemma put_simps [simp]: "put m s (Text t) = Text t" "put m s (Marker k) = (if k = m then Text s else Marker k)"
  by (auto simp: put_def)

lemma spaced_starts:
  assumes "spaced ps" shows "\<exists>c ds. parts_text ps = c # ds \<and> c \<in> set ''<:''"
proof -
  from assms obtain s qs where "ps = Text s # qs" "solid s"
    by (cases ps rule: spaced.cases) auto
  then show ?thesis
    by (cases s) (auto simp: solid_def)
qed

lemma spaced_put: "spaced ps \<Longrightarrow> quiet_text s \<Longrightarrow> spaced (map (put m s) ps)"
proof (induction ps rule: spaced.induct)
  case (2 t h ps)
  then show ?case by (cases h) auto
qed auto

lemma replace_all_parts:
  assumes "spaced ps" and "old \<in> set markers"
  shows "replace_all old new (parts_text ps) = parts_text (map (put old new) ps)"
proof -
  have old: "take 2 old = ''__''" "old \<noteq> []"
    using assms(2) by (auto simp: markers_def numeral_2_eq_2)
  have solid_skip: "replace_all old new (s @ rest) = s @ replace_all old new rest" if "solid s" for s rest
    using that by (intro replace_all_skips [OF _ _ old(1)]) (auto simp: solid_def)
  show ?thesis
    using assms(1)
  proof (induction ps rule: spaced.induct)
    case (1 s)
    then show ?case using solid_skip [of s "[]"] by simp
  next
    case (2 s h ps)
    then have spaced: "solid s" "hole_ok h" "spaced ps" by simp_all
    from spaced_starts [OF spaced(3)] obtain c ds where c: "parts_text ps = c # ds" "c \<in> set ''<:''" by blast
    have nonblank: "c \<noteq> CHR ''_''" using c(2) by auto
    have "replace_all old new (part_text h @ parts_text ps) = part_text (put old new h) @ replace_all old new (parts_text ps)"
    proof (cases h)
      case (Text t)
      then have "quiet_text t" using spaced(2) by simp
      from replace_all_skips [OF this _ old(1), of "parts_text ps" new] c(1) nonblank Text show ?thesis by simp
    next
      case (Marker m)
      then have m: "m \<in> set markers" using spaced(2) by simp
      show ?thesis
      proof (cases "m = old")
        case True
        with Marker replace_all_here [OF old(2)] show ?thesis by simp
      next
        case False
        with replace_all_other [OF assms(2) m False c(2), of new ds] c(1) Marker show ?thesis
          by (simp only: part_text.simps put_simps if_False)
      qed
    qed
    with 2(1) [OF spaced(3)] solid_skip [OF spaced(1), of "part_text h @ parts_text ps"] show ?case
      by (simp only: list.map concat.simps part_text.simps put_simps append_assoc)
  qed auto
qed

lemma template_spaced: "spaced template_parts"
  by code_simp

lemma replace_markers_parts:
  "spaced ps \<Longrightarrow> set (map fst values) \<subseteq> set markers \<Longrightarrow> list_all (\<lambda>(m, v). quiet_text v) values \<Longrightarrow>
   replace_markers values (parts_text ps) = parts_text (fold (\<lambda>(m, v). map (put m (xml_escape v))) values ps)"
proof (induction "values" arbitrary: ps)
  case Nil
  then show ?case by (simp add: replace_markers_def)
next
  case (Cons mv rest)
  obtain m v where mv: "mv = (m, v)" by fastforce
  with Cons.prems have v: "m \<in> set markers" "quiet_text (xml_escape v)"
    by (simp_all add: quiet_xml_escape)
  have "spaced (map (put m (xml_escape v)) ps)"
    by (rule spaced_put [OF Cons.prems(1) v(2)])
  from Cons.IH [OF this] Cons.prems(2,3) replace_all_parts [OF Cons.prems(1) v(1)] show ?case
    by (simp add: mv replace_markers_def del: replace_all.simps)
qed

lemma fold_put:
  "fold (\<lambda>(m, v). map (put m (xml_escape v))) values ps = map (fold (\<lambda>(m, v). put m (xml_escape v)) values) ps"
proof (induction "values" arbitrary: ps)
  case (Cons mv rest)
  then show ?case by (cases mv) (simp add: comp_def)
qed simp

lemma fold_put_Text: "fold (\<lambda>(m, v). put m (xml_escape v)) values (Text s) = Text s"
  by (induction "values") auto

lemma part_text_put:
  "part_text (fold (\<lambda>(m, v). put m (xml_escape v)) values p) = filled values p"
proof (cases p)
  case (Text s)
  then show ?thesis by (simp add: fold_put_Text filled_def)
next
  case (Marker k)
  show ?thesis
    unfolding Marker by (induction "values") (auto simp: fold_put_Text filled_def split: option.splits)
qed

lemma plist_values_Inr:
  assumes "plist_values pc pp = Inr values"
  shows "map fst values = markers"
    and "\<exists>codex. values = [(''__CODEX_BIN_DIR__'', path_parent codex), (''__CONFIG_PATH__'', pc_resolve pc (pp_config pp)),
          (''__LABEL__'', pp_label pp), (''__PYTHON_PATH__'', pc_resolve pc (pp_python pp)),
          (''__REPOSITORY_PATH__'', pc_resolve pc (pp_repository pp)), (''__STDERR_PATH__'', pc_resolve pc (pp_stderr pp)),
          (''__STDOUT_PATH__'', pc_resolve pc (pp_stdout pp))]"
  using assms by (auto simp: plist_values_def absolute_existing_def Let_def markers_def)

text \<open>Filled in, the template has no two underscores in a row any more.\<close>

lemma quiet_append:
  assumes "quiet_text a" and "quiet_text b" and "a = [] \<or> last a \<noteq> CHR ''_'' \<or> (\<exists>c ds. b = c # ds \<and> c \<noteq> CHR ''_'')"
  shows "quiet_text (a @ b)"
  using assms
proof (induction a)
  case (Cons c a)
  then have "quiet_text (a @ b)"
    unfolding quiet_Cons by (auto split: if_splits)
  with Cons.prems show ?case
    unfolding append_Cons quiet_Cons by (cases a) auto
qed simp

fun is_text :: "part \<Rightarrow> bool" where
  "is_text (Text s) = True"
| "is_text (Marker m) = False"

lemma quiet_parts: "spaced ps \<Longrightarrow> list_all is_text ps \<Longrightarrow> quiet_text (parts_text ps)"
proof (induction ps rule: spaced.induct)
  case (2 s h ps)
  then obtain t where h: "h = Text t" and parts: "solid s" "quiet_text t" "spaced ps" "quiet_text (parts_text ps)"
    by (cases h) auto
  from spaced_starts [OF parts(3)] obtain c ds where c: "parts_text ps = c # ds" "c \<in> set ''<:''" by blast
  have nonblank: "c \<noteq> CHR ''_''" using c(2) by auto
  have "quiet_text (t @ parts_text ps)"
    by (rule quiet_append [OF parts(2,4)]) (use c(1) nonblank in blast)
  moreover have "last s \<noteq> CHR ''_''" "quiet_text s"
    using parts(1) by (simp_all add: solid_def)
  ultimately show ?case
    unfolding h by (simp only: list.map concat.simps part_text.simps quiet_append simp_thms)
qed (auto simp: solid_def)

lemma spaced_puts:
  "spaced ps \<Longrightarrow> list_all (\<lambda>(m, v). quiet_text v) values \<Longrightarrow> spaced (fold (\<lambda>(m, v). map (put m (xml_escape v))) values ps)"
proof (induction "values" arbitrary: ps)
  case (Cons mv rest)
  then show ?case
    by (cases mv) (simp add: spaced_put quiet_xml_escape)
qed simp

lemma all_put:
  assumes "set ps \<subseteq> range Text \<union> Marker ` set (map fst values)"
  shows "list_all is_text (map (fold (\<lambda>(m, v). put m (xml_escape v)) values) ps)"
proof -
  have texts: "is_text (fold (\<lambda>(m, v). put m (xml_escape v)) values p)" if "p \<in> range Text \<union> Marker ` set (map fst values)" for p
    using that
  proof (induction "values" arbitrary: p)
    case (Cons mv rest)
    obtain m v where mv: "mv = (m, v)" by fastforce
    have "put m (xml_escape v) p \<in> range Text \<union> Marker ` set (map fst rest)"
      using Cons.prems by (auto simp: mv put_def)
    from Cons.IH [OF this] show ?case by (simp add: mv)
  qed auto
  have "is_text (fold (\<lambda>(m, v). put m (xml_escape v)) values x)" if "x \<in> set ps" for x
    using subsetD [OF assms that] by (rule texts)
  then show ?thesis
    by (simp add: list_all_iff)
qed

lemma template_markers: "set template_parts \<subseteq> range Text \<union> Marker ` set markers"
  by (auto simp: template_parts_def markers_def)

text \<open>
  Rendering fills in the template. When no path and not the label contains two underscores in a row, then the
  template is complete after replacing one marker after another, and what is checked and returned is the template with
  every marker filled at once with its escaped value, so that no value is taken for another marker.
\<close>

theorem render_fills_template:
  assumes "plist_values pc pp = Inr values" and "list_all (\<lambda>(m, v). quiet_text v) values"
  defines "content \<equiv> concat (map (filled values) template_parts)"
  shows "render_plist pc pp = rbind (check_plist_bytes pc content) (\<lambda>_. Inr content)"
proof -
  let ?filled = "fold (\<lambda>(m, v). map (put m (xml_escape v))) values template_parts"
  have puts: "?filled = map (fold (\<lambda>(m, v). put m (xml_escape v)) values) template_parts"
    by (rule fold_put)
  have "parts_text ?filled = content"
    unfolding puts content_def by (simp add: part_text_put comp_def)
  moreover have "replace_markers values plist_template = parts_text ?filled"
    unfolding plist_template_def
    using replace_markers_parts [OF template_spaced _ assms(2)] plist_values_Inr(1) [OF assms(1)] by simp
  moreover have "quiet_text (parts_text ?filled)"
  proof (rule quiet_parts)
    show "spaced ?filled"
      by (rule spaced_puts [OF template_spaced assms(2)])
    show "list_all is_text ?filled"
      unfolding puts using template_markers plist_values_Inr(1) [OF assms(1)] by (intro all_put) (simp only: )
  qed
  ultimately show ?thesis
    by (simp add: render_plist_def assms(1) Let_def)
qed

section \<open>What is written\<close>

text \<open>The reviewed contract on the parsed plist.\<close>

definition contracted :: "(string \<times> plist) list \<Rightarrow> bool" where
  "contracted fs \<longleftrightarrow>
     set (map fst fs) = set plist_keys \<and> map_of fs ''Disabled'' = Some (Pl_bool True)
     \<and> map_of fs ''ProcessType'' = Some (Pl_str ''Background'')
     \<and> (\<exists>python config_file program. map_of fs ''Program'' = Some program \<and> pl_eq python program
          \<and> map_of fs ''ProgramArguments'' = Some (Pl_arr [python, Pl_str ''-m'', Pl_str ''codex_work_scheduler'',
              Pl_str ''--config'', config_file, Pl_str ''service'', Pl_str ''run'']))"

lemma entry_present: "k \<in> set (map fst fs) \<Longrightarrow> map_of fs k = Some (entry fs k)"
  by (auto simp: entry_def map_of_eq_None_iff split: option.splits)

lemma arguments_ok_iff:
  "arguments_ok program arguments \<longleftrightarrow> (\<exists>python config_file. pl_eq python program \<and>
     arguments = [python, Pl_str ''-m'', Pl_str ''codex_work_scheduler'', Pl_str ''--config'', config_file,
       Pl_str ''service'', Pl_str ''run''])"
  by (auto simp: arguments_ok_def split: list.splits)

lemma check_plist_contracted:
  assumes "check_plist_bytes pc content = Inr c"
  shows "\<exists>fs. pc_loads pc content = Inr (Pl_dict fs) \<and> contracted fs \<and> map_of fs ''Label'' = Some (ck_label c)
           \<and> map_of fs ''ProgramArguments'' = Some (Pl_arr (ck_arguments c))"
proof -
  from assms obtain fs where fs: "pc_loads pc content = Inr (Pl_dict fs)" "set (map fst fs) = set plist_keys"
    and c: "entry fs ''ProgramArguments'' = Pl_arr (ck_arguments c)" "ck_label c = entry fs ''Label''"
      "entry fs ''Disabled'' = Pl_bool True" "entry fs ''ProcessType'' = Pl_str ''Background''"
      "arguments_ok (entry fs ''Program'') (ck_arguments c)"
    by (auto simp: check_plist_bytes_def split: sum.splits plist.splits)
  have present: "map_of fs k = Some (entry fs k)" if "k \<in> set plist_keys" for k
    using that fs(2) by (intro entry_present) simp
  have keys: "map_of fs ''ProgramArguments'' = Some (Pl_arr (ck_arguments c))" "map_of fs ''Label'' = Some (ck_label c)"
    "map_of fs ''Disabled'' = Some (Pl_bool True)" "map_of fs ''ProcessType'' = Some (Pl_str ''Background'')"
    "map_of fs ''Program'' = Some (entry fs ''Program'')"
    using present c by (simp_all add: plist_keys_def)
  with fs c(5) show ?thesis
    unfolding contracted_def arguments_ok_iff by auto
qed

definition install_denied :: "places \<Rightarrow> string \<Rightarrow> bool" where
  "install_denied pc p \<longleftrightarrow> (\<exists>d \<in> set (DENIED_INSTALL_ROOTS pc). is_within p (pc_resolve pc d))"

lemma write_plist_cases:
  assumes "write_plist pc path content ws = (r, ws')"
  shows "ws' = ws \<and> (\<exists>e. r = Inl e)
    \<or> \<not> install_denied pc (pc_resolve pc path)
      \<and> (\<exists>n. ws' = ws @ [(pc_resolve pc path, take n content)] \<and> (\<forall>p c. r = Inr (p, c) \<longrightarrow>
           p = pc_resolve pc path \<and> take n content = content \<and> check_plist_bytes pc content = Inr c))"
proof (cases "install_denied pc (pc_resolve pc path)")
  case True
  with assms show ?thesis
    by (auto simp: write_plist_def install_denied_def Let_def)
next
  case False
  show ?thesis
  proof (cases "pc_write pc (pc_resolve pc path)")
    case Write_ok
    with assms False have "ws' = ws @ [(pc_resolve pc path, take (length content) content)]"
      "r = rbind (check_plist_bytes pc content) (\<lambda>c. Inr (pc_resolve pc path, c))"
      by (auto simp: write_plist_def install_denied_def Let_def)
    with False show ?thesis by fastforce
  next
    case (Write_partly n)
    with assms False show ?thesis
      by (auto simp: write_plist_def install_denied_def Let_def)
  qed (use assms False in \<open>auto simp: write_plist_def install_denied_def Let_def\<close>)
qed

end
