(* ===== verification/CommandLine.thy ===== *)
theory CommandLine
  imports Reports Background Monitoring LiveTest ThreadControl Launchd
begin

text \<open>
  cli.py, with \<open>load_json_file\<close> and \<open>make_envelope\<close> of util.py and the construction of the controller: from the
  parsed arguments to the envelope that is printed and the exit code. \<open>argparse\<close> and the JSON parser are the
  standard library's; their results are given. \<open>cli_table\<close> is what \<open>build_parser\<close> declares, \<open>conforms\<close> says that
  a namespace is one that such a parser returns.
\<close>

section \<open>The parser\<close>

text \<open>A value of the namespace; \<open>A_none\<close> is Python's None.\<close>

datatype arg = A_none | A_text string | A_int int | A_flag bool

type_synonym namespace = "(string \<times> arg) list"

datatype option_kind = Text_option | Int_option | Flag_option | Choice_option "string list"

record cli_option =
  op_dest :: string
  op_kind :: option_kind
  op_default :: "arg option"

text \<open>A required option, an optional one, one with a default.\<close>

definition req :: "string \<Rightarrow> cli_option" where
  "req d = \<lparr>op_dest = d, op_kind = Text_option, op_default = None\<rparr>"

definition opt :: "string \<Rightarrow> cli_option" where
  "opt d = \<lparr>op_dest = d, op_kind = Text_option, op_default = Some A_none\<rparr>"

definition flag :: "string \<Rightarrow> cli_option" where
  "flag d = \<lparr>op_dest = d, op_kind = Flag_option, op_default = Some (A_flag False)\<rparr>"

definition number_option :: "string \<Rightarrow> int \<Rightarrow> cli_option" where
  "number_option d i = \<lparr>op_dest = d, op_kind = Int_option, op_default = Some (A_int i)\<rparr>"

definition text_option :: "string \<Rightarrow> string \<Rightarrow> cli_option" where
  "text_option d s = \<lparr>op_dest = d, op_kind = Text_option, op_default = Some (A_text s)\<rparr>"

definition approvable_actions :: "string list" where
  "approvable_actions = [''queue.submit'', ''queue.approve'', ''policy.set'', ''resume'', ''reconcile'', ''live-test.run'', ''quota-guard.arm'']"

definition global_options :: "cli_option list" where
  "global_options = [req ''config'', text_option ''actor'' ''agent'']"

text \<open>The commands, each with its subcommand (under the name of its attribute), and their options.\<close>

definition cli_table :: "(string \<times> (string \<times> string) option \<times> cli_option list) list" where
  "cli_table =
     [(''status'', None, []),
      (''queue'', Some (''queue_command'', ''list''), []),
      (''queue'', Some (''queue_command'', ''proposals''), []),
      (''queue'', Some (''queue_command'', ''get''), [req ''job_id'']),
      (''queue'', Some (''queue_command'', ''proposal-get''), [req ''job_id'']),
      (''queue'', Some (''queue_command'', ''propose''), [req ''package_file'', req ''idempotency_key'']),
      (''queue'', Some (''queue_command'', ''approve''), [req ''job_id'', req ''approval_file'', req ''idempotency_key'']),
      (''queue'', Some (''queue_command'', ''submit''), [req ''job_file'', req ''approval_file'', req ''idempotency_key'']),
      (''queue'', Some (''queue_command'', ''cancel''), [req ''job_id'', req ''idempotency_key'']),
      (''policy'', Some (''policy_command'', ''show''), []),
      (''policy'', Some (''policy_command'', ''check''), [opt ''snapshot_file'', opt ''job_file'']),
      (''policy'', Some (''policy_command'', ''set''), [req ''policy_file'', req ''approval_file'', req ''idempotency_key'']),
      (''preflight'', None,
         [\<lparr>op_dest = ''action'', op_kind = Choice_option approvable_actions, op_default = Some A_none\<rparr>, opt ''input_file'']),
      (''approval'', Some (''approval_command'', ''prepare''),
         [\<lparr>op_dest = ''action'', op_kind = Choice_option approvable_actions, op_default = None\<rparr>, opt ''input_file'',
          text_option ''approver'' ''operator'', number_option ''ttl_seconds'' 3600]),
      (''pause'', None, [req ''reason_code'', req ''idempotency_key'']),
      (''resume'', None, [req ''approval_file'', req ''idempotency_key'']),
      (''stop'', None, [req ''reason_code'', req ''idempotency_key'']),
      (''reconcile'', None, [flag ''dry_run'', opt ''approval_file'', opt ''idempotency_key'']),
      (''probe'', None, [req ''idempotency_key'']),
      (''tick'', None, [req ''idempotency_key'']),
      (''cycle'', None, [req ''idempotency_key'']),
      (''live-test'', Some (''live_test_command'', ''preflight''), [flag ''refresh'', opt ''idempotency_key'']),
      (''live-test'', Some (''live_test_command'', ''run''), [req ''approval_file'', req ''idempotency_key'']),
      (''dispatch'', Some (''dispatch_command'', ''preflight''), [opt ''job_id'', flag ''refresh'', opt ''idempotency_key'']),
      (''dispatch'', Some (''dispatch_command'', ''run''), [opt ''job_id'', req ''idempotency_key'']),
      (''monitor'', Some (''monitor_command'', ''list''), []),
      (''monitor'', Some (''monitor_command'', ''get''), [req ''run_id'']),
      (''monitor'', Some (''monitor_command'', ''refresh''), [req ''run_id'', req ''idempotency_key'']),
      (''service'', Some (''service_command'', ''status''), []),
      (''service'', Some (''service_command'', ''once''), []),
      (''service'', Some (''service_command'', ''run''), [number_option ''max_cycles'' 0]),
      (''notifications'', Some (''notification_command'', ''list''), [number_option ''limit'' 100]),
      (''quota-guard'', Some (''quota_guard_command'', ''inventory''), []),
      (''quota-guard'', Some (''quota_guard_command'', ''list''), []),
      (''quota-guard'', Some (''quota_guard_command'', ''status''), [req ''guard_id'']),
      (''quota-guard'', Some (''quota_guard_command'', ''arm''), [req ''plan_file'', req ''approval_file'', req ''idempotency_key'']),
      (''quota-guard'', Some (''quota_guard_command'', ''disarm''), [req ''guard_id'', req ''idempotency_key'']),
      (''launchd'', Some (''launchd_command'', ''render''),
         [req ''output'', text_option ''label'' DEFAULT_LABEL, opt ''python_path'', opt ''codex_path'', opt ''repository_path'',
          opt ''stdout_path'', opt ''stderr_path'']),
      (''launchd'', Some (''launchd_command'', ''check''), [req ''plist'']),
      (''audit'', Some (''audit_command'', ''list''), [number_option ''limit'' 100]),
      (''audit'', Some (''audit_command'', ''verify''), [])]"

definition kind_ok :: "option_kind \<Rightarrow> arg \<Rightarrow> bool" where
  "kind_ok k v \<longleftrightarrow>
     (case k of
        Text_option \<Rightarrow> (case v of A_text s \<Rightarrow> True | _ \<Rightarrow> False)
      | Int_option \<Rightarrow> (case v of A_int i \<Rightarrow> True | _ \<Rightarrow> False)
      | Flag_option \<Rightarrow> (case v of A_flag b \<Rightarrow> True | _ \<Rightarrow> False)
      | Choice_option cs \<Rightarrow> (case v of A_text s \<Rightarrow> s \<in> set cs | _ \<Rightarrow> False))"

definition option_ok :: "namespace \<Rightarrow> cli_option \<Rightarrow> bool" where
  "option_ok args o' \<longleftrightarrow>
     (case map_of args (op_dest o') of None \<Rightarrow> False | Some v \<Rightarrow> kind_ok (op_kind o') v \<or> op_default o' = Some v)"

definition row_ok :: "namespace \<Rightarrow> string \<times> (string \<times> string) option \<times> cli_option list \<Rightarrow> bool" where
  "row_ok args row =
     (case row of (c, sub, opts) \<Rightarrow>
        map_of args ''command'' = Some (A_text c)
        \<and> (case sub of None \<Rightarrow> True | Some (dest, s) \<Rightarrow> map_of args dest = Some (A_text s))
        \<and> list_all (option_ok args) (global_options @ opts))"

definition conforms :: "namespace \<Rightarrow> bool" where
  "conforms args \<longleftrightarrow> list_ex (row_ok args) cli_table"

section \<open>Reading arguments and files\<close>

text \<open>\<open>args.name\<close>: an attribute that the subcommand does not define raises AttributeError.\<close>

definition text_arg :: "namespace \<Rightarrow> string \<Rightarrow> string res" where
  "text_arg args n =
     (case map_of args n of Some (A_text s) \<Rightarrow> Inr s | Some _ \<Rightarrow> Inl (PyExc ''TypeError'') | None \<Rightarrow> Inl (PyExc ''AttributeError''))"

definition opt_arg :: "namespace \<Rightarrow> string \<Rightarrow> string option res" where
  "opt_arg args n =
     (case map_of args n of Some (A_text s) \<Rightarrow> Inr (Some s) | Some A_none \<Rightarrow> Inr None
      | Some _ \<Rightarrow> Inl (PyExc ''TypeError'') | None \<Rightarrow> Inl (PyExc ''AttributeError''))"

definition int_arg :: "namespace \<Rightarrow> string \<Rightarrow> int res" where
  "int_arg args n =
     (case map_of args n of Some (A_int i) \<Rightarrow> Inr i | Some _ \<Rightarrow> Inl (PyExc ''TypeError'') | None \<Rightarrow> Inl (PyExc ''AttributeError''))"

definition flag_arg :: "namespace \<Rightarrow> string \<Rightarrow> bool res" where
  "flag_arg args n =
     (case map_of args n of Some (A_flag b) \<Rightarrow> Inr b | Some _ \<Rightarrow> Inl (PyExc ''TypeError'') | None \<Rightarrow> Inl (PyExc ''AttributeError''))"

text \<open>The truth value of an optional text: an empty one counts as not given.\<close>

definition given :: "string option \<Rightarrow> bool" where
  "given v \<longleftrightarrow> v \<noteq> None \<and> v \<noteq> Some []"

definition or_else :: "string option \<Rightarrow> string \<Rightarrow> string" where
  "or_else v w = (case v of Some (c # cs) \<Rightarrow> c # cs | _ \<Rightarrow> w)"

text \<open>What a file is when it is opened: its size and what \<open>json.load\<close> makes of it.\<close>

datatype input_file = Unreadable | File nat "json res"

definition MAX_JSON_INPUT_BYTES :: nat where
  "MAX_JSON_INPUT_BYTES = 1048576"

definition load_json_file :: "input_file \<Rightarrow> json res" where
  "load_json_file f =
     (case f of
        Unreadable \<Rightarrow> Inl (Sched ''INVALID_INPUT'')
      | File bytes parsed \<Rightarrow>
          rbind (guard (\<not> bytes > MAX_JSON_INPUT_BYTES) ''INPUT_TOO_LARGE'') (\<lambda>_.
          (case parsed of
             Inr v \<Rightarrow> if is_obj v then Inr v else Inl (Sched ''INVALID_INPUT'')
           | Inl (PyExc n) \<Rightarrow>
               if n \<in> {''OSError'', ''ValueError'', ''TypeError''} then Inl (Sched ''INVALID_INPUT'') else Inl (PyExc n)
           | Inl (Sched c) \<Rightarrow> Inl (Sched c))))"

section \<open>The configuration\<close>

definition load_config :: "places \<Rightarrow> string \<Rightarrow> json \<Rightarrow> config res" where
  "load_config pc path v =
     rbind (validate_config v) (\<lambda>cfg.
     let base = path_parent (pc_resolve pc path) in
     rbind (if cfg_database_path cfg \<noteq> '':memory:'' \<and> \<not> is_absolute (cfg_database_path cfg)
            then let p = pc_resolve pc (join_path base (cfg_database_path cfg))
                 in rbind (guard (is_within p base) ''PATH_DENIED'') (\<lambda>_. Inr p)
            else Inr (cfg_database_path cfg)) (\<lambda>database.
     rbind (rmap (\<lambda>w. let p = pc_resolve pc (join_path base w)
                     in rbind (guard (pc_is_dir pc p) ''PATH_DENIED'') (\<lambda>_. Inr p)) (cfg_workspace_roots cfg)) (\<lambda>roots.
     let sink = pc_resolve pc (join_path base (cfg_notification_path cfg)) in
     rbind (guard (is_within sink base) ''PATH_DENIED'') (\<lambda>_.
       Inr (cfg\<lparr>cfg_database_path := database, cfg_workspace_roots := roots, cfg_notification_path := sink\<rparr>)))))"

section \<open>The surroundings of a command\<close>

text \<open>
  The supervisor's surroundings (with the world in them), the files at each step, the App Server for the live
  test, for the monitor and for the inventory, the program's own paths, the fuel of the service's loop and the
  request identifier.
\<close>

record cli_env =
  ce_service :: benv
  ce_file :: "nat \<Rightarrow> string \<Rightarrow> input_file"
  ce_places :: places
  ce_canary :: stdio
  ce_monitor :: "nat \<Rightarrow> stdio"
  ce_inventory :: "nat \<Rightarrow> stdio"
  ce_executable :: string
  ce_which_codex :: "string option"
  ce_package_root :: string
  ce_fuel :: nat
  ce_request :: string

text \<open>The default timeout of the clients, in seconds, and the default page bound of the inventory.\<close>

definition client_timeout :: rat where
  "client_timeout = 10"

definition inventory_page_limit :: nat where
  "inventory_page_limit = 100"

definition configured :: "cli_env \<Rightarrow> config \<Rightarrow> cli_env" where
  "configured ce cfg =
     (let be = ce_service ce; env = be_world be;
          sv = (we_svc env)\<lparr>sv_config := cfg, sv_resolve := pc_resolve (ce_places ce), sv_is_dir := pc_is_dir (ce_places ce)\<rparr>
      in ce\<lparr>ce_service := be\<lparr>be_world := env\<lparr>we_svc := sv\<rparr>\<rparr>\<rparr>)"

abbreviation ce_world :: "cli_env \<Rightarrow> wenv" where
  "ce_world ce \<equiv> be_world (ce_service ce)"

abbreviation ce_svc :: "cli_env \<Rightarrow> svc" where
  "ce_svc ce \<equiv> we_svc (ce_world ce)"

text \<open>
  What a command returns: a dictionary, the report of the service with its lease, a checked plist (with the path it
  was written to); \<open>R_running\<close> stands for a service that is still running when the fuel is used up.
\<close>

datatype cli_result =
    R_json json
  | R_service string bg_report
  | R_plist "string option" checked_plist
  | R_running

definition unsupported :: "('s, 'a) eff" where
  "unsupported = eraise (Sched ''INVALID_ARGUMENT'')"

definition with_text :: "namespace \<Rightarrow> string \<Rightarrow> (string \<Rightarrow> ('s, 'a) eff) \<Rightarrow> ('s, 'a) eff" where
  "with_text args n f = ebind (elift (text_arg args n)) f"

definition with_opt :: "namespace \<Rightarrow> string \<Rightarrow> (string option \<Rightarrow> ('s, 'a) eff) \<Rightarrow> ('s, 'a) eff" where
  "with_opt args n f = ebind (elift (opt_arg args n)) f"

definition with_key :: "namespace \<Rightarrow> (string \<Rightarrow> string \<Rightarrow> ('s, 'a) eff) \<Rightarrow> ('s, 'a) eff" where
  "with_key args f = with_text args ''idempotency_key'' (\<lambda>key. with_text args ''actor'' (\<lambda>who. f key who))"

definition read_file :: "cli_env \<Rightarrow> string \<Rightarrow> (wst, json) eff" where
  "read_file ce path = wobserve (\<lambda>n. load_json_file (ce_file ce n path))"

definition with_file :: "cli_env \<Rightarrow> namespace \<Rightarrow> string \<Rightarrow> (json \<Rightarrow> (wst, 'a) eff) \<Rightarrow> (wst, 'a) eff" where
  "with_file ce args n f = with_text args n (\<lambda>path. ebind (read_file ce path) f)"

definition with_opt_file :: "cli_env \<Rightarrow> namespace \<Rightarrow> string \<Rightarrow> (json option \<Rightarrow> (wst, 'a) eff) \<Rightarrow> (wst, 'a) eff" where
  "with_opt_file ce args n f =
     with_opt args n (\<lambda>p. case p of Some (c # cs) \<Rightarrow> ebind (read_file ce (c # cs)) (\<lambda>v. f (Some v)) | _ \<Rightarrow> f None)"

text \<open>A read, a command that returns its dictionary, and one that runs in a single step at the time it reads first.\<close>

definition shown :: "('s, json) eff \<Rightarrow> ('s, cli_result) eff" where
  "shown m = ebind m (\<lambda>v. eret (R_json v))"

definition reading :: "cli_env \<Rightarrow> (db \<Rightarrow> json res) \<Rightarrow> (wst, cli_result) eff" where
  "reading ce f = shown (wread (ce_world ce) f)"

definition commanded :: "(wst, command_result) eff \<Rightarrow> (wst, cli_result) eff" where
  "commanded m = shown (ebind m (\<lambda>r. eret (with_replay r)))"

definition at_once :: "cli_env \<Rightarrow> (rat \<Rightarrow> (db, command_result) eff) \<Rightarrow> (wst, cli_result) eff" where
  "at_once ce m = commanded (ebind (wclock (ce_world ce)) (\<lambda>now. wdb (ce_world ce) (m now)))"

section \<open>The commands\<close>

definition queue_command :: "cli_env \<Rightarrow> namespace \<Rightarrow> (wst, cli_result) eff" where
  "queue_command ce args =
     (let sv = ce_svc ce in
      with_text args ''queue_command'' (\<lambda>sub.
        if sub = ''list'' then reading ce (queue_list sv)
        else if sub = ''proposals'' then reading ce (queue_proposals sv)
        else if sub = ''get'' then with_text args ''job_id'' (\<lambda>jid. reading ce (queue_get sv jid))
        else if sub = ''proposal-get'' then with_text args ''job_id'' (\<lambda>jid. reading ce (queue_proposal_get sv jid))
        else if sub = ''propose''
        then with_file ce args ''package_file'' (\<lambda>package.
             with_key args (\<lambda>key who. at_once ce (queue_propose sv package key who)))
        else if sub = ''approve''
        then with_text args ''job_id'' (\<lambda>jid. with_file ce args ''approval_file'' (\<lambda>approval.
             with_key args (\<lambda>key who. at_once ce (queue_approve sv jid approval key who))))
        else if sub = ''submit''
        then with_file ce args ''job_file'' (\<lambda>job. with_file ce args ''approval_file'' (\<lambda>approval.
             with_key args (\<lambda>key who. at_once ce (queue_submit sv job approval key who))))
        else if sub = ''cancel''
        then with_text args ''job_id'' (\<lambda>jid. with_key args (\<lambda>key who. at_once ce (queue_cancel sv jid key who)))
        else unsupported))"

definition policy_command :: "cli_env \<Rightarrow> namespace \<Rightarrow> (wst, cli_result) eff" where
  "policy_command ce args =
     (let sv = ce_svc ce in
      with_text args ''policy_command'' (\<lambda>sub.
        if sub = ''show'' then reading ce (policy_show sv)
        else if sub = ''check''
        then with_opt_file ce args ''snapshot_file'' (\<lambda>snapshot. with_opt_file ce args ''job_file'' (\<lambda>job.
             shown (ebind (policy_check (ce_world ce) snapshot job) (\<lambda>dec. eret (decision_dict dec)))))
        else if sub = ''set''
        then with_file ce args ''policy_file'' (\<lambda>pol. with_file ce args ''approval_file'' (\<lambda>approval.
             with_key args (\<lambda>key who. at_once ce (policy_set sv pol approval key who))))
        else unsupported))"

definition preflight_command :: "cli_env \<Rightarrow> namespace \<Rightarrow> (wst, cli_result) eff" where
  "preflight_command ce args =
     with_opt_file ce args ''input_file'' (\<lambda>input. with_opt args ''action'' (\<lambda>act.
       shown (ebind (preflight (ce_world ce) act input) (\<lambda>r. eret (readiness_dict r)))))"

definition approval_command :: "cli_env \<Rightarrow> namespace \<Rightarrow> (wst, cli_result) eff" where
  "approval_command ce args =
     with_opt_file ce args ''input_file'' (\<lambda>input. with_text args ''action'' (\<lambda>act.
     with_text args ''approver'' (\<lambda>approver. ebind (elift (int_arg args ''ttl_seconds'')) (\<lambda>ttl.
       shown (ebind (approval_prepare (ce_world ce) act input approver ttl) (\<lambda>r. eret (approval_request_dict r)))))))"

definition reconcile_command :: "cli_env \<Rightarrow> namespace \<Rightarrow> (wst, cli_result) eff" where
  "reconcile_command ce args =
     ebind (elift (flag_arg args ''dry_run'')) (\<lambda>dry.
     with_opt args ''approval_file'' (\<lambda>file. with_opt args ''idempotency_key'' (\<lambda>key.
       if dry then
         (if given file \<or> given key then eraise (Sched ''INVALID_ARGUMENT'') else shown (reconcile_plan (ce_world ce)))
       else if \<not> given file \<or> \<not> given key then eraise (Sched ''INVALID_ARGUMENT'')
       else with_file ce args ''approval_file'' (\<lambda>approval.
            with_key args (\<lambda>key who. at_once ce (reconcile (ce_svc ce) approval key who))))))"

text \<open>The \<open>--refresh\<close> of the two preflights: a quota probe under the given key.\<close>

definition refreshing :: "cli_env \<Rightarrow> namespace \<Rightarrow> (wst, cli_result) eff \<Rightarrow> (wst, cli_result) eff" where
  "refreshing ce args k =
     ebind (elift (flag_arg args ''refresh'')) (\<lambda>refresh. with_opt args ''idempotency_key'' (\<lambda>key.
       if refresh then
         (if \<not> given key then eraise (Sched ''IDEMPOTENCY_REQUIRED'')
          else with_key args (\<lambda>key who. ebind (probe_quota (ce_world ce) key who) (\<lambda>_. k)))
       else if given key then eraise (Sched ''INVALID_ARGUMENT'')
       else k))"

definition live_test_command :: "cli_env \<Rightarrow> namespace \<Rightarrow> (wst, cli_result) eff" where
  "live_test_command ce args =
     with_text args ''live_test_command'' (\<lambda>sub.
       if sub = ''preflight''
       then refreshing ce args
              (shown (ebind (live_test_preflight (ce_world ce)) (\<lambda>r. eret (live_report_dict (ce_svc ce) r))))
       else if sub = ''run''
       then with_file ce args ''approval_file'' (\<lambda>approval. with_key args (\<lambda>key who.
              commanded (live_test_run (ce_world ce) (live_run (ce_canary ce)) approval key who)))
       else unsupported)"

definition dispatch_command :: "cli_env \<Rightarrow> namespace \<Rightarrow> (wst, cli_result) eff" where
  "dispatch_command ce args =
     with_text args ''dispatch_command'' (\<lambda>sub.
       if sub = ''preflight''
       then refreshing ce args (with_opt args ''job_id'' (\<lambda>jid.
              shown (ebind (dispatch_preflight (ce_world ce) jid) (\<lambda>pf. eret (preflight_dict (sv_config (ce_svc ce)) pf)))))
       else if sub = ''run''
       then with_opt args ''job_id'' (\<lambda>jid. with_key args (\<lambda>key who.
              commanded (dispatch_run (ce_world ce) (be_runner (ce_service ce))
                \<lparr>dc_job = jid, dc_key = key, dc_actor = who, dc_owner = None, dc_heartbeat = None, dc_shutdown = None\<rparr>)))
       else unsupported)"

definition monitor_command :: "cli_env \<Rightarrow> namespace \<Rightarrow> (wst, cli_result) eff" where
  "monitor_command ce args =
     with_text args ''monitor_command'' (\<lambda>sub.
       if sub = ''list'' then reading ce (monitor_list (ce_svc ce))
       else if sub = ''get'' then with_text args ''run_id'' (\<lambda>rid. reading ce (monitor_get (ce_svc ce) rid))
       else if sub = ''refresh''
       then with_text args ''run_id'' (\<lambda>rid. with_key args (\<lambda>key who.
              commanded (monitor_refresh (ce_world ce) (ce_monitor ce) client_timeout rid key who)))
       else unsupported)"

text \<open>A supervisor that was just constructed, run on the world.\<close>

definition new_supervisor :: "wst \<Rightarrow> bst" where
  "new_supervisor w = \<lparr>b_world = w, b_lease = None, b_failures = 0, b_incident = None, b_token = None\<rparr>"

definition supervised_run :: "cli_env \<Rightarrow> int \<Rightarrow> (wst, cli_result) eff" where
  "supervised_run ce max_cycles w =
     (case run (ce_service ce) max_cycles (ce_fuel ce) (new_supervisor w) of
        (Inl e, t) \<Rightarrow> (Inl e, b_world t)
      | (Inr None, t) \<Rightarrow> (Inr R_running, b_world t)
      | (Inr (Some (lease, report)), t) \<Rightarrow> (Inr (R_service lease report), b_world t))"

definition service_command :: "cli_env \<Rightarrow> namespace \<Rightarrow> (wst, cli_result) eff" where
  "service_command ce args =
     with_text args ''service_command'' (\<lambda>sub.
       if sub = ''status'' then shown (supervisor_status (ce_service ce))
       else if sub = ''once'' then supervised_run ce 1
       else if sub = ''run'' then ebind (elift (int_arg args ''max_cycles'')) (supervised_run ce)
       else unsupported)"

definition notifications_command :: "cli_env \<Rightarrow> namespace \<Rightarrow> (wst, cli_result) eff" where
  "notifications_command ce args =
     ethen (elift (require_capability (ce_svc ce) ''background.read''))
    (ebind (elift (int_arg args ''limit'')) (\<lambda>n.
     ethen (eguard (\<not> (n < 1 \<or> n > 1000)) ''INVALID_ARGUMENT'')
           (reading ce (\<lambda>d. Inr (JObj [(''events'', JArr (list_notifications (nat n) d))])))))"

definition inventory_answer :: "cli_env \<Rightarrow> nat \<Rightarrow> json res" where
  "inventory_answer ce n =
     fst (inventory_active_threads (ce_inventory ce n) client_timeout inventory_page_limit (new_session ()))"

definition quota_guard_command :: "cli_env \<Rightarrow> namespace \<Rightarrow> (wst, cli_result) eff" where
  "quota_guard_command ce args =
     (let env = ce_world ce; sv = ce_svc ce in
      with_text args ''quota_guard_command'' (\<lambda>sub.
        if sub = ''inventory'' then shown (wobserve (\<lambda>n. quota_guard_inventory sv (inventory_answer ce n)))
        else if sub = ''list'' then reading ce (quota_guard_list sv)
        else if sub = ''status'' then with_text args ''guard_id'' (\<lambda>g. reading ce (quota_guard_status sv g))
        else if sub = ''arm''
        then with_file ce args ''plan_file'' (\<lambda>plan. with_file ce args ''approval_file'' (\<lambda>approval.
             with_key args (\<lambda>key who.
               commanded (ebind (wclock env) (\<lambda>now. ebind (wclock env) (\<lambda>signal_now. ebind (wid env ''guard'') (\<lambda>guard_id.
                 wdb env (quota_guard_arm sv plan approval key who now signal_now guard_id))))))))
        else if sub = ''disarm''
        then with_text args ''guard_id'' (\<lambda>g. with_key args (\<lambda>key who. at_once ce (quota_guard_disarm sv g key who)))
        else unsupported))"

definition audit_command :: "cli_env \<Rightarrow> namespace \<Rightarrow> (wst, cli_result) eff" where
  "audit_command ce args =
     with_text args ''audit_command'' (\<lambda>sub.
       if sub = ''list'' then ebind (elift (int_arg args ''limit'')) (\<lambda>n. reading ce (audit_list (ce_svc ce) n))
       else if sub = ''verify'' then reading ce (audit_verify (ce_svc ce))
       else unsupported)"

section \<open>Dispatch\<close>

text \<open>\<open>launchd\<close> works on files only.\<close>

definition plist_paths_of :: "cli_env \<Rightarrow> namespace \<Rightarrow> plist_paths res" where
  "plist_paths_of ce args =
     rbind (text_arg args ''config'') (\<lambda>path.
     rbind (opt_arg args ''repository_path'') (\<lambda>repository.
     rbind (opt_arg args ''python_path'') (\<lambda>python.
     rbind (opt_arg args ''codex_path'') (\<lambda>codex.
     rbind (if given codex then Inr (or_else codex [])
            else (case ce_which_codex ce of None \<Rightarrow> Inl (Sched ''LAUNCHD_PATH_INVALID'') | Some p \<Rightarrow> Inr p)) (\<lambda>codex_path.
     rbind (opt_arg args ''stdout_path'') (\<lambda>out.
     rbind (opt_arg args ''stderr_path'') (\<lambda>err_out.
     rbind (text_arg args ''label'') (\<lambda>label.
       let config_path = pc_resolve (ce_places ce) path;
           runtime = join_path (path_parent config_path) ''.scheduler''
       in Inr \<lparr>pp_python = or_else python (ce_executable ce), pp_codex = codex_path,
               pp_repository = or_else repository (ce_package_root ce), pp_config = config_path,
               pp_stdout = or_else out (join_path runtime ''service.stdout.jsonl''),
               pp_stderr = or_else err_out (join_path runtime ''service.stderr.log''), pp_label = label\<rparr>))))))))"

definition launchd_command :: "cli_env \<Rightarrow> namespace \<Rightarrow> (written, cli_result) eff" where
  "launchd_command ce args =
     ethen (elift (require_capability (ce_svc ce) ''launchd.render''))
    (with_text args ''launchd_command'' (\<lambda>sub.
       if sub = ''check''
       then with_text args ''plist'' (\<lambda>path. ebind (elift (check_plist (ce_places ce) path)) (\<lambda>c. eret (R_plist None c)))
       else if sub = ''render''
       then ebind (elift (plist_paths_of ce args)) (\<lambda>paths.
            ebind (elift (render_plist (ce_places ce) paths)) (\<lambda>content.
            with_text args ''output'' (\<lambda>out.
            ebind (write_plist (ce_places ce) out content) (\<lambda>(path, c). eret (R_plist (Some path) c)))))
       else unsupported))"

definition world_command :: "cli_env \<Rightarrow> string \<Rightarrow> namespace \<Rightarrow> (wst, cli_result) eff" where
  "world_command ce c args =
     (let env = ce_world ce; sv = ce_svc ce in
      if c = ''status'' then shown (ebind (status env) (\<lambda>r. eret (status_dict (sv_config sv) r)))
      else if c = ''queue'' then queue_command ce args
      else if c = ''policy'' then policy_command ce args
      else if c = ''preflight'' then preflight_command ce args
      else if c = ''approval'' then approval_command ce args
      else if c = ''pause''
      then with_text args ''reason_code'' (\<lambda>reason. with_key args (\<lambda>key who. at_once ce (pause sv reason key who)))
      else if c = ''resume''
      then with_file ce args ''approval_file'' (\<lambda>approval. with_key args (\<lambda>key who. at_once ce (resume sv approval key who)))
      else if c = ''stop''
      then with_text args ''reason_code'' (\<lambda>reason. with_key args (\<lambda>key who. at_once ce (stop sv reason key who)))
      else if c = ''reconcile'' then reconcile_command ce args
      else if c = ''probe'' then with_key args (\<lambda>key who. commanded (probe_quota env key who))
      else if c = ''tick'' then with_key args (\<lambda>key who. commanded (tick env key who))
      else if c = ''cycle'' then with_key args (\<lambda>key who. commanded (cycle env key who))
      else if c = ''live-test'' then live_test_command ce args
      else if c = ''dispatch'' then dispatch_command ce args
      else if c = ''monitor'' then monitor_command ce args
      else if c = ''service'' then service_command ce args
      else if c = ''notifications'' then notifications_command ce args
      else if c = ''quota-guard'' then quota_guard_command ce args
      else if c = ''audit'' then audit_command ce args
      else unsupported)"

record cli_st =
  cs_world :: wst
  cs_written :: written

definition in_world :: "(wst, 'a) eff \<Rightarrow> (cli_st, 'a) eff" where
  "in_world m s = (case m (cs_world s) of (r, w) \<Rightarrow> (r, s\<lparr>cs_world := w\<rparr>))"

definition in_files :: "(written, 'a) eff \<Rightarrow> (cli_st, 'a) eff" where
  "in_files m s = (case m (cs_written s) of (r, ws) \<Rightarrow> (r, s\<lparr>cs_written := ws\<rparr>))"

definition cli_dispatch :: "cli_env \<Rightarrow> namespace \<Rightarrow> (cli_st, cli_result) eff" where
  "cli_dispatch ce args =
     with_text args ''command'' (\<lambda>c.
       if c = ''launchd'' then in_files (launchd_command ce args) else in_world (world_command ce c args))"

section \<open>The program\<close>

text \<open>The commands that have subcommands, and the name under which the result is reported.\<close>

definition command_groups :: "(string \<times> string) list" where
  "command_groups = [(''queue'', ''queue_command''), (''policy'', ''policy_command''), (''audit'', ''audit_command''),
     (''approval'', ''approval_command''), (''live-test'', ''live_test_command''), (''monitor'', ''monitor_command''),
     (''dispatch'', ''dispatch_command''), (''service'', ''service_command''), (''notifications'', ''notification_command''),
     (''quota-guard'', ''quota_guard_command''), (''launchd'', ''launchd_command'')]"

definition command_name :: "namespace \<Rightarrow> string res" where
  "command_name args =
     rbind (text_arg args ''command'') (\<lambda>c.
       (case map_of command_groups c of
          None \<Rightarrow> Inr c
        | Some dest \<Rightarrow> rbind (text_arg args dest) (\<lambda>sub. Inr (c @ ''.'' @ sub))))"

text \<open>\<open>Controller.__init__\<close> initialises the store.\<close>

definition start_controller :: "cli_env \<Rightarrow> (wst, unit) eff" where
  "start_controller ce =
     (let env = ce_world ce; sv = ce_svc ce in
      ebind (wclock env) (\<lambda>now.
        wtx env (\<lambda>d. Inr ((), bootstrap (sv_host sv) (policy_dict (cfg_policy (sv_config sv))) now d))))"

definition cli_run :: "cli_env \<Rightarrow> namespace \<Rightarrow> (cli_st, cli_result) eff" where
  "cli_run ce args =
     with_text args ''config'' (\<lambda>path.
     ebind (in_world (read_file ce path)) (\<lambda>v.
     ebind (elift (load_config (ce_places ce) path v)) (\<lambda>cfg.
     ethen (in_world (start_controller (configured ce cfg)))
           (cli_dispatch (configured ce cfg) args))))"

record envelope =
  en_command :: string
  en_request :: string
  en_ok :: bool
  en_result :: "cli_result option"
  en_error :: "string option"

definition make_envelope :: "string \<Rightarrow> string \<Rightarrow> cli_result option \<Rightarrow> string option \<Rightarrow> envelope" where
  "make_envelope command request result error_code =
     \<lparr>en_command = command, en_request = request, en_ok = (error_code = None),
      en_result = (if error_code = None then result else None), en_error = error_code\<rparr>"

text \<open>
  How the process ends: with a printed envelope and an exit code, or with an exception that nothing catches: the
  envelope is turned into text after the handlers, and a plist value without a JSON form raises TypeError there.
\<close>

datatype cli_exit = Exit nat envelope | Uncaught string | Still_running

fun plist_printable :: "plist \<Rightarrow> bool" where
  "plist_printable (Pl_other _) = False"
| "plist_printable (Pl_arr vs) = list_all plist_printable vs"
| "plist_printable (Pl_dict fs) = list_all (\<lambda>(k, v). plist_printable v) fs"
| "plist_printable _ = True"

definition printable :: "cli_result \<Rightarrow> bool" where
  "printable r =
     (case r of R_plist _ c \<Rightarrow> plist_printable (ck_label c) \<and> list_all plist_printable (ck_arguments c) | _ \<Rightarrow> True)"

definition report_end :: "cli_env \<Rightarrow> string \<Rightarrow> cli_result res \<Rightarrow> cli_exit" where
  "report_end ce command ended_with =
     (case ended_with of
        Inr R_running \<Rightarrow> Still_running
      | Inr r \<Rightarrow>
          if printable r then Exit 0 (make_envelope command (ce_request ce) (Some r) None) else Uncaught ''TypeError''
      | Inl (Sched c) \<Rightarrow> Exit 2 (make_envelope command (ce_request ce) None (Some c))
      | Inl (PyExc n) \<Rightarrow> Exit 3 (make_envelope command (ce_request ce) None (Some ''INTERNAL_ERROR'')))"

definition cli_main :: "cli_env \<Rightarrow> namespace res \<Rightarrow> cli_st \<Rightarrow> cli_exit \<times> cli_st" where
  "cli_main ce parsed s =
     (case rbind parsed (\<lambda>args. rbind (command_name args) (\<lambda>command. Inr (args, command))) of
        Inl e \<Rightarrow> (report_end ce ''unknown'' (Inl e), s)
      | Inr (args, command) \<Rightarrow> (case cli_run ce args s of (r, t) \<Rightarrow> (report_end ce command r, t)))"

end
