(* ===== verification/CommandSafety.thy ===== *)
theory CommandSafety
  imports CommandLine Refinement LiveSafety
begin

text \<open>
  What holds of every command line: the loaded configuration is confined to its directory, the reading commands
  write nothing, a failed command of one transaction leaves the database alone, plists are written only outside
  the install directories, and every run of the program is a path of the machine of permits.
\<close>

lemmas argument_defs = with_text_def with_opt_def with_key_def with_file_def with_opt_file_def read_file_def
  unsupported_def shown_def reading_def commanded_def at_once_def

section \<open>Commands that only read\<close>

text \<open>
  The commands that are declared to read: those without a key, the two preflights without \<open>--refresh\<close>
  and the reconciliation with \<open>--dry-run\<close>.
\<close>

definition reading_names :: "string list" where
  "reading_names =
     [''status'', ''queue.list'', ''queue.proposals'', ''queue.get'', ''queue.proposal-get'', ''policy.show'', ''policy.check'',
      ''preflight'', ''approval.prepare'', ''monitor.list'', ''monitor.get'', ''service.status'', ''notifications.list'',
      ''quota-guard.inventory'', ''quota-guard.list'', ''quota-guard.status'', ''audit.list'', ''audit.verify'',
      ''launchd.render'', ''launchd.check'']"

definition only_reads :: "namespace \<Rightarrow> bool" where
  "only_reads args \<longleftrightarrow>
     (case command_name args of
        Inl _ \<Rightarrow> False
      | Inr name \<Rightarrow> name \<in> set reading_names
          \<or> name \<in> {''live-test.preflight'', ''dispatch.preflight''} \<and> flag_arg args ''refresh'' = Inr False
          \<or> name = ''reconcile'' \<and> flag_arg args ''dry_run'' = Inr True)"

context db_rel begin

lemma keeps_map [keeps_intros]: "(\<And>x. lifted.keeps (f x)) \<Longrightarrow> lifted.keeps (emap f xs)"
  by (induction xs) (auto intro!: keeps_intros)

lemma keeps_arguments [keeps_intros]:
  "(\<And>x. lifted.keeps (f x)) \<Longrightarrow> lifted.keeps (with_text args n f)"
  "(\<And>x. lifted.keeps (g x)) \<Longrightarrow> lifted.keeps (with_opt args n g)"
  "(\<And>k w. lifted.keeps (h k w)) \<Longrightarrow> lifted.keeps (with_key args h)"
  unfolding argument_defs by (intro keeps_intros; assumption)+

lemma keeps_files [keeps_intros]:
  "(\<And>v. lifted.keeps (f v)) \<Longrightarrow> lifted.keeps (with_file ce args n f)"
  "(\<And>v. lifted.keeps (g v)) \<Longrightarrow> lifted.keeps (with_opt_file ce args n g)"
  unfolding with_file_def with_opt_file_def read_file_def
  by (intro keeps_intros; auto split: list.split option.split intro!: keeps_intros)+

lemma keeps_shown [keeps_intros]: "lifted.keeps m \<Longrightarrow> lifted.keeps (shown m)"
  unfolding shown_def by (intro keeps_intros)

lemma keeps_commanded [keeps_intros]: "lifted.keeps m \<Longrightarrow> lifted.keeps (commanded m)"
  unfolding commanded_def by (intro keeps_intros)

lemma keeps_unsupported [keeps_intros]: "lifted.keeps unsupported"
  unfolding unsupported_def by (intro keeps_intros)

lemma keeps_reading [keeps_intros]: "ce_world ce = env \<Longrightarrow> lifted.keeps (reading ce f)"
  unfolding reading_def by (intro keeps_intros) (simp add: lifted_wread)

lemma keeps_inputs [keeps_intros]:
  "(\<And>v. lifted.keeps (f v)) \<Longrightarrow> lifted.keeps (with_input i f)" "lifted.keeps (no_input i x)"
  unfolding with_input_def no_input_def by (auto split: option.split intro!: keeps_intros)

lemma keeps_requirement [keeps_intros]: "lifted.keeps (requirement_of env act i ls rs)"
  unfolding requirement_of_def scoped_value_def Let_def by (intro keeps_intros)

lemma keeps_reports [keeps_intros]:
  "lifted.keeps (status env)" "lifted.keeps (policy_check env sn jb)" "lifted.keeps (preflight env act i)"
  "lifted.keeps (approval_prepare env act' i approver ttl)" "lifted.keeps (reconcile_plan env)"
  "lifted.keeps (live_test_preflight env)" "lifted.keeps (dispatch_preflight env jid)"
proof -
  show "lifted.keeps (status env)" "lifted.keeps (policy_check env sn jb)"
    unfolding status_def policy_check_def Let_def by (intro keeps_intros)+
  show "lifted.keeps (reconcile_plan env)" "lifted.keeps (live_test_preflight env)" "lifted.keeps (dispatch_preflight env jid)"
    unfolding reconcile_plan_def live_test_preflight_def dispatch_preflight_def Let_def by (intro keeps_intros)+
  show preflight: "lifted.keeps (preflight env act i)" for act
    unfolding preflight_def Let_def by (intro keeps_intros)
  show "lifted.keeps (approval_prepare env act' i approver ttl)"
    unfolding approval_prepare_def by (intro keeps_intros preflight)
qed

end

section \<open>The simulation, the monitor and the start, seen through the permits\<close>

definition restricted :: "db \<Rightarrow> db \<Rightarrow> bool" where
  "restricted d e \<longleftrightarrow> same_permits d e \<and> not_readied d e"

lemma restricted_permitted: "restricted d e \<Longrightarrow> permitted d e"
  by (simp add: restricted_def permitted_restrict)

lemma restricted_trans: "restricted d e \<Longrightarrow> restricted e f \<Longrightarrow> restricted d f"
  by (auto simp: restricted_def same_permits_def not_readied_def)

lemma restricted_refl [simp]: "restricted d d"
  by (simp add: restricted_def not_readied_def)

lemma restricted_frame [simp]:
  "restricted d (e\<lparr>idem_t := i\<rparr>) = restricted d e"
  "restricted d (e\<lparr>leases_t := l\<rparr>) = restricted d e"
  "restricted d (e\<lparr>runs_t := r\<rparr>) = restricted d e"
  "restricted d (e\<lparr>audit_t := a\<rparr>) = restricted d e"
  "restricted d (set_job_state j st now e) = restricted d e"
  by (simp_all add: restricted_def not_readied_def ready_def set_job_state_def same_permits_def map_update_where)

lemma restricted_audit: "audit sv ev who det now e = Inr (i, f) \<Longrightarrow> restricted d e \<Longrightarrow> restricted d f"
  by (auto dest!: audit_frame)

lemma restricted_set_controller: "m \<noteq> READY \<Longrightarrow> restricted d e \<Longrightarrow> restricted d (set_controller m r now e)"
  using not_readied_set_controller [of m "set_controller m r now e" r now e d]
  by (simp add: restricted_def)

lemma restricted_holds:
  "restricted d e \<Longrightarrow> restricted d (set_controller BLOCKED r now e)"
  "restricted d e \<Longrightarrow> restricted d (set_controller PAUSED r now e)"
  by (erule restricted_set_controller [rotated], simp)+

lemma restricted_record_tick: "record_tick sv key r now e = Inr (x, f) \<Longrightarrow> restricted d e \<Longrightarrow> restricted d f"
  by (auto dest!: record_tick_frame)

lemma restricted_select:
  "tick_select sv snap p now rows denied d = Inr (x, denied', d') \<Longrightarrow> restricted d d'"
proof (induction rows arbitrary: denied d)
  case (Cons row rows)
  have "d' = d \<or> (\<exists>st jid dn. tick_select sv snap p now rows dn (set_job_state jid st now d) = Inr (x, denied', d'))"
    using Cons.prems by (auto split: option.splits if_splits)
  then show ?case
    using Cons.IH restricted_trans by (metis restricted_frame(5) restricted_refl)
qed simp

lemma restricted_tick_parts:
  "tick_none sv key now denied d = Inr (y, e) \<Longrightarrow> restricted d e"
  "tick_blocked sv key who now dec d = Inr (z, e) \<Longrightarrow> restricted d e"
  "tick_take sv who now lease_id p snap j dec d = Inr (c, e) \<Longrightarrow> restricted d e"
proof -
  assume "tick_none sv key now denied d = Inr (y, e)"
  then show "restricted d e"
    by (auto simp: tick_none_def intro: restricted_record_tick)
next
  assume "tick_blocked sv key who now dec d = Inr (z, e)"
  then show "restricted d e"
    by (auto simp: tick_blocked_def intro!: restricted_holds elim!: restricted_record_tick restricted_audit)
next
  assume "tick_take sv who now lease_id p snap j dec d = Inr (c, e)"
  then show "restricted d e"
    by (auto simp: tick_take_def insert_lease_def dest!: restricted_audit [where d = d] split: if_splits)
qed

lemma restricted_tick_claim:
  assumes "tick_claim sv key who now lease_id d = Inr (r, e)"
  shows "restricted d e"
proof -
  have "restricted d e" if c: "tick_choose sv key who now lease_id p snap d = Inr (r, e)" for p snap
  proof -
    obtain sel denied d1 where sel: "tick_select sv snap p now (tick_candidates d) [] d = Inr (sel, denied, d1)"
      using c unfolding tick_choose_def rbind_Inr_iff by auto
    then have "restricted d1 e"
      using c by (auto simp: tick_choose_def intro: restricted_tick_parts split: option.splits)
    with restricted_select [OF sel] show ?thesis
      by (rule restricted_trans)
  qed
  then show ?thesis
    using assms by (auto simp: tick_claim_def intro: restricted_tick_parts split: if_splits)
qed

lemma restricted_tick_finish:
  assumes "tick_finish sv key who now lid j dec p s d = Inr (r, e)"
  shows "restricted d e"
proof -
  have failing: "restricted d e" if "tick_failed sv key who now lid j code d = Inr (r, e)" for code
    using tick_failed_frame [OF that] by (auto simp: close_lease_def intro!: restricted_holds)
  have "restricted d e" if "tick_completed sv key who now lid j dec p s u d = Inr (r, e)" for u
    using tick_completed_frame [OF that] by (auto simp: close_lease_def Let_def intro!: restricted_holds)
  with failing assms show ?thesis
    by (auto simp: tick_finish_def split: sum.splits err.splits)
qed

lemma restricted_refresh: "refresh_operation sv who now rid run_row ob d = Inr (r, e) \<Longrightarrow> restricted d e"
  unfolding refresh_operation_rows
  by (auto simp: refresh_rows_def refresh_run_def Let_def dest!: restricted_audit [where d = d] split: option.splits)

lemma permitted_bootstrap: "permitted d (bootstrap h pol now d)"
proof (cases "policies_t d")
  case None
  then show ?thesis
    by (intro permitted_step install) (auto simp: bootstrap_def split: option.splits)
next
  case (Some p)
  then have "restricted d (bootstrap h pol now d)"
    by (auto simp: restricted_def same_permits_def not_readied_def ready_def bootstrap_def split: option.splits)
  then show ?thesis
    by (rule restricted_permitted)
qed

section \<open>Relations that every command line keeps\<close>

text \<open>The state of the program is the world and the files; what is written to files does not concern a relation on databases.\<close>

sublocale db_rel \<subseteq> cli: step_rel "\<lambda>s t. R (w_db (cs_world s)) (w_db (cs_world t))" "\<lambda>s :: cli_st. K (w_db (cs_world s))"
  by unfold_locales (auto intro: refl trans K_step)

context db_rel begin

lemma keeps_in_world: "lifted.keeps m \<Longrightarrow> cli.keeps (in_world m)"
proof (rule cli.keepsI)
  fix s :: cli_st assume "lifted.keeps m" and "K (w_db (cs_world s))"
  from lifted.keepsD [OF this] show "R (w_db (cs_world s)) (w_db (cs_world (snd (in_world m s))))"
    by (cases "m (cs_world s)") (simp add: in_world_def)
qed

lemma keeps_in_files: "cli.keeps (in_files m)"
  by (rule cli.keepsI) (simp add: in_files_def refl split: prod.split)

lemma keeps_cli_text: "(\<And>x. cli.keeps (f x)) \<Longrightarrow> cli.keeps (with_text args n f)"
  unfolding with_text_def by (intro cli.keeps_ebind cli.keeps_elift)

end

text \<open>
  The interface: a relation that every transaction of the program keeps, in surroundings that keep it. The
  service and the live test have their own interfaces; the others are the commands of one transaction, the
  simulation, the monitor's refresh and the initialisation of the store.
\<close>

locale command_line = service_rel R "ce_service ce" + live: live_rel R "be_world (ce_service ce)"
  for R :: "db \<Rightarrow> db \<Rightarrow> bool" and ce :: cli_env +
  assumes peer: "R d (peer_step (ce_svc ce) p d)"
    and arm: "R d (snd (quota_guard_arm (ce_svc ce) pv av key who now t g d))"
    and disarm: "R d (snd (quota_guard_disarm (ce_svc ce) g key who now d))"
    and tick_claim_step: "tick_claim (ce_svc ce) key who now lease_id d = Inr (c, e) \<Longrightarrow> R d e"
    and tick_finish_step: "tick_finish (ce_svc ce) key who now lid j dec p' s d = Inr (r, e) \<Longrightarrow> R d e"
    and refresh_step: "refresh_operation (ce_svc ce) who now rid run_row ob d = Inr (r, e) \<Longrightarrow> R d e"
    and start_step: "R d (bootstrap h pol now d)"
begin

abbreviation steady :: "(wst, 'a) eff \<Rightarrow> bool" where
  "steady m \<equiv> rel.lifted.keeps m"

lemma single_steps:
  "rel.keeps (queue_propose (ce_svc ce) v key who now)" "rel.keeps (queue_approve (ce_svc ce) jid av key who now)"
  "rel.keeps (queue_submit (ce_svc ce) v av key who now)" "rel.keeps (queue_cancel (ce_svc ce) jid key who now)"
  "rel.keeps (policy_set (ce_svc ce) v av key who now)" "rel.keeps (pause (ce_svc ce) reason key who now)"
  "rel.keeps (stop (ce_svc ce) reason key who now)" "rel.keeps (resume (ce_svc ce) av key who now)"
  "rel.keeps (reconcile (ce_svc ce) av key who now)" "rel.keeps (quota_guard_arm (ce_svc ce) v av key who now t g)"
  "rel.keeps (quota_guard_disarm (ce_svc ce) g key who now)"
  using peer [of _ "P_propose v key who now"] peer [of _ "P_approve jid av key who now"]
    peer [of _ "P_submit v av key who now"] peer [of _ "P_cancel jid key who now"]
    peer [of _ "P_policy_set v av key who now"] peer [of _ "P_pause reason key who now"]
    peer [of _ "P_stop reason key who now"] peer [of _ "P_resume av key who now"]
    peer [of _ "P_reconcile av key who now"] arm disarm
  by (simp_all add: rel.keeps_def)

lemma steady_at_once: "(\<And>now. rel.keeps (m now)) \<Longrightarrow> steady (at_once ce m)"
  unfolding at_once_def by (intro rel.keeps_commanded rel.lifted.keeps_ebind rel.lifted_wclock rel.lifted_wdb)

lemmas steady_intros = rel.lifted.keeps_ebind rel.lifted.keeps_if rel.lifted.keeps_eret rel.lifted.keeps_eraise rel.lifted.keeps_elift
  rel.lifted.keeps_eguard rel.lifted.keeps_case_option rel.lifted.keeps_case_prod
  rel.lifted_wclock rel.lifted_wid rel.lifted_wobserve rel.lifted_wread rel.lifted_wdb
  rel.keeps_arguments rel.keeps_files rel.keeps_shown rel.keeps_commanded rel.keeps_unsupported rel.keeps_reports
  rel.keeps_reading [OF HOL.refl] steady_at_once single_steps keeps_probe

lemma steady_tick: "steady (tick (ce_world ce) key who)"
  unfolding tick_def Let_def
  by (intro steady_intros rel.lifted_wtx tick_claim_step)
     (auto split: tick_claim_result.split intro!: steady_intros rel.lifted_wtx tick_finish_step)

lemma steady_cycle: "steady (cycle (ce_world ce) key who)"
  unfolding cycle_def cycle_tick_def Let_def
  by (intro steady_intros steady_tick rel.lifted_wtx) (erule command.execute_keeps [rotated], simp add: rel.refl)

lemma steady_refresh: "steady (monitor_refresh (ce_world ce) ios timeout rid key who)"
  unfolding monitor_refresh_def Let_def
  by (intro steady_intros rel.lifted_wtx) (rule command.execute_keeps [OF refresh_step])

lemma steady_service: "steady (supervised_run ce n)"
proof (rule rel.lifted.keepsI)
  fix w :: wst
  show "R (w_db w) (w_db (snd (supervised_run ce n w)))"
    using run_keeps [of "new_supervisor w" n "ce_fuel ce"]
    by (auto simp: supervised_run_def new_supervisor_def split: prod.splits sum.splits option.splits)
qed

lemma steady_reading_commands:
  "steady (policy_command ce args)" "steady (preflight_command ce args)" "steady (approval_command ce args)"
  "steady (notifications_command ce args)" "steady (audit_command ce args)" "steady (queue_command ce args)"
  "steady (quota_guard_command ce args)" "steady (reconcile_command ce args)"
  unfolding policy_command_def preflight_command_def approval_command_def notifications_command_def audit_command_def
    queue_command_def quota_guard_command_def reconcile_command_def Let_def
  by (intro steady_intros)+

lemma steady_refreshing: "steady k \<Longrightarrow> steady (refreshing ce args k)"
  unfolding refreshing_def by (intro steady_intros)

lemma steady_long_commands:
  "steady (live_test_command ce args)" "steady (dispatch_command ce args)" "steady (monitor_command ce args)"
  "steady (service_command ce args)"
proof -
  show "steady (live_test_command ce args)"
    unfolding live_test_command_def by (intro steady_intros steady_refreshing live.keeps_live_test_run)
  show "steady (dispatch_command ce args)"
    unfolding dispatch_command_def
    by (intro steady_intros steady_refreshing keeps_dispatch_run) (simp add: call_keeps_def)
  show "steady (monitor_command ce args)"
    unfolding monitor_command_def by (intro steady_intros steady_refresh)
  show "steady (service_command ce args)"
    unfolding service_command_def supervisor_status_def Let_def by (intro steady_intros steady_service)
qed

lemma steady_world_command: "steady (world_command ce c args)"
  unfolding world_command_def Let_def
  by (intro steady_intros steady_reading_commands steady_long_commands steady_tick steady_cycle)

lemma keeps_cli_dispatch: "rel.cli.keeps (cli_dispatch ce args)"
  unfolding cli_dispatch_def
  by (intro rel.keeps_cli_text rel.cli.keeps_if rel.keeps_in_files rel.keeps_in_world steady_world_command)

lemma keeps_start: "rel.cli.keeps (in_world (start_controller ce))"
  unfolding start_controller_def Let_def
  by (intro rel.keeps_in_world steady_intros rel.lifted_wtx) (auto intro: start_step)

end

text \<open>From the commands to the program, whose configuration is read from the file.\<close>

lemma cli_main_keeps:
  assumes "\<And>cfg. command_line R (configured ce cfg)"
  shows "R (w_db (cs_world s)) (w_db (cs_world (snd (cli_main ce parsed s))))"
proof -
  let ?C = "\<lambda>s t. R (w_db (cs_world (s :: cli_st))) (w_db (cs_world (t :: cli_st)))"
  have rel: "db_rel R (\<lambda>_. True) (ce_world (configured ce cfg))" for cfg
    using assms [of cfg] unfolding command_line_def service_rel_def dispatch_rel_def by blast
  have steps: "step_rel ?C (\<lambda>_. True)"
    using rel [THEN db_rel.axioms(1)] by unfold_locales (auto simp: step_rel_def)
  note keeps = step_rel.keeps_ebind [OF steps] step_rel.keeps_elift [OF steps]
  have opened: "step_rel.keeps ?C (\<lambda>_. True) (in_world (read_file ce path))" for path
    unfolding read_file_def by (rule db_rel.keeps_in_world [OF rel db_rel.lifted_wobserve [OF rel]])
  have "step_rel.keeps ?C (\<lambda>_. True) (cli_run ce args)" for args
    unfolding cli_run_def with_text_def
    by (intro keeps opened command_line.keeps_start [OF assms] command_line.keeps_cli_dispatch [OF assms])
  then have run: "?C s (snd (cli_run ce args s))" for args
    using step_rel.keepsD [OF steps] by blast
  have "?C s s"
    using step_rel.refl [OF steps] .
  with run show ?thesis
    by (auto simp: cli_main_def split: sum.splits prod.splits) (metis snd_conv)+
qed

section \<open>The program refines the machine of permits\<close>

lemma permitted_live:
  "live_claim_transaction sv c now d = Inr (c', e) \<Longrightarrow> permitted d e"
  "live_started_transaction sv c t u now d = Inr (x, e) \<Longrightarrow> permitted d e"
  "live_finish_transaction sv c r failure now d = Inr (j, e) \<Longrightarrow> permitted d e"
proof -
  show "permitted d e" if "live_started_transaction sv c t u now d = Inr (x, e)"
    using live_started_runs [OF that] by (auto intro: restricted_permitted)
  show "permitted d e" if "live_finish_transaction sv c r failure now d = Inr (j, e)"
    using live_finish_runs [OF that] by (auto intro: restricted_permitted)
  show "permitted d e" if "live_claim_transaction sv c now d = Inr (c', e)"
    using live_claim_Inr [OF that] by (intro permitted_step spend [where a = "approval_id (lc_approval c)"]) auto
qed

lemma permitted_command_line:
  assumes "surroundings_respect permitted (ce_service ce)"
  shows "command_line permitted ce"
proof (intro command_line.intro live_rel.intro)
  show service: "service_rel permitted (ce_service ce)"
    by (rule permitted_service [OF assms])
  show "db_rel permitted (\<lambda>_. True) (ce_world ce)" "command_rel permitted"
    using service unfolding service_rel_def dispatch_rel_def by blast+
  show "live_rel_axioms permitted (ce_world ce)"
    by unfold_locales (erule permitted_dispatch(1) permitted_live)+
  show "command_line_axioms permitted ce"
    by unfold_locales
      (simp_all add: permitted_peer_step permitted_bootstrap permitted_quota_guard [THEN permitting.keepsD]
        restricted_permitted restricted_tick_claim restricted_tick_finish restricted_refresh)
qed

lemma configured_respects: "surroundings_respect R (ce_service (configured ce cfg)) = surroundings_respect R (ce_service ce)"
  by (simp add: configured_def surroundings_respect_def Let_def)

text \<open>
  C6. The whole program implements the abstract machine. Whatever the command line says, with whatever files and answers,
  and however it ends, the path of the database is a path of the machine, as long as the other processes keep to it
  (running this program, they do). So every way to gain is paid for: becoming ready, each new job and a change of
  an installed policy need as many approvals used for the first time.
\<close>

theorem program_refines_permits:
  assumes "surroundings_respect permitted (ce_service ce)"
  shows "permit_step\<^sup>*\<^sup>* (permits_of (w_db (cs_world s))) (permits_of (w_db (cs_world (snd (cli_main ce parsed s)))))
    \<and> paid (permits_of (w_db (cs_world s))) (permits_of (w_db (cs_world (snd (cli_main ce parsed s)))))"
proof -
  have "command_line permitted (configured ce cfg)" for cfg
    using assms by (intro permitted_command_line) (simp add: configured_respects)
  from cli_main_keeps [OF this] path_paid show ?thesis
    by (simp add: permitted_def)
qed

text \<open>The interface on the model: other commands in between, the App Server runner, an App Server that only answers.\<close>

interpretation command_lines: command_line permitted
  "ce\<lparr>ce_service := (ce_service ce)\<lparr>be_world := with_peers (ce_world ce) sched, be_runner := work_run io,
        be_guard := (\<lambda>_. silent answers g)\<rparr>\<rparr>"
  for ce sched io answers g
proof (rule permitted_command_line)
  have "env_respects permitted (silent answers g)"
    by (rule silent_respects) (rule permitting.refl)
  then show "surroundings_respect permitted (ce_service (ce\<lparr>ce_service := (ce_service ce)\<lparr>be_world := with_peers (ce_world ce) sched,
      be_runner := work_run io, be_guard := (\<lambda>_. silent answers g)\<rparr>\<rparr>))"
    by (auto simp: surroundings_respect_def with_peers_def permitted_peer_step)
qed

end
