(* ===== verification/CommandEffects.thy ===== *)
theory CommandEffects
  imports CommandSafety
begin

text \<open>
  What a command line changes at all: the reading commands nothing, a command of one transaction nothing when it
  fails, and outside the database only plists at staging paths. And what configuration it runs with.
\<close>

section \<open>The reading commands\<close>

lemma with_text_known: "text_arg args n = Inr x \<Longrightarrow> with_text args n f = f x"
  by (simp add: with_text_def fun_eq_iff ebind_def elift_def)

lemma with_flag_known: "flag_arg args n = Inr b \<Longrightarrow> ebind (elift (flag_arg args n)) f = f b"
  by (simp add: fun_eq_iff ebind_def elift_def)

lemma elift_known [simp]: "ebind (elift (Inr x)) f = f x"
  by (simp add: fun_eq_iff ebind_def elift_def)

text \<open>The subcommand of a reading command.\<close>

lemma only_reads_group:
  assumes "only_reads args" and "text_arg args ''command'' = Inr c" and "map_of command_groups c = Some dest"
  shows "\<exists>sub. text_arg args dest = Inr sub \<and> (c @ ''.'' @ sub \<in> set reading_names
    \<or> c @ ''.'' @ sub \<in> {''live-test.preflight'', ''dispatch.preflight''} \<and> flag_arg args ''refresh'' = Inr False
    \<or> c @ ''.'' @ sub = ''reconcile'')"
  using assms by (auto simp: only_reads_def command_name_def split: sum.splits)

lemma reading_sub:
  assumes "only_reads args"
  shows "text_arg args ''command'' = Inr ''queue'' \<Longrightarrow>
        \<exists>sub \<in> {''list'', ''proposals'', ''get'', ''proposal-get''}. text_arg args ''queue_command'' = Inr sub"
    and "text_arg args ''command'' = Inr ''policy'' \<Longrightarrow> \<exists>sub \<in> {''show'', ''check''}. text_arg args ''policy_command'' = Inr sub"
    and "text_arg args ''command'' = Inr ''monitor'' \<Longrightarrow> \<exists>sub \<in> {''list'', ''get''}. text_arg args ''monitor_command'' = Inr sub"
    and "text_arg args ''command'' = Inr ''quota-guard'' \<Longrightarrow>
        \<exists>sub \<in> {''inventory'', ''list'', ''status''}. text_arg args ''quota_guard_command'' = Inr sub"
    and "text_arg args ''command'' = Inr ''service'' \<Longrightarrow> text_arg args ''service_command'' = Inr ''status''"
    and "text_arg args ''command'' = Inr ''live-test'' \<Longrightarrow>
        text_arg args ''live_test_command'' = Inr ''preflight'' \<and> flag_arg args ''refresh'' = Inr False"
    and "text_arg args ''command'' = Inr ''dispatch'' \<Longrightarrow>
        text_arg args ''dispatch_command'' = Inr ''preflight'' \<and> flag_arg args ''refresh'' = Inr False"
  by (drule only_reads_group [OF assms]; auto simp: command_groups_def reading_names_def)+

lemma reading_plain:
  assumes "only_reads args" and "text_arg args ''command'' = Inr c" and "map_of command_groups c = None"
  shows "c \<in> set reading_names \<or> c \<in> {''live-test.preflight'', ''dispatch.preflight''}
    \<or> c = ''reconcile'' \<and> flag_arg args ''dry_run'' = Inr True"
  using assms by (auto simp: only_reads_def command_name_def split: sum.splits)

context db_rel begin

lemma keeps_checked: "lifted.keeps (eguard b c)" "lifted.keeps (supervisor_status be)" if "be_world be = env" for be
  unfolding supervisor_status_def Let_def that by (intro keeps_intros)+

lemma reading_subcommands:
  assumes ce: "ce_world ce = env"
  shows "text_arg args ''queue_command'' = Inr sub \<Longrightarrow> sub \<in> {''list'', ''proposals'', ''get'', ''proposal-get''} \<Longrightarrow>
           lifted.keeps (queue_command ce args)"
    and "text_arg args ''policy_command'' = Inr sub \<Longrightarrow> sub \<in> {''show'', ''check''} \<Longrightarrow> lifted.keeps (policy_command ce args)"
    and "text_arg args ''monitor_command'' = Inr sub \<Longrightarrow> sub \<in> {''list'', ''get''} \<Longrightarrow> lifted.keeps (monitor_command ce args)"
    and "text_arg args ''quota_guard_command'' = Inr sub \<Longrightarrow> sub \<in> {''inventory'', ''list'', ''status''} \<Longrightarrow>
           lifted.keeps (quota_guard_command ce args)"
  by (elim insertE emptyE;
      simp add: queue_command_def policy_command_def monitor_command_def quota_guard_command_def
        with_text_known Let_def ce; intro keeps_intros keeps_checked ce)+

lemma reading_service:
  "ce_world ce = env \<Longrightarrow> text_arg args ''service_command'' = Inr ''status'' \<Longrightarrow> lifted.keeps (service_command ce args)"
  by (simp add: service_command_def with_text_known) (intro keeps_intros keeps_checked)

lemma reading_flags:
  assumes ce: "ce_world ce = env"
  shows "flag_arg args ''dry_run'' = Inr True \<Longrightarrow> lifted.keeps (reconcile_command ce args)"
    and "flag_arg args ''refresh'' = Inr False \<Longrightarrow> lifted.keeps k \<Longrightarrow> lifted.keeps (refreshing ce args k)"
  unfolding reconcile_command_def refreshing_def ce
  by (simp_all only: elift_known if_True if_False) (intro keeps_intros; assumption)+

lemma reading_groups:
  assumes ce: "ce_world ce = env"
  shows "lifted.keeps (preflight_command ce args)" "lifted.keeps (approval_command ce args)"
    "lifted.keeps (notifications_command ce args)" "lifted.keeps (audit_command ce args)"
  unfolding preflight_command_def approval_command_def notifications_command_def audit_command_def ce
  by (intro keeps_intros ce)+

lemma reading_preflights:
  assumes ce: "ce_world ce = env" and fresh: "flag_arg args ''refresh'' = Inr False"
  shows "text_arg args ''live_test_command'' = Inr ''preflight'' \<Longrightarrow> lifted.keeps (live_test_command ce args)"
    and "text_arg args ''dispatch_command'' = Inr ''preflight'' \<Longrightarrow> lifted.keeps (dispatch_command ce args)"
  by (simp_all add: live_test_command_def dispatch_command_def with_text_known ce)
     (intro keeps_intros reading_flags(2) [OF ce fresh])+

lemma reading_dispatch:
  assumes "only_reads args" and ce: "ce_world ce = env"
  shows "cli.keeps (cli_dispatch ce args)"
proof (cases "text_arg args ''command''")
  case (Inl e)
  then show ?thesis
    unfolding cli_dispatch_def with_text_def by (intro cli.keepsI) (simp add: ebind_def elift_def eraise_def refl)
next
  case (Inr c)
  have "lifted.keeps (world_command ce c args)" if "c \<noteq> ''launchd''"
  proof (cases "map_of command_groups c")
    case None
    have "c \<in> {''status'', ''preflight''} \<or> c = ''reconcile'' \<and> flag_arg args ''dry_run'' = Inr True
        \<or> world_command ce c args = unsupported"
      using reading_plain [OF assms(1) Inr None] None unfolding reading_names_def
      by (elim disjE conjE; simp add: command_groups_def; elim disjE; simp add: world_command_def Let_def)
    then show ?thesis
      by (elim disjE insertE emptyE conjE;
          simp add: world_command_def Let_def ce reading_flags(1) [OF ce] reading_groups [OF ce] keeps_unsupported; intro keeps_intros)
  next
    case (Some dest)
    then have "c \<in> set (map fst command_groups)"
      using map_of_SomeD [OF Some] by force
    then have "c \<in> {''queue'', ''policy'', ''audit'', ''approval'', ''live-test'', ''monitor'', ''dispatch'', ''service'',
        ''notifications'', ''quota-guard''}"
      using that by (simp add: command_groups_def)
    then show ?thesis
      using reading_sub [OF assms(1)] Inr
      by (elim insertE emptyE; clarify; simp add: world_command_def Let_def reading_groups [OF ce])
         (blast intro: reading_subcommands [OF ce] reading_service [OF ce] reading_preflights [OF ce])+
  qed
  with Inr show ?thesis
    by (simp add: cli_dispatch_def with_text_known keeps_in_files keeps_in_world)
qed

end

text \<open>Nobody else commits anything.\<close>

definition alone :: "wenv \<Rightarrow> bool" where
  "alone env \<longleftrightarrow> (\<forall>n d. we_others env n d = d)"

locale quiet_world = still: db_rel "\<lambda>d e. e = d" "\<lambda>_. True" env for env

lemma quiet_world_alone: "alone env \<Longrightarrow> quiet_world env"
  by unfold_locales (simp_all add: alone_def)

interpretation idle_world: quiet_world "with_peers env (\<lambda>_. P_idle)" for env
  by (rule quiet_world_alone) (simp add: alone_def with_peers_def)


section \<open>Commands that fail\<close>

text \<open>What an error leaves: the part of the state that \<open>view\<close> shows is as before.\<close>

definition all_or_nothing :: "('s \<Rightarrow> 'v) \<Rightarrow> ('s, 'a) eff \<Rightarrow> bool" where
  "all_or_nothing view m \<longleftrightarrow> (\<forall>s e t. m s = (Inl e, t) \<longrightarrow> view t = view s)"

interpretation viewing: step_rel "\<lambda>s t. view t = view s" "\<lambda>_. True" for view :: "'s \<Rightarrow> 'v"
  by unfold_locales auto

abbreviation unseen :: "('s \<Rightarrow> 'v) \<Rightarrow> ('s, 'a) eff \<Rightarrow> bool" where
  "unseen view \<equiv> step_rel.keeps (\<lambda>s t. view t = view s) (\<lambda>_. True)"

lemma nothing_keeps: "unseen view m \<Longrightarrow> all_or_nothing view m"
  unfolding viewing.keeps_def all_or_nothing_def by (metis snd_conv)

lemma nothing_transact: "all_or_nothing id (transact body)"
  by (auto simp: all_or_nothing_def transact_def split: sum.splits prod.splits)

lemma nothing_ebind:
  assumes "unseen view m" and "\<And>x. all_or_nothing view (f x)"
  shows "all_or_nothing view (ebind m f)"
  unfolding all_or_nothing_def
proof (intro allI impI)
  fix s e t assume run: "ebind m f s = (Inl e, t)"
  have "view (snd (m s)) = view s"
    using viewing.keepsD [OF assms(1)] by blast
  with run assms(2) show "view t = view s"
    unfolding all_or_nothing_def ebind_def by (auto split: prod.splits sum.splits)
qed

lemma nothing_last: "all_or_nothing view m \<Longrightarrow> all_or_nothing view (ebind m (\<lambda>x. eret (g x)))"
  by (auto simp: all_or_nothing_def ebind_def eret_def split: prod.splits sum.splits)

lemma nothing_case: "all_or_nothing view m \<Longrightarrow> (\<And>x. all_or_nothing view (f x)) \<Longrightarrow> all_or_nothing view (case v of None \<Rightarrow> m | Some x \<Rightarrow> f x)"
  by (cases v) auto

lemma nothing_case_prod: "(\<And>x y. all_or_nothing view (f x y)) \<Longrightarrow> all_or_nothing view (case v of (x, y) \<Rightarrow> f x y)"
  by (cases v) auto

lemma nothing_eret: "all_or_nothing view (eret x)"
  by (simp add: all_or_nothing_def eret_def)

lemma nothing_plain: "all_or_nothing id (plain_command sv key command request now op)"
  unfolding plain_command_def by (rule nothing_transact)

lemma nothing_approved: "all_or_nothing id (approved_command sv key command act scope cap av now request op)"
  unfolding approved_command_def
  by (intro nothing_ebind nothing_case nothing_eret nothing_transact keeps_intros)

lemmas nothing_intros = nothing_ebind nothing_case_prod nothing_eret nothing_plain nothing_approved keeps_intros

lemma nothing_commands:
  "all_or_nothing id (queue_propose sv v key who now)" "all_or_nothing id (queue_approve sv jid av key who now)"
  "all_or_nothing id (queue_submit sv v av key who now)" "all_or_nothing id (queue_cancel sv jid key who now)"
  "all_or_nothing id (policy_set sv v av key who now)" "all_or_nothing id (pause sv reason key who now)"
  "all_or_nothing id (stop sv reason key who now)" "all_or_nothing id (resume sv av key who now)"
  "all_or_nothing id (reconcile sv av key who now)" "all_or_nothing id (quota_guard_arm sv v av key who now t g)"
  "all_or_nothing id (quota_guard_disarm sv g key who now)"
  unfolding queue_propose_def queue_approve_def queue_submit_def queue_cancel_def policy_set_def pause_def stop_def set_mode_def
    resume_def reconcile_def quota_guard_arm_def quota_guard_disarm_def Let_def
  by (intro nothing_intros)+

lemma nothing_if: "all_or_nothing view m \<Longrightarrow> all_or_nothing view n \<Longrightarrow> all_or_nothing view (if b then m else n)"
  by simp

lemma nothing_text: "(\<And>x. all_or_nothing view (f x)) \<Longrightarrow> all_or_nothing view (with_text args n f)"
  unfolding with_text_def by (intro nothing_ebind viewing.keeps_elift)

lemma nothing_opt: "(\<And>x. all_or_nothing view (f x)) \<Longrightarrow> all_or_nothing view (with_opt args n f)"
  unfolding with_opt_def by (intro nothing_ebind viewing.keeps_elift)

lemma nothing_key: "(\<And>k w. all_or_nothing view (f k w)) \<Longrightarrow> all_or_nothing view (with_key args f)"
  unfolding with_key_def by (intro nothing_text)

lemma nothing_shown: "all_or_nothing view m \<Longrightarrow> all_or_nothing view (shown m)"
  unfolding shown_def by (rule nothing_last)

lemma nothing_commanded: "all_or_nothing view m \<Longrightarrow> all_or_nothing view (commanded m)"
  unfolding commanded_def by (intro nothing_shown nothing_last)

lemma nothing_file: "(\<And>v. all_or_nothing w_db (f v)) \<Longrightarrow> all_or_nothing w_db (with_file ce args n f)"
proof -
  have "unseen w_db (wobserve g)" for g :: "nat \<Rightarrow> json res"
    by (simp add: step_rel.keeps_def viewing.step_rel_axioms wobserve_def)
  then show "(\<And>v. all_or_nothing w_db (f v)) \<Longrightarrow> all_or_nothing w_db (with_file ce args n f)"
    unfolding with_file_def read_file_def by (intro nothing_text nothing_ebind)
qed

text \<open>The commands with more than one transaction.\<close>

definition long_commands :: "string list" where
  "long_commands = [''tick'', ''cycle'', ''live-test'', ''dispatch'', ''service'']"

context quiet_world begin

lemma same_db: "we_others env n d = d"
  using still.others by simp

lemma nothing_wdb: "all_or_nothing id m \<Longrightarrow> all_or_nothing w_db (wdb env m)"
  by (auto simp: all_or_nothing_def wdb_def same_db split: prod.splits)

lemma nothing_wtx: "all_or_nothing w_db (wtx env body)"
  unfolding wtx_def by (intro nothing_wdb nothing_transact)

lemma nothing_still: "still.lifted.keeps m \<Longrightarrow> all_or_nothing w_db m"
  by (rule nothing_keeps)

lemma nothing_at_once:
  assumes "ce_world ce = env" and "\<And>now. all_or_nothing id (m now)"
  shows "all_or_nothing w_db (at_once ce m)"
  unfolding at_once_def assms(1) by (intro nothing_commanded nothing_ebind still.lifted_wclock nothing_wdb assms(2))

lemma nothing_reading: "ce_world ce = env \<Longrightarrow> all_or_nothing w_db (reading ce f)"
  by (intro nothing_still still.keeps_reading)

lemmas once_intros = nothing_if nothing_text nothing_opt nothing_key nothing_file nothing_at_once nothing_commands
  nothing_reading nothing_commanded

lemma nothing_single_commands:
  assumes ce: "ce_world ce = env"
  shows "all_or_nothing w_db (queue_command ce args)" "all_or_nothing w_db (policy_command ce args)"
    "all_or_nothing w_db (reconcile_command ce args)" "all_or_nothing w_db (quota_guard_command ce args)"
    "all_or_nothing w_db (monitor_command ce args)" "all_or_nothing w_db (probe_quota env key who)"
proof -
  show probe: "all_or_nothing w_db (probe_quota env key who)"
    unfolding probe_quota_def Let_def by (intro nothing_ebind nothing_case nothing_eret nothing_wtx keeps_intros)
  have refresh: "all_or_nothing w_db (monitor_refresh env ios t rid k w)" for ios t rid k w
    unfolding monitor_refresh_def Let_def
    by (intro nothing_ebind nothing_case nothing_eret nothing_wtx keeps_intros nothing_still)
  have reject: "all_or_nothing w_db (unsupported :: (wst, cli_result) eff)"
    by (intro nothing_still still.keeps_unsupported)
  show "all_or_nothing w_db (queue_command ce args)"
    unfolding queue_command_def Let_def by (intro once_intros ce reject)
  show "all_or_nothing w_db (monitor_command ce args)"
    unfolding monitor_command_def ce by (intro once_intros ce reject refresh)
  show "all_or_nothing w_db (policy_command ce args)"
  proof -
    have "still.lifted.keeps (with_opt_file ce args ''snapshot_file'' (\<lambda>snapshot. with_opt_file ce args ''job_file'' (\<lambda>job.
             shown (ebind (policy_check env snapshot job) (\<lambda>dec. eret (decision_dict dec))))))"
      by (intro still.keeps_files still.keeps_shown still.lifted.keeps_ebind still.keeps_reports still.lifted.keeps_eret)
    then show ?thesis
      unfolding policy_command_def Let_def ce by (intro once_intros ce reject nothing_still [where m = "with_opt_file ce args n f" for n f])
  qed
  have arm: "all_or_nothing w_db (ebind (wclock env) (\<lambda>now. ebind (wclock env) (\<lambda>t. ebind (wid env ''guard'') (\<lambda>i.
      wdb env (quota_guard_arm sv plan approval key who now t i)))))" for sv plan approval key who
    by (intro nothing_ebind still.lifted_wclock still.lifted_wid nothing_wdb nothing_commands)
  have inventory: "all_or_nothing w_db (shown (wobserve f))" for f
    by (intro nothing_still still.keeps_shown still.lifted_wobserve)
  show "all_or_nothing w_db (quota_guard_command ce args)"
    unfolding quota_guard_command_def Let_def ce by (intro once_intros ce reject arm inventory)
  have dry: "all_or_nothing w_db (shown (reconcile_plan env))" "all_or_nothing w_db (eraise e :: (wst, cli_result) eff)" for e
    by (intro nothing_still still.keeps_shown still.keeps_reports still.lifted.keeps_eraise)+
  show "all_or_nothing w_db (reconcile_command ce args)"
    unfolding reconcile_command_def ce
    by (intro nothing_ebind [OF viewing.keeps_elift] once_intros ce dry)
qed

lemma nothing_world_command:
  assumes ce: "ce_world ce = env" and "c \<notin> set long_commands"
  shows "all_or_nothing w_db (world_command ce c args)"
proof -
  have reports: "all_or_nothing w_db (shown (ebind (status env) (\<lambda>r. eret (f r))))" "all_or_nothing w_db (preflight_command ce args)"
    "all_or_nothing w_db (approval_command ce args)" "all_or_nothing w_db (notifications_command ce args)"
    "all_or_nothing w_db (audit_command ce args)" "all_or_nothing w_db (unsupported :: (wst, cli_result) eff)" for f
    by (intro nothing_still still.reading_groups [OF ce] still.keeps_unsupported still.keeps_shown still.lifted.keeps_ebind
        still.keeps_reports still.lifted.keeps_eret)+
  from assms(2) have "c \<noteq> ''tick''" "c \<noteq> ''cycle''" "c \<noteq> ''live-test''" "c \<noteq> ''dispatch''" "c \<noteq> ''service''"
    by (auto simp: long_commands_def)
  then show ?thesis
    unfolding world_command_def Let_def ce
    by (simp only: if_False) (intro once_intros reports nothing_single_commands [OF ce] ce)
qed

lemma nothing_dispatch:
  assumes ce: "ce_world ce = env" and "c \<notin> set long_commands" and "text_arg args ''command'' = Inr c"
    and "cli_dispatch ce args s = (Inl e, t)"
  shows "w_db (cs_world t) = w_db (cs_world s)"
proof (cases "c = ''launchd''")
  case True
  with assms(3,4) show ?thesis
    by (auto simp: cli_dispatch_def with_text_known in_files_def split: prod.splits)
next
  case False
  with assms(3,4) have "world_command ce c args (cs_world s) = (Inl e, cs_world t)"
    by (auto simp: cli_dispatch_def with_text_known in_world_def split: prod.splits)
  with nothing_world_command [OF ce assms(2)] show ?thesis
    unfolding all_or_nothing_def by blast
qed

end

lemma configured_others [simp]: "we_others (ce_world (configured ce cfg)) = we_others (ce_world ce)"
  by (simp add: configured_def Let_def)

lemma start_known:
  assumes "alone (ce_world ce)" and "controller_t (w_db (cs_world s)) \<noteq> None" and "policies_t (w_db (cs_world s)) \<noteq> None"
  shows "\<exists>t. in_world (start_controller ce) s = (Inr (), t) \<and> w_db (cs_world t) = w_db (cs_world s)"
  using assms by (auto simp: start_controller_def Let_def in_world_def wclock_def wobserve_def wtx_def wdb_def transact_def
      ebind_def alone_def bootstrap_def)

text \<open>Opening the configuration reads files only.\<close>

lemma cli_run_opened:
  obtains s1 where "w_db (cs_world s1) = w_db (cs_world s)"
    and "(\<exists>e. cli_run ce args s = (Inl e, s1)) \<or> (\<exists>cfg. cli_run ce args s
      = ebind (in_world (start_controller (configured ce cfg))) (\<lambda>_. cli_dispatch (configured ce cfg) args) s1)"
proof (cases "text_arg args ''config''")
  case (Inl x)
  then show ?thesis
    using that [of s] by (simp add: cli_run_def with_text_def ebind_def elift_def eraise_def)
next
  case (Inr path)
  let ?f = "load_json_file (ce_file ce (w_step (cs_world s)) path)"
  let ?s1 = "s\<lparr>cs_world := (cs_world s)\<lparr>w_step := Suc (w_step (cs_world s))\<rparr>\<rparr>"
  have "cli_run ce args s = ebind (elift (rbind ?f (load_config (ce_places ce) path)))
      (\<lambda>cfg. ebind (in_world (start_controller (configured ce cfg))) (\<lambda>_. cli_dispatch (configured ce cfg) args)) ?s1"
    using Inr by (cases ?f)
      (simp_all add: cli_run_def with_text_known ebind_def elift_def eraise_def in_world_def read_file_def wobserve_def)
  then show ?thesis
    using that [of ?s1] by (cases "rbind ?f (load_config (ce_places ce) path)") (auto simp: ebind_def elift_def eraise_def)
qed

text \<open>
  C14. A failed command changes nothing. When the program ends with an error, in a store that was initialised and that
  nobody else uses, then the database is as it was, except for the five commands that take several transactions.
\<close>

theorem failed_program_changes_nothing:
  assumes "alone (ce_world ce)" and "controller_t (w_db (cs_world s)) \<noteq> None" and "policies_t (w_db (cs_world s)) \<noteq> None"
    and "text_arg args ''command'' = Inr c" and "c \<notin> set long_commands"
    and "cli_main ce (Inr args) s = (Exit code env, t)" and "\<not> en_ok env"
  shows "w_db (cs_world t) = w_db (cs_world s)"
proof (cases "command_name args")
  case (Inl e)
  with assms(6) show ?thesis by (auto simp: cli_main_def)
next
  case (Inr name)
  obtain r where r: "cli_run ce args s = (r, t)" "report_end ce name r = Exit code env"
    using assms(6) Inr by (auto simp: cli_main_def split: prod.splits)
  with assms(7) obtain e where e: "r = Inl e"
    by (cases r) (auto simp: report_end_def make_envelope_def split: cli_result.splits if_splits)
  obtain s1 where s1: "w_db (cs_world s1) = w_db (cs_world s)"
    and rest: "(\<exists>e. cli_run ce args s = (Inl e, s1)) \<or> (\<exists>cfg. cli_run ce args s
      = ebind (in_world (start_controller (configured ce cfg))) (\<lambda>_. cli_dispatch (configured ce cfg) args) s1)"
    by (rule cli_run_opened)
  from rest show ?thesis
  proof
    assume "\<exists>e. cli_run ce args s = (Inl e, s1)"
    with r s1 show ?thesis by auto
  next
    assume "\<exists>cfg. cli_run ce args s
      = ebind (in_world (start_controller (configured ce cfg))) (\<lambda>_. cli_dispatch (configured ce cfg) args) s1"
    then obtain cfg where cfg: "cli_run ce args s
      = ebind (in_world (start_controller (configured ce cfg))) (\<lambda>_. cli_dispatch (configured ce cfg) args) s1" by blast
    have alone: "alone (ce_world (configured ce cfg))"
      using assms(1) by (simp add: alone_def)
    obtain s2 where s2: "in_world (start_controller (configured ce cfg)) s1 = (Inr (), s2)" "w_db (cs_world s2) = w_db (cs_world s1)"
      using start_known [OF alone, of s1] assms(2,3) s1 by auto
    with cfg r e have "cli_dispatch (configured ce cfg) args s2 = (Inl e, t)"
      by (simp add: ebind_def)
    from quiet_world.nothing_dispatch [OF quiet_world_alone [OF alone] HOL.refl assms(5,4) this] s1 s2(2) show ?thesis
      by simp
  qed
qed

section \<open>What configuration a command runs with\<close>

text \<open>
  C29. A loaded configuration stays in its directory. It is the validated configuration of the file except for its
  paths: the database, if it is not in memory, and the notification file resolve to paths in the directory of the
  configuration file, and every workspace root is a directory, the resolution of the one configured.
\<close>

theorem loaded_config_is_confined:
  assumes "load_config pc path v = Inr cfg"
  shows "\<exists>raw. validate_config v = Inr raw
    \<and> (cfg_database_path cfg = '':memory:'' \<or> is_within (cfg_database_path cfg) (path_parent (pc_resolve pc path)))
    \<and> is_within (cfg_notification_path cfg) (path_parent (pc_resolve pc path))
    \<and> list_all2 (\<lambda>w w'. w' = pc_resolve pc (join_path (path_parent (pc_resolve pc path)) w) \<and> pc_is_dir pc w')
        (cfg_workspace_roots raw) (cfg_workspace_roots cfg)
    \<and> raw\<lparr>cfg_database_path := cfg_database_path cfg, cfg_workspace_roots := cfg_workspace_roots cfg,
          cfg_notification_path := cfg_notification_path cfg\<rparr> = cfg"
proof -
  let ?base = "path_parent (pc_resolve pc path)"
  from assms obtain raw where raw: "validate_config v = Inr raw"
    by (auto simp: load_config_def)
  then have relative: "cfg_database_path raw = '':memory:'' \<or> \<not> is_absolute (cfg_database_path raw)"
    using validate_config_ok [OF raw] by (auto simp: config_ok_def places_ok_def inside_directory_def)
  from assms raw obtain database roots where
    d: "(if cfg_database_path raw \<noteq> '':memory:'' \<and> \<not> is_absolute (cfg_database_path raw)
            then let p = pc_resolve pc (join_path ?base (cfg_database_path raw))
                 in rbind (guard (is_within p ?base) ''PATH_DENIED'') (\<lambda>_. Inr p)
            else Inr (cfg_database_path raw)) = Inr database"
    and r: "rmap (\<lambda>w. let p = pc_resolve pc (join_path ?base w)
                     in rbind (guard (pc_is_dir pc p) ''PATH_DENIED'') (\<lambda>_. Inr p)) (cfg_workspace_roots raw) = Inr roots"
    and n: "is_within (pc_resolve pc (join_path ?base (cfg_notification_path raw))) ?base"
    and cfg: "cfg = raw\<lparr>cfg_database_path := database, cfg_workspace_roots := roots,
        cfg_notification_path := pc_resolve pc (join_path ?base (cfg_notification_path raw))\<rparr>"
    by (auto simp: load_config_def Let_def simp del: if_image_distrib)
  from d relative have "database = '':memory:'' \<or> is_within database ?base"
    by (auto simp: Let_def split: if_splits)
  moreover from r have "list_all2 (\<lambda>w w'. w' = pc_resolve pc (join_path ?base w) \<and> pc_is_dir pc w') (cfg_workspace_roots raw) roots"
    unfolding rmap_Inr_iff by (rule list_all2_mono) (auto simp: Let_def)
  ultimately show ?thesis
    using raw n by (intro exI [of _ raw]) (simp add: cfg)
qed

section \<open>What is written beside the database\<close>

text \<open>A staged file: outside the install directories, and the text, or what a failed write left of it, is a reviewed plist.\<close>

definition staged :: "places \<Rightarrow> string \<times> string \<Rightarrow> bool" where
  "staged pc w \<longleftrightarrow> \<not> install_denied pc (fst w)
     \<and> (\<exists>content n fs. snd w = take n content \<and> pc_loads pc content = Inr (Pl_dict fs) \<and> contracted fs)"

definition wrote :: "places \<Rightarrow> written \<Rightarrow> written \<Rightarrow> bool" where
  "wrote pc ws ws' \<longleftrightarrow> (\<exists>new. ws' = ws @ new \<and> list_all (staged pc) new)"

interpretation writing: step_rel "wrote pc" "\<lambda>_. True" for pc :: places
proof unfold_locales
  show "wrote pc ws ws" for ws
    by (auto simp: wrote_def)
  show "wrote pc a c" if "wrote pc a b" "wrote pc b c" for a b c
    using that by (auto simp: wrote_def)
qed simp

lemma writing_plist:
  assumes "render_plist pc paths = Inr content"
  shows "writing.keeps pc (write_plist pc out content)"
proof (rule writing.keepsI)
  fix ws
  obtain c where "check_plist_bytes pc content = Inr c"
    using assms by (auto simp: render_plist_def Let_def)
  from check_plist_contracted [OF this] obtain fs where fs: "pc_loads pc content = Inr (Pl_dict fs)" "contracted fs"
    by blast
  obtain r ws' where w: "write_plist pc out content ws = (r, ws')" by fastforce
  from write_plist_cases [OF this] fs have "wrote pc ws ws'"
    unfolding wrote_def staged_def by fastforce
  with w show "wrote pc ws (snd (write_plist pc out content ws))" by simp
qed

lemma writing_launchd: "writing.keeps (ce_places ce) (launchd_command ce args)"
proof -
  have argument: "(\<And>x. writing.keeps pc (f x)) \<Longrightarrow> writing.keeps pc (with_text args n f)" for pc n and f :: "string \<Rightarrow> (written, cli_result) eff"
    unfolding with_text_def by (intro keeps_intros)
  have rendered: "writing.keeps pc (ebind (elift (render_plist pc paths)) f)"
    if "\<And>content. render_plist pc paths = Inr content \<Longrightarrow> writing.keeps pc (f content)" for pc paths and f :: "string \<Rightarrow> (written, cli_result) eff"
    using that by (cases "render_plist pc paths") (auto intro: keeps_intros)
  have rejected: "writing.keeps pc unsupported" for pc
    unfolding unsupported_def by (intro keeps_intros)
  show ?thesis
    unfolding launchd_command_def
    by (intro keeps_intros argument rendered writing_plist rejected)
qed

text \<open>The relation on the state of the program.\<close>

abbreviation staging :: "places \<Rightarrow> (cli_st, 'a) eff \<Rightarrow> bool" where
  "staging pc \<equiv> step_rel.keeps (\<lambda>s t. wrote pc (cs_written s) (cs_written t)) (\<lambda>_. True)"

interpretation staged_files: step_rel "\<lambda>s t. wrote pc (cs_written s) (cs_written t)" "\<lambda>_ :: cli_st. True" for pc :: places
  by unfold_locales (auto intro: writing.refl writing.trans)

lemma staging_world: "staging pc (in_world m)"
  by (simp add: staged_files.keeps_def in_world_def writing.refl split: prod.split)

lemma staging_files: "writing.keeps pc m \<Longrightarrow> staging pc (in_files m)"
proof (rule staged_files.keepsI)
  fix s :: cli_st assume "writing.keeps pc m"
  from writing.keepsD [OF this, of "cs_written s"] show "wrote pc (cs_written s) (cs_written (snd (in_files m s)))"
    by (cases "m (cs_written s)") (simp add: in_files_def)
qed

text \<open>
  C30. The program never installs a LaunchAgent. Beside the database and the notifications every run of the program, however
  it ends, writes at most files outside the five install directories (and all below them), and their content is a
  plist, or what a failed write left of one, that satisfies the reviewed contract: disabled, in the background,
  and running exactly the service of this program.
\<close>

theorem program_writes_only_staged_plists:
  "\<exists>new. cs_written (snd (cli_main ce parsed s)) = cs_written s @ new \<and> list_all (staged (ce_places ce)) new"
proof -
  have places: "ce_places (configured ce cfg) = ce_places ce" for cfg
    by (simp add: configured_def Let_def)
  have "staging (ce_places ce) (cli_run ce args)" for args
    unfolding cli_run_def cli_dispatch_def with_text_def
    by (intro keeps_intros staging_world staging_files writing_launchd [of "configured ce cfg" for cfg, unfolded places])
  then have "wrote (ce_places ce) (cs_written s) (cs_written (snd (cli_run ce args s)))" for args
    using staged_files.keepsD by blast
  then show ?thesis
    using writing.refl [of "ce_places ce" "cs_written s"]
    by (auto simp: cli_main_def wrote_def split: sum.splits prod.splits) (metis snd_conv)+
qed

end
