(* ===== verification/CommandScenarios.thy ===== *)
theory CommandScenarios
  imports CommandEffects SupervisorScenarios
begin

text \<open>
  Concrete command lines: the hypotheses of the properties of the program can hold, and the program does what it is
  for: it pauses a ready controller, refuses a missing approval, and stages a plist.
\<close>

definition reviewed_plist :: "(string \<times> plist) list" where
  "reviewed_plist =
     [(''Label'', Pl_str DEFAULT_LABEL), (''Disabled'', Pl_bool True), (''Program'', Pl_str ''/bin/python3''),
      (''ProgramArguments'', Pl_arr (map Pl_str [''/bin/python3'', ''-m'', ''codex_work_scheduler'', ''--config'',
         ''/cfg/scheduler.json'', ''service'', ''run''])),
      (''WorkingDirectory'', Pl_str ''/repo''),
      (''EnvironmentVariables'', Pl_dict [(''PATH'', Pl_str ''/opt/bin:/usr/bin:/bin:/usr/sbin:/sbin''), (''PYTHONUNBUFFERED'', Pl_str ''1'')]),
      (''KeepAlive'', Pl_dict [(''SuccessfulExit'', Pl_bool False)]), (''RunAtLoad'', Pl_bool True),
      (''ThrottleInterval'', Pl_int 60), (''ProcessType'', Pl_str ''Background''), (''ExitTimeOut'', Pl_int 30),
      (''Umask'', Pl_int 63), (''StandardOutPath'', Pl_str ''/cfg/out''), (''StandardErrorPath'', Pl_str ''/cfg/err'')]"

definition demo_places :: places where
  "demo_places = \<lparr>pc_resolve = (\<lambda>p. p), pc_exists = (\<lambda>_. True), pc_is_dir = (\<lambda>p. p \<in> {''/work'', ''/repo''}),
     pc_is_file = (\<lambda>p. p \<notin> {''/work'', ''/repo''}), pc_home = ''/home/u'', pc_loads = (\<lambda>_. Inr (Pl_dict reviewed_plist)),
     pc_read = (\<lambda>_. Inr ''''), pc_write = (\<lambda>_. Write_ok)\<rparr>"

definition demo_paths :: plist_paths where
  "demo_paths = \<lparr>pp_python = ''/bin/python3'', pp_codex = ''/opt/bin/codex'', pp_repository = ''/repo'',
     pp_config = ''/cfg/scheduler.json'', pp_stdout = ''/cfg/out'', pp_stderr = ''/cfg/err'', pp_label = DEFAULT_LABEL\<rparr>"

definition demo_values :: "(string \<times> string) list" where
  "demo_values = [(''__CODEX_BIN_DIR__'', ''/opt/bin''), (''__CONFIG_PATH__'', ''/cfg/scheduler.json''), (''__LABEL__'', DEFAULT_LABEL),
     (''__PYTHON_PATH__'', ''/bin/python3''), (''__REPOSITORY_PATH__'', ''/repo''), (''__STDERR_PATH__'', ''/cfg/err''),
     (''__STDOUT_PATH__'', ''/cfg/out'')]"

lemma demo_values_ok: "plist_values demo_places demo_paths = Inr demo_values"
  by code_simp

definition demo_arguments :: "plist list" where
  "demo_arguments = map Pl_str [''/bin/python3'', ''-m'', ''codex_work_scheduler'', ''--config'', ''/cfg/scheduler.json'', ''service'', ''run'']"

lemma reviewed_entries:
  "set (map fst reviewed_plist) = set plist_keys" "entry reviewed_plist ''ProgramArguments'' = Pl_arr demo_arguments"
  "entry reviewed_plist ''Disabled'' = Pl_bool True" "entry reviewed_plist ''RunAtLoad'' = Pl_bool True"
  "pl_eq (entry reviewed_plist ''KeepAlive'') (Pl_dict [(''SuccessfulExit'', Pl_bool False)])"
  "entry reviewed_plist ''ProcessType'' = Pl_str ''Background''" "arguments_ok (entry reviewed_plist ''Program'') demo_arguments"
  "environment_ok (entry reviewed_plist ''EnvironmentVariables'')"
  by code_simp+

lemma demo_reviewed: "\<exists>c. check_plist_bytes demo_places content = Inr c"
  by (simp add: check_plist_bytes_def demo_places_def reviewed_entries del: set_map)

theorem render_fills_template_witness:
  "render_plist demo_places demo_paths = Inr (concat (map (filled demo_values) template_parts))"
proof -
  obtain c where c: "check_plist_bytes demo_places (concat (map (filled demo_values) template_parts)) = Inr c"
    using demo_reviewed by blast
  have "list_all (\<lambda>(m, v). quiet_text v) demo_values"
    by code_simp
  from render_fills_template [OF demo_values_ok this] show ?thesis
    unfolding c rbind.simps .
qed

section \<open>A configuration file\<close>

definition file_config :: config where
  "file_config = sample_config\<lparr>cfg_capabilities := [''control.local.write'', ''quota_guard.local.write'', ''quota_guard.read'',
     ''quota_guard.thread.control'']\<rparr>"

lemma file_config_valid: "validate_config (config_dict file_config) = Inr file_config"
proof (rule validate_config_dict)
  have "capabilities_ok file_config"
    by (simp add: capabilities_ok_def file_config_def sample_config_def guard_capabilities_def LOCAL_DRY_RUN_CAPABILITIES_def)
  with sample_config_ok show "config_ok file_config"
    by (simp add: config_ok_def places_ok_def dispatch_ok_def background_ok_def guard_limits_ok_def file_config_def)
qed

definition demo_cli_config :: config where
  "demo_cli_config = file_config\<lparr>cfg_database_path := ''/cfg/state/scheduler.sqlite3'',
     cfg_notification_path := ''/cfg/.scheduler/notifications.jsonl''\<rparr>"

lemma demo_loads: "load_config demo_places ''/cfg/scheduler.json'' (config_dict file_config) = Inr demo_cli_config"
  unfolding load_config_def file_config_valid rbind.simps by code_simp

theorem loaded_config_is_confined_witness: "is_within (cfg_database_path demo_cli_config) ''/cfg''"
  using loaded_config_is_confined [OF demo_loads] by (auto simp: demo_cli_config_def demo_places_def path_parent_def)

section \<open>Command lines\<close>

definition demo_cli :: cli_env where
  "demo_cli = \<lparr>ce_service = demo_service,
     ce_file = (\<lambda>n p. if p = ''/cfg/scheduler.json'' then File 2000 (Inr (config_dict file_config)) else Unreadable),
     ce_places = demo_places, ce_canary = short_io, ce_monitor = (\<lambda>_. short_io), ce_inventory = (\<lambda>_. short_io),
     ce_executable = ''/bin/python3'', ce_which_codex = Some ''/opt/bin/codex'', ce_package_root = ''/repo'', ce_fuel = 3,
     ce_request = ''req_0a''\<rparr>"

definition demo_args :: "string \<Rightarrow> namespace \<Rightarrow> namespace" where
  "demo_args c extra = [(''command'', A_text c), (''config'', A_text ''/cfg/scheduler.json''), (''actor'', A_text ''agent'')] @ extra"

definition pause_args :: namespace where
  "pause_args = demo_args ''pause'' [(''reason_code'', A_text ''MAINTENANCE''), (''idempotency_key'', A_text ''k1'')]"

definition resume_args :: namespace where
  "resume_args = demo_args ''resume'' [(''approval_file'', A_text ''approval.json''), (''idempotency_key'', A_text ''k2'')]"

definition list_args :: namespace where
  "list_args = demo_args ''queue'' [(''queue_command'', A_text ''list'')]"

lemma demo_args_conform: "conforms pause_args" "conforms resume_args" "conforms list_args"
  by code_simp+

definition demo_start :: cli_st where
  "demo_start = \<lparr>cs_world = demo_world (demo_db READY), cs_written = []\<rparr>"

lemma file_loads: "load_json_file (File 2000 (Inr (config_dict c))) = Inr (config_dict c)"
  by (simp add: load_json_file_def MAX_JSON_INPUT_BYTES_def config_dict_def)

lemma demo_opens:
  "text_arg args ''config'' = Inr ''/cfg/scheduler.json'' \<Longrightarrow>
   cli_run demo_cli args demo_start = ebind (in_world (start_controller (configured demo_cli demo_cli_config)))
     (\<lambda>_. cli_dispatch (configured demo_cli demo_cli_config) args) (demo_start\<lparr>cs_world := (demo_world (demo_db READY))\<lparr>w_step := 1\<rparr>\<rparr>)"
  by (simp add: cli_run_def with_text_known in_world_def read_file_def wobserve_def ebind_def elift_def demo_cli_def file_loads
      demo_loads demo_start_def demo_world_def)

definition exit_code :: "cli_exit \<Rightarrow> nat option" where
  "exit_code x = (case x of Exit n _ \<Rightarrow> Some n | _ \<Rightarrow> None)"

lemma demo_exit: "fst (cli_main demo_cli (Inr args) s) = report_end demo_cli name (fst (cli_run demo_cli args s))"
  "snd (cli_main demo_cli (Inr args) s) = snd (cli_run demo_cli args s)" if "command_name args = Inr name"
  using that by (simp_all add: cli_main_def case_prod_beta)

definition after_start :: "namespace \<Rightarrow> (err + cli_result) \<times> cli_st" where
  "after_start args = ebind (in_world (start_controller (configured demo_cli demo_cli_config)))
     (\<lambda>_. cli_dispatch (configured demo_cli demo_cli_config) args) (demo_start\<lparr>cs_world := (demo_world (demo_db READY))\<lparr>w_step := 1\<rparr>\<rparr>)"

abbreviation demo_ce :: cli_env where
  "demo_ce \<equiv> configured demo_cli demo_cli_config"

definition demo_ce_svc :: svc where
  "demo_ce_svc = demo_sv\<lparr>sv_config := demo_cli_config, sv_resolve := (\<lambda>p. p), sv_is_dir := (\<lambda>p. p \<in> {''/work'', ''/repo''})\<rparr>"

lemma demo_ce_world: "wclock (ce_world demo_ce) = wobserve (\<lambda>_. Inr 1010)" "we_others (ce_world demo_cli) = (\<lambda>_ d. d)"
  "ce_svc demo_ce = demo_ce_svc"
  by (simp_all add: demo_ce_svc_def configured_def demo_cli_def demo_service_def demo_env_def demo_places_def wclock_def Let_def)

lemma demo_started: "start_controller demo_ce ((demo_world (demo_db READY))\<lparr>w_step := Suc 0\<rparr>)
    = (Inr (), (demo_world (demo_db READY))\<lparr>w_step := 3\<rparr>)"
  by (simp add: start_controller_def Let_def demo_ce_world wobserve_def ebind_def wtx_def wdb_def transact_def
      demo_world_def bootstrap_def demo_db_def)

definition paused :: "(err + command_result) \<times> db" where
  "paused = pause demo_ce_svc ''MAINTENANCE'' ''k1'' ''agent'' 1010 (demo_db READY)"

lemma paused_run: "map_sum id snd (fst paused) = Inr False" "current_mode (snd paused) = Inr PAUSED"
  by code_simp+

lemma pause_dispatch:
  "world_command demo_ce ''pause'' pause_args =
     at_once demo_ce (pause (ce_svc demo_ce) ''MAINTENANCE'' ''k1'' ''agent'')"
  by (simp add: world_command_def with_text_known with_key_def pause_args_def demo_args_def text_arg_def Let_def)

lemma demo_named: "text_arg pause_args ''command'' = Inr ''pause''" "text_arg resume_args ''command'' = Inr ''resume''"
  "command_name pause_args = Inr ''pause''" "command_name resume_args = Inr ''resume''"
  by code_simp+

lemma pause_run:
  "\<exists>r. after_start pause_args = (Inr (R_json (with_replay r)), demo_start\<lparr>cs_world := \<lparr>w_db = snd paused, w_step = 5, w_checks = 0\<rparr>\<rparr>)"
proof -
  from inr_run [OF paused_run(1)] obtain r where p: "paused = (Inr (r, False), snd paused)" ..
  have r: "pause demo_ce_svc ''MAINTENANCE'' ''k1'' ''agent'' 1010 (demo_db READY) = (Inr (r, False), snd paused)"
    by (simp only: paused_def [symmetric]) (rule p)
  have "at_once demo_ce (pause demo_ce_svc ''MAINTENANCE'' ''k1'' ''agent'') ((demo_world (demo_db READY))\<lparr>w_step := 3\<rparr>)
      = (Inr (R_json (with_replay (r, False))), \<lparr>w_db = snd paused, w_step = 5, w_checks = 0\<rparr>)"
    by (simp add: at_once_def commanded_def shown_def demo_ce_world wobserve_def wdb_def ebind_def eret_def demo_world_def r)
  then show ?thesis
    unfolding after_start_def cli_dispatch_def with_text_known [OF demo_named(1)]
    by (intro exI [of _ "(r, False)"]) (simp add: demo_started ebind_def in_world_def pause_dispatch demo_ce_world demo_start_def)
qed

lemma resume_fails: "fst (world_command demo_ce ''resume'' resume_args (w\<lparr>w_step := 3\<rparr>)) = Inl (Sched ''INVALID_INPUT'')"
proof -
  have "load_json_file (ce_file demo_ce 3 ''approval.json'') = Inl (Sched ''INVALID_INPUT'')"
    by (simp add: configured_def demo_cli_def load_json_file_def Let_def)
  moreover have "text_arg resume_args ''approval_file'' = Inr ''approval.json''"
    by code_simp
  ultimately show ?thesis
    by (simp add: world_command_def with_file_def read_file_def with_text_known wobserve_def ebind_def Let_def)
qed

lemma resume_run: "fst (after_start resume_args) = Inl (Sched ''INVALID_INPUT'')"
  using resume_fails [of "demo_world (demo_db READY)"]
  unfolding after_start_def cli_dispatch_def with_text_known [OF demo_named(2)]
  by (auto simp: demo_started ebind_def in_world_def split: prod.split)

lemma demo_run: "cli_run demo_cli pause_args demo_start = after_start pause_args"
  "cli_run demo_cli resume_args demo_start = after_start resume_args"
  unfolding after_start_def by (rule demo_opens; simp add: pause_args_def resume_args_def demo_args_def text_arg_def)+

text \<open>The program pauses a ready controller, and the path is one of the machine.\<close>

theorem program_refines_permits_witness:
  "exit_code (fst (cli_main demo_cli (Inr pause_args) demo_start)) = Some 0
   \<and> permit_step\<^sup>*\<^sup>* (permits_of (demo_db READY)) (permits_of (snd paused))
   \<and> current_mode (snd paused) = Inr PAUSED"
proof -
  note name = demo_named(3)
  have "exit_code (fst (cli_main demo_cli (Inr pause_args) demo_start)) = Some 0"
    using pause_run by (auto simp: demo_exit [OF name] demo_run report_end_def exit_code_def printable_def)
  moreover have "surroundings_respect permitted (ce_service demo_cli)"
    using demo_surroundings [of permitted] permitting.refl by (simp add: demo_cli_def)
  note program_refines_permits [OF this, of demo_start "Inr pause_args"]
  ultimately show ?thesis
    using pause_run paused_run(2) unfolding demo_exit [OF name] demo_run by (auto simp: demo_start_def demo_world_def)
qed

lemma demo_alone: "alone (ce_world demo_cli)" "alone (ce_world (configured demo_cli demo_cli_config))"
  by (simp_all add: alone_def demo_cli_def demo_service_def demo_env_def configured_def Let_def)


theorem failed_program_changes_nothing_witness:
  "exit_code (fst (cli_main demo_cli (Inr resume_args) demo_start)) = Some 2
   \<and> w_db (cs_world (snd (after_start resume_args))) = demo_db READY"
proof -
  note name = demo_named(4)
  let ?env = "make_envelope ''resume'' (ce_request demo_cli) None (Some ''INVALID_INPUT'')"
  have main: "cli_main demo_cli (Inr resume_args) demo_start = (Exit 2 ?env, snd (after_start resume_args))"
    using resume_run by (simp add: demo_exit [OF name] demo_run report_end_def prod_eq_iff)
  have "text_arg resume_args ''command'' = Inr ''resume''" "''resume'' \<notin> set long_commands"
    by code_simp+
  from failed_program_changes_nothing [OF demo_alone(1) _ _ this main] main show ?thesis
    by (simp add: exit_code_def make_envelope_def demo_start_def demo_world_def demo_db_def)
qed

end
