(* ===== verification/Migration.thy ===== *)
theory Migration
  imports Validation ProbeClient
begin

text \<open>
  The schema of store.py: \<open>Store.migrate\<close>, which brings a database of any earlier version to the tables, columns
  and indexes that the other operations use. A database is here its tables with their columns and rows, its
  indexes and the metadata table; of SQLite only the effect of the statements of \<open>migrate\<close> is modelled. The
  other theories start from the database that this leaves behind.
\<close>

section \<open>Databases and statements\<close>

datatype cell = Null | Integer_cell int | Real_cell rat | Text_cell string

record table =
  tb_columns :: "string list"
  tb_rows :: "cell list list"

record schema =
  sc_metadata :: "(string \<times> string) list option"
  sc_tables :: "(string \<times> table) list"
  sc_indexes :: "string list"

datatype ddl =
    Create_table string "string list"
  | Create_index string string "string list"
  | Create_single_active string string

text \<open>What a row holds in a column, and the rows that a partial index over \<open>state <> 'DISARMED'\<close> covers.\<close>

definition row_cell :: "table \<Rightarrow> string \<Rightarrow> cell list \<Rightarrow> cell option" where
  "row_cell t c row = map_of (zip (tb_columns t) row) c"

definition undisarmed_row :: "table \<Rightarrow> cell list \<Rightarrow> bool" where
  "undisarmed_row t row \<longleftrightarrow> row_cell t ''state'' row \<noteq> Some Null \<and> row_cell t ''state'' row \<noteq> Some (Text_cell ''DISARMED'')"

definition create_index :: "string \<Rightarrow> string \<Rightarrow> (table \<Rightarrow> unit res) \<Rightarrow> schema \<Rightarrow> schema res" where
  "create_index n tn check s =
     (if n \<in> set (sc_indexes s) then Inr s
      else case map_of (sc_tables s) tn of
        None \<Rightarrow> Inl (PyExc ''OperationalError'')
      | Some t \<Rightarrow> rbind (check t) (\<lambda>_. Inr (s\<lparr>sc_indexes := sc_indexes s @ [n]\<rparr>)))"

fun run_ddl :: "ddl \<Rightarrow> schema \<Rightarrow> schema res" where
  "run_ddl (Create_table n cs) s =
     (if n \<in> set (map fst (sc_tables s)) then Inr s
      else Inr (s\<lparr>sc_tables := sc_tables s @ [(n, \<lparr>tb_columns = cs, tb_rows = []\<rparr>)]\<rparr>))"
| "run_ddl (Create_index n tn cs) s =
     create_index n tn
       (\<lambda>t. if set cs \<subseteq> set (tb_columns t) then Inr () else Inl (PyExc ''OperationalError'')) s"
| "run_ddl (Create_single_active n tn) s =
     create_index n tn
       (\<lambda>t. if ''state'' \<notin> set (tb_columns t) then Inl (PyExc ''OperationalError'')
            else if length (filter (undisarmed_row t) (tb_rows t)) > 1 then Inl (PyExc ''IntegrityError'')
            else Inr ()) s"

fun run_all :: "ddl list \<Rightarrow> schema \<Rightarrow> schema res" where
  "run_all [] s = Inr s"
| "run_all (q # qs) s = rbind (run_ddl q s) (run_all qs)"

text \<open>\<open>ALTER TABLE ... ADD COLUMN\<close> where the column is missing: every row gets the default.\<close>

definition has_column :: "string \<Rightarrow> string \<Rightarrow> schema \<Rightarrow> bool" where
  "has_column tn c s \<longleftrightarrow> (case map_of (sc_tables s) tn of None \<Rightarrow> False | Some t \<Rightarrow> c \<in> set (tb_columns t))"

definition widen :: "string \<Rightarrow> cell \<Rightarrow> table \<Rightarrow> table" where
  "widen c v t = t\<lparr>tb_columns := tb_columns t @ [c], tb_rows := map (\<lambda>row. row @ [v]) (tb_rows t)\<rparr>"

definition add_column :: "string \<Rightarrow> string \<Rightarrow> cell \<Rightarrow> schema \<Rightarrow> schema" where
  "add_column tn c v s =
     (if has_column tn c s then s
      else s\<lparr>sc_tables := map (\<lambda>(n, t). (n, if n = tn then widen c v t else t)) (sc_tables s)\<rparr>)"

fun add_columns :: "(string \<times> string \<times> cell) list \<Rightarrow> schema \<Rightarrow> schema" where
  "add_columns [] s = s"
| "add_columns ((tn, c, v) # cs) s = add_columns cs (add_column tn c v s)"

section \<open>The statements of the code\<close>

definition schema_ddl :: "ddl list" where
  "schema_ddl =
     [Create_table ''controller'' [''singleton'', ''mode'', ''reason_code'', ''updated_at''],
      Create_table ''policies'' [''singleton'', ''version'', ''policy_json'', ''policy_hash'', ''updated_at''],
      Create_table ''quota_snapshots''
        [''snapshot_id'', ''observed_at'', ''profile_key'', ''limit_id'', ''plan_type'', ''snapshot_json'',
         ''snapshot_hash'', ''created_at''],
      Create_table ''account_bindings''
        [''profile_key'', ''account_fingerprint'', ''account_type'', ''plan_type'', ''first_observed_at'', ''last_observed_at''],
      Create_table ''approvals''
        [''approval_id'', ''action'', ''actor'', ''scope_hash'', ''capabilities_json'', ''granted_at'', ''expires_at'',
         ''approval_hash''],
      Create_table ''jobs''
        [''job_id'', ''work_ref'', ''priority'', ''state'', ''manifest_json'', ''manifest_hash'', ''approval_id'',
         ''created_at'', ''updated_at''],
      Create_table ''job_proposals''
        [''job_id'', ''work_ref'', ''priority'', ''state'', ''package_json'', ''package_hash'', ''created_at'',
         ''updated_at'', ''approved_at''],
      Create_table ''leases''
        [''lease_id'', ''job_id'', ''owner'', ''state'', ''acquired_at'', ''expires_at'', ''completed_at''],
      Create_table ''idempotency'' [''idempotency_key'', ''command'', ''request_hash'', ''result_json'', ''created_at''],
      Create_table ''runs''
        [''run_id'', ''job_id'', ''kind'', ''state'', ''thread_id'', ''turn_id'', ''started_at'', ''updated_at'',
         ''lease_expires_at'', ''completed_at'', ''stop_reason''],
      Create_table ''service_lease''
        [''singleton'', ''lease_id'', ''owner_id'', ''state'', ''acquired_at'', ''heartbeat_at'', ''expires_at'', ''released_at''],
      Create_table ''notification_events''
        [''sequence'', ''event_id'', ''dedupe_key'', ''event_type'', ''occurred_at'', ''event_json'', ''sink_kind'', ''delivered_at''],
      Create_table ''audit_events''
        [''sequence'', ''event_id'', ''occurred_at'', ''event_type'', ''actor'', ''details_json'', ''previous_hash'', ''event_hash''],
      Create_index ''jobs_dispatch_idx'' ''jobs'' [''state'', ''priority'', ''created_at''],
      Create_index ''leases_state_idx'' ''leases'' [''state'', ''expires_at''],
      Create_index ''proposals_state_idx'' ''job_proposals'' [''state'', ''priority'', ''created_at''],
      Create_index ''runs_state_idx'' ''runs'' [''state'', ''updated_at''],
      Create_index ''notification_delivery_idx'' ''notification_events'' [''delivered_at'', ''sequence''],
      Create_table ''quota_guard_sessions''
        [''guard_id'', ''state'', ''profile_key'', ''limit_id'', ''threshold_remaining_percent'', ''resume_hysteresis_percent'',
         ''check_interval_seconds'', ''resume_non_goal_threads'', ''approval_id'', ''plan_hash'', ''stop_snapshot_hash'',
         ''tripped_windows_json'', ''next_check_at'', ''last_checked_at'', ''reason_code'', ''revision'', ''created_at'', ''updated_at''],
      Create_table ''quota_guard_targets''
        [''guard_id'', ''thread_id'', ''state'', ''original_status'', ''original_turn_id'', ''goal_was_active'',
         ''goal_changed_by_guard'', ''goal_pause_updated_at'', ''reason_code'', ''revision'', ''created_at'', ''updated_at''],
      Create_index ''quota_guard_sessions_due_idx'' ''quota_guard_sessions'' [''state'', ''next_check_at''],
      Create_single_active ''quota_guard_single_active_idx'' ''quota_guard_sessions'',
      Create_index ''quota_guard_targets_state_idx'' ''quota_guard_targets'' [''guard_id'', ''state'']]"

text \<open>The columns that later versions added to existing tables, with their defaults.\<close>

definition added_columns :: "(string \<times> string \<times> cell) list" where
  "added_columns =
     [(''runs'', ''lease_expires_at'', Real_cell 0), (''runs'', ''lease_owner'', Null),
      (''quota_guard_targets'', ''goal_pause_updated_at'', Null)]"

section \<open>The schema version\<close>

text \<open>\<open>int(value)\<close> of a text: blanks around it, a sign, digits with single underscores between them.\<close>

fun int_digits :: "bool \<Rightarrow> int \<Rightarrow> string \<Rightarrow> int option" where
  "int_digits after_digit acc [] = (if after_digit then Some acc else None)"
| "int_digits after_digit acc (c # cs) =
     (if 48 \<le> (of_char c :: nat) \<and> (of_char c :: nat) \<le> 57 then int_digits True (10 * acc + (of_char c - 48)) cs
      else if c = CHR ''_'' \<and> after_digit then int_digits False acc cs
      else None)"

definition parse_int :: "string \<Rightarrow> int option" where
  "parse_int s =
     (case strip s of
        [] \<Rightarrow> None
      | c # cs \<Rightarrow>
          if c = CHR ''-'' then map_option uminus (int_digits False 0 cs)
          else if c = CHR ''+'' then int_digits False 0 cs
          else int_digits False 0 (c # cs))"

definition stored_version :: "(string \<times> string) list \<Rightarrow> int res" where
  "stored_version meta =
     (case map_of meta ''schema_version'' of
        None \<Rightarrow> Inr 0
      | Some v \<Rightarrow> (case parse_int v of None \<Rightarrow> Inl (Sched ''STATE_INVALID'') | Some n \<Rightarrow> Inr n))"

text \<open>\<open>INSERT OR IGNORE\<close> and \<open>INSERT ... ON CONFLICT DO UPDATE\<close> on the metadata table.\<close>

definition insert_or_ignore :: "string \<Rightarrow> string \<Rightarrow> (string \<times> string) list \<Rightarrow> (string \<times> string) list" where
  "insert_or_ignore k v meta = (if k \<in> set (map fst meta) then meta else meta @ [(k, v)])"

definition insert_or_update :: "string \<Rightarrow> string \<Rightarrow> (string \<times> string) list \<Rightarrow> (string \<times> string) list" where
  "insert_or_update k v meta =
     (if k \<in> set (map fst meta) then map (\<lambda>(k', v'). (k', if k' = k then v else v')) meta else meta @ [(k, v)])"

section \<open>The migration\<close>

definition metadata_of :: "schema \<Rightarrow> (string \<times> string) list" where
  "metadata_of s = (case sc_metadata s of None \<Rightarrow> [] | Some m \<Rightarrow> m)"

text \<open>\<open>new_key\<close> is the fresh random key; the whole is one transaction, so an error leaves the database as it was.\<close>

definition migrate :: "string \<Rightarrow> schema \<Rightarrow> schema res" where
  "migrate new_key s =
     (let meta = metadata_of s in
      rbind (stored_version meta) (\<lambda>v.
      rbind (guard (\<not> v > 2) ''SCHEMA_UNSUPPORTED'') (\<lambda>_.
      rbind (run_all schema_ddl s) (\<lambda>t.
      let u = add_columns added_columns t;
          meta1 = (if v < 2 then insert_or_update ''schema_version'' ''2'' meta else meta);
          meta2 = (if v = 0 then insert_or_ignore ''schema_version'' ''2'' meta1 else meta1)
      in Inr (u\<lparr>sc_metadata := Some (insert_or_ignore ''account_fingerprint_key'' new_key meta2)\<rparr>)))))"

section \<open>What a migration keeps\<close>

text \<open>One table continues another: its columns and each of its rows are extended at the end.\<close>

definition extends :: "table \<Rightarrow> table \<Rightarrow> bool" where
  "extends t t' \<longleftrightarrow> take (length (tb_columns t)) (tb_columns t') = tb_columns t
     \<and> list_all2 (\<lambda>row row'. take (length row) row' = row) (tb_rows t) (tb_rows t')"

definition keeps_tables :: "schema \<Rightarrow> schema \<Rightarrow> bool" where
  "keeps_tables s s' \<longleftrightarrow>
     (\<forall>n t. map_of (sc_tables s) n = Some t \<longrightarrow> (\<exists>t'. map_of (sc_tables s') n = Some t' \<and> extends t t'))
     \<and> set (sc_indexes s) \<subseteq> set (sc_indexes s') \<and> sc_metadata s' = sc_metadata s"

lemma extends_refl [simp]: "extends t t"
  by (simp add: extends_def list_all2_refl)

lemma take_trans: "take (length xs) ys = xs \<Longrightarrow> take (length ys) zs = ys \<Longrightarrow> take (length xs) zs = xs"
  by (metis length_take min.cobounded1 take_take min.absorb1)

lemma extends_trans:
  assumes "extends t u" and "extends u v"
  shows "extends t v"
proof -
  have "list_all2 (\<lambda>row row'. take (length row) row' = row) (tb_rows t) (tb_rows v)"
    by (rule list_all2_trans [of "\<lambda>r r'. take (length r) r' = r" "\<lambda>r r'. take (length r) r' = r"])
       (use assms take_trans in \<open>auto simp: extends_def\<close>)
  with assms take_trans show ?thesis
    by (auto simp: extends_def)
qed

lemma extends_widen [simp]: "extends t (widen c v t)"
  by (simp add: extends_def widen_def list_all2_map2 list_all2_refl)

lemma keeps_tables_refl [simp]: "keeps_tables s s"
  by (auto simp: keeps_tables_def)

lemma keeps_tables_trans: "keeps_tables s t \<Longrightarrow> keeps_tables t u \<Longrightarrow> keeps_tables s u"
  by (fastforce simp: keeps_tables_def intro: extends_trans)

lemma create_index_Inr:
  assumes "create_index n tn check s = Inr s'"
  shows "sc_tables s' = sc_tables s \<and> sc_metadata s' = sc_metadata s \<and> set (sc_indexes s') = insert n (set (sc_indexes s))"
  using assms by (auto simp: create_index_def split: if_splits option.splits)

lemma run_ddl_keeps: "run_ddl q s = Inr s' \<Longrightarrow> keeps_tables s s'"
proof (cases q)
  case (Create_table n cs)
  assume "run_ddl q s = Inr s'"
  with Create_table show ?thesis
    by (auto simp: keeps_tables_def map_add_Some_iff map_of_eq_None_iff dest: map_of_SomeD split: if_splits)
qed (auto simp: keeps_tables_def dest: create_index_Inr)

lemma run_all_keeps: "run_all qs s = Inr s' \<Longrightarrow> keeps_tables s s'"
  by (induction qs arbitrary: s) (auto intro: run_ddl_keeps keeps_tables_trans)

lemma map_of_widened:
  "map_of (map (\<lambda>(n, t). (n, if n = tn then f t else t)) ts) m
   = map_option (\<lambda>t. if m = tn then f t else t) (map_of ts m)"
  by (induction ts) auto

lemma add_column_keeps: "keeps_tables s (add_column tn c v s)"
  by (auto simp: keeps_tables_def add_column_def map_of_widened)

lemma add_columns_keep: "keeps_tables s (add_columns cs s)"
  by (induction cs s rule: add_columns.induct) (auto intro: keeps_tables_trans add_column_keeps)

section \<open>What a migration establishes\<close>

text \<open>A statement that has run has nothing left to do, and nothing that keeps the tables undoes it.\<close>

fun settled :: "ddl \<Rightarrow> schema \<Rightarrow> bool" where
  "settled (Create_table n _) s \<longleftrightarrow> map_of (sc_tables s) n \<noteq> None"
| "settled (Create_index n _ _) s \<longleftrightarrow> n \<in> set (sc_indexes s)"
| "settled (Create_single_active n _) s \<longleftrightarrow> n \<in> set (sc_indexes s)"

lemma settled_runs: "settled q s \<Longrightarrow> run_ddl q s = Inr s"
  by (cases q) (auto simp: create_index_def dest: map_of_SomeD intro: rev_image_eqI)

lemma run_ddl_settles: "run_ddl q s = Inr s' \<Longrightarrow> settled q s'"
  by (cases q) (auto simp: map_add_Some_iff map_of_eq_None_iff dest: create_index_Inr split: if_splits)

lemma settled_kept: "keeps_tables s s' \<Longrightarrow> settled q s \<Longrightarrow> settled q s'"
  by (cases q) (auto simp: keeps_tables_def, blast)

lemma run_all_settles: "run_all qs s = Inr s' \<Longrightarrow> list_all (\<lambda>q. settled q s') qs"
  by (induction qs arbitrary: s) (auto intro: settled_kept [OF run_all_keeps] run_ddl_settles)

lemma settled_run_all: "list_all (\<lambda>q. settled q s) qs \<Longrightarrow> run_all qs s = Inr s"
  by (induction qs) (auto simp: settled_runs)

lemma extends_columns: "extends t t' \<Longrightarrow> c \<in> set (tb_columns t) \<Longrightarrow> c \<in> set (tb_columns t')"
  unfolding extends_def by (metis in_set_takeD)

lemma has_column_kept:
  assumes "keeps_tables s s'" and "has_column tn c s"
  shows "has_column tn c s'"
proof -
  from assms(2) obtain t where "map_of (sc_tables s) tn = Some t" "c \<in> set (tb_columns t)"
    by (auto simp: has_column_def split: option.splits)
  moreover with assms(1) obtain t' where "map_of (sc_tables s') tn = Some t'" "extends t t'"
    unfolding keeps_tables_def by blast
  ultimately show ?thesis
    by (simp add: has_column_def extends_columns)
qed

lemma add_column_adds: "map_of (sc_tables s) tn \<noteq> None \<Longrightarrow> has_column tn c (add_column tn c v s)"
  by (auto simp: add_column_def has_column_def map_of_widened widen_def split: option.splits)

fun have_tables :: "(string \<times> string \<times> cell) list \<Rightarrow> schema \<Rightarrow> bool" where
  "have_tables [] s = True"
| "have_tables ((tn, c, v) # cs) s \<longleftrightarrow> map_of (sc_tables s) tn \<noteq> None \<and> have_tables cs s"

fun have_columns :: "(string \<times> string \<times> cell) list \<Rightarrow> schema \<Rightarrow> bool" where
  "have_columns [] s = True"
| "have_columns ((tn, c, v) # cs) s \<longleftrightarrow> has_column tn c s \<and> have_columns cs s"

lemma have_tables_kept: "keeps_tables s s' \<Longrightarrow> have_tables cs s \<Longrightarrow> have_tables cs s'"
  by (induction cs s rule: have_tables.induct) (auto simp: keeps_tables_def, blast)

lemma have_columns_kept: "keeps_tables s s' \<Longrightarrow> have_columns cs s \<Longrightarrow> have_columns cs s'"
  by (induction cs s rule: have_columns.induct) (auto intro: has_column_kept)

lemma add_columns_add: "have_tables cs s \<Longrightarrow> have_columns cs (add_columns cs s)"
proof (induction cs s rule: add_columns.induct)
  case (2 tn c v cs s)
  let ?s = "add_column tn c v s"
  have "have_tables cs ?s"
    using 2(2) have_tables_kept [OF add_column_keeps] by simp
  moreover have "has_column tn c (add_columns cs ?s)"
    using 2(2) add_column_adds has_column_kept [OF add_columns_keep] by auto
  ultimately show ?case
    using 2(1) by simp
qed simp

lemma add_columns_done: "have_columns cs s \<Longrightarrow> add_columns cs s = s"
  by (induction cs s rule: add_columns.induct) (auto simp: add_column_def)

section \<open>The metadata\<close>

lemma map_of_snoc:
  "map_of (m @ [(k, v)]) k' = (case map_of m k' of None \<Rightarrow> if k' = k then Some v else None | Some w \<Rightarrow> Some w)"
  by (auto simp: map_add_def split: option.splits)

lemma in_keys: "k \<in> set (map fst m) \<longleftrightarrow> map_of m k \<noteq> None"
  by (simp add: map_of_eq_None_iff)

lemma map_of_insert_or_ignore:
  "map_of (insert_or_ignore k v m) k' = (if k' = k \<and> map_of m k = None then Some v else map_of m k')"
  unfolding insert_or_ignore_def in_keys by (auto simp: map_of_snoc simp del: map_of_append split: option.splits)

lemma map_of_update: "map_of (map (\<lambda>(k', v'). (k', if k' = k then v else v')) m) k'
    = (if k' = k then map_option (\<lambda>_. v) (map_of m k) else map_of m k')"
  by (induction m) auto

lemma map_of_insert_or_update:
  "map_of (insert_or_update k v m) k' = (if k' = k then Some v else map_of m k')"
  unfolding insert_or_update_def in_keys
  by (auto simp: map_of_snoc map_of_update simp del: map_of_append split: option.splits)

section \<open>The result of a migration\<close>

text \<open>What the rest of the program relies on.\<close>

definition up_to_date :: "schema \<Rightarrow> bool" where
  "up_to_date s \<longleftrightarrow> list_all (\<lambda>q. settled q s) schema_ddl \<and> have_columns added_columns s
     \<and> stored_version (metadata_of s) = Inr 2 \<and> map_of (metadata_of s) ''account_fingerprint_key'' \<noteq> None"

lemma version_2: "parse_int ''2'' = Some 2"
  by code_simp

lemma schema_has_tables: "list_all (\<lambda>q. settled q s) schema_ddl \<Longrightarrow> have_tables added_columns s"
  by (simp add: schema_ddl_def added_columns_def)

lemma set_metadata [simp]:
  "settled q (t\<lparr>sc_metadata := m\<rparr>) = settled q t"
  "have_columns cs (t\<lparr>sc_metadata := m\<rparr>) = have_columns cs t"
  "metadata_of (t\<lparr>sc_metadata := Some meta\<rparr>) = meta"
proof -
  show "settled q (t\<lparr>sc_metadata := m\<rparr>) = settled q t"
    by (cases q) auto
  show "have_columns cs (t\<lparr>sc_metadata := m\<rparr>) = have_columns cs t"
    by (induction cs t rule: have_columns.induct) (auto simp: has_column_def)
qed (simp add: metadata_of_def)

text \<open>The steps of a migration that succeeds.\<close>

lemma migrate_Inr:
  assumes "migrate new_key s = Inr s'"
  obtains v t meta where "stored_version (metadata_of s) = Inr v" and "v \<le> 2" and "run_all schema_ddl s = Inr t"
    and "s' = (add_columns added_columns t)\<lparr>sc_metadata := Some (insert_or_ignore ''account_fingerprint_key'' new_key meta)\<rparr>"
    and "\<And>k. k \<noteq> ''schema_version'' \<Longrightarrow> map_of meta k = map_of (metadata_of s) k"
    and "map_of meta ''schema_version''
         = (if v < 2 then Some ''2'' else map_of (metadata_of s) ''schema_version'')"
proof -
  from assms obtain v t where vt: "stored_version (metadata_of s) = Inr v" "v \<le> 2" "run_all schema_ddl s = Inr t"
    "s' = (let u = add_columns added_columns t;
          meta1 = (if v < 2 then insert_or_update ''schema_version'' ''2'' (metadata_of s) else metadata_of s);
          meta2 = (if v = 0 then insert_or_ignore ''schema_version'' ''2'' meta1 else meta1)
      in u\<lparr>sc_metadata := Some (insert_or_ignore ''account_fingerprint_key'' new_key meta2)\<rparr>)"
    by (auto simp: migrate_def Let_def)
  let ?meta1 = "if v < 2 then insert_or_update ''schema_version'' ''2'' (metadata_of s) else metadata_of s"
  let ?meta = "if v = 0 then insert_or_ignore ''schema_version'' ''2'' ?meta1 else ?meta1"
  show thesis
  proof (rule that [of v t ?meta])
    show "s' = (add_columns added_columns t)\<lparr>sc_metadata := Some (insert_or_ignore ''account_fingerprint_key'' new_key ?meta)\<rparr>"
      using vt(4) by (simp only: Let_def)
  qed (use vt in \<open>auto simp: map_of_insert_or_ignore map_of_insert_or_update\<close>)
qed

lemma migrate_up_to_date:
  assumes "migrate new_key s = Inr s'"
  shows "up_to_date s'"
  using assms
proof (cases rule: migrate_Inr)
  case (1 v t meta)
  have "list_all (\<lambda>q. settled q t) schema_ddl"
    by (rule run_all_settles [OF 1(3)])
  moreover from this have "have_columns added_columns (add_columns added_columns t)"
    by (intro add_columns_add schema_has_tables)
  moreover have "stored_version meta = Inr 2"
    using 1(1,2,6) by (auto simp: stored_version_def version_2 split: if_splits)
  then have "stored_version (insert_or_ignore ''account_fingerprint_key'' new_key meta) = Inr 2"
    by (simp add: stored_version_def map_of_insert_or_ignore)
  ultimately show ?thesis
    by (simp add: up_to_date_def 1(4) map_of_insert_or_ignore)
       (auto simp: list_all_iff intro: settled_kept [OF add_columns_keep])
qed

lemma migrate_settled:
  assumes "up_to_date s"
  shows "migrate new_key s = Inr s"
proof -
  obtain meta where meta: "sc_metadata s = Some meta"
    using assms by (cases "sc_metadata s") (auto simp: up_to_date_def metadata_of_def)
  with assms have "insert_or_ignore ''account_fingerprint_key'' new_key meta = meta"
    by (auto simp: up_to_date_def metadata_of_def insert_or_ignore_def in_keys simp del: set_map)
  with assms meta show ?thesis
    by (simp add: migrate_def up_to_date_def settled_run_all add_columns_done metadata_of_def)
qed


text \<open>A database of a newer program, or one whose version is no number, is refused.\<close>

lemma migrate_refuses:
  assumes "stored_version (metadata_of s) = r" and "\<And>v. r = Inr v \<Longrightarrow> v > 2"
  shows "\<exists>e. migrate new_key s = Inl e \<and> e \<in> {Sched ''SCHEMA_UNSUPPORTED'', Sched ''STATE_INVALID''}"
  using assms
  by (cases r) (auto simp: migrate_def stored_version_def split: option.splits)

section \<open>The fingerprint key\<close>

text \<open>\<open>Store.account_fingerprint_key\<close>, and \<open>keyed_fingerprint\<close> of util.py that uses the key; keyed Blake2 is a parameter.\<close>

definition account_fingerprint_key :: "schema \<Rightarrow> string res" where
  "account_fingerprint_key s =
     (case map_of (metadata_of s) ''account_fingerprint_key'' of None \<Rightarrow> Inl (Sched ''STATE_INVALID'') | Some k \<Rightarrow> Inr k)"

definition hex_value :: "char \<Rightarrow> nat option" where
  "hex_value c =
     (let n = of_char c in
      if 48 \<le> n \<and> n \<le> 57 then Some (n - 48)
      else if 97 \<le> n \<and> n \<le> 102 then Some (n - 87)
      else if 65 \<le> n \<and> n \<le> 70 then Some (n - 55)
      else None)"

text \<open>\<open>bytes.fromhex\<close>: pairs of digits, with ASCII blanks allowed between the pairs.\<close>

definition hex_blank :: "char \<Rightarrow> bool" where
  "hex_blank c \<longleftrightarrow> (let n = (of_char c :: nat) in 9 \<le> n \<and> n \<le> 13 \<or> n = 32)"

fun from_hex :: "string \<Rightarrow> nat list option" where
  "from_hex [] = Some []"
| "from_hex [c] = (if hex_blank c then Some [] else None)"
| "from_hex (c # d # cs) =
     (if hex_blank c then from_hex (d # cs)
      else case hex_value c of
        None \<Rightarrow> None
      | Some high \<Rightarrow> (case hex_value d of
          None \<Rightarrow> None
        | Some low \<Rightarrow> map_option (\<lambda>bs. (16 * high + low) # bs) (from_hex cs)))"

definition keyed_fingerprint :: "host \<Rightarrow> (nat list \<Rightarrow> string \<Rightarrow> string) \<Rightarrow> json \<Rightarrow> string \<Rightarrow> string res" where
  "keyed_fingerprint h blake2 v key_hex =
     (case from_hex key_hex of
        None \<Rightarrow> Inl (Sched ''STATE_INVALID'')
      | Some key \<Rightarrow> rbind (guard (length key = 32) ''STATE_INVALID'') (\<lambda>_. Inr (blake2 key (canonical_json h v))))"

lemma blank_no_digit: "hex_value c = Some n \<Longrightarrow> \<not> hex_blank c"
  by (auto simp: hex_value_def hex_blank_def Let_def split: if_splits)

lemma from_hex_digits:
  "list_all (\<lambda>c. hex_value c \<noteq> None) s \<Longrightarrow> even (length s) \<Longrightarrow> \<exists>bs. from_hex s = Some bs \<and> length bs = length s div 2"
  by (induction s rule: from_hex.induct) (auto dest: blank_no_digit, force)

text \<open>
  The key that a migration generates, 64 hexadecimal digits, is one that fingerprints can be computed with. A key that
  was there is kept even if it is none, and then every fingerprint is refused.
\<close>

lemma generated_key_works:
  assumes "migrate new_key s = Inr s'" and "map_of (metadata_of s) ''account_fingerprint_key'' = None"
    and "length new_key = 64" and "list_all (\<lambda>c. hex_value c \<noteq> None) new_key"
  shows "account_fingerprint_key s' = Inr new_key
    \<and> (\<exists>key. length key = 32 \<and> (\<forall>v. keyed_fingerprint h blake2 v new_key = Inr (blake2 key (canonical_json h v))))"
proof -
  have "account_fingerprint_key s' = Inr new_key"
    using assms(1) by (cases rule: migrate_Inr) (simp add: account_fingerprint_key_def map_of_insert_or_ignore assms(2))
  moreover obtain key where "from_hex new_key = Some key" "length key = 32"
    using from_hex_digits [OF assms(4)] assms(3) by auto
  ultimately show ?thesis
    by (auto simp: keyed_fingerprint_def)
qed

lemma bad_key_kept:
  assumes "migrate new_key s = Inr s'" and "map_of (metadata_of s) ''account_fingerprint_key'' = Some k" and "from_hex k = None"
  shows "account_fingerprint_key s' = Inr k \<and> keyed_fingerprint h blake2 v k = Inl (Sched ''STATE_INVALID'')"
  using assms(1)
  by (cases rule: migrate_Inr) (simp add: account_fingerprint_key_def map_of_insert_or_ignore keyed_fingerprint_def assms(2,3))

section \<open>A database of the first version\<close>

text \<open>
  It has a run, stored before runs had leases, and the guard targets without the ownership token; the version
  was written with a sign and blanks.
\<close>

definition old_runs :: table where
  "old_runs = \<lparr>tb_columns = [''run_id'', ''job_id'', ''kind'', ''state'', ''thread_id'', ''turn_id'', ''started_at'', ''updated_at'',
      ''completed_at'', ''stop_reason''],
    tb_rows = [[Text_cell ''run_1'', Null, Text_cell ''live_test'', Text_cell ''succeeded'', Null, Null, Real_cell 10, Real_cell 20,
      Real_cell 20, Null]]\<rparr>"

definition old_schema :: schema where
  "old_schema = \<lparr>sc_metadata = Some [(''schema_version'', '' +1 '')], sc_tables = [(''runs'', old_runs)], sc_indexes = []\<rparr>"

definition new_schema :: schema where
  "new_schema = (case migrate ''k1'' old_schema of Inl _ \<Rightarrow> old_schema | Inr s \<Rightarrow> s)"

lemma old_schema_migrates: "migrate ''k1'' old_schema = Inr new_schema"
  by code_simp


end
