(* ===== verification/PublicSafety.thy ===== *)
theory PublicSafety
  imports Prelude
begin

text \<open>
  scripts/check_public_safety.py, the check that the repository passes before it is published: no tracked path is a
  private runtime file and no tracked content looks like a credential or a home path. Bytes are characters; a path is its
  bytes, since decoding with surrogate escapes loses nothing and the letters that are compared are ASCII. git is
  a parameter: what it prints for a list of arguments, or the exception of a failing call.
\<close>

section \<open>Regular expressions\<close>

text \<open>
  The constructs that the patterns use: a class of characters once, a class at least \<open>n\<close> times, a word
  boundary, a choice of texts. Before the rest of the input stands the character that precedes it.
\<close>

datatype regex_part =
    One "char \<Rightarrow> bool"
  | Many "char \<Rightarrow> bool" nat
  | Edge
  | Choice "string list"

definition letter_or_digit :: "char \<Rightarrow> bool" where
  "letter_or_digit c \<longleftrightarrow>
     (let n = (of_char c :: int) in 48 \<le> n \<and> n \<le> 57 \<or> 65 \<le> n \<and> n \<le> 90 \<or> 97 \<le> n \<and> n \<le> 122)"

definition capital_or_digit :: "char \<Rightarrow> bool" where
  "capital_or_digit c \<longleftrightarrow> (let n = (of_char c :: int) in 48 \<le> n \<and> n \<le> 57 \<or> 65 \<le> n \<and> n \<le> 90)"

definition letter :: "char \<Rightarrow> bool" where
  "letter c \<longleftrightarrow> (let n = (of_char c :: int) in 65 \<le> n \<and> n \<le> 90 \<or> 97 \<le> n \<and> n \<le> 122)"

definition word_char :: "char \<Rightarrow> bool" where
  "word_char c \<longleftrightarrow> letter_or_digit c \<or> c = CHR ''_''"

text \<open>A boundary lies between a word character and none, the ends of the input counting as none.\<close>

definition at_edge :: "char option \<Rightarrow> string \<Rightarrow> bool" where
  "at_edge before rest \<longleftrightarrow>
     (case before of None \<Rightarrow> False | Some b \<Rightarrow> word_char b) \<noteq> (case rest of [] \<Rightarrow> False | c # _ \<Rightarrow> word_char c)"

definition last_of :: "char option \<Rightarrow> string \<Rightarrow> char option" where
  "last_of before s = (if s = [] then before else Some (last s))"

text \<open>Backtracking: whether the parts match at the start of the rest.\<close>

function regex_match :: "regex_part list \<Rightarrow> char option \<Rightarrow> string \<Rightarrow> bool" where
  "regex_match [] b s = True"
| "regex_match (One p # ps) b s = (case s of [] \<Rightarrow> False | c # cs \<Rightarrow> p c \<and> regex_match ps (Some c) cs)"
| "regex_match (Many p (Suc n) # ps) b s =
     (case s of [] \<Rightarrow> False | c # cs \<Rightarrow> p c \<and> regex_match (Many p n # ps) (Some c) cs)"
| "regex_match (Many p 0 # ps) b s =
     (regex_match ps b s \<or> (case s of [] \<Rightarrow> False | c # cs \<Rightarrow> p c \<and> regex_match (Many p 0 # ps) (Some c) cs))"
| "regex_match (Edge # ps) b s = (at_edge b s \<and> regex_match ps b s)"
| "regex_match (Choice ts # ps) b s =
     list_ex (\<lambda>t. take (length t) s = t \<and> regex_match ps (last_of b t) (drop (length t) s)) ts"
  by pat_completeness auto
termination
  by (relation "measures [\<lambda>(ps, b, s). length ps, \<lambda>(ps, b, s). length s]") auto

text \<open>\<open>pattern.search\<close>: a match at some position.\<close>

fun search_from :: "regex_part list \<Rightarrow> char option \<Rightarrow> string \<Rightarrow> bool" where
  "search_from ps b [] = regex_match ps b []"
| "search_from ps b (c # cs) = (regex_match ps b (c # cs) \<or> search_from ps (Some c) cs)"

definition regex_search :: "regex_part list \<Rightarrow> string \<Rightarrow> bool" where
  "regex_search ps s = search_from ps None s"

text \<open>The language of a pattern between what precedes a word and what follows it.\<close>

fun part_fits :: "regex_part \<Rightarrow> char option \<Rightarrow> string \<Rightarrow> string \<Rightarrow> bool" where
  "part_fits (One p) b w rest \<longleftrightarrow> (\<exists>c. w = [c] \<and> p c)"
| "part_fits (Many p n) b w rest \<longleftrightarrow> n \<le> length w \<and> list_all p w"
| "part_fits Edge b w rest \<longleftrightarrow> w = [] \<and> at_edge b rest"
| "part_fits (Choice ts) b w rest \<longleftrightarrow> w \<in> set ts"

fun fits :: "regex_part list \<Rightarrow> char option \<Rightarrow> string \<Rightarrow> string \<Rightarrow> bool" where
  "fits [] b w rest \<longleftrightarrow> w = []"
| "fits (p # ps) b w rest \<longleftrightarrow> (\<exists>u v. w = u @ v \<and> part_fits p b u (v @ rest) \<and> fits ps (last_of b u) v rest)"

lemma last_of_simps [simp]:
  "last_of b [] = b" "last_of b [c] = Some c" "last_of (Some c) s = last_of b (c # s)"
  by (simp_all add: last_of_def)

lemma last_of_append: "last_of b (u @ v) = last_of (last_of b u) v"
  by (simp add: last_of_def)

lemma fits_many_Suc:
  "fits (Many p (Suc n) # ps) b w rest \<longleftrightarrow> (\<exists>c v. w = c # v \<and> p c \<and> fits (Many p n # ps) (Some c) v rest)"
  by (auto simp: Suc_le_length_iff) (metis append_Cons last_of_simps(3) length_Cons list.pred_inject(2) Suc_le_mono)+

lemma fits_one: "fits (One p # ps) b w rest \<longleftrightarrow> (\<exists>c v. w = c # v \<and> p c \<and> fits ps (Some c) v rest)"
  by (auto, metis append_Cons append_Nil last_of_simps(2))

lemma split_first:
  assumes "\<And>w rest. F w rest \<longleftrightarrow> (\<exists>c v. w = c # v \<and> p c \<and> G c v rest)"
  shows "(\<exists>w rest. s = w @ rest \<and> F w rest)
    \<longleftrightarrow> (case s of [] \<Rightarrow> False | c # cs \<Rightarrow> p c \<and> (\<exists>w rest. cs = w @ rest \<and> G c w rest))"
proof (cases s)
  case (Cons c cs)
  have "(\<exists>w rest. c # cs = w @ rest \<and> F w rest) \<longleftrightarrow> (\<exists>v rest. c # cs = (c # v) @ rest \<and> p c \<and> G c v rest)"
    unfolding assms by (metis append_Cons list.inject)
  then show ?thesis
    by (simp add: Cons) blast
qed (simp add: assms)

lemma regex_match_fits: "regex_match ps b s \<longleftrightarrow> (\<exists>w rest. s = w @ rest \<and> fits ps b w rest)"
proof (induction ps b s rule: regex_match.induct)
  case (1 b s)
  then show ?case by simp
next
  case (2 p ps b s)
  then show ?case
    unfolding split_first [OF fits_one] by (simp split: list.split)
next
  case (3 p n ps b s)
  then show ?case
    unfolding split_first [OF fits_many_Suc] by (simp split: list.split del: fits.simps)
next
  case (4 p ps b s)
  have "(\<exists>w rest. s = w @ rest \<and> fits (Many p 0 # ps) b w rest)
      \<longleftrightarrow> (\<exists>w rest. s = w @ rest \<and> fits ps b w rest)
        \<or> (\<exists>w rest. s = w @ rest \<and> fits (Many p (Suc 0) # ps) b w rest)" (is "?l \<longleftrightarrow> ?n \<or> ?m")
  proof
    assume ?l
    then obtain u v rest where l: "s = (u @ v) @ rest" "list_all p u" "fits ps (last_of b u) v rest"
      by auto
    show "?n \<or> ?m"
    proof (cases u)
      case Nil
      with l show ?thesis by auto
    next
      case (Cons c cs)
      with l have "part_fits (Many p (Suc 0)) b u (v @ rest)"
        by simp
      with l(3) have "fits (Many p (Suc 0) # ps) b (u @ v) rest"
        by (auto simp del: part_fits.simps)
      with l show ?thesis by blast
    qed
  next
    assume "?n \<or> ?m"
    then show ?l
    proof
      assume ?n
      then obtain w rest where "s = w @ rest" "fits ps b w rest"
        by blast
      moreover from this(2) have "fits (Many p 0 # ps) b w rest"
        by (simp only: fits.simps) (rule exI [of _ "[]"], rule exI [of _ w], simp)
      ultimately show ?l by blast
    next
      assume ?m
      then obtain u v rest where "s = (u @ v) @ rest" "list_all p u" "fits ps (last_of b u) v rest"
        by auto
      then have "s = (u @ v) @ rest \<and> fits (Many p 0 # ps) b (u @ v) rest"
        by auto
      then show ?l by blast
    qed
  qed
  then show ?case
    unfolding split_first [OF fits_many_Suc] using 4 by (simp split: list.split del: fits.simps)
next
  case (5 ps b s)
  then show ?case
    by auto
next
  case (6 ts ps b s)
  have "(\<exists>w rest. s = w @ rest \<and> fits (Choice ts # ps) b w rest)
      \<longleftrightarrow> (\<exists>t \<in> set ts. \<exists>v rest. s = t @ v @ rest \<and> fits ps (last_of b t) v rest)" (is "?l \<longleftrightarrow> ?r")
  proof
    assume ?l
    then obtain u v rest where "s = u @ v @ rest" "u \<in> set ts" "fits ps (last_of b u) v rest"
      by auto
    then show ?r by blast
  next
    assume ?r
    then obtain t v rest where "t \<in> set ts" "s = (t @ v) @ rest" "fits ps (last_of b t) v rest"
      by auto
    moreover from this have "fits (Choice ts # ps) b (t @ v) rest"
      by auto
    ultimately show ?l by blast
  qed
  moreover have "regex_match (Choice ts # ps) b s
      \<longleftrightarrow> (\<exists>t \<in> set ts. take (length t) s = t \<and> regex_match ps (last_of b t) (drop (length t) s))"
    by (simp add: list_ex_iff)
  moreover have "take (length t) s = t \<and> regex_match ps (last_of b t) (drop (length t) s)
      \<longleftrightarrow> (\<exists>v rest. s = t @ v @ rest \<and> fits ps (last_of b t) v rest)" if "t \<in> set ts" for t
  proof (cases "take (length t) s = t")
    case True
    then have "s = t @ drop (length t) s"
      by (metis append_take_drop_id)
    then obtain r where r: "s = t @ r"
      by blast
    from 6 [OF that] show ?thesis
      by (simp add: r)
  next
    case False
    then show ?thesis
      by (metis append_eq_conv_conj)
  qed
  ultimately show ?case
    by simp
qed

lemma search_from_fits:
  "search_from ps b s \<longleftrightarrow> (\<exists>u w rest. s = u @ w @ rest \<and> fits ps (last_of b u) w rest)"
proof (induction s arbitrary: b)
  case Nil
  then show ?case
    by (auto simp: regex_match_fits)
next
  case (Cons c cs)
  have "(\<exists>u w rest. c # cs = u @ w @ rest \<and> fits ps (last_of b u) w rest)
      \<longleftrightarrow> (\<exists>w rest. c # cs = w @ rest \<and> fits ps b w rest)
        \<or> (\<exists>u w rest. cs = u @ w @ rest \<and> fits ps (last_of (Some c) u) w rest)" (is "?l \<longleftrightarrow> ?n \<or> ?m")
  proof
    assume ?l
    then obtain u w rest where l: "c # cs = u @ w @ rest" "fits ps (last_of b u) w rest"
      by blast
    show "?n \<or> ?m"
    proof (cases u)
      case Nil
      with l show ?thesis by auto
    next
      case (Cons d u')
      with l have "cs = u' @ w @ rest \<and> fits ps (last_of (Some c) u') w rest"
        by (simp only: last_of_simps(3) [where b = b]) simp
      then show ?thesis by blast
    qed
  next
    assume "?n \<or> ?m"
    then show ?l
    proof
      assume ?n
      then show ?l
        by (metis append_Nil last_of_simps(1))
    next
      assume ?m
      then obtain u w rest where "cs = u @ w @ rest" "fits ps (last_of (Some c) u) w rest"
        by blast
      then have "c # cs = (c # u) @ w @ rest \<and> fits ps (last_of b (c # u)) w rest"
        by (simp only: last_of_simps(3) [where b = b] append_Cons)
      then show ?l by blast
    qed
  qed
  with Cons show ?case
    by (simp add: regex_match_fits)
qed

text \<open>
  The backtracking search finds a pattern exactly when the input contains a word of the pattern's language between
  what precedes and what follows it.
\<close>

theorem regex_search_iff:
  "regex_search ps s \<longleftrightarrow> (\<exists>u w rest. s = u @ w @ rest \<and> fits ps (last_of None u) w rest)"
  by (simp add: regex_search_def search_from_fits)

section \<open>Paths and contents\<close>

text \<open>\<open>bytes.split(separator)\<close>: one piece more than there are separators.\<close>

fun split_on :: "char \<Rightarrow> string \<Rightarrow> string list" where
  "split_on sep [] = [[]]"
| "split_on sep (c # cs) = (if c = sep then [] # split_on sep cs
      else (case split_on sep cs of [] \<Rightarrow> [[c]] | p # ps \<Rightarrow> (c # p) # ps))"

definition lower_ascii :: "string \<Rightarrow> string" where
  "lower_ascii = map (\<lambda>c. let n = (of_char c :: nat) in if 65 \<le> n \<and> n \<le> 90 then char_of (n + 32) else c)"

definition ends_with :: "string \<Rightarrow> string \<Rightarrow> bool" where
  "ends_with s t \<longleftrightarrow> length t \<le> length s \<and> drop (length s - length t) s = t"

text \<open>The parts of a \<open>PurePosixPath\<close> after its root, and its name.\<close>

definition path_parts :: "string \<Rightarrow> string list" where
  "path_parts path = filter (\<lambda>q. q \<noteq> [] \<and> q \<noteq> ''.'') (split_on (CHR ''/'') path)"

definition path_name :: "string \<Rightarrow> string" where
  "path_name path = (if path_parts path = [] then [] else last (path_parts path))"

definition private_suffixes :: "string list" where
  "private_suffixes = [''.pem'', ''.p12'', ''.pfx'', ''.sqlite'', ''.sqlite-wal'', ''.sqlite-shm'', ''.log'']"

definition unsafe_path_reason :: "string \<Rightarrow> string" where
  "unsafe_path_reason path =
     (let n = lower_ascii (path_name path) in
      if n = ''.env'' \<or> (take 5 n = ''.env.'' \<and> n \<noteq> ''.env.example'') then ''environment-file''
      else if n \<in> set [''auth.json'', ''credentials.json'', ''state.sqlite''] then ''private-runtime-file''
      else if list_ex (ends_with n) private_suffixes then ''private-runtime-file''
      else if ''.scheduler'' \<in> set (map lower_ascii (path_parts path)) then ''private-runtime-directory''
      else [])"

definition MAX_TRACKED_BLOB_BYTES :: nat where
  "MAX_TRACKED_BLOB_BYTES = 5 * 1024 * 1024"

definition backslash :: char where
  "backslash = CHR 0x5C"

definition CONTENT_PATTERNS :: "(string \<times> regex_part list) list" where
  "CONTENT_PATTERNS =
     [(''private-key-material'',
        [Choice [''-----BEGIN ''], Choice [''RSA '', ''EC '', ''OPENSSH '', []], Choice [''PRIVATE KEY-----'']]),
      (''openai-token'', [Edge, Choice [''sk-''], Many (\<lambda>c. letter_or_digit c \<or> c \<in> set ''_-'') 20, Edge]),
      (''github-token'', [Edge, Choice [''gh''], One (\<lambda>c. c \<in> set ''pousr''), Choice [''_''], Many letter_or_digit 20, Edge]),
      (''aws-access-key'', [Edge, Choice [''AKIA'']] @ replicate 16 (One capital_or_digit) @ [Edge]),
      (''unix-home-path'',
        [Choice [''/Users'', ''/home''], Choice [''/''], Many (\<lambda>c. letter_or_digit c \<or> c \<in> set ''._-'') 1, Choice [''/'']]),
      (''windows-home-path'',
        [One letter, Choice ['':'' @ [backslash] @ ''Users'' @ [backslash]],
         Many (\<lambda>c. letter_or_digit c \<or> c \<in> set ''._-'') 1, Choice [[backslash]]])]"

definition content_findings :: "string \<Rightarrow> string list" where
  "content_findings bytes =
     (if length bytes > MAX_TRACKED_BLOB_BYTES then [''large-unreviewed-blob'']
      else if CHR 0x00 \<in> set bytes then []
      else map fst (filter (\<lambda>(_, pattern). regex_search pattern bytes) CONTENT_PATTERNS))"

section \<open>The scans\<close>

type_synonym git = "string list \<Rightarrow> string res"
type_synonym finding = "string \<times> string"

definition path_finding :: "string \<Rightarrow> string \<Rightarrow> finding set" where
  "path_finding prefix path =
     (if unsafe_path_reason path = [] then {} else {(prefix @ unsafe_path_reason path, path)})"

definition content_finding :: "string \<Rightarrow> string list \<Rightarrow> string \<Rightarrow> finding set" where
  "content_finding prefix categories path = (\<lambda>c. (prefix @ c, path)) ` set categories"

fun scan_paths :: "git \<Rightarrow> string list \<Rightarrow> finding set \<Rightarrow> finding set res" where
  "scan_paths git [] found = Inr found"
| "scan_paths git (path # paths) found =
     (let found' = found \<union> path_finding [] path in
      rbind (git [''show'', '':'' @ path]) (\<lambda>bytes.
        scan_paths git paths (found' \<union> content_finding [] (content_findings bytes) path)))"

definition tracked_paths :: "git \<Rightarrow> string list res" where
  "tracked_paths git = rbind (git [''ls-files'', ''-z'']) (\<lambda>raw. Inr (filter (\<lambda>q. q \<noteq> []) (split_on (CHR 0x00) raw)))"

definition current_findings :: "git \<Rightarrow> (finding set \<times> nat) res" where
  "current_findings git =
     rbind (tracked_paths git) (\<lambda>paths. rbind (scan_paths git paths {}) (\<lambda>found. Inr (found, length paths)))"

definition decode_ascii :: "string \<Rightarrow> string res" where
  "decode_ascii s = (if list_all (\<lambda>c. (of_char c :: nat) < 128) s then Inr s else Inl (PyExc ''UnicodeDecodeError''))"

text \<open>The lines of an ASCII text that are not empty: \<open>splitlines\<close> breaks at more than the line feed.\<close>

fun full_lines :: "string \<Rightarrow> string \<Rightarrow> string list" where
  "full_lines line [] = (if line = [] then [] else [rev line])"
| "full_lines line (c # cs) =
     (let n = (of_char c :: nat) in
      if 10 \<le> n \<and> n \<le> 13 \<or> 28 \<le> n \<and> n \<le> 30
      then (if line = [] then full_lines [] cs else rev line # full_lines [] cs)
      else full_lines (c # line) cs)"

text \<open>An entry of \<open>ls-tree\<close>: mode, type and object, a tab, the path.\<close>

record tree_entry =
  te_type :: string
  te_object :: string
  te_path :: string

definition parse_entry :: "string \<Rightarrow> tree_entry res" where
  "parse_entry line =
     (if CHR 0x09 \<notin> set line then Inl (PyExc ''ValueError'')
      else rbind (decode_ascii (takeWhile (\<lambda>c. c \<noteq> CHR 0x09) line)) (\<lambda>meta.
        (case split_on (CHR '' '') meta of
           [entry_mode, object_type, object_id] \<Rightarrow>
             Inr \<lparr>te_type = object_type, te_object = object_id, te_path = tl (dropWhile (\<lambda>c. c \<noteq> CHR 0x09) line)\<rparr>
         | _ \<Rightarrow> Inl (PyExc ''ValueError''))))"

text \<open>What the scan of the history accumulates: the findings, and the categories of each object it has read.\<close>

type_synonym scan = "finding set \<times> (string \<rightharpoonup> string list)"

definition scan_blob :: "git \<Rightarrow> tree_entry \<Rightarrow> scan \<Rightarrow> scan res" where
  "scan_blob git t st =
     (case st of (found, scanned) \<Rightarrow>
        let found' = found \<union> path_finding ''history-'' (te_path t) in
        rbind (case scanned (te_object t) of
                 Some categories \<Rightarrow> Inr categories
               | None \<Rightarrow> rbind (git [''cat-file'', ''-p'', te_object t]) (\<lambda>bytes. Inr (content_findings bytes)))
          (\<lambda>categories. Inr (found' \<union> content_finding ''history-'' categories (te_path t), scanned(te_object t \<mapsto> categories))))"

fun scan_entries :: "git \<Rightarrow> string list \<Rightarrow> scan \<Rightarrow> scan res" where
  "scan_entries git [] st = Inr st"
| "scan_entries git (line # lines) st =
     (if line = [] then scan_entries git lines st
      else rbind (parse_entry line) (\<lambda>t.
        if te_type t \<noteq> ''blob'' then scan_entries git lines st
        else rbind (scan_blob git t st) (scan_entries git lines)))"

fun scan_commits :: "git \<Rightarrow> string list \<Rightarrow> scan \<Rightarrow> scan res" where
  "scan_commits git [] st = Inr st"
| "scan_commits git (commit # commits) st =
     rbind (git [''ls-tree'', ''-r'', ''-z'', commit]) (\<lambda>raw.
     rbind (scan_entries git (split_on (CHR 0x00) raw) st) (scan_commits git commits))"

definition all_commits :: "git \<Rightarrow> string list res" where
  "all_commits git = rbind (git [''rev-list'', ''--all'']) (\<lambda>raw. rbind (decode_ascii raw) (\<lambda>s. Inr (full_lines [] s)))"

definition history_findings :: "git \<Rightarrow> (finding set \<times> nat) res" where
  "history_findings git =
     rbind (all_commits git) (\<lambda>commits.
     rbind (scan_commits git commits ({}, Map.empty)) (\<lambda>st. Inr (fst st, length commits)))"

text \<open>The end of the program: the findings it prints, with exit code 1, or its success, with exit code 0.\<close>

datatype verdict = Findings "finding set" | Passed nat "nat option"

definition verdict_of :: "finding set \<Rightarrow> nat \<Rightarrow> nat option \<Rightarrow> verdict" where
  "verdict_of found tracked commits = (if found \<noteq> {} then Findings found else Passed tracked commits)"

definition check_public_safety :: "git \<Rightarrow> bool \<Rightarrow> verdict res" where
  "check_public_safety git history =
     rbind (current_findings git) (\<lambda>(found, tracked).
     rbind (if history then rbind (history_findings git) (\<lambda>(old, commits). Inr (old, Some commits)) else Inr ({}, None))
       (\<lambda>(old, commits). Inr (verdict_of (found \<union> old) tracked commits)))"

section \<open>The scan without a cache\<close>

text \<open>Each entry on its own: what it contributes, from its own path and content.\<close>

definition blob_findings :: "git \<Rightarrow> string \<Rightarrow> finding set res" where
  "blob_findings git line =
     (if line = [] then Inr {}
      else rbind (parse_entry line) (\<lambda>t.
        if te_type t \<noteq> ''blob'' then Inr {}
        else rbind (git [''cat-file'', ''-p'', te_object t]) (\<lambda>bytes.
          Inr (path_finding ''history-'' (te_path t)
               \<union> content_finding ''history-'' (content_findings bytes) (te_path t)))))"

definition commit_findings :: "git \<Rightarrow> string \<Rightarrow> finding set res" where
  "commit_findings git commit =
     rbind (git [''ls-tree'', ''-r'', ''-z'', commit]) (\<lambda>raw.
     rbind (rmap (blob_findings git) (split_on (CHR 0x00) raw)) (\<lambda>fs. Inr (\<Union> (set fs))))"

definition file_findings :: "git \<Rightarrow> string \<Rightarrow> finding set res" where
  "file_findings git path =
     rbind (git [''show'', '':'' @ path]) (\<lambda>bytes.
       Inr (path_finding [] path \<union> content_finding [] (content_findings bytes) path))"

definition reference_check :: "git \<Rightarrow> bool \<Rightarrow> verdict res" where
  "reference_check git history =
     rbind (tracked_paths git) (\<lambda>paths.
     rbind (rmap (file_findings git) paths) (\<lambda>now.
     rbind (if history then rbind (all_commits git) (\<lambda>commits. rbind (rmap (commit_findings git) commits) (\<lambda>old. Inr (old, Some (length commits))))
            else Inr ([], None)) (\<lambda>(old, commits).
       Inr (verdict_of (\<Union> (set (now @ old))) (length paths) commits))))"

text \<open>The cache holds what git says of the objects it has read.\<close>

definition cache_ok :: "git \<Rightarrow> (string \<rightharpoonup> string list) \<Rightarrow> bool" where
  "cache_ok git scanned \<longleftrightarrow>
     (\<forall>i cs. scanned i = Some cs \<longrightarrow> (\<exists>bytes. git [''cat-file'', ''-p'', i] = Inr bytes \<and> cs = content_findings bytes))"

text \<open>The result of a scan from \<open>found\<close>: the findings are added to, the cache stays right.\<close>

definition adds :: "git \<Rightarrow> finding set \<Rightarrow> finding set res \<Rightarrow> scan res \<Rightarrow> bool" where
  "adds git found expected r \<longleftrightarrow>
     (case r of
        Inl e \<Rightarrow> expected = Inl e
      | Inr (found', scanned') \<Rightarrow> (\<exists>fs. expected = Inr fs \<and> found' = found \<union> fs) \<and> cache_ok git scanned')"

lemma adds_bind:
  assumes "adds git found expected r"
    and "\<And>fs scanned. expected = Inr fs \<Longrightarrow> cache_ok git scanned \<Longrightarrow> adds git (found \<union> fs) (rest fs) (k (found \<union> fs, scanned))"
  shows "adds git found (rbind expected (\<lambda>fs. rbind (rest fs) (\<lambda>gs. Inr (fs \<union> gs)))) (rbind r k)"
proof (cases r)
  case (Inl e)
  with assms(1) show ?thesis
    by (simp add: adds_def)
next
  case (Inr st)
  with assms(1) obtain fs where fs: "expected = Inr fs" "fst st = found \<union> fs" "cache_ok git (snd st)"
    by (auto simp: adds_def split: prod.splits)
  from assms(2) [OF fs(1,3)] have "adds git (found \<union> fs) (rest fs) (k st)"
    by (simp flip: fs(2))
  then show ?thesis
    by (cases "k st"; cases "rest fs") (auto simp: adds_def Inr fs(1) split: prod.splits)
qed

lemma adds_nothing: "cache_ok git scanned \<Longrightarrow> adds git found (Inr {}) (Inr (found, scanned))"
  by (simp add: adds_def)

lemma scan_blob_adds:
  assumes "cache_ok git scanned" and "line \<noteq> []" and "parse_entry line = Inr t" and "te_type t = ''blob''"
  shows "adds git found (blob_findings git line) (scan_blob git t (found, scanned))"
proof (cases "scanned (te_object t)")
  case None
  with assms show ?thesis
    by (cases "git [''cat-file'', ''-p'', te_object t]")
       (auto simp: adds_def scan_blob_def blob_findings_def cache_ok_def Let_def)
next
  case (Some cs)
  with assms(1) obtain bytes where "git [''cat-file'', ''-p'', te_object t] = Inr bytes" "cs = content_findings bytes"
    by (auto simp: cache_ok_def)
  with Some assms show ?thesis
    by (auto simp: adds_def scan_blob_def blob_findings_def cache_ok_def Let_def)
qed

lemma rmap_union_Cons:
  "rbind (rmap f (x # xs)) (\<lambda>fs. Inr (\<Union> (set fs)))
   = rbind (f x) (\<lambda>fs. rbind (rbind (rmap f xs) (\<lambda>gs. Inr (\<Union> (set gs)))) (\<lambda>gs. Inr (fs \<union> gs)))"
  by (cases "f x"; cases "rmap f xs") auto

lemma scan_entries_adds:
  "cache_ok git scanned
   \<Longrightarrow> adds git found (rbind (rmap (blob_findings git) lines) (\<lambda>fs. Inr (\<Union> (set fs)))) (scan_entries git lines (found, scanned))"
proof (induction lines arbitrary: found scanned)
  case Nil
  then show ?case
    by (simp add: adds_nothing)
next
  case (Cons line lines)
  let ?rest = "rbind (rmap (blob_findings git) lines) (\<lambda>fs. Inr (\<Union> (set fs)))"
  have skip: "adds git found (rbind (Inr {}) (\<lambda>fs. rbind ?rest (\<lambda>gs. Inr (fs \<union> gs)))) (scan_entries git lines (found, scanned))"
    using adds_bind [OF adds_nothing [OF Cons.prems], where rest = "\<lambda>_. ?rest" and k = "scan_entries git lines"] Cons.IH by simp
  show ?case
  proof (cases "line = [] \<or> (\<exists>t. parse_entry line = Inr t \<and> te_type t \<noteq> ''blob'')")
    case True
    then have "blob_findings git line = Inr {}" "scan_entries git (line # lines) (found, scanned) = scan_entries git lines (found, scanned)"
      by (auto simp: blob_findings_def)
    with skip show ?thesis
      unfolding rmap_union_Cons by simp
  next
    case False
    show ?thesis
    proof (cases "parse_entry line")
      case (Inl e)
      with False show ?thesis
        by (simp add: adds_def blob_findings_def)
    next
      case (Inr t)
      with False have t: "line \<noteq> []" "te_type t = ''blob''"
        by auto
      have "scan_entries git (line # lines) (found, scanned) = rbind (scan_blob git t (found, scanned)) (scan_entries git lines)"
        using t Inr by simp
      then show ?thesis
        unfolding rmap_union_Cons
        using adds_bind [OF scan_blob_adds [OF Cons.prems t(1) Inr t(2)] Cons.IH] by simp
    qed
  qed
qed

lemma scan_commits_adds:
  "cache_ok git scanned
   \<Longrightarrow> adds git found (rbind (rmap (commit_findings git) commits) (\<lambda>fs. Inr (\<Union> (set fs)))) (scan_commits git commits (found, scanned))"
proof (induction commits arbitrary: found scanned)
  case Nil
  then show ?case
    by (simp add: adds_nothing)
next
  case (Cons commit commits)
  show ?case
  proof (cases "git [''ls-tree'', ''-r'', ''-z'', commit]")
    case (Inl e)
    then show ?thesis
      by (simp add: adds_def commit_findings_def)
  next
    case (Inr raw)
    then have "commit_findings git commit = rbind (rmap (blob_findings git) (split_on (CHR 0x00) raw)) (\<lambda>fs. Inr (\<Union> (set fs)))"
      by (simp add: commit_findings_def)
    with Inr show ?thesis
      unfolding rmap_union_Cons
      using adds_bind [OF scan_entries_adds [OF Cons.prems, of found "split_on (CHR 0x00) raw"] Cons.IH] by simp
  qed
qed

lemma scan_paths_union:
  "scan_paths git paths found = rbind (rmap (file_findings git) paths) (\<lambda>fs. Inr (found \<union> \<Union> (set fs)))"
proof (induction paths arbitrary: found)
  case (Cons path paths)
  have "scan_paths git (path # paths) found = rbind (file_findings git path) (\<lambda>fs. scan_paths git paths (found \<union> fs))"
    by (cases "git [''show'', '':'' @ path]") (simp_all add: file_findings_def Let_def Un_assoc)
  then show ?case
    by (cases "file_findings git path"; cases "rmap (file_findings git) paths") (simp_all add: Cons.IH Un_assoc)
qed simp

lemma history_union:
  "history_findings git =
     rbind (all_commits git) (\<lambda>commits. rbind (rmap (commit_findings git) commits) (\<lambda>fs. Inr (\<Union> (set fs), length commits)))"
proof (cases "all_commits git")
  case (Inr commits)
  have "cache_ok git Map.empty"
    by (simp add: cache_ok_def)
  from scan_commits_adds [OF this, of "{}" commits] show ?thesis
    by (cases "scan_commits git commits ({}, Map.empty)"; cases "rmap (commit_findings git) commits")
       (auto simp: adds_def history_findings_def Inr)
qed (simp add: history_findings_def)

lemma current_union:
  "current_findings git =
     rbind (tracked_paths git) (\<lambda>paths. rbind (rmap (file_findings git) paths) (\<lambda>fs. Inr (\<Union> (set fs), length paths)))"
  by (simp add: current_findings_def scan_paths_union rbind_assoc)

lemma check_unfold:
  "check_public_safety git history =
     rbind (tracked_paths git) (\<lambda>paths. rbind (rbind (rmap (file_findings git) paths) (\<lambda>fs. Inr (\<Union> (set fs)))) (\<lambda>found.
     if history
     then rbind (all_commits git) (\<lambda>cs. rbind (rbind (rmap (commit_findings git) cs) (\<lambda>fs. Inr (\<Union> (set fs)))) (\<lambda>old.
            Inr (verdict_of (found \<union> old) (length paths) (Some (length cs)))))
     else Inr (verdict_of found (length paths) None)))"
  unfolding check_public_safety_def current_union history_union
  by (cases "tracked_paths git"; cases history) (simp_all add: rbind_assoc)

text \<open>
  C31. The check that reads every object once and accumulates its findings gives the same verdict as the one that looks at every
  file and every entry of every commit on its own, and it fails with the same exception.
\<close>

theorem cached_check_is_reference: "check_public_safety git history = reference_check git history"
proof (cases "tracked_paths git")
  case (Inr paths)
  show ?thesis
    unfolding check_unfold reference_check_def Inr
    by (cases "rmap (file_findings git) paths"; cases history)
       (simp_all add: rbind_assoc Union_Un_distrib)
qed (simp add: check_unfold reference_check_def)

section \<open>What a check that passes has seen\<close>

text \<open>A content that no pattern occurs in, in the sense of the patterns' languages; binary content is not searched.\<close>

definition harmless :: "string \<Rightarrow> bool" where
  "harmless bytes \<longleftrightarrow> length bytes \<le> MAX_TRACKED_BLOB_BYTES
     \<and> (CHR 0x00 \<in> set bytes
        \<or> list_all (\<lambda>(_, pattern). \<not> (\<exists>u w rest. bytes = u @ w @ rest \<and> fits pattern (last_of None u) w rest)) CONTENT_PATTERNS)"

definition file_clean :: "git \<Rightarrow> string \<Rightarrow> bool" where
  "file_clean git path \<longleftrightarrow> unsafe_path_reason path = []
     \<and> (case git [''show'', '':'' @ path] of Inl _ \<Rightarrow> False | Inr bytes \<Rightarrow> harmless bytes)"

definition entry_clean :: "git \<Rightarrow> string \<Rightarrow> bool" where
  "entry_clean git line \<longleftrightarrow> line = []
     \<or> (case parse_entry line of
          Inl _ \<Rightarrow> False
        | Inr t \<Rightarrow> te_type t \<noteq> ''blob''
            \<or> unsafe_path_reason (te_path t) = []
              \<and> (case git [''cat-file'', ''-p'', te_object t] of Inl _ \<Rightarrow> False | Inr bytes \<Rightarrow> harmless bytes))"

definition commit_clean :: "git \<Rightarrow> string \<Rightarrow> bool" where
  "commit_clean git commit \<longleftrightarrow>
     (case git [''ls-tree'', ''-r'', ''-z'', commit] of
        Inl _ \<Rightarrow> False
      | Inr raw \<Rightarrow> list_all (entry_clean git) (split_on (CHR 0x00) raw))"

lemma no_content_findings: "content_findings bytes = [] \<longleftrightarrow> harmless bytes"
  unfolding content_findings_def harmless_def regex_search_iff [symmetric]
  by (auto simp: list_all_iff filter_empty_conv)

lemma no_content_finding [simp]: "content_finding prefix categories path = {} \<longleftrightarrow> categories = []"
  by (simp add: content_finding_def)

lemma no_path_finding [simp]: "path_finding prefix path = {} \<longleftrightarrow> unsafe_path_reason path = []"
  by (simp add: path_finding_def)

lemma file_findings_empty: "file_findings git path = Inr {} \<longleftrightarrow> file_clean git path"
  by (cases "git [''show'', '':'' @ path]") (auto simp: file_findings_def file_clean_def no_content_findings)

lemma blob_findings_empty: "blob_findings git line = Inr {} \<longleftrightarrow> entry_clean git line"
proof (cases "parse_entry line")
  case (Inr t)
  then show ?thesis
    by (cases "git [''cat-file'', ''-p'', te_object t]")
       (auto simp: blob_findings_def entry_clean_def no_content_findings)
qed (simp add: blob_findings_def entry_clean_def)

lemma rmap_all_empty:
  assumes "\<And>x. f x = Inr {} \<longleftrightarrow> ok x"
  shows "rbind (rmap f xs) (\<lambda>fs. Inr (\<Union> (set fs))) = Inr {} \<longleftrightarrow> list_all ok xs"
proof (induction xs)
  case (Cons x xs)
  have "rbind (rmap f (x # xs)) (\<lambda>fs. Inr (\<Union> (set fs))) = Inr {}
      \<longleftrightarrow> f x = Inr {} \<and> rbind (rmap f xs) (\<lambda>fs. Inr (\<Union> (set fs))) = Inr {}"
    by (cases "f x"; cases "rmap f xs") (auto simp del: Union_empty_conv)
  then show ?case
    by (simp only: Cons.IH assms list.pred_inject)
qed simp

lemma commit_findings_empty: "commit_findings git commit = Inr {} \<longleftrightarrow> commit_clean git commit"
  by (cases "git [''ls-tree'', ''-r'', ''-z'', commit]")
     (simp_all add: commit_findings_def commit_clean_def rmap_all_empty [OF blob_findings_empty] del: rbind_Inr_iff)

text \<open>
  C32. The check passes exactly when git lists the tracked files and every one of them has a safe path and harmless content,
  and, with the history, git lists the commits and every file of every one of them is safe and harmless
  too. It then reports how many files and commits there are.
\<close>

theorem check_passes_iff_clean:
  "check_public_safety git history = Inr (Passed n commits) \<longleftrightarrow>
     (\<exists>paths. tracked_paths git = Inr paths \<and> n = length paths \<and> list_all (file_clean git) paths)
     \<and> (if history
        then \<exists>cs. all_commits git = Inr cs \<and> commits = Some (length cs) \<and> list_all (commit_clean git) cs
        else commits = None)"
proof -
  let ?now = "\<lambda>paths. rbind (rmap (file_findings git) paths) (\<lambda>fs. Inr (\<Union> (set fs)))"
  let ?old = "\<lambda>cs. rbind (rmap (commit_findings git) cs) (\<lambda>fs. Inr (\<Union> (set fs)))"
  have "check_public_safety git history = Inr (Passed n commits) \<longleftrightarrow>
     (\<exists>paths. tracked_paths git = Inr paths \<and> n = length paths \<and> ?now paths = Inr {})
     \<and> (if history then \<exists>cs. all_commits git = Inr cs \<and> commits = Some (length cs) \<and> ?old cs = Inr {} else commits = None)"
    unfolding check_unfold
    by (cases "tracked_paths git"; cases history; cases "all_commits git")
       (auto simp: verdict_of_def simp del: Union_empty_conv split: if_splits)
  then show ?thesis
    unfolding rmap_all_empty [OF file_findings_empty] rmap_all_empty [OF commit_findings_empty] .
qed

section \<open>A repository\<close>

text \<open>
  Its one commit has a key that was removed since, under a path that is harmless. The current check passes, the check
  of the history finds it.
\<close>

definition sample_git :: git where
  "sample_git call =
     (if call = [''ls-files'', ''-z''] then Inr (''README.md'' @ [CHR 0x00])
      else if call = [''show'', '':README.md''] then Inr ''my-sk-key''
      else if call = [''rev-list'', ''--all''] then Inr (''c1'' @ [CHR 0x0A])
      else if call = [''ls-tree'', ''-r'', ''-z'', ''c1''] then Inr (''100644 blob b1'' @ [CHR 0x09] @ ''notes.txt'' @ [CHR 0x00])
      else if call = [''cat-file'', ''-p'', ''b1''] then Inr ''=sk-abcdefghij0123456789''
      else Inl (PyExc ''CalledProcessError''))"

lemma short_content:
  "length bytes \<le> 1000 \<Longrightarrow> content_findings bytes
   = (if CHR 0x00 \<in> set bytes then [] else map fst (filter (\<lambda>(_, pattern). regex_search pattern bytes) CONTENT_PATTERNS))"
  by (simp add: content_findings_def MAX_TRACKED_BLOB_BYTES_def)

lemma sample_contents:
  "content_findings ''my-sk-key'' = []"
  "content_findings ''=sk-abcdefghij0123456789'' = [''openai-token'']"
  by (subst short_content, simp, code_simp)+

lemma sample_answers:
  "sample_git [''ls-files'', ''-z''] = Inr (''README.md'' @ [CHR 0x00])"
  "sample_git [''show'', '':README.md''] = Inr ''my-sk-key''"
  "sample_git [''rev-list'', ''--all''] = Inr (''c1'' @ [CHR 0x0A])"
  "sample_git [''ls-tree'', ''-r'', ''-z'', ''c1''] = Inr (''100644 blob b1'' @ [CHR 0x09] @ ''notes.txt'' @ [CHR 0x00])"
  "sample_git [''cat-file'', ''-p'', ''b1''] = Inr ''=sk-abcdefghij0123456789''"
  by (simp_all add: sample_git_def)

lemma sample_lists:
  "tracked_paths sample_git = Inr [''README.md'']"
  "all_commits sample_git = Inr [''c1'']"
  by (simp_all add: tracked_paths_def all_commits_def sample_answers decode_ascii_def)

lemma sample_entry:
  "parse_entry (''100644 blob b1'' @ [CHR 0x09] @ ''notes.txt'') = Inr \<lparr>te_type = ''blob'', te_object = ''b1'', te_path = ''notes.txt''\<rparr>"
  by (simp add: parse_entry_def decode_ascii_def)

lemma sample_paths:
  "unsafe_path_reason ''README.md'' = []"
  by code_simp

lemma sample_paths2:
  "unsafe_path_reason ''notes.txt'' = []"
  by code_simp

lemma sample_file:
  "file_findings sample_git ''README.md'' = Inr {}"
  by (simp add: file_findings_def sample_answers sample_contents path_finding_def sample_paths)

lemma sample_commit:
  "commit_findings sample_git ''c1'' = Inr {(''history-openai-token'', ''notes.txt'')}"
  using sample_entry
  by (simp add: commit_findings_def blob_findings_def sample_answers sample_contents path_finding_def sample_paths2 content_finding_def)

lemma sample_verdicts:
  "check_public_safety sample_git False = Inr (Passed 1 None)"
  "check_public_safety sample_git True = Inr (Findings {(''history-openai-token'', ''notes.txt'')})"
  by (simp_all add: check_unfold sample_lists sample_file sample_commit verdict_of_def)

end
