(* ===== verification/Processes.thy ===== *)
theory Processes
  imports Stdio
begin

text \<open>
  The end of the App Server's process, which every client brings about however its session ended: \<open>_terminate\<close> and the
  \<open>finally\<close> blocks of live_test.py, probe.py, monitor.py and work_runner.py, \<open>_Session.close\<close> of thread_control.py;
  and the checks of the adapter's constructor. The process answers each call with success or with an exception.
\<close>

section \<open>Calls on a process\<close>

datatype process_call = Close_stdin | Terminate | Wait | Kill | Close_stdout | Join_reader

record process =
  ps_calls :: "process_call list"
  ps_closed :: bool

text \<open>\<open>answer calls c\<close>: the exception that call \<open>c\<close> raises after the given calls, if any.\<close>

type_synonym answers = "process_call list \<Rightarrow> process_call \<Rightarrow> string option"

definition process_do :: "answers \<Rightarrow> process_call \<Rightarrow> (process, unit) eff" where
  "process_do answer c p =
     (case answer (ps_calls p) c of None \<Rightarrow> Inr () | Some n \<Rightarrow> Inl (PyExc n), p\<lparr>ps_calls := ps_calls p @ [c]\<rparr>)"

text \<open>\<open>except names: pass\<close> and \<open>except Exception: handler\<close>.\<close>

definition ignoring :: "string list \<Rightarrow> (process, unit) eff \<Rightarrow> (process, unit) eff" where
  "ignoring names m =
     ecatch m (\<lambda>e. case e of PyExc n \<Rightarrow> if n \<in> set names then eret () else eraise e | Sched _ \<Rightarrow> eraise e)"

definition terminate_process :: "answers \<Rightarrow> (process, unit) eff" where
  "terminate_process answer =
     ecatch (ethen (process_do answer Terminate) (process_do answer Wait))
       (\<lambda>_. ecatch (process_do answer Kill) (\<lambda>_. eret ()))"

text \<open>The \<open>finally\<close> block of the four runners.\<close>

definition finish_process :: "answers \<Rightarrow> (process, unit) eff" where
  "finish_process answer =
     ethen (ignoring [''OSError'', ''AttributeError''] (process_do answer Close_stdin))
    (ethen (terminate_process answer)
           (ignoring [''OSError'', ''AttributeError''] (process_do answer Close_stdout)))"

text \<open>\<open>try\<close> with a \<open>finally\<close>: an exception of the cleanup replaces the outcome of the body.\<close>

definition with_cleanup :: "('s, unit) eff \<Rightarrow> ('s, 'a) eff \<Rightarrow> ('s, 'a) eff" where
  "with_cleanup cleanup body s =
     (case body s of (r, s') \<Rightarrow> (case cleanup s' of (Inl e, t) \<Rightarrow> (Inl e, t) | (Inr _, t) \<Rightarrow> (r, t)))"

text \<open>
  \<open>_Session.close\<close> marks the session as closed first. \<open>has_reader\<close> says whether the reader thread was stored; the
  constructor closes a session without pipes before it is.
\<close>

definition close_session :: "answers \<Rightarrow> bool \<Rightarrow> (process, unit) eff" where
  "close_session answer has_reader p =
     (if ps_closed p then (Inr (), p)
      else
        ethen (ignoring [''AttributeError'', ''OSError'', ''ValueError''] (process_do answer Close_stdin))
       (ethen (ecatch (ethen (process_do answer Terminate) (process_do answer Wait))
                 (\<lambda>_. ecatch (ethen (process_do answer Kill) (process_do answer Wait)) (\<lambda>_. eret ())))
       (ethen (ignoring [''AttributeError'', ''OSError'', ''ValueError''] (process_do answer Close_stdout))
              (if has_reader then process_do answer Join_reader else eraise (PyExc ''AttributeError''))))
         (p\<lparr>ps_closed := True\<rparr>))"

definition open_session :: "answers \<Rightarrow> bool \<Rightarrow> (process, unit) eff" where
  "open_session answer has_pipes =
     (if has_pipes then eret ()
      else ethen (close_session answer False) (eraise (Sched ''THREAD_CONTROL_UNAVAILABLE'')))"

section \<open>What is guaranteed\<close>

lemma process_do_result:
  "process_do answer c p = (r, q) \<Longrightarrow> ps_calls q = ps_calls p @ [c] \<and> ps_closed q = ps_closed p"
  by (auto simp: process_do_def)

text \<open>A process is stopped by calls when it was told to terminate and then awaited without an exception, or killed.\<close>

definition stopped_by :: "answers \<Rightarrow> process_call list \<Rightarrow> process_call list \<Rightarrow> bool" where
  "stopped_by answer before calls \<longleftrightarrow>
     calls = [Terminate, Wait] \<and> answer before Terminate = None \<and> answer (before @ [Terminate]) Wait = None
     \<or> Kill \<in> set calls"

lemma terminate_process_stops:
  "\<exists>calls. terminate_process answer p = (Inr (), p\<lparr>ps_calls := ps_calls p @ calls\<rparr>)
     \<and> stopped_by answer (ps_calls p) calls"
  by (auto simp: terminate_process_def process_do_def stopped_by_def eff_defs split: option.splits)

text \<open>What a client's session leaves: the process is stopped, and the session's own outcome stands.\<close>

lemma finished_session_stops_process:
  assumes "body p = (r, q)"
    and "answer (ps_calls q) Close_stdin \<in> {None, Some ''OSError'', Some ''AttributeError''}"
    and "\<And>calls. answer calls Close_stdout \<in> {None, Some ''OSError'', Some ''AttributeError''}"
  shows "\<exists>calls. with_cleanup (finish_process answer) body p
       = (r, q\<lparr>ps_calls := ps_calls q @ [Close_stdin] @ calls @ [Close_stdout]\<rparr>)
     \<and> stopped_by answer (ps_calls q @ [Close_stdin]) calls"
proof -
  have quiet: "ignoring [''OSError'', ''AttributeError''] (process_do answer c) s = (Inr (), s\<lparr>ps_calls := ps_calls s @ [c]\<rparr>)"
    if "answer (ps_calls s) c \<in> {None, Some ''OSError'', Some ''AttributeError''}" for c s
    using that by (auto simp: ignoring_def process_do_def eff_defs)
  let ?s = "q\<lparr>ps_calls := ps_calls q @ [Close_stdin]\<rparr>"
  obtain calls where calls: "terminate_process answer ?s = (Inr (), ?s\<lparr>ps_calls := ps_calls ?s @ calls\<rparr>)"
    "stopped_by answer (ps_calls ?s) calls"
    using terminate_process_stops by blast
  have "finish_process answer q = (Inr (), q\<lparr>ps_calls := ps_calls q @ [Close_stdin] @ calls @ [Close_stdout]\<rparr>)"
    unfolding finish_process_def ebind_def quiet [OF assms(2)]
    by (simp add: calls(1)) (subst quiet, use assms(3) in auto)
  with assms(1) calls(2) show ?thesis
    by (auto simp: with_cleanup_def)
qed

text \<open>Closing a session again does nothing.\<close>

interpretation closing: step_rel "\<lambda>p q. ps_closed p \<longrightarrow> ps_closed q" "\<lambda>_. True"
  by unfold_locales auto

lemma closing_do: "closing.keeps (process_do answer c)"
  by (rule closing.keepsI) (simp add: process_do_def)

lemma closing_ignoring: "closing.keeps m \<Longrightarrow> closing.keeps (ignoring names m)"
  unfolding ignoring_def
  by (intro closing.keeps_ecatch) (auto intro: closing.keeps_eret closing.keeps_eraise split: err.split)

lemmas closing_intros = closing_do closing_ignoring closing.keeps_eret closing.keeps_eraise closing.keeps_ebind
  closing.keeps_ecatch closing.keeps_if

lemma close_session_closes: "ps_closed (snd (close_session answer has_reader p))"
proof (cases "ps_closed p")
  case False
  let ?body = "ethen (ignoring [''AttributeError'', ''OSError'', ''ValueError''] (process_do answer Close_stdin))
       (ethen (ecatch (ethen (process_do answer Terminate) (process_do answer Wait))
                 (\<lambda>_. ecatch (ethen (process_do answer Kill) (process_do answer Wait)) (\<lambda>_. eret ())))
       (ethen (ignoring [''AttributeError'', ''OSError'', ''ValueError''] (process_do answer Close_stdout))
              (if has_reader then process_do answer Join_reader else eraise (PyExc ''AttributeError''))))"
  have "closing.keeps ?body"
    by (intro closing_intros)
  from closing.keepsD [OF this, of "p\<lparr>ps_closed := True\<rparr>"] False show ?thesis
    by (simp add: close_session_def)
qed (simp add: close_session_def)

lemma close_session_once: "close_session answer r' (snd (close_session answer r p)) = (Inr (), snd (close_session answer r p))"
  by (subst close_session_def) (simp add: close_session_closes)

text \<open>The error for missing pipes never appears: what appears is an exception of the process or of the missing thread.\<close>

definition raises_python :: "(process, 'a) eff \<Rightarrow> bool" where
  "raises_python m \<longleftrightarrow> (\<forall>p c. fst (m p) \<noteq> Inl (Sched c))"

lemma raises_python_intros:
  "raises_python (process_do answer c)" "raises_python (eret x)" "raises_python (eraise (PyExc n))"
  "raises_python m \<Longrightarrow> (\<And>x. raises_python (f x)) \<Longrightarrow> raises_python (ebind m f)"
  "(\<And>e. raises_python (h e)) \<Longrightarrow> raises_python (ecatch m' h)"
  by (auto simp: raises_python_def process_do_def eff_defs split: option.splits sum.splits prod.splits)
     (metis fst_conv)+

lemma raises_python_ignoring: "raises_python m \<Longrightarrow> raises_python (ignoring names m)"
  unfolding ignoring_def raises_python_def
  by (auto simp: eff_defs split: sum.splits prod.splits err.splits) (metis fst_conv)+

lemma open_session_without_pipes:
  assumes "\<not> ps_closed p"
  shows "\<exists>n. fst (open_session answer False p) = Inl (PyExc n)"
proof -
  have fails: "\<exists>e. fst (ebind m (\<lambda>_. k) q) = Inl e" if "\<And>q. \<exists>e. fst (k q) = Inl e" for m :: "(process, unit) eff" and k :: "(process, unit) eff" and q
    using that by (auto simp: ebind_def split: sum.splits prod.splits)
  have "raises_python (ethen (ignoring [''AttributeError'', ''OSError'', ''ValueError''] (process_do answer Close_stdin))
       (ethen (ecatch (ethen (process_do answer Terminate) (process_do answer Wait))
                 (\<lambda>_. ecatch (ethen (process_do answer Kill) (process_do answer Wait)) (\<lambda>_. eret ())))
       (ethen (ignoring [''AttributeError'', ''OSError'', ''ValueError''] (process_do answer Close_stdout))
              (eraise (PyExc ''AttributeError'') :: (process, unit) eff))))" (is "raises_python ?body")
    by (intro raises_python_intros raises_python_ignoring)
  moreover have "\<exists>e. fst (?body q) = Inl e" for q
    by (intro fails) (simp add: eraise_def)
  ultimately have "\<exists>n. fst (?body q) = Inl (PyExc n)" for q
    unfolding raises_python_def by (metis err.exhaust)
  then have "\<exists>n. fst (close_session answer False p) = Inl (PyExc n)"
    using assms by (simp add: close_session_def)
  then show ?thesis
    by (auto simp: open_session_def ebind_def split: prod.splits)
qed

section \<open>The constructor of the adapter\<close>

text \<open>The timeout must be a number above zero; NaN is not below or equal to zero, so it passes.\<close>

definition control_timeout :: "json \<Rightarrow> pyfloat res" where
  "control_timeout v =
     (case v of
        JInt n \<Rightarrow>
          if n \<le> 0 then Inl (Sched ''THREAD_CONTROL_TIMEOUT_CONFIG'')
          else rbind (float_of_int n) (\<lambda>q. Inr (Fin q))
      | JFlt f \<Rightarrow>
          (case f of
             Fin q \<Rightarrow> if q \<le> 0 then Inl (Sched ''THREAD_CONTROL_TIMEOUT_CONFIG'') else Inr f
           | NegInf \<Rightarrow> Inl (Sched ''THREAD_CONTROL_TIMEOUT_CONFIG'')
           | _ \<Rightarrow> Inr f)
      | _ \<Rightarrow> Inl (Sched ''THREAD_CONTROL_TIMEOUT_CONFIG''))"

definition control_max_pages :: "json \<Rightarrow> nat res" where
  "control_max_pages v =
     (case v of
        JInt n \<Rightarrow> if 1 \<le> n \<and> n \<le> 1000 then Inr (nat n) else Inl (Sched ''THREAD_CONTROL_PAGINATION_CONFIG'')
      | _ \<Rightarrow> Inl (Sched ''THREAD_CONTROL_PAGINATION_CONFIG''))"

text \<open>\<open>_argv\<close>: a sequence of texts, each not empty and without a null byte; iterating over a dictionary gives its keys.\<close>

definition control_argument :: "json \<Rightarrow> string res" where
  "control_argument v =
     (case v of
        JStr s \<Rightarrow> if s \<noteq> [] \<and> CHR 0x00 \<notin> set s then Inr s else Inl (Sched ''THREAD_CONTROL_COMMAND_INVALID'')
      | _ \<Rightarrow> Inl (Sched ''THREAD_CONTROL_COMMAND_INVALID''))"

definition control_argv :: "json \<Rightarrow> string list res" where
  "control_argv v =
     rbind (case v of JArr vs \<Rightarrow> Inr vs | JObj fs \<Rightarrow> Inr (map (JStr \<circ> fst) fs) | _ \<Rightarrow> Inl (Sched ''THREAD_CONTROL_COMMAND_INVALID''))
       (\<lambda>vs. rbind (guard (vs \<noteq> []) ''THREAD_CONTROL_COMMAND_INVALID'') (\<lambda>_. rmap control_argument vs))"

definition CONTROL_COMMAND :: "string list" where
  "CONTROL_COMMAND = [''codex'', ''app-server'', ''proxy'']"

record control_settings =
  ct_timeout :: pyfloat
  ct_command :: "string list"
  ct_max_pages :: nat

definition new_thread_control :: "json \<Rightarrow> json \<Rightarrow> json \<Rightarrow> control_settings res" where
  "new_thread_control timeout command pages =
     rbind (case timeout of
              JInt n \<Rightarrow> guard (\<not> n \<le> 0) ''THREAD_CONTROL_TIMEOUT_CONFIG''
            | JFlt f \<Rightarrow> rbind (control_timeout (JFlt f)) (\<lambda>_. Inr ())
            | _ \<Rightarrow> Inl (Sched ''THREAD_CONTROL_TIMEOUT_CONFIG'')) (\<lambda>_.
     rbind (control_max_pages pages) (\<lambda>n.
     rbind (control_timeout timeout) (\<lambda>t.
     rbind (if command = JNull then Inr CONTROL_COMMAND else control_argv command) (\<lambda>argv.
       Inr \<lparr>ct_timeout = t, ct_command = argv, ct_max_pages = n\<rparr>))))"

text \<open>What an accepted adapter is: a timeout that is not zero or less, a page bound in its range, a command to run.\<close>

lemma new_thread_control_accepts:
  assumes "new_thread_control timeout command pages = Inr c"
  shows "(case ct_timeout c of Fin q \<Rightarrow> 0 < q | NegInf \<Rightarrow> False | _ \<Rightarrow> True)
    \<and> 1 \<le> ct_max_pages c \<and> ct_max_pages c \<le> 1000
    \<and> ct_command c \<noteq> [] \<and> list_all (\<lambda>s. s \<noteq> [] \<and> CHR 0x00 \<notin> set s) (ct_command c)"
proof -
  have arg: "control_argument v = Inr s \<Longrightarrow> s \<noteq> [] \<and> CHR 0x00 \<notin> set s" for v s
    by (auto simp: control_argument_def split: json.splits if_splits)
  have args: "rmap control_argument vs = Inr argv \<Longrightarrow> list_all (\<lambda>s. s \<noteq> [] \<and> CHR 0x00 \<notin> set s) argv \<and> length argv = length vs" for vs argv
    by (induction vs arbitrary: argv) (auto dest: arg)
  have argv: "control_argv v = Inr argv \<Longrightarrow> argv \<noteq> [] \<and> list_all (\<lambda>s. s \<noteq> [] \<and> CHR 0x00 \<notin> set s) argv" for v argv
    by (auto simp: control_argv_def dest: args)
  have "control_timeout timeout = Inr (ct_timeout c)" "control_max_pages pages = Inr (ct_max_pages c)"
    "ct_command c = CONTROL_COMMAND \<or> control_argv command = Inr (ct_command c)"
    using assms by (auto simp: new_thread_control_def split: if_splits)
  then show ?thesis
    by (auto simp: control_timeout_def control_max_pages_def CONTROL_COMMAND_def float_of_int_def
        dest!: argv split: json.splits pyfloat.splits if_splits)
qed

end
