(* ===== verification/Spec2Isabelle.thy ===== *)
theory Spec2Isabelle
  imports GuardSafety SupervisorScenarios ClientScenarios LiveScenarios CommandScenarios Migration PublicSafety Processes
begin

text \<open>
  The Codex work scheduler (src/codex_work_scheduler), a local safety controller that decides when
  approved work may use a Codex account, runs it, and stops running tasks when the account's quota
  gets low. All state is in one SQLite database; every command is one or more transactions on it.

  The model. The database is the record \<open>db\<close> (theory Store), one list of rows per table in insertion order,
  the rows as records; a transaction is a function \<open>db \<Rightarrow> ('a \<times> db) res\<close>, whose error
  discards its changes (\<open>transact\<close>). Exceptions are the values \<open>Sched code\<close> (a SchedulerError, by its code)
  and \<open>PyExc name\<close> (any other Python exception). JSON values are the datatype \<open>json\<close>, numbers are unbounded
  integers or floats taken as rationals with the infinities and NaN. Time, fresh identifiers, SHA-256, the text
  of a float, path resolution and every answer of the App Server are parameters. Nothing is assumed
  of them, except where a theorem names a law of the digest as a hypothesis.

  Theories and source files:
  \<^item> Prelude, Constants, Validation, Documents, Config: errors.py, constants.py, validation.py. The result and
    effect monads, the locale \<open>step_rel\<close> (what an operation keeps of the state, closed under the
    constructs of the language), field checks, document validators, the configuration with its sections.
  \<^item> Policy: policy.py, the admission decision. GuardDecision: the trip and resume decisions of quota_guard.py.
  \<^item> CanonicalJson: util.py, canonical text and digests.
  \<^item> Store, StoreOps, StoreGuard: store.py, the tables, the audit chain, idempotent execution, the
    service lease, the quota-guard tables. Notifications: notifications.py with its table.
  \<^item> ThreadView, GuardCoordinator: quota_guard.py, reading tasks, containment, resumption, the due cycle.
    GuardSafety, GuardStability, GuardContainment and GuardScenarios hold its proofs and runs.
    GuardService: service.py, arming, disarming, the cycle with the hold on the controller, the views.
  \<^item> Controller, Queue, ControlOps: service.py, the commands that are one transaction. Recovery and
    ControlScenarios hold proofs and runs.
  \<^item> World: operations of several transactions; between two steps any other process may commit. Peers: what
    the other commands can commit. Refinement: the abstract machine of permits that every command and the
    background service refine.
  \<^item> Probing, Simulation, Dispatch: service.py (\<open>probe_quota\<close>, \<open>tick\<close>, \<open>dispatch_run\<close> and what they call) and
    fake_runner.py. DispatchSafety holds proofs. Reports: the read-only commands and views, the preflight, the
    preparation of approvals, \<open>cycle\<close>. Progress: that what a preflight finds safe then succeeds.
  \<^item> Background: background.py, the supervisor with its lease, its rounds and every exit of a round. BackgroundSafety
    holds its proofs, ServiceScenarios and SupervisorScenarios concrete runs.
  \<^item> Stdio: the JSON-lines transport of the App Server clients. WorkRunner: work_runner.py, proofs in RunnerSafety.
    ThreadControl: thread_control.py. ProbeClient: probe.py. Monitoring: monitor.py and \<open>monitor_refresh\<close> of
    service.py. LiveRunner: live_test.py; LiveTest: \<open>live_test_preflight\<close> and \<open>live_test_run\<close> of service.py, proofs in
    LiveSafety. WorldScenarios, ClientScenarios and LiveScenarios hold concrete runs.
  \<^item> Launchd: launchd.py with the template of the property list, rendering it, checking it, writing it. CommandLine:
    cli.py with the file reading and the envelope of util.py, from the parsed arguments to the exit code. CommandSafety
    proves that the whole program refines the permits, CommandEffects what it changes and what it leaves alone,
    CommandScenarios holds concrete runs of it.
  \<^item> Migration: \<open>Store.migrate\<close>, from a database of any version to the tables that Store starts from, and the fingerprint
    key of util.py. Processes: how every client ends its App Server process, and the adapter's constructor.
    PublicSafety: scripts/check_public_safety.py.

  What the lemmas show:
  \<^item> decisions: when a job is eligible, that a guard trips unless the quota is proven safe, that it resumes only on
    a proven reset, and that the two decisions never contradict each other;
  \<^item> authorisation: a privileged change consumes an approval for exactly that document, work is claimed
    only with a granted package, only an operator's resume makes the controller ready, and the preparation of an
    approval asks for exactly what the command will demand;
  \<^item> exclusion: one lease holder, one simulation, one active run, one winner of a guard update;
  \<^item> refinement: seen through the permits (what a ready controller, a guard and the approvals allow) every command
    is a sequence of steps of a small machine, the background service is one that gains no permit, and so is
    every run of the program: each permit it gains is paid for with an approval;
  \<^item> the command line: reading commands write nothing, a command of one transaction that fails changes
    nothing, an accepted configuration names only files beside it, and property lists are written only to staging paths;
  \<^item> the surroundings: a migration keeps every row and changes nothing when it runs again, a finished client has stopped
    its process, the publication check passes exactly on a clean repository, and its cache does not change the verdict;
  \<^item> history: the audit chain stays valid, a key runs its operation at most once, a notice is sent at most once;
  \<^item> the App Server: what each client may send, what counts as a success, that every wait ends, that the
    adapter and its parser agree, and that a stored observation is what the server said;
  \<^item> errors: what a failed step leaves behind, that a failing round of the supervisor leaves the controller
    blocked, and the behaviours that differ from the documentation;
  \<^item> progress: a safe preflight is followed by a claim, a limited run of the supervisor ends.

  Bounds. A poll loop is a recursion on the step counter up to \<open>io_horizon\<close>, a number of steps after
  which the deadline has passed; \<open>poll_loop_horizon\<close> shows that its size does not matter. Page loops
  recurse on the page bounds of the code. The rounds of the supervisor recurse on a fuel; without a limit on the number of
  rounds the code may run forever, which the model shows by running out of fuel (\<open>None\<close>), and with a limit \<open>n\<close> the fuel \<open>n\<close>
  is enough (\<open>limited_run_ends\<close>).

  Not modelled: SQLite itself (locking, the constraints inside table definitions), file permissions and the notification
  file, process start (an outcome of the environment), signal handlers, \<open>QuotaGuardCoordinator.create\<close>, which nothing
  calls: the service writes the rows of an armed guard itself. The parsers of the standard library are given: what
  argparse makes of the command line (\<open>cli_table\<close> is what the code declares to it, \<open>conforms\<close> what it then returns),
  what json makes of a file and plistlib of a property list. Of an error envelope only the code is kept. A command
  of one transaction, with the look at earlier results before it, runs at a single step of the model.
\<close>

end
